(* ===== verification/Prelude.thy ===== *)
theory Prelude
  imports Complex_Main "HOL-Library.AList" "HOL-Library.Char_ord" "HOL-Library.List_Lexorder"
    "HOL-Library.Product_Lexorder"
begin

text \<open>
  The Python vocabulary the components share: dictionaries in insertion order, JSON values,
  truthiness and equality of values, stable sorting, slices, and date arithmetic.

  A Python \<open>dict\<close> is an association list without duplicate keys: assigning to a key that is
  present keeps its position and assigning to a new key appends it, which is what
  \<open>AList.update\<close> does.  A \<open>str\<close> is a list of characters, ordered lexicographically.
  A \<open>datetime\<close> (always aware and in UTC in this program) is its number of microseconds, and a
  \<open>timedelta\<close> a number of microseconds.  Python integers are unbounded, hence \<open>int\<close>.
\<close>

named_theorems dict_simps \<open>lookup, update and filter of insertion-ordered dictionaries\<close>

section \<open>Dictionaries\<close>

type_synonym 'v dict = "(string \<times> 'v) list"

abbreviation dict_get :: "'v dict \<Rightarrow> string \<Rightarrow> 'v option" where
  "dict_get d k \<equiv> map_of d k"

abbreviation dict_set :: "string \<Rightarrow> 'v \<Rightarrow> 'v dict \<Rightarrow> 'v dict" where
  "dict_set k v d \<equiv> AList.update k v d"

abbreviation dict_pop :: "string \<Rightarrow> 'v dict \<Rightarrow> 'v dict" where
  "dict_pop k d \<equiv> AList.delete k d"

definition dict_values :: "'v dict \<Rightarrow> 'v list" where
  "dict_values d = map snd d"

lemma dict_values_simps [simp]:
  "dict_values [] = []"
  "dict_values (kv # d) = snd kv # dict_values d"
  "dict_values (d @ e) = dict_values d @ dict_values e"
  by (simp_all add: dict_values_def)

definition dict_ok :: "'v dict \<Rightarrow> bool" where
  "dict_ok d \<longleftrightarrow> distinct (map fst d)"

text \<open>The sub-dictionary of the values that satisfy a predicate.\<close>

definition dict_filter :: "('v \<Rightarrow> bool) \<Rightarrow> 'v dict \<Rightarrow> 'v dict" where
  "dict_filter P d = filter (\<lambda>kv. P (snd kv)) d"

lemma dict_ok_Nil [simp]: "dict_ok []"
  by (simp add: dict_ok_def)

lemma dict_ok_set [simp]: "dict_ok d \<Longrightarrow> dict_ok (dict_set k v d)"
  by (simp add: dict_ok_def distinct_update)

lemma dict_ok_pop [simp]: "dict_ok d \<Longrightarrow> dict_ok (dict_pop k d)"
  by (simp add: dict_ok_def distinct_delete)

lemma dict_ok_filter [simp]: "dict_ok d \<Longrightarrow> dict_ok (dict_filter P d)"
  by (auto simp: dict_ok_def dict_filter_def intro: distinct_map_filter)

lemma dict_get_set [simp, dict_simps]:
  "dict_get (dict_set k v d) k' = (if k' = k then Some v else dict_get d k')"
  by (simp add: update_conv')

lemma dict_get_pop [simp, dict_simps]:
  "dict_get (dict_pop k d) k' = (if k' = k then None else dict_get d k')"
  by (simp add: delete_conv')

lemma dict_get_set_fun [dict_simps]: "map_of (dict_set k v d) = (map_of d)(k \<mapsto> v)"
  by (rule update_conv')

lemma dict_get_in: "dict_get d k = Some v \<Longrightarrow> (k, v) \<in> set d"
  by (rule map_of_SomeD)

lemma dict_in_get: "dict_ok d \<Longrightarrow> (k, v) \<in> set d \<Longrightarrow> dict_get d k = Some v"
  by (simp add: dict_ok_def)

lemma dict_value_in: "dict_get d k = Some v \<Longrightarrow> v \<in> set (dict_values d)"
  by (force simp: dict_values_def dest: dict_get_in)

lemma dict_in_values_iff:
  assumes "dict_ok d"
  shows "v \<in> set (dict_values d) \<longleftrightarrow> (\<exists>k. dict_get d k = Some v)"
proof
  assume "v \<in> set (dict_values d)"
  then obtain k where "(k, v) \<in> set d" by (auto simp: dict_values_def)
  with assms show "\<exists>k. dict_get d k = Some v" by (blast intro: dict_in_get)
next
  assume "\<exists>k. dict_get d k = Some v"
  then obtain k where "dict_get d k = Some v" ..
  then show "v \<in> set (dict_values d)" by (rule dict_value_in)
qed

lemma dict_set_new: "dict_get d k = None \<Longrightarrow> dict_set k v d = d @ [(k, v)]"
  by (induction d) (auto split: if_splits)

lemma dict_values_set_new [dict_simps]:
  "dict_get d k = None \<Longrightarrow> dict_values (dict_set k v d) = dict_values d @ [v]"
  by (simp add: dict_set_new)

lemma dict_set_set_in:
  "(k', x) \<in> set (dict_set k v d) \<Longrightarrow> (k' = k \<and> x = v) \<or> (k', x) \<in> set d"
  by (induction d) (auto split: if_splits)

lemma dict_pop_set_in: "(k', x) \<in> set (dict_pop k d) \<Longrightarrow> (k', x) \<in> set d"
  by (simp add: AList.delete_eq)

lemma dict_values_filter [dict_simps]: "dict_values (dict_filter P d) = filter P (dict_values d)"
  by (induction d) (auto simp: dict_filter_def)

lemma dict_get_filter:
  assumes "dict_ok d"
  shows "dict_get (dict_filter P d) k =
    (case dict_get d k of None \<Rightarrow> None | Some v \<Rightarrow> if P v then Some v else None)"
  using assms
proof (induction d)
  case Nil
  show ?case by (simp add: dict_filter_def)
next
  case (Cons kv d)
  then have notin: "fst kv \<notin> fst ` set d" and ok: "dict_ok d"
    by (auto simp: dict_ok_def)
  from notin have "dict_get d (fst kv) = None"
    by (simp add: map_of_eq_None_iff)
  with Cons.IH [OF ok] show ?case
    by (cases kv) (auto simp: dict_filter_def split: option.splits)
qed

lemma dict_filter_set_other:
  assumes "\<not> P v" "\<And>v'. dict_get d k = Some v' \<Longrightarrow> \<not> P v'"
  shows "dict_filter P (dict_set k v d) = dict_filter P d"
  using assms by (induction d) (auto simp: dict_filter_def split: if_splits)

lemma dict_filter_set_new:
  assumes "dict_get d k = None" "\<not> P v"
  shows "dict_filter P (dict_set k v d) = dict_filter P d"
  using assms by (intro dict_filter_set_other) auto

lemma dict_filter_set_same:
  assumes "P v" "\<And>v'. dict_get d k = Some v' \<Longrightarrow> P v'"
  shows "dict_filter P (dict_set k v d) = dict_set k v (dict_filter P d)"
  using assms
proof (induction d)
  case Nil
  then show ?case by (simp add: dict_filter_def)
next
  case (Cons kv d)
  show ?case
  proof (cases "fst kv = k")
    case True
    with Cons.prems have "P (snd kv)" by (cases kv) auto
    with True Cons.prems(1) show ?thesis by (simp add: dict_filter_def)
  next
    case False
    with Cons.prems have "\<And>v'. dict_get d k = Some v' \<Longrightarrow> P v'"
      by (cases kv) auto
    with Cons False show ?thesis by (auto simp: dict_filter_def)
  qed
qed

lemma dict_filter_pop:
  "dict_ok d \<Longrightarrow> dict_filter P (dict_pop k d) = dict_pop k (dict_filter P d)"
  by (simp add: dict_filter_def AList.delete_eq conj_commute)

lemma dict_filter_pop_other:
  assumes "dict_ok d" "\<And>v. dict_get d k = Some v \<Longrightarrow> \<not> P v"
  shows "dict_filter P (dict_pop k d) = dict_filter P d"
  using assms
  by (auto simp: dict_filter_def AList.delete_eq split_beta intro!: filter_cong
      dest: dict_in_get)

lemma count_values_set:
  assumes "dict_ok d" "dict_get d k = Some old"
  shows "int (length (filter P (dict_values (dict_set k new d)))) =
    int (length (filter P (dict_values d))) - of_bool (P old) + of_bool (P new)"
  using assms
proof (induction d)
  case (Cons kv d)
  show ?case
  proof (cases "fst kv = k")
    case True
    with Cons.prems show ?thesis by (cases kv) auto
  next
    case False
    with Cons.prems have "dict_ok d" "dict_get d k = Some old"
      by (cases kv; auto simp: dict_ok_def)+
    with Cons.IH False show ?thesis by simp
  qed
qed simp

lemma dict_filter_cong:
  "(\<And>k v. (k, v) \<in> set d \<Longrightarrow> P v = Q v) \<Longrightarrow> dict_filter P d = dict_filter Q d"
  by (auto simp: dict_filter_def intro: filter_cong)

section \<open>JSON values\<close>

text \<open>
  The values of decoded JSON and of the \<open>dict\<close> payloads the program passes around.  Floats are
  only stored, compared and added; they are exact rationals here.
\<close>

datatype json =
    JNull
  | JBool bool
  | JInt int
  | JFloat rat
  | JStr string
  | JList "json list"
  | JObj "(string \<times> json) list"

text \<open>\<open>payload.get(key)\<close>, with \<open>None\<close> for a missing key.\<close>

definition jget :: "json dict \<Rightarrow> string \<Rightarrow> json" where
  "jget d k = (case dict_get d k of None \<Rightarrow> JNull | Some v \<Rightarrow> v)"

definition is_jstr :: "json \<Rightarrow> bool" where
  "is_jstr v = (case v of JStr _ \<Rightarrow> True | _ \<Rightarrow> False)"

definition jstr :: "string option \<Rightarrow> json" where
  "jstr x = (case x of None \<Rightarrow> JNull | Some s \<Rightarrow> JStr s)"

fun json_truthy :: "json \<Rightarrow> bool" where
  "json_truthy JNull = False"
| "json_truthy (JBool b) = b"
| "json_truthy (JInt i) = (i \<noteq> 0)"
| "json_truthy (JFloat r) = (r \<noteq> 0)"
| "json_truthy (JStr s) = (s \<noteq> [])"
| "json_truthy (JList xs) = (xs \<noteq> [])"
| "json_truthy (JObj d) = (d \<noteq> [])"

fun json_num :: "json \<Rightarrow> rat option" where
  "json_num (JBool b) = Some (of_bool b)"
| "json_num (JInt i) = Some (of_int i)"
| "json_num (JFloat r) = Some r"
| "json_num _ = None"

text \<open>
  Python's \<open>==\<close>: \<open>True == 1 == 1.0\<close>, lists elementwise, dictionaries regardless of order.
\<close>

function json_eq :: "json \<Rightarrow> json \<Rightarrow> bool" where
  "json_eq JNull w = (w = JNull)"
| "json_eq (JBool b) w = (json_num w = Some (of_bool b))"
| "json_eq (JInt i) w = (json_num w = Some (of_int i))"
| "json_eq (JFloat r) w = (json_num w = Some r)"
| "json_eq (JStr s) w = (w = JStr s)"
| "json_eq (JList xs) w = (case w of
     JList ys \<Rightarrow> length xs = length ys \<and> list_all (\<lambda>(x, y). json_eq x y) (zip xs ys)
   | _ \<Rightarrow> False)"
| "json_eq (JObj d) w = (case w of
     JObj e \<Rightarrow> length d = length e \<and>
       list_all (\<lambda>(k, x). case map_of e k of None \<Rightarrow> False | Some y \<Rightarrow> json_eq x y) d
   | _ \<Rightarrow> False)"
  by pat_completeness auto
termination
proof (relation "measure (\<lambda>(v, _). size v)", goal_cases)
  case 1
  show ?case by simp
next
  case (2 xs w ys z x y)
  then have "x \<in> set xs" by (auto dest: set_zip_leftD)
  then show ?case by (auto dest: size_list_estimation'[where f = size, OF _ order_refl])
next
  case (3 d w e z k x y)
  then have "size x \<le> size_list (size_prod (\<lambda>_. 0) size) d"
    by (force intro: size_list_estimation')
  then show ?case by simp
qed

text \<open>Every object of a Python value has distinct keys.\<close>

fun json_wf :: "json \<Rightarrow> bool" where
  "json_wf (JList xs) = list_all json_wf xs"
| "json_wf (JObj d) = (distinct (map fst d) \<and> list_all (\<lambda>(k, v). json_wf v) d)"
| "json_wf _ = True"

lemma list_all_zip_same: "list_all P (zip xs xs) = list_all (\<lambda>x. P (x, x)) xs"
  by (induction xs) auto

lemma json_eq_refl: "json_wf v \<Longrightarrow> json_eq v v"
proof (induction v rule: json_wf.induct)
  case (1 xs)
  then have "list_all (\<lambda>x. json_eq x x) xs" by (simp add: list_all_iff)
  then show ?case by (simp add: list_all_zip_same)
next
  case (2 d)
  have "case map_of d k of None \<Rightarrow> False | Some y \<Rightarrow> json_eq x y" if "(k, x) \<in> set d" for k x
  proof -
    from "2.prems" that have "map_of d k = Some x" by simp
    moreover from "2.prems" that have "json_wf x" by (auto simp: list_all_iff)
    ultimately show ?thesis using "2.IH" [OF that refl] by simp
  qed
  then show ?case by (simp add: list_all_iff split_beta)
qed auto

section \<open>Optional values, slices, sorting\<close>

text \<open>The exceptions of the Python core that the modelled code can raise.\<close>

datatype py_error = KeyError | TypeError | AttributeError | ValueError string

text \<open>\<open>a or b\<close> on an optional string: the empty string is falsy.\<close>

definition or_str :: "string option \<Rightarrow> string \<Rightarrow> string" where
  "or_str x y = (case x of None \<Rightarrow> y | Some s \<Rightarrow> if s = [] then y else s)"

text \<open>\<open>xs[-n:]\<close> for a positive \<open>n\<close>, and \<open>xs[:n]\<close> for a non-negative \<open>n\<close>.\<close>

definition last_n :: "int \<Rightarrow> 'a list \<Rightarrow> 'a list" where
  "last_n n xs = drop (length xs - nat n) xs"

definition first_n :: "int \<Rightarrow> 'a list \<Rightarrow> 'a list" where
  "first_n n xs = take (nat n) xs"

text \<open>
  \<open>sorted(xs, key=f)\<close> is stable; with \<open>reverse=True\<close> it sorts downwards and is stable too.
  \<open>max(xs, key=f, default=None)\<close> is the first of the largest.
\<close>

definition py_sorted :: "('a \<Rightarrow> 'k::linorder) \<Rightarrow> 'a list \<Rightarrow> 'a list" where
  "py_sorted f xs = sort_key f xs"

definition py_sorted_rev :: "('a \<Rightarrow> 'k::linorder) \<Rightarrow> 'a list \<Rightarrow> 'a list" where
  "py_sorted_rev f xs = rev (sort_key f (rev xs))"

fun py_max :: "('a \<Rightarrow> 'k::linorder) \<Rightarrow> 'a list \<Rightarrow> 'a option" where
  "py_max f [] = None"
| "py_max f (x # xs) = Some (foldl (\<lambda>m y. if f m < f y then y else m) x xs)"

fun py_min :: "'k::linorder list \<Rightarrow> 'k option" where
  "py_min [] = None"
| "py_min (x # xs) = Some (foldl min x xs)"

definition last_opt :: "'a list \<Rightarrow> 'a option" where
  "last_opt xs = (if xs = [] then None else Some (last xs))"

definition head_opt :: "'a list \<Rightarrow> 'a option" where
  "head_opt xs = (case xs of [] \<Rightarrow> None | x # _ \<Rightarrow> Some x)"

lemma set_py_sorted [simp]: "set (py_sorted f xs) = set xs"
  by (simp add: py_sorted_def)

lemma set_py_sorted_rev [simp]: "set (py_sorted_rev f xs) = set xs"
  by (simp add: py_sorted_rev_def)

lemma length_py_sorted [simp]: "length (py_sorted f xs) = length xs"
  by (simp add: py_sorted_def)

lemma length_py_sorted_rev [simp]: "length (py_sorted_rev f xs) = length xs"
  by (simp add: py_sorted_rev_def)

lemma sorted_py_sorted: "sorted (map f (py_sorted f xs))"
  by (simp add: py_sorted_def)

lemma sorted_py_sorted_rev: "sorted_wrt (\<lambda>x y. f y \<le> f x) (py_sorted_rev f xs)"
proof -
  have "sorted_wrt (\<lambda>x y. f x \<le> f y) (sort_key f (rev xs))"
    using sorted_sort_key [of f "rev xs"] by (simp add: sorted_wrt_map)
  then show ?thesis by (simp add: py_sorted_rev_def sorted_wrt_rev)
qed

lemma distinct_py_sorted_rev [simp]: "distinct (py_sorted_rev f xs) = distinct xs"
  by (simp add: py_sorted_rev_def)

lemma distinct_py_sorted [simp]: "distinct (py_sorted f xs) = distinct xs"
  by (simp add: py_sorted_def)

lemma filter_py_sorted: "filter P (py_sorted f xs) = py_sorted f (filter P xs)"
  by (simp add: py_sorted_def filter_sort)

lemma filter_py_sorted_rev: "filter P (py_sorted_rev f xs) = py_sorted_rev f (filter P xs)"
  by (simp add: py_sorted_rev_def filter_sort rev_filter [symmetric])

lemma py_max_None [simp]: "py_max f xs = None \<longleftrightarrow> xs = []"
  by (cases xs) auto

lemma foldl_max_in:
  "foldl (\<lambda>m y. if f m < f y then y else m) x xs \<in> insert x (set xs)"
  by (induction xs arbitrary: x) (auto split: if_splits)

lemma foldl_max_start:
  "f x \<le> f (foldl (\<lambda>m y. if f m < f y then y else m) x xs)"
  for f :: "'a \<Rightarrow> 'k::linorder"
proof (induction xs arbitrary: x)
  case (Cons a xs)
  show ?case
    using Cons.IH [of a] Cons.IH [of x] by (auto intro: order_trans less_imp_le)
qed simp

lemma foldl_max_ge:
  "y \<in> set xs \<Longrightarrow> f y \<le> f (foldl (\<lambda>m y. if f m < f y then y else m) x xs)"
  for f :: "'a \<Rightarrow> 'k::linorder"
proof (induction xs arbitrary: x)
  case (Cons a xs)
  show ?case
  proof (cases "y = a")
    case True
    then have "f y \<le> f (if f x < f a then a else x)" by auto
    also have "\<dots> \<le> f (foldl (\<lambda>m y. if f m < f y then y else m) (if f x < f a then a else x) xs)"
      by (rule foldl_max_start)
    finally show ?thesis by simp
  next
    case False
    with Cons show ?thesis by simp
  qed
qed simp

lemma py_max_in: "py_max f xs = Some m \<Longrightarrow> m \<in> set xs"
  using foldl_max_in [of f] by (cases xs) auto

lemma py_max_ge: "py_max f xs = Some m \<Longrightarrow> x \<in> set xs \<Longrightarrow> f x \<le> f m"
  using foldl_max_ge [of x _ f] foldl_max_start [of f] by (cases xs) auto

lemma find_SomeD: "find P xs = Some x \<Longrightarrow> x \<in> set xs \<and> P x"
  by (auto simp: find_Some_iff)

section \<open>Text\<close>

text \<open>
  \<open>str.strip()\<close>, \<open>str.lower()\<close> and \<open>str.upper()\<close> on the code points below 256 (all the program's
  own literals are ASCII); \<open>sub in s\<close>, \<open>s.replace\<close> of one character and \<open>sep.join(xs)\<close>.
\<close>

definition is_space :: "char \<Rightarrow> bool" where
  "is_space c = (let n = (of_char c :: nat)
     in (9 \<le> n \<and> n \<le> 13) \<or> (28 \<le> n \<and> n \<le> 32) \<or> n = 133 \<or> n = 160)"

definition py_strip :: "string \<Rightarrow> string" where
  "py_strip s = rev (dropWhile is_space (rev (dropWhile is_space s)))"

definition lower_char :: "char \<Rightarrow> char" where
  "lower_char c = (let n = (of_char c :: nat)
     in if (65 \<le> n \<and> n \<le> 90) \<or> (192 \<le> n \<and> n \<le> 222 \<and> n \<noteq> 215) then char_of (n + 32) else c)"

definition py_lower :: "string \<Rightarrow> string" where
  "py_lower s = map lower_char s"

definition upper_char :: "char \<Rightarrow> string" where
  "upper_char c = (let n = (of_char c :: nat)
     in if (97 \<le> n \<and> n \<le> 122) \<or> (224 \<le> n \<and> n \<le> 254 \<and> n \<noteq> 247) then [char_of (n - 32)]
        else if n = 223 then ''SS'' else [c])"

definition py_upper :: "string \<Rightarrow> string" where
  "py_upper s = concat (map upper_char s)"

definition has_prefix :: "string \<Rightarrow> string \<Rightarrow> bool" where
  "has_prefix p s \<longleftrightarrow> take (length p) s = p"

fun has_sub :: "string \<Rightarrow> string \<Rightarrow> bool" where
  "has_sub p [] = (p = [])"
| "has_sub p (c # s) = (has_prefix p (c # s) \<or> has_sub p s)"

definition replace_char :: "char \<Rightarrow> char \<Rightarrow> string \<Rightarrow> string" where
  "replace_char a b s = map (\<lambda>c. if c = a then b else c) s"

fun py_join :: "string \<Rightarrow> string list \<Rightarrow> string" where
  "py_join sep [] = []"
| "py_join sep [x] = x"
| "py_join sep (x # y # xs) = x @ sep @ py_join sep (y # xs)"

fun digits_of :: "nat \<Rightarrow> string" where
  "digits_of n = (if n < 10 then [char_of (48 + n)] else digits_of (n div 10) @ [char_of (48 + n mod 10)])"

declare digits_of.simps [simp del]

text \<open>\<open>str(i)\<close> for an integer.\<close>

definition show_int :: "int \<Rightarrow> string" where
  "show_int i = (if i < 0 then ''-'' @ digits_of (nat (- i)) else digits_of (nat i))"

definition is_digit :: "char \<Rightarrow> bool" where
  "is_digit c = (let n = (of_char c :: nat) in 48 \<le> n \<and> n \<le> 57)"

text \<open>\<open>s.isdecimal()\<close> and \<open>int(s)\<close> of such a text.\<close>

definition is_decimal :: "string \<Rightarrow> bool" where
  "is_decimal s \<longleftrightarrow> s \<noteq> [] \<and> list_all is_digit s"

definition parse_nat :: "string \<Rightarrow> nat" where
  "parse_nat s = foldl (\<lambda>n c. 10 * n + (of_char c - 48)) 0 s"

lemma has_sub_iff: "has_sub p s \<longleftrightarrow> (\<exists>a b. s = a @ p @ b)"
proof (induction s)
  case Nil
  show ?case by auto
next
  case (Cons c s)
  have pre: "has_prefix p (c # s) \<longleftrightarrow> (\<exists>b. c # s = p @ b)"
    unfolding has_prefix_def by (metis append_eq_conv_conj append_take_drop_id)
  show ?case
  proof
    assume "has_sub p (c # s)"
    then consider "has_prefix p (c # s)" | "has_sub p s" by auto
    then show "\<exists>a b. c # s = a @ p @ b"
    proof cases
      case 1
      then show ?thesis using pre by (metis append_Nil)
    next
      case 2
      then obtain a b where "s = a @ p @ b" using Cons by blast
      then have "c # s = (c # a) @ p @ b" by simp
      then show ?thesis by blast
    qed
  next
    assume "\<exists>a b. c # s = a @ p @ b"
    then obtain a b where eq: "c # s = a @ p @ b" by blast
    show "has_sub p (c # s)"
    proof (cases a)
      case Nil
      with eq have "\<exists>b. c # s = p @ b" by simp
      with pre show ?thesis by simp
    next
      case (Cons d a')
      with eq \<open>has_sub p s = (\<exists>a b. s = a @ p @ b)\<close> show ?thesis by auto
    qed
  qed
qed

lemma is_digit_char_of: "n < 10 \<Longrightarrow> is_digit (char_of (48 + n :: nat))"
  by (simp add: is_digit_def)

lemma digits_of_decimal: "is_decimal (digits_of n)"
proof (induction n rule: digits_of.induct)
  case (1 n)
  then show ?case
    by (subst digits_of.simps) (auto simp: is_decimal_def is_digit_char_of)
qed

lemma parse_nat_append: "parse_nat (s @ [c]) = 10 * parse_nat s + (of_char c - 48)"
  by (simp add: parse_nat_def)

lemma parse_digits_of [simp]: "parse_nat (digits_of n) = n"
proof (induction n rule: digits_of.induct)
  case (1 n)
  show ?case
  proof (cases "n < 10")
    case True
    then show ?thesis by (subst digits_of.simps) (simp add: parse_nat_def)
  next
    case False
    with 1 show ?thesis by (subst digits_of.simps) (simp add: parse_nat_append)
  qed
qed

text \<open>
  \<open>str(v)\<close> of a JSON value; the text of a float, a list or an object is the parameter \<open>repr_of\<close>.
\<close>

definition py_str :: "(json \<Rightarrow> string) \<Rightarrow> json \<Rightarrow> string" where
  "py_str repr_of v = (case v of
      JNull \<Rightarrow> ''None''
    | JBool b \<Rightarrow> (if b then ''True'' else ''False'')
    | JInt i \<Rightarrow> show_int i
    | JStr x \<Rightarrow> x
    | _ \<Rightarrow> repr_of v)"

text \<open>\<open>a or b\<close> on JSON values.\<close>

definition json_or :: "json \<Rightarrow> json \<Rightarrow> json" where
  "json_or v w = (if json_truthy v then v else w)"

text \<open>
  What iterating over a value yields: the elements of a list, the characters of a string, the keys
  of a dictionary; other values are not iterable.
\<close>

definition py_iter :: "json \<Rightarrow> py_error + json list" where
  "py_iter v = (case v of
      JList xs \<Rightarrow> Inr xs
    | JStr s \<Rightarrow> Inr (map (\<lambda>c. JStr [c]) s)
    | JObj d \<Rightarrow> Inr (map (\<lambda>kv. JStr (fst kv)) d)
    | _ \<Rightarrow> Inl TypeError)"

text \<open>The dictionary display \<open>{**d, **e}\<close>, and \<open>d.update(e)\<close>.\<close>

definition dict_merge :: "'v dict \<Rightarrow> 'v dict \<Rightarrow> 'v dict" where
  "dict_merge d e = foldl (\<lambda>m (k, v). dict_set k v m) d e"

lemma dict_merge_get:
  "distinct (map fst e) \<Longrightarrow> dict_get (dict_merge d e) k =
     (case dict_get e k of None \<Rightarrow> dict_get d k | Some v \<Rightarrow> Some v)"
proof (induction e arbitrary: d)
  case (Cons kv e)
  obtain a b where kv: "kv = (a, b)" by (cases kv)
  have "dict_get e a = None" using Cons.prems by (auto simp: kv map_of_eq_None_iff)
  with Cons show ?case by (auto simp: dict_merge_def kv update_conv' split: option.split)
qed (simp add: dict_merge_def)

text \<open>Prepending to every part of a running result: the first error wins.\<close>

fun collect_sum :: "('e + 'a) list \<Rightarrow> 'e + 'a list" where
  "collect_sum [] = Inr []"
| "collect_sum (Inl e # xs) = Inl e"
| "collect_sum (Inr x # xs) = (case collect_sum xs of Inl e \<Rightarrow> Inl e | Inr ys \<Rightarrow> Inr (x # ys))"

lemma collect_sum_all [simp]: "collect_sum (map Inr ys) = Inr ys"
  by (induction ys) auto

lemma collect_sum_Inr: "collect_sum xs = Inr ys \<longleftrightarrow> xs = map Inr ys"
proof
  show "collect_sum xs = Inr ys \<Longrightarrow> xs = map Inr ys"
    by (induction xs arbitrary: ys rule: collect_sum.induct) (auto split: sum.splits)
qed simp

section \<open>Time\<close>

type_synonym datetime = int
type_synonym timedelta = int

definition seconds :: "int \<Rightarrow> timedelta" where
  "seconds n = n * 1000000"

definition minutes :: "int \<Rightarrow> timedelta" where
  "minutes n = seconds (n * 60)"

definition hours :: "int \<Rightarrow> timedelta" where
  "hours n = seconds (n * 3600)"

text \<open>\<open>int(delta.total_seconds())\<close> truncates towards zero.\<close>

definition int_seconds :: "timedelta \<Rightarrow> int" where
  "int_seconds d = (if d \<ge> 0 then d div 1000000 else - ((- d) div 1000000))"

lemma seconds_pos: "0 < n \<Longrightarrow> 0 < seconds n"
  by (simp add: seconds_def)

lemma int_seconds_nonneg: "0 \<le> d \<Longrightarrow> 0 \<le> int_seconds d"
  by (simp add: int_seconds_def)

end
