(* ===== verification/Auth.thy ===== *)
theory Auth
  imports Prelude
begin

text \<open>
  The identity of a caller (\<open>server/auth.py\<close>) and the ownership test every read and write of
  the repository makes (\<open>_is_authorized\<close> and its variants in \<open>server/repository.py\<close>).
  Every stored row extends \<open>row\<close>: its id, its owner and workspace, and its creation time.
\<close>

section \<open>The caller\<close>

record auth_context =
  user_id :: string
  auth_workspace_id :: string
  user_tier :: string
  auth_role :: string

text \<open>The constants of \<open>live.py\<close> that \<open>require_auth_context\<close> falls back on.\<close>

definition USER_TIERS :: "string list" where
  "USER_TIERS = [''free'', ''paid_low'', ''paid_medium'', ''paid_high'']"

definition DEFAULT_USER_TIER :: string where
  "DEFAULT_USER_TIER = ''paid_low''"

definition header_value :: "string option \<Rightarrow> string \<Rightarrow> string" where
  "header_value h dflt = (case h of None \<Rightarrow> dflt | Some s \<Rightarrow> if s = [] then dflt else py_strip s)"

datatype http_error = Unauthorized string

text \<open>
  \<open>require_auth_context\<close>; the first argument is the environment variable
  \<open>STRATEGY_CODEBOT_INTERNAL_AUTH_SECRET\<close>, the others the request's headers.
\<close>

definition require_auth_context ::
  "string option \<Rightarrow> string option \<Rightarrow> string option \<Rightarrow> string option \<Rightarrow> string option \<Rightarrow> string option
    \<Rightarrow> http_error + auth_context" where
  "require_auth_context required_secret x_user_id x_workspace_id x_user_tier x_workspace_role
      x_internal_secret =
    (if (case required_secret of None \<Rightarrow> False | Some s \<Rightarrow> s \<noteq> [] \<and> x_internal_secret \<noteq> Some s)
     then Inl (Unauthorized ''Missing trusted backend auth'')
     else
       let uid = header_value x_user_id [];
           wid = header_value x_workspace_id []
       in if uid = [] \<or> wid = [] then Inl (Unauthorized ''Missing authentication headers'')
          else
            let tier = header_value x_user_tier DEFAULT_USER_TIER;
                tier' = (if tier \<in> set USER_TIERS then tier else DEFAULT_USER_TIER);
                role = header_value x_workspace_role ''owner''
            in Inr \<lparr>user_id = uid, auth_workspace_id = wid, user_tier = tier', auth_role = role\<rparr>)"

lemma require_auth_context_Inr:
  assumes "require_auth_context sec u w t r i = Inr a"
  shows "user_id a \<noteq> []" "auth_workspace_id a \<noteq> []" "user_tier a \<in> set USER_TIERS"
    "sec = None \<or> sec = Some [] \<or> i = sec"
  using assms
  by (auto simp: require_auth_context_def Let_def DEFAULT_USER_TIER_def USER_TIERS_def
      split: if_splits option.splits)

section \<open>Owned rows\<close>

record row =
  rec_id :: string
  owner_user_id :: string
  workspace_id :: string
  created_at :: datetime

type_synonym tenant = "string \<times> string"

definition row_tenant :: "'a row_scheme \<Rightarrow> tenant" where
  "row_tenant r = (owner_user_id r, workspace_id r)"

definition auth_tenant :: "auth_context \<Rightarrow> tenant" where
  "auth_tenant a = (user_id a, auth_workspace_id a)"

definition is_authorized :: "auth_context \<Rightarrow> 'a row_scheme \<Rightarrow> bool" where
  "is_authorized auth r \<longleftrightarrow>
     owner_user_id r = user_id auth \<and> workspace_id r = auth_workspace_id auth"

lemma is_authorized_tenant: "is_authorized auth r \<longleftrightarrow> row_tenant r = auth_tenant auth"
  by (simp add: is_authorized_def row_tenant_def auth_tenant_def)

text \<open>
  The lookup every accessor makes: the row under an id, if there is one and the caller owns it.
\<close>

definition owned_get :: "auth_context \<Rightarrow> 'a row_scheme dict \<Rightarrow> string \<Rightarrow> 'a row_scheme option" where
  "owned_get auth d k =
     (case dict_get d k of
        None \<Rightarrow> None
      | Some r \<Rightarrow> if is_authorized auth r then Some r else None)"

lemma owned_get_Some:
  "owned_get auth d k = Some r \<longleftrightarrow> dict_get d k = Some r \<and> is_authorized auth r"
  by (auto simp: owned_get_def split: option.splits)

lemma owned_get_None:
  "owned_get auth d k = None \<longleftrightarrow> (\<forall>r. dict_get d k = Some r \<longrightarrow> \<not> is_authorized auth r)"
  by (auto simp: owned_get_def split: option.splits)

text \<open>The rows of one tenant in a table, and tables whose keys are the ids of their rows.\<close>

definition tenant_rows :: "tenant \<Rightarrow> 'a row_scheme dict \<Rightarrow> 'a row_scheme dict" where
  "tenant_rows t d = dict_filter (\<lambda>r. row_tenant r = t) d"

definition keyed :: "'a row_scheme dict \<Rightarrow> bool" where
  "keyed d \<longleftrightarrow> dict_ok d \<and> (\<forall>k r. dict_get d k = Some r \<longrightarrow> rec_id r = k)"

lemma keyed_Nil [simp]: "keyed []"
  by (simp add: keyed_def)

lemma keyed_ok [simp]: "keyed d \<Longrightarrow> dict_ok d"
  by (simp add: keyed_def)

lemma keyed_id: "keyed d \<Longrightarrow> dict_get d k = Some r \<Longrightarrow> rec_id r = k"
  by (simp add: keyed_def)

lemma keyed_set [simp]: "keyed d \<Longrightarrow> rec_id r = k \<Longrightarrow> keyed (dict_set k r d)"
  by (auto simp: keyed_def)

lemma keyed_pop [simp]: "keyed d \<Longrightarrow> keyed (dict_pop k d)"
  by (auto simp: keyed_def split: if_splits)

lemma keyed_value: "keyed d \<Longrightarrow> r \<in> set (dict_values d) \<Longrightarrow> dict_get d (rec_id r) = Some r"
  by (metis dict_in_values_iff keyed_id keyed_ok)

lemma owned_get_tenant_rows:
  "dict_ok d \<Longrightarrow> owned_get auth d k = dict_get (tenant_rows (auth_tenant auth) d) k"
  by (simp add: owned_get_def tenant_rows_def dict_get_filter is_authorized_tenant
      split: option.split)

lemma tenant_rows_set_other:
  assumes "row_tenant r \<noteq> t" "\<And>r'. dict_get d k = Some r' \<Longrightarrow> row_tenant r' = row_tenant r"
  shows "tenant_rows t (dict_set k r d) = tenant_rows t d"
  unfolding tenant_rows_def by (rule dict_filter_set_other) (use assms in auto)

lemma tenant_rows_set_same:
  assumes "row_tenant r = t" "\<And>r'. dict_get d k = Some r' \<Longrightarrow> row_tenant r' = t"
  shows "tenant_rows t (dict_set k r d) = dict_set k r (tenant_rows t d)"
  unfolding tenant_rows_def by (rule dict_filter_set_same) (use assms in auto)

lemma tenant_rows_pop_other:
  assumes "dict_ok d" "\<And>r. dict_get d k = Some r \<Longrightarrow> row_tenant r \<noteq> t"
  shows "tenant_rows t (dict_pop k d) = tenant_rows t d"
  unfolding tenant_rows_def by (rule dict_filter_pop_other) (use assms in auto)

lemma filter_authorized_values:
  "filter (\<lambda>r. is_authorized auth r \<and> P r) (dict_values d) =
   filter P (dict_values (tenant_rows (auth_tenant auth) d))"
  by (simp add: tenant_rows_def dict_values_filter is_authorized_tenant conj_commute)

lemma keyed_tenant_rows [simp]: "keyed d \<Longrightarrow> keyed (tenant_rows t d)"
  by (auto simp: keyed_def tenant_rows_def dict_get_filter split: option.splits if_splits)

text \<open>The part of a dictionary of logs that one tenant's rows make up.\<close>

definition tenant_logs :: "tenant \<Rightarrow> 'a row_scheme list dict \<Rightarrow> 'a row_scheme list dict" where
  "tenant_logs t d =
     filter (\<lambda>(k, rs). rs \<noteq> []) (map (\<lambda>(k, rs). (k, filter (\<lambda>r. row_tenant r = t) rs)) d)"

definition log_of :: "'a list dict \<Rightarrow> string \<Rightarrow> 'a list" where
  "log_of d k = (case dict_get d k of None \<Rightarrow> [] | Some rs \<Rightarrow> rs)"

lemma log_of_set [simp]: "log_of (dict_set k v d) k' = (if k' = k then v else log_of d k')"
  by (simp add: log_of_def)

lemma tenant_logs_set:
  assumes "filter (\<lambda>r. row_tenant r = t) rs = filter (\<lambda>r. row_tenant r = t) (log_of d k)"
  shows "tenant_logs t (dict_set k rs d) = tenant_logs t d"
  using assms by (induction d) (auto simp: tenant_logs_def log_of_def split: if_splits)

lemma tenant_logs_append_other:
  assumes "\<And>r. r \<in> set rs \<Longrightarrow> row_tenant r \<noteq> t"
  shows "tenant_logs t (dict_set k (log_of d k @ rs) d) = tenant_logs t d"
  by (rule tenant_logs_set) (use assms in \<open>simp add: filter_empty_conv\<close>)

lemma tenant_logs_new_empty:
  "dict_get d k = None \<Longrightarrow> tenant_logs t (dict_set k [] d) = tenant_logs t d"
  by (rule tenant_logs_set) (simp add: log_of_def)

section \<open>The accessor contract\<close>

text \<open>
  What a client of the repository relies on when it fetches a resource by id on behalf of a
  caller: a lookup answers the stored row or nothing, and answers a row only to its owner.
\<close>

locale owned_resource =
  fixes fetch :: "auth_context \<Rightarrow> string \<Rightarrow> 's \<Rightarrow> 'a row_scheme option"
    and table :: "'s \<Rightarrow> 'a row_scheme dict"
  assumes fetch_eq: "fetch auth k s = owned_get auth (table s) k"
begin

lemma fetch_owned: "fetch auth k s = Some r \<Longrightarrow> is_authorized auth r"
  by (simp add: fetch_eq owned_get_Some)

lemma fetch_stored: "fetch auth k s = Some r \<Longrightarrow> dict_get (table s) k = Some r"
  by (simp add: fetch_eq owned_get_Some)

lemma fetch_complete:
  "dict_get (table s) k = Some r \<Longrightarrow> is_authorized auth r \<Longrightarrow> fetch auth k s = Some r"
  by (simp add: fetch_eq owned_get_Some)

lemma fetch_exclusive:
  assumes "fetch auth k s = Some r" "fetch auth' k s = Some r'"
  shows "auth_tenant auth' = auth_tenant auth \<and> r' = r"
  using assms by (auto simp: fetch_eq owned_get_Some is_authorized_tenant)

lemma fetch_local:
  assumes "dict_ok (table s)" "dict_ok (table s')"
    and "tenant_rows (auth_tenant auth) (table s) = tenant_rows (auth_tenant auth) (table s')"
  shows "fetch auth k s = fetch auth k s'"
  using assms by (simp add: fetch_eq owned_get_tenant_rows)

lemma fetch_id: "keyed (table s) \<Longrightarrow> fetch auth k s = Some r \<Longrightarrow> rec_id r = k"
  by (auto simp: fetch_eq owned_get_Some dest: keyed_id)

end

section \<open>Two callers\<close>

text \<open>Two users of one workspace, for the examples.\<close>

definition alice :: auth_context where
  "alice = \<lparr>user_id = ''alice'', auth_workspace_id = ''w1'', user_tier = ''free'',
     auth_role = ''member''\<rparr>"

definition bob :: auth_context where
  "bob = \<lparr>user_id = ''bob'', auth_workspace_id = ''w1'', user_tier = ''free'',
     auth_role = ''member''\<rparr>"

end
