(* ===== verification/Records.thy ===== *)
theory Records
  imports Auth
begin

text \<open>
  The rows the repository stores and returns (the frozen dataclasses of \<open>server/repository.py\<close>),
  each an extension of \<open>row\<close> with the dataclass's own fields, and the repository's state: one
  insertion-ordered dictionary per \<open>self._\<dots>\<close> attribute of \<open>InMemoryConversationRepository\<close>.
\<close>

type_synonym payload = "json dict"

record conversation_record = row +
  conv_title :: "string option"
  conv_updated_at :: datetime

record message_record = row +
  msg_conversation_id :: string
  msg_role :: string
  msg_content :: string

record memory_record = row +
  mem_conversation_id :: string
  mem_summary :: string
  mem_covered_message_id :: "string option"
  mem_summary_version :: int
  mem_estimated_tokens :: int
  mem_updated_at :: datetime

record run_record = row +
  run_conversation_id :: string
  run_status :: string
  run_updated_at :: datetime
  run_mode :: "string option"
  run_retry_of :: "string option"
  run_request_id :: "string option"
  run_trace_id :: "string option"

record job_record = row +
  job_run_id :: string
  job_type :: string
  job_status :: string
  job_payload :: payload
  job_attempts :: int
  job_max_attempts :: int
  job_lease_owner :: "string option"
  job_leased_until :: "datetime option"
  job_result :: "payload option"
  job_error_code :: "string option"
  job_updated_at :: datetime

record queue_stats =
  qs_queued :: int
  qs_running :: int
  qs_oldest_queued_seconds :: "int option"
  qs_oldest_running_seconds :: "int option"
  qs_failed :: int
  qs_active_running :: int
  qs_stale_running :: int

record run_event = row +
  evt_run_id :: string
  evt_conversation_id :: string
  evt_sequence :: int
  evt_type :: string
  evt_payload :: "payload option"
  evt_request_id :: "string option"
  evt_trace_id :: "string option"

record run_event_summary =
  sum_event_count :: int
  sum_latest_event :: "run_event option"

record task_record = row +
  task_conversation_id :: string
  task_run_id :: "string option"
  task_workflow_id :: string
  task_template_id :: string
  task_step_id :: string
  task_kind :: string
  task_status :: string
  task_payload :: payload
  task_response :: "payload option"
  task_updated_at :: datetime
  task_resolved_at :: "datetime option"

record task_sync_result =
  sync_records :: "task_record list"
  sync_created :: "task_record list"
  sync_updated :: "task_record list"
  sync_resolved :: "task_record list"
  sync_unchanged :: "task_record list"

record artifact_record = row +
  art_run_id :: "string option"
  art_conversation_id :: "string option"
  art_kind :: string
  art_mime_type :: "string option"
  art_display_name :: string
  art_storage_key :: string
  art_metadata :: "payload option"

text \<open>A page cursor is kept as the pair of creation time and id that its text encodes.\<close>

record artifact_page =
  page_items :: "artifact_record list"
  page_next_cursor :: "(datetime \<times> string) option"

record run_progress_snapshot =
  prog_run :: run_record
  prog_event_summary :: run_event_summary
  prog_artifacts :: "artifact_record list"

record strategy_spec_record = row +
  spec_run_id :: string
  spec_payload :: payload
  spec_schema_version :: string

record conversation_state =
  cs_conversation :: conversation_record
  cs_messages :: "message_record list"
  cs_message_count :: int
  cs_messages_truncated :: bool
  cs_message_limit :: int
  cs_latest_run :: "run_record option"
  cs_latest_run_artifacts :: "artifact_record list"
  cs_conversation_artifacts :: "artifact_record list"
  cs_conversation_artifacts_next_cursor :: "(datetime \<times> string) option"
  cs_latest_run_events :: "run_event list"
  cs_conversation_run_events :: "run_event list"
  cs_latest_strategy_spec :: "strategy_spec_record option"

record account_usage =
  usg_messages :: int
  usg_runs :: int
  usg_artifacts :: int
  usg_input_tokens :: int
  usg_output_tokens :: int
  usg_total_tokens :: int
  usg_estimated_cost :: "rat option"

record validation_report_record = row +
  val_run_id :: string
  val_status :: string
  val_payload :: payload

record review_report_record = row +
  rev_run_id :: string
  rev_decision :: string
  rev_payload :: payload

text \<open>A tool call has no owner of its own: it belongs to the owner of its run.\<close>

record tool_call_record =
  tc_id :: string
  tc_run_id :: string
  tc_tool_id :: string
  tc_status :: string
  tc_input :: "payload option"
  tc_output :: "payload option"
  tc_policy_findings :: "json list option"
  tc_created_at :: datetime
  tc_started_at :: "datetime option"
  tc_completed_at :: "datetime option"

record policy_finding_record = row +
  pf_run_id :: string
  pf_tool_call_id :: "string option"
  pf_severity :: string
  pf_code :: string
  pf_message :: string

record usage_record = row +
  use_run_id :: "string option"
  use_model :: "string option"
  use_tool_id :: "string option"
  use_input_tokens :: int
  use_output_tokens :: int
  use_cost :: "rat option"

record nautilus_runtime = row +
  nrt_runtime_key :: string
  nrt_broker_connection_id :: string
  nrt_account_id :: string
  nrt_mode :: string
  nrt_risk_policy_id :: string
  nrt_state :: string
  nrt_strategy_ids :: "string list"
  nrt_manifest :: payload
  nrt_data_subscriptions :: "json list"
  nrt_last_heartbeat_at :: "datetime option"
  nrt_heartbeat_count :: int
  nrt_heartbeat_metrics :: "payload option"
  nrt_last_heartbeat_event_at :: "datetime option"
  nrt_kill_switch :: bool
  nrt_desired_state :: string
  nrt_worker_id :: "string option"
  nrt_lease_until :: "datetime option"
  nrt_generation :: int
  nrt_started_at :: "datetime option"
  nrt_stopped_at :: "datetime option"
  nrt_last_error :: "payload option"
  nrt_stream_cursor :: "payload option"
  nrt_updated_at :: datetime

record nautilus_event = row +
  nev_runtime_id :: string
  nev_sequence :: int
  nev_type :: string
  nev_payload :: "payload option"
  nev_idempotency_key :: "string option"

record nautilus_heartbeat =
  hb_runtime :: nautilus_runtime
  hb_event :: "nautilus_event option"
  hb_event_appended :: bool

record bot_proposal = row +
  bp_status :: string
  bp_source_conversation_id :: "string option"
  bp_source_run_id :: "string option"
  bp_source_artifact_ids :: "string list"
  bp_strategy_id :: string
  bp_strategy_name :: string
  bp_manifest :: payload
  bp_data_subscriptions :: "json list"
  bp_broker_connection_id :: "string option"
  bp_account_id :: "string option"
  bp_risk_policy_id :: "string option"
  bp_readiness_checks :: "json list"
  bp_missing_inputs :: "json list"
  bp_runtime_id :: "string option"
  bp_updated_at :: datetime

record bot_proposal_input =
  bpi_status :: string
  bpi_source_conversation_id :: "string option"
  bpi_source_run_id :: "string option"
  bpi_source_artifact_ids :: "string list"
  bpi_strategy_id :: string
  bpi_strategy_name :: string
  bpi_manifest :: payload
  bpi_data_subscriptions :: "json list"
  bpi_broker_connection_id :: "string option"
  bpi_account_id :: "string option"
  bpi_risk_policy_id :: "string option"
  bpi_readiness_checks :: "json list"
  bpi_missing_inputs :: "json list"

record feedback_record = row +
  fb_conversation_id :: string
  fb_run_id :: "string option"
  fb_message_id :: "string option"
  fb_artifact_id :: "string option"
  fb_request_id :: "string option"
  fb_trace_id :: "string option"
  fb_rating :: string
  fb_category :: "string option"
  fb_correction :: string

record sidebar_record =
  sb_conversation :: conversation_record
  sb_last_message_content :: "string option"
  sb_last_message_at :: "datetime option"
  sb_message_count :: int
  sb_latest_run_id :: "string option"
  sb_latest_run_status :: "string option"
  sb_updated_at :: datetime

section \<open>The state of the repository\<close>

record repo =
  conversations :: "conversation_record dict"
  messages :: "message_record list dict"
  memories :: "memory_record dict"
  runs :: "run_record dict"
  run_jobs :: "job_record dict"
  run_events :: "run_event list dict"
  workflow_tasks :: "task_record dict"
  artifacts :: "artifact_record dict"
  strategy_specs :: "strategy_spec_record dict"
  validation_reports :: "validation_report_record dict"
  review_reports :: "review_report_record dict"
  tool_calls :: "tool_call_record dict"
  policy_findings :: "policy_finding_record dict"
  usage_ledger :: "usage_record dict"
  nautilus_runtimes :: "nautilus_runtime dict"
  nautilus_events :: "nautilus_event list dict"
  bot_proposals :: "bot_proposal dict"
  feedback :: "feedback_record dict"

definition init_repo :: repo where
  "init_repo = \<lparr>conversations = [], messages = [], memories = [], runs = [], run_jobs = [],
     run_events = [], workflow_tasks = [], artifacts = [], strategy_specs = [],
     validation_reports = [], review_reports = [], tool_calls = [], policy_findings = [],
     usage_ledger = [], nautilus_runtimes = [], nautilus_events = [], bot_proposals = [],
     feedback = []\<rparr>"

text \<open>\<open>opaque_id(prefix)\<close>; the argument after the prefix is the hexadecimal text of a fresh UUID.\<close>

definition opaque_id :: "string \<Rightarrow> string \<Rightarrow> string" where
  "opaque_id prefix uuid = prefix @ ''_'' @ uuid"

lemma opaque_id_inj [simp]: "opaque_id p u = opaque_id p v \<longleftrightarrow> u = v"
  by (simp add: opaque_id_def)

end
