(* ===== verification/Conversations.thy ===== *)
theory Conversations
  imports Records
begin

text \<open>
  Conversations, their messages and their rolling memory
  (\<open>InMemoryConversationRepository\<close>, \<open>create_conversation\<close> to \<open>upsert_conversation_memory\<close>).
  Every operation that the clock or the id generator takes part in has the current time \<open>now\<close>
  and the drawn UUIDs as its first arguments; it returns its result and the new state.
\<close>

section \<open>Operations\<close>

definition create_conversation ::
  "datetime \<Rightarrow> string \<Rightarrow> auth_context \<Rightarrow> string option \<Rightarrow> repo \<Rightarrow> conversation_record \<times> repo" where
  "create_conversation now uuid auth title s =
     (let conversation = \<lparr>rec_id = opaque_id ''conv'' uuid, owner_user_id = user_id auth,
            workspace_id = auth_workspace_id auth, created_at = now,
            conv_title = title, conv_updated_at = now\<rparr>
      in (conversation,
          s\<lparr>conversations := dict_set (rec_id conversation) conversation (conversations s),
            messages := dict_set (rec_id conversation) [] (messages s)\<rparr>))"

definition list_conversations :: "auth_context \<Rightarrow> repo \<Rightarrow> conversation_record list" where
  "list_conversations auth s =
     py_sorted_rev conv_updated_at (filter (is_authorized auth) (dict_values (conversations s)))"

definition get_conversation :: "auth_context \<Rightarrow> string \<Rightarrow> repo \<Rightarrow> conversation_record option" where
  "get_conversation auth cid s =
     (case dict_get (conversations s) cid of
        None \<Rightarrow> None
      | Some conversation \<Rightarrow> if \<not> is_authorized auth conversation then None else Some conversation)"

definition update_conversation_title ::
  "datetime \<Rightarrow> auth_context \<Rightarrow> string \<Rightarrow> string \<Rightarrow> repo \<Rightarrow> conversation_record option \<times> repo" where
  "update_conversation_title now auth cid title s =
     (case dict_get (conversations s) cid of
        None \<Rightarrow> (None, s)
      | Some conversation \<Rightarrow>
          if \<not> is_authorized auth conversation then (None, s)
          else
            let updated = conversation\<lparr>conv_title := Some title, conv_updated_at := now\<rparr>
            in (Some updated,
                s\<lparr>conversations := dict_set (rec_id conversation) updated (conversations s)\<rparr>))"

definition delete_conversation ::
  "auth_context \<Rightarrow> string \<Rightarrow> repo \<Rightarrow> conversation_record option \<times> repo" where
  "delete_conversation auth cid s =
     (case dict_get (conversations s) cid of
        None \<Rightarrow> (None, s)
      | Some conversation \<Rightarrow>
          if \<not> is_authorized auth conversation then (None, s)
          else (Some conversation, s\<lparr>conversations := dict_pop cid (conversations s)\<rparr>))"

text \<open>
  \<open>self._messages[conversation.id].append(\<dots>)\<close> raises \<open>KeyError\<close> when the conversation has no
  message list.
\<close>

definition create_message ::
  "datetime \<Rightarrow> string \<Rightarrow> auth_context \<Rightarrow> string \<Rightarrow> string \<Rightarrow> string \<Rightarrow> repo
    \<Rightarrow> (py_error + message_record option) \<times> repo" where
  "create_message now uuid auth cid content role s =
     (case dict_get (conversations s) cid of
        None \<Rightarrow> (Inr None, s)
      | Some conversation \<Rightarrow>
          if \<not> is_authorized auth conversation then (Inr None, s)
          else
            let message = \<lparr>rec_id = opaque_id ''msg'' uuid, owner_user_id = user_id auth,
                  workspace_id = auth_workspace_id auth, created_at = now,
                  msg_conversation_id = rec_id conversation, msg_role = role,
                  msg_content = content\<rparr>
            in (case dict_get (messages s) (rec_id conversation) of
                  None \<Rightarrow> (Inl KeyError, s)
                | Some thread \<Rightarrow>
                    (Inr (Some message),
                     s\<lparr>messages := dict_set (rec_id conversation) (thread @ [message]) (messages s),
                       conversations := dict_set (rec_id conversation)
                         (conversation\<lparr>conv_updated_at := now\<rparr>) (conversations s)\<rparr>)))"

definition list_messages :: "auth_context \<Rightarrow> string \<Rightarrow> repo \<Rightarrow> message_record list" where
  "list_messages auth cid s =
     (case get_conversation auth cid s of
        None \<Rightarrow> []
      | Some _ \<Rightarrow> (case dict_get (messages s) cid of None \<Rightarrow> [] | Some thread \<Rightarrow> thread))"

definition list_messages_for_context ::
  "auth_context \<Rightarrow> string \<Rightarrow> int option \<Rightarrow> repo \<Rightarrow> message_record list" where
  "list_messages_for_context auth cid limit s =
     (let thread = list_messages auth cid s
      in case limit of
           None \<Rightarrow> thread
         | Some n \<Rightarrow> if n \<le> 0 then [] else last_n n thread)"

definition get_conversation_memory ::
  "auth_context \<Rightarrow> string \<Rightarrow> repo \<Rightarrow> memory_record option" where
  "get_conversation_memory auth cid s =
     (case get_conversation auth cid s of
        None \<Rightarrow> None
      | Some _ \<Rightarrow>
          (case dict_get (memories s) cid of
             None \<Rightarrow> None
           | Some memory \<Rightarrow> if \<not> is_authorized auth memory then None else Some memory))"

definition upsert_conversation_memory ::
  "datetime \<Rightarrow> string \<Rightarrow> auth_context \<Rightarrow> string \<Rightarrow> string \<Rightarrow> string option \<Rightarrow> int \<Rightarrow> repo
    \<Rightarrow> memory_record option \<times> repo" where
  "upsert_conversation_memory now uuid auth cid summary covered_message_id estimated_tokens s =
     (case get_conversation auth cid s of
        None \<Rightarrow> (None, s)
      | Some conversation \<Rightarrow>
          let existing = dict_get (memories s) cid;
              memory = \<lparr>
                rec_id = (case existing of Some m \<Rightarrow> rec_id m | None \<Rightarrow> opaque_id ''mem'' uuid),
                owner_user_id = user_id auth, workspace_id = auth_workspace_id auth,
                created_at = (case existing of Some m \<Rightarrow> created_at m | None \<Rightarrow> now),
                mem_conversation_id = rec_id conversation, mem_summary = summary,
                mem_covered_message_id = covered_message_id,
                mem_summary_version =
                  (case existing of Some m \<Rightarrow> mem_summary_version m + 1 | None \<Rightarrow> 1),
                mem_estimated_tokens = max 0 estimated_tokens, mem_updated_at = now\<rparr>
          in (Some memory, s\<lparr>memories := dict_set cid memory (memories s)\<rparr>))"

text \<open>\<open>bounded_state_message_limit\<close> and \<open>_sidebar_record\<close>.\<close>

definition bounded_state_message_limit :: "int option \<Rightarrow> int" where
  "bounded_state_message_limit limit =
     (case limit of None \<Rightarrow> 100 | Some n \<Rightarrow> min 500 (max 0 n))"

definition run_order_key :: "run_record \<Rightarrow> datetime \<times> datetime \<times> string" where
  "run_order_key r = (run_updated_at r, created_at r, rec_id r)"

definition sidebar_record_of ::
  "conversation_record \<Rightarrow> message_record list \<Rightarrow> run_record list \<Rightarrow> sidebar_record" where
  "sidebar_record_of conversation msgs rs =
     (let latest_run = py_max run_order_key rs;
          last_message = py_max (\<lambda>m. (created_at m, rec_id m)) msgs
      in \<lparr>sb_conversation = conversation,
          sb_last_message_content = map_option msg_content last_message,
          sb_last_message_at = map_option created_at last_message,
          sb_message_count = int (length msgs),
          sb_latest_run_id = map_option rec_id latest_run,
          sb_latest_run_status = map_option run_status latest_run,
          sb_updated_at = conv_updated_at conversation\<rparr>)"

definition conversation_runs :: "auth_context \<Rightarrow> string \<Rightarrow> repo \<Rightarrow> run_record list" where
  "conversation_runs auth cid s =
     filter (\<lambda>run. run_conversation_id run = cid \<and> owner_user_id run = user_id auth
         \<and> workspace_id run = auth_workspace_id auth) (dict_values (runs s))"

definition list_conversation_sidebar :: "auth_context \<Rightarrow> repo \<Rightarrow> sidebar_record list" where
  "list_conversation_sidebar auth s =
     map (\<lambda>conversation. sidebar_record_of conversation
            (case dict_get (messages s) (rec_id conversation) of None \<Rightarrow> [] | Some thread \<Rightarrow> thread)
            (conversation_runs auth (rec_id conversation) s))
         (list_conversations auth s)"

section \<open>The accessor contract for conversations\<close>

interpretation conv: owned_resource get_conversation conversations
  by unfold_locales (simp add: get_conversation_def owned_get_def split: option.split)

section \<open>Invariant\<close>

text \<open>
  Every conversation is stored under its id and has a message list; every message of a list
  names that conversation and belongs to its owner; a memory is stored under the id of its
  conversation and belongs to its owner.
\<close>

definition conv_inv :: "repo \<Rightarrow> bool" where
  "conv_inv s \<longleftrightarrow>
     keyed (conversations s) \<and> dict_ok (messages s) \<and> dict_ok (memories s) \<and>
     (\<forall>k c. dict_get (conversations s) k = Some c \<longrightarrow> dict_get (messages s) k \<noteq> None) \<and>
     (\<forall>k ms m. dict_get (messages s) k = Some ms \<longrightarrow> m \<in> set ms \<longrightarrow>
        msg_conversation_id m = k \<and>
        (\<forall>c. dict_get (conversations s) k = Some c \<longrightarrow> row_tenant m = row_tenant c)) \<and>
     (\<forall>k m. dict_get (memories s) k = Some m \<longrightarrow>
        mem_conversation_id m = k \<and> 1 \<le> mem_summary_version m \<and> 0 \<le> mem_estimated_tokens m \<and>
        (\<forall>c. dict_get (conversations s) k = Some c \<longrightarrow> row_tenant m = row_tenant c))"

text \<open>An id that no table has used: what a fresh UUID is.\<close>

definition unused_conv :: "string \<Rightarrow> repo \<Rightarrow> bool" where
  "unused_conv k s \<longleftrightarrow> dict_get (conversations s) k = None \<and> dict_get (messages s) k = None \<and>
     dict_get (memories s) k = None"

lemma conv_inv_init: "conv_inv init_repo"
  by (simp add: conv_inv_def init_repo_def)

lemma conv_invD:
  assumes "conv_inv s"
  shows "keyed (conversations s)" "dict_ok (messages s)" "dict_ok (memories s)"
    "dict_get (conversations s) k = Some c \<Longrightarrow> \<exists>ms. dict_get (messages s) k = Some ms"
    "dict_get (messages s) k = Some ms \<Longrightarrow> m \<in> set ms \<Longrightarrow> msg_conversation_id m = k"
    "dict_get (messages s) k = Some ms \<Longrightarrow> m \<in> set ms \<Longrightarrow> dict_get (conversations s) k = Some c
       \<Longrightarrow> row_tenant m = row_tenant c"
    "dict_get (memories s) k = Some me \<Longrightarrow> mem_conversation_id me = k"
    "dict_get (memories s) k = Some me \<Longrightarrow> 1 \<le> mem_summary_version me"
    "dict_get (memories s) k = Some me \<Longrightarrow> 0 \<le> mem_estimated_tokens me"
    "dict_get (memories s) k = Some me \<Longrightarrow> dict_get (conversations s) k = Some c
       \<Longrightarrow> row_tenant me = row_tenant c"
  using assms by (auto simp: conv_inv_def)

lemmas conv_op_defs = create_conversation_def update_conversation_title_def
  delete_conversation_def create_message_def upsert_conversation_memory_def

lemma create_conversation_inv:
  assumes inv: "conv_inv s" and fresh: "unused_conv (opaque_id ''conv'' uuid) s"
  shows "conv_inv (snd (create_conversation now uuid auth title s))"
  using fresh
  by (auto simp: create_conversation_def Let_def conv_inv_def unused_conv_def
      conv_invD [OF inv] split: if_splits)

lemma conv_inv_retitle:
  assumes inv: "conv_inv s" and c: "dict_get (conversations s) k = Some c"
    and c': "rec_id c' = rec_id c" "row_tenant c' = row_tenant c"
  shows "conv_inv (s\<lparr>conversations := dict_set k c' (conversations s)\<rparr>)"
  using c' conv_invD [OF inv] c keyed_id [OF conv_invD(1) [OF inv] c]
  by (auto simp: conv_inv_def split: if_splits)

lemma update_conversation_title_inv:
  assumes inv: "conv_inv s"
  shows "conv_inv (snd (update_conversation_title now auth cid title s))"
  using conv_inv_retitle [OF inv] keyed_id [OF conv_invD(1) [OF inv]]
  by (auto simp: update_conversation_title_def Let_def inv row_tenant_def split: option.split)

lemma delete_conversation_inv:
  assumes inv: "conv_inv s"
  shows "conv_inv (snd (delete_conversation auth cid s))"
  using inv conv_invD [OF inv]
  by (auto simp: delete_conversation_def conv_inv_def split: option.split if_splits)

text \<open>\<open>create_message\<close> on the branch that stores the message.\<close>

lemma create_message_cases:
  obtains (denied) "get_conversation auth cid s = None"
      "create_message now uuid auth cid content role s = (Inr None, s)"
  | (missing) c where "get_conversation auth cid s = Some c"
      "dict_get (messages s) (rec_id c) = None"
      "create_message now uuid auth cid content role s = (Inl KeyError, s)"
  | (stored) c thread m where "get_conversation auth cid s = Some c"
      "dict_get (messages s) (rec_id c) = Some thread"
      "m = \<lparr>rec_id = opaque_id ''msg'' uuid, owner_user_id = user_id auth,
            workspace_id = auth_workspace_id auth, created_at = now,
            msg_conversation_id = rec_id c, msg_role = role, msg_content = content\<rparr>"
      "create_message now uuid auth cid content role s =
         (Inr (Some m), s\<lparr>messages := dict_set (rec_id c) (thread @ [m]) (messages s),
           conversations := dict_set (rec_id c) (c\<lparr>conv_updated_at := now\<rparr>) (conversations s)\<rparr>)"
  unfolding create_message_def get_conversation_def Let_def
  by (cases "dict_get (conversations s) cid"; fastforce split: if_splits option.splits)

lemma create_message_inv:
  assumes inv: "conv_inv s"
  shows "conv_inv (snd (create_message now uuid auth cid content role s))"
proof (cases rule: create_message_cases [of auth cid s now uuid content role])
  case (stored c thread m)
  have id: "rec_id c = cid"
    using conv.fetch_id stored(1) conv_invD(1) [OF inv] by blast
  have c: "dict_get (conversations s) cid = Some c" and ten: "is_authorized auth c"
    using stored(1) by (simp_all add: conv.fetch_eq owned_get_Some)
  have s1: "conv_inv (s\<lparr>conversations := dict_set cid (c\<lparr>conv_updated_at := now\<rparr>) (conversations s)\<rparr>)"
    by (rule conv_inv_retitle [OF inv c]) (auto simp: row_tenant_def)
  have m: "msg_conversation_id m = cid" "row_tenant m = row_tenant c"
    using stored(3) id ten by (simp_all add: row_tenant_def is_authorized_def)
  show ?thesis
    using s1 m stored(2) c unfolding stored(4) id
    by (auto simp: conv_inv_def row_tenant_def split: if_splits)
qed (use inv in auto)

lemma upsert_conversation_memory_inv:
  assumes inv: "conv_inv s"
  shows "conv_inv (snd (upsert_conversation_memory now uuid auth cid summary cov tok s))"
proof (cases "get_conversation auth cid s")
  case None
  then show ?thesis by (simp add: upsert_conversation_memory_def inv)
next
  case (Some c)
  have id: "rec_id c = cid"
    using conv.fetch_id Some conv_invD(1) [OF inv] by blast
  have c: "dict_get (conversations s) cid = Some c" and ten: "is_authorized auth c"
    using Some by (simp_all add: conv.fetch_eq owned_get_Some)
  have ver: "0 \<le> mem_summary_version x" if "dict_get (memories s) cid = Some x" for x
    using conv_invD(8) [OF inv that] by simp
  show ?thesis
    using inv c ten id ver Some
    by (auto simp: upsert_conversation_memory_def Let_def conv_inv_def row_tenant_def
        is_authorized_def split: option.splits if_splits)
qed

section \<open>Functional behaviour\<close>

text \<open>With the invariant, \<open>create_message\<close> never raises.\<close>

lemma create_message_no_error:
  assumes "conv_inv s"
  shows "fst (create_message now uuid auth cid content role s) \<noteq> Inl KeyError"
proof (cases rule: create_message_cases [of auth cid s now uuid content role])
  case (missing c)
  have "rec_id c = cid" "dict_get (conversations s) cid = Some c"
    using conv.fetch_id conv.fetch_stored missing(1) conv_invD(1) [OF assms] by blast+
  with missing(2) show ?thesis using conv_invD(4) [OF assms, of cid c] by simp
qed auto

lemma create_message_appends:
  assumes inv: "conv_inv s"
    and ok: "create_message now uuid auth cid content role s = (Inr (Some m), s')"
  shows "list_messages auth cid s' = list_messages auth cid s @ [m]"
    and "\<And>auth' k. k \<noteq> cid \<Longrightarrow> list_messages auth' k s' = list_messages auth' k s"
proof -
  obtain c thread where st: "get_conversation auth cid s = Some c"
      "dict_get (messages s) (rec_id c) = Some thread"
      "s' = s\<lparr>messages := dict_set (rec_id c) (thread @ [m]) (messages s),
           conversations := dict_set (rec_id c) (c\<lparr>conv_updated_at := now\<rparr>) (conversations s)\<rparr>"
    using ok by (cases rule: create_message_cases [of auth cid s now uuid content role]) auto
  have id: "rec_id c = cid" and c: "dict_get (conversations s) cid = Some c"
    and ten: "is_authorized auth c"
    using st(1) conv.fetch_id conv_invD(1) [OF inv]
    by (auto simp: conv.fetch_eq owned_get_Some dest: keyed_id)
  show "list_messages auth cid s' = list_messages auth cid s @ [m]"
    using st c ten by (simp add: list_messages_def get_conversation_def id is_authorized_def)
  show "list_messages auth' k s' = list_messages auth' k s" if "k \<noteq> cid" for auth' k
    using that st(3) by (simp add: list_messages_def get_conversation_def id split: option.split)
qed

lemma list_conversations_owned:
  assumes "conv_inv s"
  shows "set (list_conversations auth s) =
    {c. is_authorized auth c \<and> dict_get (conversations s) (rec_id c) = Some c}"
  using keyed_value [OF conv_invD(1) [OF assms]] dict_value_in
  by (fastforce simp: list_conversations_def)

lemma list_conversations_sorted:
  "sorted_wrt (\<lambda>c d. conv_updated_at d \<le> conv_updated_at c) (list_conversations auth s)"
  by (simp add: list_conversations_def sorted_py_sorted_rev)

lemma memory_version_grows:
  assumes "upsert_conversation_memory now uuid auth cid summary cov tok s = (Some m, s')"
    and "dict_get (memories s) cid = Some m0"
  shows "mem_summary_version m = mem_summary_version m0 + 1" "rec_id m = rec_id m0"
    "created_at m = created_at m0"
  using assms by (auto simp: upsert_conversation_memory_def Let_def split: option.splits)

section \<open>Isolation\<close>

text \<open>What the tables of this theory hold for one tenant.\<close>

definition conv_view :: "tenant \<Rightarrow> repo
    \<Rightarrow> conversation_record dict \<times> message_record list dict \<times> memory_record dict" where
  "conv_view t s = (tenant_rows t (conversations s), tenant_logs t (messages s),
     tenant_rows t (memories s))"

lemma create_conversation_isolated:
  assumes "unused_conv (opaque_id ''conv'' uuid) s" "auth_tenant auth \<noteq> t"
  shows "conv_view t (snd (create_conversation now uuid auth title s)) = conv_view t s"
  using assms
  by (auto simp: create_conversation_def Let_def conv_view_def unused_conv_def row_tenant_def
      auth_tenant_def intro!: tenant_rows_set_other tenant_logs_new_empty)

lemma update_conversation_title_isolated:
  assumes "conv_inv s" "auth_tenant auth \<noteq> t"
  shows "conv_view t (snd (update_conversation_title now auth cid title s)) = conv_view t s"
  using assms(2) keyed_id [OF conv_invD(1) [OF assms(1)]]
  by (auto simp: update_conversation_title_def Let_def conv_view_def row_tenant_def
      is_authorized_tenant split: option.split intro!: tenant_rows_set_other)

lemma delete_conversation_isolated:
  assumes "conv_inv s" "auth_tenant auth \<noteq> t"
  shows "conv_view t (snd (delete_conversation auth cid s)) = conv_view t s"
  using assms(2) conv_invD(1) [OF assms(1)]
  by (auto simp: delete_conversation_def conv_view_def is_authorized_tenant
      split: option.split intro!: tenant_rows_pop_other)

lemma create_message_isolated:
  assumes inv: "conv_inv s" and other: "auth_tenant auth \<noteq> t"
  shows "conv_view t (snd (create_message now uuid auth cid content role s)) = conv_view t s"
proof (cases rule: create_message_cases [of auth cid s now uuid content role])
  case (stored c thread m)
  have id: "rec_id c = cid"
    using conv.fetch_id stored(1) conv_invD(1) [OF inv] by blast
  have c: "dict_get (conversations s) cid = Some c" "row_tenant c = auth_tenant auth"
    using stored(1) by (simp_all add: conv.fetch_eq owned_get_Some is_authorized_tenant)
  have m: "row_tenant m = auth_tenant auth"
    by (simp add: stored(3) row_tenant_def auth_tenant_def)
  have "tenant_logs t (dict_set cid (thread @ [m]) (messages s)) = tenant_logs t (messages s)"
    by (rule tenant_logs_set) (use m other stored(2) id in \<open>auto simp: log_of_def\<close>)
  moreover have "tenant_rows t (dict_set cid (c\<lparr>conv_updated_at := now\<rparr>) (conversations s)) =
      tenant_rows t (conversations s)"
    by (rule tenant_rows_set_other) (use c other in \<open>auto simp: row_tenant_def\<close>)
  ultimately show ?thesis by (simp add: stored(4) id conv_view_def)
qed auto

lemma upsert_conversation_memory_isolated:
  assumes inv: "conv_inv s" and other: "auth_tenant auth \<noteq> t"
  shows "conv_view t (snd (upsert_conversation_memory now uuid auth cid summary cov tok s)) =
    conv_view t s"
proof (cases "get_conversation auth cid s")
  case (Some c)
  then have c: "dict_get (conversations s) cid = Some c" "row_tenant c = auth_tenant auth"
    by (simp_all add: conv.fetch_eq owned_get_Some is_authorized_tenant)
  then show ?thesis
    using Some other conv_invD(10) [OF inv]
    by (auto simp: upsert_conversation_memory_def Let_def conv_view_def row_tenant_def
        auth_tenant_def intro!: tenant_rows_set_other)
qed (simp add: upsert_conversation_memory_def)

end
