(* ===== verification/Event_Log.thy ===== *)
theory Event_Log
  imports Records
begin

text \<open>
  The contract of an append-only event log with gapless sequence numbers starting at 1: what the
  streaming clients, which resume after a sequence number, rely on.  The logs of the assistant
  runs (theory \<open>Runs\<close>) and of the Nautilus runtimes (theory \<open>Nautilus\<close>) provide it.
\<close>

definition numbered :: "('e \<Rightarrow> int) \<Rightarrow> 'e list \<Rightarrow> bool" where
  "numbered seq es \<longleftrightarrow> (\<forall>i < length es. seq (es ! i) = int i + 1)"

lemma numbered_Nil [simp]: "numbered seq []"
  by (simp add: numbered_def)

lemma numbered_append:
  "numbered seq (es @ new) \<longleftrightarrow> numbered seq es \<and>
     (\<forall>i < length new. seq (new ! i) = int (length es) + int i + 1)"
proof
  assume n: "numbered seq (es @ new)"
  have "seq (new ! i) = int (length es) + int i + 1" if "i < length new" for i
    using n [unfolded numbered_def, rule_format, of "length es + i"] that by simp
  moreover have "numbered seq es"
    using n by (auto simp: numbered_def nth_append dest!: spec split: if_splits)
  ultimately show "numbered seq es \<and> (\<forall>i < length new. seq (new ! i) = int (length es) + int i + 1)"
    by blast
next
  assume a: "numbered seq es \<and> (\<forall>i < length new. seq (new ! i) = int (length es) + int i + 1)"
  show "numbered seq (es @ new)"
    unfolding numbered_def
  proof (intro allI impI)
    fix i assume i: "i < length (es @ new)"
    show "seq ((es @ new) ! i) = int i + 1"
    proof (cases "i < length es")
      case True
      with a show ?thesis by (simp add: numbered_def nth_append)
    next
      case False
      with a i have "seq (new ! (i - length es)) = int (length es) + int (i - length es) + 1"
        by simp
      with False show ?thesis by (simp add: nth_append)
    qed
  qed
qed

lemma numbered_snoc:
  "numbered seq (es @ [e]) \<longleftrightarrow> numbered seq es \<and> seq e = int (length es) + 1"
  by (simp add: numbered_append)

lemma numbered_filter_after: "numbered seq es \<Longrightarrow> filter (\<lambda>e. n < seq e) es = drop (nat n) es"
proof (induction es rule: rev_induct)
  case (snoc e es)
  then show ?case
    by (cases "nat n \<le> length es") (auto simp: numbered_snoc)
qed simp

lemma numbered_distinct: "numbered seq es \<Longrightarrow> distinct (map seq es)"
  by (auto simp: numbered_def distinct_conv_nth)

locale numbered_log =
  fixes log_at :: "'s \<Rightarrow> string \<Rightarrow> 'e list"
    and seq :: "'e \<Rightarrow> int"
    and append :: "'c \<Rightarrow> 's \<Rightarrow> 's"
  assumes append_extends:
    "\<exists>new. log_at (append c s) k = log_at s k @ new \<and>
       (\<forall>i < length new. seq (new ! i) = int (length (log_at s k)) + int i + 1)"
begin

lemma append_numbered: "numbered seq (log_at s k) \<Longrightarrow> numbered seq (log_at (append c s) k)"
  using append_extends [of c s k] by (auto simp: numbered_append)

lemma runs_numbered: "numbered seq (log_at s k) \<Longrightarrow> numbered seq (log_at (fold append cs s) k)"
  by (induction cs arbitrary: s) (auto intro: append_numbered)

lemma runs_prefix: "\<exists>new. log_at (fold append cs s) k = log_at s k @ new"
proof (induction cs arbitrary: s)
  case (Cons c cs)
  from append_extends [of c s k] obtain n1 where n1: "log_at (append c s) k = log_at s k @ n1"
    by blast
  from Cons.IH [of "append c s"] obtain n2 where
    "log_at (fold append cs (append c s)) k = log_at (append c s) k @ n2" by blast
  with n1 show ?case by auto
qed simp

text \<open>
  A reader that has seen the log up to its length before the appends and asks for what comes
  after that number gets exactly what was appended since.
\<close>

lemma resume_exact:
  assumes "numbered seq (log_at s k)"
  shows "log_at s k @ filter (\<lambda>e. int (length (log_at s k)) < seq e) (log_at (fold append cs s) k)
    = log_at (fold append cs s) k"
proof -
  obtain new where new: "log_at (fold append cs s) k = log_at s k @ new"
    using runs_prefix by blast
  have "filter (\<lambda>e. int (length (log_at s k)) < seq e) (log_at (fold append cs s) k) =
      drop (length (log_at s k)) (log_at (fold append cs s) k)"
    using numbered_filter_after [OF runs_numbered [OF assms]] by simp
  then show ?thesis by (simp add: new)
qed

end

end
