(* ===== verification/Run_Modes.thy ===== *)
theory Run_Modes
  imports Auth
begin

text \<open>
  The vocabulary of the stored states and the limits that depend on it: run modes and backtest
  limits (\<open>server/run_modes.py\<close>), workflow-task and bot-proposal statuses, and artifact kinds
  (\<open>server/artifact_kinds.py\<close>).
\<close>

section \<open>Run modes and backtest limits\<close>

definition RUN_MODE_BACKTEST_PREVIEW :: string where
  "RUN_MODE_BACKTEST_PREVIEW = ''backtest-preview''"

definition RUN_MODES :: "string list" where
  "RUN_MODES = [''dry-run'', ''agent'', ''live-generation'', RUN_MODE_BACKTEST_PREVIEW]"

definition QUEUED_RUN_MODES :: "string list" where
  "QUEUED_RUN_MODES = [RUN_MODE_BACKTEST_PREVIEW]"

definition BACKTEST_ACTIVE_LIMITS_BY_TIER :: "int dict" where
  "BACKTEST_ACTIVE_LIMITS_BY_TIER =
     [(''free'', 1), (''paid_low'', 2), (''paid_medium'', 4), (''paid_high'', 8)]"

definition BACKTEST_DEFAULT_ACTIVE_LIMIT :: int where
  "BACKTEST_DEFAULT_ACTIVE_LIMIT = 2"

definition BACKTEST_MAX_VARIANTS :: int where
  "BACKTEST_MAX_VARIANTS = 6"

definition BACKTEST_JOB_MAX_ATTEMPTS :: int where
  "BACKTEST_JOB_MAX_ATTEMPTS = 3"

definition BACKTEST_ENGINE_PINEFORGE :: string where
  "BACKTEST_ENGINE_PINEFORGE = ''pineforge''"

definition PINEFORGE_ALLOWED_API :: "string list" where
  "PINEFORGE_ALLOWED_API = [''pineforge-runner'', ''pineforge-engine-native'']"

definition PINEFORGE_BLOCKED_API :: "string list" where
  "PINEFORGE_BLOCKED_API = [''alerts'', ''broker_credentials'', ''paper_trading'', ''live_trading'',
     ''telegram_alerts'', ''external_data_fetch'']"

text \<open>\<open>backtest_default_engine\<close>; the argument is the environment variable.\<close>

definition backtest_default_engine :: "string option \<Rightarrow> string" where
  "backtest_default_engine env =
     (let configured = py_lower (py_strip (case env of None \<Rightarrow> BACKTEST_ENGINE_PINEFORGE | Some s \<Rightarrow> s))
      in if configured \<in> set [BACKTEST_ENGINE_PINEFORGE] then configured else BACKTEST_ENGINE_PINEFORGE)"

definition backtest_active_limit_for_tier :: "string option \<Rightarrow> int" where
  "backtest_active_limit_for_tier tier =
     (case dict_get BACKTEST_ACTIVE_LIMITS_BY_TIER (or_str tier []) of
        None \<Rightarrow> BACKTEST_DEFAULT_ACTIVE_LIMIT | Some n \<Rightarrow> n)"

definition backtest_job_limits_for_tier :: "string option \<Rightarrow> json dict" where
  "backtest_job_limits_for_tier tier =
     [(''workspace_active_limit'', JInt (backtest_active_limit_for_tier tier)),
      (''max_variants'', JInt BACKTEST_MAX_VARIANTS)]"

text \<open>\<open>None\<close> is the \<open>ValueError\<close> for an unsupported engine.\<close>

definition backtest_runtime_boundary :: "string \<Rightarrow> json dict option" where
  "backtest_runtime_boundary engine =
     (if engine \<noteq> BACKTEST_ENGINE_PINEFORGE then None
      else Some [(''engine'', JStr BACKTEST_ENGINE_PINEFORGE),
                 (''allowed_api'', JList (map JStr PINEFORGE_ALLOWED_API)),
                 (''blocked_api'', JList (map JStr PINEFORGE_BLOCKED_API))])"

text \<open>A Python \<open>bool\<close> is an \<open>int\<close>, so \<open>true\<close> counts as 1 and \<open>false\<close> as 0.\<close>

definition backtest_active_limit_from_payload :: "json dict \<Rightarrow> int" where
  "backtest_active_limit_from_payload p =
     (case jget p ''limits'' of
        JObj limits \<Rightarrow>
          (case jget limits ''workspace_active_limit'' of
             JInt n \<Rightarrow> max 1 n
           | JBool b \<Rightarrow> max 1 (of_bool b)
           | _ \<Rightarrow> BACKTEST_DEFAULT_ACTIVE_LIMIT)
      | _ \<Rightarrow> BACKTEST_DEFAULT_ACTIVE_LIMIT)"

lemma active_limit_ge_1: "1 \<le> backtest_active_limit_from_payload p"
  by (auto simp: backtest_active_limit_from_payload_def BACKTEST_DEFAULT_ACTIVE_LIMIT_def
      split: json.split)

lemma tier_limit_roundtrip:
  "backtest_active_limit_from_payload [(''limits'', JObj (backtest_job_limits_for_tier tier))] =
   backtest_active_limit_for_tier tier"
  by (auto simp: backtest_active_limit_from_payload_def backtest_job_limits_for_tier_def jget_def
      backtest_active_limit_for_tier_def BACKTEST_ACTIVE_LIMITS_BY_TIER_def
      BACKTEST_DEFAULT_ACTIVE_LIMIT_def split: option.splits if_splits)

section \<open>Statuses\<close>

definition TERMINAL_RUN_STATUSES :: "string list" where
  "TERMINAL_RUN_STATUSES = [''completed'', ''failed'', ''blocked'', ''cancelled'']"

definition WORKFLOW_TASK_RESOLVED_STATUSES :: "string list" where
  "WORKFLOW_TASK_RESOLVED_STATUSES = [''completed'', ''approved'', ''rejected'', ''cancelled'']"

definition WORKFLOW_TASK_STATUSES :: "string list" where
  "WORKFLOW_TASK_STATUSES = WORKFLOW_TASK_RESOLVED_STATUSES @ [''pending_user'', ''blocked'']"

definition BOT_PROPOSAL_STATUS_STARTED :: string where
  "BOT_PROPOSAL_STATUS_STARTED = ''started''"

definition BOT_PROPOSAL_STATUSES :: "string list" where
  "BOT_PROPOSAL_STATUSES =
     [''draft'', ''missing_inputs'', ''ready'', BOT_PROPOSAL_STATUS_STARTED, ''rejected'']"

definition WORKFLOW_CONTINUATION_EVENT_TYPES :: "string list" where
  "WORKFLOW_CONTINUATION_EVENT_TYPES =
     [''workflow.continuation.required'', ''workflow.continuation.started'',
      ''workflow.continuation.completed'', ''workflow.continuation.failed'']"

abbreviation resolved_status :: "string \<Rightarrow> bool" where
  "resolved_status st \<equiv> st \<in> set WORKFLOW_TASK_RESOLVED_STATUSES"

lemma completed_resolved [simp]: "resolved_status ''completed''"
  by (simp add: WORKFLOW_TASK_RESOLVED_STATUSES_def)

section \<open>Artifact kinds\<close>

definition USER_ARTIFACT_KINDS :: "string list" where
  "USER_ARTIFACT_KINDS =
     [''backtest_report'', ''backtest_variant_comparison'', ''knowledge_proposal'',
      ''pine_strategy_source'', ''pine_file'', ''mql5_file'', ''proposed_order_intent'',
      ''review_report'', ''risk_gate_report'', ''robustness_report'', ''manual_checklist'']"

definition INTERNAL_ARTIFACT_KINDS :: "string list" where
  "INTERNAL_ARTIFACT_KINDS =
     [''agent_run'', ''harness_evidence_summary'', ''knowledge_context'', ''live_error'',
      ''live_metadata'', ''live_workflow_trace'', ''quality_report'', ''runtime_trace_summary'',
      ''backtest_equity_curve'', ''backtest_plan'', ''backtest_run_metadata'',
      ''backtest_source_bundle'', ''backtest_strategy_adapter_source'', ''backtest_trades'',
      ''backtest_ohlcv_metadata'', ''candle_cache_manifest'', ''market_data_cache_manifest'',
      ''market_data_ohlcv_metadata'', ''pineforge_compile_report'', ''pineforge_runner_manifest'',
      ''pineforge_validation_report'', ''validation_report'']"

definition REPORT_ARTIFACT_KINDS :: "string list" where
  "REPORT_ARTIFACT_KINDS =
     [''backtest_report'', ''backtest_variant_comparison'', ''proposed_order_intent'',
      ''review_report'', ''risk_gate_report'', ''robustness_report'', ''validation_report'',
      ''manual_checklist'', ''pineforge_compile_report'']"

definition is_user_visible_artifact_kind :: "string \<Rightarrow> bool" where
  "is_user_visible_artifact_kind kind \<longleftrightarrow> kind \<notin> set INTERNAL_ARTIFACT_KINDS"

lemma user_kinds_visible: "list_all is_user_visible_artifact_kind USER_ARTIFACT_KINDS"
  by (simp add: is_user_visible_artifact_kind_def USER_ARTIFACT_KINDS_def
      INTERNAL_ARTIFACT_KINDS_def)

end
