(* ===== verification/Runs.thy ===== *)
theory Runs
  imports Conversations Event_Log Run_Modes
begin

text \<open>
  Assistant runs and their event logs (\<open>InMemoryConversationRepository\<close>, \<open>create_run\<close>,
  \<open>get_run\<close>, \<open>list_runs\<close>, \<open>append_run_events\<close>, \<open>list_run_events_after\<close>, \<open>set_run_status\<close> and
  the helper \<open>_events_after_last_id\<close>).
\<close>

section \<open>Operations\<close>

definition is_run_authorized :: "auth_context \<Rightarrow> run_record \<Rightarrow> bool" where
  "is_run_authorized auth run \<longleftrightarrow>
     owner_user_id run = user_id auth \<and> workspace_id run = auth_workspace_id auth"

lemma is_run_authorized_eq [simp]: "is_run_authorized auth run = is_authorized auth run"
  by (simp add: is_run_authorized_def is_authorized_def)

definition create_run ::
  "datetime \<Rightarrow> string \<Rightarrow> string \<Rightarrow> string \<Rightarrow> auth_context \<Rightarrow> string \<Rightarrow> string \<Rightarrow> string option
    \<Rightarrow> string option \<Rightarrow> string option \<Rightarrow> string option \<Rightarrow> repo \<Rightarrow> run_record option \<times> repo" where
  "create_run now uuid req_uuid trace_uuid auth cid status mode retry_of request_id trace_id s =
     (case dict_get (conversations s) cid of
        None \<Rightarrow> (None, s)
      | Some conversation \<Rightarrow>
          if \<not> is_authorized auth conversation then (None, s)
          else
            let run = \<lparr>rec_id = opaque_id ''run'' uuid, owner_user_id = user_id auth,
                  workspace_id = auth_workspace_id auth, created_at = now,
                  run_conversation_id = rec_id conversation, run_status = status,
                  run_updated_at = now, run_mode = mode, run_retry_of = retry_of,
                  run_request_id = Some (or_str request_id (opaque_id ''req'' req_uuid)),
                  run_trace_id = Some (or_str trace_id (opaque_id ''trace'' trace_uuid))\<rparr>
            in (Some run,
                s\<lparr>runs := dict_set (rec_id run) run (runs s),
                  run_events := dict_set (rec_id run) [] (run_events s)\<rparr>))"

definition get_run :: "auth_context \<Rightarrow> string \<Rightarrow> repo \<Rightarrow> run_record option" where
  "get_run auth rid s =
     (case dict_get (runs s) rid of
        None \<Rightarrow> None
      | Some run \<Rightarrow> if \<not> is_run_authorized auth run then None else Some run)"

definition list_runs :: "auth_context \<Rightarrow> string \<Rightarrow> repo \<Rightarrow> run_record list option" where
  "list_runs auth cid s =
     (case get_conversation auth cid s of
        None \<Rightarrow> None
      | Some conversation \<Rightarrow>
          Some (py_sorted_rev run_order_key
            (filter (\<lambda>run. run_conversation_id run = rec_id conversation
                \<and> owner_user_id run = user_id auth \<and> workspace_id run = auth_workspace_id auth)
              (dict_values (runs s)))))"

text \<open>
  The events of one call are numbered from the length of the log; \<open>draw i\<close> is the UUID drawn for
  the \<open>i\<close>-th of them.
\<close>

definition new_run_event ::
  "datetime \<Rightarrow> (nat \<Rightarrow> string) \<Rightarrow> run_record \<Rightarrow> nat \<Rightarrow> nat \<times> (string \<times> payload option) \<Rightarrow> run_event" where
  "new_run_event now draw run existing ie =
     (case ie of (i, (event_type, payload)) \<Rightarrow>
        \<lparr>rec_id = opaque_id ''evt'' (draw i), owner_user_id = owner_user_id run,
         workspace_id = workspace_id run, created_at = now,
         evt_run_id = rec_id run, evt_conversation_id = run_conversation_id run,
         evt_sequence = int existing + int i + 1, evt_type = event_type, evt_payload = payload,
         evt_request_id = run_request_id run, evt_trace_id = run_trace_id run\<rparr>)"

definition append_run_events ::
  "datetime \<Rightarrow> (nat \<Rightarrow> string) \<Rightarrow> auth_context \<Rightarrow> string \<Rightarrow> (string \<times> payload option) list \<Rightarrow> repo
    \<Rightarrow> run_event list option \<times> repo" where
  "append_run_events now draw auth rid events s =
     (case dict_get (runs s) rid of
        None \<Rightarrow> (None, s)
      | Some run \<Rightarrow>
          if \<not> is_run_authorized auth run then (None, s)
          else
            let existing = log_of (run_events s) (rec_id run);
                created = map (new_run_event now draw run (length existing))
                            (zip [0..<length events] events)
            in (Some created,
                s\<lparr>run_events := dict_set (rec_id run) (existing @ created) (run_events s)\<rparr>))"

definition append_run_event ::
  "datetime \<Rightarrow> (nat \<Rightarrow> string) \<Rightarrow> auth_context \<Rightarrow> string \<Rightarrow> string \<Rightarrow> payload option \<Rightarrow> repo
    \<Rightarrow> run_event option \<times> repo" where
  "append_run_event now draw auth rid event_type payload s =
     (case append_run_events now draw auth rid [(event_type, payload)] s of
        (events, s') \<Rightarrow> ((case events of None \<Rightarrow> None | Some es \<Rightarrow> head_opt es), s'))"

definition list_run_events :: "auth_context \<Rightarrow> string \<Rightarrow> repo \<Rightarrow> run_event list option" where
  "list_run_events auth rid s =
     (case get_run auth rid s of
        None \<Rightarrow> None | Some run \<Rightarrow> Some (log_of (run_events s) (rec_id run)))"

fun after_id :: "string \<Rightarrow> run_event list \<Rightarrow> run_event list option" where
  "after_id i [] = None"
| "after_id i (e # es) = (if rec_id e = i then Some es else after_id i es)"

definition events_after_last_id :: "run_event list \<Rightarrow> string option \<Rightarrow> run_event list" where
  "events_after_last_id events last_event_id =
     (case last_event_id of
        None \<Rightarrow> events
      | Some i \<Rightarrow>
          if i = [] then events
          else if is_decimal i then filter (\<lambda>e. int (parse_nat i) < evt_sequence e) events
          else (case after_id i events of None \<Rightarrow> events | Some rest \<Rightarrow> rest))"

definition list_run_events_after ::
  "auth_context \<Rightarrow> string \<Rightarrow> string option \<Rightarrow> repo \<Rightarrow> run_event list option" where
  "list_run_events_after auth rid last_event_id s =
     (case list_run_events auth rid s of
        None \<Rightarrow> None | Some events \<Rightarrow> Some (events_after_last_id events last_event_id))"

definition summarize_run_events ::
  "auth_context \<Rightarrow> string \<Rightarrow> repo \<Rightarrow> run_event_summary option" where
  "summarize_run_events auth rid s =
     (case get_run auth rid s of
        None \<Rightarrow> None
      | Some run \<Rightarrow>
          let events = log_of (run_events s) (rec_id run)
          in Some \<lparr>sum_event_count = int (length events), sum_latest_event = last_opt events\<rparr>)"

definition set_run_status ::
  "datetime \<Rightarrow> auth_context \<Rightarrow> string \<Rightarrow> string \<Rightarrow> repo \<Rightarrow> run_record option \<times> repo" where
  "set_run_status now auth rid status s =
     (case dict_get (runs s) rid of
        None \<Rightarrow> (None, s)
      | Some run \<Rightarrow>
          if \<not> is_run_authorized auth run then (None, s)
          else
            let updated = run\<lparr>run_status := status, run_updated_at := now\<rparr>
            in (Some updated, s\<lparr>runs := dict_set (rec_id run) updated (runs s)\<rparr>))"

text \<open>The fall-back of a report lookup: the newest completed backtest of the conversation.\<close>

definition resolve_backtest_report_run_id ::
  "auth_context \<Rightarrow> string \<Rightarrow> string \<Rightarrow> repo \<Rightarrow> string option" where
  "resolve_backtest_report_run_id auth cid requested s =
     (let fallback =
        (case list_runs auth cid s of
           None \<Rightarrow> None
         | Some rs \<Rightarrow>
             (let backtest_runs = filter (\<lambda>run. run_mode run = Some ''backtest-preview''
                    \<and> run_status run = ''completed'') rs
              in map_option rec_id (py_max run_order_key backtest_runs)))
      in case get_run auth requested s of
           None \<Rightarrow> fallback
         | Some run \<Rightarrow> if run_conversation_id run = cid then Some (rec_id run) else fallback)"

section \<open>Contracts the component provides\<close>

interpretation run: owned_resource get_run runs
  by unfold_locales (simp add: get_run_def owned_get_def split: option.split)

text \<open>The run's log, and appending to it as a step on the repository.\<close>

definition run_log :: "repo \<Rightarrow> string \<Rightarrow> run_event list" where
  "run_log s k = log_of (run_events s) k"

definition append_step ::
  "datetime \<times> (nat \<Rightarrow> string) \<times> auth_context \<times> string \<times> (string \<times> payload option) list \<Rightarrow> repo \<Rightarrow> repo"
  where
  "append_step c s =
     (case c of (now, draw, auth, rid, events) \<Rightarrow> snd (append_run_events now draw auth rid events s))"

lemma append_run_events_cases:
  obtains (denied) "get_run auth rid s = None"
      "append_run_events now draw auth rid events s = (None, s)"
  | (appended) run created where "get_run auth rid s = Some run"
      "created = map (new_run_event now draw run (length (run_log s (rec_id run))))
         (zip [0..<length events] events)"
      "append_run_events now draw auth rid events s = (Some created,
         s\<lparr>run_events := dict_set (rec_id run) (run_log s (rec_id run) @ created) (run_events s)\<rparr>)"
  unfolding append_run_events_def get_run_def Let_def run_log_def
  by (cases "dict_get (runs s) rid"; fastforce split: if_splits)

lemma new_run_event_sequence [simp]:
  "evt_sequence (new_run_event now draw run n (i, x)) = int n + int i + 1"
  by (simp add: new_run_event_def split: prod.split)

lemma new_run_event_owner [simp]:
  "row_tenant (new_run_event now draw run n ie) = row_tenant run"
  "evt_run_id (new_run_event now draw run n ie) = rec_id run"
  "evt_conversation_id (new_run_event now draw run n ie) = run_conversation_id run"
  by (simp_all add: new_run_event_def row_tenant_def split: prod.split)

interpretation run_logs: numbered_log run_log evt_sequence append_step
proof (unfold_locales, goal_cases)
  case (1 c s k)
  obtain now draw auth rid events where c: "c = (now, draw, auth, rid, events)"
    by (cases c) auto
  show ?case
  proof (cases rule: append_run_events_cases [of auth rid s now draw events])
    case denied
    then show ?thesis by (simp add: c append_step_def)
  next
    case (appended run created)
    then show ?thesis
      by (cases "k = rec_id run") (simp_all add: c append_step_def run_log_def)
  qed
qed

section \<open>Invariant\<close>

text \<open>
  Runs are stored under their ids; every run has a log and every log a run; the events of a log
  are numbered from 1 without a gap and carry the run's id, conversation and owner.
\<close>

definition run_inv :: "repo \<Rightarrow> bool" where
  "run_inv s \<longleftrightarrow>
     keyed (runs s) \<and> dict_ok (run_events s) \<and>
     (\<forall>k r. dict_get (runs s) k = Some r \<longrightarrow> dict_get (run_events s) k \<noteq> None) \<and>
     (\<forall>k es. dict_get (run_events s) k = Some es \<longrightarrow>
        numbered evt_sequence es \<and> dict_get (runs s) k \<noteq> None) \<and>
     (\<forall>k es e r. dict_get (run_events s) k = Some es \<longrightarrow> e \<in> set es \<longrightarrow>
        dict_get (runs s) k = Some r \<longrightarrow>
        evt_run_id e = k \<and> evt_conversation_id e = run_conversation_id r \<and>
        row_tenant e = row_tenant r)"

definition unused_run :: "string \<Rightarrow> repo \<Rightarrow> bool" where
  "unused_run k s \<longleftrightarrow> dict_get (runs s) k = None \<and> dict_get (run_events s) k = None"

lemma run_invD:
  assumes "run_inv s"
  shows "keyed (runs s)" "dict_ok (run_events s)"
    "dict_get (runs s) k = Some r \<Longrightarrow> \<exists>es. dict_get (run_events s) k = Some es"
    "dict_get (run_events s) k = Some es \<Longrightarrow> numbered evt_sequence es"
    "dict_get (run_events s) k = Some es \<Longrightarrow> \<exists>r. dict_get (runs s) k = Some r"
    "dict_get (run_events s) k = Some es \<Longrightarrow> e \<in> set es \<Longrightarrow> dict_get (runs s) k = Some r
       \<Longrightarrow> evt_run_id e = k \<and> evt_conversation_id e = run_conversation_id r \<and> row_tenant e = row_tenant r"
  using assms by (auto simp: run_inv_def)

lemma run_inv_init: "run_inv init_repo"
  by (simp add: run_inv_def init_repo_def)

lemma run_log_numbered: "run_inv s \<Longrightarrow> numbered evt_sequence (run_log s k)"
  using run_invD(4) by (auto simp: run_log_def log_of_def split: option.split)

lemma create_run_inv:
  assumes inv: "run_inv s" and fresh: "unused_run (opaque_id ''run'' uuid) s"
  shows "run_inv (snd (create_run now uuid ru tu auth cid st mode retry rq tr s))"
proof -
  have *: "run_inv (s\<lparr>runs := dict_set k r (runs s), run_events := dict_set k [] (run_events s)\<rparr>)"
    if "rec_id r = k" "unused_run k s" for k r
    using that run_invD [OF inv] by (auto simp: run_inv_def unused_run_def split: if_splits)
  show ?thesis
    using inv fresh by (auto simp: create_run_def Let_def intro!: * split: option.split)
qed

lemma set_run_status_inv:
  assumes inv: "run_inv s"
  shows "run_inv (snd (set_run_status now auth rid status s))"
proof -
  have *: "run_inv (s\<lparr>runs := dict_set (rec_id r) (r\<lparr>run_status := st, run_updated_at := now\<rparr>) (runs s)\<rparr>)"
    if "dict_get (runs s) rid = Some r" for r st
    using that keyed_id [OF run_invD(1) [OF inv] that] inv
    by (auto simp: run_inv_def row_tenant_def split: if_splits)
  show ?thesis
    using inv by (auto simp: set_run_status_def Let_def intro!: * split: option.split)
qed

lemma append_run_events_inv:
  assumes inv: "run_inv s"
  shows "run_inv (snd (append_run_events now draw auth rid events s))"
proof (cases rule: append_run_events_cases [of auth rid s now draw events])
  case (appended run created)
  have r: "dict_get (runs s) rid = Some run" and id: "rec_id run = rid"
    using appended(1) run.fetch_id [OF run_invD(1) [OF inv]] run.fetch_stored by auto
  have num: "numbered evt_sequence (run_log s rid @ created)"
    using run_log_numbered [OF inv] appended(2) id by (simp add: numbered_append)
  have own: "evt_run_id e = rid \<and> evt_conversation_id e = run_conversation_id run \<and>
      row_tenant e = row_tenant run" if "e \<in> set (run_log s rid @ created)" for e
    using that appended(2) id run_invD(6) [OF inv _ _ r]
    by (auto simp: run_log_def log_of_def split: option.splits)
  show ?thesis
    using inv r num own unfolding appended(3) id by (auto simp: run_inv_def split: if_splits)
qed (use inv in auto)

lemma append_run_event_snd:
  "snd (append_run_event now draw auth rid ty p s) =
   snd (append_run_events now draw auth rid [(ty, p)] s)"
  by (simp add: append_run_event_def split: prod.split)

section \<open>Resuming a stream\<close>

lemma after_id_split:
  "rec_id e \<notin> rec_id ` set seen \<Longrightarrow> after_id (rec_id e) (seen @ e # rest) = Some rest"
  by (induction seen) auto

text \<open>Asking with the id of an event that was seen.\<close>

lemma events_after_seen_id:
  assumes "\<not> is_decimal (rec_id e)" "rec_id e \<notin> rec_id ` set seen"
  shows "events_after_last_id (seen @ e # rest) (Some (rec_id e)) =
    (if rec_id e = [] then seen @ e # rest else rest)"
  using assms after_id_split by (simp add: events_after_last_id_def)

text \<open>Asking with the decimal text of a sequence number.\<close>

lemma events_after_sequence:
  assumes "numbered evt_sequence events"
  shows "events_after_last_id events (Some (digits_of n)) = drop n events"
  using numbered_filter_after [OF assms, of "int n"] digits_of_decimal [of n]
  by (simp add: events_after_last_id_def is_decimal_def)

lemma opaque_not_decimal: "p \<noteq> [] \<Longrightarrow> \<not> is_digit (hd p) \<Longrightarrow> \<not> is_decimal (opaque_id p u)"
  by (cases p) (simp_all add: opaque_id_def is_decimal_def)

section \<open>Isolation\<close>

definition run_view :: "tenant \<Rightarrow> repo \<Rightarrow> run_record dict \<times> run_event list dict" where
  "run_view t s = (tenant_rows t (runs s), tenant_logs t (run_events s))"

lemma create_run_isolated:
  assumes "unused_run (opaque_id ''run'' uuid) s" "auth_tenant auth \<noteq> t"
  shows "run_view t (snd (create_run now uuid ru tu auth cid st mode retry rq tr s)) = run_view t s"
  using assms
  by (auto simp: create_run_def Let_def run_view_def unused_run_def row_tenant_def
      auth_tenant_def split: option.split intro!: tenant_rows_set_other tenant_logs_new_empty)

lemma set_run_status_isolated:
  assumes "run_inv s" "auth_tenant auth \<noteq> t"
  shows "run_view t (snd (set_run_status now auth rid status s)) = run_view t s"
  using assms(2) keyed_id [OF run_invD(1) [OF assms(1)]]
  by (auto simp: set_run_status_def Let_def run_view_def row_tenant_def is_authorized_tenant
      split: option.split intro!: tenant_rows_set_other)

lemma append_run_events_isolated:
  assumes inv: "run_inv s" and other: "auth_tenant auth \<noteq> t"
  shows "run_view t (snd (append_run_events now draw auth rid events s)) = run_view t s"
proof (cases rule: append_run_events_cases [of auth rid s now draw events])
  case (appended run created)
  have "row_tenant run = auth_tenant auth"
    using appended(1) run.fetch_owned by (simp add: is_authorized_tenant)
  then have "tenant_logs t (dict_set (rec_id run) (run_log s (rec_id run) @ created) (run_events s))
      = tenant_logs t (run_events s)"
    unfolding run_log_def
    by (intro tenant_logs_append_other) (use other appended(2) in auto)
  then show ?thesis by (simp add: appended(3) run_view_def)
qed auto

end
