(* ===== verification/Jobs.thy ===== *)
theory Jobs
  imports Runs
begin

text \<open>
  The queue of background jobs: enqueueing, claiming under a lease with a per-workspace limit of
  active jobs, completing and cancelling (\<open>InMemoryConversationRepository\<close>, \<open>create_run_job\<close> to
  \<open>run_queue_stats\<close>).
\<close>

section \<open>Operations\<close>

definition create_run_job ::
  "datetime \<Rightarrow> string \<Rightarrow> auth_context \<Rightarrow> string \<Rightarrow> string \<Rightarrow> payload \<Rightarrow> int \<Rightarrow> repo
    \<Rightarrow> job_record option \<times> repo" where
  "create_run_job now uuid auth rid ty payload max_attempts s =
     (case dict_get (runs s) rid of
        None \<Rightarrow> (None, s)
      | Some run \<Rightarrow>
          if \<not> is_run_authorized auth run then (None, s)
          else
            let job = \<lparr>rec_id = opaque_id ''job'' uuid, owner_user_id = owner_user_id run,
                  workspace_id = workspace_id run, created_at = now,
                  job_run_id = rec_id run, job_type = ty, job_status = ''queued'',
                  job_payload = payload, job_attempts = 0, job_max_attempts = max_attempts,
                  job_lease_owner = None, job_leased_until = None, job_result = None,
                  job_error_code = None, job_updated_at = now\<rparr>
            in (Some job, s\<lparr>run_jobs := dict_set (rec_id job) job (run_jobs s)\<rparr>))"

definition job_workspace_active_limit :: "job_record \<Rightarrow> int" where
  "job_workspace_active_limit job = backtest_active_limit_from_payload (job_payload job)"

text \<open>Waiting, or running under a lease that has run out, and with an attempt left.\<close>

definition claimable :: "datetime \<Rightarrow> string \<Rightarrow> job_record \<Rightarrow> bool" where
  "claimable now ty job \<longleftrightarrow>
     job_type job = ty \<and> job_attempts job < job_max_attempts job \<and>
     (job_status job = ''queued'' \<or>
      (job_status job = ''running'' \<and>
       (case job_leased_until job of None \<Rightarrow> False | Some u \<Rightarrow> u < now)))"

definition leased :: "datetime \<Rightarrow> job_record \<Rightarrow> bool" where
  "leased now job \<longleftrightarrow> job_status job = ''running'' \<and>
     (case job_leased_until job of None \<Rightarrow> False | Some u \<Rightarrow> now \<le> u)"

definition workspace_running_count :: "datetime \<Rightarrow> string \<Rightarrow> string \<Rightarrow> repo \<Rightarrow> int" where
  "workspace_running_count now ty ws s =
     int (length (filter (\<lambda>item. job_type item = ty \<and> workspace_id item = ws \<and> leased now item)
       (dict_values (run_jobs s))))"

definition job_order_key :: "job_record \<Rightarrow> datetime \<times> string" where
  "job_order_key job = (created_at job, rec_id job)"

definition claim_candidate :: "datetime \<Rightarrow> string \<Rightarrow> repo \<Rightarrow> job_record option" where
  "claim_candidate now ty s =
     find (\<lambda>c. workspace_running_count now (job_type c) (workspace_id c) s
             < job_workspace_active_limit c)
       (py_sorted job_order_key (filter (claimable now ty) (dict_values (run_jobs s))))"

definition claim_run_job ::
  "datetime \<Rightarrow> string \<Rightarrow> string \<Rightarrow> int \<Rightarrow> repo \<Rightarrow> job_record option \<times> repo" where
  "claim_run_job now ty worker_id lease_seconds s =
     (case claim_candidate now ty s of
        None \<Rightarrow> (None, s)
      | Some job \<Rightarrow>
          let updated = job\<lparr>job_status := ''running'', job_attempts := job_attempts job + 1,
                job_lease_owner := Some worker_id,
                job_leased_until := Some (now + seconds lease_seconds),
                job_updated_at := now\<rparr>
          in (Some updated, s\<lparr>run_jobs := dict_set (rec_id job) updated (run_jobs s)\<rparr>))"

definition complete_run_job ::
  "datetime \<Rightarrow> string \<Rightarrow> string \<Rightarrow> payload option \<Rightarrow> string option \<Rightarrow> repo
    \<Rightarrow> job_record option \<times> repo" where
  "complete_run_job now jid status result error_code s =
     (case dict_get (run_jobs s) jid of
        None \<Rightarrow> (None, s)
      | Some job \<Rightarrow>
          let updated = job\<lparr>job_status := status, job_lease_owner := None,
                job_leased_until := None, job_result := result, job_error_code := error_code,
                job_updated_at := now\<rparr>
          in (Some updated, s\<lparr>run_jobs := dict_set (rec_id job) updated (run_jobs s)\<rparr>))"

definition cancelled_job ::
  "datetime \<Rightarrow> payload option \<Rightarrow> string option \<Rightarrow> job_record \<Rightarrow> job_record" where
  "cancelled_job now result error_code job =
     job\<lparr>job_status := ''cancelled'', job_lease_owner := None, job_leased_until := None,
       job_result := result, job_error_code := error_code, job_updated_at := now\<rparr>"

text \<open>The loop over \<open>list(self._run_jobs.values())\<close>, which writes each job back under its id.\<close>

definition cancel_run_jobs ::
  "datetime \<Rightarrow> auth_context \<Rightarrow> string \<Rightarrow> string list \<Rightarrow> payload option \<Rightarrow> string option \<Rightarrow> repo
    \<Rightarrow> int \<times> repo" where
  "cancel_run_jobs now auth rid statuses result error_code s =
     (case dict_get (runs s) rid of
        None \<Rightarrow> (0, s)
      | Some run \<Rightarrow>
          if \<not> is_run_authorized auth run then (0, s)
          else
            let (cancelled, jobs) =
              foldl (\<lambda>(n, jobs) job.
                  if job_run_id job \<noteq> rid \<or> job_status job \<notin> set statuses then (n, jobs)
                  else (n + 1,
                    dict_set (rec_id job) (cancelled_job now result error_code job) jobs))
                (0, run_jobs s) (dict_values (run_jobs s))
            in (cancelled, s\<lparr>run_jobs := jobs\<rparr>))"

definition get_run_job :: "string \<Rightarrow> repo \<Rightarrow> job_record option" where
  "get_run_job jid s = dict_get (run_jobs s) jid"

definition run_queue_stats :: "datetime \<Rightarrow> string option \<Rightarrow> repo \<Rightarrow> queue_stats" where
  "run_queue_stats now ty s =
     (let jobs = filter (\<lambda>job. case ty of None \<Rightarrow> True | Some x \<Rightarrow> job_type job = x)
                   (dict_values (run_jobs s));
          queued = filter (\<lambda>job. job_status job = ''queued'') jobs;
          running = filter (\<lambda>job. job_status job = ''running'') jobs;
          active_running = filter (\<lambda>job. case job_leased_until job of None \<Rightarrow> False | Some u \<Rightarrow> now \<le> u)
            running;
          failed = filter (\<lambda>job. job_status job = ''failed'') jobs;
          oldest = py_min (map created_at queued);
          oldest_running = py_min (map job_updated_at active_running)
      in \<lparr>qs_queued = int (length queued), qs_running = int (length running),
          qs_oldest_queued_seconds = map_option (\<lambda>t. int_seconds (now - t)) oldest,
          qs_oldest_running_seconds = map_option (\<lambda>t. int_seconds (now - t)) oldest_running,
          qs_failed = int (length failed), qs_active_running = int (length active_running),
          qs_stale_running = int (length running) - int (length active_running)\<rparr>)"

section \<open>Invariant\<close>

text \<open>
  Jobs are stored under their ids, belong to the owner of an existing run, and never have had
  more attempts than they may have.
\<close>

definition job_inv :: "repo \<Rightarrow> bool" where
  "job_inv s \<longleftrightarrow>
     keyed (run_jobs s) \<and>
     (\<forall>k j. dict_get (run_jobs s) k = Some j \<longrightarrow>
        0 \<le> job_attempts j \<and> job_attempts j \<le> max 0 (job_max_attempts j) \<and>
        (\<exists>r. dict_get (runs s) (job_run_id j) = Some r \<and> row_tenant j = row_tenant r))"

definition unused_job :: "string \<Rightarrow> repo \<Rightarrow> bool" where
  "unused_job k s \<longleftrightarrow> dict_get (run_jobs s) k = None"

lemma job_invD:
  assumes "job_inv s"
  shows "keyed (run_jobs s)"
    "dict_get (run_jobs s) k = Some j \<Longrightarrow> 0 \<le> job_attempts j"
    "dict_get (run_jobs s) k = Some j \<Longrightarrow> job_attempts j \<le> max 0 (job_max_attempts j)"
    "dict_get (run_jobs s) k = Some j \<Longrightarrow>
       \<exists>r. dict_get (runs s) (job_run_id j) = Some r \<and> row_tenant j = row_tenant r"
  using assms by (auto simp: job_inv_def)

lemma job_inv_init: "job_inv init_repo"
  by (simp add: job_inv_def init_repo_def)

text \<open>Replacing a job by one that keeps its identity, its run and its owner.\<close>

lemma job_inv_replace:
  assumes inv: "job_inv s" and j: "dict_get (run_jobs s) k = Some j"
    and j': "rec_id j' = rec_id j" "row_tenant j' = row_tenant j" "job_run_id j' = job_run_id j"
      "0 \<le> job_attempts j'" "job_attempts j' \<le> max 0 (job_max_attempts j')"
  shows "job_inv (s\<lparr>run_jobs := dict_set k j' (run_jobs s)\<rparr>)"
  using inv j' job_invD(4) [OF inv j] keyed_id [OF job_invD(1) [OF inv] j]
  by (auto simp: job_inv_def split: if_splits)

lemma create_run_job_inv:
  assumes "run_inv s" "job_inv s"
  shows "job_inv (snd (create_run_job now uuid auth rid ty p m s))"
  using assms keyed_id [OF run_invD(1) [OF assms(1)]]
  by (auto simp: create_run_job_def Let_def job_inv_def row_tenant_def
      split: option.split if_splits)

subsection \<open>What a claim does\<close>

lemma claim_candidate_Some:
  assumes "claim_candidate now ty s = Some job"
  shows "claimable now ty job" "job \<in> set (dict_values (run_jobs s))"
    "workspace_running_count now (job_type job) (workspace_id job) s < job_workspace_active_limit job"
  using find_SomeD [OF assms [unfolded claim_candidate_def]] by auto

text \<open>Every claimable job that is older than the claimed one is held back by its workspace's limit.\<close>

lemma claim_candidate_oldest:
  assumes c: "claim_candidate now ty s = Some job"
    and older: "claimable now ty other" "other \<in> set (dict_values (run_jobs s))"
      "job_order_key other < job_order_key job"
  shows "job_workspace_active_limit other \<le>
    workspace_running_count now (job_type other) (workspace_id other) s"
proof -
  let ?xs = "py_sorted job_order_key (filter (claimable now ty) (dict_values (run_jobs s)))"
  obtain i where i: "i < length ?xs" "job = ?xs ! i"
    "\<forall>j<i. \<not> workspace_running_count now (job_type (?xs ! j)) (workspace_id (?xs ! j)) s
        < job_workspace_active_limit (?xs ! j)"
    using c by (auto simp: claim_candidate_def find_Some_iff)
  have "other \<in> set ?xs" using older by simp
  then obtain j where j: "j < length ?xs" "other = ?xs ! j" by (metis in_set_conv_nth)
  have "j < i"
  proof (rule ccontr)
    assume "\<not> j < i"
    then have "map job_order_key ?xs ! i \<le> map job_order_key ?xs ! j"
      by (intro sorted_nth_mono sorted_py_sorted) (use j(1) in simp_all)
    then have "job_order_key (?xs ! i) \<le> job_order_key (?xs ! j)"
      using i(1) j(1) by simp
    with older(3) i(2) j(2) show False by simp
  qed
  with i(3) j(2) show ?thesis by (auto simp: not_less)
qed

lemma claim_candidate_None:
  "claim_candidate now ty s = None \<longleftrightarrow>
    (\<forall>job \<in> set (dict_values (run_jobs s)). claimable now ty job \<longrightarrow>
       job_workspace_active_limit job \<le>
       workspace_running_count now (job_type job) (workspace_id job) s)"
  by (auto simp: claim_candidate_def find_None_iff not_less)

lemma claim_run_job_cases:
  obtains (none) "claim_candidate now ty s = None" "claim_run_job now ty w l s = (None, s)"
  | (claimed) job job' where "claim_candidate now ty s = Some job"
      "job' = job\<lparr>job_status := ''running'', job_attempts := job_attempts job + 1,
         job_lease_owner := Some w, job_leased_until := Some (now + seconds l),
         job_updated_at := now\<rparr>"
      "claim_run_job now ty w l s =
         (Some job', s\<lparr>run_jobs := dict_set (rec_id job) job' (run_jobs s)\<rparr>)"
  unfolding claim_run_job_def Let_def by (cases "claim_candidate now ty s") auto

lemma claim_run_job_inv:
  assumes inv: "job_inv s"
  shows "job_inv (snd (claim_run_job now ty w l s))"
proof (cases rule: claim_run_job_cases [of now ty s w l])
  case (claimed job job')
  have j: "dict_get (run_jobs s) (rec_id job) = Some job"
    using claim_candidate_Some(2) [OF claimed(1)] keyed_value [OF job_invD(1) [OF inv]] by blast
  have "job_attempts job < job_max_attempts job"
    using claim_candidate_Some(1) [OF claimed(1)] by (simp add: claimable_def)
  with job_invD(2) [OF inv j] show ?thesis
    unfolding claimed(3) snd_conv
    by (intro job_inv_replace [OF inv j]) (auto simp: claimed(2) row_tenant_def)
qed (use inv in simp)

lemma complete_run_job_inv:
  assumes inv: "job_inv s"
  shows "job_inv (snd (complete_run_job now jid status res err s))"
proof (cases "dict_get (run_jobs s) jid")
  case (Some j)
  have "rec_id j = jid" using keyed_id [OF job_invD(1) [OF inv] Some] .
  then show ?thesis
    using job_invD(2,3) [OF inv Some] job_inv_replace [OF inv Some]
    by (simp add: complete_run_job_def Let_def Some row_tenant_def)
qed (simp add: complete_run_job_def inv)

subsection \<open>Cancelling is a map over the table\<close>

definition upd_values :: "('v \<Rightarrow> bool) \<Rightarrow> ('v \<Rightarrow> 'v) \<Rightarrow> 'v dict \<Rightarrow> 'v dict" where
  "upd_values P f d = map (\<lambda>(k, v). (k, if P v then f v else v)) d"

lemma dict_set_middle:
  "k \<notin> fst ` set pre \<Longrightarrow> dict_set k v (pre @ (k, u) # suf) = pre @ (k, v) # suf"
  by (induction pre) auto

lemma foldl_write_back:
  assumes "dict_ok (pre @ suf)" "\<forall>(k, v) \<in> set suf. rec_id v = k"
  shows "foldl (\<lambda>(n, d) v. if \<not> P v then (n, d) else (n + 1, dict_set (rec_id v) (f v) d))
      (n, pre @ suf) (dict_values suf) =
    (n + int (length (filter P (dict_values suf))), pre @ upd_values P f suf)"
  using assms
proof (induction suf arbitrary: pre n)
  case Nil
  then show ?case by (simp add: upd_values_def)
next
  case (Cons kv suf)
  obtain k v where kv: "kv = (k, v)" by (cases kv)
  let ?v = "if P v then f v else v"
  have k: "rec_id v = k" "k \<notin> fst ` set pre"
    using Cons.prems kv by (auto simp: dict_ok_def)
  have "dict_ok ((pre @ [(k, ?v)]) @ suf)" "\<forall>(k, v) \<in> set suf. rec_id v = k"
    using Cons.prems kv by (auto simp: dict_ok_def)
  note IH = Cons.IH [OF this]
  show ?case
    using IH [of "n + (if P v then 1 else 0)"] k
    by (cases "P v") (simp_all add: kv upd_values_def dict_set_middle)
qed

lemma upd_values_get [simp]:
  "dict_get (upd_values P f d) k = map_option (\<lambda>v. if P v then f v else v) (dict_get d k)"
  by (induction d) (auto simp: upd_values_def)

lemma upd_values_keys [simp]: "map fst (upd_values P f d) = map fst d"
  by (induction d) (auto simp: upd_values_def)

lemma upd_values_ok [simp]: "dict_ok (upd_values P f d) = dict_ok d"
  by (simp add: dict_ok_def)

abbreviation cancel_selects :: "string \<Rightarrow> string list \<Rightarrow> job_record \<Rightarrow> bool" where
  "cancel_selects rid statuses job \<equiv> job_run_id job = rid \<and> job_status job \<in> set statuses"

lemma cancel_run_jobs_eq:
  assumes "job_inv s"
  shows "cancel_run_jobs now auth rid sts res err s =
    (case get_run auth rid s of
       None \<Rightarrow> (0, s)
     | Some _ \<Rightarrow>
         (int (length (filter (cancel_selects rid sts) (dict_values (run_jobs s)))),
          s\<lparr>run_jobs := upd_values (cancel_selects rid sts) (cancelled_job now res err) (run_jobs s)\<rparr>))"
proof -
  have ok: "dict_ok (run_jobs s)" "\<forall>(k, v) \<in> set (run_jobs s). rec_id v = k"
    using job_invD(1) [OF assms] by (auto simp: keyed_def dest: dict_in_get)
  have f: "(\<lambda>(n, jobs) job. if job_run_id job \<noteq> rid \<or> job_status job \<notin> set sts then (n, jobs)
              else (n + 1, dict_set (rec_id job) (cancelled_job now res err job) jobs)) =
      (\<lambda>(n, d) v. if \<not> cancel_selects rid sts v then (n, d)
              else (n + 1, dict_set (rec_id v) (cancelled_job now res err v) d))"
    by (auto simp: fun_eq_iff)
  show ?thesis
    using foldl_write_back [of "[]" "run_jobs s" "cancel_selects rid sts" "cancelled_job now res err" 0] ok
    by (auto simp: cancel_run_jobs_def get_run_def f split: option.split)
qed

lemma cancelled_job_simps [simp]:
  "rec_id (cancelled_job now res err j) = rec_id j"
  "owner_user_id (cancelled_job now res err j) = owner_user_id j"
  "workspace_id (cancelled_job now res err j) = workspace_id j"
  "job_run_id (cancelled_job now res err j) = job_run_id j"
  "job_attempts (cancelled_job now res err j) = job_attempts j"
  "job_max_attempts (cancelled_job now res err j) = job_max_attempts j"
  "job_status (cancelled_job now res err j) = ''cancelled''"
  "job_leased_until (cancelled_job now res err j) = None"
  "job_type (cancelled_job now res err j) = job_type j"
  by (simp_all add: cancelled_job_def)

lemma cancel_run_jobs_inv:
  assumes inv: "job_inv s"
  shows "job_inv (snd (cancel_run_jobs now auth rid sts res err s))"
  using inv by (auto simp: cancel_run_jobs_eq [OF inv] job_inv_def keyed_def row_tenant_def
      split: option.split)

section \<open>Guarantees of the queue\<close>

lemma claim_stored:
  assumes "job_inv s" "claim_candidate now ty s = Some job"
  shows "dict_get (run_jobs s) (rec_id job) = Some job"
  using claim_candidate_Some(2) [OF assms(2)] keyed_value [OF job_invD(1) [OF assms(1)]] by blast

text \<open>A job under a running lease is never handed out again.\<close>

lemma claimable_not_leased: "claimable now ty job \<Longrightarrow> \<not> leased now job"
  by (auto simp: claimable_def leased_def split: option.splits)

text \<open>
  After a claim the workspace of the claimed job has one more active job of that type, and no
  more than the limit its payload states.
\<close>

lemma claim_respects_limit:
  assumes inv: "job_inv s" and l: "0 \<le> l" and claim: "claim_run_job now ty w l s = (Some job', s')"
  shows "workspace_running_count now (job_type job') (workspace_id job') s' \<le>
    job_workspace_active_limit job'"
  using claim
proof (cases rule: claim_run_job_cases [of now ty s w l])
  case (claimed job j')
  have j: "j' = job'" "s' = s\<lparr>run_jobs := dict_set (rec_id job) job' (run_jobs s)\<rparr>"
    using claim claimed(3) by auto
  have same: "job_type job' = job_type job" "workspace_id job' = workspace_id job"
      "job_workspace_active_limit job' = job_workspace_active_limit job" "leased now job'"
    using claimed(2) j(1) l by (auto simp: job_workspace_active_limit_def leased_def seconds_def)
  have nl: "\<not> leased now job"
    by (rule claimable_not_leased) (rule claim_candidate_Some(1) [OF claimed(1)])
  have "workspace_running_count now (job_type job) (workspace_id job) s' =
      workspace_running_count now (job_type job) (workspace_id job) s + 1"
    unfolding workspace_running_count_def j(2)
    using count_values_set [OF keyed_ok [OF job_invD(1) [OF inv]] claim_stored [OF inv claimed(1)],
        of "\<lambda>item. job_type item = job_type job \<and> workspace_id item = workspace_id job \<and> leased now item"
          job'] same nl by simp
  with claim_candidate_Some(3) [OF claimed(1)] same show ?thesis by simp
qed (use claim in simp)

subsection \<open>The queue as a step relation\<close>

text \<open>
  One step of the queue, labelled with the id of the job it hands out, if it hands one out; and
  the ids handed out along a run of the queue.
\<close>

inductive queue_step :: "repo \<Rightarrow> string option \<Rightarrow> repo \<Rightarrow> bool" where
  enqueue: "unused_job (opaque_id ''job'' uuid) s \<Longrightarrow>
     create_run_job now uuid auth rid ty p m s = (r, s') \<Longrightarrow> queue_step s None s'"
| claim: "claim_run_job now ty w l s = (r, s') \<Longrightarrow> queue_step s (map_option rec_id r) s'"
| complete: "complete_run_job now jid status res err s = (r, s') \<Longrightarrow> queue_step s None s'"
| cancel: "cancel_run_jobs now auth rid sts res err s = (n, s') \<Longrightarrow> queue_step s None s'"

inductive queue_run :: "repo \<Rightarrow> string list \<Rightarrow> repo \<Rightarrow> bool" where
  halt: "queue_run s [] s"
| more: "queue_step s l s' \<Longrightarrow> queue_run s' ls s'' \<Longrightarrow>
     queue_run s (case l of None \<Rightarrow> ls | Some k \<Rightarrow> k # ls) s''"

text \<open>The attempts of one job across one step: counted when it is handed out, kept otherwise.\<close>

definition attempts_advance :: "string \<Rightarrow> nat \<Rightarrow> repo \<Rightarrow> repo \<Rightarrow> bool" where
  "attempts_advance k n s s' \<longleftrightarrow>
     (\<forall>j. dict_get (run_jobs s) k = Some j \<longrightarrow>
        (\<exists>j'. dict_get (run_jobs s') k = Some j' \<and> job_max_attempts j' = job_max_attempts j \<and>
           job_attempts j' = job_attempts j + int n))"

lemma attempts_advance_refl: "attempts_advance k 0 s s"
  by (simp add: attempts_advance_def)

lemma attempts_advance_trans:
  assumes "attempts_advance k m s s'" "attempts_advance k n s' s''"
  shows "attempts_advance k (m + n) s s''"
  unfolding attempts_advance_def
proof (intro allI impI)
  fix j assume "dict_get (run_jobs s) k = Some j"
  with assms(1) obtain j1 where j1: "dict_get (run_jobs s') k = Some j1"
    "job_max_attempts j1 = job_max_attempts j" "job_attempts j1 = job_attempts j + int m"
    by (auto simp: attempts_advance_def)
  with assms(2) obtain j2 where "dict_get (run_jobs s'') k = Some j2"
    "job_max_attempts j2 = job_max_attempts j1" "job_attempts j2 = job_attempts j1 + int n"
    by (auto simp: attempts_advance_def)
  with j1 show "\<exists>j'. dict_get (run_jobs s'') k = Some j' \<and> job_max_attempts j' = job_max_attempts j
      \<and> job_attempts j' = job_attempts j + int (m + n)" by auto
qed

lemma queue_step_advance:
  assumes "queue_step s l s'" "job_inv s"
  shows "attempts_advance k (if l = Some k then 1 else 0) s s'"
  using assms
proof (induction rule: queue_step.induct)
  case (enqueue uuid s now auth rid ty p m r s')
  then show ?case
    by (auto simp: create_run_job_def Let_def attempts_advance_def unused_job_def
        split: option.splits if_splits)
next
  case (claim now ty w l s r s')
  show ?case
    using claim
  proof (cases rule: claim_run_job_cases [of now ty s w l])
    case (claimed job job')
    then show ?thesis
      using claim claim_stored [OF claim(2) claimed(1)] by (auto simp: attempts_advance_def)
  qed (use claim in \<open>auto simp: attempts_advance_def\<close>)
next
  case (complete now jid status res err s r s')
  show ?case
  proof (cases "dict_get (run_jobs s) jid")
    case (Some j)
    then have "rec_id j = jid"
      using keyed_id [OF job_invD(1) [OF complete(2)]] by blast
    with Some complete(1) show ?thesis
      by (auto simp: complete_run_job_def Let_def attempts_advance_def)
  qed (use complete(1) in \<open>auto simp: complete_run_job_def attempts_advance_def\<close>)
next
  case (cancel now auth rid sts res err s n s')
  then show ?case
    by (auto simp: cancel_run_jobs_eq attempts_advance_def split: option.splits)
qed

lemma queue_step_inv:
  assumes "queue_step s l s'" "run_inv s" "job_inv s"
  shows "run_inv s' \<and> job_inv s'"
  using assms
proof (induction rule: queue_step.induct)
  case (enqueue uuid s now auth rid ty p m r s')
  then have "job_inv s'" using create_run_job_inv [of s now uuid auth rid ty p m] by simp
  moreover have "run_inv s'"
    using enqueue by (auto simp: create_run_job_def Let_def run_inv_def split: option.splits if_splits)
  ultimately show ?case by simp
next
  case (claim now ty w l s r s')
  then have "job_inv s'" using claim_run_job_inv [of s now ty w l] by simp
  moreover have "run_inv s'"
    using claim by (auto simp: claim_run_job_def Let_def run_inv_def split: option.splits)
  ultimately show ?case by simp
next
  case (complete now jid status res err s r s')
  then have "job_inv s'" using complete_run_job_inv [of s now jid status res err] by simp
  moreover have "run_inv s'"
    using complete by (auto simp: complete_run_job_def Let_def run_inv_def split: option.splits)
  ultimately show ?case by simp
next
  case (cancel now auth rid sts res err s n s')
  then have "job_inv s'" using cancel_run_jobs_inv [of s now auth rid sts res err] by simp
  moreover have "run_inv s'"
    using cancel by (auto simp: cancel_run_jobs_eq run_inv_def split: option.splits)
  ultimately show ?case by simp
qed

lemma queue_run_advance:
  assumes "queue_run s ls s'" "run_inv s" "job_inv s"
  shows "attempts_advance k (count_list ls k) s s' \<and> job_inv s'"
  using assms
proof (induction rule: queue_run.induct)
  case (halt s)
  then show ?case by (simp add: attempts_advance_refl)
next
  case (more s l s' ls s'')
  then have "run_inv s'" "job_inv s'" using queue_step_inv by blast+
  with more have "attempts_advance k (count_list ls k) s' s''" "job_inv s''" by auto
  moreover have "attempts_advance k (if l = Some k then 1 else 0) s s'"
    using queue_step_advance more by blast
  ultimately show ?case
    using attempts_advance_trans by (fastforce split: option.split)
qed

section \<open>Isolation\<close>

definition job_view :: "tenant \<Rightarrow> repo \<Rightarrow> job_record dict" where
  "job_view t s = tenant_rows t (run_jobs s)"

lemma create_run_job_isolated:
  assumes "unused_job (opaque_id ''job'' uuid) s" "auth_tenant auth \<noteq> t"
  shows "job_view t (snd (create_run_job now uuid auth rid ty p m s)) = job_view t s"
  using assms
  by (auto simp: create_run_job_def Let_def job_view_def unused_job_def row_tenant_def
      is_authorized_tenant split: option.split intro!: tenant_rows_set_other)

lemma dict_filter_upd_values:
  assumes "\<And>k v. (k, v) \<in> set d \<Longrightarrow> P v \<Longrightarrow> \<not> Q v \<and> \<not> Q (f v)"
  shows "dict_filter Q (upd_values P f d) = dict_filter Q d"
  using assms
proof (induction d)
  case (Cons kv d)
  have "dict_filter Q (upd_values P f d) = dict_filter Q d"
    by (rule Cons.IH) (use Cons.prems in auto)
  then show ?case
    using Cons.prems [of "fst kv" "snd kv"]
    by (cases kv) (simp add: dict_filter_def upd_values_def)
qed (simp add: dict_filter_def upd_values_def)

lemma cancel_run_jobs_isolated:
  assumes inv: "run_inv s" "job_inv s" and other: "auth_tenant auth \<noteq> t"
  shows "job_view t (snd (cancel_run_jobs now auth rid sts res err s)) = job_view t s"
proof (cases "get_run auth rid s")
  case (Some r)
  have r: "dict_get (runs s) rid = Some r" "row_tenant r = auth_tenant auth"
    using Some by (simp_all add: run.fetch_eq owned_get_Some is_authorized_tenant)
  have own: "row_tenant j = auth_tenant auth"
    if "(k, j) \<in> set (run_jobs s)" "job_run_id j = rid" for k j
  proof -
    have "dict_get (run_jobs s) k = Some j"
      using that job_invD(1) [OF inv(2)] by (simp add: dict_in_get)
    with that r job_invD(4) [OF inv(2)] show ?thesis by fastforce
  qed
  show ?thesis
    using own other
    by (auto simp: cancel_run_jobs_eq [OF inv(2)] Some job_view_def tenant_rows_def row_tenant_def
        auth_tenant_def intro!: dict_filter_upd_values)
qed (simp add: cancel_run_jobs_eq [OF inv(2)])

end
