(* ===== verification/Paging.thy ===== *)
theory Paging
  imports Prelude
begin

text \<open>
  The contract of keyset pagination: a page holds the next rows below a key in a listing that
  descends strictly by that key, and names the key of its last row when rows are left.  A client
  that follows the keys sees the listing exactly once.
\<close>

text \<open>
  The client's loop over the pages, with fuel; the result is \<open>None\<close> when the fuel runs out.
\<close>

fun walk_pages :: "('k option \<Rightarrow> 'a list \<times> 'k option) \<Rightarrow> nat \<Rightarrow> 'k option \<Rightarrow> 'a list option" where
  "walk_pages page 0 c = None"
| "walk_pages page (Suc fuel) c =
     (case page c of
        (items, None) \<Rightarrow> Some items
      | (items, Some k) \<Rightarrow> map_option (\<lambda>rest. items @ rest) (walk_pages page fuel (Some k)))"

definition below :: "('a \<Rightarrow> 'k::linorder) \<Rightarrow> 'k option \<Rightarrow> 'a list \<Rightarrow> 'a list" where
  "below key c xs = filter (\<lambda>x. case c of None \<Rightarrow> True | Some k \<Rightarrow> key x < k) xs"

lemma below_None [simp]: "below key None xs = xs"
  by (simp add: below_def)

lemma below_key_of_nth:
  assumes "sorted_wrt (\<lambda>x y. key y < key x) xs" "i < length xs"
  shows "below key (Some (key (xs ! i))) xs = drop (Suc i) xs"
  using assms
proof (induction xs arbitrary: i)
  case (Cons x xs)
  show ?case
  proof (cases i)
    case 0
    with Cons.prems show ?thesis
      by (auto simp: below_def intro!: filter_True)
  next
    case (Suc j)
    with Cons.prems have "key (xs ! j) < key x" by simp
    then have "\<not> key x < key (xs ! j)" by (simp add: not_less less_imp_le)
    then have "below key (Some (key ((x # xs) ! i))) (x # xs) = below key (Some (key (xs ! j))) xs"
      by (simp add: below_def Suc)
    also have "\<dots> = drop (Suc j) xs" by (rule Cons.IH) (use Cons.prems Suc in auto)
    finally show ?thesis by (simp add: Suc)
  qed
qed simp

locale keyset_pages =
  fixes key :: "'a \<Rightarrow> 'k::linorder"
    and inv :: "'s \<Rightarrow> bool"
    and listing :: "'s \<Rightarrow> 'a list"
    and size :: nat
    and page :: "'s \<Rightarrow> 'k option \<Rightarrow> 'a list \<times> 'k option"
  assumes descending: "inv s \<Longrightarrow> sorted_wrt (\<lambda>x y. key y < key x) (listing s)"
    and size_pos: "0 < size"
    and page_eq: "inv s \<Longrightarrow> page s c =
      (let rest = below key c (listing s)
       in (take size rest, if size < length rest then Some (key (last (take size rest))) else None))"
begin

lemma page_length: "inv s \<Longrightarrow> length (fst (page s c)) \<le> size"
  by (simp add: page_eq Let_def)

lemma walk_from:
  assumes "inv s"
    and "length (listing s) - i < fuel * size"
    and "below key c (listing s) = drop i (listing s)"
  shows "walk_pages (page s) fuel c = Some (drop i (listing s))"
  using assms(2,3)
proof (induction fuel arbitrary: i c)
  case (Suc fuel)
  let ?xs = "listing s"
  show ?case
  proof (cases "size < length ?xs - i")
    case False
    with Suc.prems assms(1) show ?thesis by (simp add: page_eq Let_def)
  next
    case True
    let ?j = "i + size"
    have "take size (drop i ?xs) \<noteq> []"
      using True size_pos by auto
    then have lst: "last (take size (drop i ?xs)) = ?xs ! (?j - 1)"
      using True size_pos by (simp add: last_conv_nth min_def nth_append)
    have pg: "page s c = (take size (drop i ?xs), Some (key (?xs ! (?j - 1))))"
      using Suc.prems(2) assms(1) True by (simp add: page_eq Let_def lst)
    have "below key (Some (key (?xs ! (?j - 1)))) ?xs = drop ?j ?xs"
      using below_key_of_nth [OF descending [OF assms(1)], of "?j - 1"] True size_pos by simp
    then have IH: "walk_pages (page s) fuel (Some (key (?xs ! (?j - 1)))) = Some (drop ?j ?xs)"
      using Suc.prems(1) True by (intro Suc.IH) auto
    have "take size (drop i ?xs) @ drop ?j ?xs = drop i ?xs"
      by (metis add.commute append_take_drop_id drop_drop)
    then show ?thesis by (simp only: walk_pages.simps pg IH prod.case option.case option.map)
  qed
qed simp

text \<open>
  As many pages as the listing has rows, and one more, are enough, and the pages concatenate to
  the listing.
\<close>

lemma walk_complete:
  assumes "inv s" "length (listing s) < fuel"
  shows "walk_pages (page s) fuel None = Some (listing s)"
proof -
  have "length (listing s) * 1 < fuel * size"
    using assms(2) size_pos by (intro mult_less_le_imp_less) auto
  then show ?thesis using walk_from [OF assms(1), of 0 fuel None] by simp
qed

end

end
