(* ===== verification/Artifacts.thy ===== *)
theory Artifacts
  imports Jobs Paging
begin

text \<open>
  Artifacts of runs and their listings (\<open>InMemoryConversationRepository\<close>, \<open>create_artifact\<close> to
  \<open>_list_artifact_page\<close>).  A page cursor is the pair of creation time and id that its text
  encodes; the encoding itself is not modelled.
\<close>

section \<open>Operations\<close>

text \<open>The attributes a caller gives: kind, MIME type, display name, storage key, metadata.\<close>

type_synonym artifact_input =
  "string \<times> string option \<times> string \<times> string \<times> payload option"

definition new_artifact ::
  "datetime \<Rightarrow> string \<Rightarrow> run_record \<Rightarrow> artifact_input \<Rightarrow> artifact_record" where
  "new_artifact now uuid run i =
     (case i of (kind, mime_type, display_name, storage_key, metadata) \<Rightarrow>
        \<lparr>rec_id = opaque_id ''art'' uuid, owner_user_id = owner_user_id run,
         workspace_id = workspace_id run, created_at = now,
         art_run_id = Some (rec_id run), art_conversation_id = Some (run_conversation_id run),
         art_kind = kind, art_mime_type = mime_type, art_display_name = display_name,
         art_storage_key = storage_key, art_metadata = metadata\<rparr>)"

definition create_artifact ::
  "datetime \<Rightarrow> string \<Rightarrow> auth_context \<Rightarrow> string \<Rightarrow> artifact_input \<Rightarrow> repo
    \<Rightarrow> artifact_record option \<times> repo" where
  "create_artifact now uuid auth rid i s =
     (case dict_get (runs s) rid of
        None \<Rightarrow> (None, s)
      | Some run \<Rightarrow>
          if \<not> is_run_authorized auth run then (None, s)
          else
            let artifact = new_artifact now uuid run i
            in (Some artifact, s\<lparr>artifacts := dict_set (rec_id artifact) artifact (artifacts s)\<rparr>))"

definition create_artifacts ::
  "datetime \<Rightarrow> (nat \<Rightarrow> string) \<Rightarrow> auth_context \<Rightarrow> string \<Rightarrow> artifact_input list \<Rightarrow> repo
    \<Rightarrow> artifact_record list option \<times> repo" where
  "create_artifacts now draw auth rid inputs s =
     (case dict_get (runs s) rid of
        None \<Rightarrow> (None, s)
      | Some run \<Rightarrow>
          if \<not> is_run_authorized auth run then (None, s)
          else
            let created = map (\<lambda>(n, i). new_artifact now (draw n) run i)
                            (zip [0..<length inputs] inputs)
            in (Some created,
                s\<lparr>artifacts := foldl (\<lambda>d a. dict_set (rec_id a) a d) (artifacts s) created\<rparr>))"

definition owns :: "auth_context \<Rightarrow> 'a row_scheme \<Rightarrow> bool" where
  "owns auth r \<longleftrightarrow> owner_user_id r = user_id auth \<and> workspace_id r = auth_workspace_id auth"

lemma owns_eq [simp]: "owns auth r = is_authorized auth r"
  by (simp add: owns_def is_authorized_def)

definition list_artifacts :: "auth_context \<Rightarrow> string \<Rightarrow> repo \<Rightarrow> artifact_record list option" where
  "list_artifacts auth rid s =
     (case get_run auth rid s of
        None \<Rightarrow> None
      | Some run \<Rightarrow>
          Some (py_sorted (\<lambda>a. (created_at a, art_storage_key a, rec_id a))
            (filter (\<lambda>a. art_run_id a = Some (rec_id run) \<and> owns auth a)
              (dict_values (artifacts s)))))"

definition artifact_key :: "artifact_record \<Rightarrow> datetime \<times> string" where
  "artifact_key a = (created_at a, rec_id a)"

definition get_latest_conversation_artifact ::
  "auth_context \<Rightarrow> string \<Rightarrow> string list \<Rightarrow> datetime option \<Rightarrow> repo \<Rightarrow> artifact_record option" where
  "get_latest_conversation_artifact auth cid kinds before s =
     (case get_conversation auth cid s of
        None \<Rightarrow> None
      | Some conversation \<Rightarrow>
          head_opt (py_sorted_rev artifact_key
            (filter (\<lambda>a. art_conversation_id a = Some (rec_id conversation) \<and> owns auth a
                \<and> art_kind a \<in> set kinds
                \<and> (case before of None \<Rightarrow> True | Some t \<Rightarrow> created_at a \<le> t))
              (dict_values (artifacts s)))))"

definition get_artifact :: "auth_context \<Rightarrow> string \<Rightarrow> repo \<Rightarrow> artifact_record option" where
  "get_artifact auth aid s =
     (case dict_get (artifacts s) aid of
        None \<Rightarrow> None
      | Some artifact \<Rightarrow>
          if owner_user_id artifact \<noteq> user_id auth
             \<or> workspace_id artifact \<noteq> auth_workspace_id auth then None
          else Some artifact)"

definition CONVERSATION_ARTIFACT_STATE_LIMIT :: int where
  "CONVERSATION_ARTIFACT_STATE_LIMIT = 50"

definition CONVERSATION_ARTIFACT_PAGE_MAX_LIMIT :: int where
  "CONVERSATION_ARTIFACT_PAGE_MAX_LIMIT = 100"

definition bounded_artifact_page_limit :: "int option \<Rightarrow> int" where
  "bounded_artifact_page_limit limit =
     (case limit of
        None \<Rightarrow> CONVERSATION_ARTIFACT_STATE_LIMIT
      | Some n \<Rightarrow> min CONVERSATION_ARTIFACT_PAGE_MAX_LIMIT (max 1 n))"

datatype visibility = User_Visible | All_Visible

text \<open>The rows a page is taken from, before the cursor and the limit apply.\<close>

definition page_rows ::
  "auth_context \<Rightarrow> string option \<Rightarrow> visibility \<Rightarrow> repo \<Rightarrow> artifact_record list" where
  "page_rows auth cid vis s =
     filter (\<lambda>a. (case cid of None \<Rightarrow> True | Some c \<Rightarrow> art_conversation_id a = Some c)
         \<and> owns auth a \<and> (vis = All_Visible \<or> is_user_visible_artifact_kind (art_kind a)))
       (dict_values (artifacts s))"

text \<open>\<open>_list_artifact_page\<close> on a decoded cursor; the second component is the next page's cursor.\<close>

definition artifact_page_at ::
  "auth_context \<Rightarrow> string option \<Rightarrow> int option \<Rightarrow> visibility \<Rightarrow> repo \<Rightarrow> (datetime \<times> string) option
    \<Rightarrow> artifact_record list \<times> (datetime \<times> string) option" where
  "artifact_page_at auth cid limit vis s cursor_value =
     (let bounded_limit = bounded_artifact_page_limit limit;
          rows = filter (\<lambda>a. case cursor_value of None \<Rightarrow> True
                    | Some k \<Rightarrow> (created_at a, rec_id a) < k) (page_rows auth cid vis s);
          page = first_n (bounded_limit + 1) (py_sorted_rev artifact_key rows);
          items = first_n bounded_limit page
      in (items, if bounded_limit < int (length page) \<and> items \<noteq> []
                 then Some (artifact_key (last items)) else None))"

section \<open>The accessor contract\<close>

interpretation art: owned_resource get_artifact artifacts
  by unfold_locales (auto simp: get_artifact_def owned_get_def is_authorized_def split: option.split)

section \<open>Invariant\<close>

text \<open>Artifacts are stored under their ids and belong to the owner and conversation of their run.\<close>

definition art_inv :: "repo \<Rightarrow> bool" where
  "art_inv s \<longleftrightarrow>
     keyed (artifacts s) \<and>
     (\<forall>k a. dict_get (artifacts s) k = Some a \<longrightarrow>
        (\<exists>rid r. art_run_id a = Some rid \<and> dict_get (runs s) rid = Some r \<and>
           art_conversation_id a = Some (run_conversation_id r) \<and> row_tenant a = row_tenant r))"

definition unused_artifact :: "string \<Rightarrow> repo \<Rightarrow> bool" where
  "unused_artifact k s \<longleftrightarrow> dict_get (artifacts s) k = None"

lemma art_invD:
  assumes "art_inv s"
  shows "keyed (artifacts s)"
    "dict_get (artifacts s) k = Some a \<Longrightarrow>
       \<exists>rid r. art_run_id a = Some rid \<and> dict_get (runs s) rid = Some r \<and>
           art_conversation_id a = Some (run_conversation_id r) \<and> row_tenant a = row_tenant r"
  using assms by (auto simp: art_inv_def)

lemma art_inv_init: "art_inv init_repo"
  by (simp add: art_inv_def init_repo_def)

lemma new_artifact_simps [simp]:
  "rec_id (new_artifact now uuid run i) = opaque_id ''art'' uuid"
  "owner_user_id (new_artifact now uuid run i) = owner_user_id run"
  "workspace_id (new_artifact now uuid run i) = workspace_id run"
  "created_at (new_artifact now uuid run i) = now"
  "art_run_id (new_artifact now uuid run i) = Some (rec_id run)"
  "art_conversation_id (new_artifact now uuid run i) = Some (run_conversation_id run)"
  by (simp_all add: new_artifact_def split: prod.split)

lemma art_inv_store:
  assumes "run_inv s" "art_inv s" "dict_get (runs s) rid = Some run"
    and "rec_id a = k" "art_run_id a = Some rid"
      "art_conversation_id a = Some (run_conversation_id run)" "row_tenant a = row_tenant run"
  shows "art_inv (s\<lparr>artifacts := dict_set k a (artifacts s)\<rparr>)"
  using assms by (auto simp: art_inv_def split: if_splits)

lemma create_artifact_inv:
  assumes "run_inv s" "art_inv s"
  shows "art_inv (snd (create_artifact now uuid auth rid i s))"
proof (cases "dict_get (runs s) rid")
  case (Some run)
  have "rec_id run = rid" using keyed_id [OF run_invD(1) [OF assms(1)] Some] .
  then show ?thesis
    using assms Some
    by (auto simp: create_artifact_def Let_def row_tenant_def intro!: art_inv_store)
qed (simp add: create_artifact_def assms)

lemma art_inv_store_all:
  assumes "run_inv s" "art_inv s" "dict_get (runs s) rid = Some run"
    and "\<And>a. a \<in> set as \<Longrightarrow> art_run_id a = Some rid \<and>
      art_conversation_id a = Some (run_conversation_id run) \<and> row_tenant a = row_tenant run"
  shows "art_inv (s\<lparr>artifacts := foldl (\<lambda>d a. dict_set (rec_id a) a d) (artifacts s) as\<rparr>)"
  using assms
proof (induction as arbitrary: s)
  case (Cons a as)
  let ?s = "s\<lparr>artifacts := dict_set (rec_id a) a (artifacts s)\<rparr>"
  have "art_inv ?s" by (rule art_inv_store) (use Cons.prems in auto)
  moreover have "run_inv ?s" using Cons.prems(1) by (simp add: run_inv_def)
  ultimately show ?case
    using Cons.IH [of ?s] Cons.prems by simp
qed simp

lemma create_artifacts_inv:
  assumes "run_inv s" "art_inv s"
  shows "art_inv (snd (create_artifacts now draw auth rid inputs s))"
proof (cases "dict_get (runs s) rid")
  case (Some run)
  have "rec_id run = rid" using keyed_id [OF run_invD(1) [OF assms(1)] Some] .
  then show ?thesis
    using assms Some
    by (auto simp: create_artifacts_def Let_def row_tenant_def
        intro!: art_inv_store_all [OF assms Some])
qed (simp add: create_artifacts_def assms)

section \<open>Pages\<close>

text \<open>The whole listing, newest first, that the pages cut up.\<close>

definition artifact_listing ::
  "auth_context \<Rightarrow> string option \<Rightarrow> visibility \<Rightarrow> repo \<Rightarrow> artifact_record list" where
  "artifact_listing auth cid vis s = py_sorted_rev artifact_key (page_rows auth cid vis s)"

lemma keyed_ids_distinct: "keyed d \<Longrightarrow> distinct (map rec_id (dict_values d))"
proof -
  assume k: "keyed d"
  have "map rec_id (dict_values d) = map fst d"
    using k by (auto simp: dict_values_def keyed_def dest: dict_in_get)
  with k show ?thesis by (simp add: keyed_def dict_ok_def)
qed

lemma descending_if_distinct:
  fixes f :: "'a \<Rightarrow> 'k::linorder"
  assumes "sorted_wrt (\<lambda>x y. f y \<le> f x) xs" "distinct (map f xs)"
  shows "sorted_wrt (\<lambda>x y. f y < f x) xs"
  using assms
proof (induction xs)
  case (Cons x xs)
  have "f y < f x" if "y \<in> set xs" for y
  proof (rule le_neq_trans)
    show "f y \<le> f x" using that Cons.prems by simp
    have "f y \<in> f ` set xs" using that by (rule imageI)
    with Cons.prems(2) show "f y \<noteq> f x" by auto
  qed
  with Cons show ?case by simp
qed simp

lemma distinct_map_filter_rev_sort:
  "distinct (map f xs) \<Longrightarrow> distinct (map f (py_sorted_rev g (filter P xs)))"
  by (auto simp: distinct_map intro: inj_on_subset)

lemma artifact_listing_descending:
  assumes "art_inv s"
  shows "sorted_wrt (\<lambda>x y. artifact_key y < artifact_key x) (artifact_listing auth cid vis s)"
proof (rule descending_if_distinct)
  show "sorted_wrt (\<lambda>x y. artifact_key y \<le> artifact_key x) (artifact_listing auth cid vis s)"
    by (simp add: artifact_listing_def sorted_py_sorted_rev)
  have "distinct (map rec_id (artifact_listing auth cid vis s))"
    using keyed_ids_distinct [OF art_invD(1) [OF assms]]
    unfolding artifact_listing_def page_rows_def by (rule distinct_map_filter_rev_sort)
  then show "distinct (map artifact_key (artifact_listing auth cid vis s))"
    by (auto simp: distinct_map inj_on_def artifact_key_def)
qed

lemma bounded_limit_range: "1 \<le> bounded_artifact_page_limit l \<and> bounded_artifact_page_limit l \<le> 100"
  by (auto simp: bounded_artifact_page_limit_def CONVERSATION_ARTIFACT_STATE_LIMIT_def
      CONVERSATION_ARTIFACT_PAGE_MAX_LIMIT_def split: option.split)

lemma artifact_page_at_eq:
  "artifact_page_at auth cid limit vis s c =
    (let rest = below artifact_key c (artifact_listing auth cid vis s);
         n = nat (bounded_artifact_page_limit limit)
     in (take n rest, if n < length rest then Some (artifact_key (last (take n rest))) else None))"
proof -
  let ?rest = "below artifact_key c (artifact_listing auth cid vis s)"
  obtain n where n: "bounded_artifact_page_limit limit = int n" "0 < n"
    using bounded_limit_range [of limit] that [of "nat (bounded_artifact_page_limit limit)"] by simp
  have n1: "nat (int n + 1) = Suc n" by simp
  have rest: "py_sorted_rev artifact_key (filter (\<lambda>a. case c of None \<Rightarrow> True
        | Some k \<Rightarrow> (created_at a, rec_id a) < k) (page_rows auth cid vis s)) = ?rest"
    by (simp add: below_def artifact_listing_def filter_py_sorted_rev artifact_key_def [abs_def])
  show ?thesis
    unfolding artifact_page_at_def Let_def rest first_n_def n(1) n1
    using n(2) by (auto simp: min_def)
qed

interpretation art_pages: keyset_pages artifact_key art_inv "artifact_listing auth cid vis"
    "nat (bounded_artifact_page_limit limit)" "artifact_page_at auth cid limit vis"
  for auth cid vis limit
  using artifact_listing_descending [of _ auth cid vis] bounded_limit_range [of limit]
  by unfold_locales (auto simp: artifact_page_at_eq Let_def)

section \<open>Isolation\<close>

definition art_view :: "tenant \<Rightarrow> repo \<Rightarrow> artifact_record dict" where
  "art_view t s = tenant_rows t (artifacts s)"

lemma create_artifact_isolated:
  assumes "unused_artifact (opaque_id ''art'' uuid) s" "auth_tenant auth \<noteq> t"
  shows "art_view t (snd (create_artifact now uuid auth rid i s)) = art_view t s"
  using assms
  by (auto simp: create_artifact_def Let_def art_view_def unused_artifact_def row_tenant_def
      is_authorized_tenant split: option.split intro!: tenant_rows_set_other)

lemma tenant_rows_store_all_other:
  assumes "\<And>a. a \<in> set as \<Longrightarrow> row_tenant a \<noteq> t"
    and "\<And>a r. a \<in> set as \<Longrightarrow> dict_get d (rec_id a) = Some r \<Longrightarrow> row_tenant r \<noteq> t"
  shows "tenant_rows t (foldl (\<lambda>d a. dict_set (rec_id a) a d) d as) = tenant_rows t d"
  using assms
proof (induction as arbitrary: d)
  case (Cons a as)
  have "tenant_rows t (dict_set (rec_id a) a d) = tenant_rows t d"
    unfolding tenant_rows_def by (rule dict_filter_set_other) (use Cons.prems in auto)
  moreover have "tenant_rows t (foldl (\<lambda>d a. dict_set (rec_id a) a d) (dict_set (rec_id a) a d) as) =
      tenant_rows t (dict_set (rec_id a) a d)"
    by (rule Cons.IH) (use Cons.prems in \<open>auto split: if_splits\<close>)
  ultimately show ?case by simp
qed simp

lemma create_artifacts_isolated:
  assumes "\<And>n. unused_artifact (opaque_id ''art'' (draw n)) s" "auth_tenant auth \<noteq> t"
  shows "art_view t (snd (create_artifacts now draw auth rid inputs s)) = art_view t s"
  using assms
  by (auto simp: create_artifacts_def Let_def art_view_def unused_artifact_def row_tenant_def
      is_authorized_tenant split: option.split intro!: tenant_rows_store_all_other)

end
