(* ===== verification/Run_Children.thy ===== *)
theory Run_Children
  imports Artifacts
begin

text \<open>
  What a run leaves behind besides events and artifacts: strategy specs, validation and review
  reports, tool calls, policy findings and the usage ledger
  (\<open>InMemoryConversationRepository\<close>, \<open>create_strategy_spec\<close> to \<open>summarize_account_usage\<close>).
\<close>

section \<open>Operations\<close>

definition create_strategy_spec ::
  "datetime \<Rightarrow> string \<Rightarrow> auth_context \<Rightarrow> string \<Rightarrow> payload \<Rightarrow> string \<Rightarrow> repo
    \<Rightarrow> strategy_spec_record option \<times> repo" where
  "create_strategy_spec now uuid auth rid payload schema_version s =
     (case dict_get (runs s) rid of
        None \<Rightarrow> (None, s)
      | Some run \<Rightarrow>
          if \<not> is_run_authorized auth run then (None, s)
          else
            let spec = \<lparr>rec_id = opaque_id ''spec'' uuid, owner_user_id = owner_user_id run,
                  workspace_id = workspace_id run, created_at = now,
                  spec_run_id = rec_id run, spec_payload = payload,
                  spec_schema_version = schema_version\<rparr>
            in (Some spec, s\<lparr>strategy_specs := dict_set (rec_id spec) spec (strategy_specs s)\<rparr>))"

definition spec_key :: "strategy_spec_record \<Rightarrow> datetime \<times> string" where
  "spec_key spec = (created_at spec, rec_id spec)"

definition get_strategy_spec_for_run ::
  "auth_context \<Rightarrow> string \<Rightarrow> repo \<Rightarrow> strategy_spec_record option" where
  "get_strategy_spec_for_run auth rid s =
     (case get_run auth rid s of
        None \<Rightarrow> None
      | Some run \<Rightarrow>
          head_opt (py_sorted_rev spec_key
            (filter (\<lambda>spec. spec_run_id spec = rec_id run \<and> owns auth spec)
              (dict_values (strategy_specs s)))))"

definition get_latest_strategy_spec_for_conversation ::
  "auth_context \<Rightarrow> string \<Rightarrow> datetime option \<Rightarrow> repo \<Rightarrow> strategy_spec_record option" where
  "get_latest_strategy_spec_for_conversation auth cid before s =
     (case get_conversation auth cid s of
        None \<Rightarrow> None
      | Some _ \<Rightarrow>
          let run_ids = map rec_id (filter (\<lambda>run. run_conversation_id run = cid \<and> owns auth run)
                (dict_values (runs s)));
              rows = filter (\<lambda>spec. spec_run_id spec \<in> set run_ids \<and> owns auth spec
                  \<and> (case before of None \<Rightarrow> True | Some t \<Rightarrow> created_at spec \<le> t))
                (dict_values (strategy_specs s))
          in head_opt (py_sorted_rev spec_key rows))"

definition create_validation_report ::
  "datetime \<Rightarrow> string \<Rightarrow> auth_context \<Rightarrow> string \<Rightarrow> string \<Rightarrow> payload \<Rightarrow> repo
    \<Rightarrow> validation_report_record option \<times> repo" where
  "create_validation_report now uuid auth rid status payload s =
     (case dict_get (runs s) rid of
        None \<Rightarrow> (None, s)
      | Some run \<Rightarrow>
          if \<not> is_run_authorized auth run then (None, s)
          else
            let report = \<lparr>rec_id = opaque_id ''val'' uuid, owner_user_id = owner_user_id run,
                  workspace_id = workspace_id run, created_at = now,
                  val_run_id = rec_id run, val_status = status, val_payload = payload\<rparr>
            in (Some report,
                s\<lparr>validation_reports := dict_set (rec_id report) report (validation_reports s)\<rparr>))"

definition create_review_report ::
  "datetime \<Rightarrow> string \<Rightarrow> auth_context \<Rightarrow> string \<Rightarrow> string \<Rightarrow> payload \<Rightarrow> repo
    \<Rightarrow> review_report_record option \<times> repo" where
  "create_review_report now uuid auth rid decision payload s =
     (case dict_get (runs s) rid of
        None \<Rightarrow> (None, s)
      | Some run \<Rightarrow>
          if \<not> is_run_authorized auth run then (None, s)
          else
            let report = \<lparr>rec_id = opaque_id ''rev'' uuid, owner_user_id = owner_user_id run,
                  workspace_id = workspace_id run, created_at = now,
                  rev_run_id = rec_id run, rev_decision = decision, rev_payload = payload\<rparr>
            in (Some report,
                s\<lparr>review_reports := dict_set (rec_id report) report (review_reports s)\<rparr>))"

definition create_tool_call ::
  "datetime \<Rightarrow> string \<Rightarrow> auth_context \<Rightarrow> string \<Rightarrow> string \<Rightarrow> string \<Rightarrow> payload option
    \<Rightarrow> json list option \<Rightarrow> repo \<Rightarrow> tool_call_record option \<times> repo" where
  "create_tool_call now uuid auth rid tool_id status input_json policy_findings_json s =
     (case dict_get (runs s) rid of
        None \<Rightarrow> (None, s)
      | Some run \<Rightarrow>
          if \<not> is_run_authorized auth run then (None, s)
          else
            let tool_call = \<lparr>tc_id = opaque_id ''toolcall'' uuid, tc_run_id = rec_id run,
                  tc_tool_id = tool_id, tc_status = status, tc_input = input_json,
                  tc_output = None, tc_policy_findings = policy_findings_json,
                  tc_created_at = now,
                  tc_started_at = (if status = ''running'' then Some now else None),
                  tc_completed_at = None\<rparr>
            in (Some tool_call,
                s\<lparr>tool_calls := dict_set (tc_id tool_call) tool_call (tool_calls s)\<rparr>))"

text \<open>\<open>policy_findings_json or tool_call.policy_findings_json\<close>: an empty list falls back, too.\<close>

definition or_list :: "'a list option \<Rightarrow> 'a list option \<Rightarrow> 'a list option" where
  "or_list x y = (case x of None \<Rightarrow> y | Some xs \<Rightarrow> if xs = [] then y else x)"

definition complete_tool_call ::
  "datetime \<Rightarrow> auth_context \<Rightarrow> string \<Rightarrow> string \<Rightarrow> payload option \<Rightarrow> json list option \<Rightarrow> repo
    \<Rightarrow> tool_call_record option \<times> repo" where
  "complete_tool_call now auth tcid status output_json policy_findings_json s =
     (case dict_get (tool_calls s) tcid of
        None \<Rightarrow> (None, s)
      | Some tool_call \<Rightarrow>
          (case dict_get (runs s) (tc_run_id tool_call) of
             None \<Rightarrow> (None, s)
           | Some run \<Rightarrow>
               if \<not> is_run_authorized auth run then (None, s)
               else
                 let updated = tool_call\<lparr>tc_status := status, tc_output := output_json,
                       tc_policy_findings := or_list policy_findings_json (tc_policy_findings tool_call),
                       tc_completed_at := Some now\<rparr>
                 in (Some updated,
                     s\<lparr>tool_calls := dict_set (tc_id updated) updated (tool_calls s)\<rparr>)))"

definition create_policy_finding ::
  "datetime \<Rightarrow> string \<Rightarrow> auth_context \<Rightarrow> string \<Rightarrow> string \<Rightarrow> string \<Rightarrow> string \<Rightarrow> string option \<Rightarrow> repo
    \<Rightarrow> policy_finding_record option \<times> repo" where
  "create_policy_finding now uuid auth rid severity code message tool_call_id s =
     (case dict_get (runs s) rid of
        None \<Rightarrow> (None, s)
      | Some run \<Rightarrow>
          if \<not> is_run_authorized auth run then (None, s)
          else
            let finding = \<lparr>rec_id = opaque_id ''pol'' uuid, owner_user_id = owner_user_id run,
                  workspace_id = workspace_id run, created_at = now,
                  pf_run_id = rec_id run, pf_tool_call_id = tool_call_id,
                  pf_severity = severity, pf_code = code, pf_message = message\<rparr>
            in (Some finding,
                s\<lparr>policy_findings := dict_set (rec_id finding) finding (policy_findings s)\<rparr>))"

definition create_usage_ledger ::
  "datetime \<Rightarrow> string \<Rightarrow> auth_context \<Rightarrow> string option \<Rightarrow> string option \<Rightarrow> string option \<Rightarrow> int
    \<Rightarrow> int \<Rightarrow> rat option \<Rightarrow> repo \<Rightarrow> usage_record option \<times> repo" where
  "create_usage_ledger now uuid auth run_id model tool_id input_tokens output_tokens cost s =
     (let denied = (case run_id of
            None \<Rightarrow> False
          | Some rid \<Rightarrow>
              (case dict_get (runs s) rid of
                 None \<Rightarrow> True | Some run \<Rightarrow> \<not> is_run_authorized auth run))
      in if denied then (None, s)
         else
           let record = \<lparr>rec_id = opaque_id ''usage'' uuid, owner_user_id = user_id auth,
                 workspace_id = auth_workspace_id auth, created_at = now,
                 use_run_id = run_id, use_model = model, use_tool_id = tool_id,
                 use_input_tokens = input_tokens, use_output_tokens = output_tokens,
                 use_cost = cost\<rparr>
           in (Some record, s\<lparr>usage_ledger := dict_set (rec_id record) record (usage_ledger s)\<rparr>))"

definition list_tool_calls :: "auth_context \<Rightarrow> string \<Rightarrow> repo \<Rightarrow> tool_call_record list option" where
  "list_tool_calls auth rid s =
     (case get_run auth rid s of
        None \<Rightarrow> None
      | Some run \<Rightarrow>
          Some (py_sorted (\<lambda>r. (tc_created_at r, tc_id r))
            (filter (\<lambda>r. tc_run_id r = rec_id run) (dict_values (tool_calls s)))))"

definition list_policy_findings ::
  "auth_context \<Rightarrow> string \<Rightarrow> repo \<Rightarrow> policy_finding_record list option" where
  "list_policy_findings auth rid s =
     (case get_run auth rid s of
        None \<Rightarrow> None
      | Some run \<Rightarrow>
          Some (py_sorted (\<lambda>r. (created_at r, rec_id r))
            (filter (\<lambda>r. pf_run_id r = rec_id run) (dict_values (policy_findings s)))))"

definition list_usage_ledger :: "auth_context \<Rightarrow> string \<Rightarrow> repo \<Rightarrow> usage_record list option" where
  "list_usage_ledger auth rid s =
     (case get_run auth rid s of
        None \<Rightarrow> None
      | Some run \<Rightarrow>
          Some (py_sorted (\<lambda>r. (created_at r, rec_id r))
            (filter (\<lambda>r. use_run_id r = Some (rec_id run)) (dict_values (usage_ledger s)))))"

definition some_values :: "'a option list \<Rightarrow> 'a list" where
  "some_values xs = map the (filter (\<lambda>x. x \<noteq> None) xs)"

definition summarize_account_usage :: "auth_context \<Rightarrow> repo \<Rightarrow> account_usage" where
  "summarize_account_usage auth s =
     (let msgs = filter (owns auth) (concat (dict_values (messages s)));
          rs = filter (owns auth) (dict_values (runs s));
          arts = filter (owns auth) (dict_values (artifacts s));
          usage_rows = filter (owns auth) (dict_values (usage_ledger s));
          input_tokens = sum_list (map use_input_tokens usage_rows);
          output_tokens = sum_list (map use_output_tokens usage_rows);
          cost_values = some_values (map use_cost usage_rows)
      in \<lparr>usg_messages = int (length msgs), usg_runs = int (length rs),
          usg_artifacts = int (length arts), usg_input_tokens = input_tokens,
          usg_output_tokens = output_tokens, usg_total_tokens = input_tokens + output_tokens,
          usg_estimated_cost = (if cost_values = [] then None else Some (sum_list cost_values))\<rparr>)"

definition get_run_progress_snapshot ::
  "auth_context \<Rightarrow> string \<Rightarrow> repo \<Rightarrow> run_progress_snapshot option" where
  "get_run_progress_snapshot auth rid s =
     (case get_run auth rid s of
        None \<Rightarrow> None
      | Some run \<Rightarrow>
          (case (summarize_run_events auth (rec_id run) s, list_artifacts auth (rec_id run) s) of
             (Some event_summary, Some arts) \<Rightarrow>
               Some \<lparr>prog_run = run, prog_event_summary = event_summary, prog_artifacts = arts\<rparr>
           | _ \<Rightarrow> None))"

text \<open>The in-memory repository indexes no backtests: the lookups only check the run.\<close>

definition get_backtest_summary :: "auth_context \<Rightarrow> string \<Rightarrow> repo \<Rightarrow> payload option" where
  "get_backtest_summary auth rid s = (if get_run auth rid s \<noteq> None then None else None)"

definition get_backtest_summaries :: "auth_context \<Rightarrow> string list \<Rightarrow> repo \<Rightarrow> payload dict" where
  "get_backtest_summaries auth run_ids s =
     foldl (\<lambda>summaries rid. case get_backtest_summary auth rid s of
         Some summary \<Rightarrow> dict_set rid summary summaries | None \<Rightarrow> summaries)
       [] (rev (remdups (rev run_ids)))"

definition get_backtest_equity_summary :: "auth_context \<Rightarrow> string \<Rightarrow> repo \<Rightarrow> payload option" where
  "get_backtest_equity_summary auth rid s = (if get_run auth rid s \<noteq> None then None else None)"

definition get_backtest_equity_summaries ::
  "auth_context \<Rightarrow> string list \<Rightarrow> repo \<Rightarrow> payload dict" where
  "get_backtest_equity_summaries auth run_ids s =
     foldl (\<lambda>summaries rid. case get_backtest_equity_summary auth rid s of
         Some summary \<Rightarrow> dict_set rid summary summaries | None \<Rightarrow> summaries)
       [] (rev (remdups (rev run_ids)))"

definition query_backtest_trades :: "auth_context \<Rightarrow> string \<Rightarrow> repo \<Rightarrow> payload list option" where
  "query_backtest_trades auth rid s = (if get_run auth rid s \<noteq> None then Some [] else None)"

section \<open>The contract of a table of run children\<close>

text \<open>Rows of a table that each name a run and belong to the run's owner.\<close>

definition children_ok ::
  "('a row_scheme \<Rightarrow> string) \<Rightarrow> 'a row_scheme dict \<Rightarrow> run_record dict \<Rightarrow> bool" where
  "children_ok run_of d rs \<longleftrightarrow>
     keyed d \<and>
     (\<forall>k x. dict_get d k = Some x \<longrightarrow>
        (\<exists>r. dict_get rs (run_of x) = Some r \<and> row_tenant x = row_tenant r))"

text \<open>
  An operation that creates a child for a run the caller owns: it builds the row from its input
  and the run, stores it under the row's id in its table and touches nothing else.
\<close>

locale run_child =
  fixes table :: "repo \<Rightarrow> 'a row_scheme dict"
    and run_of :: "'a row_scheme \<Rightarrow> string"
    and ident :: "'i \<Rightarrow> string"
    and build :: "'i \<Rightarrow> run_record \<Rightarrow> 'a row_scheme"
    and create :: "'i \<Rightarrow> auth_context \<Rightarrow> string \<Rightarrow> repo \<Rightarrow> 'a row_scheme option \<times> repo"
  assumes create_denied: "get_run auth rid s = None \<Longrightarrow> create i auth rid s = (None, s)"
    and create_stored: "get_run auth rid s = Some run \<Longrightarrow>
      fst (create i auth rid s) = Some (build i run) \<and>
      table (snd (create i auth rid s)) = dict_set (ident i) (build i run) (table s) \<and>
      runs (snd (create i auth rid s)) = runs s"
    and build_row: "rec_id (build i run) = ident i" "row_tenant (build i run) = row_tenant run"
      "run_of (build i run) = rec_id run"
begin

lemma create_owned:
  "fst (create i auth rid s) = Some x \<Longrightarrow> is_authorized auth x"
proof (cases "get_run auth rid s")
  case (Some r)
  assume "fst (create i auth rid s) = Some x"
  with create_stored [OF Some, of i] have "x = build i r" by simp
  then show ?thesis
    using run.fetch_owned [OF Some] build_row(2) by (simp add: is_authorized_tenant)
qed (simp add: create_denied)

lemma create_children_ok:
  assumes "keyed (runs s)" "children_ok run_of (table s) (runs s)"
  shows "children_ok run_of (table (snd (create i auth rid s))) (runs (snd (create i auth rid s)))"
proof (cases "get_run auth rid s")
  case (Some r)
  have "dict_get (runs s) (rec_id r) = Some r"
    using run.fetch_stored [OF Some] run.fetch_id [OF assms(1) Some] by simp
  then show ?thesis
    using create_stored [OF Some, of i] build_row assms(2)
    by (auto simp: children_ok_def split: if_splits)
qed (simp add: create_denied assms)

lemma create_isolated:
  assumes "dict_get (table s) (ident i) = None" "auth_tenant auth \<noteq> t"
  shows "tenant_rows t (table (snd (create i auth rid s))) = tenant_rows t (table s)"
proof (cases "get_run auth rid s")
  case (Some r)
  have "row_tenant (build i r) \<noteq> t"
    using run.fetch_owned [OF Some] build_row(2) assms(2) by (simp add: is_authorized_tenant)
  then show ?thesis
    using create_stored [OF Some, of i] assms(1) by (auto intro: tenant_rows_set_other)
qed (simp add: create_denied)

end

lemma children_ok_runs_mono:
  assumes "children_ok run_of d rs"
    and "\<And>k r. dict_get rs k = Some r \<Longrightarrow> \<exists>r'. dict_get rs' k = Some r' \<and> row_tenant r' = row_tenant r"
  shows "children_ok run_of d rs'"
  using assms unfolding children_ok_def by metis

interpretation spec_child: run_child strategy_specs spec_run_id
    "\<lambda>(now, uuid, payload, ver). opaque_id ''spec'' uuid"
    "\<lambda>(now, uuid, payload, ver) run. \<lparr>rec_id = opaque_id ''spec'' uuid,
       owner_user_id = owner_user_id run, workspace_id = workspace_id run, created_at = now,
       spec_run_id = rec_id run, spec_payload = payload, spec_schema_version = ver\<rparr>"
    "\<lambda>(now, uuid, payload, ver) auth rid s. create_strategy_spec now uuid auth rid payload ver s"
  by unfold_locales
    (auto simp: create_strategy_spec_def get_run_def Let_def row_tenant_def
      split: option.splits if_splits)

interpretation validation_child: run_child validation_reports val_run_id
    "\<lambda>(now, uuid, status, payload). opaque_id ''val'' uuid"
    "\<lambda>(now, uuid, status, payload) run. \<lparr>rec_id = opaque_id ''val'' uuid,
       owner_user_id = owner_user_id run, workspace_id = workspace_id run, created_at = now,
       val_run_id = rec_id run, val_status = status, val_payload = payload\<rparr>"
    "\<lambda>(now, uuid, status, payload) auth rid s. create_validation_report now uuid auth rid status payload s"
  by unfold_locales
    (auto simp: create_validation_report_def get_run_def Let_def row_tenant_def
      split: option.splits if_splits)

interpretation review_child: run_child review_reports rev_run_id
    "\<lambda>(now, uuid, decision, payload). opaque_id ''rev'' uuid"
    "\<lambda>(now, uuid, decision, payload) run. \<lparr>rec_id = opaque_id ''rev'' uuid,
       owner_user_id = owner_user_id run, workspace_id = workspace_id run, created_at = now,
       rev_run_id = rec_id run, rev_decision = decision, rev_payload = payload\<rparr>"
    "\<lambda>(now, uuid, decision, payload) auth rid s. create_review_report now uuid auth rid decision payload s"
  by unfold_locales
    (auto simp: create_review_report_def get_run_def Let_def row_tenant_def
      split: option.splits if_splits)

interpretation finding_child: run_child policy_findings pf_run_id
    "\<lambda>(now, uuid, sev, code, msg, tcid). opaque_id ''pol'' uuid"
    "\<lambda>(now, uuid, sev, code, msg, tcid) run. \<lparr>rec_id = opaque_id ''pol'' uuid,
       owner_user_id = owner_user_id run, workspace_id = workspace_id run, created_at = now,
       pf_run_id = rec_id run, pf_tool_call_id = tcid, pf_severity = sev, pf_code = code,
       pf_message = msg\<rparr>"
    "\<lambda>(now, uuid, sev, code, msg, tcid) auth rid s.
       create_policy_finding now uuid auth rid sev code msg tcid s"
  by unfold_locales
    (auto simp: create_policy_finding_def get_run_def Let_def row_tenant_def
      split: option.splits if_splits)

interpretation artifact_child: run_child artifacts "\<lambda>a. the (art_run_id a)"
    "\<lambda>(now, uuid, i). opaque_id ''art'' uuid" "\<lambda>(now, uuid, i) run. new_artifact now uuid run i"
    "\<lambda>(now, uuid, i) auth rid s. create_artifact now uuid auth rid i s"
  by unfold_locales
    (auto simp: create_artifact_def get_run_def Let_def row_tenant_def
      split: option.splits if_splits)

section \<open>Invariant\<close>

definition tool_calls_ok :: "tool_call_record dict \<Rightarrow> run_record dict \<Rightarrow> bool" where
  "tool_calls_ok d rs \<longleftrightarrow>
     dict_ok d \<and>
     (\<forall>k x. dict_get d k = Some x \<longrightarrow> tc_id x = k \<and> dict_get rs (tc_run_id x) \<noteq> None)"

text \<open>Usage rows need no run; one that names a run belongs to the run's owner.\<close>

definition usage_ok :: "usage_record dict \<Rightarrow> run_record dict \<Rightarrow> bool" where
  "usage_ok d rs \<longleftrightarrow>
     keyed d \<and>
     (\<forall>k x rid. dict_get d k = Some x \<longrightarrow> use_run_id x = Some rid \<longrightarrow>
        (\<exists>r. dict_get rs rid = Some r \<and> row_tenant x = row_tenant r))"

definition child_inv :: "repo \<Rightarrow> bool" where
  "child_inv s \<longleftrightarrow>
     children_ok spec_run_id (strategy_specs s) (runs s) \<and>
     children_ok val_run_id (validation_reports s) (runs s) \<and>
     children_ok rev_run_id (review_reports s) (runs s) \<and>
     children_ok pf_run_id (policy_findings s) (runs s) \<and>
     tool_calls_ok (tool_calls s) (runs s) \<and> usage_ok (usage_ledger s) (runs s)"

lemma child_inv_init: "child_inv init_repo"
  by (simp add: child_inv_def init_repo_def children_ok_def tool_calls_ok_def usage_ok_def)

lemma create_strategy_spec_inv:
  assumes "run_inv s" "child_inv s"
  shows "child_inv (snd (create_strategy_spec now uuid auth rid p v s))"
proof -
  have "children_ok spec_run_id (strategy_specs (snd (create_strategy_spec now uuid auth rid p v s)))
      (runs (snd (create_strategy_spec now uuid auth rid p v s)))"
    using spec_child.create_children_ok [of s "(now, uuid, p, v)" auth rid] assms
    by (simp add: run_inv_def child_inv_def)
  then show ?thesis
    using assms(2) by (auto simp: child_inv_def create_strategy_spec_def Let_def split: option.splits)
qed

lemma create_validation_report_inv:
  assumes "run_inv s" "child_inv s"
  shows "child_inv (snd (create_validation_report now uuid auth rid st p s))"
proof -
  have "children_ok val_run_id (validation_reports (snd (create_validation_report now uuid auth rid st p s)))
      (runs (snd (create_validation_report now uuid auth rid st p s)))"
    using validation_child.create_children_ok [of s "(now, uuid, st, p)" auth rid] assms
    by (simp add: run_inv_def child_inv_def)
  then show ?thesis
    using assms(2) by (auto simp: child_inv_def create_validation_report_def Let_def split: option.splits)
qed

lemma create_review_report_inv:
  assumes "run_inv s" "child_inv s"
  shows "child_inv (snd (create_review_report now uuid auth rid dc p s))"
proof -
  have "children_ok rev_run_id (review_reports (snd (create_review_report now uuid auth rid dc p s)))
      (runs (snd (create_review_report now uuid auth rid dc p s)))"
    using review_child.create_children_ok [of s "(now, uuid, dc, p)" auth rid] assms
    by (simp add: run_inv_def child_inv_def)
  then show ?thesis
    using assms(2) by (auto simp: child_inv_def create_review_report_def Let_def split: option.splits)
qed

lemma create_policy_finding_inv:
  assumes "run_inv s" "child_inv s"
  shows "child_inv (snd (create_policy_finding now uuid auth rid sev code msg tcid s))"
proof -
  have "children_ok pf_run_id (policy_findings (snd (create_policy_finding now uuid auth rid sev code msg tcid s)))
      (runs (snd (create_policy_finding now uuid auth rid sev code msg tcid s)))"
    using finding_child.create_children_ok [of s "(now, uuid, sev, code, msg, tcid)" auth rid] assms
    by (simp add: run_inv_def child_inv_def)
  then show ?thesis
    using assms(2) by (auto simp: child_inv_def create_policy_finding_def Let_def split: option.splits)
qed

lemma create_tool_call_inv:
  assumes "run_inv s" "child_inv s"
  shows "child_inv (snd (create_tool_call now uuid auth rid tid st i pf s))"
  using assms keyed_id [OF run_invD(1) [OF assms(1)]]
  by (auto simp: child_inv_def create_tool_call_def Let_def tool_calls_ok_def
      split: option.splits if_splits)

lemma complete_tool_call_inv:
  assumes "child_inv s"
  shows "child_inv (snd (complete_tool_call now auth tcid st out pf s))"
  using assms
  by (auto simp: child_inv_def complete_tool_call_def Let_def tool_calls_ok_def
      split: option.splits if_splits)

lemma create_usage_ledger_inv:
  assumes "run_inv s" "child_inv s"
  shows "child_inv (snd (create_usage_ledger now uuid auth rid m tid it ot c s))"
  using assms
  by (auto simp: child_inv_def create_usage_ledger_def Let_def usage_ok_def row_tenant_def
      is_authorized_def split: option.splits if_splits)

section \<open>Account usage\<close>

lemma account_usage_total:
  "usg_total_tokens (summarize_account_usage auth s) =
     usg_input_tokens (summarize_account_usage auth s) + usg_output_tokens (summarize_account_usage auth s)"
  by (simp add: summarize_account_usage_def Let_def)

lemma create_usage_ledger_adds:
  assumes "usage_ok (usage_ledger s) (runs s)"
    and "dict_get (usage_ledger s) (opaque_id ''usage'' uuid) = None"
    and "create_usage_ledger now uuid auth rid m tid it ot c s = (Some r, s')"
  shows "usg_input_tokens (summarize_account_usage auth s') =
      usg_input_tokens (summarize_account_usage auth s) + it"
    "usg_output_tokens (summarize_account_usage auth s') =
      usg_output_tokens (summarize_account_usage auth s) + ot"
  using assms
  by (auto simp: create_usage_ledger_def summarize_account_usage_def Let_def dict_values_set_new
      is_authorized_def split: if_splits)

end
