(* ===== verification/Nautilus.thy ===== *)
theory Nautilus
  imports Run_Children
begin

text \<open>
  The paper-trading runtimes: registration, worker leases with a generation counter, heartbeats,
  the kill switch, and the runtime event log with idempotency keys and heartbeat retention
  (\<open>InMemoryConversationRepository\<close>, \<open>upsert_nautilus_runtime\<close> to
  \<open>cleanup_nautilus_heartbeat_events\<close>, and the helpers that decide on heartbeat events).
\<close>

section \<open>Operations\<close>

definition is_nautilus_runtime_authorized :: "auth_context \<Rightarrow> nautilus_runtime \<Rightarrow> bool" where
  "is_nautilus_runtime_authorized auth runtime \<longleftrightarrow>
     owner_user_id runtime = user_id auth \<and> workspace_id runtime = auth_workspace_id auth"

lemma is_nautilus_runtime_authorized_eq [simp]:
  "is_nautilus_runtime_authorized auth runtime = is_authorized auth runtime"
  by (simp add: is_nautilus_runtime_authorized_def is_authorized_def)

definition bounded_nautilus_limit :: "int option \<Rightarrow> int" where
  "bounded_nautilus_limit limit = (case limit of None \<Rightarrow> 100 | Some n \<Rightarrow> min 500 (max 1 n))"

definition NAUTILUS_HEARTBEAT_SAMPLE_INTERVAL :: timedelta where
  "NAUTILUS_HEARTBEAT_SAMPLE_INTERVAL = minutes 5"

definition NAUTILUS_HEARTBEAT_RETENTION_MAX_AGE :: timedelta where
  "NAUTILUS_HEARTBEAT_RETENTION_MAX_AGE = hours 24"

definition NAUTILUS_HEARTBEAT_RETENTION_MAX_SAMPLES :: int where
  "NAUTILUS_HEARTBEAT_RETENTION_MAX_SAMPLES = 288"

text \<open>\<open>manifest_json or existing.manifest_json\<close>: an empty value keeps the old one.\<close>

definition upsert_nautilus_runtime ::
  "datetime \<Rightarrow> string \<Rightarrow> auth_context \<Rightarrow> string \<Rightarrow> string \<Rightarrow> string \<Rightarrow> string \<Rightarrow> string \<Rightarrow> string
    \<Rightarrow> payload \<Rightarrow> json list \<Rightarrow> repo \<Rightarrow> nautilus_runtime \<times> repo" where
  "upsert_nautilus_runtime now uuid auth runtime_key broker account mode risk strategy_id manifest
      subscriptions s =
     (case find (\<lambda>runtime. nrt_runtime_key runtime = runtime_key
                 \<and> owner_user_id runtime = user_id auth
                 \<and> workspace_id runtime = auth_workspace_id auth)
             (dict_values (nautilus_runtimes s)) of
        None \<Rightarrow>
          (let runtime = \<lparr>rec_id = opaque_id ''nrt'' uuid, owner_user_id = user_id auth,
                 workspace_id = auth_workspace_id auth, created_at = now,
                 nrt_runtime_key = runtime_key, nrt_broker_connection_id = broker,
                 nrt_account_id = account, nrt_mode = mode, nrt_risk_policy_id = risk,
                 nrt_state = ''requested'', nrt_strategy_ids = [strategy_id],
                 nrt_manifest = manifest, nrt_data_subscriptions = subscriptions,
                 nrt_last_heartbeat_at = None, nrt_heartbeat_count = 0,
                 nrt_heartbeat_metrics = None, nrt_last_heartbeat_event_at = None,
                 nrt_kill_switch = False,
                 nrt_desired_state = (if mode = ''paper'' then ''running'' else ''requested''),
                 nrt_worker_id = None, nrt_lease_until = None, nrt_generation = 0,
                 nrt_started_at = None, nrt_stopped_at = None, nrt_last_error = None,
                 nrt_stream_cursor = None, nrt_updated_at = now\<rparr>
           in (runtime,
               s\<lparr>nautilus_runtimes := dict_set (rec_id runtime) runtime (nautilus_runtimes s),
                 nautilus_events := dict_set (rec_id runtime) [] (nautilus_events s)\<rparr>))
      | Some existing \<Rightarrow>
          (let strategy_ids = (if strategy_id \<in> set (nrt_strategy_ids existing)
                 then nrt_strategy_ids existing else nrt_strategy_ids existing @ [strategy_id]);
               updated = existing\<lparr>nrt_strategy_ids := strategy_ids,
                 nrt_manifest := (if manifest = [] then nrt_manifest existing else manifest),
                 nrt_data_subscriptions :=
                   (if subscriptions = [] then nrt_data_subscriptions existing else subscriptions),
                 nrt_updated_at := now\<rparr>
           in (updated,
               s\<lparr>nautilus_runtimes := dict_set (rec_id updated) updated (nautilus_runtimes s)\<rparr>)))"

definition runtime_order_key :: "nautilus_runtime \<Rightarrow> datetime \<times> datetime \<times> string" where
  "runtime_order_key r = (nrt_updated_at r, created_at r, rec_id r)"

definition list_nautilus_runtimes ::
  "auth_context \<Rightarrow> string option \<Rightarrow> int option \<Rightarrow> repo \<Rightarrow> nautilus_runtime list" where
  "list_nautilus_runtimes auth mode limit s =
     first_n (bounded_nautilus_limit limit)
       (py_sorted_rev runtime_order_key
         (filter (\<lambda>runtime. is_nautilus_runtime_authorized auth runtime
             \<and> (case mode of None \<Rightarrow> True | Some m \<Rightarrow> nrt_mode runtime = m))
           (dict_values (nautilus_runtimes s))))"

definition get_nautilus_runtime :: "auth_context \<Rightarrow> string \<Rightarrow> repo \<Rightarrow> nautilus_runtime option" where
  "get_nautilus_runtime auth nid s =
     (case dict_get (nautilus_runtimes s) nid of
        None \<Rightarrow> None
      | Some runtime \<Rightarrow>
          if \<not> is_nautilus_runtime_authorized auth runtime then None else Some runtime)"

definition set_nautilus_runtime_state ::
  "datetime \<Rightarrow> auth_context \<Rightarrow> string \<Rightarrow> string \<Rightarrow> repo \<Rightarrow> nautilus_runtime option \<times> repo" where
  "set_nautilus_runtime_state now auth nid state s =
     (case dict_get (nautilus_runtimes s) nid of
        None \<Rightarrow> (None, s)
      | Some runtime \<Rightarrow>
          if \<not> is_nautilus_runtime_authorized auth runtime then (None, s)
          else
            let updated = runtime\<lparr>nrt_state := state, nrt_updated_at := now\<rparr>
            in (Some updated,
                s\<lparr>nautilus_runtimes := dict_set (rec_id runtime) updated (nautilus_runtimes s)\<rparr>))"

definition should_append_nautilus_heartbeat_event ::
  "nautilus_runtime \<Rightarrow> string \<Rightarrow> datetime \<Rightarrow> bool" where
  "should_append_nautilus_heartbeat_event runtime next_state now =
     (if nrt_state runtime \<noteq> next_state then True
      else case nrt_last_heartbeat_event_at runtime of
             None \<Rightarrow> True
           | Some t \<Rightarrow> now - t \<ge> NAUTILUS_HEARTBEAT_SAMPLE_INTERVAL)"

text \<open>
  The test \<open>warmup_status in {\<dots>}\<close> hashes its left operand, so a list or an object there raises
  \<open>TypeError\<close>.
\<close>

definition nautilus_runtime_state_from_heartbeat_payload :: "payload option \<Rightarrow> py_error + string" where
  "nautilus_runtime_state_from_heartbeat_payload p =
     (let metrics = (case p of None \<Rightarrow> JNull | Some d \<Rightarrow> jget d ''metrics'');
          warmup_status = (case metrics of JObj m \<Rightarrow> jget m ''warmup_status'' | _ \<Rightarrow> JNull)
      in case warmup_status of
           JList _ \<Rightarrow> Inl TypeError
         | JObj _ \<Rightarrow> Inl TypeError
         | JStr w \<Rightarrow> if w = ''pending'' \<or> w = ''warming_up'' then Inr ''warming_up'' else Inr ''running''
         | _ \<Rightarrow> Inr ''running'')"

text \<open>
  \<open>_append_nautilus_runtime_event_locked\<close>: an event with a key that the log has is returned as it
  is; \<open>setdefault\<close> creates the log if there is none.
\<close>

definition append_nautilus_event ::
  "datetime \<Rightarrow> string \<Rightarrow> nautilus_runtime \<Rightarrow> string \<Rightarrow> payload option \<Rightarrow> string option \<Rightarrow> repo
    \<Rightarrow> nautilus_event \<times> repo" where
  "append_nautilus_event now uuid runtime event_type payload idempotency_key s =
     (let existing = log_of (nautilus_events s) (rec_id runtime);
          s0 = s\<lparr>nautilus_events := dict_set (rec_id runtime) existing (nautilus_events s)\<rparr>;
          found = (case idempotency_key of
              None \<Rightarrow> None
            | Some k \<Rightarrow> find (\<lambda>event. nev_idempotency_key event = Some k) existing)
      in case found of
           Some event \<Rightarrow> (event, s0)
         | None \<Rightarrow>
             let event = \<lparr>rec_id = opaque_id ''nevt'' uuid, owner_user_id = owner_user_id runtime,
                   workspace_id = workspace_id runtime, created_at = now,
                   nev_runtime_id = rec_id runtime, nev_sequence = int (length existing) + 1,
                   nev_type = event_type, nev_payload = payload,
                   nev_idempotency_key = idempotency_key\<rparr>
             in (event, s0\<lparr>nautilus_events :=
                   dict_set (rec_id runtime) (existing @ [event]) (nautilus_events s0)\<rparr>))"

definition heartbeat_state :: "nautilus_runtime \<Rightarrow> payload option \<Rightarrow> py_error + string" where
  "heartbeat_state runtime payload =
     (if nrt_kill_switch runtime
      then (if nrt_state runtime \<in> {''stopping'', ''stopped'', ''failed''}
            then Inr (nrt_state runtime) else Inr ''stopping'')
      else nautilus_runtime_state_from_heartbeat_payload payload)"

text \<open>\<open>now\<close> is the caller's time or, when it gave none, the clock's.\<close>

definition record_nautilus_runtime_heartbeat ::
  "datetime \<Rightarrow> string \<Rightarrow> auth_context \<Rightarrow> string \<Rightarrow> payload option \<Rightarrow> string option \<Rightarrow> repo
    \<Rightarrow> (py_error + nautilus_heartbeat option) \<times> repo" where
  "record_nautilus_runtime_heartbeat now uuid auth nid payload idempotency_key s =
     (case dict_get (nautilus_runtimes s) nid of
        None \<Rightarrow> (Inr None, s)
      | Some runtime \<Rightarrow>
          if \<not> is_nautilus_runtime_authorized auth runtime then (Inr None, s)
          else case heartbeat_state runtime payload of
            Inl e \<Rightarrow> (Inl e, s)
          | Inr state \<Rightarrow>
            let previous_state = nrt_state runtime;
                should_append = should_append_nautilus_heartbeat_event runtime state now;
                (event, s1) = (if should_append
                  then case append_nautilus_event now uuid runtime ''heartbeat'' payload
                              idempotency_key s of (e, s1) \<Rightarrow> (Some e, s1)
                  else (None, s));
                updated = runtime\<lparr>nrt_state := state, nrt_last_heartbeat_at := Some now,
                  nrt_heartbeat_count := nrt_heartbeat_count runtime + 1,
                  nrt_heartbeat_metrics := payload,
                  nrt_last_heartbeat_event_at :=
                    (if event \<noteq> None then Some now else nrt_last_heartbeat_event_at runtime),
                  nrt_updated_at := now\<rparr>
            in (Inr (Some \<lparr>hb_runtime = updated, hb_event = event,
                  hb_event_appended = (case event of
                      None \<Rightarrow> False
                    | Some e \<Rightarrow> created_at e = now \<and> (state \<noteq> previous_state \<or> should_append))\<rparr>),
                s1\<lparr>nautilus_runtimes := dict_set (rec_id runtime) updated (nautilus_runtimes s1)\<rparr>))"

definition activate_nautilus_runtime_kill_switch ::
  "datetime \<Rightarrow> auth_context \<Rightarrow> string \<Rightarrow> repo \<Rightarrow> nautilus_runtime option \<times> repo" where
  "activate_nautilus_runtime_kill_switch now auth nid s =
     (case dict_get (nautilus_runtimes s) nid of
        None \<Rightarrow> (None, s)
      | Some runtime \<Rightarrow>
          if \<not> is_nautilus_runtime_authorized auth runtime then (None, s)
          else
            let updated = runtime\<lparr>nrt_state := ''stopping'', nrt_desired_state := ''stopping'',
                  nrt_kill_switch := True, nrt_updated_at := now\<rparr>
            in (Some updated,
                s\<lparr>nautilus_runtimes := dict_set (rec_id runtime) updated (nautilus_runtimes s)\<rparr>))"

definition set_nautilus_runtime_desired_state ::
  "datetime \<Rightarrow> auth_context \<Rightarrow> string \<Rightarrow> string \<Rightarrow> repo \<Rightarrow> nautilus_runtime option \<times> repo" where
  "set_nautilus_runtime_desired_state now auth nid desired_state s =
     (case dict_get (nautilus_runtimes s) nid of
        None \<Rightarrow> (None, s)
      | Some runtime \<Rightarrow>
          if \<not> is_nautilus_runtime_authorized auth runtime then (None, s)
          else
            let updated = runtime\<lparr>nrt_desired_state := desired_state, nrt_updated_at := now\<rparr>
            in (Some updated,
                s\<lparr>nautilus_runtimes := dict_set (rec_id runtime) updated (nautilus_runtimes s)\<rparr>))"

definition runtime_wanted :: "string \<Rightarrow> string \<Rightarrow> nautilus_runtime \<Rightarrow> bool" where
  "runtime_wanted mode desired_state runtime \<longleftrightarrow>
     nrt_mode runtime = mode \<and> nrt_desired_state runtime = desired_state \<and>
     nrt_state runtime \<notin> {''stopped'', ''failed''}"

definition list_desired_nautilus_runtimes ::
  "datetime \<Rightarrow> string \<Rightarrow> string \<Rightarrow> string option \<Rightarrow> int option \<Rightarrow> repo \<Rightarrow> nautilus_runtime list" where
  "list_desired_nautilus_runtimes now mode desired_state worker_id limit s =
     first_n (bounded_nautilus_limit limit)
       (py_sorted runtime_order_key
         (filter (\<lambda>runtime. runtime_wanted mode desired_state runtime
             \<and> ((case nrt_lease_until runtime of None \<Rightarrow> True | Some u \<Rightarrow> u < now)
                \<or> (worker_id \<noteq> None \<and> nrt_worker_id runtime = worker_id)))
           (dict_values (nautilus_runtimes s))))"

definition claim_nautilus_runtime_lease ::
  "datetime \<Rightarrow> string \<Rightarrow> string \<Rightarrow> int \<Rightarrow> repo \<Rightarrow> nautilus_runtime option \<times> repo" where
  "claim_nautilus_runtime_lease current nid worker_id lease_seconds s =
     (case dict_get (nautilus_runtimes s) nid of
        None \<Rightarrow> (None, s)
      | Some runtime \<Rightarrow>
          let lease_active = (case nrt_lease_until runtime of None \<Rightarrow> False | Some u \<Rightarrow> u \<ge> current)
          in if lease_active \<and> nrt_worker_id runtime \<noteq> Some worker_id then (None, s)
             else
               let updated = runtime\<lparr>nrt_worker_id := Some worker_id,
                     nrt_lease_until := Some (current + seconds lease_seconds),
                     nrt_generation := (if nrt_worker_id runtime = Some worker_id
                        then nrt_generation runtime else nrt_generation runtime + 1),
                     nrt_state := (if nrt_state runtime = ''requested'' then ''provisioning''
                        else nrt_state runtime),
                     nrt_started_at := (case nrt_started_at runtime of
                        None \<Rightarrow> Some current | Some t \<Rightarrow> Some t),
                     nrt_updated_at := current\<rparr>
               in (Some updated,
                   s\<lparr>nautilus_runtimes := dict_set (rec_id runtime) updated (nautilus_runtimes s)\<rparr>))"

definition renew_nautilus_runtime_lease ::
  "datetime \<Rightarrow> string \<Rightarrow> string \<Rightarrow> int \<Rightarrow> repo \<Rightarrow> nautilus_runtime option \<times> repo" where
  "renew_nautilus_runtime_lease current nid worker_id lease_seconds s =
     (case dict_get (nautilus_runtimes s) nid of
        None \<Rightarrow> (None, s)
      | Some runtime \<Rightarrow>
          if nrt_worker_id runtime \<noteq> Some worker_id then (None, s)
          else
            let updated = runtime\<lparr>nrt_lease_until := Some (current + seconds lease_seconds),
                  nrt_updated_at := current\<rparr>
            in (Some updated,
                s\<lparr>nautilus_runtimes := dict_set (rec_id runtime) updated (nautilus_runtimes s)\<rparr>))"

definition release_nautilus_runtime_lease ::
  "datetime \<Rightarrow> string \<Rightarrow> string \<Rightarrow> string option \<Rightarrow> payload option \<Rightarrow> repo
    \<Rightarrow> nautilus_runtime option \<times> repo" where
  "release_nautilus_runtime_lease current nid worker_id state last_error s =
     (case dict_get (nautilus_runtimes s) nid of
        None \<Rightarrow> (None, s)
      | Some runtime \<Rightarrow>
          if nrt_worker_id runtime \<noteq> Some worker_id then (None, s)
          else
            let updated = runtime\<lparr>nrt_worker_id := None, nrt_lease_until := None,
                  nrt_state := or_str state (nrt_state runtime),
                  nrt_stopped_at :=
                    (if state \<in> {Some ''stopping'', Some ''stopped'', Some ''failed''}
                     then Some current else nrt_stopped_at runtime),
                  nrt_last_error := last_error, nrt_updated_at := current\<rparr>
            in (Some updated,
                s\<lparr>nautilus_runtimes := dict_set (rec_id runtime) updated (nautilus_runtimes s)\<rparr>))"

definition persist_nautilus_runtime_stream_cursor ::
  "datetime \<Rightarrow> string \<Rightarrow> string \<Rightarrow> payload \<Rightarrow> repo \<Rightarrow> nautilus_runtime option \<times> repo" where
  "persist_nautilus_runtime_stream_cursor current nid worker_id stream_cursor s =
     (case dict_get (nautilus_runtimes s) nid of
        None \<Rightarrow> (None, s)
      | Some runtime \<Rightarrow>
          if nrt_worker_id runtime \<noteq> Some worker_id then (None, s)
          else
            let updated = runtime\<lparr>nrt_stream_cursor := Some stream_cursor,
                  nrt_updated_at := current\<rparr>
            in (Some updated,
                s\<lparr>nautilus_runtimes := dict_set (rec_id runtime) updated (nautilus_runtimes s)\<rparr>))"

text \<open>The events of one call are appended one after the other, \<open>draw i\<close> being the \<open>i\<close>-th UUID.\<close>

fun append_nautilus_events ::
  "datetime \<Rightarrow> (nat \<Rightarrow> string) \<Rightarrow> nautilus_runtime \<Rightarrow> (string \<times> payload option \<times> string option) list
    \<Rightarrow> repo \<Rightarrow> nautilus_event list \<times> repo" where
  "append_nautilus_events now draw runtime [] s = ([], s)"
| "append_nautilus_events now draw runtime ((ty, p, k) # es) s =
     (let (e, s1) = append_nautilus_event now (draw 0) runtime ty p k s;
          (rest, s2) = append_nautilus_events now (\<lambda>i. draw (Suc i)) runtime es s1
      in (e # rest, s2))"

definition append_nautilus_runtime_events_for_worker ::
  "datetime \<Rightarrow> (nat \<Rightarrow> string) \<Rightarrow> string \<Rightarrow> string \<Rightarrow> (string \<times> payload option \<times> string option) list
    \<Rightarrow> repo \<Rightarrow> nautilus_event list option \<times> repo" where
  "append_nautilus_runtime_events_for_worker now draw nid worker_id events s =
     (case dict_get (nautilus_runtimes s) nid of
        None \<Rightarrow> (None, s)
      | Some runtime \<Rightarrow>
          if nrt_worker_id runtime \<noteq> Some worker_id then (None, s)
          else case append_nautilus_events now draw runtime events s of (es, s') \<Rightarrow> (Some es, s'))"

definition append_nautilus_runtime_event ::
  "datetime \<Rightarrow> string \<Rightarrow> auth_context \<Rightarrow> string \<Rightarrow> string \<Rightarrow> payload option \<Rightarrow> string option \<Rightarrow> repo
    \<Rightarrow> nautilus_event option \<times> repo" where
  "append_nautilus_runtime_event now uuid auth nid event_type payload idempotency_key s =
     (case dict_get (nautilus_runtimes s) nid of
        None \<Rightarrow> (None, s)
      | Some runtime \<Rightarrow>
          if \<not> is_nautilus_runtime_authorized auth runtime then (None, s)
          else case append_nautilus_event now uuid runtime event_type payload idempotency_key s of
                 (e, s') \<Rightarrow> (Some e, s'))"

definition list_nautilus_runtime_events ::
  "auth_context \<Rightarrow> string \<Rightarrow> int option \<Rightarrow> int option \<Rightarrow> repo \<Rightarrow> nautilus_event list option" where
  "list_nautilus_runtime_events auth nid limit after_sequence s =
     (case get_nautilus_runtime auth nid s of
        None \<Rightarrow> None
      | Some runtime \<Rightarrow>
          Some (first_n (bounded_nautilus_limit limit)
            (filter (\<lambda>event. case after_sequence of None \<Rightarrow> True | Some n \<Rightarrow> n < nev_sequence event)
              (log_of (nautilus_events s) (rec_id runtime)))))"

definition retained_event ::
  "datetime \<Rightarrow> string list \<Rightarrow> nautilus_event \<Rightarrow> bool" where
  "retained_event cutoff keep_ids event \<longleftrightarrow>
     nev_type event \<noteq> ''heartbeat'' \<or> (rec_id event \<in> set keep_ids \<and> created_at event \<ge> cutoff)"

definition heartbeat_keep_ids :: "int \<Rightarrow> nautilus_event list \<Rightarrow> string list" where
  "heartbeat_keep_ids max_samples events =
     map rec_id (first_n (max 0 max_samples)
       (py_sorted_rev (\<lambda>event. (created_at event, nev_sequence event))
         (filter (\<lambda>event. nev_type event = ''heartbeat'') events)))"

definition cleanup_nautilus_heartbeat_events ::
  "datetime \<Rightarrow> auth_context \<Rightarrow> string \<Rightarrow> timedelta \<Rightarrow> int \<Rightarrow> repo \<Rightarrow> int option \<times> repo" where
  "cleanup_nautilus_heartbeat_events current auth nid max_age max_samples s =
     (case get_nautilus_runtime auth nid s of
        None \<Rightarrow> (None, s)
      | Some runtime \<Rightarrow>
          let cutoff = current - max_age;
              events = log_of (nautilus_events s) (rec_id runtime);
              keep_ids = heartbeat_keep_ids max_samples events;
              retained = filter (retained_event cutoff keep_ids) events;
              removed = int (length (filter (\<lambda>e. \<not> retained_event cutoff keep_ids e) events))
          in (Some removed,
              s\<lparr>nautilus_events := dict_set (rec_id runtime) retained (nautilus_events s)\<rparr>))"

section \<open>Contracts\<close>

interpretation nrt: owned_resource get_nautilus_runtime nautilus_runtimes
  by unfold_locales (simp add: get_nautilus_runtime_def owned_get_def split: option.split)

definition nrt_log :: "repo \<Rightarrow> string \<Rightarrow> nautilus_event list" where
  "nrt_log s k = log_of (nautilus_events s) k"

definition append_nautilus_step ::
  "datetime \<times> string \<times> nautilus_runtime \<times> string \<times> payload option \<times> string option \<Rightarrow> repo \<Rightarrow> repo" where
  "append_nautilus_step c s =
     (case c of (now, uuid, runtime, ty, p, key) \<Rightarrow>
        snd (append_nautilus_event now uuid runtime ty p key s))"

text \<open>Appending an event: either the log has the key, or one event with the next number is added.\<close>

lemma append_nautilus_event_cases:
  obtains (replayed) key e where "idem = Some key" "e \<in> set (nrt_log s (rec_id rt))"
      "nev_idempotency_key e = Some key" "fst (append_nautilus_event now uuid rt ty p idem s) = e"
      "nrt_log (snd (append_nautilus_event now uuid rt ty p idem s)) = nrt_log s"
  | (added) e where
      "idem = None \<or> (\<forall>e' \<in> set (nrt_log s (rec_id rt)). nev_idempotency_key e' \<noteq> idem)"
      "e = \<lparr>rec_id = opaque_id ''nevt'' uuid, owner_user_id = owner_user_id rt,
          workspace_id = workspace_id rt, created_at = now, nev_runtime_id = rec_id rt,
          nev_sequence = int (length (nrt_log s (rec_id rt))) + 1, nev_type = ty,
          nev_payload = p, nev_idempotency_key = idem\<rparr>"
      "fst (append_nautilus_event now uuid rt ty p idem s) = e"
      "nrt_log (snd (append_nautilus_event now uuid rt ty p idem s)) =
         (nrt_log s)(rec_id rt := nrt_log s (rec_id rt) @ [e])"
proof -
  let ?e = "\<lparr>rec_id = opaque_id ''nevt'' uuid, owner_user_id = owner_user_id rt,
          workspace_id = workspace_id rt, created_at = now, nev_runtime_id = rec_id rt,
          nev_sequence = int (length (nrt_log s (rec_id rt))) + 1, nev_type = ty,
          nev_payload = p, nev_idempotency_key = idem\<rparr>"
  show ?thesis
proof (cases "case idem of None \<Rightarrow> None
    | Some k \<Rightarrow> find (\<lambda>event. nev_idempotency_key event = Some k) (nrt_log s (rec_id rt))")
  case None
  have "idem = None \<or> (\<forall>e' \<in> set (nrt_log s (rec_id rt)). nev_idempotency_key e' \<noteq> idem)"
    using None by (auto simp: find_None_iff split: option.splits)
  moreover have "append_nautilus_event now uuid rt ty p idem s = (?e, s\<lparr>nautilus_events :=
      dict_set (rec_id rt) (nrt_log s (rec_id rt) @ [?e]) (nautilus_events s)\<rparr>)"
    unfolding append_nautilus_event_def Let_def None [unfolded nrt_log_def] option.case
    by (simp add: nrt_log_def)
  ultimately show ?thesis
    by (intro added [OF _ refl]) (simp_all add: nrt_log_def [abs_def] fun_eq_iff)
next
  case (Some e)
  then obtain k where k: "idem = Some k"
    "find (\<lambda>event. nev_idempotency_key event = Some k) (nrt_log s (rec_id rt)) = Some e"
    by (auto split: option.splits)
  show ?thesis
    by (rule replayed [OF k(1)])
      (use k find_SomeD [OF k(2)] in \<open>auto simp: append_nautilus_event_def Let_def nrt_log_def [abs_def] fun_eq_iff\<close>)
qed
qed

lemma append_nautilus_event_frame [simp]:
  "nautilus_runtimes (snd (append_nautilus_event now uuid rt ty p idem s)) = nautilus_runtimes s"
  by (simp add: append_nautilus_event_def Let_def split: option.split)

lemma append_nautilus_event_dict_ok [simp]:
  "dict_ok (nautilus_events s) \<Longrightarrow>
   dict_ok (nautilus_events (snd (append_nautilus_event now uuid rt ty p idem s)))"
  by (simp add: append_nautilus_event_def Let_def split: option.split)

interpretation nrt_logs: numbered_log nrt_log nev_sequence append_nautilus_step
proof (unfold_locales, goal_cases)
  case (1 c s k)
  obtain now uuid rt ty p idem where c: "c = (now, uuid, rt, ty, p, idem)"
    by (cases c) auto
  show ?case
    by (cases rule: append_nautilus_event_cases [of idem s rt now uuid ty p])
      (auto simp: c append_nautilus_step_def)
qed

section \<open>Invariant\<close>

text \<open>
  Runtimes are stored under their ids, one per owner and runtime key; a runtime without a worker
  has no lease; strategies are not repeated.  Every log belongs to a runtime; its events carry
  the runtime's id and owner, have distinct ids, and no idempotency key twice.
\<close>

definition runtime_ok :: "nautilus_runtime \<Rightarrow> bool" where
  "runtime_ok r \<longleftrightarrow> distinct (nrt_strategy_ids r) \<and> 0 \<le> nrt_generation r \<and>
     0 \<le> nrt_heartbeat_count r \<and> (nrt_worker_id r = None \<longrightarrow> nrt_lease_until r = None)"

definition event_log_ok :: "nautilus_event list \<Rightarrow> bool" where
  "event_log_ok es \<longleftrightarrow> distinct (map rec_id es) \<and>
     distinct (map nev_idempotency_key (filter (\<lambda>e. nev_idempotency_key e \<noteq> None) es))"

definition runtimes_unique :: "nautilus_runtime dict \<Rightarrow> bool" where
  "runtimes_unique d \<longleftrightarrow>
     (\<forall>k r k' r'. dict_get d k = Some r \<longrightarrow> dict_get d k' = Some r' \<longrightarrow>
        row_tenant r = row_tenant r' \<longrightarrow> nrt_runtime_key r = nrt_runtime_key r' \<longrightarrow> k = k')"

definition nrt_inv :: "repo \<Rightarrow> bool" where
  "nrt_inv s \<longleftrightarrow>
     keyed (nautilus_runtimes s) \<and> dict_ok (nautilus_events s) \<and>
     (\<forall>k r. dict_get (nautilus_runtimes s) k = Some r \<longrightarrow> runtime_ok r) \<and>
     runtimes_unique (nautilus_runtimes s) \<and>
     (\<forall>k. event_log_ok (nrt_log s k)) \<and>
     (\<forall>k e. e \<in> set (nrt_log s k) \<longrightarrow> nev_runtime_id e = k \<and>
        (\<exists>r. dict_get (nautilus_runtimes s) k = Some r \<and> row_tenant e = row_tenant r))"

definition unused_runtime :: "string \<Rightarrow> repo \<Rightarrow> bool" where
  "unused_runtime k s \<longleftrightarrow> dict_get (nautilus_runtimes s) k = None"

definition unused_event :: "string \<Rightarrow> repo \<Rightarrow> bool" where
  "unused_event i s \<longleftrightarrow> (\<forall>k. \<forall>e \<in> set (nrt_log s k). rec_id e \<noteq> i)"

lemma nrt_invD:
  assumes "nrt_inv s"
  shows "keyed (nautilus_runtimes s)" "dict_ok (nautilus_events s)"
    "dict_get (nautilus_runtimes s) k = Some r \<Longrightarrow> runtime_ok r"
    "event_log_ok (nrt_log s k)"
    "e \<in> set (nrt_log s k) \<Longrightarrow> nev_runtime_id e = k"
    "e \<in> set (nrt_log s k) \<Longrightarrow>
       \<exists>r. dict_get (nautilus_runtimes s) k = Some r \<and> row_tenant e = row_tenant r"
  using assms by (auto simp: nrt_inv_def)

lemma nrt_inv_init: "nrt_inv init_repo"
  by (simp add: nrt_inv_def init_repo_def nrt_log_def log_of_def event_log_ok_def
      runtimes_unique_def)

lemma event_log_ok_filter: "event_log_ok es \<Longrightarrow> event_log_ok (filter P es)"
proof -
  assume ok: "event_log_ok es"
  have "filter Q (filter P es) = filter P (filter Q es)" for Q
    by (simp add: conj_commute)
  then show ?thesis
    using ok by (simp add: event_log_ok_def distinct_map_filter del: filter_filter)
qed

text \<open>Replacing a runtime by one with the same identity.\<close>

lemma runtimes_unique_replace:
  assumes "runtimes_unique d" "dict_get d k = Some r" "row_tenant r' = row_tenant r"
    "nrt_runtime_key r' = nrt_runtime_key r"
  shows "runtimes_unique (dict_set k r' d)"
proof -
  have old: "\<exists>r0. dict_get d k0 = Some r0 \<and> row_tenant r0 = row_tenant r1
      \<and> nrt_runtime_key r0 = nrt_runtime_key r1"
    if "dict_get (dict_set k r' d) k0 = Some r1" for k0 r1
    using that assms by (auto split: if_splits)
  show ?thesis
    unfolding runtimes_unique_def
    using old assms(1) [unfolded runtimes_unique_def] by metis
qed

lemma runtimes_unique_new:
  assumes "runtimes_unique d"
    "\<And>k' r'. dict_get d k' = Some r' \<Longrightarrow> row_tenant r' = row_tenant r \<Longrightarrow>
       nrt_runtime_key r' \<noteq> nrt_runtime_key r"
  shows "runtimes_unique (dict_set k r d)"
  using assms unfolding runtimes_unique_def by (simp split: if_splits) metis

lemma nrt_log_runtimes [simp]: "nrt_log (s\<lparr>nautilus_runtimes := d\<rparr>) = nrt_log s"
  by (simp add: nrt_log_def [abs_def])

lemma nrt_inv_replace:
  assumes inv: "nrt_inv s" and r: "dict_get (nautilus_runtimes s) k = Some r"
    and r': "rec_id r' = rec_id r" "row_tenant r' = row_tenant r"
      "nrt_runtime_key r' = nrt_runtime_key r" "runtime_ok r'"
  shows "nrt_inv (s\<lparr>nautilus_runtimes := dict_set k r' (nautilus_runtimes s)\<rparr>)"
proof -
  have "rec_id r' = k" using keyed_id [OF nrt_invD(1) [OF inv] r] r'(1) by simp
  moreover have "runtimes_unique (dict_set k r' (nautilus_runtimes s))"
    using inv r r' by (auto simp: nrt_inv_def intro: runtimes_unique_replace)
  moreover have "\<exists>r0. dict_get (dict_set k r' (nautilus_runtimes s)) k0 = Some r0 \<and>
      row_tenant e = row_tenant r0" if "e \<in> set (nrt_log s k0)" for e k0
    using nrt_invD(6) [OF inv that] r r'(2) by auto
  ultimately show ?thesis
    using inv r'(4) by (auto simp: nrt_inv_def simp del: dict_get_set split: if_splits)
      (simp_all split: if_splits)
qed

end
