(* ===== verification/Leases.thy ===== *)
theory Leases
  imports Prelude
begin

text \<open>
  The contract of a lease: what a worker that holds one relies on.  A holder is alone until the
  lease runs out, and, for fenced leases, a new holder gets a larger epoch than every earlier one.
\<close>

locale lease =
  fixes inv :: "'s \<Rightarrow> bool"
    and owner :: "'s \<Rightarrow> string \<Rightarrow> string option"
    and until :: "'s \<Rightarrow> string \<Rightarrow> datetime option"
    and acquire :: "datetime \<Rightarrow> string \<Rightarrow> string \<Rightarrow> int \<Rightarrow> 's \<Rightarrow> bool \<times> 's"
  assumes refused: "until s k = Some u \<Longrightarrow> now \<le> u \<Longrightarrow> owner s k \<noteq> Some w \<Longrightarrow>
      acquire now k w l s = (False, s)"
    and granted: "inv s \<Longrightarrow> fst (acquire now k w l s) \<Longrightarrow>
      owner (snd (acquire now k w l s)) k = Some w \<and>
      until (snd (acquire now k w l s)) k = Some (now + seconds l)"
    and not_granted: "\<not> fst (acquire now k w l s) \<Longrightarrow> snd (acquire now k w l s) = s"
    and acquire_inv: "inv s \<Longrightarrow> inv (snd (acquire now k w l s))"
begin

text \<open>A try by another worker before the lease has run out is refused and changes nothing.\<close>

lemma exclusive:
  assumes "inv s" "fst (acquire t k w l s)" "w' \<noteq> w" "t' \<le> t + seconds l"
  shows "acquire t' k w' l' (snd (acquire t k w l s)) = (False, snd (acquire t k w l s))"
  using granted [OF assms(1,2)] assms(3,4) by (intro refused) auto

text \<open>Any number of them.\<close>

lemma exclusive_all:
  assumes "inv s" "fst (acquire t k w l s)"
    and "\<forall>(t', w', l') \<in> set tries. w' \<noteq> w \<and> t' \<le> t + seconds l"
  shows "fold (\<lambda>(t', w', l') s. snd (acquire t' k w' l' s)) tries (snd (acquire t k w l s)) =
    snd (acquire t k w l s)"
  using assms(3)
proof (induction tries)
  case (Cons a tries)
  obtain t' w' l' where a: "a = (t', w', l')" by (cases a) auto
  with Cons.prems exclusive [OF assms(1,2)] have
    "snd (acquire t' k w' l' (snd (acquire t k w l s))) = snd (acquire t k w l s)" by auto
  with a Cons show ?case by simp
qed simp

end

locale fenced_lease = lease +
  fixes epoch :: "'s \<Rightarrow> string \<Rightarrow> int"
  assumes epoch_granted: "inv s \<Longrightarrow> fst (acquire now k w l s) \<Longrightarrow>
      epoch (snd (acquire now k w l s)) k = epoch s k + of_bool (owner s k \<noteq> Some w)"
    and epoch_frame: "inv s \<Longrightarrow> k' \<noteq> k \<Longrightarrow> epoch (snd (acquire now k w l s)) k' = epoch s k'"
begin

lemma epoch_step: "inv s \<Longrightarrow> epoch s k' \<le> epoch (snd (acquire now k w l s)) k'"
  using epoch_granted [of s now k w l] epoch_frame [of s k' k now w l] not_granted [of now k w l s]
  by (cases "k' = k"; cases "fst (acquire now k w l s)") auto

lemma epochs_inv_mono:
  "inv s \<Longrightarrow>
     inv (fold (\<lambda>(t, k, w, l) s. snd (acquire t k w l s)) tries s) \<and>
     epoch s k' \<le> epoch (fold (\<lambda>(t, k, w, l) s. snd (acquire t k w l s)) tries s) k'"
proof (induction tries arbitrary: s)
  case (Cons a tries)
  obtain t k w l where a: "a = (t, k, w, l)" by (cases a) auto
  have "inv (snd (acquire t k w l s))" using Cons.prems by (rule acquire_inv)
  from Cons.IH [OF this] epoch_step [OF Cons.prems, of k' t k w l] show ?case
    by (auto simp: a)
qed simp

text \<open>A change of holder raises the epoch, so an earlier holder can be told from the current one.\<close>

lemma fencing:
  assumes "inv s" "fst (acquire t k w l s)" "owner s k \<noteq> Some w"
  shows "epoch s k < epoch (snd (acquire t k w l s)) k"
  using epoch_granted [OF assms(1,2)] assms(3) by simp

end

end
