(* ===== verification/Nautilus_Laws.thy ===== *)
theory Nautilus_Laws
  imports Nautilus Leases
begin

text \<open>
  Laws of the paper-trading runtimes: every operation keeps the invariant, leases exclude and
  fence, the kill switch is not undone by workers, events with a key are recorded once, and what
  the heartbeat retention keeps.
\<close>

section \<open>The operations keep the invariant\<close>

lemma runtime_replace_cases:
  assumes inv: "nrt_inv s" and r: "dict_get (nautilus_runtimes s) k = Some r"
    and r': "rec_id r' = rec_id r" "row_tenant r' = row_tenant r"
      "nrt_runtime_key r' = nrt_runtime_key r" "runtime_ok r \<Longrightarrow> runtime_ok r'"
  shows "nrt_inv (s\<lparr>nautilus_runtimes := dict_set (rec_id r) r' (nautilus_runtimes s)\<rparr>)"
  using nrt_inv_replace [OF inv r r'(1-3)] r'(4) nrt_invD(3) [OF inv r]
    keyed_id [OF nrt_invD(1) [OF inv] r] by simp

lemma upsert_nautilus_runtime_inv:
  assumes inv: "nrt_inv s" and fresh: "unused_runtime (opaque_id ''nrt'' uuid) s"
  shows "nrt_inv (snd (upsert_nautilus_runtime now uuid auth rk br ac md rp sid mf sub s))"
proof (cases "find (\<lambda>runtime. nrt_runtime_key runtime = rk
      \<and> owner_user_id runtime = user_id auth \<and> workspace_id runtime = auth_workspace_id auth)
    (dict_values (nautilus_runtimes s))")
  case None
  let ?k = "opaque_id ''nrt'' uuid"
  have no_log: "nrt_log s ?k = []"
    using nrt_invD(6) [OF inv, of _ ?k] fresh by (cases "nrt_log s ?k") (auto simp: unused_runtime_def)
  have log: "nrt_log (s\<lparr>nautilus_runtimes := d, nautilus_events := dict_set ?k [] (nautilus_events s)\<rparr>) =
      nrt_log s" for d
    using no_log by (auto simp: nrt_log_def fun_eq_iff)
  have uniq: "nrt_runtime_key r' \<noteq> rk"
    if "dict_get (nautilus_runtimes s) k' = Some r'" "row_tenant r' = (user_id auth, auth_workspace_id auth)"
    for k' r'
    using None that dict_value_in [OF that(1)] by (auto simp: find_None_iff row_tenant_def)
  have runtimes: "runtimes_unique (dict_set ?k r (nautilus_runtimes s))"
    if "row_tenant r = (user_id auth, auth_workspace_id auth)" "nrt_runtime_key r = rk" for r
    using inv uniq that by (intro runtimes_unique_new) (auto simp: nrt_inv_def)
  have step: "nrt_inv (s\<lparr>nautilus_runtimes := dict_set ?k r (nautilus_runtimes s),
      nautilus_events := dict_set ?k [] (nautilus_events s)\<rparr>)"
    if "rec_id r = ?k" "row_tenant r = (user_id auth, auth_workspace_id auth)"
      "nrt_runtime_key r = rk" "runtime_ok r" for r
    using inv that runtimes [OF that(2,3)] no_log
    by (auto simp: nrt_inv_def log split: if_splits)
  show ?thesis
    unfolding upsert_nautilus_runtime_def None
    by (simp only: option.case Let_def snd_conv row.simps)
      (rule step, simp_all add: row_tenant_def runtime_ok_def)
next
  case (Some e)
  then have "e \<in> set (dict_values (nautilus_runtimes s))" by (auto dest: find_SomeD)
  then have e: "dict_get (nautilus_runtimes s) (rec_id e) = Some e"
    by (rule keyed_value [OF nrt_invD(1) [OF inv]])
  have step: "nrt_inv (s\<lparr>nautilus_runtimes := dict_set (rec_id r) r (nautilus_runtimes s)\<rparr>)"
    if "rec_id r = rec_id e" "row_tenant r = row_tenant e" "nrt_runtime_key r = nrt_runtime_key e"
      "runtime_ok e \<Longrightarrow> runtime_ok r" for r
    using runtime_replace_cases [OF inv e that] that(1) by simp
  show ?thesis
    unfolding upsert_nautilus_runtime_def Some
    by (simp only: option.case Let_def snd_conv)
      (rule step, auto simp: row_tenant_def runtime_ok_def)
qed

lemma runtime_field_ops_inv:
  assumes inv: "nrt_inv s"
  shows "nrt_inv (snd (set_nautilus_runtime_state now auth nid st s))"
    "nrt_inv (snd (activate_nautilus_runtime_kill_switch now auth nid s))"
    "nrt_inv (snd (set_nautilus_runtime_desired_state now auth nid ds s))"
    "nrt_inv (snd (claim_nautilus_runtime_lease now nid w l s))"
    "nrt_inv (snd (renew_nautilus_runtime_lease now nid w l s))"
    "nrt_inv (snd (release_nautilus_runtime_lease now nid w st' err s))"
    "nrt_inv (snd (persist_nautilus_runtime_stream_cursor now nid w cur s))"
proof -
  note rep = runtime_replace_cases [OF inv]
  note unf = set_nautilus_runtime_state_def activate_nautilus_runtime_kill_switch_def
    set_nautilus_runtime_desired_state_def claim_nautilus_runtime_lease_def
    renew_nautilus_runtime_lease_def release_nautilus_runtime_lease_def
    persist_nautilus_runtime_stream_cursor_def Let_def
  show "nrt_inv (snd (set_nautilus_runtime_state now auth nid st s))"
    by (auto simp: unf inv row_tenant_def runtime_ok_def split: option.split intro!: rep)
  show "nrt_inv (snd (activate_nautilus_runtime_kill_switch now auth nid s))"
    by (auto simp: unf inv row_tenant_def runtime_ok_def split: option.split intro!: rep)
  show "nrt_inv (snd (set_nautilus_runtime_desired_state now auth nid ds s))"
    by (auto simp: unf inv row_tenant_def runtime_ok_def split: option.split intro!: rep)
  show "nrt_inv (snd (claim_nautilus_runtime_lease now nid w l s))"
    by (auto simp: unf inv row_tenant_def runtime_ok_def split: option.split intro!: rep)
  show "nrt_inv (snd (renew_nautilus_runtime_lease now nid w l s))"
    by (auto simp: unf inv row_tenant_def runtime_ok_def split: option.split intro!: rep)
  show "nrt_inv (snd (release_nautilus_runtime_lease now nid w st' err s))"
    by (auto simp: unf inv row_tenant_def runtime_ok_def split: option.split intro!: rep)
  show "nrt_inv (snd (persist_nautilus_runtime_stream_cursor now nid w cur s))"
    by (auto simp: unf inv row_tenant_def runtime_ok_def split: option.split intro!: rep)
qed

text \<open>Appending to the log of a stored runtime.\<close>

lemma append_nautilus_event_inv:
  assumes inv: "nrt_inv s" and rt: "dict_get (nautilus_runtimes s) (rec_id rt) = Some rt"
    and fresh: "unused_event (opaque_id ''nevt'' uuid) s"
  shows "nrt_inv (snd (append_nautilus_event now uuid rt ty p idem s))"
proof (cases rule: append_nautilus_event_cases [of idem s rt now uuid ty p])
  case (replayed key e)
  then show ?thesis using inv by (simp add: nrt_inv_def)
next
  case (added e)
  have "rec_id e \<notin> rec_id ` set (nrt_log s (rec_id rt))"
  proof
    assume "rec_id e \<in> rec_id ` set (nrt_log s (rec_id rt))"
    then obtain x where "x \<in> set (nrt_log s (rec_id rt))" "rec_id x = rec_id e" by auto
    with fresh show False by (simp add: unused_event_def added(2))
  qed
  with added(1,2) have "event_log_ok (nrt_log s (rec_id rt) @ [e])"
    using nrt_invD(4) [OF inv, of "rec_id rt"] by (auto simp: event_log_ok_def)
  moreover have "nev_runtime_id e = rec_id rt" "row_tenant e = row_tenant rt"
    using added(2) by (simp_all add: row_tenant_def)
  moreover have "row_tenant x = row_tenant rt" if "x \<in> set (nrt_log s (rec_id rt))" for x
    using nrt_invD(6) [OF inv that] rt by auto
  ultimately show ?thesis
    using inv rt added(4) by (auto simp: nrt_inv_def split: if_splits)
qed

lemma append_nautilus_event_log_ids:
  assumes "unused_event i s" "i \<noteq> opaque_id ''nevt'' uuid"
  shows "unused_event i (snd (append_nautilus_event now uuid rt ty p idem s))"
  using assms
  by (cases rule: append_nautilus_event_cases [of idem s rt now uuid ty p])
    (auto simp: unused_event_def)

lemma append_nautilus_events_inv:
  assumes "nrt_inv s" "dict_get (nautilus_runtimes s) (rec_id rt) = Some rt"
    and "\<And>i. unused_event (opaque_id ''nevt'' (draw i)) s" "inj draw"
  shows "nrt_inv (snd (append_nautilus_events now draw rt es s))"
  using assms
proof (induction es arbitrary: s draw)
  case (Cons x es)
  obtain ty p idem where x: "x = (ty, p, idem)" by (cases x) auto
  let ?s = "snd (append_nautilus_event now (draw 0) rt ty p idem s)"
  have ne: "draw (Suc i) \<noteq> draw 0" for i
    using Cons.prems(4) by (auto dest: injD)
  have "nrt_inv ?s" using Cons.prems by (intro append_nautilus_event_inv) auto
  moreover have "unused_event (opaque_id ''nevt'' (draw (Suc i))) ?s" for i
    using Cons.prems(3) ne by (intro append_nautilus_event_log_ids) auto
  moreover have "inj (\<lambda>i. draw (Suc i))"
    using Cons.prems(4) by (auto simp: inj_def)
  ultimately have "nrt_inv (snd (append_nautilus_events now (\<lambda>i. draw (Suc i)) rt es ?s))"
    using Cons.prems(2) by (intro Cons.IH) auto
  then show ?case by (simp add: x Let_def split_beta)
qed simp

lemma append_ops_inv:
  assumes inv: "nrt_inv s"
  shows "unused_event (opaque_id ''nevt'' uuid) s \<Longrightarrow>
      nrt_inv (snd (append_nautilus_runtime_event now uuid auth nid ty p idem s))"
    and "(\<And>i. unused_event (opaque_id ''nevt'' (draw i)) s) \<Longrightarrow> inj draw \<Longrightarrow>
      nrt_inv (snd (append_nautilus_runtime_events_for_worker now draw nid w es s))"
proof -
  have id: "dict_get (nautilus_runtimes s) (rec_id r) = Some r"
    if "dict_get (nautilus_runtimes s) nid = Some r" for r
    using keyed_id [OF nrt_invD(1) [OF inv] that] that by simp
  show "nrt_inv (snd (append_nautilus_runtime_event now uuid auth nid ty p idem s))"
    if "unused_event (opaque_id ''nevt'' uuid) s"
    using append_nautilus_event_inv [OF inv id that]
    by (auto simp: append_nautilus_runtime_event_def inv split_beta split: option.split)
  show "nrt_inv (snd (append_nautilus_runtime_events_for_worker now draw nid w es s))"
    if "\<And>i. unused_event (opaque_id ''nevt'' (draw i)) s" "inj draw"
    using append_nautilus_events_inv [OF inv id that]
    by (auto simp: append_nautilus_runtime_events_for_worker_def inv split_beta split: option.split)
qed

lemma record_heartbeat_cases:
  obtains (denied) "get_nautilus_runtime auth nid s = None"
      "record_nautilus_runtime_heartbeat now uuid auth nid p idem s = (Inr None, s)"
  | (raised) rt e where "get_nautilus_runtime auth nid s = Some rt" "heartbeat_state rt p = Inl e"
      "record_nautilus_runtime_heartbeat now uuid auth nid p idem s = (Inl e, s)"
  | (recorded) rt st s1 h where "get_nautilus_runtime auth nid s = Some rt"
      "heartbeat_state rt p = Inr st"
      "s1 = (if should_append_nautilus_heartbeat_event rt st now
             then snd (append_nautilus_event now uuid rt ''heartbeat'' p idem s) else s)"
      "record_nautilus_runtime_heartbeat now uuid auth nid p idem s =
         (Inr (Some h), s1\<lparr>nautilus_runtimes :=
            dict_set (rec_id rt) (hb_runtime h) (nautilus_runtimes s1)\<rparr>)"
      "hb_runtime h = rt\<lparr>nrt_state := st, nrt_last_heartbeat_at := Some now,
         nrt_heartbeat_count := nrt_heartbeat_count rt + 1, nrt_heartbeat_metrics := p,
         nrt_last_heartbeat_event_at := (if should_append_nautilus_heartbeat_event rt st now
            then Some now else nrt_last_heartbeat_event_at rt),
         nrt_updated_at := now\<rparr>"
proof (cases "get_nautilus_runtime auth nid s")
  case None
  then show ?thesis
    by (intro denied) (auto simp: get_nautilus_runtime_def record_nautilus_runtime_heartbeat_def
        split: option.splits if_splits)
next
  case (Some rt)
  then have rt: "dict_get (nautilus_runtimes s) nid = Some rt" "is_authorized auth rt"
    by (simp_all add: nrt.fetch_eq owned_get_Some)
  show ?thesis
  proof (cases "heartbeat_state rt p")
    case (Inl e)
    with Some rt show ?thesis
      by (intro raised) (auto simp: record_nautilus_runtime_heartbeat_def)
  next
    case (Inr st)
    let ?append = "should_append_nautilus_heartbeat_event rt st now"
    let ?s1 = "if ?append then snd (append_nautilus_event now uuid rt ''heartbeat'' p idem s) else s"
    have "\<exists>h. record_nautilus_runtime_heartbeat now uuid auth nid p idem s =
         (Inr (Some h), ?s1\<lparr>nautilus_runtimes :=
            dict_set (rec_id rt) (hb_runtime h) (nautilus_runtimes ?s1)\<rparr>) \<and>
      hb_runtime h = rt\<lparr>nrt_state := st, nrt_last_heartbeat_at := Some now,
         nrt_heartbeat_count := nrt_heartbeat_count rt + 1, nrt_heartbeat_metrics := p,
         nrt_last_heartbeat_event_at := (if ?append then Some now
            else nrt_last_heartbeat_event_at rt),
         nrt_updated_at := now\<rparr>"
      using rt Inr
      by (cases ?append) (simp_all add: record_nautilus_runtime_heartbeat_def Let_def split_beta)
    then show ?thesis
      using recorded [OF Some Inr refl] by blast
  qed
qed

lemma record_heartbeat_inv:
  assumes inv: "nrt_inv s" and fresh: "unused_event (opaque_id ''nevt'' uuid) s"
  shows "nrt_inv (snd (record_nautilus_runtime_heartbeat now uuid auth nid p idem s))"
proof (cases rule: record_heartbeat_cases [of auth nid s now uuid p idem])
  case (recorded rt st s1 h)
  have rt: "dict_get (nautilus_runtimes s) (rec_id rt) = Some rt"
    using nrt.fetch_stored [OF recorded(1)] nrt.fetch_id [OF nrt_invD(1) [OF inv] recorded(1)]
    by simp
  have s1: "nrt_inv s1" "dict_get (nautilus_runtimes s1) (rec_id rt) = Some rt"
    using append_nautilus_event_inv [OF inv rt fresh] inv rt recorded(3) by auto
  show ?thesis
    unfolding recorded(4) snd_conv
    by (rule runtime_replace_cases [OF s1])
      (auto simp: recorded(5) row_tenant_def runtime_ok_def)
qed (use inv in auto)

lemma cleanup_inv:
  assumes inv: "nrt_inv s"
  shows "nrt_inv (snd (cleanup_nautilus_heartbeat_events now auth nid age n s))"
proof (cases "get_nautilus_runtime auth nid s")
  case (Some rt)
  have log: "nrt_log (s\<lparr>nautilus_events := dict_set k (filter P (log_of (nautilus_events s) k))
        (nautilus_events s)\<rparr>) = (nrt_log s)(k := filter P (nrt_log s k))" for k P
    by (auto simp: nrt_log_def fun_eq_iff)
  show ?thesis
    using inv event_log_ok_filter [OF nrt_invD(4) [OF inv]]
    by (auto simp: cleanup_nautilus_heartbeat_events_def Some Let_def nrt_inv_def log split: if_splits)
qed (simp add: cleanup_nautilus_heartbeat_events_def inv)

section \<open>Leases\<close>

definition nrt_lease_owner :: "repo \<Rightarrow> string \<Rightarrow> string option" where
  "nrt_lease_owner s k =
     (case dict_get (nautilus_runtimes s) k of None \<Rightarrow> None | Some r \<Rightarrow> nrt_worker_id r)"

definition nrt_lease_end :: "repo \<Rightarrow> string \<Rightarrow> datetime option" where
  "nrt_lease_end s k =
     (case dict_get (nautilus_runtimes s) k of None \<Rightarrow> None | Some r \<Rightarrow> nrt_lease_until r)"

definition nrt_epoch :: "repo \<Rightarrow> string \<Rightarrow> int" where
  "nrt_epoch s k =
     (case dict_get (nautilus_runtimes s) k of None \<Rightarrow> 0 | Some r \<Rightarrow> nrt_generation r)"

definition nrt_acquire :: "datetime \<Rightarrow> string \<Rightarrow> string \<Rightarrow> int \<Rightarrow> repo \<Rightarrow> bool \<times> repo" where
  "nrt_acquire now k w l s =
     (case claim_nautilus_runtime_lease now k w l s of (r, s') \<Rightarrow> (r \<noteq> None, s'))"

lemmas nrt_lease_views = nrt_lease_owner_def nrt_lease_end_def nrt_epoch_def

lemma nrt_acquire_cases:
  obtains (refused) "nrt_acquire now k w l s = (False, s)"
      "dict_get (nautilus_runtimes s) k = None \<or>
       (\<exists>u. nrt_lease_end s k = Some u \<and> now \<le> u \<and> nrt_lease_owner s k \<noteq> Some w)"
  | (granted) r r' where "dict_get (nautilus_runtimes s) k = Some r"
      "\<not> (\<exists>u. nrt_lease_until r = Some u \<and> now \<le> u \<and> nrt_worker_id r \<noteq> Some w)"
      "nrt_worker_id r' = Some w" "nrt_lease_until r' = Some (now + seconds l)"
      "nrt_generation r' = nrt_generation r + of_bool (nrt_worker_id r \<noteq> Some w)"
      "nrt_acquire now k w l s =
         (True, s\<lparr>nautilus_runtimes := dict_set (rec_id r) r' (nautilus_runtimes s)\<rparr>)"
proof (cases "dict_get (nautilus_runtimes s) k")
  case None
  then show ?thesis
    by (intro refused) (simp_all add: nrt_acquire_def claim_nautilus_runtime_lease_def)
next
  case (Some r)
  show ?thesis
  proof (cases "\<exists>u. nrt_lease_until r = Some u \<and> now \<le> u \<and> nrt_worker_id r \<noteq> Some w")
    case True
    then show ?thesis
      by (intro refused)
        (auto simp: Some nrt_acquire_def claim_nautilus_runtime_lease_def nrt_lease_views)
  next
    case False
    then have "\<not> ((case nrt_lease_until r of None \<Rightarrow> False | Some u \<Rightarrow> u \<ge> now)
        \<and> nrt_worker_id r \<noteq> Some w)" by (auto split: option.splits)
    then show ?thesis
      by (intro granted [OF Some False])
        (simp_all add: Some nrt_acquire_def claim_nautilus_runtime_lease_def Let_def)
  qed
qed

interpretation nrt_lease: fenced_lease nrt_inv nrt_lease_owner nrt_lease_end nrt_acquire nrt_epoch
proof (unfold_locales, goal_cases)
  case (1 s k u now w l)
  then show ?case
    by (cases rule: nrt_acquire_cases [of now k w l s]) (auto simp: nrt_lease_views)
next
  case (2 s now k w l)
  show ?case
    using 2 keyed_id [OF nrt_invD(1) [OF 2(1)], of k]
    by (cases rule: nrt_acquire_cases [of now k w l s]) (simp_all add: nrt_lease_views)
next
  case (3 now k w l s)
  then show ?case by (cases rule: nrt_acquire_cases [of now k w l s]) simp_all
next
  case (4 s now k w l)
  then show ?case
    using runtime_field_ops_inv(4) [OF 4, of now k w l]
    by (simp add: nrt_acquire_def split_beta)
next
  case (5 s now k w l)
  then show ?case
    using keyed_id [OF nrt_invD(1) [OF 5(1)], of k]
    by (cases rule: nrt_acquire_cases [of now k w l s]) (simp_all add: nrt_lease_views)
next
  case (6 s k' k now w l)
  then show ?case
    using keyed_id [OF nrt_invD(1) [OF 6(1)], of k]
    by (cases rule: nrt_acquire_cases [of now k w l s]) (simp_all add: nrt_lease_views)
qed

section \<open>The kill switch\<close>

definition halting_states :: "string set" where
  "halting_states = {''stopping'', ''stopped'', ''failed''}"

definition halted :: "nautilus_runtime \<Rightarrow> bool" where
  "halted r \<longleftrightarrow> nrt_kill_switch r \<and> nrt_desired_state r = ''stopping'' \<and>
     nrt_state r \<in> halting_states"

definition runtime_at :: "(nautilus_runtime \<Rightarrow> bool) \<Rightarrow> string \<Rightarrow> repo \<Rightarrow> bool" where
  "runtime_at P k s \<longleftrightarrow> (\<exists>r. dict_get (nautilus_runtimes s) k = Some r \<and> P r)"

text \<open>
  The steps of workers and of a redeployment.  A worker that gives its lease back reports no state,
  or one in which it has stopped.
\<close>

inductive worker_step :: "repo \<Rightarrow> repo \<Rightarrow> bool" where
  redeploy: "unused_runtime (opaque_id ''nrt'' uuid) s \<Longrightarrow>
    worker_step s (snd (upsert_nautilus_runtime now uuid auth rk br ac md rp sid mf sub s))"
| beat: "unused_event (opaque_id ''nevt'' uuid) s \<Longrightarrow>
    worker_step s (snd (record_nautilus_runtime_heartbeat now uuid auth nid p idem s))"
| claim: "worker_step s (snd (claim_nautilus_runtime_lease now nid w l s))"
| renew: "worker_step s (snd (renew_nautilus_runtime_lease now nid w l s))"
| release: "st = None \<or> st \<in> Some ` halting_states \<Longrightarrow>
    worker_step s (snd (release_nautilus_runtime_lease now nid w st err s))"
| persist: "worker_step s (snd (persist_nautilus_runtime_stream_cursor now nid w cur s))"
| report: "(\<And>i. unused_event (opaque_id ''nevt'' (draw i)) s) \<Longrightarrow> inj draw \<Longrightarrow>
    worker_step s (snd (append_nautilus_runtime_events_for_worker now draw nid w es s))"
| note_event: "unused_event (opaque_id ''nevt'' uuid) s \<Longrightarrow>
    worker_step s (snd (append_nautilus_runtime_event now uuid auth nid ty p idem s))"
| cleanup: "worker_step s (snd (cleanup_nautilus_heartbeat_events now auth nid age n s))"

lemma worker_step_inv: "worker_step s s' \<Longrightarrow> nrt_inv s \<Longrightarrow> nrt_inv s'"
  by (induction rule: worker_step.induct)
    (auto intro: upsert_nautilus_runtime_inv record_heartbeat_inv runtime_field_ops_inv
      append_ops_inv cleanup_inv)

text \<open>A field-wise update of a runtime that keeps a property keeps it at every key.\<close>

lemma runtime_at_replace:
  assumes "runtime_at P k s" "\<And>r0. dict_get (nautilus_runtimes s) k' = Some r0 \<Longrightarrow> P r0 \<Longrightarrow> P r"
  shows "runtime_at P k (s\<lparr>nautilus_runtimes := dict_set k' r (nautilus_runtimes s)\<rparr>)"
  using assms by (auto simp: runtime_at_def)

lemma append_nautilus_events_frame [simp]:
  "nautilus_runtimes (snd (append_nautilus_events now draw rt es s)) = nautilus_runtimes s"
  by (induction es arbitrary: s draw) (auto simp: Let_def split_beta)

lemma append_ops_frame [simp]:
  "nautilus_runtimes (snd (append_nautilus_runtime_events_for_worker now draw nid w es s)) =
     nautilus_runtimes s"
  "nautilus_runtimes (snd (append_nautilus_runtime_event now uuid auth nid ty p idem s)) =
     nautilus_runtimes s"
  "nautilus_runtimes (snd (cleanup_nautilus_heartbeat_events now auth nid age n s)) =
     nautilus_runtimes s"
  by (auto simp: append_nautilus_runtime_events_for_worker_def append_nautilus_runtime_event_def
      cleanup_nautilus_heartbeat_events_def Let_def split_beta split: option.split)

lemma heartbeat_state_halted:
  "halted r \<Longrightarrow> heartbeat_state r p = Inr (nrt_state r)"
  by (simp add: halted_def halting_states_def heartbeat_state_def)

lemma worker_step_halted:
  assumes "worker_step s s'" "nrt_inv s" "runtime_at halted k s"
  shows "runtime_at halted k s'"
  using assms
proof (induction rule: worker_step.induct)
  case (redeploy uuid s now auth rk br ac md rp sid mf sub)
  show ?case
  proof (cases "find (\<lambda>runtime. nrt_runtime_key runtime = rk
        \<and> owner_user_id runtime = user_id auth \<and> workspace_id runtime = auth_workspace_id auth)
      (dict_values (nautilus_runtimes s))")
    case None
    then show ?thesis
      using redeploy by (auto simp: upsert_nautilus_runtime_def Let_def runtime_at_def unused_runtime_def)
  next
    case (Some e)
    then have "e \<in> set (dict_values (nautilus_runtimes s))" by (auto dest: find_SomeD)
    then have "dict_get (nautilus_runtimes s) (rec_id e) = Some e"
      by (rule keyed_value [OF nrt_invD(1) [OF redeploy(2)]])
    then show ?thesis
      using redeploy(3) Some
      by (auto simp: upsert_nautilus_runtime_def Let_def runtime_at_def halted_def)
  qed
next
  case (beat uuid s now auth nid p idem)
  show ?case
  proof (cases rule: record_heartbeat_cases [of auth nid s now uuid p idem])
    case (recorded rt st s1 h)
    have rt: "dict_get (nautilus_runtimes s) (rec_id rt) = Some rt"
      using nrt.fetch_stored [OF recorded(1)] nrt.fetch_id [OF nrt_invD(1) [OF beat(2)] recorded(1)]
      by simp
    have s1: "nautilus_runtimes s1 = nautilus_runtimes s" by (simp add: recorded(3))
    then have "runtime_at halted k s1" using beat(3) by (simp add: runtime_at_def)
    moreover have "halted (hb_runtime h)" if "halted rt"
      using that recorded(2,5) heartbeat_state_halted [OF that, of p] by (simp add: halted_def)
    ultimately show ?thesis
      unfolding recorded(4) snd_conv
      using rt s1 by (intro runtime_at_replace) auto
  qed (use beat in auto)
next
  case (claim s now nid w l)
  then show ?case
    using keyed_id [OF nrt_invD(1) [OF claim(1)]]
    by (auto simp: claim_nautilus_runtime_lease_def Let_def halted_def halting_states_def
        split: option.split intro!: runtime_at_replace)
next
  case (renew s now nid w l)
  then show ?case
    using keyed_id [OF nrt_invD(1) [OF renew(1)]]
    by (auto simp: renew_nautilus_runtime_lease_def Let_def halted_def
        split: option.split intro!: runtime_at_replace)
next
  case (release st s now nid w err)
  then show ?case
    using keyed_id [OF nrt_invD(1) [OF release(2)]]
    by (auto simp: release_nautilus_runtime_lease_def Let_def halted_def halting_states_def or_str_def
        split: option.split intro!: runtime_at_replace)
next
  case (persist s now nid w cur)
  then show ?case
    using keyed_id [OF nrt_invD(1) [OF persist(1)]]
    by (auto simp: persist_nautilus_runtime_stream_cursor_def Let_def halted_def
        split: option.split intro!: runtime_at_replace)
qed (auto simp: runtime_at_def)

lemma worker_run_halted:
  assumes "worker_step\<^sup>*\<^sup>* s s'" "nrt_inv s" "runtime_at halted k s"
  shows "nrt_inv s' \<and> runtime_at halted k s'"
  using assms by (induction) (auto intro: worker_step_inv worker_step_halted)

lemma kill_switch_halts:
  assumes "nrt_inv s" "get_nautilus_runtime auth k s = Some r"
  shows "runtime_at halted k (snd (activate_nautilus_runtime_kill_switch now auth k s))"
  using assms nrt.fetch_id [OF nrt_invD(1) [OF assms(1)] assms(2)]
  by (simp add: nrt.fetch_eq owned_get_Some activate_nautilus_runtime_kill_switch_def Let_def
      runtime_at_def halted_def halting_states_def)

lemma halted_not_desired:
  assumes "nrt_inv s" "runtime_at halted k s"
    and "r \<in> set (list_desired_nautilus_runtimes now mode ''running'' w limit s)"
  shows "rec_id r \<noteq> k"
proof
  assume k: "rec_id r = k"
  have "r \<in> set (dict_values (nautilus_runtimes s))" and d: "nrt_desired_state r = ''running''"
    using assms(3) by (auto simp: list_desired_nautilus_runtimes_def first_n_def runtime_wanted_def
        dest!: in_set_takeD)
  then have "dict_get (nautilus_runtimes s) k = Some r"
    using keyed_value [OF nrt_invD(1) [OF assms(1)]] k by blast
  with assms(2) d show False by (simp add: runtime_at_def halted_def)
qed

end
