(* ===== verification/Nautilus_Events.thy ===== *)
theory Nautilus_Events
  imports Nautilus_Laws
begin

text \<open>
  The event log of the runtimes: an event with an idempotency key is recorded once, the heartbeat
  retention keeps what it should, and how it interferes with the numbering of later events.
\<close>

section \<open>Idempotency keys\<close>

lemma find_snoc: "find P xs = None \<Longrightarrow> P y \<Longrightarrow> find P (xs @ [y]) = Some y"
  by (induction xs) (auto split: if_splits)

lemma append_with_key_finds:
  "find (\<lambda>e. nev_idempotency_key e = Some key)
     (nrt_log (snd (append_nautilus_event now uuid rt ty p (Some key) s)) (rec_id rt)) =
   Some (fst (append_nautilus_event now uuid rt ty p (Some key) s))"
proof (cases "find (\<lambda>e. nev_idempotency_key e = Some key) (nrt_log s (rec_id rt))")
  case None
  then show ?thesis
    by (simp add: append_nautilus_event_def Let_def nrt_log_def find_snoc)
next
  case (Some e)
  then show ?thesis by (simp add: append_nautilus_event_def Let_def nrt_log_def)
qed

lemma append_with_key_replays:
  assumes "find (\<lambda>e. nev_idempotency_key e = Some key) (nrt_log s (rec_id rt)) = Some e"
  shows "fst (append_nautilus_event now uuid rt ty p (Some key) s) = e"
    "nrt_log (snd (append_nautilus_event now uuid rt ty p (Some key) s)) = nrt_log s"
  using assms
  by (simp_all add: append_nautilus_event_def Let_def nrt_log_def [abs_def] fun_eq_iff)

lemma find_append: "find P xs = Some x \<Longrightarrow> find P (xs @ ys) = Some x"
  by (induction xs) auto

lemma append_key_once:
  assumes "append_nautilus_event now uuid rt ty p (Some key) s = (e, s1)"
    and "append_nautilus_event now' uuid' rt' ty' p' (Some key) (fold append_nautilus_step cs s1)
      = (e', s2)"
    and "rec_id rt' = rec_id rt"
  shows "e' = e \<and> nrt_log s2 = nrt_log (fold append_nautilus_step cs s1)"
proof -
  obtain new where new: "nrt_log (fold append_nautilus_step cs s1) (rec_id rt) =
      nrt_log s1 (rec_id rt) @ new"
    using nrt_logs.runs_prefix by blast
  have "find (\<lambda>e. nev_idempotency_key e = Some key) (nrt_log s1 (rec_id rt)) = Some e"
    using append_with_key_finds [of key now uuid rt ty p s] assms(1) by simp
  then have f: "find (\<lambda>e. nev_idempotency_key e = Some key)
      (nrt_log (fold append_nautilus_step cs s1) (rec_id rt')) = Some e"
    by (simp add: assms(3) new find_append)
  show ?thesis
    using append_with_key_replays [OF f, of now' uuid' ty' p'] assms(2) by simp
qed

section \<open>What the retention keeps\<close>

lemma cleanup_cases:
  obtains (denied) "get_nautilus_runtime auth nid s = None"
      "cleanup_nautilus_heartbeat_events now auth nid age m s = (None, s)"
  | (cleaned) rt keep where "get_nautilus_runtime auth nid s = Some rt"
      "keep = retained_event (now - age) (heartbeat_keep_ids m (nrt_log s (rec_id rt)))"
      "fst (cleanup_nautilus_heartbeat_events now auth nid age m s) =
         Some (int (length (filter (\<lambda>e. \<not> keep e) (nrt_log s (rec_id rt)))))"
      "nrt_log (snd (cleanup_nautilus_heartbeat_events now auth nid age m s)) =
         (nrt_log s)(rec_id rt := filter keep (nrt_log s (rec_id rt)))"
      "nautilus_runtimes (snd (cleanup_nautilus_heartbeat_events now auth nid age m s)) =
         nautilus_runtimes s"
proof (cases "get_nautilus_runtime auth nid s")
  case None
  then show ?thesis
    by (intro denied) (simp_all add: cleanup_nautilus_heartbeat_events_def)
next
  case (Some rt)
  show ?thesis
    by (rule cleaned [OF Some refl])
      (simp_all add: Some cleanup_nautilus_heartbeat_events_def Let_def nrt_log_def fun_eq_iff)
qed

definition heartbeats :: "nautilus_event list \<Rightarrow> nautilus_event list" where
  "heartbeats es = filter (\<lambda>e. nev_type e = ''heartbeat'') es"

definition event_age_key :: "nautilus_event \<Rightarrow> datetime \<times> int" where
  "event_age_key e = (created_at e, nev_sequence e)"

lemma heartbeat_keep_ids_eq:
  "heartbeat_keep_ids m es =
     map rec_id (first_n (max 0 m) (py_sorted_rev event_age_key (heartbeats es)))"
  by (simp add: heartbeat_keep_ids_def heartbeats_def event_age_key_def [abs_def])

lemma heartbeat_keep_ids_count: "int (length (heartbeat_keep_ids m es)) \<le> max 0 m"
  by (simp add: heartbeat_keep_ids_eq first_n_def)

lemma kept_heartbeats_bound:
  assumes ids: "distinct (map rec_id es)"
  shows "int (length (heartbeats (filter (retained_event c (heartbeat_keep_ids m es)) es))) \<le> max 0 m"
proof -
  let ?kept = "heartbeats (filter (retained_event c (heartbeat_keep_ids m es)) es)"
  have "distinct (map rec_id ?kept)"
    using ids by (simp add: heartbeats_def distinct_map_filter)
  then have "length ?kept = card (set (map rec_id ?kept))"
    by (metis distinct_card length_map)
  also have "\<dots> \<le> card (set (heartbeat_keep_ids m es))"
    by (rule card_mono) (auto simp: heartbeats_def retained_event_def)
  also have "\<dots> \<le> length (heartbeat_keep_ids m es)" by (rule card_length)
  finally show ?thesis using heartbeat_keep_ids_count [of m es] by linarith
qed

text \<open>A heartbeat that is dropped although it is young enough is not younger than any kept one.\<close>

lemma sorted_wrt_take_drop:
  assumes "sorted_wrt P xs" "x \<in> set (take n xs)" "y \<in> set xs" "y \<notin> set (take n xs)"
  shows "P x y"
proof -
  have "sorted_wrt P (take n xs @ drop n xs)" using assms(1) by simp
  moreover have "y \<in> set (drop n xs)"
    using assms(3,4) by (metis append_take_drop_id Un_iff set_append)
  ultimately show ?thesis using assms(2) by (simp only: sorted_wrt_append)
qed

lemma kept_heartbeats_newest:
  assumes ids: "distinct (map rec_id es)"
    and x: "x \<in> set es" "nev_type x = ''heartbeat''" "retained_event c (heartbeat_keep_ids m es) x"
    and y: "y \<in> set es" "nev_type y = ''heartbeat''" "\<not> retained_event c (heartbeat_keep_ids m es) y"
      "c \<le> created_at y"
  shows "event_age_key y \<le> event_age_key x"
proof -
  let ?xs = "py_sorted_rev event_age_key (heartbeats es)"
  let ?n = "nat (max 0 m)"
  have inj: "inj_on rec_id (set es)" using ids by (simp add: distinct_map)
  have "rec_id x \<in> rec_id ` set (take ?n ?xs)"
    using x(2,3) by (simp add: retained_event_def heartbeat_keep_ids_eq first_n_def)
  then obtain x' where x': "x' \<in> set (take ?n ?xs)" "rec_id x' = rec_id x" by auto
  have "x' \<in> set es" using x'(1) by (auto dest!: in_set_takeD simp: heartbeats_def)
  with x' x(1) inj have "x \<in> set (take ?n ?xs)" by (auto dest: inj_onD)
  moreover have "y \<in> set ?xs" using y(1,2) by (simp add: heartbeats_def)
  moreover have "y \<notin> set (take ?n ?xs)"
    using y by (auto simp: retained_event_def heartbeat_keep_ids_eq first_n_def)
  ultimately show ?thesis
    by (rule sorted_wrt_take_drop [OF sorted_py_sorted_rev [of event_age_key "heartbeats es"]])
qed

section \<open>Isolation\<close>

definition nrt_view :: "tenant \<Rightarrow> repo \<Rightarrow> nautilus_runtime dict \<times> nautilus_event list dict" where
  "nrt_view t s = (tenant_rows t (nautilus_runtimes s), tenant_logs t (nautilus_events s))"

lemma nrt_view_replace:
  assumes inv: "nrt_inv s" and r: "dict_get (nautilus_runtimes s) k = Some r"
    and r': "row_tenant r' = row_tenant r" and other: "row_tenant r \<noteq> t"
  shows "nrt_view t (s\<lparr>nautilus_runtimes := dict_set (rec_id r) r' (nautilus_runtimes s)\<rparr>) =
    nrt_view t s"
  using assms keyed_id [OF nrt_invD(1) [OF inv] r]
  by (auto simp: nrt_view_def intro!: tenant_rows_set_other)

lemma append_nautilus_event_isolated:
  assumes "row_tenant rt \<noteq> t"
  shows "nrt_view t (snd (append_nautilus_event now uuid rt ty p idem s)) = nrt_view t s"
proof -
  have "tenant_logs t (dict_set k (log_of d k) d) = tenant_logs t d" for k and d :: "nautilus_event list dict"
    by (rule tenant_logs_set) simp
  moreover have "tenant_logs t (dict_set k (log_of d k @ [e]) d) = tenant_logs t d"
    if "row_tenant e = row_tenant rt" for k e and d :: "nautilus_event list dict"
    using that assms by (intro tenant_logs_append_other) auto
  ultimately show ?thesis
    by (auto simp: append_nautilus_event_def Let_def nrt_view_def row_tenant_def
        split: option.split)
qed

lemma upsert_nautilus_runtime_isolated:
  assumes inv: "nrt_inv s" and fresh: "unused_runtime (opaque_id ''nrt'' uuid) s"
    and other: "auth_tenant auth \<noteq> t"
  shows "nrt_view t (snd (upsert_nautilus_runtime now uuid auth rk br ac md rp sid mf sub s)) =
    nrt_view t s"
proof (cases "find (\<lambda>runtime. nrt_runtime_key runtime = rk
      \<and> owner_user_id runtime = user_id auth \<and> workspace_id runtime = auth_workspace_id auth)
    (dict_values (nautilus_runtimes s))")
  case None
  have "nrt_log s (opaque_id ''nrt'' uuid) = []"
    using nrt_invD(6) [OF inv, of _ "opaque_id ''nrt'' uuid"] fresh
    by (cases "nrt_log s (opaque_id ''nrt'' uuid)") (auto simp: unused_runtime_def)
  then have "tenant_logs t (dict_set (opaque_id ''nrt'' uuid) [] (nautilus_events s)) =
      tenant_logs t (nautilus_events s)"
    by (intro tenant_logs_set) (simp add: nrt_log_def)
  with None fresh other show ?thesis
    by (auto simp: upsert_nautilus_runtime_def Let_def nrt_view_def unused_runtime_def
        row_tenant_def auth_tenant_def intro!: tenant_rows_set_other)
next
  case (Some e)
  then have "e \<in> set (dict_values (nautilus_runtimes s))" and own: "row_tenant e = auth_tenant auth"
    by (auto dest!: find_SomeD simp: row_tenant_def auth_tenant_def)
  then have e: "dict_get (nautilus_runtimes s) (rec_id e) = Some e"
    using keyed_value [OF nrt_invD(1) [OF inv]] by blast
  have step: "nrt_view t (s\<lparr>nautilus_runtimes := dict_set (rec_id r) r (nautilus_runtimes s)\<rparr>) = nrt_view t s"
    if "rec_id r = rec_id e" "row_tenant r = row_tenant e" for r
    using nrt_view_replace [OF inv e that(2)] own other that(1) by simp
  show ?thesis
    unfolding upsert_nautilus_runtime_def Some
    by (simp only: option.case Let_def snd_conv) (rule step, simp_all add: row_tenant_def)
qed

lemma runtime_controls_isolated:
  assumes inv: "nrt_inv s" and other: "auth_tenant auth \<noteq> t"
  shows "nrt_view t (snd (set_nautilus_runtime_state now auth nid st s)) = nrt_view t s"
    "nrt_view t (snd (activate_nautilus_runtime_kill_switch now auth nid s)) = nrt_view t s"
    "nrt_view t (snd (set_nautilus_runtime_desired_state now auth nid ds s)) = nrt_view t s"
  using nrt_view_replace [OF inv] other
  by (auto simp: set_nautilus_runtime_state_def activate_nautilus_runtime_kill_switch_def
      set_nautilus_runtime_desired_state_def Let_def is_authorized_tenant row_tenant_def
      split: option.split)

lemma append_runtime_event_isolated:
  assumes other: "auth_tenant auth \<noteq> t"
  shows "nrt_view t (snd (append_nautilus_runtime_event now uuid auth nid ty p idem s)) = nrt_view t s"
  using append_nautilus_event_isolated other
  by (auto simp: append_nautilus_runtime_event_def split_beta is_authorized_tenant
      split: option.split)

lemma record_heartbeat_isolated:
  assumes inv: "nrt_inv s" and fresh: "unused_event (opaque_id ''nevt'' uuid) s"
    and other: "auth_tenant auth \<noteq> t"
  shows "nrt_view t (snd (record_nautilus_runtime_heartbeat now uuid auth nid p idem s)) = nrt_view t s"
proof (cases rule: record_heartbeat_cases [of auth nid s now uuid p idem])
  case (recorded rt st s1 h)
  have rt: "dict_get (nautilus_runtimes s) (rec_id rt) = Some rt"
    using nrt.fetch_stored [OF recorded(1)] nrt.fetch_id [OF nrt_invD(1) [OF inv] recorded(1)]
    by simp
  have own: "row_tenant rt \<noteq> t"
    using nrt.fetch_owned [OF recorded(1)] other by (simp add: is_authorized_tenant)
  have s1: "nrt_inv s1" "dict_get (nautilus_runtimes s1) (rec_id rt) = Some rt"
    using append_nautilus_event_inv [OF inv rt fresh] inv rt recorded(3) by auto
  have "nrt_view t s1 = nrt_view t s"
    using append_nautilus_event_isolated [OF own] recorded(3) by simp
  moreover have "row_tenant (hb_runtime h) = row_tenant rt"
    by (simp add: recorded(5) row_tenant_def)
  ultimately show ?thesis
    unfolding recorded(4) snd_conv using nrt_view_replace [OF s1 _ own] by simp
qed auto

lemma cleanup_isolated:
  assumes inv: "nrt_inv s" and other: "auth_tenant auth \<noteq> t"
  shows "nrt_view t (snd (cleanup_nautilus_heartbeat_events now auth nid age m s)) = nrt_view t s"
proof (cases "get_nautilus_runtime auth nid s")
  case (Some rt)
  have rt: "dict_get (nautilus_runtimes s) (rec_id rt) = Some rt"
    using nrt.fetch_stored [OF Some] nrt.fetch_id [OF nrt_invD(1) [OF inv] Some] by simp
  have "row_tenant e \<noteq> t" if "e \<in> set (log_of (nautilus_events s) (rec_id rt))" for e
    using nrt_invD(6) [OF inv, of e "rec_id rt"] that rt nrt.fetch_owned [OF Some] other
    by (auto simp: nrt_log_def is_authorized_tenant)
  then show ?thesis
    by (auto simp: cleanup_nautilus_heartbeat_events_def Some Let_def nrt_view_def
        filter_empty_conv intro!: tenant_logs_set)
qed (simp add: cleanup_nautilus_heartbeat_events_def)

end
