(* ===== verification/Tasks.thy ===== *)
theory Tasks
  imports Runs
begin

text \<open>
  Workflow tasks: what the workflow engine asks the user to do (\<open>InMemoryConversationRepository\<close>,
  \<open>list_workflow_task_continuation_events\<close> to \<open>resolve_workflow_task\<close>, and
  \<open>_workflow_task_payload_matches\<close>).
\<close>

section \<open>Operations\<close>

definition as_str :: "json \<Rightarrow> string option" where
  "as_str v = (case v of JStr x \<Rightarrow> Some x | _ \<Rightarrow> None)"

lemma as_str_JStr [simp]: "as_str (JStr x) = Some x"
  by (simp add: as_str_def)

lemma as_str_Some [simp]: "as_str v = Some x \<longleftrightarrow> v = JStr x"
  by (cases v) (auto simp: as_str_def)

definition get_workflow_task :: "auth_context \<Rightarrow> string \<Rightarrow> repo \<Rightarrow> task_record option" where
  "get_workflow_task auth tid s =
     (case dict_get (workflow_tasks s) tid of
        None \<Rightarrow> None
      | Some task \<Rightarrow> if \<not> is_authorized auth task then None else Some task)"

definition event_order_key :: "run_event \<Rightarrow> datetime \<times> string \<times> int \<times> string" where
  "event_order_key e = (created_at e, evt_run_id e, evt_sequence e, rec_id e)"

definition list_workflow_task_continuation_events ::
  "auth_context \<Rightarrow> string \<Rightarrow> repo \<Rightarrow> run_event list option" where
  "list_workflow_task_continuation_events auth tid s =
     (case get_workflow_task auth tid s of
        None \<Rightarrow> None
      | Some task \<Rightarrow>
          Some (py_sorted event_order_key
            (filter (\<lambda>event. evt_conversation_id event = task_conversation_id task
                \<and> owner_user_id event = user_id auth
                \<and> workspace_id event = auth_workspace_id auth
                \<and> evt_type event \<in> set WORKFLOW_CONTINUATION_EVENT_TYPES
                \<and> (case evt_payload event of None \<Rightarrow> False
                   | Some p \<Rightarrow> jget p ''task_id'' = JStr (rec_id task)))
              (concat (dict_values (run_events s))))))"

definition upsert_workflow_task ::
  "datetime \<Rightarrow> string \<Rightarrow> auth_context \<Rightarrow> string \<Rightarrow> string \<Rightarrow> string \<Rightarrow> string \<Rightarrow> string \<Rightarrow> string
    \<Rightarrow> payload \<Rightarrow> string option \<Rightarrow> repo \<Rightarrow> task_record option \<times> repo" where
  "upsert_workflow_task now uuid auth cid wid template step kind status payload rid s =
     (case get_conversation auth cid s of
        None \<Rightarrow> (None, s)
      | Some conversation \<Rightarrow>
          if (case rid of None \<Rightarrow> False | Some r \<Rightarrow> get_run auth r s = None) then (None, s)
          else
            let existing = find (\<lambda>task. task_conversation_id task = rec_id conversation
                  \<and> task_workflow_id task = wid \<and> task_template_id task = template
                  \<and> owner_user_id task = user_id auth \<and> workspace_id task = auth_workspace_id auth)
                  (dict_values (workflow_tasks s));
                task = \<lparr>
                  rec_id = (case existing of Some e \<Rightarrow> rec_id e | None \<Rightarrow> opaque_id ''wft'' uuid),
                  owner_user_id = user_id auth, workspace_id = auth_workspace_id auth,
                  created_at = (case existing of Some e \<Rightarrow> created_at e | None \<Rightarrow> now),
                  task_conversation_id = rec_id conversation, task_run_id = rid,
                  task_workflow_id = wid, task_template_id = template, task_step_id = step,
                  task_kind = kind, task_status = status, task_payload = payload,
                  task_response = (case existing of Some e \<Rightarrow> task_response e | None \<Rightarrow> None),
                  task_updated_at = now,
                  task_resolved_at = (case existing of
                      Some e \<Rightarrow> if resolved_status status then task_resolved_at e else None
                    | None \<Rightarrow> None)\<rparr>
            in (Some task, s\<lparr>workflow_tasks := dict_set (rec_id task) task (workflow_tasks s)\<rparr>))"

definition workflow_task_payload_matches :: "task_record \<Rightarrow> string option \<Rightarrow> payload \<Rightarrow> bool" where
  "workflow_task_payload_matches task rid payload \<longleftrightarrow>
     task_run_id task = rid \<and>
     JStr (task_step_id task) = jget payload ''step_id'' \<and>
     JStr (task_kind task) = jget payload ''kind'' \<and>
     JStr (task_status task) = jget payload ''status'' \<and>
     json_eq (JObj (task_payload task)) (JObj payload)"

subsection \<open>\<open>sync_workflow_tasks\<close>\<close>

text \<open>The local variables of the loops and the table they write to.\<close>

record sync_state =
  ss_tasks :: "task_record dict"
  ss_by_template :: "task_record dict"
  ss_created :: "task_record list"
  ss_updated :: "task_record list"
  ss_unchanged :: "task_record list"
  ss_requested :: "string list"

definition in_workflow :: "auth_context \<Rightarrow> string \<Rightarrow> string \<Rightarrow> task_record \<Rightarrow> bool" where
  "in_workflow auth cid wid task \<longleftrightarrow>
     task_conversation_id task = cid \<and> task_workflow_id task = wid \<and> is_authorized auth task"

definition by_template :: "task_record list \<Rightarrow> task_record dict" where
  "by_template ts = foldl (\<lambda>d task. dict_set (task_template_id task) task d) [] ts"

definition sync_start :: "auth_context \<Rightarrow> string \<Rightarrow> string \<Rightarrow> task_record dict \<Rightarrow> sync_state" where
  "sync_start auth cid wid tasks =
     \<lparr>ss_tasks = tasks,
      ss_by_template = by_template (filter (in_workflow auth cid wid) (dict_values tasks)),
      ss_created = [], ss_updated = [], ss_unchanged = [], ss_requested = []\<rparr>"

definition new_sync_task ::
  "datetime \<Rightarrow> string \<Rightarrow> auth_context \<Rightarrow> string \<Rightarrow> string option \<Rightarrow> string \<Rightarrow> string
    \<Rightarrow> string \<times> string \<times> string \<Rightarrow> payload \<Rightarrow> task_record" where
  "new_sync_task now uuid auth cid rid wid template f p =
     (case f of (status, step, kind) \<Rightarrow>
       \<lparr>rec_id = opaque_id ''wft'' uuid, owner_user_id = user_id auth,
        workspace_id = auth_workspace_id auth, created_at = now,
        task_conversation_id = cid, task_run_id = rid, task_workflow_id = wid,
        task_template_id = template, task_step_id = step, task_kind = kind,
        task_status = status, task_payload = p, task_response = None,
        task_updated_at = now, task_resolved_at = None\<rparr>)"

definition updated_sync_task ::
  "datetime \<Rightarrow> string option \<Rightarrow> string \<times> string \<times> string \<Rightarrow> payload \<Rightarrow> task_record \<Rightarrow> task_record" where
  "updated_sync_task now rid f p existing =
     (case f of (status, step, kind) \<Rightarrow>
        existing\<lparr>task_run_id := rid, task_step_id := step, task_kind := kind,
          task_status := status, task_payload := p, task_updated_at := now,
          task_resolved_at := (if resolved_status status then task_resolved_at existing else None)\<rparr>)"

text \<open>The strings a payload must have: status, step and kind.\<close>

definition payload_fields :: "payload \<Rightarrow> (string \<times> string \<times> string) option" where
  "payload_fields p =
     (case (as_str (jget p ''status''), as_str (jget p ''step_id''), as_str (jget p ''kind'')) of
        (Some status, Some step, Some kind) \<Rightarrow> Some (status, step, kind)
      | _ \<Rightarrow> None)"

text \<open>
  One round of the first loop.  A task that is created takes the UUID after those of the tasks
  created before it.
\<close>

definition sync_payload ::
  "datetime \<Rightarrow> (nat \<Rightarrow> string) \<Rightarrow> auth_context \<Rightarrow> string \<Rightarrow> string option \<Rightarrow> string
    \<Rightarrow> sync_state \<Rightarrow> payload \<Rightarrow> sync_state" where
  "sync_payload now draw auth cid rid wid st payload =
     (case as_str (jget payload ''task_template_id'') of
        None \<Rightarrow> st
      | Some template \<Rightarrow>
          let st1 = st\<lparr>ss_requested := ss_requested st @ [template]\<rparr>;
              existing = dict_get (ss_by_template st) template
          in case existing of
               Some e \<Rightarrow>
                 if resolved_status (task_status e) then st1\<lparr>ss_unchanged := ss_unchanged st @ [e]\<rparr>
                 else (case payload_fields payload of
                     None \<Rightarrow> st1
                   | Some f \<Rightarrow>
                       let full_payload = dict_set ''status'' (JStr (fst f)) payload
                       in if workflow_task_payload_matches e rid full_payload
                          then st1\<lparr>ss_unchanged := ss_unchanged st @ [e]\<rparr>
                          else
                            let task = updated_sync_task now rid f full_payload e
                            in st1\<lparr>ss_tasks := dict_set (rec_id task) task (ss_tasks st),
                                 ss_by_template := dict_set template task (ss_by_template st),
                                 ss_updated := ss_updated st @ [task]\<rparr>)
             | None \<Rightarrow>
                 (case payload_fields payload of
                    None \<Rightarrow> st1
                  | Some f \<Rightarrow>
                      let task = new_sync_task now (draw (length (ss_created st))) auth cid rid wid
                                   template f (dict_set ''status'' (JStr (fst f)) payload)
                      in st1\<lparr>ss_tasks := dict_set (rec_id task) task (ss_tasks st),
                           ss_by_template := dict_set template task (ss_by_template st),
                           ss_created := ss_created st @ [task]\<rparr>))"

text \<open>One round of the second loop, over the tasks by template as the first loop left them.\<close>

definition sync_resolves :: "string list \<Rightarrow> string list \<Rightarrow> task_record \<Rightarrow> bool" where
  "sync_resolves requested completed_steps task \<longleftrightarrow>
     task_template_id task \<notin> set requested \<and> task_step_id task \<in> set completed_steps \<and>
     \<not> resolved_status (task_status task)"

definition resolved_task :: "datetime \<Rightarrow> task_record \<Rightarrow> task_record" where
  "resolved_task now task =
     task\<lparr>task_status := ''completed'', task_updated_at := now, task_resolved_at := Some now\<rparr>"

definition sync_resolve ::
  "datetime \<Rightarrow> string list \<Rightarrow> sync_state \<times> task_record list \<Rightarrow> task_record
    \<Rightarrow> sync_state \<times> task_record list" where
  "sync_resolve now completed_steps acc task =
     (case acc of (st, resolved) \<Rightarrow>
        if sync_resolves (ss_requested st) completed_steps task then
          let t = resolved_task now task
          in (st\<lparr>ss_tasks := dict_set (rec_id task) t (ss_tasks st),
                ss_by_template := dict_set (task_template_id task) t (ss_by_template st)\<rparr>,
              resolved @ [t])
        else (st, resolved))"

definition sync_all ::
  "datetime \<Rightarrow> (nat \<Rightarrow> string) \<Rightarrow> auth_context \<Rightarrow> string \<Rightarrow> string option \<Rightarrow> string
    \<Rightarrow> payload list \<Rightarrow> string list \<Rightarrow> task_record dict \<Rightarrow> sync_state \<times> task_record list" where
  "sync_all now draw auth cid rid wid task_payloads completed_steps tasks =
     (let st = foldl (sync_payload now draw auth cid rid wid) (sync_start auth cid wid tasks)
                 task_payloads
      in foldl (sync_resolve now completed_steps) (st, []) (dict_values (ss_by_template st)))"

definition sync_workflow_tasks ::
  "datetime \<Rightarrow> (nat \<Rightarrow> string) \<Rightarrow> auth_context \<Rightarrow> string \<Rightarrow> string option \<Rightarrow> string
    \<Rightarrow> payload list \<Rightarrow> string list \<Rightarrow> repo \<Rightarrow> task_sync_result option \<times> repo" where
  "sync_workflow_tasks now draw auth cid rid wid task_payloads completed_steps s =
     (case get_conversation auth cid s of
        None \<Rightarrow> (None, s)
      | Some conversation \<Rightarrow>
          if (case rid of None \<Rightarrow> False
              | Some r \<Rightarrow> (case get_run auth r s of
                    None \<Rightarrow> True
                  | Some run \<Rightarrow> run_conversation_id run \<noteq> rec_id conversation))
          then (None, s)
          else case sync_all now draw auth (rec_id conversation) rid wid task_payloads
                      completed_steps (workflow_tasks s) of
            (st, resolved) \<Rightarrow>
              (Some \<lparr>sync_records =
                       py_sorted (\<lambda>t. (created_at t, rec_id t)) (dict_values (ss_by_template st)),
                     sync_created = ss_created st, sync_updated = ss_updated st,
                     sync_resolved = resolved,
                     sync_unchanged =
                       filter (\<lambda>t. rec_id t \<notin> rec_id ` set resolved) (ss_unchanged st)\<rparr>,
               s\<lparr>workflow_tasks := ss_tasks st\<rparr>))"

definition list_workflow_tasks :: "auth_context \<Rightarrow> string \<Rightarrow> repo \<Rightarrow> task_record list option" where
  "list_workflow_tasks auth cid s =
     (case get_conversation auth cid s of
        None \<Rightarrow> None
      | Some conversation \<Rightarrow>
          Some (py_sorted (\<lambda>t. (created_at t, rec_id t))
            (filter (\<lambda>task. task_conversation_id task = rec_id conversation \<and> is_authorized auth task)
              (dict_values (workflow_tasks s)))))"

definition resolve_workflow_task ::
  "datetime \<Rightarrow> auth_context \<Rightarrow> string \<Rightarrow> string \<Rightarrow> payload option \<Rightarrow> repo
    \<Rightarrow> task_record option \<times> repo" where
  "resolve_workflow_task now auth tid status response s =
     (case dict_get (workflow_tasks s) tid of
        None \<Rightarrow> (None, s)
      | Some task \<Rightarrow>
          if \<not> is_authorized auth task then (None, s)
          else
            let updated = task\<lparr>task_status := status,
                  task_response := (case response of Some r \<Rightarrow> Some r | None \<Rightarrow> task_response task),
                  task_updated_at := now,
                  task_resolved_at := (if resolved_status status then Some now else None)\<rparr>
            in (Some updated,
                s\<lparr>workflow_tasks := dict_set (rec_id task) updated (workflow_tasks s)\<rparr>))"

definition submit_workflow_task_response ::
  "datetime \<Rightarrow> auth_context \<Rightarrow> string \<Rightarrow> payload \<Rightarrow> string \<Rightarrow> repo \<Rightarrow> task_record option \<times> repo" where
  "submit_workflow_task_response now auth tid response status s =
     resolve_workflow_task now auth tid status (Some response) s"

interpretation task: owned_resource get_workflow_task workflow_tasks
  by unfold_locales (simp add: get_workflow_task_def owned_get_def split: option.split)

section \<open>Invariant\<close>

text \<open>
  Tasks are stored under their ids; an owner has at most one task per conversation, workflow and
  template; and only a task with a resolved status has a resolution time.
\<close>

definition task_slot :: "task_record \<Rightarrow> tenant \<times> string \<times> string \<times> string" where
  "task_slot t = (row_tenant t, task_conversation_id t, task_workflow_id t, task_template_id t)"

definition slots_unique :: "task_record dict \<Rightarrow> bool" where
  "slots_unique d \<longleftrightarrow> (\<forall>k t k' t'. dict_get d k = Some t \<longrightarrow> dict_get d k' = Some t' \<longrightarrow>
     task_slot t = task_slot t' \<longrightarrow> k = k')"

definition task_ok :: "task_record \<Rightarrow> bool" where
  "task_ok t \<longleftrightarrow> (task_resolved_at t \<noteq> None \<longrightarrow> resolved_status (task_status t))"

definition tasks_ok :: "task_record dict \<Rightarrow> bool" where
  "tasks_ok d \<longleftrightarrow> keyed d \<and> slots_unique d \<and> (\<forall>k t. dict_get d k = Some t \<longrightarrow> task_ok t)"

definition task_inv :: "repo \<Rightarrow> bool" where
  "task_inv s \<longleftrightarrow> tasks_ok (workflow_tasks s)"

definition unused_task :: "string \<Rightarrow> repo \<Rightarrow> bool" where
  "unused_task k s \<longleftrightarrow> dict_get (workflow_tasks s) k = None"

lemma task_inv_init: "task_inv init_repo"
  by (simp add: task_inv_def tasks_ok_def slots_unique_def init_repo_def)

lemma tasks_okD:
  assumes "tasks_ok d"
  shows "keyed d" "slots_unique d" "dict_get d k = Some t \<Longrightarrow> task_ok t"
  using assms by (auto simp: tasks_ok_def)

lemma slots_uniqueD:
  "slots_unique d \<Longrightarrow> dict_get d k = Some t \<Longrightarrow> dict_get d k' = Some t' \<Longrightarrow>
   task_slot t = task_slot t' \<Longrightarrow> k = k'"
  by (simp add: slots_unique_def)

lemma tasks_ok_replace:
  assumes ok: "tasks_ok d" and t: "dict_get d k = Some t"
    and t': "rec_id t' = rec_id t" "task_slot t' = task_slot t" "task_ok t'"
  shows "tasks_ok (dict_set k t' d)"
proof -
  have id: "rec_id t' = k" using keyed_id [OF tasks_okD(1) [OF ok] t] t'(1) by simp
  have old: "\<exists>t0. dict_get d k0 = Some t0 \<and> task_slot t0 = task_slot t1"
    if "dict_get (dict_set k t' d) k0 = Some t1" for k0 t1
    using that t t'(2) by (auto split: if_splits)
  have "slots_unique (dict_set k t' d)"
    unfolding slots_unique_def
    using old tasks_okD(2) [OF ok, unfolded slots_unique_def] by metis
  with ok id t'(3) show ?thesis by (auto simp: tasks_ok_def split: if_splits)
qed

lemma tasks_ok_new:
  assumes ok: "tasks_ok d" and "rec_id t = k" "task_ok t"
    and new: "\<And>k' t'. dict_get d k' = Some t' \<Longrightarrow> task_slot t' \<noteq> task_slot t"
  shows "tasks_ok (dict_set k t d)"
proof -
  have "slots_unique (dict_set k t d)"
    using tasks_okD(2) [OF ok] new unfolding slots_unique_def by (simp split: if_splits) metis
  with assms show ?thesis by (auto simp: tasks_ok_def split: if_splits)
qed

end
