(* ===== verification/Task_Laws.thy ===== *)
theory Task_Laws
  imports Tasks Artifacts
begin

text \<open>
  Laws of the workflow tasks: the operations keep the invariant; a synchronisation leaves resolved
  tasks alone, and repeating it changes nothing.
\<close>

section \<open>Single-task operations\<close>

lemma upsert_workflow_task_inv:
  assumes inv: "task_inv s" and fresh: "unused_task (opaque_id ''wft'' uuid) s"
  shows "task_inv (snd (upsert_workflow_task now uuid auth cid wid tm step kind st p rid s))"
proof (cases "get_conversation auth cid s = None \<or>
    (case rid of None \<Rightarrow> False | Some r \<Rightarrow> get_run auth r s = None)")
  case True
  then show ?thesis using inv by (auto simp: upsert_workflow_task_def split: option.splits)
next
  case False
  then obtain c where c: "get_conversation auth cid s = Some c"
    and r: "\<not> (case rid of None \<Rightarrow> False | Some r \<Rightarrow> get_run auth r s = None)" by auto
  let ?f = "\<lambda>task. task_conversation_id task = rec_id c \<and> task_workflow_id task = wid
     \<and> task_template_id task = tm \<and> owner_user_id task = user_id auth
     \<and> workspace_id task = auth_workspace_id auth"
  have ok: "tasks_ok (workflow_tasks s)" using inv by (simp add: task_inv_def)
  show ?thesis
  proof (cases "find ?f (dict_values (workflow_tasks s))")
    case None
    then have "\<not> ?f t" if "dict_get (workflow_tasks s) k = Some t" for k t
      using dict_value_in [OF that] by (auto simp: find_None_iff)
    then have new: "task_slot t \<noteq> ((user_id auth, auth_workspace_id auth), rec_id c, wid, tm)"
      if "dict_get (workflow_tasks s) k = Some t" for k t
      using that by (auto simp: task_slot_def row_tenant_def)
    show ?thesis
      unfolding upsert_workflow_task_def c
      using r by (auto simp: None task_inv_def Let_def task_ok_def task_slot_def row_tenant_def
          dest: new intro!: tasks_ok_new [OF ok])
  next
    case (Some e)
    then have e: "dict_get (workflow_tasks s) (rec_id e) = Some e" "?f e"
      using keyed_value [OF tasks_okD(1) [OF ok]] by (auto dest!: find_SomeD)
    show ?thesis
      unfolding upsert_workflow_task_def c
      using r e(2) tasks_okD(3) [OF ok e(1)]
      by (auto simp: Some task_inv_def Let_def task_ok_def task_slot_def row_tenant_def
          intro!: tasks_ok_replace [OF ok e(1)])
  qed
qed

lemma resolve_workflow_task_inv:
  assumes inv: "task_inv s"
  shows "task_inv (snd (resolve_workflow_task now auth tid st resp s))"
proof -
  have ok: "tasks_ok (workflow_tasks s)" using inv by (simp add: task_inv_def)
  show ?thesis
    using inv keyed_id [OF tasks_okD(1) [OF ok]]
    by (auto simp: resolve_workflow_task_def Let_def task_inv_def task_slot_def row_tenant_def
        task_ok_def split: option.split intro!: tasks_ok_replace)
qed

section \<open>The tasks by template\<close>

definition synced :: "auth_context \<Rightarrow> string \<Rightarrow> string \<Rightarrow> task_record dict \<Rightarrow> task_record dict \<Rightarrow> bool"
  where
  "synced auth cid wid T B \<longleftrightarrow> (\<forall>k t. dict_get B k = Some t \<longleftrightarrow>
     dict_get T (rec_id t) = Some t \<and> in_workflow auth cid wid t \<and> task_template_id t = k)"

lemma syncedD:
  assumes "synced auth cid wid T B" "dict_get B k = Some t"
  shows "dict_get T (rec_id t) = Some t" "in_workflow auth cid wid t" "task_template_id t = k"
  using assms by (auto simp: synced_def)

lemma synced_find:
  assumes "synced auth cid wid T B" "dict_get T (rec_id t) = Some t" "in_workflow auth cid wid t"
  shows "dict_get B (task_template_id t) = Some t"
  using assms by (auto simp: synced_def)

lemma synced_unique: "synced auth cid wid T B \<Longrightarrow> synced auth cid wid T B' \<Longrightarrow> map_of B = map_of B'"
  unfolding synced_def fun_eq_iff by (metis option.exhaust)

lemma in_workflow_slot:
  "in_workflow auth cid wid t \<longleftrightarrow>
     (row_tenant t, task_conversation_id t, task_workflow_id t) = (auth_tenant auth, cid, wid)"
  by (auto simp: in_workflow_def is_authorized_tenant)

lemma by_template_snoc: "by_template (ts @ [t]) = dict_set (task_template_id t) t (by_template ts)"
  by (simp add: by_template_def)

lemma by_template_ok [simp]: "dict_ok (by_template ts)"
  by (induction ts rule: rev_induct) (simp_all add: by_template_snoc, simp add: by_template_def)

lemma by_template_get:
  "distinct (map task_template_id ts) \<Longrightarrow>
   dict_get (by_template ts) k = Some t \<longleftrightarrow> t \<in> set ts \<and> task_template_id t = k"
proof (induction ts rule: rev_induct)
  case Nil
  show ?case by (simp add: by_template_def)
next
  case (snoc x ts)
  then have new: "task_template_id x \<notin> task_template_id ` set ts" by simp
  have "t \<notin> set ts" if "task_template_id t = task_template_id x"
  proof
    assume "t \<in> set ts"
    then have "task_template_id t \<in> task_template_id ` set ts" by (rule imageI)
    with new that show False by simp
  qed
  with snoc show ?case by (auto simp: by_template_snoc)
qed

lemma synced_start:
  assumes ok: "tasks_ok T"
  shows "synced auth cid wid T (by_template (filter (in_workflow auth cid wid) (dict_values T)))"
proof -
  let ?ts = "filter (in_workflow auth cid wid) (dict_values T)"
  have val: "t \<in> set (dict_values T) \<longleftrightarrow> dict_get T (rec_id t) = Some t" for t
    using keyed_value [OF tasks_okD(1) [OF ok], of t] dict_value_in [of T "rec_id t" t] by auto
  have "t = t'" if "t \<in> set ?ts" "t' \<in> set ?ts" "task_template_id t = task_template_id t'" for t t'
  proof -
    have g: "dict_get T (rec_id t) = Some t" "dict_get T (rec_id t') = Some t'"
      using that by (simp_all add: val)
    moreover have "task_slot t = task_slot t'"
      using that by (simp add: task_slot_def in_workflow_slot)
    ultimately have "rec_id t = rec_id t'"
      by (rule slots_uniqueD [OF tasks_okD(2) [OF ok]])
    with g show ?thesis by (metis option.inject)
  qed
  then have "inj_on task_template_id (set ?ts)" by (rule inj_onI)
  moreover have "distinct ?ts"
    using keyed_ids_distinct [OF tasks_okD(1) [OF ok]] by (simp add: distinct_map)
  ultimately have "distinct (map task_template_id ?ts)" by (simp add: distinct_map)
  then show ?thesis
    by (auto simp: synced_def by_template_get val)
qed

lemma synced_replace:
  assumes syn: "synced auth cid wid T B" and e: "dict_get B tm = Some e"
    and t: "rec_id t = rec_id e" "task_slot t = task_slot e"
  shows "synced auth cid wid (dict_set (rec_id e) t T) (dict_set tm t B)"
proof -
  note e' = syncedD [OF syn e]
  have t': "in_workflow auth cid wid t" "task_template_id t = tm"
    using t(2) e'(2,3) by (simp_all add: in_workflow_slot task_slot_def)
  show ?thesis
    unfolding synced_def
  proof (intro allI)
    fix k t0
    have id: "t0 = e" if "dict_get T (rec_id t0) = Some t0" "rec_id t0 = rec_id e"
      using that e'(1) by simp
    have slot: "t0 = e" if "dict_get T (rec_id t0) = Some t0" "in_workflow auth cid wid t0"
      "task_template_id t0 = tm"
      using synced_find [OF syn that(1,2)] that(3) e by simp
    let ?L = "dict_get (dict_set tm t B) k = Some t0"
    let ?R = "dict_get (dict_set (rec_id e) t T) (rec_id t0) = Some t0 \<and>
      in_workflow auth cid wid t0 \<and> task_template_id t0 = k"
    show "?L \<longleftrightarrow> ?R"
    proof
      assume L: ?L
      show ?R
      proof (cases "k = tm")
        case True
        with L t' t(1) show ?thesis by auto
      next
        case False
        with L have B: "dict_get B k = Some t0" by simp
        note d = syncedD [OF syn B]
        have "rec_id t0 \<noteq> rec_id e" using id [OF d(1)] d(3) e'(3) False by blast
        with d show ?thesis by simp
      qed
    next
      assume R: ?R
      show ?L
      proof (cases "rec_id t0 = rec_id e")
        case True
        with R have "t0 = t" by simp
        with R t' show ?thesis by simp
      next
        case False
        with R have r: "dict_get T (rec_id t0) = Some t0" "in_workflow auth cid wid t0"
          "task_template_id t0 = k" by simp_all
        then have "k \<noteq> tm" using slot False by blast
        with synced_find [OF syn r(1,2)] r(3) show ?thesis by simp
      qed
    qed
  qed
qed

lemma synced_new:
  assumes syn: "synced auth cid wid T B" and n: "dict_get B tm = None"
    and t: "dict_get T (rec_id t) = None" "in_workflow auth cid wid t" "task_template_id t = tm"
  shows "synced auth cid wid (dict_set (rec_id t) t T) (dict_set tm t B)"
  unfolding synced_def
proof (intro allI)
  fix k t0
  show "dict_get (dict_set tm t B) k = Some t0 \<longleftrightarrow>
      dict_get (dict_set (rec_id t) t T) (rec_id t0) = Some t0 \<and> in_workflow auth cid wid t0 \<and>
      task_template_id t0 = k"
    using n t syncedD [OF syn, of k t0] synced_find [OF syn, of t0]
    by (cases "k = tm"; cases "rec_id t0 = rec_id t") auto
qed

section \<open>The first loop\<close>

definition sync_ok ::
  "(nat \<Rightarrow> string) \<Rightarrow> auth_context \<Rightarrow> string \<Rightarrow> string \<Rightarrow> sync_state \<Rightarrow> bool" where
  "sync_ok draw auth cid wid st \<longleftrightarrow>
     tasks_ok (ss_tasks st) \<and> dict_ok (ss_by_template st) \<and>
     synced auth cid wid (ss_tasks st) (ss_by_template st) \<and>
     (\<forall>i \<ge> length (ss_created st). dict_get (ss_tasks st) (opaque_id ''wft'' (draw i)) = None)"

lemma sync_okD:
  assumes "sync_ok draw auth cid wid st"
  shows "tasks_ok (ss_tasks st)" "dict_ok (ss_by_template st)"
    "synced auth cid wid (ss_tasks st) (ss_by_template st)"
    "length (ss_created st) \<le> i \<Longrightarrow> dict_get (ss_tasks st) (opaque_id ''wft'' (draw i)) = None"
  using assms by (auto simp: sync_ok_def)

lemma sync_start_ok:
  assumes "tasks_ok T" "\<And>i. dict_get T (opaque_id ''wft'' (draw i)) = None"
  shows "sync_ok draw auth cid wid (sync_start auth cid wid T)"
  using assms synced_start [OF assms(1)] by (simp add: sync_ok_def sync_start_def)

definition settled :: "string option \<Rightarrow> task_record dict \<Rightarrow> payload \<Rightarrow> bool" where
  "settled rid B p \<longleftrightarrow>
     (case as_str (jget p ''task_template_id'') of
        None \<Rightarrow> True
      | Some tm \<Rightarrow>
          (case dict_get B tm of
             None \<Rightarrow> payload_fields p = None
           | Some e \<Rightarrow> resolved_status (task_status e) \<or>
               (case payload_fields p of
                  None \<Rightarrow> True
                | Some f \<Rightarrow> workflow_task_payload_matches e rid
                    (dict_set ''status'' (JStr (fst f)) p))))"

text \<open>What one round of the first loop does.\<close>

lemma sync_payload_cases:
  obtains (nameless) "as_str (jget p ''task_template_id'') = None"
      "sync_payload now draw auth cid rid wid st p = st"
  | (settled) tm un where "as_str (jget p ''task_template_id'') = Some tm"
      "settled rid (ss_by_template st) p"
      "sync_payload now draw auth cid rid wid st p =
         st\<lparr>ss_requested := ss_requested st @ [tm], ss_unchanged := un\<rparr>"
  | (updated) tm e f t where "as_str (jget p ''task_template_id'') = Some tm"
      "payload_fields p = Some f"
      "dict_get (ss_by_template st) tm = Some e" "\<not> resolved_status (task_status e)"
      "t = updated_sync_task now rid f (dict_set ''status'' (JStr (fst f)) p) e"
      "sync_payload now draw auth cid rid wid st p =
         st\<lparr>ss_requested := ss_requested st @ [tm],
            ss_tasks := dict_set (rec_id e) t (ss_tasks st),
            ss_by_template := dict_set tm t (ss_by_template st),
            ss_updated := ss_updated st @ [t]\<rparr>"
  | (created) tm f t where "as_str (jget p ''task_template_id'') = Some tm"
      "payload_fields p = Some f" "dict_get (ss_by_template st) tm = None"
      "t = new_sync_task now (draw (length (ss_created st))) auth cid rid wid tm f
             (dict_set ''status'' (JStr (fst f)) p)"
      "sync_payload now draw auth cid rid wid st p =
         st\<lparr>ss_requested := ss_requested st @ [tm],
            ss_tasks := dict_set (rec_id t) t (ss_tasks st),
            ss_by_template := dict_set tm t (ss_by_template st),
            ss_created := ss_created st @ [t]\<rparr>"
proof (cases "as_str (jget p ''task_template_id'')")
  case None
  then show ?thesis by (intro nameless) (simp_all add: sync_payload_def)
next
  case (Some tm)
  note tm = this
  show ?thesis
  proof (cases "dict_get (ss_by_template st) tm")
    case None
    show ?thesis
    proof (cases "payload_fields p")
      case N: None
      then show ?thesis
        by (intro settled [OF tm, of "ss_unchanged st"])
          (simp_all add: settled_def sync_payload_def tm None [simplified])
    next
      case (Some f)
      then show ?thesis
        by (intro created [OF tm Some None refl]) (simp add: sync_payload_def tm None Let_def)
    qed
  next
    case e: (Some e)
    show ?thesis
    proof (cases "settled rid (ss_by_template st) p")
      case True
      show ?thesis
      proof (cases "\<not> resolved_status (task_status e) \<and> payload_fields p = None")
        case T: True
        then show ?thesis
          by (intro settled [OF tm True, of "ss_unchanged st"]) (simp add: sync_payload_def tm e Let_def)
      next
        case False
        with True show ?thesis
          by (intro settled [OF tm True, of "ss_unchanged st @ [e]"])
            (auto simp: settled_def sync_payload_def tm e Let_def)
      qed
    next
      case False
      then obtain f where f: "payload_fields p = Some f" "\<not> resolved_status (task_status e)"
        "\<not> workflow_task_payload_matches e rid (dict_set ''status'' (JStr (fst f)) p)"
        by (auto simp: settled_def tm e split: option.splits)
      then show ?thesis
        by (intro updated [OF tm f(1) e f(2) refl])
          (simp add: sync_payload_def tm e Let_def updated_sync_task_def split: prod.split)
    qed
  qed
qed

lemma sync_payload_ok:
  assumes ok: "sync_ok draw auth cid wid st" and inj: "inj draw"
  shows "sync_ok draw auth cid wid (sync_payload now draw auth cid rid wid st p)"
proof (cases rule: sync_payload_cases [of p now draw auth cid rid wid st])
  case nameless
  then show ?thesis using ok by simp
next
  case (settled tm un)
  then show ?thesis using ok by (simp add: sync_ok_def)
next
  case (updated tm e f t)
  note e = syncedD [OF sync_okD(3) [OF ok] updated(3)]
  have t: "rec_id t = rec_id e" "task_slot t = task_slot e" "task_ok t"
    using updated(5) tasks_okD(3) [OF sync_okD(1) [OF ok] e(1)]
    by (auto simp: updated_sync_task_def task_slot_def row_tenant_def task_ok_def split: prod.split)
  have "tasks_ok (dict_set (rec_id e) t (ss_tasks st))"
    by (rule tasks_ok_replace [OF sync_okD(1) [OF ok] e(1) t])
  moreover have "synced auth cid wid (dict_set (rec_id e) t (ss_tasks st))
      (dict_set tm t (ss_by_template st))"
    by (rule synced_replace [OF sync_okD(3) [OF ok] updated(3) t(1,2)])
  moreover have "dict_get (dict_set (rec_id e) t (ss_tasks st)) (opaque_id ''wft'' (draw i)) = None"
    if "length (ss_created st) \<le> i" for i
    using sync_okD(4) [OF ok that] e(1) by auto
  ultimately show ?thesis using sync_okD(2) [OF ok] by (simp add: updated(6) sync_ok_def)
next
  case (created tm f t)
  let ?n = "length (ss_created st)"
  have t: "rec_id t = opaque_id ''wft'' (draw ?n)" "task_ok t" "in_workflow auth cid wid t"
    "task_template_id t = tm"
    using created(4) by (auto simp: new_sync_task_def task_ok_def in_workflow_def is_authorized_def
        split: prod.split)
  have none: "dict_get (ss_tasks st) (rec_id t) = None"
    using sync_okD(4) [OF ok order_refl] t(1) by simp
  have "task_slot t' \<noteq> task_slot t" if "dict_get (ss_tasks st) k' = Some t'" for k' t'
  proof
    assume slot: "task_slot t' = task_slot t"
    have "dict_get (ss_tasks st) (rec_id t') = Some t'"
      using keyed_id [OF tasks_okD(1) [OF sync_okD(1) [OF ok]] that] that by simp
    moreover have "in_workflow auth cid wid t'" "task_template_id t' = tm"
      using slot t(3,4) by (simp_all add: in_workflow_slot task_slot_def)
    ultimately show False using synced_find [OF sync_okD(3) [OF ok]] created(3) by auto
  qed
  then have "tasks_ok (dict_set (rec_id t) t (ss_tasks st))"
    using sync_okD(1) [OF ok] t(2) by (intro tasks_ok_new) auto
  moreover have "synced auth cid wid (dict_set (rec_id t) t (ss_tasks st))
      (dict_set tm t (ss_by_template st))"
    by (rule synced_new [OF sync_okD(3) [OF ok] created(3) none t(3,4)])
  moreover have "dict_get (dict_set (rec_id t) t (ss_tasks st)) (opaque_id ''wft'' (draw i)) = None"
    if "Suc ?n \<le> i" for i
    using sync_okD(4) [OF ok, of i] that t(1) inj by (auto dest: injD)
  ultimately show ?thesis using sync_okD(2) [OF ok] by (simp add: created(5) sync_ok_def)
qed

text \<open>The template a payload names.\<close>

abbreviation template_of :: "payload \<Rightarrow> string option" where
  "template_of p \<equiv> as_str (jget p ''task_template_id'')"

lemma sync_payload_requested:
  "ss_requested (sync_payload now draw auth cid rid wid st p) =
     ss_requested st @ (case template_of p of None \<Rightarrow> [] | Some tm \<Rightarrow> [tm])"
  by (cases rule: sync_payload_cases [of p now draw auth cid rid wid st]) simp_all

lemma sync_payload_other:
  "template_of p \<noteq> Some k \<Longrightarrow>
   dict_get (ss_by_template (sync_payload now draw auth cid rid wid st p)) k =
   dict_get (ss_by_template st) k"
  by (cases rule: sync_payload_cases [of p now draw auth cid rid wid st]) auto

lemma sync_payload_keeps_resolved:
  assumes ok: "sync_ok draw auth cid wid st"
    and k: "dict_get (ss_tasks st) k = Some t0" "resolved_status (task_status t0)"
  shows "dict_get (ss_tasks (sync_payload now draw auth cid rid wid st p)) k = Some t0"
proof (cases rule: sync_payload_cases [of p now draw auth cid rid wid st])
  case (updated tm e f t)
  have "k \<noteq> rec_id e"
    using syncedD(1) [OF sync_okD(3) [OF ok] updated(3)] k updated(4) by auto
  then show ?thesis by (simp add: updated(6) k)
next
  case (created tm f t)
  have "rec_id t = opaque_id ''wft'' (draw (length (ss_created st)))"
    using created(4) by (simp add: new_sync_task_def split: prod.split)
  then have "k \<noteq> rec_id t" using sync_okD(4) [OF ok order_refl] k(1) by auto
  then show ?thesis by (simp add: created(5) k)
qed (simp_all add: k)

lemma full_payload_wf: "json_wf (JObj p) \<Longrightarrow> json_wf (JObj (dict_set k (JStr x) p))"
  by (induction p) (auto simp: update_keys split: if_splits)

lemma payload_fields_Some:
  "payload_fields p = Some (status, step, kind) \<longleftrightarrow>
     jget p ''status'' = JStr status \<and> jget p ''step_id'' = JStr step \<and> jget p ''kind'' = JStr kind"
  by (auto simp: payload_fields_def split: option.split)

lemma written_task_matches:
  assumes "json_wf (JObj p)" "payload_fields p = Some f"
    and "task_run_id t = rid" "task_status t = fst f" "task_step_id t = fst (snd f)"
      "task_kind t = snd (snd f)" "task_payload t = dict_set ''status'' (JStr (fst f)) p"
  shows "workflow_task_payload_matches t rid (dict_set ''status'' (JStr (fst f)) p)"
proof -
  obtain status step kind where f: "f = (status, step, kind)" by (cases f) auto
  have "json_eq (JObj (task_payload t)) (JObj (dict_set ''status'' (JStr (fst f)) p))"
    unfolding assms(7) by (rule json_eq_refl [OF full_payload_wf [OF assms(1)]])
  then show ?thesis
    using assms(2-6) by (simp add: workflow_task_payload_matches_def f payload_fields_Some jget_def)
qed

lemma sync_payload_settles:
  assumes "json_wf (JObj p)"
  shows "settled rid (ss_by_template (sync_payload now draw auth cid rid wid st p)) p"
proof (cases rule: sync_payload_cases [of p now draw auth cid rid wid st])
  case (updated tm e f t)
  have "workflow_task_payload_matches t rid (dict_set ''status'' (JStr (fst f)) p)"
    by (rule written_task_matches [OF assms updated(2)])
      (simp_all add: updated(5) updated_sync_task_def split: prod.split)
  then show ?thesis using updated(1,2,6) by (simp add: settled_def)
next
  case (created tm f t)
  have "workflow_task_payload_matches t rid (dict_set ''status'' (JStr (fst f)) p)"
    by (rule written_task_matches [OF assms created(2)])
      (simp_all add: created(4) new_sync_task_def split: prod.split)
  then show ?thesis using created(1,2,5) by (simp add: settled_def)
qed (simp_all add: settled_def)

lemma settled_cong:
  "(\<And>k. template_of p = Some k \<Longrightarrow> dict_get B k = dict_get B' k) \<Longrightarrow> settled rid B p = settled rid B' p"
  by (simp add: settled_def split: option.split)

text \<open>A settled payload writes nothing.\<close>

lemma sync_payload_settled:
  assumes "settled rid (ss_by_template st) p"
  shows "\<exists>un rq. sync_payload now draw auth cid rid wid st p =
    st\<lparr>ss_requested := rq, ss_unchanged := un\<rparr>"
proof (cases rule: sync_payload_cases [of p now draw auth cid rid wid st])
  case nameless
  have "st = st\<lparr>ss_requested := ss_requested st, ss_unchanged := ss_unchanged st\<rparr>" by simp
  with nameless show ?thesis by metis
next
  case (settled tm un)
  then show ?thesis by blast
next
  case (updated tm e f t)
  have eq: "sync_payload now draw auth cid rid wid st p = st\<lparr>ss_requested := ss_requested st @ [tm],
      ss_unchanged := ss_unchanged st @ [e]\<rparr>"
    using assms updated(1-4) by (simp add: settled_def sync_payload_def Let_def)
  then show ?thesis by blast
next
  case (created tm f t)
  then show ?thesis using assms by (simp add: settled_def)
qed

end
