(* ===== verification/Task_Sync.thy ===== *)
theory Task_Sync
  imports Task_Laws
begin

text \<open>
  The whole synchronisation: both loops of \<open>sync_workflow_tasks\<close>, what they leave alone, what they
  resolve, and that a second run with the same payloads writes nothing.
\<close>

section \<open>The first loop\<close>

abbreviation payload_loop ::
  "datetime \<Rightarrow> (nat \<Rightarrow> string) \<Rightarrow> auth_context \<Rightarrow> string \<Rightarrow> string option \<Rightarrow> string
    \<Rightarrow> sync_state \<Rightarrow> payload list \<Rightarrow> sync_state" where
  "payload_loop now draw auth cid rid wid st ps \<equiv> foldl (sync_payload now draw auth cid rid wid) st ps"

definition requested_templates :: "payload list \<Rightarrow> string list" where
  "requested_templates ps =
     concat (map (\<lambda>p. case template_of p of None \<Rightarrow> [] | Some tm \<Rightarrow> [tm]) ps)"

lemma requested_templates_Cons:
  "requested_templates (p # ps) =
     (case template_of p of None \<Rightarrow> [] | Some tm \<Rightarrow> [tm]) @ requested_templates ps"
  by (simp add: requested_templates_def)

lemma payload_loop_ok:
  assumes "sync_ok draw auth cid wid st" "inj draw"
  shows "sync_ok draw auth cid wid (payload_loop now draw auth cid rid wid st ps)"
  using assms by (induction ps arbitrary: st) (simp_all add: sync_payload_ok)

lemma payload_loop_requested:
  "ss_requested (payload_loop now draw auth cid rid wid st ps) = ss_requested st @ requested_templates ps"
  by (induction ps arbitrary: st)
    (simp_all add: requested_templates_def sync_payload_requested)

lemma payload_loop_keeps_resolved:
  assumes "sync_ok draw auth cid wid st" "inj draw"
    and "dict_get (ss_tasks st) k = Some t0" "resolved_status (task_status t0)"
  shows "dict_get (ss_tasks (payload_loop now draw auth cid rid wid st ps)) k = Some t0"
  using assms
  by (induction ps arbitrary: st) (simp_all add: sync_payload_ok sync_payload_keeps_resolved)

lemma payload_loop_other:
  "k \<notin> set (requested_templates ps) \<Longrightarrow>
   dict_get (ss_by_template (payload_loop now draw auth cid rid wid st ps)) k =
   dict_get (ss_by_template st) k"
proof (induction ps arbitrary: st)
  case (Cons p ps)
  then have "template_of p \<noteq> Some k" "k \<notin> set (requested_templates ps)"
    by (auto simp: requested_templates_Cons)
  with Cons.IH show ?case by (simp add: sync_payload_other)
qed simp

lemma payload_loop_settles:
  assumes "\<forall>p \<in> set ps. json_wf (JObj p)" "distinct (requested_templates ps)" "p \<in> set ps"
  shows "settled rid (ss_by_template (payload_loop now draw auth cid rid wid st ps)) p"
  using assms
proof (induction ps arbitrary: st)
  case (Cons q ps)
  have rest: "distinct (requested_templates ps)" "\<forall>p \<in> set ps. json_wf (JObj p)"
    using Cons.prems by (simp_all add: requested_templates_Cons)
  show ?case
  proof (cases "p \<in> set ps")
    case True
    then show ?thesis using Cons.IH rest by simp
  next
    case False
    with Cons.prems have p: "p = q" "json_wf (JObj p)" by auto
    have "settled rid (ss_by_template (sync_payload now draw auth cid rid wid st p)) p"
      by (rule sync_payload_settles [OF p(2)])
    moreover have "k \<notin> set (requested_templates ps)" if "template_of p = Some k" for k
      using Cons.prems(2) that p(1) by (simp add: requested_templates_Cons)
    ultimately show ?thesis
      using settled_cong [of p "ss_by_template (payload_loop now draw auth cid rid wid
          (sync_payload now draw auth cid rid wid st p) ps)"]
      by (simp add: p(1) [symmetric] payload_loop_other)
  qed
qed simp

lemma payload_loop_settled:
  assumes "\<forall>p \<in> set ps. settled rid (ss_by_template st) p"
  shows "\<exists>un rq. payload_loop now draw auth cid rid wid st ps =
    st\<lparr>ss_requested := rq, ss_unchanged := un\<rparr>"
  using assms
proof (induction ps arbitrary: st)
  case Nil
  have "st = st\<lparr>ss_requested := ss_requested st, ss_unchanged := ss_unchanged st\<rparr>" by simp
  then show ?case by (metis foldl_Nil)
next
  case (Cons p ps)
  obtain un rq where step: "sync_payload now draw auth cid rid wid st p =
      st\<lparr>ss_requested := rq, ss_unchanged := un\<rparr>"
    using sync_payload_settled [of rid st p] Cons.prems by fastforce
  obtain un' rq' where "payload_loop now draw auth cid rid wid
        (st\<lparr>ss_requested := rq, ss_unchanged := un\<rparr>) ps =
      st\<lparr>ss_requested := rq, ss_unchanged := un\<rparr>\<lparr>ss_requested := rq', ss_unchanged := un'\<rparr>"
    using Cons.IH [of "st\<lparr>ss_requested := rq, ss_unchanged := un\<rparr>"] Cons.prems by auto
  then show ?case unfolding foldl_Cons step by auto
qed

section \<open>The second loop\<close>

text \<open>
  Before the rounds for \<open>ts\<close>: each of them is still stored under its template, and nothing else is
  left to resolve.
\<close>

definition resolve_pending ::
  "string list \<Rightarrow> task_record list \<Rightarrow> sync_state \<Rightarrow> bool" where
  "resolve_pending steps ts st \<longleftrightarrow>
     distinct (map task_template_id ts) \<and>
     (\<forall>t \<in> set ts. dict_get (ss_by_template st) (task_template_id t) = Some t) \<and>
     (\<forall>k t. dict_get (ss_by_template st) k = Some t \<longrightarrow> k \<notin> task_template_id ` set ts \<longrightarrow>
        \<not> sync_resolves (ss_requested st) steps t)"

lemma resolved_task_not_resolves [simp]: "\<not> sync_resolves rq steps (resolved_task now t)"
  by (simp add: sync_resolves_def resolved_task_def)

lemma sync_resolve_cases:
  obtains (left_alone) "\<not> sync_resolves (ss_requested st) steps t"
      "sync_resolve now steps (st, acc) t = (st, acc)"
  | (resolved) "sync_resolves (ss_requested st) steps t"
      "sync_resolve now steps (st, acc) t =
        (st\<lparr>ss_tasks := dict_set (rec_id t) (resolved_task now t) (ss_tasks st),
           ss_by_template := dict_set (task_template_id t) (resolved_task now t) (ss_by_template st)\<rparr>,
         acc @ [resolved_task now t])"
  by (cases "sync_resolves (ss_requested st) steps t") (simp_all add: sync_resolve_def Let_def)

lemma sync_resolve_ok:
  assumes ok: "sync_ok draw auth cid wid st"
    and t: "dict_get (ss_by_template st) (task_template_id t) = Some t"
  shows "sync_ok draw auth cid wid (fst (sync_resolve now steps (st, acc) t))"
proof (cases rule: sync_resolve_cases [of st steps t now acc])
  case left_alone
  then show ?thesis using ok by simp
next
  case resolved
  let ?t = "resolved_task now t"
  note T = syncedD(1) [OF sync_okD(3) [OF ok] t]
  have same: "rec_id ?t = rec_id t" "task_slot ?t = task_slot t" "task_ok ?t"
    by (simp_all add: resolved_task_def task_slot_def row_tenant_def task_ok_def)
  have "tasks_ok (dict_set (rec_id t) ?t (ss_tasks st))"
    by (rule tasks_ok_replace [OF sync_okD(1) [OF ok] T same])
  moreover have "synced auth cid wid (dict_set (rec_id t) ?t (ss_tasks st))
      (dict_set (task_template_id t) ?t (ss_by_template st))"
    by (rule synced_replace [OF sync_okD(3) [OF ok] t same(1,2)])
  moreover have "dict_get (dict_set (rec_id t) ?t (ss_tasks st)) (opaque_id ''wft'' (draw i)) = None"
    if "length (ss_created st) \<le> i" for i
    using sync_okD(4) [OF ok that] T by auto
  ultimately show ?thesis
    using sync_okD(2) [OF ok] by (simp add: resolved(2) sync_ok_def)
qed

lemma sync_resolve_pending:
  assumes pend: "resolve_pending steps (t # ts) st"
  shows "resolve_pending steps ts (fst (sync_resolve now steps (st, acc) t))"
proof (cases rule: sync_resolve_cases [of st steps t now acc])
  case left_alone
  have p: "distinct (map task_template_id ts)"
    "\<forall>t \<in> set ts. dict_get (ss_by_template st) (task_template_id t) = Some t"
    "dict_get (ss_by_template st) (task_template_id t) = Some t"
    "dict_get (ss_by_template st) k = Some ta \<Longrightarrow> k \<noteq> task_template_id t \<Longrightarrow>
       k \<notin> task_template_id ` set ts \<Longrightarrow> \<not> sync_resolves (ss_requested st) steps ta" for k ta
    using pend by (auto simp: resolve_pending_def)
  have "\<not> sync_resolves (ss_requested st) steps ta"
    if a: "dict_get (ss_by_template st) k = Some ta" "k \<notin> task_template_id ` set ts" for k ta
  proof (cases "k = task_template_id t")
    case True
    with a(1) p(3) left_alone(1) show ?thesis by simp
  next
    case False
    then show ?thesis using p(4) [OF a(1)] a(2) by blast
  qed
  with p(1,2) show ?thesis
    unfolding left_alone(2) fst_conv resolve_pending_def by blast
next
  case resolved
  let ?t = "resolved_task now t"
  have p: "distinct (map task_template_id ts)" "task_template_id t \<notin> task_template_id ` set ts"
    "t' \<in> set ts \<Longrightarrow> dict_get (ss_by_template st) (task_template_id t') = Some t'"
    "dict_get (ss_by_template st) k = Some ta \<Longrightarrow> k \<noteq> task_template_id t \<Longrightarrow>
       k \<notin> task_template_id ` set ts \<Longrightarrow> \<not> sync_resolves (ss_requested st) steps ta" for k ta t'
    using pend by (auto simp: resolve_pending_def)
  have "dict_get (dict_set (task_template_id t) ?t (ss_by_template st)) (task_template_id t') = Some t'"
    if "t' \<in> set ts" for t'
  proof -
    have "task_template_id t' \<noteq> task_template_id t"
      using p(2) imageI [OF that, of task_template_id] by metis
    then show ?thesis using p(3) [OF that] by simp
  qed
  moreover have "\<not> sync_resolves (ss_requested st) steps ta"
    if "dict_get (dict_set (task_template_id t) ?t (ss_by_template st)) k = Some ta"
      "k \<notin> task_template_id ` set ts" for k ta
    using that p(4) by (cases "k = task_template_id t") auto
  ultimately show ?thesis
    unfolding resolved(2) resolve_pending_def using p(1) by simp
qed

lemma sync_resolve_requested [simp]:
  "ss_requested (fst (sync_resolve now steps (st, acc) t)) = ss_requested st"
  "ss_created (fst (sync_resolve now steps (st, acc) t)) = ss_created st"
  by (cases rule: sync_resolve_cases [of st steps t now acc]; simp)+

text \<open>The second loop as a whole.\<close>

lemma resolve_loop:
  assumes "sync_ok draw auth cid wid st" "resolve_pending steps ts st"
    and "(st', r) = foldl (sync_resolve now steps) (st, acc) ts"
  shows "sync_ok draw auth cid wid st' \<and> resolve_pending steps [] st' \<and>
    ss_requested st' = ss_requested st \<and>
    (\<forall>k. k \<in> set (ss_requested st) \<longrightarrow>
       dict_get (ss_by_template st') k = dict_get (ss_by_template st) k) \<and>
    (\<forall>k t0. dict_get (ss_tasks st) k = Some t0 \<longrightarrow> resolved_status (task_status t0) \<longrightarrow>
       dict_get (ss_tasks st') k = Some t0)"
  using assms
proof (induction ts arbitrary: st acc)
  case (Cons t ts)
  obtain st1 acc1 where st1: "sync_resolve now steps (st, acc) t = (st1, acc1)" by fastforce
  have t: "dict_get (ss_by_template st) (task_template_id t) = Some t"
    using Cons.prems(2) by (simp add: resolve_pending_def)
  have ok1: "sync_ok draw auth cid wid st1" and pend1: "resolve_pending steps ts st1"
    and rq1: "ss_requested st1 = ss_requested st"
    using sync_resolve_ok [OF Cons.prems(1) t, of now steps acc]
      sync_resolve_pending [OF Cons.prems(2), of now acc]
      sync_resolve_requested(1) [of now steps st acc t] by (simp_all add: st1)
  have same: "dict_get (ss_by_template st1) k = dict_get (ss_by_template st) k"
    if "k \<in> set (ss_requested st)" for k
    using that st1
    by (cases rule: sync_resolve_cases [of st steps t now acc]) (auto simp: sync_resolves_def)
  have keep: "dict_get (ss_tasks st1) k = Some t0"
    if "dict_get (ss_tasks st) k = Some t0" "resolved_status (task_status t0)" for k t0
  proof (cases rule: sync_resolve_cases [of st steps t now acc])
    case left_alone
    then show ?thesis using that st1 by simp
  next
    case resolved
    have "dict_get (ss_tasks st) (rec_id t) = Some t"
      using syncedD(1) [OF sync_okD(3) [OF Cons.prems(1)] t] .
    with resolved(1) that have "k \<noteq> rec_id t" by (auto simp: sync_resolves_def)
    moreover have "ss_tasks st1 = dict_set (rec_id t) (resolved_task now t) (ss_tasks st)"
      using resolved(2) st1 by auto
    ultimately show ?thesis using that(1) by simp
  qed
  have "(st', r) = foldl (sync_resolve now steps) (st1, acc1) ts"
    using Cons.prems(3) st1 by simp
  from Cons.IH [OF ok1 pend1 this] show ?case
    using same keep rq1 by auto
qed auto

section \<open>Both loops\<close>

lemma synced_pending:
  assumes "synced auth cid wid T (ss_by_template st)" "dict_ok (ss_by_template st)"
  shows "resolve_pending steps (dict_values (ss_by_template st)) st"
proof -
  let ?B = "ss_by_template st"
  have "task_template_id t = k" if "(k, t) \<in> set ?B" for k t
    using syncedD(3) [OF assms(1)] dict_in_get [OF assms(2) that] by blast
  then have "map task_template_id (dict_values ?B) = map fst ?B"
    by (auto simp: dict_values_def)
  then have "distinct (map task_template_id (dict_values ?B))"
    using assms(2) by (simp add: dict_ok_def)
  moreover have "dict_get ?B (task_template_id t) = Some t" if "t \<in> set (dict_values ?B)" for t
    using that dict_in_values_iff [OF assms(2)] syncedD(3) [OF assms(1)] by metis
  moreover have "k \<in> task_template_id ` set (dict_values ?B)" if "dict_get ?B k = Some t" for k t
    using that syncedD(3) [OF assms(1) that] dict_value_in [OF that] by force
  ultimately show ?thesis by (auto simp: resolve_pending_def)
qed

lemma sync_all_effect:
  assumes ok: "tasks_ok T" and fresh: "\<And>i. dict_get T (opaque_id ''wft'' (draw i)) = None" "inj draw"
    and run: "sync_all now draw auth cid rid wid ps steps T = (st, r)"
  shows "sync_ok draw auth cid wid st" "resolve_pending steps [] st"
    "ss_requested st = requested_templates ps"
    "\<lbrakk>dict_get T k = Some t0; resolved_status (task_status t0)\<rbrakk> \<Longrightarrow> dict_get (ss_tasks st) k = Some t0"
    "\<lbrakk>\<forall>p \<in> set ps. json_wf (JObj p); distinct (requested_templates ps); p \<in> set ps\<rbrakk> \<Longrightarrow>
       settled rid (ss_by_template st) p"
proof -
  let ?st0 = "sync_start auth cid wid T"
  let ?st1 = "payload_loop now draw auth cid rid wid ?st0 ps"
  have ok0: "sync_ok draw auth cid wid ?st0" by (rule sync_start_ok [OF ok fresh(1)])
  have ok1: "sync_ok draw auth cid wid ?st1" by (rule payload_loop_ok [OF ok0 fresh(2)])
  have rq1: "ss_requested ?st1 = requested_templates ps"
    by (simp add: payload_loop_requested sync_start_def)
  have "(st, r) = foldl (sync_resolve now steps) (?st1, []) (dict_values (ss_by_template ?st1))"
    using run by (simp add: sync_all_def Let_def)
  note loop = resolve_loop [OF ok1 synced_pending [OF sync_okD(3,2) [OF ok1]] this]
  show "sync_ok draw auth cid wid st" "resolve_pending steps [] st"
    "ss_requested st = requested_templates ps"
    using loop rq1 by auto
  show "dict_get (ss_tasks st) k = Some t0"
    if "dict_get T k = Some t0" "resolved_status (task_status t0)"
    using loop payload_loop_keeps_resolved [OF ok0 fresh(2), of k t0] that
    by (simp add: sync_start_def)
  show "settled rid (ss_by_template st) p"
    if "\<forall>p \<in> set ps. json_wf (JObj p)" "distinct (requested_templates ps)" "p \<in> set ps"
  proof -
    have "dict_get (ss_by_template st) k = dict_get (ss_by_template ?st1) k"
      if "template_of p = Some k" for k
    proof -
      have "k \<in> set (requested_templates ps)"
        using that \<open>p \<in> set ps\<close> by (force simp: requested_templates_def)
      with loop rq1 show ?thesis by simp
    qed
    from settled_cong [OF this] payload_loop_settles [OF that] show ?thesis by simp
  qed
qed

lemma sync_all_again:
  assumes ok: "tasks_ok T" and fresh: "\<And>i. dict_get T (opaque_id ''wft'' (draw i)) = None" "inj draw"
    and ps: "\<forall>p \<in> set ps. json_wf (JObj p)" "distinct (requested_templates ps)"
    and run: "sync_all now draw auth cid rid wid ps steps T = (st, r)"
  shows "\<exists>st'. sync_all now' draw' auth cid rid wid ps steps (ss_tasks st) = (st', []) \<and>
    ss_tasks st' = ss_tasks st \<and> ss_created st' = [] \<and> ss_updated st' = [] \<and>
    set (dict_values (ss_by_template st')) = set (dict_values (ss_by_template st))"
proof -
  note e = sync_all_effect [OF ok fresh run]
  let ?st0 = "sync_start auth cid wid (ss_tasks st)"
  have "synced auth cid wid (ss_tasks st) (ss_by_template ?st0)"
    using synced_start [OF sync_okD(1) [OF e(1)]] by (simp add: sync_start_def)
  from synced_unique [OF this sync_okD(3) [OF e(1)]]
  have B: "dict_get (ss_by_template ?st0) k = dict_get (ss_by_template st) k" for k
    by simp
  have "settled rid (ss_by_template ?st0) p" if "p \<in> set ps" for p
    using settled_cong [of p "ss_by_template ?st0" "ss_by_template st" rid] B e(5) [OF ps that] by simp
  then obtain un rq where st1: "payload_loop now' draw' auth cid rid wid ?st0 ps =
      ?st0\<lparr>ss_requested := rq, ss_unchanged := un\<rparr>"
    using payload_loop_settled by blast
  have rq: "rq = requested_templates ps"
    using payload_loop_requested [of now' draw' auth cid rid wid ?st0 ps]
    by (simp add: st1) (simp add: sync_start_def)
  have Bok: "dict_ok (ss_by_template ?st0)" by (simp add: sync_start_def)
  have vals: "set (dict_values (ss_by_template ?st0)) = set (dict_values (ss_by_template st))"
    using dict_in_values_iff [OF Bok] dict_in_values_iff [OF sync_okD(2) [OF e(1)]] B by auto
  have none: "\<not> sync_resolves rq steps t" if t: "t \<in> set (dict_values (ss_by_template ?st0))" for t
  proof -
    obtain k where "dict_get (ss_by_template st) k = Some t"
      using t dict_in_values_iff [OF Bok, of t] B by auto
    then show ?thesis using e(2,3) by (simp add: resolve_pending_def rq)
  qed
  have idle: "foldl (sync_resolve now' steps) (s1, []) ts = (s1, [])"
    if "ss_requested s1 = rq" "\<forall>t \<in> set ts. \<not> sync_resolves rq steps t" for s1 ts
    using that by (induction ts) (simp_all add: sync_resolve_def)
  let ?st1 = "?st0\<lparr>ss_requested := rq, ss_unchanged := un\<rparr>"
  have "sync_all now' draw' auth cid rid wid ps steps (ss_tasks st) = (?st1, [])"
    using idle [of ?st1 "dict_values (ss_by_template ?st1)"] none
    by (simp add: sync_all_def Let_def st1)
  then show ?thesis using vals by (auto simp: sync_start_def)
qed

end
