(* ===== verification/Task_Claims.thy ===== *)
theory Task_Claims
  imports Task_Sync
begin

text \<open>
  What the workflow tasks guarantee: an invariant, a synchronisation that is idempotent, that
  leaves answered tasks alone and completes what is no longer asked for, and isolation.
\<close>

section \<open>The synchronisation as an operation on the repository\<close>

lemma lookups_frame [simp]:
  "get_conversation auth cid (s\<lparr>workflow_tasks := d\<rparr>) = get_conversation auth cid s"
  "get_run auth rid (s\<lparr>workflow_tasks := d\<rparr>) = get_run auth rid s"
  by (simp_all add: get_conversation_def get_run_def)

lemma sync_workflow_tasks_cases:
  obtains (refused) "sync_workflow_tasks now draw auth cid rid wid ps steps s = (None, s)"
  | (synced) c st r where "get_conversation auth cid s = Some c"
      "sync_all now draw auth (rec_id c) rid wid ps steps (workflow_tasks s) = (st, r)"
      "sync_workflow_tasks now draw auth cid rid wid ps steps s =
         (Some \<lparr>sync_records = py_sorted (\<lambda>t. (created_at t, rec_id t)) (dict_values (ss_by_template st)),
            sync_created = ss_created st, sync_updated = ss_updated st, sync_resolved = r,
            sync_unchanged = filter (\<lambda>t. rec_id t \<notin> rec_id ` set r) (ss_unchanged st)\<rparr>,
          s\<lparr>workflow_tasks := ss_tasks st\<rparr>)"
proof (cases "get_conversation auth cid s")
  case None
  then show ?thesis by (intro refused) (simp add: sync_workflow_tasks_def)
next
  case (Some c)
  show ?thesis
  proof (cases "case rid of None \<Rightarrow> False
      | Some r \<Rightarrow> (case get_run auth r s of
            None \<Rightarrow> True | Some run \<Rightarrow> run_conversation_id run \<noteq> rec_id c)")
    case True
    then show ?thesis by (intro refused) (simp add: sync_workflow_tasks_def Some)
  next
    case False
    obtain st r where "sync_all now draw auth (rec_id c) rid wid ps steps (workflow_tasks s) = (st, r)"
      by fastforce
    with False show ?thesis by (intro synced [OF Some]) (simp_all add: sync_workflow_tasks_def Some)
  qed
qed

lemma sync_workflow_tasks_inv:
  assumes "task_inv s" "\<And>i. unused_task (opaque_id ''wft'' (draw i)) s" "inj draw"
  shows "task_inv (snd (sync_workflow_tasks now draw auth cid rid wid ps steps s))"
proof (cases rule: sync_workflow_tasks_cases [of now draw auth cid rid wid ps steps s])
  case (synced c st r)
  have "sync_ok draw auth (rec_id c) wid st"
    using assms sync_all_effect(1) [OF _ _ _ synced(2)] by (simp add: task_inv_def unused_task_def)
  then show ?thesis by (simp add: synced(3) task_inv_def sync_okD(1))
qed (simp add: assms)

lemma conv_inv_sync [simp]:
  "conv_inv (snd (sync_workflow_tasks now draw auth cid rid wid ps steps s)) = conv_inv s"
  by (cases rule: sync_workflow_tasks_cases [of now draw auth cid rid wid ps steps s])
    (simp_all add: conv_inv_def)

section \<open>Isolation\<close>

definition task_view :: "tenant \<Rightarrow> repo \<Rightarrow> task_record dict" where
  "task_view t s = tenant_rows t (workflow_tasks s)"

lemma in_workflow_tenant: "in_workflow auth cid wid x \<Longrightarrow> row_tenant x = auth_tenant auth"
  by (simp add: in_workflow_slot)

lemma sync_payload_isolated:
  assumes ok: "sync_ok draw auth cid wid st" and other: "auth_tenant auth \<noteq> tn"
  shows "tenant_rows tn (ss_tasks (sync_payload now draw auth cid rid wid st p)) =
    tenant_rows tn (ss_tasks st)"
proof (cases rule: sync_payload_cases [of p now draw auth cid rid wid st])
  case (updated tm e f t)
  note e = syncedD(1,2) [OF sync_okD(3) [OF ok] updated(3)]
  have "row_tenant t = auth_tenant auth"
    using in_workflow_tenant [OF e(2)]
    by (simp add: updated(5) updated_sync_task_def row_tenant_def split: prod.split)
  then show ?thesis
    using e(1) in_workflow_tenant [OF e(2)] other
    by (auto simp: updated(6) intro!: tenant_rows_set_other)
next
  case (created tm f t)
  have t: "row_tenant t = auth_tenant auth" "rec_id t = opaque_id ''wft'' (draw (length (ss_created st)))"
    by (simp_all add: created(4) new_sync_task_def row_tenant_def auth_tenant_def split: prod.split)
  then have "dict_get (ss_tasks st) (rec_id t) = None"
    using sync_okD(4) [OF ok order_refl] by simp
  then show ?thesis
    using t(1) other by (auto simp: created(5) intro!: tenant_rows_set_other)
qed simp_all

lemma payload_loop_isolated:
  assumes "sync_ok draw auth cid wid st" "inj draw" "auth_tenant auth \<noteq> tn"
  shows "tenant_rows tn (ss_tasks (payload_loop now draw auth cid rid wid st ps)) =
    tenant_rows tn (ss_tasks st)"
  using assms by (induction ps arbitrary: st) (simp_all add: sync_payload_ok sync_payload_isolated)

lemma resolve_loop_isolated:
  assumes "sync_ok draw auth cid wid st" "resolve_pending steps ts st" "auth_tenant auth \<noteq> tn"
  shows "tenant_rows tn (ss_tasks (fst (foldl (sync_resolve now steps) (st, acc) ts))) =
    tenant_rows tn (ss_tasks st)"
  using assms
proof (induction ts arbitrary: st acc)
  case (Cons t ts)
  obtain st1 acc1 where st1: "sync_resolve now steps (st, acc) t = (st1, acc1)" by fastforce
  have t: "dict_get (ss_by_template st) (task_template_id t) = Some t"
    using Cons.prems(2) by (simp add: resolve_pending_def)
  note T = syncedD(1,2) [OF sync_okD(3) [OF Cons.prems(1)] t]
  have "tenant_rows tn (ss_tasks st1) = tenant_rows tn (ss_tasks st)"
  proof (cases rule: sync_resolve_cases [of st steps t now acc])
    case resolved
    have "row_tenant (resolved_task now t) = auth_tenant auth"
      using in_workflow_tenant [OF T(2)] by (simp add: resolved_task_def row_tenant_def)
    then show ?thesis
      using T(1) in_workflow_tenant [OF T(2)] Cons.prems(3) resolved(2) st1
      by (auto intro!: tenant_rows_set_other)
  qed (use st1 in auto)
  moreover have "sync_ok draw auth cid wid st1" "resolve_pending steps ts st1"
    using sync_resolve_ok [OF Cons.prems(1) t, of now steps acc]
      sync_resolve_pending [OF Cons.prems(2), of now acc] by (simp_all add: st1)
  ultimately show ?case using Cons.IH [of st1 acc1] Cons.prems(3) by (simp add: st1)
qed simp

lemma sync_workflow_tasks_isolated:
  assumes "task_inv s" "\<And>i. unused_task (opaque_id ''wft'' (draw i)) s" "inj draw"
    and other: "auth_tenant auth \<noteq> tn"
  shows "task_view tn (snd (sync_workflow_tasks now draw auth cid rid wid ps steps s)) = task_view tn s"
proof (cases rule: sync_workflow_tasks_cases [of now draw auth cid rid wid ps steps s])
  case (synced c st r)
  let ?st0 = "sync_start auth (rec_id c) wid (workflow_tasks s)"
  let ?st1 = "payload_loop now draw auth (rec_id c) rid wid ?st0 ps"
  have ok0: "sync_ok draw auth (rec_id c) wid ?st0"
    using assms(1,2) by (intro sync_start_ok) (simp_all add: task_inv_def unused_task_def)
  have ok1: "sync_ok draw auth (rec_id c) wid ?st1" by (rule payload_loop_ok [OF ok0 assms(3)])
  have "st = fst (foldl (sync_resolve now steps) (?st1, []) (dict_values (ss_by_template ?st1)))"
    using synced(2) by (simp add: sync_all_def Let_def)
  then have "tenant_rows tn (ss_tasks st) = tenant_rows tn (workflow_tasks s)"
    using resolve_loop_isolated [OF ok1 synced_pending [OF sync_okD(3,2) [OF ok1]] other, of now steps "[]"]
      payload_loop_isolated [OF ok0 assms(3) other, of now rid ps]
    by (simp add: sync_start_def)
  then show ?thesis by (simp add: synced(3) task_view_def)
qed simp

lemma resolve_workflow_task_isolated:
  assumes "task_inv s" "auth_tenant auth \<noteq> tn"
  shows "task_view tn (snd (resolve_workflow_task now auth tid st resp s)) = task_view tn s"
  using assms keyed_id [OF tasks_okD(1)]
  by (auto simp: task_inv_def resolve_workflow_task_def Let_def task_view_def is_authorized_tenant
      row_tenant_def split: option.split intro!: tenant_rows_set_other)

lemma upsert_workflow_task_isolated:
  assumes inv: "task_inv s" and fresh: "unused_task (opaque_id ''wft'' uuid) s"
    and other: "auth_tenant auth \<noteq> tn"
  shows "task_view tn (snd (upsert_workflow_task now uuid auth cid wid tm step kind st p rid s)) =
    task_view tn s"
proof -
  have *: "tenant_rows tn (dict_set k t (workflow_tasks s)) = tenant_rows tn (workflow_tasks s)"
    if "row_tenant t = auth_tenant auth"
      "\<And>e. dict_get (workflow_tasks s) k = Some e \<Longrightarrow> row_tenant e = auth_tenant auth" for k t
    using that other by (intro tenant_rows_set_other) auto
  have old: "row_tenant e = auth_tenant auth"
    if "find P (dict_values (workflow_tasks s)) = Some e0" "\<And>x. P x \<Longrightarrow> row_tenant x = auth_tenant auth"
      "dict_get (workflow_tasks s) (rec_id e0) = Some e" for P e0 e
  proof -
    have "e0 \<in> set (dict_values (workflow_tasks s))" "P e0"
      using find_SomeD [OF that(1)] by auto
    with keyed_value [OF tasks_okD(1), of "workflow_tasks s" e0] inv that(2,3)
    show ?thesis by (auto simp: task_inv_def)
  qed
  show ?thesis
    using fresh
    by (auto simp: upsert_workflow_task_def Let_def task_view_def unused_task_def row_tenant_def
        auth_tenant_def intro!: * dest!: old [rotated -1] split: option.split)
qed

section \<open>A concrete workflow\<close>

definition unary :: "nat \<Rightarrow> string" where
  "unary i = replicate i CHR ''x''"

lemma inj_unary: "inj unary"
  by (rule injI) (metis length_replicate unary_def)

definition ask :: payload where
  "ask = [(''task_template_id'', JStr ''budget''), (''status'', JStr ''pending_user''),
     (''step_id'', JStr ''plan''), (''kind'', JStr ''question'')]"

definition task_repo :: repo where
  "task_repo = snd (create_conversation 0 ''c'' alice None init_repo)"

text \<open>The task has been asked for, and in the second repository it has been approved.\<close>

definition asked :: repo where
  "asked = snd (sync_workflow_tasks 1 unary alice ''conv_c'' None ''wf'' [ask] [] task_repo)"

definition answered :: repo where
  "answered = snd (resolve_workflow_task 2 alice ''wft_'' ''approved'' (Some []) asked)"

lemma task_repo_tasks: "workflow_tasks task_repo = []"
  by (simp add: task_repo_def create_conversation_def Let_def init_repo_def)

lemma task_repo_ok: "task_inv task_repo" "unused_task (opaque_id ''wft'' (unary i)) task_repo"
  by (simp_all add: task_inv_def tasks_ok_def slots_unique_def unused_task_def task_repo_tasks)

lemma task_repo_conv: "conv_inv task_repo"
  unfolding task_repo_def
  by (intro create_conversation_inv conv_inv_init) (simp add: unused_conv_def init_repo_def)

lemma ask_ok: "json_wf (JObj ask)" "distinct (requested_templates [ask])"
  by code_simp+

lemma asked_sync:
  "\<exists>r. sync_workflow_tasks 1 unary alice ''conv_c'' None ''wf'' [ask] [] task_repo = (Some r, asked)"
proof -
  have "fst (sync_workflow_tasks 1 unary alice ''conv_c'' None ''wf'' [ask] [] task_repo) \<noteq> None"
    by code_simp
  then show ?thesis unfolding asked_def by (metis option.exhaust prod.collapse)
qed

lemma asked_inv: "task_inv asked"
  unfolding asked_def by (intro sync_workflow_tasks_inv task_repo_ok inj_unary)

lemma answered_inv: "task_inv answered"
  unfolding answered_def by (intro resolve_workflow_task_inv asked_inv)

lemma shifted_unused: "unused_task (opaque_id ''wft'' (unary (Suc i))) answered"
proof -
  have "map fst (workflow_tasks answered) = [opaque_id ''wft'' (unary 0)]" by code_simp
  moreover have "opaque_id ''wft'' (unary (Suc i)) \<noteq> opaque_id ''wft'' (unary 0)"
    using inj_unary by (auto dest: injD)
  ultimately have "opaque_id ''wft'' (unary (Suc i)) \<notin> fst ` set (workflow_tasks answered)"
    by (metis list.set(1,2) list.set_map singletonD)
  then show ?thesis by (simp add: unused_task_def map_of_eq_None_iff)
qed

section \<open>Properties\<close>

text \<open>
  C5: synchronising a workflow's tasks twice with the same payloads and completed steps changes
  nothing the second time, at whatever time and with whatever ids drawn: the table stays as it
  was, nothing is created, updated or resolved, and the same tasks are returned.  The payloads
  are JSON objects and name each template at most once.
\<close>

theorem sync_idempotent:
  assumes "task_inv s" "\<And>i. unused_task (opaque_id ''wft'' (draw i)) s" "inj draw"
    and "\<forall>p \<in> set ps. json_wf (JObj p)" "distinct (requested_templates ps)"
    and "sync_workflow_tasks now draw auth cid rid wid ps steps s = (Some r, s1)"
  shows "\<exists>r'. sync_workflow_tasks now' draw' auth cid rid wid ps steps s1 = (Some r', s1) \<and>
    sync_created r' = [] \<and> sync_updated r' = [] \<and> sync_resolved r' = [] \<and>
    set (sync_records r') = set (sync_records r)"
proof (cases rule: sync_workflow_tasks_cases [of now draw auth cid rid wid ps steps s])
  case (synced c st res)
  have s1: "s1 = s\<lparr>workflow_tasks := ss_tasks st\<rparr>" using assms(6) synced(3) by simp
  have r: "sync_records r = py_sorted (\<lambda>t. (created_at t, rec_id t)) (dict_values (ss_by_template st))"
    using assms(6) synced(3) by auto
  obtain st' where again: "sync_all now' draw' auth (rec_id c) rid wid ps steps (ss_tasks st) = (st', [])"
    "ss_tasks st' = ss_tasks st" "ss_created st' = []" "ss_updated st' = []"
    "set (dict_values (ss_by_template st')) = set (dict_values (ss_by_template st))"
    using sync_all_again [OF _ _ assms(3-5) synced(2), of now' draw'] assms(1,2)
    by (auto simp: task_inv_def unused_task_def)
  show ?thesis
  proof (cases rule: sync_workflow_tasks_cases [of now' draw' auth cid rid wid ps steps s1])
    case refused
    have "fst (sync_workflow_tasks now draw auth cid rid wid ps steps s) \<noteq> None" using synced(3) by simp
    with refused show ?thesis
      using synced(1) by (auto simp: sync_workflow_tasks_def s1 split: option.splits prod.splits if_splits)
  next
    case (synced c' st2 r2)
    then have "c' = c" using \<open>get_conversation auth cid s = Some c\<close> by (simp add: s1)
    with synced(2) again(1) have "st2 = st'" "r2 = []" by (simp_all add: s1)
    with synced(3) again(2-5) r show ?thesis by (simp add: s1)
  qed
qed (use assms in simp)

theorem sync_idempotent_witness:
  "snd (sync_workflow_tasks 9 (\<lambda>i. unary (i + 1)) alice ''conv_c'' None ''wf'' [ask] [] asked) = asked"
proof -
  obtain r where r: "sync_workflow_tasks 1 unary alice ''conv_c'' None ''wf'' [ask] [] task_repo = (Some r, asked)"
    using asked_sync by blast
  show ?thesis
    using sync_idempotent [OF task_repo_ok inj_unary _ ask_ok(2) r, of 9 "\<lambda>i. unary (i + 1)"] ask_ok(1)
    by auto
qed

text \<open>
  The payloads of a template that is named twice are both stored, one over the other, so with such
  payloads every synchronisation updates the task again, twice.
\<close>

definition asked_otherwise :: "json dict" where
  "asked_otherwise = dict_set ''title'' (JStr ''Otherwise'') ask"

lemma sync_named_twice:
  "(case sync_workflow_tasks 9 (\<lambda>i. unary (i + 1)) alice ''conv_c'' None ''wf'' [ask, asked_otherwise] []
      (snd (sync_workflow_tasks 1 unary alice ''conv_c'' None ''wf'' [ask, asked_otherwise] [] task_repo)) of
      (Some r, _) \<Rightarrow> map rec_id (sync_updated r) = [''wft_'', ''wft_'']
    | (None, _) \<Rightarrow> False)"
  by code_simp

text \<open>
  C6: a synchronisation never touches a task that has been resolved (completed, approved, rejected
  or cancelled), whatever the payloads say: it is stored as before, response included.
\<close>

theorem sync_keeps_resolved:
  assumes "task_inv s" "\<And>i. unused_task (opaque_id ''wft'' (draw i)) s" "inj draw"
    and "dict_get (workflow_tasks s) k = Some t" "resolved_status (task_status t)"
  shows "dict_get (workflow_tasks (snd (sync_workflow_tasks now draw auth cid rid wid ps steps s))) k
    = Some t"
proof (cases rule: sync_workflow_tasks_cases [of now draw auth cid rid wid ps steps s])
  case (synced c st r)
  show ?thesis
    using sync_all_effect(4) [OF _ _ assms(3) synced(2) assms(4,5)] assms(1,2)
    by (simp add: synced(3) task_inv_def unused_task_def)
qed (simp add: assms)

theorem sync_keeps_resolved_witness:
  "dict_get (workflow_tasks (snd (sync_workflow_tasks 9 (\<lambda>i. unary (Suc i)) alice ''conv_c'' None
     ''wf'' [ask] [''plan''] answered))) ''wft_'' = dict_get (workflow_tasks answered) ''wft_''"
proof -
  have "map_option task_status (dict_get (workflow_tasks answered) ''wft_'') = Some ''approved''"
    by code_simp
  then obtain t where t: "dict_get (workflow_tasks answered) ''wft_'' = Some t"
    "resolved_status (task_status t)"
    by (auto simp: WORKFLOW_TASK_RESOLVED_STATUSES_def)
  have "inj (\<lambda>i. unary (Suc i))" using inj_unary by (auto simp: inj_def)
  from sync_keeps_resolved [OF answered_inv shifted_unused this t] t(1) show ?thesis by simp
qed

text \<open>
  After a synchronisation no task of the workflow is left open whose step is completed and
  whose template was not asked for.
\<close>

theorem sync_completes_steps:
  assumes "task_inv s" "\<And>i. unused_task (opaque_id ''wft'' (draw i)) s" "inj draw"
    and "sync_workflow_tasks now draw auth cid rid wid ps steps s = (Some r, s1)"
    and "dict_get (workflow_tasks s1) k = Some t" "in_workflow auth cid wid t"
      "task_step_id t \<in> set steps" "task_template_id t \<notin> set (requested_templates ps)"
    and "conv_inv s"
  shows "resolved_status (task_status t)"
proof (cases rule: sync_workflow_tasks_cases [of now draw auth cid rid wid ps steps s])
  case (synced c st res)
  have id: "rec_id c = cid" using conv.fetch_id [OF conv_invD(1) [OF assms(9)] synced(1)] .
  note e = sync_all_effect [OF _ _ assms(3) synced(2)]
  have ok: "sync_ok draw auth cid wid st" "resolve_pending steps [] st"
    "ss_requested st = requested_templates ps"
    using e(1-3) assms(1,2) by (simp_all add: task_inv_def unused_task_def id)
  have "dict_get (ss_tasks st) k = Some t" using assms(4,5) synced(3) by auto
  then have "dict_get (ss_tasks st) (rec_id t) = Some t"
    using keyed_id [OF tasks_okD(1) [OF sync_okD(1) [OF ok(1)]]] by auto
  then have "dict_get (ss_by_template st) (task_template_id t) = Some t"
    using synced_find [OF sync_okD(3) [OF ok(1)]] assms(6) by blast
  then have "\<not> sync_resolves (requested_templates ps) steps t"
    using ok(2,3) by (auto simp: resolve_pending_def)
  then show ?thesis using assms(7,8) by (simp add: sync_resolves_def)
qed (use assms in simp)

theorem sync_completes_steps_witness:
  "\<exists>r s1 t. sync_workflow_tasks 9 (\<lambda>i. unary (Suc i)) alice ''conv_c'' None ''wf'' [] [''plan''] asked
     = (Some r, s1) \<and> dict_get (workflow_tasks s1) ''wft_'' = Some t \<and> resolved_status (task_status t)"
proof -
  let ?r = "sync_workflow_tasks 9 (\<lambda>i. unary (Suc i)) alice ''conv_c'' None ''wf'' [] [''plan''] asked"
  have "fst ?r \<noteq> None" by code_simp
  then obtain r s1 where r: "?r = (Some r, s1)" by (cases ?r) auto
  have "map_option (\<lambda>t. in_workflow alice ''conv_c'' ''wf'' t \<and> task_step_id t = ''plan'')
      (dict_get (workflow_tasks (snd ?r)) ''wft_'') = Some True" by code_simp
  then obtain t where t: "dict_get (workflow_tasks s1) ''wft_'' = Some t"
    "in_workflow alice ''conv_c'' ''wf'' t" "task_step_id t \<in> set [''plan'']"
    by (auto simp: r)
  have fresh: "unused_task (opaque_id ''wft'' (unary (Suc i))) asked" for i
  proof -
    have "map fst (workflow_tasks asked) = map fst (workflow_tasks answered)" by code_simp
    with shifted_unused [of i] show ?thesis
      by (metis unused_task_def map_of_eq_None_iff set_map)
  qed
  have inj: "inj (\<lambda>i. unary (Suc i))" using inj_unary by (auto simp: inj_def)
  have "conv_inv asked"
    using task_repo_conv by (simp add: asked_def conv_inv_sync)
  from sync_completes_steps [OF asked_inv fresh inj r t _ this] r t(1) show ?thesis
    by (auto simp: requested_templates_def)
qed

end
