(* ===== verification/Snapshot.thy ===== *)
theory Snapshot
  imports Run_Children
begin

text \<open>
  The artifact pages and the snapshot of a conversation
  (\<open>InMemoryConversationRepository\<close>, \<open>list_workspace_artifacts_page\<close>,
  \<open>list_conversation_artifacts_page\<close>, \<open>get_conversation_state_snapshot\<close>).
\<close>

section \<open>Pages\<close>

definition page_of :: "artifact_record list \<times> (datetime \<times> string) option \<Rightarrow> artifact_page" where
  "page_of p = \<lparr>page_items = fst p, page_next_cursor = snd p\<rparr>"

definition list_workspace_artifacts_page ::
  "auth_context \<Rightarrow> int option \<Rightarrow> (datetime \<times> string) option \<Rightarrow> visibility \<Rightarrow> repo \<Rightarrow> artifact_page" where
  "list_workspace_artifacts_page auth limit cursor vis s =
     page_of (artifact_page_at auth None limit vis s cursor)"

definition list_conversation_artifacts_page ::
  "auth_context \<Rightarrow> string \<Rightarrow> int option \<Rightarrow> (datetime \<times> string) option \<Rightarrow> visibility \<Rightarrow> repo
    \<Rightarrow> artifact_page option" where
  "list_conversation_artifacts_page auth cid limit cursor vis s =
     (case get_conversation auth cid s of
        None \<Rightarrow> None
      | Some conversation \<Rightarrow>
          Some (page_of (artifact_page_at auth (Some (rec_id conversation)) limit vis s cursor)))"

section \<open>The snapshot\<close>

text \<open>\<open>xs[-n:]\<close> for any \<open>n\<close> that is not negative: with \<open>n = 0\<close> it is the whole list.\<close>

definition neg_slice :: "int \<Rightarrow> 'a list \<Rightarrow> 'a list" where
  "neg_slice n xs = (if n = 0 then xs else last_n n xs)"

definition snapshot_event_key :: "run_event \<Rightarrow> datetime \<times> string \<times> int \<times> string" where
  "snapshot_event_key e = (created_at e, evt_run_id e, evt_sequence e, rec_id e)"

definition latest_spec_of :: "auth_context \<Rightarrow> run_record option \<Rightarrow> repo \<Rightarrow> strategy_spec_record option" where
  "latest_spec_of auth latest_run s =
     (case latest_run of
        None \<Rightarrow> None
      | Some run \<Rightarrow> find (\<lambda>spec. spec_run_id spec = rec_id run \<and> owns auth spec)
          (dict_values (strategy_specs s)))"

definition get_conversation_state_snapshot ::
  "auth_context \<Rightarrow> string \<Rightarrow> int \<Rightarrow> int option \<Rightarrow> repo \<Rightarrow> conversation_state option" where
  "get_conversation_state_snapshot auth cid event_limit message_limit s =
     (case get_conversation auth cid s of
        None \<Rightarrow> None
      | Some conversation \<Rightarrow>
          let bounded_message_limit = bounded_state_message_limit message_limit;
              all_messages = log_of (messages s) (rec_id conversation);
              msgs = (if 0 < bounded_message_limit then neg_slice bounded_message_limit all_messages
                      else []);
              rs = conversation_runs auth (rec_id conversation) s;
              latest_run = head_opt (py_sorted_rev run_order_key rs);
              arts = (case latest_run of
                  None \<Rightarrow> []
                | Some run \<Rightarrow> filter (\<lambda>a. art_run_id a = Some (rec_id run) \<and> owns auth a)
                    (dict_values (artifacts s)));
              all_arts = py_sorted_rev artifact_key
                (filter (\<lambda>a. art_conversation_id a = Some (rec_id conversation) \<and> owns auth a
                    \<and> is_user_visible_artifact_kind (art_kind a)) (dict_values (artifacts s)));
              page = first_n (CONVERSATION_ARTIFACT_STATE_LIMIT + 1) all_arts;
              conv_arts = first_n CONVERSATION_ARTIFACT_STATE_LIMIT page;
              next_cursor = (if CONVERSATION_ARTIFACT_STATE_LIMIT < int (length page) \<and> conv_arts \<noteq> []
                  then Some (artifact_key (last conv_arts)) else None);
              events = (case latest_run of None \<Rightarrow> [] | Some run \<Rightarrow> log_of (run_events s) (rec_id run));
              conv_events = py_sorted snapshot_event_key
                (concat (map (\<lambda>run. log_of (run_events s) (rec_id run)) rs))
          in Some \<lparr>cs_conversation = conversation, cs_messages = msgs,
                cs_message_count = int (length all_messages),
                cs_messages_truncated = (length msgs < length all_messages),
                cs_message_limit = bounded_message_limit,
                cs_latest_run = latest_run, cs_latest_run_artifacts = arts,
                cs_conversation_artifacts = conv_arts,
                cs_conversation_artifacts_next_cursor = next_cursor,
                cs_latest_run_events =
                  (if 0 < event_limit then neg_slice (max event_limit 0) events else []),
                cs_conversation_run_events =
                  (if 0 < event_limit
                   then neg_slice (max (event_limit * 4) (max event_limit 0)) conv_events else []),
                cs_latest_strategy_spec = latest_spec_of auth latest_run s\<rparr>)"

section \<open>The snapshot's parts\<close>

text \<open>The artifacts of a snapshot are the first page of the user-visible listing.\<close>

lemma snapshot_artifacts_page:
  assumes "get_conversation_state_snapshot auth cid el ml s = Some snap"
  shows "list_conversation_artifacts_page auth cid None None User_Visible s =
    Some \<lparr>page_items = cs_conversation_artifacts snap,
      page_next_cursor = cs_conversation_artifacts_next_cursor snap\<rparr>"
proof -
  obtain c where c: "get_conversation auth cid s = Some c"
    using assms by (auto simp: get_conversation_state_snapshot_def split: option.splits)
  have rows: "filter (\<lambda>a. art_conversation_id a = Some (rec_id c) \<and> owns auth a
        \<and> is_user_visible_artifact_kind (art_kind a)) (dict_values (artifacts s)) =
      page_rows auth (Some (rec_id c)) User_Visible s"
    by (simp add: page_rows_def)
  show ?thesis
    using assms
    by (simp add: get_conversation_state_snapshot_def c Let_def list_conversation_artifacts_page_def
        page_of_def artifact_page_at_def bounded_artifact_page_limit_def rows
        del: owns_eq) (auto simp: page_rows_def)
qed

lemma snapshot_messages:
  assumes "get_conversation_state_snapshot auth cid el ml s = Some snap" "conv_inv s"
  shows "\<exists>older. list_messages auth cid s = older @ cs_messages snap \<and>
      cs_messages_truncated snap = (older \<noteq> []) \<and>
      cs_message_count snap = int (length (list_messages auth cid s)) \<and>
      int (length (cs_messages snap)) \<le> 500"
proof -
  obtain c where c: "get_conversation auth cid s = Some c"
    using assms by (auto simp: get_conversation_state_snapshot_def split: option.splits)
  have id: "rec_id c = cid" using conv.fetch_id [OF conv_invD(1) [OF assms(2)] c] .
  let ?all = "list_messages auth cid s"
  let ?n = "bounded_state_message_limit ml"
  have all: "log_of (messages s) cid = ?all"
    by (simp add: list_messages_def c log_of_def)
  have n: "0 \<le> ?n" "?n \<le> 500"
    by (auto simp: bounded_state_message_limit_def split: option.split)
  have msgs: "cs_messages snap = drop (length ?all - nat ?n) ?all"
    using assms(1) n
    by (auto simp: get_conversation_state_snapshot_def c Let_def id all neg_slice_def last_n_def)
  have rest: "cs_messages_truncated snap = (length (cs_messages snap) < length ?all)"
    "cs_message_count snap = int (length ?all)"
    using assms(1) by (auto simp: get_conversation_state_snapshot_def c Let_def id all)
  have "?all = take (length ?all - nat ?n) ?all @ cs_messages snap" by (simp add: msgs)
  moreover have "int (length (cs_messages snap)) \<le> 500" using n by (simp add: msgs)
  ultimately show ?thesis using rest
    by (metis length_append length_0_conv less_add_same_cancel2 neq0_conv)
qed

end
