(* ===== verification/Bots.thy ===== *)
theory Bots
  imports Run_Children
begin

text \<open>
  Bot proposals and feedback (\<open>InMemoryConversationRepository\<close>, \<open>create_bot_proposal\<close>,
  \<open>get_bot_proposal\<close>, \<open>mark_bot_proposal_started\<close>, \<open>create_feedback\<close>).
\<close>

section \<open>Operations\<close>

definition create_bot_proposal ::
  "datetime \<Rightarrow> string \<Rightarrow> auth_context \<Rightarrow> bot_proposal_input \<Rightarrow> repo \<Rightarrow> bot_proposal \<times> repo" where
  "create_bot_proposal now uuid auth proposal s =
     (let record = \<lparr>rec_id = opaque_id ''botp'' uuid, owner_user_id = user_id auth,
            workspace_id = auth_workspace_id auth, created_at = now,
            bp_status = bpi_status proposal,
            bp_source_conversation_id = bpi_source_conversation_id proposal,
            bp_source_run_id = bpi_source_run_id proposal,
            bp_source_artifact_ids = bpi_source_artifact_ids proposal,
            bp_strategy_id = bpi_strategy_id proposal,
            bp_strategy_name = bpi_strategy_name proposal,
            bp_manifest = bpi_manifest proposal,
            bp_data_subscriptions = bpi_data_subscriptions proposal,
            bp_broker_connection_id = bpi_broker_connection_id proposal,
            bp_account_id = bpi_account_id proposal,
            bp_risk_policy_id = bpi_risk_policy_id proposal,
            bp_readiness_checks = bpi_readiness_checks proposal,
            bp_missing_inputs = bpi_missing_inputs proposal,
            bp_runtime_id = None, bp_updated_at = now\<rparr>
      in (record, s\<lparr>bot_proposals := dict_set (rec_id record) record (bot_proposals s)\<rparr>))"

definition get_bot_proposal :: "auth_context \<Rightarrow> string \<Rightarrow> repo \<Rightarrow> bot_proposal option" where
  "get_bot_proposal auth pid s =
     (case dict_get (bot_proposals s) pid of
        None \<Rightarrow> None
      | Some proposal \<Rightarrow>
          if owner_user_id proposal \<noteq> user_id auth
             \<or> workspace_id proposal \<noteq> auth_workspace_id auth then None
          else Some proposal)"

definition mark_bot_proposal_started ::
  "datetime \<Rightarrow> auth_context \<Rightarrow> string \<Rightarrow> string \<Rightarrow> repo \<Rightarrow> bot_proposal option \<times> repo" where
  "mark_bot_proposal_started now auth pid rtid s =
     (case dict_get (bot_proposals s) pid of
        None \<Rightarrow> (None, s)
      | Some proposal \<Rightarrow>
          if owner_user_id proposal \<noteq> user_id auth
             \<or> workspace_id proposal \<noteq> auth_workspace_id auth then (None, s)
          else
            let updated = proposal\<lparr>bp_status := BOT_PROPOSAL_STATUS_STARTED,
                  bp_runtime_id := Some rtid, bp_updated_at := now\<rparr>
            in (Some updated, s\<lparr>bot_proposals := dict_set pid updated (bot_proposals s)\<rparr>))"

text \<open>\<open>table.get(key) if key else None\<close>: an empty key is looked up nowhere.\<close>

definition get_if_key :: "'v dict \<Rightarrow> string option \<Rightarrow> 'v option" where
  "get_if_key d k = (case k of None \<Rightarrow> None | Some x \<Rightarrow> if x = [] then None else dict_get d x)"

definition feedback_run_refused ::
  "auth_context \<Rightarrow> string \<Rightarrow> string option \<Rightarrow> run_record option \<Rightarrow> bool" where
  "feedback_run_refused auth cid rid run \<longleftrightarrow> rid \<noteq> None \<and>
     (case run of
        None \<Rightarrow> True
      | Some r \<Rightarrow> \<not> is_run_authorized auth r \<or> run_conversation_id r \<noteq> cid)"

definition feedback_message_refused ::
  "auth_context \<Rightarrow> string option \<Rightarrow> message_record list \<Rightarrow> bool" where
  "feedback_message_refused auth mid thread \<longleftrightarrow>
     (case mid of
        None \<Rightarrow> False
      | Some i \<Rightarrow> \<not> list_ex (\<lambda>m. rec_id m = i \<and> owner_user_id m = user_id auth
          \<and> workspace_id m = auth_workspace_id auth) thread)"

definition feedback_artifact_refused ::
  "auth_context \<Rightarrow> string \<Rightarrow> string option \<Rightarrow> artifact_record option \<Rightarrow> bool" where
  "feedback_artifact_refused auth cid aid artifact \<longleftrightarrow> aid \<noteq> None \<and>
     (case artifact of
        None \<Rightarrow> True
      | Some a \<Rightarrow> owner_user_id a \<noteq> user_id auth \<or> workspace_id a \<noteq> auth_workspace_id auth
          \<or> (art_conversation_id a \<noteq> None \<and> art_conversation_id a \<noteq> Some cid))"

definition create_feedback ::
  "datetime \<Rightarrow> string \<Rightarrow> auth_context \<Rightarrow> string \<Rightarrow> string \<Rightarrow> string \<Rightarrow> string option
    \<Rightarrow> string option \<Rightarrow> string option \<Rightarrow> string option \<Rightarrow> repo \<Rightarrow> feedback_record option \<times> repo" where
  "create_feedback now uuid auth cid rating correction category rid mid aid s =
     (case dict_get (conversations s) cid of
        None \<Rightarrow> (None, s)
      | Some conversation \<Rightarrow>
          if \<not> is_authorized auth conversation then (None, s)
          else
            let run = get_if_key (runs s) rid;
                artifact = get_if_key (artifacts s) aid
            in if feedback_run_refused auth cid rid run
                  \<or> feedback_message_refused auth mid (log_of (messages s) cid)
                  \<or> feedback_artifact_refused auth cid aid artifact
               then (None, s)
               else
                 let record = \<lparr>rec_id = opaque_id ''fb'' uuid, owner_user_id = user_id auth,
                       workspace_id = auth_workspace_id auth, created_at = now,
                       fb_conversation_id = cid, fb_run_id = rid, fb_message_id = mid,
                       fb_artifact_id = aid,
                       fb_request_id = (case run of None \<Rightarrow> None | Some r \<Rightarrow> run_request_id r),
                       fb_trace_id = (case run of None \<Rightarrow> None | Some r \<Rightarrow> run_trace_id r),
                       fb_rating = rating, fb_category = category, fb_correction = correction\<rparr>
                 in (Some record, s\<lparr>feedback := dict_set (rec_id record) record (feedback s)\<rparr>))"

interpretation bot: owned_resource get_bot_proposal bot_proposals
  by unfold_locales
    (auto simp: get_bot_proposal_def owned_get_def is_authorized_def split: option.split)

section \<open>Invariant\<close>

text \<open>
  Proposals and feedback are stored under their ids; a started proposal names its runtime; the run
  that a feedback names is one of the conversation it is about, and of the same owner.
\<close>

definition bot_inv :: "repo \<Rightarrow> bool" where
  "bot_inv s \<longleftrightarrow> keyed (bot_proposals s) \<and> keyed (feedback s) \<and>
     (\<forall>k f rid. dict_get (feedback s) k = Some f \<longrightarrow> fb_run_id f = Some rid \<longrightarrow>
        (\<exists>r. dict_get (runs s) rid = Some r \<and> run_conversation_id r = fb_conversation_id f \<and>
           row_tenant r = row_tenant f))"

definition unused_bot :: "string \<Rightarrow> repo \<Rightarrow> bool" where
  "unused_bot k s \<longleftrightarrow> dict_get (bot_proposals s) k = None"

definition unused_feedback :: "string \<Rightarrow> repo \<Rightarrow> bool" where
  "unused_feedback k s \<longleftrightarrow> dict_get (feedback s) k = None"

lemma bot_inv_init: "bot_inv init_repo"
  by (simp add: bot_inv_def init_repo_def)

lemma create_bot_proposal_inv:
  "bot_inv s \<Longrightarrow> bot_inv (snd (create_bot_proposal now uuid auth p s))"
  by (auto simp: create_bot_proposal_def Let_def bot_inv_def)

lemma mark_bot_proposal_started_inv:
  assumes "bot_inv s"
  shows "bot_inv (snd (mark_bot_proposal_started now auth pid rtid s))"
proof -
  have k: "keyed (bot_proposals s)" using assms by (simp add: bot_inv_def)
  show ?thesis
    using assms keyed_id [OF k]
    by (auto simp: mark_bot_proposal_started_def Let_def bot_inv_def split: option.split)
qed

lemma create_feedback_cases:
  obtains (refused) "create_feedback now uuid auth cid rt co ca rid mid aid s = (None, s)"
  | (stored) c f where "dict_get (conversations s) cid = Some c" "is_authorized auth c"
      "\<not> feedback_run_refused auth cid rid (get_if_key (runs s) rid)"
      "\<not> feedback_message_refused auth mid (log_of (messages s) cid)"
      "\<not> feedback_artifact_refused auth cid aid (get_if_key (artifacts s) aid)"
      "rec_id f = opaque_id ''fb'' uuid" "row_tenant f = auth_tenant auth"
      "fb_conversation_id f = cid" "fb_run_id f = rid" "fb_message_id f = mid" "fb_artifact_id f = aid"
      "create_feedback now uuid auth cid rt co ca rid mid aid s =
         (Some f, s\<lparr>feedback := dict_set (rec_id f) f (feedback s)\<rparr>)"
proof (cases "\<exists>c. dict_get (conversations s) cid = Some c \<and> is_authorized auth c \<and>
      \<not> feedback_run_refused auth cid rid (get_if_key (runs s) rid) \<and>
      \<not> feedback_message_refused auth mid (log_of (messages s) cid) \<and>
      \<not> feedback_artifact_refused auth cid aid (get_if_key (artifacts s) aid)")
  case False
  then show ?thesis
    by (intro refused) (auto simp: create_feedback_def Let_def split: option.split)
next
  case True
  then obtain c where c: "dict_get (conversations s) cid = Some c" "is_authorized auth c"
      "\<not> feedback_run_refused auth cid rid (get_if_key (runs s) rid)"
      "\<not> feedback_message_refused auth mid (log_of (messages s) cid)"
      "\<not> feedback_artifact_refused auth cid aid (get_if_key (artifacts s) aid)" by blast
  have "\<exists>f. create_feedback now uuid auth cid rt co ca rid mid aid s =
        (Some f, s\<lparr>feedback := dict_set (rec_id f) f (feedback s)\<rparr>) \<and>
      rec_id f = opaque_id ''fb'' uuid \<and> row_tenant f = auth_tenant auth \<and>
      fb_conversation_id f = cid \<and> fb_run_id f = rid \<and> fb_message_id f = mid \<and> fb_artifact_id f = aid"
    by (simp add: create_feedback_def Let_def c row_tenant_def auth_tenant_def)
  then show ?thesis using stored [OF c] by blast
qed

lemma feedback_run_accepted:
  assumes "\<not> feedback_run_refused auth cid (Some rid) (get_if_key d (Some rid))"
  shows "\<exists>r. dict_get d rid = Some r \<and> run_conversation_id r = cid \<and> row_tenant r = auth_tenant auth"
  using assms
  by (auto simp: feedback_run_refused_def get_if_key_def is_authorized_tenant
      split: option.splits if_splits)

lemma create_feedback_inv:
  assumes "bot_inv s"
  shows "bot_inv (snd (create_feedback now uuid auth cid rt co ca rid mid aid s))"
proof (cases rule: create_feedback_cases [of now uuid auth cid rt co ca rid mid aid s])
  case (stored c f)
  then show ?thesis
    using assms feedback_run_accepted [of auth cid _ "runs s"]
    by (auto simp: bot_inv_def split: if_splits)
qed (use assms in simp)

section \<open>Isolation\<close>

definition bot_view :: "tenant \<Rightarrow> repo \<Rightarrow> bot_proposal dict \<times> feedback_record dict" where
  "bot_view t s = (tenant_rows t (bot_proposals s), tenant_rows t (feedback s))"

lemma create_bot_proposal_isolated:
  assumes "unused_bot (opaque_id ''botp'' uuid) s" "auth_tenant auth \<noteq> t"
  shows "bot_view t (snd (create_bot_proposal now uuid auth p s)) = bot_view t s"
  using assms
  by (auto simp: create_bot_proposal_def Let_def bot_view_def unused_bot_def row_tenant_def
      auth_tenant_def intro!: tenant_rows_set_other)

lemma mark_bot_proposal_started_isolated:
  assumes "auth_tenant auth \<noteq> t"
  shows "bot_view t (snd (mark_bot_proposal_started now auth pid rtid s)) = bot_view t s"
  using assms
  by (auto simp: mark_bot_proposal_started_def Let_def bot_view_def row_tenant_def auth_tenant_def
      split: option.split intro!: tenant_rows_set_other)

lemma create_feedback_isolated:
  assumes "unused_feedback (opaque_id ''fb'' uuid) s" "auth_tenant auth \<noteq> t"
  shows "bot_view t (snd (create_feedback now uuid auth cid rt co ca rid mid aid s)) = bot_view t s"
proof (cases rule: create_feedback_cases [of now uuid auth cid rt co ca rid mid aid s])
  case (stored c f)
  then show ?thesis
    using assms by (auto simp: bot_view_def unused_feedback_def intro!: tenant_rows_set_other)
qed simp

end
