(* ===== verification/Streams.thy ===== *)
theory Streams
  imports Nautilus
begin

text \<open>
  Market-data subscriptions and the names of their streams (\<open>nautilus_streams.py\<close>), and how the
  repository normalises the subscriptions of its runtimes
  (\<open>normalize_market_data_subscription_payloads\<close>,
  \<open>list_active_nautilus_market_data_subscriptions\<close>).

  \<open>str(v)\<close> of a JSON value that is a float, a list or an object is the parameter \<open>repr_of\<close>.
\<close>

section \<open>Subscriptions\<close>

record md_subscription =
  md_venue :: string
  md_symbol :: string
  md_data_type :: string
  md_timeframe :: "string option"

definition subscription_from_payload :: "(json \<Rightarrow> string) \<Rightarrow> payload \<Rightarrow> md_subscription" where
  "subscription_from_payload repr_of p =
     (let data_type = py_lower (py_str repr_of
            (json_or (jget p ''data_type'') (json_or (jget p ''type'') (JStr ''bar''))));
          timeframe = py_str repr_of (json_or (jget p ''timeframe'') (JStr []));
          data_type = (if data_type = ''bars'' then ''bar'' else data_type);
          data_type = (if data_type = ''ticks'' then ''tick'' else data_type)
      in \<lparr>md_venue = py_upper (py_str repr_of (json_or (jget p ''venue'') (JStr []))),
          md_symbol = py_upper (py_str repr_of (json_or (jget p ''symbol'') (JStr []))),
          md_data_type = data_type,
          md_timeframe = (if timeframe = [] then None else Some timeframe)\<rparr>)"

definition market_data_stream_key ::
  "string \<Rightarrow> string \<Rightarrow> string \<Rightarrow> string option \<Rightarrow> py_error + string" where
  "market_data_stream_key venue symbol data_type timeframe =
     (let normalized_type = py_lower data_type;
          normalized_venue = py_upper venue;
          normalized_symbol = py_upper symbol
      in if normalized_type = ''tick''
         then Inr (''md:'' @ normalized_venue @ '':'' @ normalized_symbol @ '':ticks'')
         else if normalized_type = ''bar''
         then (case timeframe of
                 None \<Rightarrow> Inl (ValueError ''bar streams require timeframe'')
               | Some tf \<Rightarrow>
                   if tf = [] then Inl (ValueError ''bar streams require timeframe'')
                   else Inr (''md:'' @ normalized_venue @ '':'' @ normalized_symbol @ '':'' @ tf @ '':bars''))
         else Inl (ValueError (''unsupported market-data stream type: '' @ data_type)))"

definition stream_key :: "md_subscription \<Rightarrow> py_error + string" where
  "stream_key sub =
     (if md_data_type sub = ''tick''
      then market_data_stream_key (md_venue sub) (md_symbol sub) ''tick'' None
      else case md_timeframe sub of
          None \<Rightarrow> Inl (ValueError ''bar subscriptions require timeframe'')
        | Some tf \<Rightarrow>
            if tf = [] then Inl (ValueError ''bar subscriptions require timeframe'')
            else market_data_stream_key (md_venue sub) (md_symbol sub) ''bar'' (Some tf))"

definition runtime_command_stream_key :: "string \<Rightarrow> string" where
  "runtime_command_stream_key runtime_id = ''nrt:'' @ runtime_id @ '':commands''"

text \<open>\<open>streams.setdefault(key, "0-0")\<close> for each subscription; the first that has no key raises.\<close>

fun runtime_market_streams ::
  "(json \<Rightarrow> string) \<Rightarrow> payload list \<Rightarrow> string dict \<Rightarrow> py_error + string dict" where
  "runtime_market_streams repr_of [] streams = Inr streams"
| "runtime_market_streams repr_of (p # ps) streams =
     (case stream_key (subscription_from_payload repr_of p) of
        Inl e \<Rightarrow> Inl e
      | Inr key \<Rightarrow> runtime_market_streams repr_of ps
          (case dict_get streams key of None \<Rightarrow> dict_set key ''0-0'' streams | Some _ \<Rightarrow> streams))"

section \<open>Normalising\<close>

definition bounded_market_data_subscription_limit :: "int option \<Rightarrow> int" where
  "bounded_market_data_subscription_limit limit =
     (case limit of None \<Rightarrow> 5000 | Some n \<Rightarrow> min 5000 (max 1 n))"

type_synonym subscription_key = "string \<times> string \<times> string \<times> string"

definition subscription_key_of :: "md_subscription \<Rightarrow> subscription_key" where
  "subscription_key_of sub =
     (md_venue sub, md_symbol sub, md_data_type sub, or_str (md_timeframe sub) [])"

definition subscription_item :: "md_subscription \<Rightarrow> payload" where
  "subscription_item sub =
     [(''venue'', JStr (md_venue sub)), (''symbol'', JStr (md_symbol sub)),
      (''data_type'', JStr (md_data_type sub))] @
     (case md_timeframe sub of
        None \<Rightarrow> []
      | Some tf \<Rightarrow> if tf = [] then [] else [(''timeframe'', JStr tf)])"

text \<open>The loop, with the keys seen and the items so far; it breaks when the limit is reached.\<close>

fun normalize_loop ::
  "(json \<Rightarrow> string) \<Rightarrow> int \<Rightarrow> json list \<Rightarrow> subscription_key list \<Rightarrow> payload list \<Rightarrow> payload list" where
  "normalize_loop repr_of n [] seen acc = acc"
| "normalize_loop repr_of n (v # vs) seen acc =
     (case v of
        JObj p \<Rightarrow>
          let sub = subscription_from_payload repr_of p
          in (case stream_key sub of
                Inl _ \<Rightarrow> normalize_loop repr_of n vs seen acc
              | Inr _ \<Rightarrow>
                  if subscription_key_of sub \<in> set seen then normalize_loop repr_of n vs seen acc
                  else
                    let acc' = acc @ [subscription_item sub]
                    in if int (length acc') \<ge> n then acc'
                       else normalize_loop repr_of n vs (seen @ [subscription_key_of sub]) acc')
      | _ \<Rightarrow> normalize_loop repr_of n vs seen acc)"

definition normalize_market_data_subscription_payloads ::
  "(json \<Rightarrow> string) \<Rightarrow> int option \<Rightarrow> json list \<Rightarrow> payload list" where
  "normalize_market_data_subscription_payloads repr_of limit payloads =
     normalize_loop repr_of (bounded_market_data_subscription_limit limit) payloads [] []"

definition list_active_nautilus_market_data_subscriptions ::
  "(json \<Rightarrow> string) \<Rightarrow> string \<Rightarrow> string \<Rightarrow> int option \<Rightarrow> repo \<Rightarrow> payload list" where
  "list_active_nautilus_market_data_subscriptions repr_of mode desired_state limit s =
     normalize_market_data_subscription_payloads repr_of limit
       (concat (map nrt_data_subscriptions
         (filter (runtime_wanted mode desired_state) (dict_values (nautilus_runtimes s)))))"

section \<open>What the loop computes\<close>

text \<open>The valid subscriptions of a payload list, and the first of each key.\<close>

definition valid_subscriptions :: "(json \<Rightarrow> string) \<Rightarrow> json list \<Rightarrow> md_subscription list" where
  "valid_subscriptions repr_of vs =
     filter (\<lambda>sub. \<not> isl (stream_key sub))
       (concat (map (\<lambda>v. case v of JObj p \<Rightarrow> [subscription_from_payload repr_of p] | _ \<Rightarrow> []) vs))"

fun first_by :: "('a \<Rightarrow> 'k) \<Rightarrow> 'k list \<Rightarrow> 'a list \<Rightarrow> 'a list" where
  "first_by f seen [] = []"
| "first_by f seen (x # xs) =
     (if f x \<in> set seen then first_by f seen xs else x # first_by f (seen @ [f x]) xs)"

lemma first_by_unseen: "x \<in> set (first_by f seen xs) \<Longrightarrow> f x \<notin> set seen \<and> x \<in> set xs"
proof (induction xs arbitrary: seen)
  case (Cons y ys)
  then show ?case
    using Cons.IH [of seen] Cons.IH [of "seen @ [f y]"] by (auto split: if_splits)
qed simp

lemma first_by_distinct: "distinct (map f (first_by f seen xs))"
proof (induction xs arbitrary: seen)
  case (Cons y ys)
  have "f y \<notin> f ` set (first_by f (seen @ [f y]) ys)"
    using first_by_unseen [of _ f "seen @ [f y]" ys] by fastforce
  with Cons show ?case by simp
qed simp

lemma first_by_covers: "y \<in> set xs \<Longrightarrow> f y \<in> set seen \<or> f y \<in> f ` set (first_by f seen xs)"
proof (induction xs arbitrary: seen)
  case (Cons z zs)
  then show ?case using Cons.IH [of seen] Cons.IH [of "seen @ [f z]"] by auto
qed simp

lemma first_by_id:
  "distinct (map f xs) \<Longrightarrow> (\<And>x. x \<in> set xs \<Longrightarrow> f x \<notin> set seen) \<Longrightarrow> first_by f seen xs = xs"
proof (induction xs arbitrary: seen)
  case (Cons y ys)
  have "first_by f (seen @ [f y]) ys = ys"
  proof (rule Cons.IH)
    show "distinct (map f ys)" using Cons.prems(1) by simp
    fix x assume x: "x \<in> set ys"
    have "f x \<in> f ` set ys" using x by (rule imageI)
    with Cons.prems(1) have "f x \<noteq> f y" by auto
    moreover have "f x \<notin> set seen" using Cons.prems(2) [of x] x by simp
    ultimately show "f x \<notin> set (seen @ [f y])" by simp
  qed
  with Cons.prems show ?case by simp
qed simp

lemma normalize_loop_eq:
  assumes "int (length acc) < n"
  shows "normalize_loop repr_of n vs seen acc =
    acc @ map subscription_item
      (take (nat n - length acc) (first_by subscription_key_of seen (valid_subscriptions repr_of vs)))"
  using assms
proof (induction vs arbitrary: seen acc)
  case Nil
  show ?case by (simp add: valid_subscriptions_def)
next
  case (Cons v vs)
  show ?case
  proof (cases "\<exists>p. v = JObj p \<and> \<not> isl (stream_key (subscription_from_payload repr_of p))")
    case False
    then have "valid_subscriptions repr_of (v # vs) = valid_subscriptions repr_of vs"
      by (auto simp: valid_subscriptions_def split: json.split)
    moreover have "normalize_loop repr_of n (v # vs) seen acc = normalize_loop repr_of n vs seen acc"
      using False by (auto simp: Let_def split: json.split sum.split)
    ultimately show ?thesis using Cons by simp
  next
    case True
    then obtain p where p: "v = JObj p" "\<not> isl (stream_key (subscription_from_payload repr_of p))"
      by blast
    let ?sub = "subscription_from_payload repr_of p"
    obtain k where k: "stream_key ?sub = Inr k" using p(2) by (cases "stream_key ?sub") auto
    have valid: "valid_subscriptions repr_of (v # vs) = ?sub # valid_subscriptions repr_of vs"
      using p by (simp add: valid_subscriptions_def)
    show ?thesis
    proof (cases "subscription_key_of ?sub \<in> set seen")
      case True
      then show ?thesis using Cons by (simp add: p(1) k valid [unfolded p(1)] Let_def)
    next
      case new: False
      let ?acc = "acc @ [subscription_item ?sub]"
      obtain m where m: "nat n - length acc = Suc m" using Cons.prems by (cases "nat n - length acc") auto
      show ?thesis
      proof (cases "int (length ?acc) \<ge> n")
        case True
        then have "m = 0" using m Cons.prems by simp
        then show ?thesis
          using new True m by (simp add: p(1) k valid [unfolded p(1)] Let_def)
      next
        case False
        have "nat n - length ?acc = m" using m by simp
        with False show ?thesis
          using new m Cons.IH [of ?acc "seen @ [subscription_key_of ?sub]"]
          by (simp add: p(1) k valid [unfolded p(1)] Let_def)
      qed
    qed
  qed
qed

lemma limit_range: "1 \<le> bounded_market_data_subscription_limit l"
  "bounded_market_data_subscription_limit l \<le> 5000"
  by (auto simp: bounded_market_data_subscription_limit_def split: option.split)

lemma normalize_eq:
  "normalize_market_data_subscription_payloads repr_of limit vs =
     map subscription_item (take (nat (bounded_market_data_subscription_limit limit))
       (first_by subscription_key_of [] (valid_subscriptions repr_of vs)))"
  using limit_range(1) [of limit]
  by (simp add: normalize_market_data_subscription_payloads_def normalize_loop_eq)

section \<open>Reading a normalised item back\<close>

lemma of_char_lt_256: "(of_char c :: nat) < 256"
  by (metis of_char_mod_256 mod_less_divisor zero_less_numeral)

lemma upper_char_idem: "py_upper (upper_char c) = upper_char c"
proof -
  define n :: nat where "n = of_char c"
  have n: "n < 256" by (simp add: n_def of_char_lt_256)
  have oc: "(of_char (char_of (n - 32) :: char) :: nat) = n - 32" using n by simp
  consider "(97 \<le> n \<and> n \<le> 122) \<or> (224 \<le> n \<and> n \<le> 254 \<and> n \<noteq> 247)" | "n = 223"
    | "\<not> ((97 \<le> n \<and> n \<le> 122) \<or> (224 \<le> n \<and> n \<le> 254 \<and> n \<noteq> 247))" "n \<noteq> 223" by blast
  then show ?thesis
  proof cases
    case 1
    then have "upper_char c = [char_of (n - 32)]"
      by (auto simp: upper_char_def n_def [symmetric])
    moreover have "upper_char (char_of (n - 32)) = [char_of (n - 32)]"
      using 1 by (auto simp: upper_char_def oc Let_def)
    ultimately show ?thesis by (simp add: py_upper_def)
  next
    case 2
    then have "upper_char c = ''SS''" by (simp add: upper_char_def n_def [symmetric])
    then show ?thesis by (simp add: py_upper_def upper_char_def)
  next
    case 3
    then have "upper_char c = [c]" by (auto simp: upper_char_def n_def [symmetric])
    then show ?thesis by (simp add: py_upper_def)
  qed
qed

lemma py_upper_idem [simp]: "py_upper (py_upper s) = py_upper s"
proof (induction s)
  case (Cons c s)
  have app: "py_upper (x @ y) = py_upper x @ py_upper y" for x y by (simp add: py_upper_def)
  have "py_upper (c # s) = upper_char c @ py_upper s" by (simp add: py_upper_def)
  then show ?case using Cons by (simp add: app upper_char_idem)
qed (simp add: py_upper_def)

lemma lower_char_idem [simp]: "lower_char (lower_char c) = lower_char c"
proof -
  define n :: nat where "n = of_char c"
  have n: "n < 256" by (simp add: n_def of_char_lt_256)
  show ?thesis
  proof (cases "(65 \<le> n \<and> n \<le> 90) \<or> (192 \<le> n \<and> n \<le> 222 \<and> n \<noteq> 215)")
    case True
    then have "lower_char c = char_of (n + 32)" by (simp add: lower_char_def n_def [symmetric])
    moreover have "(of_char (char_of (n + 32) :: char) :: nat) = n + 32" using True by auto
    ultimately show ?thesis using True by (auto simp: lower_char_def Let_def)
  next
    case False
    then show ?thesis by (auto simp: lower_char_def n_def [symmetric] Let_def)
  qed
qed

lemma py_lower_idem [simp]: "py_lower (py_lower s) = py_lower s"
  by (simp add: py_lower_def)

text \<open>A subscription in the form that normalising gives it.\<close>

definition normal_subscription :: "md_subscription \<Rightarrow> bool" where
  "normal_subscription sub \<longleftrightarrow>
     py_upper (md_venue sub) = md_venue sub \<and> py_upper (md_symbol sub) = md_symbol sub \<and>
     py_lower (md_data_type sub) = md_data_type sub \<and> md_data_type sub \<notin> {[], ''bars'', ''ticks''} \<and>
     md_timeframe sub \<noteq> Some []"

lemma subscription_reread:
  assumes "normal_subscription sub"
  shows "subscription_from_payload repr_of (subscription_item sub) = sub"
  using assms
  by (cases sub; cases "md_timeframe sub")
    (auto simp: normal_subscription_def subscription_from_payload_def subscription_item_def jget_def
      json_or_def py_str_def py_upper_def Let_def split: if_splits)

lemma show_int_nonempty [simp]: "show_int i \<noteq> []"
  by (auto simp: show_int_def digits_of.simps)

lemma py_lower_Nil [simp]: "py_lower s = [] \<longleftrightarrow> s = []"
  by (simp add: py_lower_def)

lemma py_str_truthy:
  "\<forall>v. repr_of v \<noteq> [] \<Longrightarrow> json_truthy v \<Longrightarrow> py_str repr_of v \<noteq> []"
  by (cases v) (auto simp: py_str_def)

lemma subscription_normal:
  assumes "\<forall>v. repr_of v \<noteq> []"
  shows "normal_subscription (subscription_from_payload repr_of p)"
proof -
  let ?raw = "json_or (jget p ''data_type'') (json_or (jget p ''type'') (JStr ''bar''))"
  have "json_truthy ?raw" by (auto simp: json_or_def)
  then have "py_lower (py_str repr_of ?raw) \<noteq> []" using py_str_truthy [OF assms] by simp
  then show ?thesis
    by (auto simp: normal_subscription_def subscription_from_payload_def Let_def)
      (simp_all add: py_lower_def lower_char_def)
qed

lemma valid_subscriptions_normal:
  "\<forall>v. repr_of v \<noteq> [] \<Longrightarrow> sub \<in> set (valid_subscriptions repr_of vs) \<Longrightarrow>
   normal_subscription sub \<and> \<not> isl (stream_key sub)"
  using subscription_normal
  by (auto simp: valid_subscriptions_def split: json.splits)

lemma valid_subscriptions_items:
  assumes "\<And>sub. sub \<in> set subs \<Longrightarrow> normal_subscription sub \<and> \<not> isl (stream_key sub)"
  shows "valid_subscriptions repr_of (map (\<lambda>sub. JObj (subscription_item sub)) subs) = subs"
  using assms
  by (induction subs) (auto simp: valid_subscriptions_def subscription_reread)

lemma subscription_key_inj:
  "normal_subscription a \<Longrightarrow> normal_subscription b \<Longrightarrow> subscription_key_of a = subscription_key_of b \<Longrightarrow>
   a = b"
  by (cases a; cases b)
    (auto simp: normal_subscription_def subscription_key_of_def or_str_def split: option.splits if_splits)

section \<open>Properties\<close>

text \<open>
  Normalising the subscriptions of the runtimes is idempotent: what it returns, normalised
  again, is what it returned; there are at most 5000 of them; and unless the limit was reached,
  every payload that names a stream is represented, by its own venue, symbol, type and timeframe.
\<close>

theorem normalize_subscriptions:
  assumes "\<forall>v. repr_of v \<noteq> []"
    and "normalize_market_data_subscription_payloads repr_of limit vs = items"
  shows "normalize_market_data_subscription_payloads repr_of limit (map JObj items) = items \<and>
    length items \<le> 5000 \<and>
    (int (length items) < bounded_market_data_subscription_limit limit \<longrightarrow>
      (\<forall>p. JObj p \<in> set vs \<longrightarrow> \<not> isl (stream_key (subscription_from_payload repr_of p)) \<longrightarrow>
         subscription_item (subscription_from_payload repr_of p) \<in> set items))"
proof -
  let ?n = "nat (bounded_market_data_subscription_limit limit)"
  let ?all = "first_by subscription_key_of [] (valid_subscriptions repr_of vs)"
  let ?subs = "take ?n ?all"
  have items: "items = map subscription_item ?subs"
    using assms(2) by (simp add: normalize_eq)
  have normal: "normal_subscription sub \<and> \<not> isl (stream_key sub)" if "sub \<in> set ?all" for sub
    using valid_subscriptions_normal [OF assms(1)] first_by_unseen [OF that] by blast
  have "valid_subscriptions repr_of (map (\<lambda>sub. JObj (subscription_item sub)) ?subs) = ?subs"
    by (rule valid_subscriptions_items) (blast dest: in_set_takeD normal)
  then have "valid_subscriptions repr_of (map JObj items) = ?subs"
    by (simp add: items o_def)
  moreover have "first_by subscription_key_of [] ?subs = ?subs"
    using first_by_distinct [of subscription_key_of "[]" "valid_subscriptions repr_of vs"]
    by (intro first_by_id) (simp_all add: distinct_take take_map [symmetric])
  ultimately have "normalize_market_data_subscription_payloads repr_of limit (map JObj items) = items"
    by (simp add: normalize_eq items)
  moreover have "length items \<le> 5000"
  proof -
    have "length items \<le> ?n" by (simp add: items)
    then show ?thesis using limit_range(2) [of limit] by linarith
  qed
  moreover have "subscription_item (subscription_from_payload repr_of p) \<in> set items"
    if short: "int (length items) < bounded_market_data_subscription_limit limit"
      and p: "JObj p \<in> set vs" "\<not> isl (stream_key (subscription_from_payload repr_of p))" for p
  proof -
    let ?sub = "subscription_from_payload repr_of p"
    have "?subs = ?all" using short by (simp add: items)
    have v: "?sub \<in> set (valid_subscriptions repr_of vs)"
      using p by (force simp: valid_subscriptions_def)
    then obtain x where x: "x \<in> set ?all" "subscription_key_of x = subscription_key_of ?sub"
      using first_by_covers [of ?sub "valid_subscriptions repr_of vs" subscription_key_of "[]"] by auto
    then have "x = ?sub"
      using subscription_key_inj normal [OF x(1)] subscription_normal [OF assms(1)] by blast
    with x(1) show ?thesis by (simp add: items \<open>?subs = ?all\<close>)
  qed
  ultimately show ?thesis by blast
qed

theorem normalize_subscriptions_witness:
  "normalize_market_data_subscription_payloads (\<lambda>_. ''[]'') None
     (map JObj (normalize_market_data_subscription_payloads (\<lambda>_. ''[]'') None
       [JObj [(''venue'', JStr ''okx''), (''symbol'', JStr ''btc''), (''type'', JStr ''Ticks'')], JNull])) =
   [[(''venue'', JStr ''OKX''), (''symbol'', JStr ''BTC''), (''data_type'', JStr ''tick'')]]"
proof -
  let ?vs = "[JObj [(''venue'', JStr ''okx''), (''symbol'', JStr ''btc''), (''type'', JStr ''Ticks'')], JNull]"
  have run: "normalize_market_data_subscription_payloads (\<lambda>_. ''[]'') None ?vs =
      [[(''venue'', JStr ''OKX''), (''symbol'', JStr ''BTC''), (''data_type'', JStr ''tick'')]]"
    by code_simp
  show ?thesis
    using normalize_subscriptions [OF _ run] by (simp add: run)
qed

end
