(* ===== verification/Calls.thy ===== *)
theory Calls
  imports Nautilus_Events Task_Claims Snapshot Bots Streams
begin

text \<open>
  The interface of the repository (\<open>ConversationRepository\<close>, a \<open>Protocol\<close>): one constructor per
  method, grouped as the protocol groups them, the answers they give, and the in-memory
  repository as an interpreter of the calls.  A call of a request comes with the identity of its
  caller; the calls of background workers have none.

  \<open>env\<close> is what a call takes from outside: the clock, the UUIDs it draws, and the text of a float
  or container value.  A method that draws one UUID takes \<open>env_draw 0\<close>.
\<close>

record env =
  env_now :: datetime
  env_draw :: "nat \<Rightarrow> string"
  env_repr :: "json \<Rightarrow> string"

section \<open>Calls\<close>

datatype conversation_call =
    Create_conversation "string option"
  | List_conversations
  | List_conversation_sidebar
  | Get_conversation string
  | Update_conversation_title string string
  | Delete_conversation string
  | Create_message string string string
  | List_messages string
  | List_messages_for_context string "int option"
  | Get_conversation_memory string
  | Upsert_conversation_memory string string "string option" int
  | Get_conversation_state_snapshot string int "int option"

datatype run_call =
    Create_run string string "string option" "string option" "string option" "string option"
  | List_runs string
  | Get_run string
  | Create_run_job string string payload int
  | Cancel_run_jobs string "string list" "payload option" "string option"
  | Append_run_event string string "payload option"
  | Append_run_events string "(string \<times> payload option) list"
  | List_run_events string
  | List_run_events_after string "string option"
  | Summarize_run_events string
  | Get_run_progress_snapshot string
  | Set_run_status string string

datatype task_call =
    List_workflow_task_continuation_events string
  | Upsert_workflow_task string string string string string string payload "string option"
  | Sync_workflow_tasks string "string option" string "payload list" "string list"
  | List_workflow_tasks string
  | Get_workflow_task string
  | Submit_workflow_task_response string payload string
  | Resolve_workflow_task string string "payload option"

datatype output_call =
    Create_strategy_spec string payload string
  | Create_artifact string artifact_input
  | Create_artifacts string "artifact_input list"
  | List_artifacts string
  | Get_artifact string
  | Get_latest_conversation_artifact string "string list" "datetime option"
  | List_workspace_artifacts_page "int option" "(datetime \<times> string) option" visibility
  | List_conversation_artifacts_page string "int option" "(datetime \<times> string) option" visibility
  | Get_backtest_summary string
  | Get_backtest_summaries "string list"
  | Resolve_backtest_report_run_id string string
  | Query_backtest_trades string
  | Get_backtest_equity_summary string
  | Get_backtest_equity_summaries "string list"
  | Create_validation_report string string payload
  | Create_review_report string string payload
  | Create_tool_call string string string "payload option" "json list option"
  | Complete_tool_call string string "payload option" "json list option"
  | Create_policy_finding string string string string "string option"
  | Create_usage_ledger "string option" "string option" "string option" int int "rat option"
  | List_tool_calls string
  | List_policy_findings string
  | List_usage_ledger string
  | Summarize_account_usage
  | Get_strategy_spec_for_run string
  | Get_latest_strategy_spec_for_conversation string "datetime option"

datatype runtime_call =
    Upsert_nautilus_runtime string string string string string string payload "json list"
  | List_nautilus_runtimes "string option" "int option"
  | Get_nautilus_runtime string
  | Set_nautilus_runtime_state string string
  | Record_nautilus_runtime_heartbeat string "payload option" "string option"
  | Activate_nautilus_runtime_kill_switch string
  | Set_nautilus_runtime_desired_state string string
  | Append_nautilus_runtime_event string string "payload option" "string option"
  | List_nautilus_runtime_events string "int option" "int option"
  | Cleanup_nautilus_heartbeat_events string timedelta int

datatype bot_call =
    Create_bot_proposal bot_proposal_input
  | Get_bot_proposal string
  | Mark_bot_proposal_started string string
  | Create_feedback string string string "string option" "string option" "string option" "string option"

datatype tenant_call =
    Conversation_call conversation_call
  | Run_call run_call
  | Task_call task_call
  | Output_call output_call
  | Runtime_call runtime_call
  | Bot_call bot_call

datatype worker_call =
    Claim_run_job string string int
  | Complete_run_job string string "payload option" "string option"
  | Get_run_job string
  | Run_queue_stats "string option"
  | List_desired_nautilus_runtimes string string "string option" "int option"
  | List_active_nautilus_market_data_subscriptions string string "int option"
  | Claim_nautilus_runtime_lease string string int
  | Renew_nautilus_runtime_lease string string int
  | Release_nautilus_runtime_lease string string "string option" "payload option"
  | Persist_nautilus_runtime_stream_cursor string string payload
  | Append_nautilus_runtime_events_for_worker string string
      "(string \<times> payload option \<times> string option) list"

section \<open>Answers\<close>

datatype answer =
    A_conversation "conversation_record option"
  | A_conversations "conversation_record list"
  | A_sidebar "sidebar_record list"
  | A_message "py_error + message_record option"
  | A_messages "message_record list"
  | A_memory "memory_record option"
  | A_snapshot "conversation_state option"
  | A_run "run_record option"
  | A_runs "run_record list option"
  | A_job "job_record option"
  | A_count int
  | A_count_opt "int option"
  | A_stats queue_stats
  | A_event "run_event option"
  | A_events "run_event list option"
  | A_event_summary "run_event_summary option"
  | A_progress "run_progress_snapshot option"
  | A_task "task_record option"
  | A_tasks "task_record list option"
  | A_task_sync "task_sync_result option"
  | A_spec "strategy_spec_record option"
  | A_artifact "artifact_record option"
  | A_artifacts "artifact_record list option"
  | A_page "artifact_page option"
  | A_payload "payload option"
  | A_payloads "payload list option"
  | A_payload_dict "payload dict"
  | A_id "string option"
  | A_validation "validation_report_record option"
  | A_review "review_report_record option"
  | A_tool_call "tool_call_record option"
  | A_tool_calls "tool_call_record list option"
  | A_finding "policy_finding_record option"
  | A_findings "policy_finding_record list option"
  | A_usage_row "usage_record option"
  | A_usage_rows "usage_record list option"
  | A_account account_usage
  | A_runtime "nautilus_runtime option"
  | A_runtimes "nautilus_runtime list"
  | A_heartbeat "py_error + nautilus_heartbeat option"
  | A_runtime_event "nautilus_event option"
  | A_runtime_events "nautilus_event list option"
  | A_proposal "bot_proposal option"
  | A_feedback "feedback_record option"

abbreviation gives :: "('a \<Rightarrow> answer) \<Rightarrow> 'a \<times> repo \<Rightarrow> answer \<times> repo" where
  "gives f p \<equiv> map_prod f id p"

section \<open>The in-memory repository as an interpreter\<close>

fun exec_conversation :: "env \<Rightarrow> auth_context \<Rightarrow> conversation_call \<Rightarrow> repo \<Rightarrow> answer \<times> repo" where
  "exec_conversation e auth (Create_conversation title) s =
     gives (\<lambda>c. A_conversation (Some c)) (create_conversation (env_now e) (env_draw e 0) auth title s)"
| "exec_conversation e auth List_conversations s = (A_conversations (list_conversations auth s), s)"
| "exec_conversation e auth List_conversation_sidebar s = (A_sidebar (list_conversation_sidebar auth s), s)"
| "exec_conversation e auth (Get_conversation cid) s = (A_conversation (get_conversation auth cid s), s)"
| "exec_conversation e auth (Update_conversation_title cid title) s =
     gives A_conversation (update_conversation_title (env_now e) auth cid title s)"
| "exec_conversation e auth (Delete_conversation cid) s =
     gives A_conversation (delete_conversation auth cid s)"
| "exec_conversation e auth (Create_message cid content role) s =
     gives A_message (create_message (env_now e) (env_draw e 0) auth cid content role s)"
| "exec_conversation e auth (List_messages cid) s = (A_messages (list_messages auth cid s), s)"
| "exec_conversation e auth (List_messages_for_context cid limit) s =
     (A_messages (list_messages_for_context auth cid limit s), s)"
| "exec_conversation e auth (Get_conversation_memory cid) s =
     (A_memory (get_conversation_memory auth cid s), s)"
| "exec_conversation e auth (Upsert_conversation_memory cid summary covered tokens) s =
     gives A_memory (upsert_conversation_memory (env_now e) (env_draw e 0) auth cid summary covered tokens s)"
| "exec_conversation e auth (Get_conversation_state_snapshot cid el ml) s =
     (A_snapshot (get_conversation_state_snapshot auth cid el ml s), s)"

fun exec_run :: "env \<Rightarrow> auth_context \<Rightarrow> run_call \<Rightarrow> repo \<Rightarrow> answer \<times> repo" where
  "exec_run e auth (Create_run cid status mode retry rq tr) s =
     gives A_run (create_run (env_now e) (env_draw e 0) (env_draw e 1) (env_draw e 2) auth cid status
       mode retry rq tr s)"
| "exec_run e auth (List_runs cid) s = (A_runs (list_runs auth cid s), s)"
| "exec_run e auth (Get_run rid) s = (A_run (get_run auth rid s), s)"
| "exec_run e auth (Create_run_job rid ty p m) s =
     gives A_job (create_run_job (env_now e) (env_draw e 0) auth rid ty p m s)"
| "exec_run e auth (Cancel_run_jobs rid sts res err) s =
     gives A_count (cancel_run_jobs (env_now e) auth rid sts res err s)"
| "exec_run e auth (Append_run_event rid ty p) s =
     gives A_event (append_run_event (env_now e) (env_draw e) auth rid ty p s)"
| "exec_run e auth (Append_run_events rid evs) s =
     gives A_events (append_run_events (env_now e) (env_draw e) auth rid evs s)"
| "exec_run e auth (List_run_events rid) s = (A_events (list_run_events auth rid s), s)"
| "exec_run e auth (List_run_events_after rid seen) s =
     (A_events (list_run_events_after auth rid seen s), s)"
| "exec_run e auth (Summarize_run_events rid) s = (A_event_summary (summarize_run_events auth rid s), s)"
| "exec_run e auth (Get_run_progress_snapshot rid) s =
     (A_progress (get_run_progress_snapshot auth rid s), s)"
| "exec_run e auth (Set_run_status rid status) s =
     gives A_run (set_run_status (env_now e) auth rid status s)"

fun exec_task :: "env \<Rightarrow> auth_context \<Rightarrow> task_call \<Rightarrow> repo \<Rightarrow> answer \<times> repo" where
  "exec_task e auth (List_workflow_task_continuation_events tid) s =
     (A_events (list_workflow_task_continuation_events auth tid s), s)"
| "exec_task e auth (Upsert_workflow_task cid wid tm step kind status p rid) s =
     gives A_task (upsert_workflow_task (env_now e) (env_draw e 0) auth cid wid tm step kind status p rid s)"
| "exec_task e auth (Sync_workflow_tasks cid rid wid ps steps) s =
     gives A_task_sync (sync_workflow_tasks (env_now e) (env_draw e) auth cid rid wid ps steps s)"
| "exec_task e auth (List_workflow_tasks cid) s = (A_tasks (list_workflow_tasks auth cid s), s)"
| "exec_task e auth (Get_workflow_task tid) s = (A_task (get_workflow_task auth tid s), s)"
| "exec_task e auth (Submit_workflow_task_response tid resp status) s =
     gives A_task (submit_workflow_task_response (env_now e) auth tid resp status s)"
| "exec_task e auth (Resolve_workflow_task tid status resp) s =
     gives A_task (resolve_workflow_task (env_now e) auth tid status resp s)"

fun exec_output :: "env \<Rightarrow> auth_context \<Rightarrow> output_call \<Rightarrow> repo \<Rightarrow> answer \<times> repo" where
  "exec_output e auth (Create_strategy_spec rid p v) s =
     gives A_spec (create_strategy_spec (env_now e) (env_draw e 0) auth rid p v s)"
| "exec_output e auth (Create_artifact rid i) s =
     gives A_artifact (create_artifact (env_now e) (env_draw e 0) auth rid i s)"
| "exec_output e auth (Create_artifacts rid is) s =
     gives A_artifacts (create_artifacts (env_now e) (env_draw e) auth rid is s)"
| "exec_output e auth (List_artifacts rid) s = (A_artifacts (list_artifacts auth rid s), s)"
| "exec_output e auth (Get_artifact aid) s = (A_artifact (get_artifact auth aid s), s)"
| "exec_output e auth (Get_latest_conversation_artifact cid kinds before) s =
     (A_artifact (get_latest_conversation_artifact auth cid kinds before s), s)"
| "exec_output e auth (List_workspace_artifacts_page limit cursor vis) s =
     (A_page (Some (list_workspace_artifacts_page auth limit cursor vis s)), s)"
| "exec_output e auth (List_conversation_artifacts_page cid limit cursor vis) s =
     (A_page (list_conversation_artifacts_page auth cid limit cursor vis s), s)"
| "exec_output e auth (Get_backtest_summary rid) s = (A_payload (get_backtest_summary auth rid s), s)"
| "exec_output e auth (Get_backtest_summaries rids) s =
     (A_payload_dict (get_backtest_summaries auth rids s), s)"
| "exec_output e auth (Resolve_backtest_report_run_id cid rid) s =
     (A_id (resolve_backtest_report_run_id auth cid rid s), s)"
| "exec_output e auth (Query_backtest_trades rid) s = (A_payloads (query_backtest_trades auth rid s), s)"
| "exec_output e auth (Get_backtest_equity_summary rid) s =
     (A_payload (get_backtest_equity_summary auth rid s), s)"
| "exec_output e auth (Get_backtest_equity_summaries rids) s =
     (A_payload_dict (get_backtest_equity_summaries auth rids s), s)"
| "exec_output e auth (Create_validation_report rid status p) s =
     gives A_validation (create_validation_report (env_now e) (env_draw e 0) auth rid status p s)"
| "exec_output e auth (Create_review_report rid decision p) s =
     gives A_review (create_review_report (env_now e) (env_draw e 0) auth rid decision p s)"
| "exec_output e auth (Create_tool_call rid tid status i pf) s =
     gives A_tool_call (create_tool_call (env_now e) (env_draw e 0) auth rid tid status i pf s)"
| "exec_output e auth (Complete_tool_call tcid status out pf) s =
     gives A_tool_call (complete_tool_call (env_now e) auth tcid status out pf s)"
| "exec_output e auth (Create_policy_finding rid sev code msg tcid) s =
     gives A_finding (create_policy_finding (env_now e) (env_draw e 0) auth rid sev code msg tcid s)"
| "exec_output e auth (Create_usage_ledger rid m tid it ot c) s =
     gives A_usage_row (create_usage_ledger (env_now e) (env_draw e 0) auth rid m tid it ot c s)"
| "exec_output e auth (List_tool_calls rid) s = (A_tool_calls (list_tool_calls auth rid s), s)"
| "exec_output e auth (List_policy_findings rid) s = (A_findings (list_policy_findings auth rid s), s)"
| "exec_output e auth (List_usage_ledger rid) s = (A_usage_rows (list_usage_ledger auth rid s), s)"
| "exec_output e auth Summarize_account_usage s = (A_account (summarize_account_usage auth s), s)"
| "exec_output e auth (Get_strategy_spec_for_run rid) s = (A_spec (get_strategy_spec_for_run auth rid s), s)"
| "exec_output e auth (Get_latest_strategy_spec_for_conversation cid before) s =
     (A_spec (get_latest_strategy_spec_for_conversation auth cid before s), s)"

fun exec_runtime :: "env \<Rightarrow> auth_context \<Rightarrow> runtime_call \<Rightarrow> repo \<Rightarrow> answer \<times> repo" where
  "exec_runtime e auth (Upsert_nautilus_runtime rk br ac md rp sid mf sub) s =
     gives (\<lambda>r. A_runtime (Some r))
       (upsert_nautilus_runtime (env_now e) (env_draw e 0) auth rk br ac md rp sid mf sub s)"
| "exec_runtime e auth (List_nautilus_runtimes mode limit) s =
     (A_runtimes (list_nautilus_runtimes auth mode limit s), s)"
| "exec_runtime e auth (Get_nautilus_runtime nid) s = (A_runtime (get_nautilus_runtime auth nid s), s)"
| "exec_runtime e auth (Set_nautilus_runtime_state nid state) s =
     gives A_runtime (set_nautilus_runtime_state (env_now e) auth nid state s)"
| "exec_runtime e auth (Record_nautilus_runtime_heartbeat nid p idem) s =
     gives A_heartbeat (record_nautilus_runtime_heartbeat (env_now e) (env_draw e 0) auth nid p idem s)"
| "exec_runtime e auth (Activate_nautilus_runtime_kill_switch nid) s =
     gives A_runtime (activate_nautilus_runtime_kill_switch (env_now e) auth nid s)"
| "exec_runtime e auth (Set_nautilus_runtime_desired_state nid ds) s =
     gives A_runtime (set_nautilus_runtime_desired_state (env_now e) auth nid ds s)"
| "exec_runtime e auth (Append_nautilus_runtime_event nid ty p idem) s =
     gives A_runtime_event (append_nautilus_runtime_event (env_now e) (env_draw e 0) auth nid ty p idem s)"
| "exec_runtime e auth (List_nautilus_runtime_events nid limit after) s =
     (A_runtime_events (list_nautilus_runtime_events auth nid limit after s), s)"
| "exec_runtime e auth (Cleanup_nautilus_heartbeat_events nid age m) s =
     gives A_count_opt (cleanup_nautilus_heartbeat_events (env_now e) auth nid age m s)"

fun exec_bot :: "env \<Rightarrow> auth_context \<Rightarrow> bot_call \<Rightarrow> repo \<Rightarrow> answer \<times> repo" where
  "exec_bot e auth (Create_bot_proposal p) s =
     gives (\<lambda>b. A_proposal (Some b)) (create_bot_proposal (env_now e) (env_draw e 0) auth p s)"
| "exec_bot e auth (Get_bot_proposal pid) s = (A_proposal (get_bot_proposal auth pid s), s)"
| "exec_bot e auth (Mark_bot_proposal_started pid rtid) s =
     gives A_proposal (mark_bot_proposal_started (env_now e) auth pid rtid s)"
| "exec_bot e auth (Create_feedback cid rating correction category rid mid aid) s =
     gives A_feedback (create_feedback (env_now e) (env_draw e 0) auth cid rating correction category rid mid aid s)"

fun exec :: "env \<Rightarrow> auth_context \<Rightarrow> tenant_call \<Rightarrow> repo \<Rightarrow> answer \<times> repo" where
  "exec e auth (Conversation_call c) s = exec_conversation e auth c s"
| "exec e auth (Run_call c) s = exec_run e auth c s"
| "exec e auth (Task_call c) s = exec_task e auth c s"
| "exec e auth (Output_call c) s = exec_output e auth c s"
| "exec e auth (Runtime_call c) s = exec_runtime e auth c s"
| "exec e auth (Bot_call c) s = exec_bot e auth c s"

fun exec_worker :: "env \<Rightarrow> worker_call \<Rightarrow> repo \<Rightarrow> answer \<times> repo" where
  "exec_worker e (Claim_run_job ty w l) s = gives A_job (claim_run_job (env_now e) ty w l s)"
| "exec_worker e (Complete_run_job jid status res err) s =
     gives A_job (complete_run_job (env_now e) jid status res err s)"
| "exec_worker e (Get_run_job jid) s = (A_job (get_run_job jid s), s)"
| "exec_worker e (Run_queue_stats ty) s = (A_stats (run_queue_stats (env_now e) ty s), s)"
| "exec_worker e (List_desired_nautilus_runtimes mode ds w limit) s =
     (A_runtimes (list_desired_nautilus_runtimes (env_now e) mode ds w limit s), s)"
| "exec_worker e (List_active_nautilus_market_data_subscriptions mode ds limit) s =
     (A_payloads (Some (list_active_nautilus_market_data_subscriptions (env_repr e) mode ds limit s)), s)"
| "exec_worker e (Claim_nautilus_runtime_lease nid w l) s =
     gives A_runtime (claim_nautilus_runtime_lease (env_now e) nid w l s)"
| "exec_worker e (Renew_nautilus_runtime_lease nid w l) s =
     gives A_runtime (renew_nautilus_runtime_lease (env_now e) nid w l s)"
| "exec_worker e (Release_nautilus_runtime_lease nid w state err) s =
     gives A_runtime (release_nautilus_runtime_lease (env_now e) nid w state err s)"
| "exec_worker e (Persist_nautilus_runtime_stream_cursor nid w cursor) s =
     gives A_runtime (persist_nautilus_runtime_stream_cursor (env_now e) nid w cursor s)"
| "exec_worker e (Append_nautilus_runtime_events_for_worker nid w evs) s =
     gives A_runtime_events
       (append_nautilus_runtime_events_for_worker (env_now e) (env_draw e) nid w evs s)"

end
