(* ===== verification/Repository.thy ===== *)
theory Repository
  imports Calls
begin

text \<open>
  The invariant of the whole repository: the conjunction of the components' invariants, and that
  every call keeps it.  A call touches the tables of its own component only; what other components
  assume of the runs survives because runs are never removed and keep their owner and conversation.
\<close>

section \<open>The invariant\<close>

definition repo_inv :: "repo \<Rightarrow> bool" where
  "repo_inv s \<longleftrightarrow> conv_inv s \<and> run_inv s \<and> job_inv s \<and> task_inv s \<and> art_inv s \<and> child_inv s \<and>
     nrt_inv s \<and> bot_inv s"

lemma repo_invD:
  assumes "repo_inv s"
  shows "conv_inv s" "run_inv s" "job_inv s" "task_inv s" "art_inv s" "child_inv s" "nrt_inv s"
    "bot_inv s"
  using assms by (simp_all add: repo_inv_def)

lemma repo_inv_init: "repo_inv init_repo"
  by (simp add: repo_inv_def conv_inv_init run_inv_init job_inv_init task_inv_init child_inv_init
      nrt_inv_init bot_inv_init) (simp add: art_inv_def init_repo_def)

section \<open>Fresh UUIDs\<close>

text \<open>No table has an id made of a UUID that the environment draws.\<close>

definition fresh_ids :: "string \<Rightarrow> repo \<Rightarrow> bool" where
  "fresh_ids u s \<longleftrightarrow>
     unused_conv (opaque_id ''conv'' u) s \<and> unused_run (opaque_id ''run'' u) s \<and>
     unused_job (opaque_id ''job'' u) s \<and> unused_task (opaque_id ''wft'' u) s \<and>
     unused_artifact (opaque_id ''art'' u) s \<and>
     dict_get (strategy_specs s) (opaque_id ''spec'' u) = None \<and>
     dict_get (validation_reports s) (opaque_id ''val'' u) = None \<and>
     dict_get (review_reports s) (opaque_id ''rev'' u) = None \<and>
     dict_get (policy_findings s) (opaque_id ''pol'' u) = None \<and>
     dict_get (tool_calls s) (opaque_id ''toolcall'' u) = None \<and>
     dict_get (usage_ledger s) (opaque_id ''usage'' u) = None \<and>
     unused_runtime (opaque_id ''nrt'' u) s \<and> unused_event (opaque_id ''nevt'' u) s \<and>
     unused_bot (opaque_id ''botp'' u) s \<and> unused_feedback (opaque_id ''fb'' u) s"

definition fresh_env :: "env \<Rightarrow> repo \<Rightarrow> bool" where
  "fresh_env e s \<longleftrightarrow> inj (env_draw e) \<and> (\<forall>i. fresh_ids (env_draw e i) s)"

lemma fresh_envD:
  assumes "fresh_env e s"
  shows "inj (env_draw e)"
    "unused_conv (opaque_id ''conv'' (env_draw e i)) s" "unused_run (opaque_id ''run'' (env_draw e i)) s"
    "unused_job (opaque_id ''job'' (env_draw e i)) s" "unused_task (opaque_id ''wft'' (env_draw e i)) s"
    "unused_artifact (opaque_id ''art'' (env_draw e i)) s"
    "dict_get (strategy_specs s) (opaque_id ''spec'' (env_draw e i)) = None"
    "dict_get (validation_reports s) (opaque_id ''val'' (env_draw e i)) = None"
    "dict_get (review_reports s) (opaque_id ''rev'' (env_draw e i)) = None"
    "dict_get (policy_findings s) (opaque_id ''pol'' (env_draw e i)) = None"
    "dict_get (tool_calls s) (opaque_id ''toolcall'' (env_draw e i)) = None"
    "dict_get (usage_ledger s) (opaque_id ''usage'' (env_draw e i)) = None"
    "unused_runtime (opaque_id ''nrt'' (env_draw e i)) s"
    "unused_event (opaque_id ''nevt'' (env_draw e i)) s"
    "unused_bot (opaque_id ''botp'' (env_draw e i)) s" "unused_feedback (opaque_id ''fb'' (env_draw e i)) s"
  using assms by (auto simp: fresh_env_def fresh_ids_def)

section \<open>Which tables a call touches\<close>

text \<open>
  A group of tables is untouched when the two states agree on it; each relation is what one
  component's invariant depends on.
\<close>

definition same_conv :: "repo \<Rightarrow> repo \<Rightarrow> bool" where
  "same_conv s s' \<longleftrightarrow> conversations s' = conversations s \<and> messages s' = messages s \<and>
     memories s' = memories s"

definition same_runs :: "repo \<Rightarrow> repo \<Rightarrow> bool" where
  "same_runs s s' \<longleftrightarrow> runs s' = runs s \<and> run_events s' = run_events s"

definition same_jobs :: "repo \<Rightarrow> repo \<Rightarrow> bool" where
  "same_jobs s s' \<longleftrightarrow> run_jobs s' = run_jobs s"

definition same_tasks :: "repo \<Rightarrow> repo \<Rightarrow> bool" where
  "same_tasks s s' \<longleftrightarrow> workflow_tasks s' = workflow_tasks s"

definition same_artifacts :: "repo \<Rightarrow> repo \<Rightarrow> bool" where
  "same_artifacts s s' \<longleftrightarrow> artifacts s' = artifacts s"

definition same_children :: "repo \<Rightarrow> repo \<Rightarrow> bool" where
  "same_children s s' \<longleftrightarrow> strategy_specs s' = strategy_specs s \<and>
     validation_reports s' = validation_reports s \<and> review_reports s' = review_reports s \<and>
     policy_findings s' = policy_findings s \<and> tool_calls s' = tool_calls s \<and>
     usage_ledger s' = usage_ledger s"

definition same_nautilus :: "repo \<Rightarrow> repo \<Rightarrow> bool" where
  "same_nautilus s s' \<longleftrightarrow> nautilus_runtimes s' = nautilus_runtimes s \<and>
     nautilus_events s' = nautilus_events s"

definition same_bots :: "repo \<Rightarrow> repo \<Rightarrow> bool" where
  "same_bots s s' \<longleftrightarrow> bot_proposals s' = bot_proposals s \<and> feedback s' = feedback s"

lemmas same_defs = same_conv_def same_runs_def same_jobs_def same_tasks_def same_artifacts_def
  same_children_def same_nautilus_def same_bots_def

text \<open>Runs are only added, and keep owner and conversation.\<close>

definition runs_kept :: "repo \<Rightarrow> repo \<Rightarrow> bool" where
  "runs_kept s s' \<longleftrightarrow> (\<forall>k r. dict_get (runs s) k = Some r \<longrightarrow>
     (\<exists>r'. dict_get (runs s') k = Some r' \<and> row_tenant r' = row_tenant r \<and>
        run_conversation_id r' = run_conversation_id r))"

lemma runs_kept_same [simp]: "runs s' = runs s \<Longrightarrow> runs_kept s s'"
  by (simp add: runs_kept_def)

lemma runs_kept_tenant:
  "runs_kept s s' \<Longrightarrow> dict_get (runs s) k = Some r \<Longrightarrow>
   \<exists>r'. dict_get (runs s') k = Some r' \<and> row_tenant r' = row_tenant r"
  by (auto simp: runs_kept_def)

lemma conv_inv_frame: "same_conv s s' \<Longrightarrow> conv_inv s \<Longrightarrow> conv_inv s'"
  by (simp add: conv_inv_def same_conv_def)

lemma run_inv_frame: "same_runs s s' \<Longrightarrow> run_inv s \<Longrightarrow> run_inv s'"
  by (simp add: run_inv_def same_runs_def)

lemma task_inv_frame: "same_tasks s s' \<Longrightarrow> task_inv s \<Longrightarrow> task_inv s'"
  by (simp add: task_inv_def same_tasks_def)

lemma nrt_inv_frame: "same_nautilus s s' \<Longrightarrow> nrt_inv s \<Longrightarrow> nrt_inv s'"
  by (simp add: nrt_inv_def nrt_log_def same_nautilus_def)

lemma job_inv_frame: "same_jobs s s' \<Longrightarrow> runs_kept s s' \<Longrightarrow> job_inv s \<Longrightarrow> job_inv s'"
  unfolding job_inv_def same_jobs_def runs_kept_def by metis

lemma art_inv_frame: "same_artifacts s s' \<Longrightarrow> runs_kept s s' \<Longrightarrow> art_inv s \<Longrightarrow> art_inv s'"
  unfolding art_inv_def same_artifacts_def runs_kept_def by metis

lemma bot_inv_frame: "same_bots s s' \<Longrightarrow> runs_kept s s' \<Longrightarrow> bot_inv s \<Longrightarrow> bot_inv s'"
  unfolding bot_inv_def same_bots_def runs_kept_def by metis

lemma tool_calls_ok_mono: "runs_kept s s' \<Longrightarrow> tool_calls_ok d (runs s) \<Longrightarrow> tool_calls_ok d (runs s')"
  unfolding tool_calls_ok_def runs_kept_def by (metis option.distinct(1) option.exhaust)

lemma usage_ok_mono: "runs_kept s s' \<Longrightarrow> usage_ok d (runs s) \<Longrightarrow> usage_ok d (runs s')"
  unfolding usage_ok_def runs_kept_def by metis

lemma children_ok_kept:
  "runs_kept s s' \<Longrightarrow> children_ok f d (runs s) \<Longrightarrow> children_ok f d (runs s')"
  by (erule children_ok_runs_mono) (rule runs_kept_tenant)

lemma child_inv_frame:
  assumes "same_children s s'" "runs_kept s s'" "child_inv s"
  shows "child_inv s'"
  using assms(1,3)
  by (simp add: child_inv_def same_children_def children_ok_kept [OF assms(2)]
      tool_calls_ok_mono [OF assms(2)] usage_ok_mono [OF assms(2)])

section \<open>Each group of calls keeps to its tables\<close>

lemma frame_conversation:
  assumes "s' = snd (exec_conversation e auth c s)"
  shows "same_runs s s'" "same_jobs s s'" "same_tasks s s'" "same_artifacts s s'" "same_children s s'"
    "same_nautilus s s'" "same_bots s s'"
  unfolding assms same_defs
  by (cases c; simp add: conv_op_defs Let_def split: option.split)+

lemmas run_op_defs = create_run_def create_run_job_def cancel_run_jobs_def append_run_event_snd
  append_run_events_def set_run_status_def

lemma frame_run:
  assumes "s' = snd (exec_run e auth c s)"
  shows "same_conv s s'" "same_tasks s s'" "same_artifacts s s'" "same_children s s'"
    "same_nautilus s s'" "same_bots s s'"
  unfolding assms same_defs
  by (cases c; simp add: run_op_defs Let_def split_beta split: option.split)+

lemmas task_op_defs = upsert_workflow_task_def sync_workflow_tasks_def resolve_workflow_task_def
  submit_workflow_task_response_def

lemma frame_task:
  assumes "s' = snd (exec_task e auth c s)"
  shows "same_conv s s'" "same_runs s s'" "same_jobs s s'" "same_artifacts s s'" "same_children s s'"
    "same_nautilus s s'" "same_bots s s'"
  unfolding assms same_defs
  by (cases c; simp add: task_op_defs Let_def split_beta split: option.split)+

lemmas output_op_defs = create_strategy_spec_def create_artifact_def create_artifacts_def
  create_validation_report_def create_review_report_def create_tool_call_def complete_tool_call_def
  create_policy_finding_def create_usage_ledger_def

lemma frame_output:
  assumes "s' = snd (exec_output e auth c s)"
  shows "same_conv s s'" "same_runs s s'" "same_jobs s s'" "same_tasks s s'"
    "same_nautilus s s'" "same_bots s s'"
  unfolding assms same_defs
  by (cases c; simp add: output_op_defs Let_def split: option.split)+

lemma append_nautilus_event_others:
  assumes "s' = snd (append_nautilus_event now uuid rt ty p idem s)"
  shows "same_conv s s'" "same_runs s s'" "same_jobs s s'" "same_tasks s s'" "same_artifacts s s'"
    "same_children s s'" "same_bots s s'"
  unfolding assms same_defs
  by (simp add: append_nautilus_event_def Let_def split: option.split)+

lemmas runtime_op_defs = upsert_nautilus_runtime_def set_nautilus_runtime_state_def
  activate_nautilus_runtime_kill_switch_def set_nautilus_runtime_desired_state_def
  append_nautilus_runtime_event_def cleanup_nautilus_heartbeat_events_def

lemma heartbeat_others:
  assumes "s' = snd (record_nautilus_runtime_heartbeat now uuid auth nid p idem s)"
  shows "same_conv s s'" "same_runs s s'" "same_jobs s s'" "same_tasks s s'" "same_artifacts s s'"
    "same_children s s'" "same_bots s s'"
  using append_nautilus_event_others [OF refl, of s now uuid _ "''heartbeat''" p idem]
  unfolding assms same_defs
  by (cases rule: record_heartbeat_cases [of auth nid s now uuid p idem]; simp)+

lemma frame_runtime:
  assumes "s' = snd (exec_runtime e auth c s)"
  shows "same_conv s s'" "same_runs s s'" "same_jobs s s'" "same_tasks s s'" "same_artifacts s s'"
    "same_children s s'" "same_bots s s'"
  using append_nautilus_event_others [OF refl] heartbeat_others [OF refl]
  unfolding assms same_defs
  by (cases c; simp add: runtime_op_defs Let_def split_beta split: option.split)+

lemma frame_bot:
  assumes "s' = snd (exec_bot e auth c s)"
  shows "same_conv s s'" "same_runs s s'" "same_jobs s s'" "same_tasks s s'" "same_artifacts s s'"
    "same_children s s'" "same_nautilus s s'"
  unfolding assms same_defs
  by (cases c; simp add: create_bot_proposal_def mark_bot_proposal_started_def create_feedback_def
      Let_def split: option.split)+

lemmas lease_op_defs = claim_nautilus_runtime_lease_def renew_nautilus_runtime_lease_def
  release_nautilus_runtime_lease_def persist_nautilus_runtime_stream_cursor_def

lemma append_nautilus_events_others:
  "same_conv s (snd (append_nautilus_events now draw rt es s)) \<and>
   same_runs s (snd (append_nautilus_events now draw rt es s)) \<and>
   same_jobs s (snd (append_nautilus_events now draw rt es s)) \<and>
   same_tasks s (snd (append_nautilus_events now draw rt es s)) \<and>
   same_artifacts s (snd (append_nautilus_events now draw rt es s)) \<and>
   same_children s (snd (append_nautilus_events now draw rt es s)) \<and>
   same_bots s (snd (append_nautilus_events now draw rt es s))"
proof (induction es arbitrary: s draw)
  case Nil
  show ?case by (simp add: same_defs)
next
  case (Cons x es)
  obtain ty p k where x: "x = (ty, p, k)" by (cases x) auto
  show ?case
    using append_nautilus_event_others [OF refl, of s now "draw 0" rt ty p k]
      Cons.IH [of "snd (append_nautilus_event now (draw 0) rt ty p k s)" "\<lambda>i. draw (Suc i)"]
    by (simp add: x Let_def split_beta same_defs)
qed

lemma frame_worker:
  assumes "s' = snd (exec_worker e c s)"
  shows "same_conv s s'" "same_runs s s'" "same_tasks s s'" "same_artifacts s s'"
    "same_children s s'" "same_bots s s'"
  using append_nautilus_events_others
  unfolding assms same_defs
  by (cases c; simp add: lease_op_defs claim_run_job_def complete_run_job_def
      append_nautilus_runtime_events_for_worker_def Let_def split_beta split: option.split)+

section \<open>Every call keeps the invariant\<close>

lemma exec_conversation_inv:
  assumes inv: "repo_inv s" and fresh: "fresh_env e s"
  shows "repo_inv (snd (exec_conversation e auth c s))"
proof -
  let ?s = "snd (exec_conversation e auth c s)"
  note I = repo_invD [OF inv] and F = fresh_envD [OF fresh]
  note fr = frame_conversation [OF refl, of s e auth c]
  have "conv_inv ?s"
    using I(1) F(2) [of 0]
    by (cases c) (auto intro: create_conversation_inv update_conversation_title_inv
        delete_conversation_inv create_message_inv upsert_conversation_memory_inv)
  moreover have "runs_kept s ?s" using fr(1) by (simp add: same_runs_def)
  ultimately show ?thesis
    using I fr run_inv_frame job_inv_frame task_inv_frame art_inv_frame child_inv_frame
      nrt_inv_frame bot_inv_frame
    unfolding repo_inv_def by blast
qed

lemma runs_kept_run:
  assumes inv: "run_inv s" and fresh: "fresh_env e s"
  shows "runs_kept s (snd (exec_run e auth c s))"
proof (cases c)
  case (Create_run cid st mode rt rq tr)
  have "dict_get (runs s) (opaque_id ''run'' (env_draw e 0)) = None"
    using fresh_envD(3) [OF fresh, of 0] by (simp add: unused_run_def)
  then show ?thesis
    by (auto simp: Create_run create_run_def Let_def runs_kept_def split: option.split)
next
  case (Set_run_status rid status)
  then show ?thesis
    using keyed_id [OF run_invD(1) [OF inv]]
    by (auto simp: set_run_status_def Let_def runs_kept_def row_tenant_def split: option.split)
qed (simp_all add: run_op_defs Let_def split_beta split: option.split)

lemma create_run_jobs [simp]:
  "run_jobs (snd (create_run now u1 u2 u3 auth cid st mode rt rq tr s)) = run_jobs s"
  by (simp add: create_run_def Let_def split: option.split)

lemma run_inv_jobs [simp]: "run_inv (s\<lparr>run_jobs := d\<rparr>) = run_inv s"
  by (simp add: run_inv_def)

lemma run_jobs_run_inv:
  "run_inv (snd (create_run_job now uuid auth rid ty p m s)) = run_inv s"
  "run_inv (snd (cancel_run_jobs now auth rid sts res err s)) = run_inv s"
  by (simp_all add: create_run_job_def cancel_run_jobs_def Let_def split_beta split: option.split)

lemma exec_run_inv:
  assumes inv: "repo_inv s" and fresh: "fresh_env e s"
  shows "repo_inv (snd (exec_run e auth c s))"
proof -
  let ?s = "snd (exec_run e auth c s)"
  note I = repo_invD [OF inv] and F = fresh_envD [OF fresh]
  note fr = frame_run [OF refl, of s e auth c]
  have kept: "runs_kept s ?s" by (rule runs_kept_run [OF I(2) fresh])
  have "run_inv ?s"
    using I(2) F(3) [of 0]
    by (cases c) (auto simp: append_run_event_snd run_jobs_run_inv
        intro: create_run_inv set_run_status_inv append_run_events_inv)
  moreover have "job_inv ?s"
  proof (cases "same_jobs s ?s")
    case True
    then show ?thesis using job_inv_frame kept I(3) by blast
  next
    case False
    then show ?thesis
      using I(2,3) create_run_job_inv cancel_run_jobs_inv
      by (cases c)
        (auto simp: same_jobs_def set_run_status_def append_run_event_snd append_run_events_def Let_def
          split: option.splits)
  qed
  ultimately show ?thesis
    using I fr kept conv_inv_frame task_inv_frame art_inv_frame child_inv_frame
      nrt_inv_frame bot_inv_frame
    unfolding repo_inv_def by blast
qed

lemma exec_task_inv:
  assumes inv: "repo_inv s" and fresh: "fresh_env e s"
  shows "repo_inv (snd (exec_task e auth c s))"
proof -
  let ?s = "snd (exec_task e auth c s)"
  note I = repo_invD [OF inv] and F = fresh_envD [OF fresh]
  note fr = frame_task [OF refl, of s e auth c]
  have "task_inv ?s"
    using I(4) F(1) F(5)
    by (cases c) (auto simp: submit_workflow_task_response_def
        intro: upsert_workflow_task_inv sync_workflow_tasks_inv resolve_workflow_task_inv)
  moreover have "runs_kept s ?s" using fr(2) by (simp add: same_runs_def)
  ultimately show ?thesis
    using I fr conv_inv_frame run_inv_frame job_inv_frame art_inv_frame child_inv_frame
      nrt_inv_frame bot_inv_frame
    unfolding repo_inv_def by blast
qed

lemma artifacts_child_inv:
  "child_inv (snd (create_artifact now uuid auth rid i s)) = child_inv s"
  "child_inv (snd (create_artifacts now draw auth rid is s)) = child_inv s"
  by (simp_all add: create_artifact_def create_artifacts_def child_inv_def Let_def split: option.split)

lemma exec_output_children:
  assumes "run_inv s" "child_inv s"
  shows "child_inv (snd (exec_output e auth c s))"
  using assms
  by (cases c) (auto simp: artifacts_child_inv intro: create_strategy_spec_inv
      create_validation_report_inv create_review_report_inv create_tool_call_inv
      complete_tool_call_inv create_policy_finding_inv create_usage_ledger_inv)

lemma children_art_inv:
  assumes "art_inv s" "run_inv s"
  shows "art_inv (snd (exec_output e auth c s))"
proof (cases "same_artifacts s (snd (exec_output e auth c s))")
  case True
  have "runs_kept s (snd (exec_output e auth c s))"
    using frame_output(2) [OF refl, of s e auth c] by (simp add: same_runs_def)
  with True assms(1) show ?thesis using art_inv_frame by blast
next
  case False
  then show ?thesis
    using assms create_artifact_inv create_artifacts_inv
    by (cases c) (auto simp: same_artifacts_def output_op_defs Let_def split: option.splits)
qed

lemma exec_output_inv:
  assumes inv: "repo_inv s"
  shows "repo_inv (snd (exec_output e auth c s))"
proof -
  let ?s = "snd (exec_output e auth c s)"
  note I = repo_invD [OF inv]
  note fr = frame_output [OF refl, of s e auth c]
  have "art_inv ?s" "child_inv ?s"
    by (rule children_art_inv [OF I(5,2)], rule exec_output_children [OF I(2,6)])
  moreover have "runs_kept s ?s" using fr(2) by (simp add: same_runs_def)
  ultimately show ?thesis
    using I fr conv_inv_frame run_inv_frame job_inv_frame task_inv_frame nrt_inv_frame bot_inv_frame
    unfolding repo_inv_def by blast
qed

lemma exec_runtime_inv:
  assumes inv: "repo_inv s" and fresh: "fresh_env e s"
  shows "repo_inv (snd (exec_runtime e auth c s))"
proof -
  let ?s = "snd (exec_runtime e auth c s)"
  note I = repo_invD [OF inv] and F = fresh_envD [OF fresh]
  note fr = frame_runtime [OF refl, of s e auth c]
  have "nrt_inv ?s"
    using I(7) F(13) [of 0] F(14) [of 0]
    by (cases c) (auto intro: upsert_nautilus_runtime_inv runtime_field_ops_inv record_heartbeat_inv
        append_ops_inv cleanup_inv)
  moreover have "runs_kept s ?s" using fr(2) by (simp add: same_runs_def)
  ultimately show ?thesis
    using I fr conv_inv_frame run_inv_frame job_inv_frame task_inv_frame art_inv_frame child_inv_frame
      bot_inv_frame
    unfolding repo_inv_def by blast
qed

lemma exec_bot_inv:
  assumes inv: "repo_inv s"
  shows "repo_inv (snd (exec_bot e auth c s))"
proof -
  let ?s = "snd (exec_bot e auth c s)"
  note I = repo_invD [OF inv]
  note fr = frame_bot [OF refl, of s e auth c]
  have "bot_inv ?s"
    using I(8)
    by (cases c) (auto intro: create_bot_proposal_inv mark_bot_proposal_started_inv create_feedback_inv)
  moreover have "runs_kept s ?s" using fr(2) by (simp add: same_runs_def)
  ultimately show ?thesis
    using I fr conv_inv_frame run_inv_frame job_inv_frame task_inv_frame art_inv_frame child_inv_frame
      nrt_inv_frame
    unfolding repo_inv_def by blast
qed

lemma exec_inv:
  assumes "repo_inv s" "fresh_env e s"
  shows "repo_inv (snd (exec e auth c s))"
  using assms
  by (cases c) (auto intro: exec_conversation_inv exec_run_inv exec_task_inv exec_output_inv
      exec_runtime_inv exec_bot_inv)

lemma job_claims_nrt_inv [simp]:
  "nrt_inv (snd (claim_run_job now ty w l s)) = nrt_inv s"
  "nrt_inv (snd (complete_run_job now jid st res err s)) = nrt_inv s"
  by (simp_all add: claim_run_job_def complete_run_job_def Let_def nrt_inv_def nrt_log_def
      split: option.split)

lemma lease_ops_job_inv:
  assumes "job_inv s"
  shows "job_inv (snd (claim_nautilus_runtime_lease now nid w l s))"
    "job_inv (snd (renew_nautilus_runtime_lease now nid w l s))"
    "job_inv (snd (release_nautilus_runtime_lease now nid w st err s))"
    "job_inv (snd (persist_nautilus_runtime_stream_cursor now nid w cur s))"
    "job_inv (snd (append_nautilus_runtime_events_for_worker now draw nid w es s))"
proof -
  show "job_inv (snd (append_nautilus_runtime_events_for_worker now draw nid w es s))"
  proof (rule job_inv_frame [OF _ _ assms])
    have "runs (snd (append_nautilus_events now draw rt es s)) = runs s"
      "run_jobs (snd (append_nautilus_events now draw rt es s)) = run_jobs s" for rt
      using append_nautilus_events_others [of s now draw rt es] by (simp_all add: same_defs)
    then show "same_jobs s (snd (append_nautilus_runtime_events_for_worker now draw nid w es s))"
      "runs_kept s (snd (append_nautilus_runtime_events_for_worker now draw nid w es s))"
      by (simp_all add: append_nautilus_runtime_events_for_worker_def same_jobs_def runs_kept_def
          split_beta split: option.split)
  qed
qed (use assms in \<open>simp_all add: lease_op_defs job_inv_def Let_def split: option.split\<close>)

lemma exec_worker_inv:
  assumes inv: "repo_inv s" and fresh: "fresh_env e s"
  shows "repo_inv (snd (exec_worker e c s))"
proof -
  let ?s = "snd (exec_worker e c s)"
  note I = repo_invD [OF inv] and F = fresh_envD [OF fresh]
  note fr = frame_worker [OF refl, of s e c]
  have kept: "runs_kept s ?s" using fr(2) by (simp add: same_runs_def)
  have "nrt_inv ?s"
    using I(7) F(1) F(14)
    by (cases c) (auto intro: runtime_field_ops_inv append_ops_inv)
  moreover have "job_inv ?s"
    using I(3)
    by (cases c) (auto intro: claim_run_job_inv complete_run_job_inv lease_ops_job_inv)
  ultimately show ?thesis
    using I fr kept conv_inv_frame run_inv_frame task_inv_frame art_inv_frame child_inv_frame
      bot_inv_frame
    unfolding repo_inv_def by blast
qed

end
