(* ===== verification/Isolation.thy ===== *)
theory Isolation
  imports Repository
begin

text \<open>
  Tenants do not see each other: what the tables hold for one tenant is changed by no call of
  another tenant.
\<close>

section \<open>What the repository holds for a tenant\<close>

text \<open>A tool call has no owner of its own; it belongs to the tenant of its run.\<close>

definition tool_view :: "tenant \<Rightarrow> repo \<Rightarrow> tool_call_record dict" where
  "tool_view t s = dict_filter (\<lambda>c. case dict_get (runs s) (tc_run_id c) of
       None \<Rightarrow> False | Some r \<Rightarrow> row_tenant r = t) (tool_calls s)"

definition child_view :: "tenant \<Rightarrow> repo \<Rightarrow> strategy_spec_record dict \<times> validation_report_record dict
    \<times> review_report_record dict \<times> policy_finding_record dict \<times> usage_record dict" where
  "child_view t s = (tenant_rows t (strategy_specs s), tenant_rows t (validation_reports s),
     tenant_rows t (review_reports s), tenant_rows t (policy_findings s), tenant_rows t (usage_ledger s))"

definition same_view :: "tenant \<Rightarrow> repo \<Rightarrow> repo \<Rightarrow> bool" where
  "same_view t s s' \<longleftrightarrow> conv_view t s' = conv_view t s \<and> run_view t s' = run_view t s \<and>
     job_view t s' = job_view t s \<and> task_view t s' = task_view t s \<and> art_view t s' = art_view t s \<and>
     child_view t s' = child_view t s \<and> tool_view t s' = tool_view t s \<and>
     nrt_view t s' = nrt_view t s \<and> bot_view t s' = bot_view t s"

lemma same_view_refl [simp]: "same_view t s s"
  by (simp add: same_view_def)

lemma same_view_trans: "same_view t s s' \<Longrightarrow> same_view t s' s'' \<Longrightarrow> same_view t s s''"
  by (simp add: same_view_def)

lemma view_frames:
  "same_conv s s' \<Longrightarrow> conv_view t s' = conv_view t s"
  "same_runs s s' \<Longrightarrow> run_view t s' = run_view t s"
  "same_jobs s s' \<Longrightarrow> job_view t s' = job_view t s"
  "same_tasks s s' \<Longrightarrow> task_view t s' = task_view t s"
  "same_artifacts s s' \<Longrightarrow> art_view t s' = art_view t s"
  "same_children s s' \<Longrightarrow> child_view t s' = child_view t s"
  "same_nautilus s s' \<Longrightarrow> nrt_view t s' = nrt_view t s"
  "same_bots s s' \<Longrightarrow> bot_view t s' = bot_view t s"
  by (simp_all add: same_defs conv_view_def run_view_def job_view_def task_view_def art_view_def
      child_view_def nrt_view_def bot_view_def)

lemma tool_view_frame:
  assumes inv: "child_inv s" and kept: "runs_kept s s'" and same: "tool_calls s' = tool_calls s"
  shows "tool_view t s' = tool_view t s"
  unfolding tool_view_def same
proof (rule dict_filter_cong)
  fix k c assume c: "(k, c) \<in> set (tool_calls s)"
  have "tool_calls_ok (tool_calls s) (runs s)" using inv by (simp add: child_inv_def)
  then obtain r where r: "dict_get (runs s) (tc_run_id c) = Some r"
    using c by (fastforce simp: tool_calls_ok_def dest: dict_in_get)
  with kept obtain r' where "dict_get (runs s') (tc_run_id c) = Some r'" "row_tenant r' = row_tenant r"
    by (auto simp: runs_kept_def)
  with r show "(case dict_get (runs s') (tc_run_id c) of None \<Rightarrow> False | Some r \<Rightarrow> row_tenant r = t) =
      (case dict_get (runs s) (tc_run_id c) of None \<Rightarrow> False | Some r \<Rightarrow> row_tenant r = t)"
    by simp
qed

section \<open>Calls of another tenant\<close>

lemma exec_conversation_isolated:
  assumes inv: "repo_inv s" and fresh: "fresh_env e s" and other: "auth_tenant auth \<noteq> t"
  shows "same_view t s (snd (exec_conversation e auth c s))"
proof -
  let ?s = "snd (exec_conversation e auth c s)"
  note I = repo_invD [OF inv] and F = fresh_envD [OF fresh]
  note fr = frame_conversation [OF refl, of s e auth c]
  have "conv_view t ?s = conv_view t s"
    using I(1) F(2) [of 0] other
    by (cases c) (auto simp: create_conversation_isolated update_conversation_title_isolated
        delete_conversation_isolated create_message_isolated upsert_conversation_memory_isolated)
  moreover have "tool_view t ?s = tool_view t s"
    using fr(1,5) by (intro tool_view_frame [OF I(6)]) (simp_all add: same_defs)
  ultimately show ?thesis
    unfolding same_view_def
    by - (intro conjI; (assumption | (rule view_frames, rule fr)))
qed

lemma jobs_view_frames [simp]:
  "run_view t (snd (create_run_job now uuid auth rid ty p m s)) = run_view t s"
  "run_view t (snd (cancel_run_jobs now auth rid sts res err s)) = run_view t s"
  "job_view t (snd (create_run now u1 u2 u3 auth cid st mode rt rq tr s)) = job_view t s"
  "job_view t (snd (set_run_status now auth rid st s)) = job_view t s"
  "job_view t (snd (append_run_events now draw auth rid evs s)) = job_view t s"
  by (simp_all add: run_op_defs run_view_def job_view_def Let_def split_beta split: option.split)

lemma exec_run_isolated:
  assumes inv: "repo_inv s" and fresh: "fresh_env e s" and other: "auth_tenant auth \<noteq> t"
  shows "same_view t s (snd (exec_run e auth c s))"
proof -
  let ?s = "snd (exec_run e auth c s)"
  note I = repo_invD [OF inv] and F = fresh_envD [OF fresh]
  note fr = frame_run [OF refl, of s e auth c]
  have "run_view t ?s = run_view t s"
    using I(2) F(3) [of 0] other
    by (cases c) (auto simp: append_run_event_snd create_run_isolated set_run_status_isolated
        append_run_events_isolated)
  moreover have "job_view t ?s = job_view t s"
    using I(2,3) F(4) [of 0] other
    by (cases c) (auto simp: append_run_event_snd create_run_job_isolated cancel_run_jobs_isolated)
  moreover have "tool_view t ?s = tool_view t s"
    using fr(4) by (intro tool_view_frame [OF I(6) runs_kept_run [OF I(2) fresh]]) (simp add: same_defs)
  ultimately show ?thesis
    unfolding same_view_def
    by - (intro conjI; (assumption | (rule view_frames, rule fr)))
qed

lemma exec_task_isolated:
  assumes inv: "repo_inv s" and fresh: "fresh_env e s" and other: "auth_tenant auth \<noteq> t"
  shows "same_view t s (snd (exec_task e auth c s))"
proof -
  let ?s = "snd (exec_task e auth c s)"
  note I = repo_invD [OF inv] and F = fresh_envD [OF fresh]
  note fr = frame_task [OF refl, of s e auth c]
  have "task_view t ?s = task_view t s"
    using I(4) F(1) F(5) other
    by (cases c) (auto simp: submit_workflow_task_response_def upsert_workflow_task_isolated
        sync_workflow_tasks_isolated resolve_workflow_task_isolated)
  moreover have "tool_view t ?s = tool_view t s"
    using fr(2,5) by (intro tool_view_frame [OF I(6)]) (simp_all add: same_defs)
  ultimately show ?thesis
    unfolding same_view_def
    by - (intro conjI; (assumption | (rule view_frames, rule fr)))
qed

lemma exec_bot_isolated:
  assumes inv: "repo_inv s" and fresh: "fresh_env e s" and other: "auth_tenant auth \<noteq> t"
  shows "same_view t s (snd (exec_bot e auth c s))"
proof -
  let ?s = "snd (exec_bot e auth c s)"
  note I = repo_invD [OF inv] and F = fresh_envD [OF fresh]
  note fr = frame_bot [OF refl, of s e auth c]
  have "bot_view t ?s = bot_view t s"
    using F(15) [of 0] F(16) [of 0] other
    by (cases c) (auto simp: create_bot_proposal_isolated mark_bot_proposal_started_isolated
        create_feedback_isolated)
  moreover have "tool_view t ?s = tool_view t s"
    using fr(2,6) by (intro tool_view_frame [OF I(6)]) (simp_all add: same_defs)
  ultimately show ?thesis
    unfolding same_view_def
    by - (intro conjI; (assumption | (rule view_frames, rule fr)))
qed

lemma exec_runtime_isolated:
  assumes inv: "repo_inv s" and fresh: "fresh_env e s" and other: "auth_tenant auth \<noteq> t"
  shows "same_view t s (snd (exec_runtime e auth c s))"
proof -
  let ?s = "snd (exec_runtime e auth c s)"
  note I = repo_invD [OF inv] and F = fresh_envD [OF fresh]
  note fr = frame_runtime [OF refl, of s e auth c]
  have "nrt_view t ?s = nrt_view t s"
    using I(7) F(13) [of 0] F(14) [of 0] other
    by (cases c) (auto simp: upsert_nautilus_runtime_isolated runtime_controls_isolated
        append_runtime_event_isolated record_heartbeat_isolated cleanup_isolated)
  moreover have "tool_view t ?s = tool_view t s"
    using fr(2,6) by (intro tool_view_frame [OF I(6)]) (simp_all add: same_defs)
  ultimately show ?thesis
    unfolding same_view_def
    by - (intro conjI; (assumption | (rule view_frames, rule fr)))
qed

subsection \<open>Outputs of runs\<close>

lemma create_usage_ledger_isolated:
  assumes "dict_get (usage_ledger s) (opaque_id ''usage'' uuid) = None" "auth_tenant auth \<noteq> t"
  shows "tenant_rows t (usage_ledger (snd (create_usage_ledger now uuid auth rid m tid it ot c s))) =
    tenant_rows t (usage_ledger s)"
  using assms
  by (auto simp: create_usage_ledger_def Let_def row_tenant_def auth_tenant_def
      intro!: tenant_rows_set_other)

lemma output_child_view:
  assumes fresh: "fresh_env e s" and other: "auth_tenant auth \<noteq> t"
  shows "child_view t (snd (exec_output e auth c s)) = child_view t s"
proof -
  note F = fresh_envD [OF fresh]
  show ?thesis
  proof (cases c)
    case (Create_strategy_spec rid p v)
    show ?thesis
      using spec_child.create_isolated [of s "(env_now e, env_draw e 0, p, v)" auth t rid] F(7-12) [of 0] other
      by (simp add: Create_strategy_spec child_view_def)
        (simp add: create_strategy_spec_def Let_def split: option.split)
  next
    case (Create_validation_report rid st p)
    show ?thesis
      using validation_child.create_isolated [of s "(env_now e, env_draw e 0, st, p)" auth t rid] F(7-12) [of 0] other
      by (simp add: Create_validation_report child_view_def)
        (simp add: create_validation_report_def Let_def split: option.split)
  next
    case (Create_review_report rid dc p)
    show ?thesis
      using review_child.create_isolated [of s "(env_now e, env_draw e 0, dc, p)" auth t rid] F(7-12) [of 0] other
      by (simp add: Create_review_report child_view_def)
        (simp add: create_review_report_def Let_def split: option.split)
  next
    case (Create_policy_finding rid sev code msg tcid)
    show ?thesis
      using finding_child.create_isolated [of s "(env_now e, env_draw e 0, sev, code, msg, tcid)" auth t rid]
        F(7-12) [of 0] other
      by (simp add: Create_policy_finding child_view_def)
        (simp add: create_policy_finding_def Let_def split: option.split)
  next
    case (Create_usage_ledger rid m tid it ot co)
    show ?thesis
      using create_usage_ledger_isolated [of s "env_draw e 0" auth t "env_now e" rid m tid it ot co] F(7-12) [of 0] other
      by (simp add: Create_usage_ledger child_view_def)
        (simp add: create_usage_ledger_def Let_def)
  qed (simp_all add: child_view_def create_artifact_def create_artifacts_def create_tool_call_def
      complete_tool_call_def Let_def split: option.split)
qed

lemma create_tool_call_isolated:
  assumes inv: "run_inv s" and fresh: "dict_get (tool_calls s) (opaque_id ''toolcall'' uuid) = None"
    and other: "auth_tenant auth \<noteq> t"
  shows "tool_view t (snd (create_tool_call now uuid auth rid tid st i pf s)) = tool_view t s"
proof (cases "get_run auth rid s")
  case (Some r)
  then have r: "dict_get (runs s) rid = Some r" "row_tenant r = auth_tenant auth" "rec_id r = rid"
    using run.fetch_id [OF run_invD(1) [OF inv] Some]
    by (simp_all add: run.fetch_eq owned_get_Some is_authorized_tenant)
  then show ?thesis
    using fresh other
    by (auto simp: create_tool_call_def is_authorized_tenant Let_def tool_view_def
        intro!: dict_filter_set_new)
qed (auto simp: create_tool_call_def get_run_def split: option.splits if_splits)

lemma complete_tool_call_isolated:
  assumes inv: "child_inv s" and other: "auth_tenant auth \<noteq> t"
  shows "tool_view t (snd (complete_tool_call now auth tcid st out pf s)) = tool_view t s"
proof -
  have "tc_id c = k" if "dict_get (tool_calls s) k = Some c" for k c
    using inv that by (auto simp: child_inv_def tool_calls_ok_def)
  then show ?thesis
    using other
    by (auto simp: complete_tool_call_def Let_def tool_view_def is_authorized_tenant
        split: option.split intro!: dict_filter_set_other)
qed

lemma exec_output_isolated:
  assumes inv: "repo_inv s" and fresh: "fresh_env e s" and other: "auth_tenant auth \<noteq> t"
  shows "same_view t s (snd (exec_output e auth c s))"
proof -
  let ?s = "snd (exec_output e auth c s)"
  note I = repo_invD [OF inv] and F = fresh_envD [OF fresh]
  note fr = frame_output [OF refl, of s e auth c]
  have "art_view t ?s = art_view t s"
  proof (cases "same_artifacts s ?s")
    case False
    then show ?thesis
      using F(6) other create_artifact_isolated create_artifacts_isolated
      by (cases c) (auto simp: same_artifacts_def output_op_defs Let_def split: option.splits)
  qed (rule view_frames)
  moreover have "tool_view t ?s = tool_view t s"
  proof (cases "tool_calls ?s = tool_calls s")
    case True
    then show ?thesis
      using fr(2) by (intro tool_view_frame [OF I(6)]) (simp_all add: same_defs)
  next
    case False
    then show ?thesis
      using create_tool_call_isolated [OF I(2) F(11) [of 0] other]
        complete_tool_call_isolated [OF I(6) other]
      by (cases c) (auto simp: output_op_defs Let_def split: option.splits)
  qed
  moreover have "child_view t ?s = child_view t s" by (rule output_child_view [OF fresh other])
  ultimately show ?thesis
    unfolding same_view_def
    by - (intro conjI; (assumption | (rule view_frames, rule fr)))
qed

lemma exec_isolated:
  assumes "repo_inv s" "fresh_env e s" "auth_tenant auth \<noteq> t"
  shows "same_view t s (snd (exec e auth c s))"
  using assms
  by (cases c) (simp_all add: exec_conversation_isolated exec_run_isolated exec_task_isolated
      exec_output_isolated exec_runtime_isolated exec_bot_isolated)

section \<open>Runs of the repository\<close>

text \<open>
  A step is a call of a tenant or of a worker, with fresh UUIDs; the label names the caller and the
  call, and is \<open>None\<close> for a worker.
\<close>

inductive repo_step :: "repo \<Rightarrow> (auth_context \<times> tenant_call) option \<Rightarrow> repo \<Rightarrow> bool" where
  tenant: "fresh_env e s \<Longrightarrow> repo_step s (Some (auth, c)) (snd (exec e auth c s))"
| worker: "fresh_env e s \<Longrightarrow> repo_step s None (snd (exec_worker e c s))"

inductive repo_run :: "repo \<Rightarrow> (auth_context \<times> tenant_call) option list \<Rightarrow> repo \<Rightarrow> bool" where
  stay: "repo_run s [] s"
| move: "repo_step s l s' \<Longrightarrow> repo_run s' ls s'' \<Longrightarrow> repo_run s (l # ls) s''"

inductive_cases repo_step_tenantE: "repo_step s (Some (auth, c)) s'"

lemma repo_step_inv: "repo_step s l s' \<Longrightarrow> repo_inv s \<Longrightarrow> repo_inv s'"
  by (induction rule: repo_step.induct) (auto intro: exec_inv exec_worker_inv)

lemma repo_run_inv: "repo_run s ls s' \<Longrightarrow> repo_inv s \<Longrightarrow> repo_inv s'"
  by (induction rule: repo_run.induct) (auto intro: repo_step_inv)

definition only_others :: "tenant \<Rightarrow> (auth_context \<times> tenant_call) option list \<Rightarrow> bool" where
  "only_others t ls \<longleftrightarrow>
     list_all (\<lambda>l. case l of None \<Rightarrow> False | Some (auth, c) \<Rightarrow> auth_tenant auth \<noteq> t) ls"

lemma repo_run_isolated:
  assumes "repo_run s ls s'" "repo_inv s" "only_others t ls"
  shows "same_view t s s'"
  using assms
proof (induction rule: repo_run.induct)
  case (move s l s' ls s'')
  then obtain auth c where l: "l = Some (auth, c)" "auth_tenant auth \<noteq> t" "only_others t ls"
    by (auto simp: only_others_def split: option.splits)
  have "same_view t s s'"
    using move.hyps(1) l(1,2) move.prems(1) by (auto elim!: repo_step_tenantE intro: exec_isolated)
  with move l(3) repo_step_inv show ?case by (blast intro: same_view_trans)
qed simp

end
