(* ===== verification/Reads.thy ===== *)
theory Reads
  imports Isolation
begin

text \<open>
  A tenant's reads answer from what the repository holds for the tenant: in two states that hold
  the same for a tenant, each of its reads gives the same answer.
\<close>

named_theorems local_reads \<open>reads that depend on the caller's part of the repository only\<close>

section \<open>Filters and lookups on a tenant's part\<close>

lemma filter_own:
  "(\<And>r. P r \<Longrightarrow> row_tenant r = t) \<Longrightarrow>
   filter P (dict_values d) = filter P (dict_values (tenant_rows t d))"
  by (auto simp: tenant_rows_def dict_values_filter intro!: filter_cong)

lemma find_own:
  assumes "\<And>r. P r \<Longrightarrow> row_tenant r = t"
  shows "find P (dict_values d) = find P (dict_values (tenant_rows t d))"
proof -
  have "find P xs = find P (filter Q xs)" if "\<And>x. P x \<Longrightarrow> Q x" for Q :: "'a row_scheme \<Rightarrow> bool" and xs
    using that by (induction xs) auto
  from this [of "\<lambda>r. row_tenant r = t"] assms show ?thesis
    by (simp add: tenant_rows_def dict_values_filter)
qed

lemma tenant_logs_Cons:
  "tenant_logs t ((k, rs) # d) =
     (if filter (\<lambda>r. row_tenant r = t) rs = [] then tenant_logs t d
      else (k, filter (\<lambda>r. row_tenant r = t) rs) # tenant_logs t d)"
  by (simp add: tenant_logs_def)

lemma log_of_Cons: "log_of ((k, rs) # d) k' = (if k' = k then rs else log_of d k')"
  by (simp add: log_of_def)

lemma log_of_tenant_logs:
  "dict_ok d \<Longrightarrow> log_of (tenant_logs t d) k = filter (\<lambda>r. row_tenant r = t) (log_of d k)"
proof (induction d)
  case Nil
  show ?case by (simp add: tenant_logs_def log_of_def)
next
  case (Cons kv d)
  obtain k0 rs where kv: "kv = (k0, rs)" by (cases kv)
  have new: "k0 \<notin> fst ` set d" "dict_ok d" using Cons.prems kv by (auto simp: dict_ok_def)
  have "log_of d k = []" if "k = k0"
    using new(1) that by (simp add: log_of_def map_of_eq_None_iff [symmetric] split: option.split)
  then show ?case
    using Cons.IH [OF new(2)] by (cases "k = k0") (auto simp: kv tenant_logs_Cons log_of_Cons)
qed

lemma log_own:
  assumes "dict_ok d" "\<And>r. r \<in> set (log_of d k) \<Longrightarrow> row_tenant r = t"
  shows "log_of d k = log_of (tenant_logs t d) k"
  using assms by (simp add: log_of_tenant_logs)

lemma concat_own:
  assumes "\<And>r. P r \<Longrightarrow> row_tenant r = t"
  shows "filter P (concat (dict_values d)) = filter P (concat (dict_values (tenant_logs t d)))"
proof (induction d)
  case Nil
  show ?case by (simp add: tenant_logs_def)
next
  case (Cons kv d)
  obtain k rs where kv: "kv = (k, rs)" by (cases kv)
  have own: "filter P rs = filter P (filter (\<lambda>r. row_tenant r = t) rs)"
    using assms by (auto intro!: filter_cong)
  show ?case
  proof (cases "filter (\<lambda>r. row_tenant r = t) rs = []")
    case True
    with own have "filter P rs = []" by simp
    with True Cons show ?thesis by (simp add: kv tenant_logs_Cons)
  next
    case False
    with own Cons show ?thesis by (simp add: kv tenant_logs_Cons del: filter_filter)
  qed
qed

section \<open>Related states\<close>

definition related :: "auth_context \<Rightarrow> repo \<Rightarrow> repo \<Rightarrow> bool" where
  "related auth s s' \<longleftrightarrow> repo_inv s \<and> repo_inv s' \<and> same_view (auth_tenant auth) s s'"

lemma relatedD:
  assumes "related auth s s'"
  shows "repo_inv s" "repo_inv s'"
    "tenant_rows (auth_tenant auth) (conversations s') = tenant_rows (auth_tenant auth) (conversations s)"
    "tenant_logs (auth_tenant auth) (messages s') = tenant_logs (auth_tenant auth) (messages s)"
    "tenant_rows (auth_tenant auth) (memories s') = tenant_rows (auth_tenant auth) (memories s)"
    "tenant_rows (auth_tenant auth) (runs s') = tenant_rows (auth_tenant auth) (runs s)"
    "tenant_logs (auth_tenant auth) (run_events s') = tenant_logs (auth_tenant auth) (run_events s)"
    "tenant_rows (auth_tenant auth) (workflow_tasks s') = tenant_rows (auth_tenant auth) (workflow_tasks s)"
    "tenant_rows (auth_tenant auth) (artifacts s') = tenant_rows (auth_tenant auth) (artifacts s)"
    "tenant_rows (auth_tenant auth) (strategy_specs s') = tenant_rows (auth_tenant auth) (strategy_specs s)"
    "tenant_rows (auth_tenant auth) (policy_findings s') = tenant_rows (auth_tenant auth) (policy_findings s)"
    "tenant_rows (auth_tenant auth) (usage_ledger s') = tenant_rows (auth_tenant auth) (usage_ledger s)"
    "tool_view (auth_tenant auth) s' = tool_view (auth_tenant auth) s"
    "tenant_rows (auth_tenant auth) (nautilus_runtimes s') = tenant_rows (auth_tenant auth) (nautilus_runtimes s)"
    "tenant_logs (auth_tenant auth) (nautilus_events s') = tenant_logs (auth_tenant auth) (nautilus_events s)"
    "tenant_rows (auth_tenant auth) (bot_proposals s') = tenant_rows (auth_tenant auth) (bot_proposals s)"
  using assms
  by (simp_all add: related_def same_view_def conv_view_def run_view_def task_view_def art_view_def
      child_view_def nrt_view_def bot_view_def)

lemma filter_related:
  assumes "tenant_rows (auth_tenant auth) d' = tenant_rows (auth_tenant auth) d"
    and "\<And>r. P r \<Longrightarrow> row_tenant r = auth_tenant auth"
  shows "filter P (dict_values d') = filter P (dict_values d)"
  using filter_own [of P "auth_tenant auth" d] filter_own [of P "auth_tenant auth" d'] assms by simp

lemma concat_related:
  assumes "tenant_logs (auth_tenant auth) d' = tenant_logs (auth_tenant auth) d"
    and "\<And>r. P r \<Longrightarrow> row_tenant r = auth_tenant auth"
  shows "filter P (concat (dict_values d')) = filter P (concat (dict_values d))"
  using concat_own [of P "auth_tenant auth" d] concat_own [of P "auth_tenant auth" d'] assms
  by simp

lemma log_related:
  assumes "tenant_logs (auth_tenant auth) d' = tenant_logs (auth_tenant auth) d"
    and "dict_ok d" "dict_ok d'"
    and "\<And>r. r \<in> set (log_of d k) \<Longrightarrow> row_tenant r = auth_tenant auth"
      "\<And>r. r \<in> set (log_of d' k) \<Longrightarrow> row_tenant r = auth_tenant auth"
  shows "log_of d' k = log_of d k"
  using log_own [of d k] log_own [of d' k] assms by metis

section \<open>Conversations\<close>

lemma get_conversation_local [local_reads]:
  assumes "related auth s s'"
  shows "get_conversation auth k s' = get_conversation auth k s"
  using conv.fetch_local [of s' s auth k] relatedD(1-3) [OF assms] repo_invD(1)
  by (simp add: conv_invD(1) keyed_ok)

lemma list_conversations_local [local_reads]:
  assumes "related auth s s'"
  shows "list_conversations auth s' = list_conversations auth s"
  unfolding list_conversations_def
  using filter_related [OF relatedD(3) [OF assms], of "is_authorized auth"]
  by (simp add: is_authorized_tenant)

lemma thread_own:
  assumes "repo_inv s" "get_conversation auth k s = Some c" "m \<in> set (log_of (messages s) k)"
  shows "row_tenant m = auth_tenant auth"
proof -
  have c: "dict_get (conversations s) k = Some c" "row_tenant c = auth_tenant auth"
    using assms(2) by (simp_all add: conv.fetch_eq owned_get_Some is_authorized_tenant)
  obtain ms where "dict_get (messages s) k = Some ms" "m \<in> set ms"
    using assms(3) by (cases "dict_get (messages s) k") (auto simp: log_of_def)
  from conv_invD(6) [OF repo_invD(1) [OF assms(1)] this c(1)] c(2) show ?thesis by simp
qed

lemma thread_local:
  assumes rel: "related auth s s'" and c: "get_conversation auth k s = Some c"
  shows "log_of (messages s') k = log_of (messages s) k"
proof (rule log_related [OF relatedD(4) [OF rel]])
  show "dict_ok (messages s)" "dict_ok (messages s')"
    using relatedD(1,2) [OF rel] by (simp_all add: conv_invD(2) repo_invD(1))
  show "row_tenant r = auth_tenant auth" if "r \<in> set (log_of (messages s) k)" for r
    using thread_own [OF relatedD(1) [OF rel] c that] .
  show "row_tenant r = auth_tenant auth" if "r \<in> set (log_of (messages s') k)" for r
    using thread_own [OF relatedD(2) [OF rel] _ that] c get_conversation_local [OF rel] by simp
qed

lemma list_messages_local [local_reads]:
  assumes "related auth s s'"
  shows "list_messages auth k s' = list_messages auth k s"
proof -
  have eq: "list_messages auth k s0 =
      (case get_conversation auth k s0 of None \<Rightarrow> [] | Some _ \<Rightarrow> log_of (messages s0) k)" for s0
    by (simp add: list_messages_def log_of_def split: option.split)
  show ?thesis
    using thread_local [OF assms] get_conversation_local [OF assms]
    by (simp add: eq split: option.split)
qed

lemma list_messages_for_context_local [local_reads]:
  "related auth s s' \<Longrightarrow> list_messages_for_context auth k l s' = list_messages_for_context auth k l s"
  by (simp add: list_messages_for_context_def list_messages_local)

lemma get_conversation_memory_local [local_reads]:
  assumes "related auth s s'"
  shows "get_conversation_memory auth k s' = get_conversation_memory auth k s"
proof -
  have eq: "get_conversation_memory auth k s0 =
      (case get_conversation auth k s0 of None \<Rightarrow> None | Some _ \<Rightarrow> owned_get auth (memories s0) k)" for s0
    by (simp add: get_conversation_memory_def owned_get_def split: option.split)
  have "owned_get auth (memories s') k = owned_get auth (memories s) k"
    using relatedD(1,2,5) [OF assms] by (simp add: owned_get_tenant_rows conv_invD(3) repo_invD(1))
  then show ?thesis by (simp add: eq get_conversation_local [OF assms] split: option.split)
qed

lemma conversation_runs_local:
  assumes "related auth s s'"
  shows "conversation_runs auth k s' = conversation_runs auth k s"
  unfolding conversation_runs_def
  by (rule filter_related [OF relatedD(6) [OF assms]]) (simp add: row_tenant_def auth_tenant_def)

lemma list_conversation_sidebar_local [local_reads]:
  assumes rel: "related auth s s'"
  shows "list_conversation_sidebar auth s' = list_conversation_sidebar auth s"
proof -
  have "sidebar_record_of c (log_of (messages s') (rec_id c)) (conversation_runs auth (rec_id c) s') =
      sidebar_record_of c (log_of (messages s) (rec_id c)) (conversation_runs auth (rec_id c) s)"
    if "c \<in> set (list_conversations auth s)" for c
  proof -
    have "get_conversation auth (rec_id c) s = Some c"
      using that list_conversations_owned [OF repo_invD(1) [OF relatedD(1) [OF rel]], of auth]
      by (simp add: conv.fetch_eq owned_get_Some)
    then show ?thesis using thread_local [OF rel] conversation_runs_local [OF rel] by simp
  qed
  then show ?thesis
    unfolding list_conversation_sidebar_def list_conversations_local [OF rel]
    by (simp add: log_of_def)
qed

section \<open>Runs\<close>

lemma get_run_local [local_reads]:
  assumes "related auth s s'"
  shows "get_run auth k s' = get_run auth k s"
  using run.fetch_local [of s' s auth k] relatedD(1,2,6) [OF assms] repo_invD(2)
  by (simp add: run_invD(1) keyed_ok)

lemma list_runs_local [local_reads]:
  assumes "related auth s s'"
  shows "list_runs auth k s' = list_runs auth k s"
proof -
  have "filter (\<lambda>run. run_conversation_id run = x \<and> owner_user_id run = user_id auth
        \<and> workspace_id run = auth_workspace_id auth) (dict_values (runs s')) =
      filter (\<lambda>run. run_conversation_id run = x \<and> owner_user_id run = user_id auth
        \<and> workspace_id run = auth_workspace_id auth) (dict_values (runs s))" for x
    by (rule filter_related [OF relatedD(6) [OF assms]]) (simp add: row_tenant_def auth_tenant_def)
  then show ?thesis by (simp add: list_runs_def get_conversation_local [OF assms] split: option.split)
qed

lemma run_log_own:
  assumes "repo_inv s" "dict_get (runs s) k = Some r" "row_tenant r = t" "e \<in> set (log_of (run_events s) k)"
  shows "row_tenant e = t"
  using run_invD(6) [OF repo_invD(2) [OF assms(1)] _ _ assms(2)] assms(3,4)
  by (cases "dict_get (run_events s) k") (auto simp: log_of_def)

lemma run_log_local:
  assumes rel: "related auth s s'" and r: "dict_get (runs s) k = Some r" "row_tenant r = auth_tenant auth"
  shows "log_of (run_events s') k = log_of (run_events s) k"
proof (rule log_related [OF relatedD(7) [OF rel]])
  show "dict_ok (run_events s)" "dict_ok (run_events s')"
    using relatedD(1,2) [OF rel] by (simp_all add: run_invD(2) repo_invD(2))
  show "row_tenant e = auth_tenant auth" if "e \<in> set (log_of (run_events s) k)" for e
    using run_log_own [OF relatedD(1) [OF rel] r that] .
  have "get_run auth k s' = Some r"
    using r get_run_local [OF rel, of k] by (simp add: run.fetch_eq owned_get_Some is_authorized_tenant)
  then have r': "dict_get (runs s') k = Some r" by (rule run.fetch_stored)
  show "row_tenant e = auth_tenant auth" if "e \<in> set (log_of (run_events s') k)" for e
    using run_log_own [OF relatedD(2) [OF rel] r' r(2) that] .
qed

lemma fetched_run_log_local:
  assumes rel: "related auth s s'" and r: "get_run auth k s = Some r"
  shows "log_of (run_events s') (rec_id r) = log_of (run_events s) (rec_id r)"
proof (rule run_log_local [OF rel])
  show "dict_get (runs s) (rec_id r) = Some r" "row_tenant r = auth_tenant auth"
    using run.fetch_id [OF run_invD(1) [OF repo_invD(2) [OF relatedD(1) [OF rel]]] r] r
    by (simp_all add: run.fetch_eq owned_get_Some is_authorized_tenant)
qed

lemma list_run_events_local [local_reads]:
  assumes "related auth s s'"
  shows "list_run_events auth k s' = list_run_events auth k s"
  using fetched_run_log_local [OF assms]
  by (simp add: list_run_events_def get_run_local [OF assms] split: option.split)

lemma list_run_events_after_local [local_reads]:
  "related auth s s' \<Longrightarrow> list_run_events_after auth k i s' = list_run_events_after auth k i s"
  by (simp add: list_run_events_after_def list_run_events_local)

lemma summarize_run_events_local [local_reads]:
  assumes "related auth s s'"
  shows "summarize_run_events auth k s' = summarize_run_events auth k s"
  using fetched_run_log_local [OF assms]
  by (simp add: summarize_run_events_def Let_def get_run_local [OF assms] split: option.split)

section \<open>Artifacts and other outputs\<close>

lemma artifacts_local:
  assumes "related auth s s'" "\<And>a. P a \<Longrightarrow> is_authorized auth a"
  shows "filter P (dict_values (artifacts s')) = filter P (dict_values (artifacts s))"
  by (rule filter_related [OF relatedD(9) [OF assms(1)]]) (use assms(2) in \<open>simp add: is_authorized_tenant\<close>)

lemma list_artifacts_local [local_reads]:
  assumes "related auth s s'"
  shows "list_artifacts auth k s' = list_artifacts auth k s"
  unfolding list_artifacts_def get_run_local [OF assms]
  by (auto split: option.split intro!: arg_cong [of _ _ "py_sorted _"] artifacts_local [OF assms])

lemma get_artifact_local [local_reads]:
  assumes "related auth s s'"
  shows "get_artifact auth k s' = get_artifact auth k s"
  using art.fetch_local [of s' s auth k] relatedD(1,2,9) [OF assms] repo_invD(5)
  by (simp add: art_invD(1) keyed_ok)

lemma get_latest_conversation_artifact_local [local_reads]:
  assumes "related auth s s'"
  shows "get_latest_conversation_artifact auth k ks b s' = get_latest_conversation_artifact auth k ks b s"
  unfolding get_latest_conversation_artifact_def get_conversation_local [OF assms]
  by (auto split: option.split
      intro!: arg_cong [of _ _ "\<lambda>xs. head_opt (py_sorted_rev artifact_key xs)"] artifacts_local [OF assms])

lemma page_rows_local:
  assumes "related auth s s'"
  shows "page_rows auth cid vis s' = page_rows auth cid vis s"
  unfolding page_rows_def by (rule artifacts_local [OF assms]) simp

lemma artifact_page_at_local:
  "related auth s s' \<Longrightarrow> artifact_page_at auth cid l vis s' c = artifact_page_at auth cid l vis s c"
  by (simp add: artifact_page_at_def page_rows_local)

lemma artifacts_pages_local [local_reads]:
  assumes "related auth s s'"
  shows "list_workspace_artifacts_page auth l c vis s' = list_workspace_artifacts_page auth l c vis s"
    "list_conversation_artifacts_page auth k l c vis s' = list_conversation_artifacts_page auth k l c vis s"
  by (simp_all add: list_workspace_artifacts_page_def list_conversation_artifacts_page_def
      artifact_page_at_local [OF assms] get_conversation_local [OF assms] split: option.split)

lemma get_run_progress_snapshot_local [local_reads]:
  assumes "related auth s s'"
  shows "get_run_progress_snapshot auth k s' = get_run_progress_snapshot auth k s"
  unfolding get_run_progress_snapshot_def get_run_local [OF assms]
    summarize_run_events_local [OF assms] list_artifacts_local [OF assms] ..

lemma backtest_lookups_local [local_reads]:
  assumes "related auth s s'"
  shows "get_backtest_summary auth k s' = get_backtest_summary auth k s"
    "get_backtest_summaries auth ks s' = get_backtest_summaries auth ks s"
    "resolve_backtest_report_run_id auth cid k s' = resolve_backtest_report_run_id auth cid k s"
    "query_backtest_trades auth k s' = query_backtest_trades auth k s"
    "get_backtest_equity_summary auth k s' = get_backtest_equity_summary auth k s"
    "get_backtest_equity_summaries auth ks s' = get_backtest_equity_summaries auth ks s"
  by (simp_all add: get_backtest_summary_def get_backtest_summaries_def query_backtest_trades_def
      get_backtest_equity_summary_def get_backtest_equity_summaries_def
      resolve_backtest_report_run_id_def get_run_local [OF assms] list_runs_local [OF assms] Let_def)

lemma specs_local:
  assumes "related auth s s'" "\<And>a. P a \<Longrightarrow> is_authorized auth a"
  shows "filter P (dict_values (strategy_specs s')) = filter P (dict_values (strategy_specs s))"
  by (rule filter_related [OF relatedD(10) [OF assms(1)]]) (use assms(2) in \<open>simp add: is_authorized_tenant\<close>)

lemma get_strategy_spec_for_run_local [local_reads]:
  assumes "related auth s s'"
  shows "get_strategy_spec_for_run auth k s' = get_strategy_spec_for_run auth k s"
  unfolding get_strategy_spec_for_run_def get_run_local [OF assms]
  by (auto split: option.split
      intro!: arg_cong [of _ _ "\<lambda>xs. head_opt (py_sorted_rev spec_key xs)"] specs_local [OF assms])

lemma get_latest_strategy_spec_local [local_reads]:
  assumes "related auth s s'"
  shows "get_latest_strategy_spec_for_conversation auth k b s' =
    get_latest_strategy_spec_for_conversation auth k b s"
proof -
  have "filter (\<lambda>run. run_conversation_id run = k \<and> owns auth run) (dict_values (runs s')) =
      filter (\<lambda>run. run_conversation_id run = k \<and> owns auth run) (dict_values (runs s))"
    by (rule filter_related [OF relatedD(6) [OF assms]]) (simp add: is_authorized_tenant)
  then show ?thesis
    unfolding get_latest_strategy_spec_for_conversation_def get_conversation_local [OF assms] Let_def
    by (auto split: option.split
        intro!: arg_cong [of _ _ "\<lambda>xs. head_opt (py_sorted_rev spec_key xs)"] specs_local [OF assms])
qed

lemma own_run:
  assumes "repo_inv s" "get_run auth k s = Some r"
  shows "rec_id r = k" "dict_get (runs s) k = Some r" "row_tenant r = auth_tenant auth"
  using assms run.fetch_id [OF run_invD(1) [OF repo_invD(2) [OF assms(1)]] assms(2)]
  by (simp_all add: run.fetch_eq owned_get_Some is_authorized_tenant)

lemma children_values_own:
  assumes "children_ok run_of d rs" "dict_get rs k = Some r" "x \<in> set (dict_values d)" "run_of x = k"
  shows "row_tenant x = row_tenant r"
proof -
  have "dict_ok d" using assms(1) by (simp add: children_ok_def)
  with assms(3) obtain i where "dict_get d i = Some x" by (auto simp: dict_in_values_iff)
  with assms(1,2,4) show ?thesis by (fastforce simp: children_ok_def)
qed

text \<open>A filter that selects rows of the tenant only among the rows the table has.\<close>

lemma filter_related_in:
  assumes "tenant_rows (auth_tenant auth) d' = tenant_rows (auth_tenant auth) d"
    and "\<And>r. r \<in> set (dict_values d) \<Longrightarrow> P r \<Longrightarrow> row_tenant r = auth_tenant auth"
      "\<And>r. r \<in> set (dict_values d') \<Longrightarrow> P r \<Longrightarrow> row_tenant r = auth_tenant auth"
  shows "filter P (dict_values d') = filter P (dict_values d)"
proof -
  have "filter P (dict_values d) = filter (\<lambda>r. row_tenant r = auth_tenant auth \<and> P r) (dict_values d)"
    "filter P (dict_values d') = filter (\<lambda>r. row_tenant r = auth_tenant auth \<and> P r) (dict_values d')"
    using assms(2,3) by (auto intro!: filter_cong)
  with filter_related [OF assms(1), of "\<lambda>r. row_tenant r = auth_tenant auth \<and> P r"] show ?thesis
    by simp
qed

lemma list_policy_findings_local [local_reads]:
  assumes rel: "related auth s s'"
  shows "list_policy_findings auth k s' = list_policy_findings auth k s"
proof (cases "get_run auth k s")
  case None
  with get_run_local [OF rel, of k] show ?thesis by (simp add: list_policy_findings_def)
next
  case (Some r)
  with get_run_local [OF rel, of k] have r': "get_run auth k s' = Some r" by simp
  note o1 = own_run [OF relatedD(1) [OF rel] Some] and o2 = own_run [OF relatedD(2) [OF rel] r']
  have ok: "children_ok pf_run_id (policy_findings s) (runs s)"
    "children_ok pf_run_id (policy_findings s') (runs s')"
    using repo_invD(6) [OF relatedD(1) [OF rel]] repo_invD(6) [OF relatedD(2) [OF rel]]
    by (simp_all add: child_inv_def)
  have "filter (\<lambda>x. pf_run_id x = k) (dict_values (policy_findings s')) =
      filter (\<lambda>x. pf_run_id x = k) (dict_values (policy_findings s))"
    by (rule filter_related_in [OF relatedD(11) [OF rel]])
      (use children_values_own [OF ok(1) o1(2)] children_values_own [OF ok(2) o2(2)] o1(3) in auto)
  then show ?thesis by (simp add: list_policy_findings_def Some r' o1(1))
qed

lemma usage_values_own:
  assumes "usage_ok d rs" "dict_get rs k = Some r" "x \<in> set (dict_values d)" "use_run_id x = Some k"
  shows "row_tenant x = row_tenant r"
proof -
  have "dict_ok d" using assms(1) by (simp add: usage_ok_def)
  with assms(3) obtain i where "dict_get d i = Some x" by (auto simp: dict_in_values_iff)
  with assms(1,2,4) show ?thesis by (fastforce simp: usage_ok_def)
qed

lemma list_usage_ledger_local [local_reads]:
  assumes rel: "related auth s s'"
  shows "list_usage_ledger auth k s' = list_usage_ledger auth k s"
proof (cases "get_run auth k s")
  case None
  with get_run_local [OF rel, of k] show ?thesis by (simp add: list_usage_ledger_def)
next
  case (Some r)
  with get_run_local [OF rel, of k] have r': "get_run auth k s' = Some r" by simp
  note o1 = own_run [OF relatedD(1) [OF rel] Some] and o2 = own_run [OF relatedD(2) [OF rel] r']
  have ok: "usage_ok (usage_ledger s) (runs s)" "usage_ok (usage_ledger s') (runs s')"
    using repo_invD(6) [OF relatedD(1) [OF rel]] repo_invD(6) [OF relatedD(2) [OF rel]]
    by (simp_all add: child_inv_def)
  have "filter (\<lambda>x. use_run_id x = Some k) (dict_values (usage_ledger s')) =
      filter (\<lambda>x. use_run_id x = Some k) (dict_values (usage_ledger s))"
    by (rule filter_related_in [OF relatedD(12) [OF rel]])
      (use usage_values_own [OF ok(1) o1(2)] usage_values_own [OF ok(2) o2(2)] o1(3) in auto)
  then show ?thesis by (simp add: list_usage_ledger_def Some r' o1(1))
qed

lemma tool_calls_of_run:
  assumes "dict_get (runs s) k = Some r" "row_tenant r = t"
  shows "filter (\<lambda>c. tc_run_id c = k) (dict_values (tool_calls s)) =
    filter (\<lambda>c. tc_run_id c = k) (dict_values (tool_view t s))"
  using assms by (auto simp: tool_view_def dict_values_filter intro!: filter_cong)

lemma list_tool_calls_local [local_reads]:
  assumes rel: "related auth s s'"
  shows "list_tool_calls auth k s' = list_tool_calls auth k s"
proof (cases "get_run auth k s")
  case None
  with get_run_local [OF rel, of k] show ?thesis by (simp add: list_tool_calls_def)
next
  case (Some r)
  with get_run_local [OF rel, of k] have r': "get_run auth k s' = Some r" by simp
  note o1 = own_run [OF relatedD(1) [OF rel] Some] and o2 = own_run [OF relatedD(2) [OF rel] r']
  show ?thesis
    using tool_calls_of_run [OF o1(2,3)] tool_calls_of_run [OF o2(2,3)] relatedD(13) [OF rel]
    by (simp add: list_tool_calls_def Some r' o1(1))
qed

lemma summarize_account_usage_local [local_reads]:
  assumes rel: "related auth s s'"
  shows "summarize_account_usage auth s' = summarize_account_usage auth s"
proof -
  have "filter (owns auth) (concat (dict_values (messages s'))) =
      filter (owns auth) (concat (dict_values (messages s)))"
    by (rule concat_related [OF relatedD(4) [OF rel]]) (simp add: is_authorized_tenant)
  moreover have "filter (owns auth) (dict_values (runs s')) = filter (owns auth) (dict_values (runs s))"
    "filter (owns auth) (dict_values (artifacts s')) = filter (owns auth) (dict_values (artifacts s))"
    "filter (owns auth) (dict_values (usage_ledger s')) = filter (owns auth) (dict_values (usage_ledger s))"
    using relatedD(6,9,12) [OF rel] by (auto intro!: filter_related simp: is_authorized_tenant)
  ultimately show ?thesis by (simp only: summarize_account_usage_def)
qed

section \<open>Workflow tasks\<close>

lemma get_workflow_task_local [local_reads]:
  assumes "related auth s s'"
  shows "get_workflow_task auth k s' = get_workflow_task auth k s"
  using task.fetch_local [of s' s auth k] relatedD(1,2,8) [OF assms] repo_invD(4)
  by (simp add: task_inv_def tasks_okD(1) keyed_ok)

lemma list_workflow_tasks_local [local_reads]:
  assumes "related auth s s'"
  shows "list_workflow_tasks auth k s' = list_workflow_tasks auth k s"
  unfolding list_workflow_tasks_def get_conversation_local [OF assms]
  by (auto split: option.split simp: is_authorized_tenant intro!: arg_cong [of _ _ "py_sorted _"]
      filter_related [OF relatedD(8) [OF assms]])

lemma continuation_events_local [local_reads]:
  assumes "related auth s s'"
  shows "list_workflow_task_continuation_events auth k s' =
    list_workflow_task_continuation_events auth k s"
proof -
  let ?P = "\<lambda>task event. evt_conversation_id event = task_conversation_id task
      \<and> owner_user_id event = user_id auth \<and> workspace_id event = auth_workspace_id auth
      \<and> evt_type event \<in> set WORKFLOW_CONTINUATION_EVENT_TYPES
      \<and> (case evt_payload event of None \<Rightarrow> False
         | Some p \<Rightarrow> jget p ''task_id'' = JStr (rec_id task))"
  have own: "?P task e \<Longrightarrow> row_tenant e = auth_tenant auth" for task e
    by (simp add: row_tenant_def auth_tenant_def)
  have eq: "filter (?P task) (concat (dict_values (run_events s'))) =
      filter (?P task) (concat (dict_values (run_events s)))" for task
    by (rule concat_related [OF relatedD(7) [OF assms] own])
  show ?thesis
    unfolding list_workflow_task_continuation_events_def get_workflow_task_local [OF assms] eq ..
qed

section \<open>Runtimes and bots\<close>

lemma get_nautilus_runtime_local [local_reads]:
  assumes "related auth s s'"
  shows "get_nautilus_runtime auth k s' = get_nautilus_runtime auth k s"
  using nrt.fetch_local [of s' s auth k] relatedD(1,2,14) [OF assms] repo_invD(7)
  by (simp add: nrt_invD(1) keyed_ok)

lemma list_nautilus_runtimes_local [local_reads]:
  assumes "related auth s s'"
  shows "list_nautilus_runtimes auth m l s' = list_nautilus_runtimes auth m l s"
  unfolding list_nautilus_runtimes_def
  by (intro arg_cong [of _ _ "\<lambda>xs. first_n _ (py_sorted_rev runtime_order_key xs)"]
      filter_related [OF relatedD(14) [OF assms]]) (simp add: is_authorized_tenant)

lemma nrt_log_own:
  assumes "repo_inv s" "dict_get (nautilus_runtimes s) k = Some r" "row_tenant r = t"
    "e \<in> set (log_of (nautilus_events s) k)"
  shows "row_tenant e = t"
  using nrt_invD(6) [OF repo_invD(7) [OF assms(1)], of e k] assms(2-4) by (auto simp: nrt_log_def)

lemma list_nautilus_runtime_events_local [local_reads]:
  assumes rel: "related auth s s'"
  shows "list_nautilus_runtime_events auth k l a s' = list_nautilus_runtime_events auth k l a s"
proof (cases "get_nautilus_runtime auth k s")
  case None
  with get_nautilus_runtime_local [OF rel, of k] show ?thesis
    by (simp add: list_nautilus_runtime_events_def)
next
  case (Some r)
  with get_nautilus_runtime_local [OF rel, of k] have r': "get_nautilus_runtime auth k s' = Some r" by simp
  have id: "rec_id r = k"
    using nrt.fetch_id [OF nrt_invD(1) [OF repo_invD(7) [OF relatedD(1) [OF rel]]] Some] .
  have g: "dict_get (nautilus_runtimes s) k = Some r" "dict_get (nautilus_runtimes s') k = Some r"
    "row_tenant r = auth_tenant auth"
    using Some r' by (simp_all add: nrt.fetch_eq owned_get_Some is_authorized_tenant)
  have "log_of (nautilus_events s') k = log_of (nautilus_events s) k"
    using nrt_invD(2) [OF repo_invD(7) [OF relatedD(1) [OF rel]]]
      nrt_invD(2) [OF repo_invD(7) [OF relatedD(2) [OF rel]]]
      nrt_log_own [OF relatedD(1) [OF rel] g(1,3)] nrt_log_own [OF relatedD(2) [OF rel] g(2,3)]
    by (intro log_related [OF relatedD(15) [OF rel]])
  then show ?thesis by (simp add: list_nautilus_runtime_events_def Some r' id)
qed

lemma get_bot_proposal_local [local_reads]:
  assumes "related auth s s'"
  shows "get_bot_proposal auth k s' = get_bot_proposal auth k s"
  using bot.fetch_local [of s' s auth k] relatedD(1,2,16) [OF assms] repo_invD(8)
  by (simp add: bot_inv_def keyed_ok)

section \<open>The snapshot\<close>

lemma head_opt_in: "head_opt xs = Some x \<Longrightarrow> x \<in> set xs"
  by (cases xs) (auto simp: head_opt_def)

lemma get_conversation_state_snapshot_local [local_reads]:
  assumes rel: "related auth s s'"
  shows "get_conversation_state_snapshot auth k el ml s' = get_conversation_state_snapshot auth k el ml s"
proof (cases "get_conversation auth k s")
  case None
  with get_conversation_local [OF rel, of k] show ?thesis
    by (simp add: get_conversation_state_snapshot_def)
next
  case (Some c)
  with get_conversation_local [OF rel, of k] have c': "get_conversation auth k s' = Some c" by simp
  have id: "rec_id c = k"
    using conv.fetch_id [OF conv_invD(1) [OF repo_invD(1) [OF relatedD(1) [OF rel]]] Some] .
  have own: "log_of (run_events s') (rec_id r) = log_of (run_events s) (rec_id r)"
    if "r \<in> set (conversation_runs auth k s)" for r
  proof (rule run_log_local [OF rel])
    have r: "r \<in> set (dict_values (runs s))" "row_tenant r = auth_tenant auth"
      using that by (simp_all add: conversation_runs_def row_tenant_def auth_tenant_def)
    show "dict_get (runs s) (rec_id r) = Some r"
      using keyed_value [OF run_invD(1) [OF repo_invD(2) [OF relatedD(1) [OF rel]]] r(1)] .
    show "row_tenant r = auth_tenant auth" by (rule r(2))
  qed
  let ?latest = "head_opt (py_sorted_rev run_order_key (conversation_runs auth k s))"
  have latest: "log_of (run_events s') (rec_id r) = log_of (run_events s) (rec_id r)"
    if "?latest = Some r" for r
  proof (rule own)
    have "r \<in> set (py_sorted_rev run_order_key (conversation_runs auth k s))"
      using that by (rule head_opt_in)
    then show "r \<in> set (conversation_runs auth k s)" by simp
  qed
  have events: "(case ?latest of None \<Rightarrow> [] | Some run \<Rightarrow> log_of (run_events s') (rec_id run)) =
      (case ?latest of None \<Rightarrow> [] | Some run \<Rightarrow> log_of (run_events s) (rec_id run))"
    using latest by (simp split: option.split)
  have all_events: "map (\<lambda>run. log_of (run_events s') (rec_id run)) (conversation_runs auth k s) =
      map (\<lambda>run. log_of (run_events s) (rec_id run)) (conversation_runs auth k s)"
    using own by simp
  have arts: "filter (\<lambda>a. art_run_id a = x \<and> owns auth a) (dict_values (artifacts s')) =
      filter (\<lambda>a. art_run_id a = x \<and> owns auth a) (dict_values (artifacts s))"
    "filter (\<lambda>a. art_conversation_id a = x \<and> owns auth a \<and> is_user_visible_artifact_kind (art_kind a))
        (dict_values (artifacts s')) =
      filter (\<lambda>a. art_conversation_id a = x \<and> owns auth a \<and> is_user_visible_artifact_kind (art_kind a))
        (dict_values (artifacts s))" for x
    by (rule artifacts_local [OF rel]; simp)+
  have spec: "latest_spec_of auth run s' = latest_spec_of auth run s" for run
    using find_own [of "\<lambda>spec. spec_run_id spec = x \<and> owns auth spec" "auth_tenant auth" "strategy_specs s"
        for x]
      find_own [of "\<lambda>spec. spec_run_id spec = x \<and> owns auth spec" "auth_tenant auth" "strategy_specs s'"
        for x] relatedD(10) [OF rel]
    by (simp add: latest_spec_of_def is_authorized_tenant split: option.split)
  show ?thesis
    unfolding get_conversation_state_snapshot_def Some c' id option.case Let_def
      conversation_runs_local [OF rel] thread_local [OF rel Some] events all_events arts spec ..
qed

section \<open>Every read\<close>

text \<open>The calls that only look.\<close>

fun reads_only :: "tenant_call \<Rightarrow> bool" where
  "reads_only (Conversation_call c) = (case c of
      List_conversations \<Rightarrow> True | List_conversation_sidebar \<Rightarrow> True | Get_conversation _ \<Rightarrow> True
    | List_messages _ \<Rightarrow> True | List_messages_for_context _ _ \<Rightarrow> True
    | Get_conversation_memory _ \<Rightarrow> True | Get_conversation_state_snapshot _ _ _ \<Rightarrow> True
    | _ \<Rightarrow> False)"
| "reads_only (Run_call c) = (case c of
      List_runs _ \<Rightarrow> True | Get_run _ \<Rightarrow> True | List_run_events _ \<Rightarrow> True
    | List_run_events_after _ _ \<Rightarrow> True | Summarize_run_events _ \<Rightarrow> True
    | Get_run_progress_snapshot _ \<Rightarrow> True | _ \<Rightarrow> False)"
| "reads_only (Task_call c) = (case c of
      List_workflow_task_continuation_events _ \<Rightarrow> True | List_workflow_tasks _ \<Rightarrow> True
    | Get_workflow_task _ \<Rightarrow> True | _ \<Rightarrow> False)"
| "reads_only (Output_call c) = (case c of
      Create_strategy_spec _ _ _ \<Rightarrow> False | Create_artifact _ _ \<Rightarrow> False | Create_artifacts _ _ \<Rightarrow> False
    | Create_validation_report _ _ _ \<Rightarrow> False | Create_review_report _ _ _ \<Rightarrow> False
    | Create_tool_call _ _ _ _ _ \<Rightarrow> False | Complete_tool_call _ _ _ _ \<Rightarrow> False
    | Create_policy_finding _ _ _ _ _ \<Rightarrow> False | Create_usage_ledger _ _ _ _ _ _ \<Rightarrow> False
    | _ \<Rightarrow> True)"
| "reads_only (Runtime_call c) = (case c of
      List_nautilus_runtimes _ _ \<Rightarrow> True | Get_nautilus_runtime _ \<Rightarrow> True
    | List_nautilus_runtime_events _ _ _ \<Rightarrow> True | _ \<Rightarrow> False)"
| "reads_only (Bot_call c) = (case c of Get_bot_proposal _ \<Rightarrow> True | _ \<Rightarrow> False)"

lemma reads_change_nothing: "reads_only c \<Longrightarrow> snd (exec e auth c s) = s"
proof (cases c)
  case (Conversation_call x)
  then show "reads_only c \<Longrightarrow> ?thesis" by (cases x) simp_all
next
  case (Run_call x)
  then show "reads_only c \<Longrightarrow> ?thesis" by (cases x) simp_all
next
  case (Task_call x)
  then show "reads_only c \<Longrightarrow> ?thesis" by (cases x) simp_all
next
  case (Output_call x)
  then show "reads_only c \<Longrightarrow> ?thesis" by (cases x) simp_all
next
  case (Runtime_call x)
  then show "reads_only c \<Longrightarrow> ?thesis" by (cases x) simp_all
next
  case (Bot_call x)
  then show "reads_only c \<Longrightarrow> ?thesis" by (cases x) simp_all
qed

lemma reads_local:
  assumes rel: "related auth s s'" and c: "reads_only c"
  shows "fst (exec e auth c s') = fst (exec e auth c s)"
proof (cases c)
  case (Conversation_call x)
  with c show ?thesis by (cases x) (simp_all add: local_reads [OF rel])
next
  case (Run_call x)
  with c show ?thesis by (cases x) (simp_all add: local_reads [OF rel])
next
  case (Task_call x)
  with c show ?thesis by (cases x) (simp_all add: local_reads [OF rel])
next
  case (Output_call x)
  with c show ?thesis by (cases x) (simp_all add: local_reads [OF rel])
next
  case (Runtime_call x)
  with c show ?thesis by (cases x) (simp_all add: local_reads [OF rel])
next
  case (Bot_call x)
  with c show ?thesis by (cases x) (simp_all add: local_reads [OF rel])
qed

lemma run_related:
  assumes "repo_run s ls s'" "repo_inv s" "only_others (auth_tenant auth) ls"
  shows "related auth s s'"
  using repo_run_isolated [OF assms] repo_run_inv [OF assms(1,2)] assms(2) by (simp add: related_def)

end
