(* ===== verification/System_Claims.thy ===== *)
theory System_Claims
  imports Reads
begin

text \<open>
  The properties of the whole repository: what every sequence of calls keeps, and that a tenant
  sees nothing of what another tenant does.
\<close>

section \<open>A sample run\<close>

definition plain_env :: "char \<Rightarrow> datetime \<Rightarrow> env" where
  "plain_env a now = \<lparr>env_now = now, env_draw = (\<lambda>i. a # unary i), env_repr = (\<lambda>_. [])\<rparr>"

lemma plain_env_simps [simp]:
  "env_now (plain_env a now) = now" "env_draw (plain_env a now) i = a # unary i"
  by (simp_all add: plain_env_def)

lemma inj_plain_env: "inj (env_draw (plain_env a now))"
  using inj_unary by (auto simp: inj_def)

definition alice_call :: tenant_call where
  "alice_call = Conversation_call (Create_conversation (Some ''breakout''))"

definition bob_call :: tenant_call where
  "bob_call = Conversation_call (Create_conversation (Some ''mean reversion''))"

definition after_alice :: repo where
  "after_alice = snd (exec (plain_env CHR ''a'' 1) alice alice_call init_repo)"

definition after_bob :: repo where
  "after_bob = snd (exec (plain_env CHR ''b'' 2) bob bob_call after_alice)"

lemmas fresh_defs = fresh_ids_def unused_conv_def unused_run_def unused_job_def unused_task_def
  unused_artifact_def unused_runtime_def unused_event_def unused_bot_def unused_feedback_def
  nrt_log_def

lemma fresh_start: "fresh_env (plain_env a now) init_repo"
  by (simp add: fresh_env_def inj_plain_env fresh_defs init_repo_def log_of_def)

lemma fresh_second: "fresh_env (plain_env CHR ''b'' now) after_alice"
  by (simp add: fresh_env_def inj_plain_env fresh_defs after_alice_def alice_call_def
      create_conversation_def Let_def init_repo_def log_of_def opaque_id_def)

lemma alice_step: "repo_step init_repo (Some (alice, alice_call)) after_alice"
  unfolding after_alice_def by (rule repo_step.tenant [OF fresh_start])

lemma bob_step: "repo_step after_alice (Some (bob, bob_call)) after_bob"
  unfolding after_bob_def by (rule repo_step.tenant [OF fresh_second])

lemma bob_run: "repo_run after_alice [Some (bob, bob_call)] after_bob"
  by (rule repo_run.move [OF bob_step repo_run.stay])

lemma sample_run: "repo_run init_repo [Some (alice, alice_call), Some (bob, bob_call)] after_bob"
  by (rule repo_run.move [OF alice_step bob_run])

lemma after_alice_inv: "repo_inv after_alice"
  by (rule repo_step_inv [OF alice_step repo_inv_init])

lemma bob_is_other: "only_others (auth_tenant alice) [Some (bob, bob_call)]"
  by (simp add: only_others_def auth_tenant_def alice_def bob_def)

section \<open>Properties\<close>

text \<open>
  C2: Every state that the in-memory repository reaches from the empty one, by any sequence of
  calls of tenants and of background workers, is well formed: every table is keyed by the ids of
  its rows, conversations own their messages and memories, runs have a log numbered 1, 2, 3, ...,
  jobs, artifacts and run outputs belong to the tenant of their run, task slots are unique, and
  runtimes own their events.
\<close>

theorem reachable_wellformed:
  assumes "repo_run init_repo ls s"
  shows "repo_inv s"
  using repo_run_inv [OF assms repo_inv_init] .

theorem reachable_wellformed_witness:
  "repo_run init_repo [Some (alice, alice_call), Some (bob, bob_call)] after_bob \<and> repo_inv after_bob"
  using sample_run reachable_wellformed [OF sample_run] by simp

text \<open>
  C1: Whatever the other tenants call, in any number and order, the repository holds for a tenant
  exactly the rows it held before: conversations, messages, memories, runs, events, jobs, tasks,
  artifacts, run outputs, runtimes and bot proposals.
\<close>

theorem tenant_isolation:
  assumes "repo_run s ls s'" "repo_inv s" "only_others t ls"
  shows "same_view t s s'"
  by (rule repo_run_isolated [OF assms])

theorem tenant_isolation_witness:
  "same_view (auth_tenant alice) after_alice after_bob \<and>
   length (conversations after_alice) = 1 \<and> length (conversations after_bob) = 2"
proof -
  have "length (conversations after_alice) = 1 \<and> length (conversations after_bob) = 2" by code_simp
  with tenant_isolation [OF bob_run after_alice_inv bob_is_other] show ?thesis by simp
qed

text \<open>
  No read of a tenant, by any method of the interface that only looks, answers differently
  after other tenants have made any sequence of calls.
\<close>

theorem tenant_reads_unaffected:
  assumes "repo_run s ls s'" "repo_inv s" "only_others (auth_tenant auth) ls" "reads_only c"
  shows "fst (exec e auth c s') = fst (exec e auth c s)"
  by (rule reads_local [OF run_related [OF assms(1-3)] assms(4)])

theorem tenant_reads_unaffected_witness:
  "let c = Conversation_call List_conversations in
   fst (exec (plain_env CHR ''c'' 3) alice c after_bob) =
     fst (exec (plain_env CHR ''c'' 3) alice c after_alice)"
proof -
  have "reads_only (Conversation_call List_conversations)" by simp
  from tenant_reads_unaffected [OF bob_run after_alice_inv bob_is_other this]
  show ?thesis by (simp only: Let_def)
qed

end
