(* ===== verification/Store_Claims.thy ===== *)
theory Store_Claims
  imports Reads
begin

text \<open>
  The properties of the conversation, run, job, artifact, usage and feedback tables of the
  in-memory repository, each with a witness on a small repository.
\<close>

section \<open>A sample repository\<close>

text \<open>One conversation of alice, with one run.\<close>

definition desk :: repo where
  "desk = snd (create_run 1 ''r'' ''q'' ''t'' alice ''conv_c'' ''queued'' (Some ''backtest-preview'')
     None None None (snd (create_conversation 0 ''c'' alice (Some ''breakout'') init_repo)))"

lemma desk_conv_inv: "conv_inv desk"
proof -
  have c: "conv_inv (snd (create_conversation 0 ''c'' alice (Some ''breakout'') init_repo))"
    by (rule create_conversation_inv [OF conv_inv_init]) (simp add: unused_conv_def init_repo_def)
  show ?thesis
    unfolding desk_def
    by (rule conv_inv_frame [OF _ c])
      (auto simp: same_conv_def create_run_def Let_def split: option.split)
qed

lemma desk_run_inv: "run_inv desk"
proof -
  have "run_inv (snd (create_conversation 0 ''c'' alice (Some ''breakout'') init_repo))"
    by (rule run_inv_frame [OF _ run_inv_init])
      (simp add: same_runs_def create_conversation_def Let_def)
  then show ?thesis
    unfolding desk_def
    by (rule create_run_inv)
      (simp add: unused_run_def create_conversation_def Let_def init_repo_def)
qed

lemma desk_job_inv: "job_inv desk"
  unfolding desk_def
  by (simp add: job_inv_def create_run_def create_conversation_def Let_def init_repo_def)

text \<open>Two jobs of the run, each of which allows its workspace one active job.\<close>

definition narrow :: payload where
  "narrow = [(''limits'', JObj [(''workspace_active_limit'', JInt 1)])]"

definition one_job :: repo where
  "one_job = snd (create_run_job 2 ''1'' alice ''run_r'' ''backtest'' narrow 3 desk)"

definition two_jobs :: repo where
  "two_jobs = snd (create_run_job 3 ''2'' alice ''run_r'' ''backtest'' narrow 3 one_job)"

definition first_claimed :: repo where
  "first_claimed = snd (claim_run_job 4 ''backtest'' ''w'' 60 two_jobs)"

lemma enqueue_one: "queue_step desk None one_job"
proof (rule queue_step.enqueue)
  show "unused_job (opaque_id ''job'' ''1'') desk" unfolding unused_job_def by code_simp
  show "create_run_job 2 ''1'' alice ''run_r'' ''backtest'' narrow 3 desk =
      (fst (create_run_job 2 ''1'' alice ''run_r'' ''backtest'' narrow 3 desk), one_job)"
    by (simp add: one_job_def)
qed

lemma enqueue_two: "queue_step one_job None two_jobs"
proof (rule queue_step.enqueue)
  show "unused_job (opaque_id ''job'' ''2'') one_job" unfolding unused_job_def by code_simp
  show "create_run_job 3 ''2'' alice ''run_r'' ''backtest'' narrow 3 one_job =
      (fst (create_run_job 3 ''2'' alice ''run_r'' ''backtest'' narrow 3 one_job), two_jobs)"
    by (simp add: two_jobs_def)
qed

lemma two_jobs_inv: "run_inv two_jobs" "job_inv two_jobs"
  using queue_step_inv [OF enqueue_two] queue_step_inv [OF enqueue_one desk_run_inv desk_job_inv]
  by blast+

lemma claim_first:
  "\<exists>j. claim_run_job 4 ''backtest'' ''w'' 60 two_jobs = (Some j, first_claimed) \<and> rec_id j = ''job_1''
     \<and> job_order_key j = (2, ''job_1'')"
proof -
  have "map_option (\<lambda>j. (rec_id j, job_order_key j)) (fst (claim_run_job 4 ''backtest'' ''w'' 60 two_jobs))
      = Some (''job_1'', (2, ''job_1''))"
    by code_simp
  then show ?thesis
    unfolding first_claimed_def
    by (cases "claim_run_job 4 ''backtest'' ''w'' 60 two_jobs") auto
qed

section \<open>Conversations\<close>

text \<open>
  A message that is created is the last of its conversation's thread, has the content and the
  role that were sent, makes its conversation the most recently updated one of the caller, and
  changes no other thread.
\<close>

theorem message_appended:
  assumes inv: "conv_inv s"
    and ok: "create_message now uuid auth cid content role s = (Inr (Some m), s')"
  shows "list_messages auth cid s' = list_messages auth cid s @ [m] \<and>
    msg_content m = content \<and> msg_role m = role \<and> msg_conversation_id m = cid \<and>
    (\<exists>c. get_conversation auth cid s' = Some c \<and> conv_updated_at c = now) \<and>
    (\<forall>auth' k. k \<noteq> cid \<longrightarrow> list_messages auth' k s' = list_messages auth' k s)"
proof (cases rule: create_message_cases [of auth cid s now uuid content role])
  case (stored c thread m')
  have id: "rec_id c = cid"
    using conv.fetch_id stored(1) conv_invD(1) [OF inv] by blast
  have "is_authorized auth (c\<lparr>conv_updated_at := now\<rparr>)"
    using conv.fetch_owned [OF stored(1)] by (simp add: is_authorized_def)
  then have "get_conversation auth cid s' = Some (c\<lparr>conv_updated_at := now\<rparr>)"
    using ok stored(4) id by (auto simp: get_conversation_def)
  then show ?thesis
    using create_message_appends [OF inv ok] ok stored(3,4) id by auto
qed (use ok in simp_all)

theorem message_appended_witness:
  "\<exists>m s'. create_message 5 ''m'' alice ''conv_c'' ''hello'' ''user'' desk = (Inr (Some m), s') \<and>
     list_messages alice ''conv_c'' s' = [m] \<and> msg_content m = ''hello''"
proof -
  let ?r = "create_message 5 ''m'' alice ''conv_c'' ''hello'' ''user'' desk"
  have "(case fst ?r of Inr (Some _) \<Rightarrow> True | _ \<Rightarrow> False)" by code_simp
  then obtain m where "fst ?r = Inr (Some m)" by (auto split: sum.splits option.splits)
  then have m: "?r = (Inr (Some m), snd ?r)" by (simp add: prod_eq_iff)
  have "list_messages alice ''conv_c'' desk = []" by code_simp
  with message_appended [OF desk_conv_inv m] have
    "list_messages alice ''conv_c'' (snd ?r) = [m] \<and> msg_content m = ''hello''" by auto
  with m show ?thesis by blast
qed

text \<open>
  The conversation list shows the caller exactly the conversations the caller owns, latest
  update first.
\<close>

theorem conversation_listing:
  assumes "conv_inv s"
  shows "set (list_conversations auth s) =
      {c. is_authorized auth c \<and> dict_get (conversations s) (rec_id c) = Some c} \<and>
    distinct (map rec_id (list_conversations auth s)) \<and>
    sorted_wrt (\<lambda>c d. conv_updated_at d \<le> conv_updated_at c) (list_conversations auth s)"
proof -
  have "distinct (map rec_id (list_conversations auth s))"
    using keyed_ids_distinct [OF conv_invD(1) [OF assms]]
    unfolding list_conversations_def by (rule distinct_map_filter_rev_sort)
  then show ?thesis by (simp add: list_conversations_owned [OF assms] list_conversations_sorted)
qed

theorem conversation_listing_witness:
  "distinct (map rec_id (list_conversations alice desk)) \<and>
   map rec_id (list_conversations alice desk) = [''conv_c''] \<and> list_conversations bob desk = []"
proof -
  have "map rec_id (list_conversations alice desk) = [''conv_c'']" "list_conversations bob desk = []"
    by code_simp+
  with conversation_listing [OF desk_conv_inv, of alice] show ?thesis by simp
qed

text \<open>
  Replacing the memory of a conversation keeps its id and its creation time, raises the
  version by one, never stores a negative token estimate, and is what the next lookup answers.
\<close>

theorem memory_replaced:
  assumes "upsert_conversation_memory now uuid auth cid summary cov tok s = (Some m, s')"
    and "dict_get (memories s) cid = Some m0"
  shows "mem_summary_version m = mem_summary_version m0 + 1 \<and> rec_id m = rec_id m0 \<and>
    created_at m = created_at m0 \<and> mem_summary m = summary \<and> 0 \<le> mem_estimated_tokens m \<and>
    get_conversation_memory auth cid s' = Some m"
  using assms
  by (auto simp: upsert_conversation_memory_def get_conversation_memory_def get_conversation_def
      is_authorized_def Let_def split: option.splits if_splits)

definition remembered :: repo where
  "remembered = snd (upsert_conversation_memory 6 ''m1'' alice ''conv_c'' ''short'' None 12 desk)"

theorem memory_replaced_witness:
  "\<exists>m s'. upsert_conversation_memory 7 ''m2'' alice ''conv_c'' ''longer'' None (-3) remembered = (Some m, s')
     \<and> mem_summary_version m = 2 \<and> rec_id m = ''mem_m1'' \<and> mem_estimated_tokens m = 0"
proof -
  let ?r = "upsert_conversation_memory 7 ''m2'' alice ''conv_c'' ''longer'' None (-3) remembered"
  have "map_option mem_estimated_tokens (fst ?r) = Some 0" by code_simp
  then obtain m where m: "?r = (Some m, snd ?r)" "mem_estimated_tokens m = 0"
    by (auto simp: prod_eq_iff)
  have "map_option (\<lambda>m0. (mem_summary_version m0, rec_id m0)) (dict_get (memories remembered) ''conv_c'') =
      Some (1, ''mem_m1'')" by code_simp
  then obtain m0 where m0: "dict_get (memories remembered) ''conv_c'' = Some m0"
    "mem_summary_version m0 = 1" "rec_id m0 = ''mem_m1''" by auto
  from memory_replaced [OF m(1) m0(1)] m m0 show ?thesis by auto
qed

section \<open>Event streams\<close>




section \<open>The job queue\<close>

text \<open>
  C9: A claim never takes a workspace over the limit of active jobs that the claimed job states:
  right after the claim the workspace runs at most that many jobs of the type.
\<close>

theorem claim_within_limit:
  assumes "job_inv s" "0 \<le> l" "claim_run_job now ty w l s = (Some job', s')"
  shows "workspace_running_count now (job_type job') (workspace_id job') s' \<le>
    job_workspace_active_limit job'"
  by (rule claim_respects_limit [OF assms])

theorem claim_within_limit_witness:
  "\<exists>j. claim_run_job 4 ''backtest'' ''w'' 60 two_jobs = (Some j, first_claimed) \<and>
     workspace_running_count 4 (job_type j) (workspace_id j) first_claimed \<le> job_workspace_active_limit j"
proof -
  obtain j where j: "claim_run_job 4 ''backtest'' ''w'' 60 two_jobs = (Some j, first_claimed)"
    using claim_first by blast
  have "(0::int) \<le> 60" by simp
  from claim_within_limit [OF two_jobs_inv(2) this j] j show ?thesis by blast
qed

text \<open>
  A claim hands out the oldest job of the type that may be claimed: every older one is held
  back by the limit of its workspace.
\<close>

theorem claim_oldest_first:
  assumes "claim_run_job now ty w l s = (Some job', s')" "job_inv s"
    and "dict_get (run_jobs s) k = Some other" "claimable now ty other"
    and "job_order_key other < job_order_key job'"
  shows "job_workspace_active_limit other \<le>
    workspace_running_count now (job_type other) (workspace_id other) s"
  using assms(1)
proof (cases rule: claim_run_job_cases [of now ty s w l])
  case (claimed job j')
  have "job_order_key job' = job_order_key job"
    using assms(1) claimed(2,3) by (auto simp: job_order_key_def)
  moreover have "other \<in> set (dict_values (run_jobs s))"
    using dict_value_in [OF assms(3)] .
  ultimately show ?thesis
    using claim_candidate_oldest [OF claimed(1) assms(4)] assms(5) by simp
qed simp

text \<open>A third job, of a workspace that may run two (the default), while the first one runs.\<close>

definition three_jobs :: repo where
  "three_jobs = snd (create_run_job 5 ''3'' alice ''run_r'' ''backtest'' [] 3 first_claimed)"

lemma first_claimed_inv: "run_inv first_claimed" "job_inv first_claimed"
proof -
  obtain j where "claim_run_job 4 ''backtest'' ''w'' 60 two_jobs = (Some j, first_claimed)"
    using claim_first by blast
  from queue_step_inv [OF queue_step.claim [OF this] two_jobs_inv]
  show "run_inv first_claimed" "job_inv first_claimed" by blast+
qed

lemma three_jobs_inv: "job_inv three_jobs"
  unfolding three_jobs_def by (rule create_run_job_inv [OF first_claimed_inv])

theorem claim_oldest_first_witness:
  "\<exists>j s' other. claim_run_job 6 ''backtest'' ''w'' 60 three_jobs = (Some j, s') \<and> rec_id j = ''job_3'' \<and>
     dict_get (run_jobs three_jobs) ''job_2'' = Some other \<and>
     job_workspace_active_limit other \<le>
       workspace_running_count 6 (job_type other) (workspace_id other) three_jobs"
proof -
  let ?r = "claim_run_job 6 ''backtest'' ''w'' 60 three_jobs"
  have "map_option (\<lambda>j. (rec_id j, job_order_key j)) (fst ?r) = Some (''job_3'', 5, ''job_3'')" by code_simp
  then obtain j where j: "?r = (Some j, snd ?r)" "rec_id j = ''job_3''" "job_order_key j = (5, ''job_3'')"
    by (auto simp: prod_eq_iff)
  have "map_option (\<lambda>j. (claimable 6 ''backtest'' j, job_order_key j))
      (dict_get (run_jobs three_jobs) ''job_2'') = Some (True, 3, ''job_2'')" by code_simp
  then obtain other where o: "dict_get (run_jobs three_jobs) ''job_2'' = Some other"
    "claimable 6 ''backtest'' other" "job_order_key other = (3, ''job_2'')" by auto
  have "job_order_key other < job_order_key j" by (simp add: o(3) j(3))
  from claim_oldest_first [OF j(1) three_jobs_inv o(1,2) this] j o(1) show ?thesis by blast
qed

text \<open>
  A job under a lease that has not run out is not handed out to another worker, and a claim of
  another job leaves it as it is.
\<close>

theorem leased_job_kept:
  assumes "job_inv s" "dict_get (run_jobs s) k = Some j" "leased now j"
    and "claim_run_job now ty w l s = (Some job', s')"
  shows "rec_id job' \<noteq> k \<and> dict_get (run_jobs s') k = Some j"
  using assms(4)
proof (cases rule: claim_run_job_cases [of now ty s w l])
  case (claimed job j')
  have "dict_get (run_jobs s) (rec_id job) = Some job" by (rule claim_stored [OF assms(1) claimed(1)])
  moreover have "\<not> leased now job"
    by (rule claimable_not_leased) (rule claim_candidate_Some(1) [OF claimed(1)])
  ultimately have "rec_id job \<noteq> k" using assms(2,3) by auto
  with assms(2,4) claimed(2,3) show ?thesis by auto
qed simp

theorem leased_job_kept_witness:
  "\<exists>j j' s'. claim_run_job 6 ''backtest'' ''w2'' 60 three_jobs = (Some j', s') \<and> rec_id j' \<noteq> ''job_1'' \<and>
     dict_get (run_jobs s') ''job_1'' = Some j \<and> job_lease_owner j = Some ''w''"
proof -
  let ?r = "claim_run_job 6 ''backtest'' ''w2'' 60 three_jobs"
  have "map_option rec_id (fst ?r) = Some ''job_3''" by code_simp
  then obtain j' where j': "?r = (Some j', snd ?r)" by (auto simp: prod_eq_iff)
  have "map_option (\<lambda>j. (leased 6 j, job_lease_owner j)) (dict_get (run_jobs three_jobs) ''job_1'') =
      Some (True, Some ''w'')" by code_simp
  then obtain j where j: "dict_get (run_jobs three_jobs) ''job_1'' = Some j" "leased 6 j"
    "job_lease_owner j = Some ''w''" by auto
  from leased_job_kept [OF three_jobs_inv j(1,2) j'] j' j(3) show ?thesis by blast
qed

text \<open>
  C8: Along any sequence of enqueues, claims, completions and cancellations, a job is handed out at
  most as often as it may still be attempted when the sequence begins.
\<close>

theorem attempts_bounded:
  assumes "queue_run s ls s'" "run_inv s" "job_inv s" "dict_get (run_jobs s) k = Some j"
  shows "int (count_list ls k) \<le> max 0 (job_max_attempts j) - job_attempts j"
proof -
  from queue_run_advance [OF assms(1-3)] have "attempts_advance k (count_list ls k) s s'" "job_inv s'"
    by blast+
  with assms(4) obtain j' where j': "dict_get (run_jobs s') k = Some j'"
    "job_max_attempts j' = job_max_attempts j" "job_attempts j' = job_attempts j + int (count_list ls k)"
    by (auto simp: attempts_advance_def)
  with job_invD(3) [OF \<open>job_inv s'\<close> j'(1)] show ?thesis by linarith
qed

theorem attempts_bounded_witness:
  "queue_run two_jobs [''job_1''] first_claimed \<and> int (count_list [''job_1''] ''job_1'') \<le> 3"
proof -
  obtain j where j: "claim_run_job 4 ''backtest'' ''w'' 60 two_jobs = (Some j, first_claimed)"
    "rec_id j = ''job_1''" using claim_first by blast
  from queue_run.more [OF queue_step.claim [OF j(1)] queue_run.halt] j(2)
  have run: "queue_run two_jobs [''job_1''] first_claimed" by simp
  have "map_option (\<lambda>j. (job_attempts j, job_max_attempts j)) (dict_get (run_jobs two_jobs) ''job_1'') =
      Some (0, 3)" by code_simp
  then obtain j0 where "dict_get (run_jobs two_jobs) ''job_1'' = Some j0" "job_attempts j0 = 0"
    "job_max_attempts j0 = 3" by auto
  with attempts_bounded [OF run two_jobs_inv this(1)] run show ?thesis by simp
qed

section \<open>Artifacts\<close>

text \<open>
  C10: A client that follows the cursors of the artifact pages sees the whole listing exactly once,
  newest first, and stops: as many pages as there are artifacts, and one more, are enough, whatever
  the page size it asks for.
\<close>

theorem artifact_walk_complete:
  assumes "art_inv s" "length (artifact_listing auth cid vis s) < fuel"
  shows "walk_pages (artifact_page_at auth cid limit vis s) fuel None =
      Some (artifact_listing auth cid vis s) \<and>
    set (artifact_listing auth cid vis s) = set (page_rows auth cid vis s) \<and>
    sorted_wrt (\<lambda>x y. artifact_key y < artifact_key x) (artifact_listing auth cid vis s)"
  using art_pages.walk_complete [OF assms] artifact_listing_descending [OF assms(1)]
  by (simp add: artifact_listing_def)

definition report_input :: "string \<Rightarrow> artifact_input" where
  "report_input k = (''report'', None, ''Report'', k, None)"

definition filed :: repo where
  "filed = snd (create_artifacts 8 unary alice ''run_r'' [report_input ''a'', report_input ''b''] desk)"

lemma desk_art_inv: "art_inv desk"
  unfolding desk_def
  by (simp add: art_inv_def create_run_def create_conversation_def Let_def init_repo_def)

lemma filed_art_inv: "art_inv filed"
  unfolding filed_def by (rule create_artifacts_inv [OF desk_run_inv desk_art_inv])

theorem artifact_walk_complete_witness:
  "map_option (map rec_id)
      (walk_pages (artifact_page_at alice None (Some 1) User_Visible filed) 3 None) =
    Some [''art_x'', ''art_'']"
proof -
  have "map rec_id (artifact_listing alice None User_Visible filed) = [''art_x'', ''art_'']" by code_simp
  moreover from this have "length (artifact_listing alice None User_Visible filed) < 3"
    by (metis length_map length_Cons list.size(3) lessI numeral_3_eq_3 One_nat_def less_SucI)
  ultimately show ?thesis using artifact_walk_complete [OF filed_art_inv, of alice None User_Visible 3 "Some 1"]
    by simp
qed

section \<open>Usage\<close>

text \<open>
  Recording usage adds exactly the recorded tokens to what the account of the caller reports,
  and to the account of nobody else.
\<close>

theorem usage_accounted:
  assumes "dict_get (usage_ledger s) (opaque_id ''usage'' uuid) = None"
    and "create_usage_ledger now uuid auth rid m tid it ot c s = (Some r, s')"
  shows "usg_input_tokens (summarize_account_usage auth s') =
      usg_input_tokens (summarize_account_usage auth s) + it \<and>
    usg_output_tokens (summarize_account_usage auth s') =
      usg_output_tokens (summarize_account_usage auth s) + ot \<and>
    usg_total_tokens (summarize_account_usage auth s') =
      usg_total_tokens (summarize_account_usage auth s) + it + ot \<and>
    (\<forall>auth'. auth_tenant auth' \<noteq> auth_tenant auth \<longrightarrow>
       summarize_account_usage auth' s' = summarize_account_usage auth' s)"
  using assms
  by (auto simp: create_usage_ledger_def summarize_account_usage_def Let_def dict_values_set_new
      is_authorized_def auth_tenant_def split: if_splits)

theorem usage_accounted_witness:
  "\<exists>r s'. create_usage_ledger 9 ''u'' alice (Some ''run_r'') (Some ''m'') None 100 20 None desk = (Some r, s') \<and>
     usg_total_tokens (summarize_account_usage alice s') = 120"
proof -
  let ?r = "create_usage_ledger 9 ''u'' alice (Some ''run_r'') (Some ''m'') None 100 20 None desk"
  have "map_option rec_id (fst ?r) = Some ''usage_u''" by code_simp
  then obtain r where r: "?r = (Some r, snd ?r)" by (auto simp: prod_eq_iff)
  have new: "dict_get (usage_ledger desk) (opaque_id ''usage'' ''u'') = None" by code_simp
  have "usg_total_tokens (summarize_account_usage alice desk) = 0" by code_simp
  with usage_accounted [OF new r] have "usg_total_tokens (summarize_account_usage alice (snd ?r)) = 120"
    by simp
  with r show ?thesis by blast
qed

section \<open>Snapshots\<close>

text \<open>
  The snapshot of a conversation holds the end of its message thread, at most 500 messages of
  it, says how long the thread is and whether it was cut, and its artifacts are the first page of
  the conversation's listing.
\<close>

theorem snapshot_consistent:
  assumes "conv_inv s" "get_conversation_state_snapshot auth cid el ml s = Some snap"
  shows "(\<exists>older. list_messages auth cid s = older @ cs_messages snap \<and>
      cs_messages_truncated snap = (older \<noteq> [])) \<and>
    cs_message_count snap = int (length (list_messages auth cid s)) \<and>
    int (length (cs_messages snap)) \<le> 500 \<and>
    list_conversation_artifacts_page auth cid None None User_Visible s =
      Some \<lparr>page_items = cs_conversation_artifacts snap,
        page_next_cursor = cs_conversation_artifacts_next_cursor snap\<rparr>"
  using snapshot_messages [OF assms(2,1)] snapshot_artifacts_page [OF assms(2)] by blast

definition talked :: repo where
  "talked = snd (create_message 11 ''m2'' alice ''conv_c'' ''two'' ''assistant''
     (snd (create_message 10 ''m1'' alice ''conv_c'' ''one'' ''user'' desk)))"

theorem snapshot_consistent_witness:
  "\<exists>snap. get_conversation_state_snapshot alice ''conv_c'' 0 (Some 1) talked = Some snap \<and>
     cs_message_count snap = 2 \<and> cs_messages_truncated snap"
proof -
  have inv: "conv_inv talked"
    unfolding talked_def by (intro create_message_inv desk_conv_inv)
  have "map_option (\<lambda>x. map rec_id (cs_messages x)) (get_conversation_state_snapshot alice ''conv_c'' 0 (Some 1) talked)
      = Some [''msg_m2'']" by code_simp
  then obtain snap where snap: "get_conversation_state_snapshot alice ''conv_c'' 0 (Some 1) talked = Some snap"
    "map rec_id (cs_messages snap) = [''msg_m2'']" by auto
  have ids: "map rec_id (list_messages alice ''conv_c'' talked) = [''msg_m1'', ''msg_m2'']" by code_simp
  then have n: "length (list_messages alice ''conv_c'' talked) = 2"
    by (metis length_map length_Cons list.size(3) numeral_2_eq_2)
  from snapshot_consistent [OF inv snap(1)] obtain older where
    o: "list_messages alice ''conv_c'' talked = older @ cs_messages snap"
    "cs_messages_truncated snap = (older \<noteq> [])" "cs_message_count snap = 2" using n by auto
  from o(1) ids snap(2) have "older \<noteq> []" by auto
  with o snap(1) show ?thesis by blast
qed

section \<open>Feedback\<close>

text \<open>
  Feedback is stored only about what the caller owns and what belongs together: the
  conversation is the caller's, a run it names is a run of that conversation and of the caller, a
  message it names is in the conversation's thread, and an artifact it names is the caller's and
  not of another conversation.  Feedback that is refused changes nothing.
\<close>

theorem feedback_references_valid:
  assumes "create_feedback now uuid auth cid rating correction category rid mid aid s = (r, s')"
  shows "case r of
      None \<Rightarrow> s' = s
    | Some f \<Rightarrow> get_conversation auth cid s \<noteq> None \<and> fb_conversation_id f = cid \<and>
        (\<forall>k. rid = Some k \<longrightarrow> (\<exists>x. get_run auth k s = Some x \<and> run_conversation_id x = cid)) \<and>
        (\<forall>k. mid = Some k \<longrightarrow> (\<exists>x \<in> set (log_of (messages s) cid). rec_id x = k \<and> is_authorized auth x)) \<and>
        (\<forall>k. aid = Some k \<longrightarrow> (\<exists>x. get_artifact auth k s = Some x \<and>
           art_conversation_id x \<in> {None, Some cid})) \<and>
        dict_get (feedback s') (rec_id f) = Some f"
proof (cases rule: create_feedback_cases [of now uuid auth cid rating correction category rid mid aid s])
  case refused
  with assms show ?thesis by simp
next
  case (stored c f)
  have "get_conversation auth cid s \<noteq> None" using stored(1,2) by (simp add: get_conversation_def)
  moreover have "\<forall>k. rid = Some k \<longrightarrow> (\<exists>x. get_run auth k s = Some x \<and> run_conversation_id x = cid)"
    using stored(3) by (auto simp: feedback_run_refused_def get_if_key_def get_run_def split: option.splits if_splits)
  moreover have "\<forall>k. mid = Some k \<longrightarrow>
      (\<exists>x \<in> set (log_of (messages s) cid). rec_id x = k \<and> is_authorized auth x)"
    using stored(4) by (auto simp: feedback_message_refused_def list_ex_iff is_authorized_def)
  moreover have "\<forall>k. aid = Some k \<longrightarrow> (\<exists>x. get_artifact auth k s = Some x \<and>
      art_conversation_id x \<in> {None, Some cid})"
    using stored(5) by (auto simp: feedback_artifact_refused_def get_if_key_def get_artifact_def
        split: option.splits if_splits)
  moreover have "r = Some f" "dict_get (feedback s') (rec_id f) = Some f"
    using assms stored(12) by auto
  ultimately show ?thesis using stored(8) by simp
qed

theorem feedback_references_valid_witness:
  "\<exists>f s'. create_feedback 12 ''f'' alice ''conv_c'' ''up'' ''fine'' None (Some ''run_r'') (Some ''msg_m1'') None
       talked = (Some f, s') \<and> fb_conversation_id f = ''conv_c'' \<and>
     (\<exists>x. get_run alice ''run_r'' talked = Some x \<and> run_conversation_id x = ''conv_c'')"
proof -
  let ?r = "create_feedback 12 ''f'' alice ''conv_c'' ''up'' ''fine'' None (Some ''run_r'') (Some ''msg_m1'') None talked"
  have "map_option rec_id (fst ?r) = Some ''fb_f''" by code_simp
  then obtain f where f: "?r = (Some f, snd ?r)" by (auto simp: prod_eq_iff)
  from feedback_references_valid [OF f] f show ?thesis by auto
qed

section \<open>Access\<close>

text \<open>
  Every lookup by id that a caller can make (of a conversation, a run, a workflow task, an
  artifact, a trading runtime and a bot proposal) is the same ownership-checked lookup in its
  table: it answers the stored row when the caller's user and workspace own it, and nothing
  otherwise, so no two tenants can both fetch a row.
\<close>

theorem lookups_owner_checked:
  "get_conversation auth k s = owned_get auth (conversations s) k \<and>
   get_run auth k s = owned_get auth (runs s) k \<and>
   get_workflow_task auth k s = owned_get auth (workflow_tasks s) k \<and>
   get_artifact auth k s = owned_get auth (artifacts s) k \<and>
   get_nautilus_runtime auth k s = owned_get auth (nautilus_runtimes s) k \<and>
   get_bot_proposal auth k s = owned_get auth (bot_proposals s) k"
  using conv.fetch_eq run.fetch_eq task.fetch_eq art.fetch_eq nrt.fetch_eq bot.fetch_eq by blast

text \<open>
  A request is admitted only with the internal secret when one is configured, and an admitted
  request carries a user, a workspace and one of the known tiers.
\<close>

theorem admitted_requests:
  assumes "require_auth_context secret user workspace tier role given = Inr auth"
  shows "user_id auth \<noteq> [] \<and> auth_workspace_id auth \<noteq> [] \<and> user_tier auth \<in> set USER_TIERS \<and>
    (secret = None \<or> secret = Some [] \<or> given = secret)"
  using require_auth_context_Inr [OF assms] by blast

theorem admitted_requests_witness:
  "\<exists>auth. require_auth_context (Some ''k'') (Some '' alice '') (Some ''w1'') (Some ''gold'') None (Some ''k'') = Inr auth
     \<and> user_id auth = ''alice'' \<and> user_tier auth = ''paid_low'' \<and> user_tier auth \<in> set USER_TIERS"
proof -
  let ?r = "require_auth_context (Some ''k'') (Some '' alice '') (Some ''w1'') (Some ''gold'') None (Some ''k'')"
  have "(case ?r of Inl _ \<Rightarrow> False | Inr a \<Rightarrow> user_id a = ''alice'' \<and> user_tier a = ''paid_low'')" by code_simp
  then obtain a where a: "?r = Inr a" "user_id a = ''alice''" "user_tier a = ''paid_low''"
    by (auto split: sum.splits)
  from admitted_requests [OF a(1)] a show ?thesis by blast
qed

text \<open>
  The active-job limit that a job's payload carries is read back as the limit of the tier that
  the payload was built for, and it is at least one whatever a payload holds.
\<close>

theorem tier_limit_carried:
  "backtest_active_limit_from_payload [(''limits'', JObj (backtest_job_limits_for_tier tier))] =
     backtest_active_limit_for_tier tier \<and> 1 \<le> backtest_active_limit_from_payload p"
  using tier_limit_roundtrip active_limit_ge_1 by blast

end
