(* ===== verification/Nautilus_Claims.thy ===== *)
theory Nautilus_Claims
  imports Nautilus_Events
begin

text \<open>
  What the paper-trading runtimes guarantee: leases, fencing, the kill switch, idempotent events,
  heartbeat retention; with a concrete repository on which each statement is run.
\<close>

section \<open>A concrete repository\<close>

text \<open>One runtime, with a note and two heartbeats half an hour apart.\<close>

definition nrt_repo :: repo where
  "nrt_repo = snd (upsert_nautilus_runtime 0 ''a'' alice ''key'' ''broker'' ''acct'' ''paper'' ''risk''
     ''strat'' [] [] init_repo)"

definition nrt_beats :: repo where
  "nrt_beats = snd (record_nautilus_runtime_heartbeat (minutes 30) ''e3'' alice ''nrt_a'' None None
     (snd (record_nautilus_runtime_heartbeat 0 ''e2'' alice ''nrt_a'' None None
       (snd (append_nautilus_runtime_event 0 ''e1'' alice ''nrt_a'' ''note'' None (Some ''once'')
         nrt_repo)))))"

lemma nrt_repo_inv: "nrt_inv nrt_repo"
  unfolding nrt_repo_def
  by (intro upsert_nautilus_runtime_inv nrt_inv_init) (simp add: unused_runtime_def init_repo_def)

lemma unused_eventI:
  "list_all (\<lambda>(k, es). list_all (\<lambda>e. rec_id e \<noteq> i) es) (nautilus_events s) \<Longrightarrow> unused_event i s"
  unfolding unused_event_def nrt_log_def log_of_def list_all_iff
  by (fastforce split: option.splits dest: map_of_SomeD)

lemma nrt_beats_inv: "nrt_inv nrt_beats"
  unfolding nrt_beats_def
  by (intro record_heartbeat_inv append_ops_inv(1) nrt_repo_inv unused_eventI; code_simp)

lemma nrt_beats_log:
  "map (\<lambda>e. (rec_id e, nev_sequence e, nev_type e)) (nrt_log nrt_beats ''nrt_a'') =
     [(''nevt_e1'', 1, ''note''), (''nevt_e2'', 2, ''heartbeat''), (''nevt_e3'', 3, ''heartbeat'')]"
  by code_simp

lemma numbered_iff: "numbered seq es \<longleftrightarrow> map seq es = map (\<lambda>i. int i + 1) [0..<length es]"
  by (subst list_eq_iff_nth_eq) (simp add: numbered_def)

lemma nrt_beats_numbered: "numbered nev_sequence (nrt_log nrt_beats ''nrt_a'')"
  by (rule iffD2 [OF numbered_iff]) code_simp

lemma nrt_beats_length: "length (nrt_log nrt_beats ''nrt_a'') = 3"
  by code_simp

lemma nrt_beats_runtime: "\<exists>r. get_nautilus_runtime alice ''nrt_a'' nrt_beats = Some r"
proof -
  have "get_nautilus_runtime alice ''nrt_a'' nrt_beats \<noteq> None" by code_simp
  then show ?thesis by simp
qed

lemma nrt_beats_cleanup:
  "fst (cleanup_nautilus_heartbeat_events (minutes 31) alice ''nrt_a''
     NAUTILUS_HEARTBEAT_RETENTION_MAX_AGE 1 nrt_beats) = Some 1"
  by code_simp

section \<open>Leases\<close>

lemma snd_nrt_acquire [simp]:
  "snd (nrt_acquire now k w l s) = snd (claim_nautilus_runtime_lease now k w l s)"
  by (simp add: nrt_acquire_def split_beta)

lemma fst_nrt_acquire [simp]:
  "fst (nrt_acquire now k w l s) \<longleftrightarrow> fst (claim_nautilus_runtime_lease now k w l s) \<noteq> None"
  by (simp add: nrt_acquire_def split_beta)

text \<open>
  Once a worker has claimed a runtime's lease, every claim by other workers up to the end of
  the lease is refused, however many of them there are, and leaves the repository as it was.
\<close>

theorem lease_exclusive:
  assumes "nrt_inv s" "claim_nautilus_runtime_lease t k w l s = (Some r, s1)"
    and "\<forall>(t', w', l') \<in> set tries. w' \<noteq> w \<and> t' \<le> t + seconds l"
    and "(t', w', l') \<in> set tries"
  shows "fold (\<lambda>(t', w', l') s. snd (claim_nautilus_runtime_lease t' k w' l' s)) tries s1 = s1 \<and>
    claim_nautilus_runtime_lease t' k w' l' s1 = (None, s1)"
proof -
  have got: "fst (nrt_acquire t k w l s)" "snd (claim_nautilus_runtime_lease t k w l s) = s1"
    by (simp_all add: assms(2))
  have "w' \<noteq> w" "t' \<le> t + seconds l" using assms(3,4) by auto
  from nrt_lease.exclusive [OF assms(1) got(1) this] have "nrt_acquire t' k w' l' s1 = (False, s1)"
    by (simp add: got(2))
  then have "claim_nautilus_runtime_lease t' k w' l' s1 = (None, s1)"
    by (cases "claim_nautilus_runtime_lease t' k w' l' s1") (simp add: nrt_acquire_def)
  with nrt_lease.exclusive_all [OF assms(1) got(1) assms(3)] show ?thesis
    by (simp add: got(2))
qed

theorem lease_exclusive_witness:
  "claim_nautilus_runtime_lease 7 ''nrt_a'' ''w2'' 60
     (snd (claim_nautilus_runtime_lease 0 ''nrt_a'' ''w1'' 30 nrt_repo)) =
   (None, snd (claim_nautilus_runtime_lease 0 ''nrt_a'' ''w1'' 30 nrt_repo))"
proof -
  obtain r s1 where c: "claim_nautilus_runtime_lease 0 ''nrt_a'' ''w1'' 30 nrt_repo = (Some r, s1)"
    by (simp add: nrt_repo_def upsert_nautilus_runtime_def init_repo_def Let_def opaque_id_def
        claim_nautilus_runtime_lease_def)
  show ?thesis
    using lease_exclusive [OF nrt_repo_inv c, of "[(7, ''w2'', 60)]" 7 "''w2''" 60]
    by (simp add: c seconds_def)
qed

text \<open>
  C3: the lease is fenced: when the lease of a runtime goes to another worker its generation
  rises, and no later claims by anybody lower it, so the generation an earlier holder saw tells it
  from every later one.
\<close>

theorem lease_fencing:
  assumes "nrt_inv s" "dict_get (nautilus_runtimes s) k = Some r" "nrt_worker_id r \<noteq> Some w"
    and "claim_nautilus_runtime_lease t k w l s = (Some r', s1)"
  shows "\<exists>r''. dict_get (nautilus_runtimes
        (fold (\<lambda>(t, k, w, l) s. snd (claim_nautilus_runtime_lease t k w l s)) tries s1)) k = Some r'' \<and>
      nrt_generation r < nrt_generation r''"
proof -
  let ?s2 = "fold (\<lambda>(t, k, w, l) s. snd (claim_nautilus_runtime_lease t k w l s)) tries s1"
  have got: "fst (nrt_acquire t k w l s)" "snd (claim_nautilus_runtime_lease t k w l s) = s1"
    by (simp_all add: assms(4))
  have inv1: "nrt_inv s1" using nrt_lease.acquire_inv [OF assms(1), of t k w l] got(2) by simp
  have "nrt_epoch s k < nrt_epoch s1 k"
    using nrt_lease.fencing [OF assms(1) got(1)] assms(2,3) by (simp add: got(2) nrt_lease_views)
  also have "\<dots> \<le> nrt_epoch ?s2 k"
    using nrt_lease.epochs_inv_mono [OF inv1, of tries k] by simp
  finally have lt: "nrt_generation r < nrt_epoch ?s2 k"
    by (simp add: nrt_lease_views assms(2))
  moreover have "0 \<le> nrt_generation r"
    using nrt_invD(3) [OF assms(1,2)] by (simp add: runtime_ok_def)
  ultimately show ?thesis by (auto simp: nrt_epoch_def split: option.splits)
qed

theorem lease_fencing_witness:
  "\<exists>r r' s1 r''. dict_get (nautilus_runtimes nrt_repo) ''nrt_a'' = Some r \<and>
     claim_nautilus_runtime_lease 0 ''nrt_a'' ''w1'' 30 nrt_repo = (Some r', s1) \<and>
     dict_get (nautilus_runtimes (snd (claim_nautilus_runtime_lease (minutes 5) ''nrt_a'' ''w2'' 30 s1)))
       ''nrt_a'' = Some r'' \<and> nrt_generation r < nrt_generation r''"
proof -
  have "\<exists>r. dict_get (nautilus_runtimes nrt_repo) ''nrt_a'' = Some r \<and> nrt_worker_id r = None"
    by (simp add: nrt_repo_def upsert_nautilus_runtime_def init_repo_def Let_def opaque_id_def)
  then obtain r where r: "dict_get (nautilus_runtimes nrt_repo) ''nrt_a'' = Some r"
    "nrt_worker_id r \<noteq> Some ''w1''" by auto
  obtain r' s1 where c: "claim_nautilus_runtime_lease 0 ''nrt_a'' ''w1'' 30 nrt_repo = (Some r', s1)"
    by (simp add: nrt_repo_def upsert_nautilus_runtime_def init_repo_def Let_def opaque_id_def
        claim_nautilus_runtime_lease_def)
  show ?thesis
    using lease_fencing [OF nrt_repo_inv r c, of "[(minutes 5, ''nrt_a'', ''w2'', 30)]"] r c by auto
qed

section \<open>The kill switch\<close>

text \<open>
  C4: after the kill switch of a runtime has been activated, no sequence of worker steps
  (heartbeats with any payload, claims, renewals, releases that report no state or a halted one,
  stream cursors, events, cleanups) and no redeployment of the strategy brings it back: the switch
  stays on, the state stays a halting one, and no worker that asks for the runtimes to run is
  given it.
\<close>

theorem kill_switch_sticky:
  assumes "nrt_inv s" "get_nautilus_runtime auth k s = Some r"
    and "worker_step\<^sup>*\<^sup>* (snd (activate_nautilus_runtime_kill_switch t auth k s)) s'"
  shows "(\<exists>r'. dict_get (nautilus_runtimes s') k = Some r' \<and> nrt_kill_switch r' \<and>
      nrt_state r' \<in> halting_states) \<and>
    k \<notin> rec_id ` set (list_desired_nautilus_runtimes now mode ''running'' w limit s')"
proof -
  have "nrt_inv s' \<and> runtime_at halted k s'"
    using worker_run_halted [OF assms(3) runtime_field_ops_inv(2) [OF assms(1)]
        kill_switch_halts [OF assms(1,2)]] .
  then show ?thesis
    using halted_not_desired [of s' k _ now mode w limit]
    by (auto simp: runtime_at_def halted_def)
qed

theorem kill_switch_sticky_witness:
  "''nrt_a'' \<notin> rec_id ` set (list_desired_nautilus_runtimes 9 ''paper'' ''running'' None None
     (snd (claim_nautilus_runtime_lease 8 ''nrt_a'' ''w1'' 30
       (snd (activate_nautilus_runtime_kill_switch 7 alice ''nrt_a'' nrt_repo)))))"
proof -
  obtain r where r: "get_nautilus_runtime alice ''nrt_a'' nrt_repo = Some r"
    by (simp add: nrt_repo_def upsert_nautilus_runtime_def init_repo_def Let_def opaque_id_def
        get_nautilus_runtime_def is_authorized_def)
  show ?thesis
    by (rule kill_switch_sticky [OF nrt_repo_inv r, THEN conjunct2]) (blast intro: worker_step.claim)
qed

section \<open>Events\<close>

text \<open>
  An event with an idempotency key is recorded once: whatever is appended to the logs in
  between, a second append of that key to the same runtime returns the event the first one
  returned and adds nothing.
\<close>

theorem event_recorded_once:
  assumes "append_nautilus_event now uuid rt ty p (Some key) s = (e, s1)"
    and "append_nautilus_event now' uuid' rt' ty' p' (Some key) (fold append_nautilus_step cs s1)
      = (e', s2)"
    and "rec_id rt' = rec_id rt"
  shows "e' = e \<and> nrt_log s2 = nrt_log (fold append_nautilus_step cs s1)"
  using assms by (rule append_key_once)

theorem event_recorded_once_witness:
  "\<exists>e s1. append_nautilus_event 0 ''x'' (the (get_nautilus_runtime alice ''nrt_a'' nrt_repo))
       ''note'' None (Some ''key'') nrt_repo = (e, s1) \<and>
     fst (append_nautilus_event 5 ''y'' (the (get_nautilus_runtime alice ''nrt_a'' nrt_repo))
       ''other'' None (Some ''key'') s1) = e"
proof -
  let ?r = "the (get_nautilus_runtime alice ''nrt_a'' nrt_repo)"
  obtain e s1 where a: "append_nautilus_event 0 ''x'' ?r ''note'' None (Some ''key'') nrt_repo = (e, s1)"
    by fastforce
  obtain e' s2 where b: "append_nautilus_event 5 ''y'' ?r ''other'' None (Some ''key'') s1 = (e', s2)"
    by fastforce
  show ?thesis
    using event_recorded_once [OF a, of 5 "''y''" ?r "''other''" None "[]" e' s2] a b by simp
qed

text \<open>
  The heartbeat cleanup of a runtime keeps every event that is not a heartbeat and the order of
  the log; at most max_samples heartbeats are left, none older than max_age; a heartbeat that
  is young enough and yet dropped is not newer than any that is kept; and the number it returns is
  the number of events removed.
\<close>

theorem heartbeat_retention:
  assumes "nrt_inv s"
    and "cleanup_nautilus_heartbeat_events now auth k age m s = (Some removed, s')"
  shows "filter (\<lambda>e. nev_type e \<noteq> ''heartbeat'') (nrt_log s' k) =
      filter (\<lambda>e. nev_type e \<noteq> ''heartbeat'') (nrt_log s k) \<and>
    (\<exists>keep. nrt_log s' k = filter keep (nrt_log s k)) \<and>
    int (length (heartbeats (nrt_log s' k))) \<le> max 0 m \<and>
    (\<forall>x \<in> set (heartbeats (nrt_log s' k)). now - age \<le> created_at x \<and>
      (\<forall>y \<in> set (heartbeats (nrt_log s k)). now - age \<le> created_at y \<longrightarrow>
         y \<notin> set (nrt_log s' k) \<longrightarrow> event_age_key y \<le> event_age_key x)) \<and>
    removed = int (length (nrt_log s k)) - int (length (nrt_log s' k))"
proof (cases rule: cleanup_cases [of auth k s now age m])
  case (cleaned rt keep)
  let ?es = "nrt_log s k"
  have id: "rec_id rt = k" using nrt.fetch_id [OF nrt_invD(1) [OF assms(1)] cleaned(1)] .
  have ids: "distinct (map rec_id ?es)"
    using nrt_invD(4) [OF assms(1)] by (simp add: event_log_ok_def)
  have log: "nrt_log s' k = filter keep ?es" and n: "removed = int (length (filter (\<lambda>e. \<not> keep e) ?es))"
    using cleaned(3,4) assms(2) by (simp_all add: id)
  have keep: "keep = retained_event (now - age) (heartbeat_keep_ids m ?es)"
    using cleaned(2) by (simp add: id)
  have "filter (\<lambda>e. nev_type e \<noteq> ''heartbeat'') (nrt_log s' k) =
      filter (\<lambda>e. nev_type e \<noteq> ''heartbeat'') ?es"
    by (auto simp: log keep retained_event_def intro!: filter_cong)
  moreover have "int (length (heartbeats (nrt_log s' k))) \<le> max 0 m"
    unfolding log keep by (rule kept_heartbeats_bound [OF ids])
  moreover have "now - age \<le> created_at x" if "x \<in> set (heartbeats (nrt_log s' k))" for x
    using that by (auto simp: heartbeats_def log keep retained_event_def)
  moreover have "event_age_key y \<le> event_age_key x"
    if "x \<in> set (heartbeats (nrt_log s' k))" "y \<in> set (heartbeats ?es)" "now - age \<le> created_at y"
      "y \<notin> set (nrt_log s' k)" for x y
    using that kept_heartbeats_newest [OF ids, of x "now - age" m y]
    by (auto simp: heartbeats_def log keep)
  moreover have "removed = int (length ?es) - int (length (nrt_log s' k))"
    using sum_length_filter_compl [of keep ?es] by (simp add: n log)
  ultimately show ?thesis using log by blast
qed (use assms in simp)

text \<open>
  C11: a cleanup that removes a heartbeat from a log numbered from 1 without gaps makes the next
  event take a number that was already given out: a reader that has read everything and asks for
  what comes after the last number it saw is not given the new event.
\<close>

theorem cleanup_reuses_sequence:
  assumes "nrt_inv s" "numbered nev_sequence (nrt_log s k)"
    and "cleanup_nautilus_heartbeat_events now auth k age m s = (Some removed, s1)" "0 < removed"
    and "append_nautilus_runtime_event t uuid auth k ty p None s1 = (Some e, s2)"
  shows "e \<in> set (nrt_log s2 k) \<and> nev_sequence e \<le> int (length (nrt_log s k)) \<and>
    list_nautilus_runtime_events auth k limit (Some (int (length (nrt_log s k)))) s2 = Some []"
proof (cases rule: cleanup_cases [of auth k s now age m])
  case (cleaned rt keep)
  let ?es = "nrt_log s k"
  have id: "rec_id rt = k" using nrt.fetch_id [OF nrt_invD(1) [OF assms(1)] cleaned(1)] .
  have s1: "nrt_log s1 k = filter keep ?es" "nautilus_runtimes s1 = nautilus_runtimes s"
    "removed = int (length (filter (\<lambda>e. \<not> keep e) ?es))"
    using cleaned(3-5) assms(3) by (simp_all add: id)
  then have short: "int (length (nrt_log s1 k)) + removed = int (length ?es)"
    using sum_length_filter_compl [of keep ?es] by simp
  have rt: "dict_get (nautilus_runtimes s1) k = Some rt" "is_authorized auth rt"
    using cleaned(1) s1(2) by (simp_all add: nrt.fetch_eq owned_get_Some)
  have app: "append_nautilus_event t uuid rt ty p None s1 = (e, s2)"
    using assms(5) rt by (simp add: append_nautilus_runtime_event_def split_beta)
      (metis prod.collapse)
  have e: "nev_sequence e = int (length (nrt_log s1 k)) + 1" "nrt_log s2 k = nrt_log s1 k @ [e]"
    using app
    by (cases rule: append_nautilus_event_cases [of None s1 rt t uuid ty p]; simp add: id)+
  have old: "nev_sequence x \<le> int (length ?es)" if "x \<in> set ?es" for x
    using assms(2) that by (auto simp: numbered_def in_set_conv_nth)
  have "nev_sequence x \<le> int (length ?es)" if "x \<in> set (nrt_log s2 k)" for x
    using that old short assms(4) by (auto simp: e s1(1))
  then have "filter (\<lambda>x. int (length ?es) < nev_sequence x) (nrt_log s2 k) = []"
    by (auto simp: filter_empty_conv not_less)
  moreover have "get_nautilus_runtime auth k s2 = Some rt"
  proof -
    have "nautilus_runtimes s2 = nautilus_runtimes s1"
      using append_nautilus_event_frame [of t uuid rt ty p None s1] app by simp
    with rt show ?thesis by (simp add: nrt.fetch_eq owned_get_Some)
  qed
  moreover have "nev_sequence e \<le> int (length ?es)" using e(1) short assms(4) by simp
  ultimately show ?thesis
    using e(2) by (simp add: list_nautilus_runtime_events_def id first_n_def nrt_log_def)
qed (use assms in simp)

theorem heartbeat_retention_witness:
  "length (heartbeats (nrt_log (snd (cleanup_nautilus_heartbeat_events (minutes 31) alice ''nrt_a''
     NAUTILUS_HEARTBEAT_RETENTION_MAX_AGE 1 nrt_beats)) ''nrt_a'')) \<le> 1"
proof -
  obtain n s' where c: "cleanup_nautilus_heartbeat_events (minutes 31) alice ''nrt_a''
      NAUTILUS_HEARTBEAT_RETENTION_MAX_AGE 1 nrt_beats = (Some n, s')"
    using nrt_beats_runtime by (auto simp: cleanup_nautilus_heartbeat_events_def Let_def)
  show ?thesis
    using heartbeat_retention [OF nrt_beats_inv c] by (simp add: c)
qed

theorem cleanup_reuses_sequence_witness:
  "\<exists>removed s1 e s2. cleanup_nautilus_heartbeat_events (minutes 31) alice ''nrt_a''
       NAUTILUS_HEARTBEAT_RETENTION_MAX_AGE 1 nrt_beats = (Some removed, s1) \<and>
     append_nautilus_runtime_event (minutes 32) ''e4'' alice ''nrt_a'' ''note'' None None s1 = (Some e, s2) \<and>
     list_nautilus_runtime_events alice ''nrt_a'' None (Some 3) s2 = Some []"
proof -
  obtain n s1 where c: "cleanup_nautilus_heartbeat_events (minutes 31) alice ''nrt_a''
      NAUTILUS_HEARTBEAT_RETENTION_MAX_AGE 1 nrt_beats = (Some n, s1)"
    by (cases "cleanup_nautilus_heartbeat_events (minutes 31) alice ''nrt_a''
      NAUTILUS_HEARTBEAT_RETENTION_MAX_AGE 1 nrt_beats")
     (use nrt_beats_runtime in \<open>auto simp: cleanup_nautilus_heartbeat_events_def Let_def\<close>)
  have "0 < n" using nrt_beats_cleanup by (simp add: c)
  moreover obtain e s2 where "append_nautilus_runtime_event (minutes 32) ''e4'' alice ''nrt_a''
      ''note'' None None s1 = (Some e, s2)"
  proof -
    have "nautilus_runtimes s1 = nautilus_runtimes nrt_beats"
      using append_ops_frame(3) [of "minutes 31" alice "''nrt_a''"
          NAUTILUS_HEARTBEAT_RETENTION_MAX_AGE 1 nrt_beats] by (simp add: c)
    then show ?thesis
      using that nrt_beats_runtime
      by (auto simp: append_nautilus_runtime_event_def nrt.fetch_eq owned_get_Some split_beta)
  qed
  ultimately show ?thesis
    using cleanup_reuses_sequence [OF nrt_beats_inv nrt_beats_numbered c] c nrt_beats_length
    by fastforce
qed

end
