(* ===== verification/Policy_Engine.thy ===== *)
theory Policy_Engine
  imports Prelude
begin

text \<open>
  The text policy (\<open>policy_engine.py\<close>): rules with patterns that block and patterns that allow,
  evaluated on every sentence of every text a payload holds.

  A compiled pattern is what it does with a sentence: \<open>re_search\<close> is the span of
  \<open>pattern.search(sentence)\<close>, \<open>re_finditer\<close> the spans of \<open>pattern.finditer(sentence)\<close>.  \<open>loads\<close> is
  \<open>json.loads\<close>, with \<open>None\<close> for a text that is not JSON.  The message of a rule is a function of the
  matched text (\<open>rule.message.format\<close>).
\<close>

definition EVIDENCE_STRATEGY_IDEA :: string where
  "EVIDENCE_STRATEGY_IDEA = ''strategy_idea''"

definition EVIDENCE_GENERATED_ARTIFACT :: string where
  "EVIDENCE_GENERATED_ARTIFACT = ''generated_artifact''"

definition POLICY_SAFE_CONTEXT_KEYS :: "string list" where
  "POLICY_SAFE_CONTEXT_KEYS = [''non_goals'', ''policy_observations'']"

definition POLICY_RULE_SEVERITIES :: "string list" where
  "POLICY_RULE_SEVERITIES = [''blocker'', ''warning'', ''info'']"

definition POLICY_RULE_EVIDENCE_LEVELS :: "string list" where
  "POLICY_RULE_EVIDENCE_LEVELS = [''education'', EVIDENCE_STRATEGY_IDEA, EVIDENCE_GENERATED_ARTIFACT,
     ''static_validation'', ''manual_runtime_proof'']"

definition POLICY_RULE_SURFACES :: "string list" where
  "POLICY_RULE_SURFACES = [''agent.chat.output'', ''agent.run.output'', ''artifact.validation_report'',
     ''artifact.runtime_trace_summary'', ''policy_text'', ''review.risk'', ''text'',
     ''tool.generate_pine'', ''user_prompt'']"

record pattern =
  re_search :: "string \<Rightarrow> (nat \<times> nat) option"
  re_finditer :: "string \<Rightarrow> (nat \<times> nat) list"

record policy_rule =
  rule_id :: string
  rule_category :: string
  rule_severity :: string
  rule_code :: string
  rule_message :: "string \<Rightarrow> string"
  rule_surfaces :: "string list"
  rule_evidence_levels :: "string list"
  rule_block :: "pattern list"
  rule_allow :: "pattern list"

record policy_finding =
  pfd_rule_id :: string
  pfd_category :: string
  pfd_severity :: string
  pfd_code :: string
  pfd_message :: string
  pfd_surface :: string
  pfd_evidence_level :: string
  pfd_matched_text :: string
  pfd_sentence :: string

record policy_decision =
  pd_allowed :: bool
  pd_findings :: "policy_finding list"

definition blocked_finding :: "policy_decision \<Rightarrow> policy_finding option" where
  "blocked_finding d = find (\<lambda>f. pfd_severity f = ''blocker'') (pd_findings d)"

section \<open>Sentences\<close>

text \<open>\<open>re.sub(r"\s+", " ", text).strip()\<close>.\<close>

function collapse_spaces :: "string \<Rightarrow> string" where
  "collapse_spaces [] = []"
| "collapse_spaces (c # s) =
     (if is_space c
      then CHR '' '' # collapse_spaces (dropWhile is_space s)
      else c # collapse_spaces s)"
  by pat_completeness auto
termination
  by (relation "measure length") (auto simp: le_imp_less_Suc length_dropWhile_le)

definition split_char :: "char \<Rightarrow> bool" where
  "split_char c \<longleftrightarrow> c \<in> {CHR 0x0A, CHR 0x0D, CHR '';''}"

definition ends_sentence :: "char \<Rightarrow> bool" where
  "ends_sentence c \<longleftrightarrow> c \<in> {CHR ''.'', CHR ''!'', CHR ''?''}"

text \<open>
  \<open>re.split(r"(?<=[.!?])\s+|[\n\r;]+", s)\<close>: the part read so far is \<open>cur\<close>, reversed; a separator is
  white space after the end of a sentence, or a run of line ends and semicolons.
\<close>

function split_sentences :: "string \<Rightarrow> string \<Rightarrow> string list" where
  "split_sentences cur [] = [rev cur]"
| "split_sentences cur (c # s) =
     (if is_space c \<and> cur \<noteq> [] \<and> ends_sentence (hd cur)
      then rev cur # split_sentences [] (dropWhile is_space s)
      else if split_char c then rev cur # split_sentences [] (dropWhile split_char s)
      else split_sentences (c # cur) s)"
  by pat_completeness auto
termination
  by (relation "measure (\<lambda>(_, s). length s)") (auto simp: le_imp_less_Suc length_dropWhile_le)

definition policy_sentences :: "string \<Rightarrow> string list" where
  "policy_sentences text =
     (let normalized = py_strip (collapse_spaces text)
      in if normalized = [] then []
         else filter (\<lambda>p. p \<noteq> []) (map py_strip (split_sentences [] normalized)))"

section \<open>Matches\<close>

definition CONTRAST_WORDS :: "string list" where
  "CONTRAST_WORDS = [''but'', ''however'', ''except'', ''though'', ''although'', ''yet'']"

text \<open>The characters of \<open>\w\<close>.\<close>

definition is_word :: "char \<Rightarrow> bool" where
  "is_word c = (let n = (of_char c :: nat)
     in is_digit c \<or> (65 \<le> n \<and> n \<le> 90) \<or> (97 \<le> n \<and> n \<le> 122) \<or> n = 95 \<or>
        n \<in> {170, 178, 179, 181, 185, 186, 188, 189, 190} \<or> (192 \<le> n \<and> n \<noteq> 215 \<and> n \<noteq> 247))"

text \<open>\<open>_CONTRAST_BOUNDARY_RE.search\<close>: a contrast word between word boundaries, in any case.\<close>

definition contrast_at :: "char option \<Rightarrow> string \<Rightarrow> bool" where
  "contrast_at prev s \<longleftrightarrow>
     (case prev of None \<Rightarrow> True | Some c \<Rightarrow> \<not> is_word c) \<and>
     list_ex (\<lambda>w. has_prefix w (py_lower s) \<and>
        (case drop (length w) s of [] \<Rightarrow> True | c # _ \<Rightarrow> \<not> is_word c)) CONTRAST_WORDS"

fun has_contrast :: "char option \<Rightarrow> string \<Rightarrow> bool" where
  "has_contrast prev [] = False"
| "has_contrast prev (c # s) = (contrast_at prev (c # s) \<or> has_contrast (Some c) s)"

definition span_text :: "string \<Rightarrow> nat \<Rightarrow> nat \<Rightarrow> string" where
  "span_text s a b = take (b - a) (drop a s)"

definition is_allowed_match :: "string \<Rightarrow> nat \<times> nat \<Rightarrow> pattern list \<Rightarrow> bool" where
  "is_allowed_match sentence m allow =
     list_ex (\<lambda>regex. list_ex (\<lambda>(a, b). a \<le> fst m \<and> snd m \<le> b \<and>
         \<not> has_contrast None (span_text sentence a (fst m))) (re_finditer regex sentence)) allow"

text \<open>The first block pattern whose match is not allowed.\<close>

fun blocking_match :: "string \<Rightarrow> pattern list \<Rightarrow> pattern list \<Rightarrow> (nat \<times> nat) option" where
  "blocking_match sentence allow [] = None"
| "blocking_match sentence allow (regex # rs) =
     (case re_search regex sentence of
        None \<Rightarrow> blocking_match sentence allow rs
      | Some m \<Rightarrow> if is_allowed_match sentence m allow then blocking_match sentence allow rs
                  else Some m)"

definition rule_applies :: "policy_rule \<Rightarrow> string \<Rightarrow> string \<Rightarrow> bool" where
  "rule_applies rule surface level \<longleftrightarrow>
     (rule_surfaces rule = [] \<or> surface \<in> set (rule_surfaces rule)) \<and>
     (rule_evidence_levels rule = [] \<or> level \<in> set (rule_evidence_levels rule))"

definition rule_finding :: "string \<Rightarrow> string \<Rightarrow> string \<Rightarrow> policy_rule \<Rightarrow> policy_finding list" where
  "rule_finding surface level sentence rule =
     (if \<not> rule_applies rule surface level then []
      else case blocking_match sentence (rule_allow rule) (rule_block rule) of
          None \<Rightarrow> []
        | Some m \<Rightarrow>
            let matched_text = span_text sentence (fst m) (snd m)
            in [\<lparr>pfd_rule_id = rule_id rule, pfd_category = rule_category rule,
                 pfd_severity = rule_severity rule, pfd_code = rule_code rule,
                 pfd_message = rule_message rule matched_text, pfd_surface = surface,
                 pfd_evidence_level = level, pfd_matched_text = matched_text,
                 pfd_sentence = sentence\<rparr>])"

definition evaluate_fragments ::
  "string list \<Rightarrow> string \<Rightarrow> string \<Rightarrow> policy_rule list \<Rightarrow> policy_finding list" where
  "evaluate_fragments fragments surface level rules =
     concat (map (\<lambda>fragment. concat (map (\<lambda>sentence.
         concat (map (rule_finding surface level sentence) rules)) (policy_sentences fragment))) fragments)"

section \<open>The texts of a payload\<close>

fun collect_policy_fragments :: "string option \<Rightarrow> json \<Rightarrow> string list" where
  "collect_policy_fragments key (JStr s) =
     (if key \<in> Some ` set POLICY_SAFE_CONTEXT_KEYS then [] else [s])"
| "collect_policy_fragments key (JObj d) =
     (if key \<in> Some ` set POLICY_SAFE_CONTEXT_KEYS then []
      else concat (map (\<lambda>(k, v). collect_policy_fragments (Some k) v) d))"
| "collect_policy_fragments key (JList xs) =
     (if key \<in> Some ` set POLICY_SAFE_CONTEXT_KEYS then []
      else concat (map (collect_policy_fragments key) xs))"
| "collect_policy_fragments key _ = []"

definition policy_text_fragments :: "(string \<Rightarrow> json option) \<Rightarrow> string \<Rightarrow> string list" where
  "policy_text_fragments loads text =
     (case loads text of None \<Rightarrow> [text] | Some payload \<Rightarrow> collect_policy_fragments None payload)"

definition payload_fragments :: "(string \<Rightarrow> json option) \<Rightarrow> json \<Rightarrow> string list" where
  "payload_fragments loads payload =
     (case payload of
        JStr text \<Rightarrow> policy_text_fragments loads text
      | _ \<Rightarrow> collect_policy_fragments None payload)"

section \<open>Evaluation\<close>

definition finding_key :: "policy_finding \<Rightarrow> string \<times> string \<times> string" where
  "finding_key f = (pfd_rule_id f, pfd_sentence f, py_lower (pfd_matched_text f))"

fun dedupe_findings ::
  "(string \<times> string \<times> string) list \<Rightarrow> policy_finding list \<Rightarrow> policy_finding list" where
  "dedupe_findings seen [] = []"
| "dedupe_findings seen (f # fs) =
     (if finding_key f \<in> set seen then dedupe_findings seen fs
      else f # dedupe_findings (seen @ [finding_key f]) fs)"

definition evaluate_text ::
  "(string \<Rightarrow> json option) \<Rightarrow> string \<Rightarrow> string \<Rightarrow> string \<Rightarrow> policy_rule list \<Rightarrow> policy_finding list" where
  "evaluate_text loads text surface level rules =
     evaluate_fragments (policy_text_fragments loads text) surface level rules"

definition evaluate_policy ::
  "(string \<Rightarrow> json option) \<Rightarrow> policy_rule list \<Rightarrow> string \<Rightarrow> json \<Rightarrow> string \<Rightarrow> policy_decision" where
  "evaluate_policy loads rules surface payload level =
     (let findings = dedupe_findings []
            (evaluate_fragments (payload_fragments loads payload) surface level rules)
      in \<lparr>pd_allowed = \<not> list_ex (\<lambda>f. pfd_severity f = ''blocker'') findings,
          pd_findings = findings\<rparr>)"

definition policy_finding_payload :: "policy_finding \<Rightarrow> string dict" where
  "policy_finding_payload f =
     [(''rule_id'', pfd_rule_id f), (''category'', pfd_category f), (''severity'', pfd_severity f),
      (''code'', pfd_code f), (''message'', pfd_message f), (''surface'', pfd_surface f),
      (''evidence_level'', pfd_evidence_level f), (''matched_text'', pfd_matched_text f),
      (''sentence'', pfd_sentence f), (''claim'', pfd_matched_text f), (''reason'', pfd_message f)]"

definition find_policy_findings ::
  "(string \<Rightarrow> json option) \<Rightarrow> policy_rule list \<Rightarrow> string \<Rightarrow> string \<Rightarrow> string \<Rightarrow> string dict list" where
  "find_policy_findings loads rules text surface level =
     map policy_finding_payload (dedupe_findings [] (evaluate_text loads text surface level rules))"

definition contains_blocking_policy ::
  "(string \<Rightarrow> json option) \<Rightarrow> policy_rule list \<Rightarrow> string \<Rightarrow> string \<Rightarrow> string \<Rightarrow> bool" where
  "contains_blocking_policy loads rules text surface level =
     list_ex (\<lambda>f. pfd_severity f = ''blocker'') (evaluate_text loads text surface level rules)"

end
