(* ===== verification/Policy_Rules.thy ===== *)
theory Policy_Rules
  imports Policy_Engine
begin

text \<open>
  Loading the policy rules from their decoded YAML (\<open>_load_policy_rules\<close> and its callers).
  \<open>compile\<close> is \<open>re.compile\<close> with \<open>IGNORECASE\<close>, which gives the text of the error for an invalid
  pattern; \<open>format_of\<close> is \<open>str.format\<close> with the matched text, and \<open>repr_of\<close> the text of a value.
\<close>

record load_state =
  ld_rules :: "policy_rule list"
  ld_seen :: "string list"
  ld_errors :: "string list"

definition REQUIRED_RULE_KEYS :: "string list" where
  "REQUIRED_RULE_KEYS = [''id'', ''category'', ''severity'', ''code'', ''message'', ''block_patterns'']"

text \<open>\<open>tuple(str(x) for x in raw.get(key, []))\<close>, and the same with \<open>or ()\<close>.\<close>

definition str_items :: "(json \<Rightarrow> string) \<Rightarrow> json dict \<Rightarrow> string \<Rightarrow> py_error + string list" where
  "str_items repr_of raw key =
     (case dict_get raw key of
        None \<Rightarrow> Inr []
      | Some v \<Rightarrow> map_sum id (map (py_str repr_of)) (py_iter v))"

definition str_items_or ::  "(json \<Rightarrow> string) \<Rightarrow> json dict \<Rightarrow> string \<Rightarrow> py_error + string list" where
  "str_items_or repr_of raw key =
     (if json_truthy (jget raw key) then str_items repr_of raw key else Inr [])"

definition invalid_values :: "string list \<Rightarrow> string \<Rightarrow> string \<Rightarrow> string list \<Rightarrow> string list" where
  "invalid_values allowed rid what xs =
     map (\<lambda>x. ''rule '' @ rid @ '' invalid '' @ what @ '': '' @ x) (filter (\<lambda>x. x \<notin> set allowed) xs)"

definition regex_errors ::
  "(json \<Rightarrow> string) \<Rightarrow> (string \<Rightarrow> string + pattern) \<Rightarrow> string \<Rightarrow> string list \<Rightarrow> string list" where
  "regex_errors repr_of compile rid ps =
     concat (map (\<lambda>p. case compile p of
         Inl e \<Rightarrow> [''rule '' @ rid @ '' invalid regex '' @ repr_of (JStr p) @ '': '' @ e]
       | Inr _ \<Rightarrow> []) ps)"

definition compiled :: "(string \<Rightarrow> string + pattern) \<Rightarrow> string list \<Rightarrow> pattern list" where
  "compiled compile ps = concat (map (\<lambda>p. case compile p of Inl _ \<Rightarrow> [] | Inr r \<Rightarrow> [r]) ps)"

text \<open>One raw rule whose required keys are present.\<close>

definition load_fields ::
  "(json \<Rightarrow> string) \<Rightarrow> (string \<Rightarrow> string + pattern) \<Rightarrow> (string \<Rightarrow> string \<Rightarrow> string) \<Rightarrow> json dict
    \<Rightarrow> string list \<Rightarrow> string list \<Rightarrow> string list \<Rightarrow> string list \<Rightarrow> load_state \<Rightarrow> load_state" where
  "load_fields repr_of compile format_of raw block_patterns allow_patterns surfaces levels st =
     (let str = (\<lambda>key. py_str repr_of (jget raw key));
          rid = str ''id'';
          severity = str ''severity'';
          dup = (if rid \<in> set (ld_seen st) then [''duplicate rule id: '' @ rid] else []);
          bad = invalid_values POLICY_RULE_SEVERITIES rid ''severity'' [severity] @
                invalid_values POLICY_RULE_SURFACES rid ''surface'' surfaces @
                invalid_values POLICY_RULE_EVIDENCE_LEVELS rid ''evidence_level'' levels;
          regex = regex_errors repr_of compile rid block_patterns @
                  regex_errors repr_of compile rid allow_patterns;
          rule = \<lparr>rule_id = rid, rule_category = str ''category'', rule_severity = severity,
            rule_code = str ''code'', rule_message = format_of (str ''message''),
            rule_surfaces = surfaces, rule_evidence_levels = levels,
            rule_block = compiled compile block_patterns,
            rule_allow = compiled compile allow_patterns\<rparr>
      in \<lparr>ld_rules = (if regex = [] then ld_rules st @ [rule] else ld_rules st),
          ld_seen = ld_seen st @ [rid],
          ld_errors = ld_errors st @ dup @ bad @ regex\<rparr>)"

definition load_rule ::
  "(json \<Rightarrow> string) \<Rightarrow> (string \<Rightarrow> string + pattern) \<Rightarrow> (string \<Rightarrow> string \<Rightarrow> string)
    \<Rightarrow> load_state \<Rightarrow> nat \<times> json \<Rightarrow> py_error + load_state" where
  "load_rule repr_of compile format_of st ir =
     (let index = fst ir
      in case snd ir of
        JObj raw \<Rightarrow>
          let missing = filter (\<lambda>key. \<not> json_truthy (jget raw key)) REQUIRED_RULE_KEYS
          in if missing \<noteq> [] then
               let name = (case dict_get raw ''id'' of
                     None \<Rightarrow> digits_of index | Some v \<Rightarrow> py_str repr_of v)
               in Inr (st\<lparr>ld_errors := ld_errors st @
                    [''rule '' @ name @ '' missing: '' @ py_join '', '' missing]\<rparr>)
             else (case (str_items repr_of raw ''block_patterns'', str_items repr_of raw ''allow_patterns'',
                      str_items_or repr_of raw ''surfaces'', str_items_or repr_of raw ''evidence_levels'') of
                 (Inr bs, Inr as, Inr ss, Inr ls) \<Rightarrow>
                   Inr (load_fields repr_of compile format_of raw bs as ss ls st)
               | _ \<Rightarrow> Inl TypeError)
      | _ \<Rightarrow> Inr (st\<lparr>ld_errors := ld_errors st @
            [''rule '' @ digits_of index @ '' must be a mapping'']\<rparr>))"

fun load_rules_loop ::
  "(json \<Rightarrow> string) \<Rightarrow> (string \<Rightarrow> string + pattern) \<Rightarrow> (string \<Rightarrow> string \<Rightarrow> string)
    \<Rightarrow> load_state \<Rightarrow> (nat \<times> json) list \<Rightarrow> py_error + load_state" where
  "load_rules_loop repr_of compile format_of st [] = Inr st"
| "load_rules_loop repr_of compile format_of st (r # rs) =
     (case load_rule repr_of compile format_of st r of
        Inl e \<Rightarrow> Inl e
      | Inr st' \<Rightarrow> load_rules_loop repr_of compile format_of st' rs)"

text \<open>
  The file is \<open>Inl\<close> the text of the error when it cannot be read or parsed, \<open>Inr\<close> its value
  otherwise.
\<close>

definition load_rules_from ::
  "(json \<Rightarrow> string) \<Rightarrow> (string \<Rightarrow> string + pattern) \<Rightarrow> (string \<Rightarrow> string \<Rightarrow> string) \<Rightarrow> string + json
    \<Rightarrow> py_error + load_state" where
  "load_rules_from repr_of compile format_of file =
     (let start = \<lparr>ld_rules = [], ld_seen = [], ld_errors = []\<rparr>
      in case file of
           Inl e \<Rightarrow> Inr (start\<lparr>ld_errors := [''unable to read policy rules: '' @ e]\<rparr>)
         | Inr v \<Rightarrow>
             (case (if json_truthy v then v else JObj []) of
                JObj payload \<Rightarrow>
                  (case jget payload ''rules'' of
                     JList raws \<Rightarrow> load_rules_loop repr_of compile format_of start
                       (zip [0..<length raws] raws)
                   | _ \<Rightarrow> Inr (start\<lparr>ld_errors := [''policy rules must contain a rules list'']\<rparr>))
              | _ \<Rightarrow> Inl AttributeError))"

definition validate_policy_rules ::
  "(json \<Rightarrow> string) \<Rightarrow> (string \<Rightarrow> string + pattern) \<Rightarrow> (string \<Rightarrow> string \<Rightarrow> string) \<Rightarrow> string + json
    \<Rightarrow> py_error + json dict" where
  "validate_policy_rules repr_of compile format_of file =
     map_sum id (\<lambda>st. [(''status'', JStr (if ld_errors st = [] then ''pass'' else ''fail'')),
         (''rule_count'', JInt (int (length (ld_rules st)))),
         (''errors'', JList (map JStr (ld_errors st)))])
       (load_rules_from repr_of compile format_of file)"

definition load_policy_rules ::
  "(json \<Rightarrow> string) \<Rightarrow> (string \<Rightarrow> string + pattern) \<Rightarrow> (string \<Rightarrow> string \<Rightarrow> string) \<Rightarrow> string + json
    \<Rightarrow> py_error + policy_rule list" where
  "load_policy_rules repr_of compile format_of file =
     (case load_rules_from repr_of compile format_of file of
        Inl e \<Rightarrow> Inl e
      | Inr st \<Rightarrow>
          if ld_errors st \<noteq> []
          then Inl (ValueError (''Invalid policy rules: '' @ py_join ''; '' (ld_errors st)))
          else Inr (ld_rules st))"

end
