(* ===== verification/Server_Policy.thy ===== *)
theory Server_Policy
  imports Policy_Engine
begin

text \<open>
  The server's policy (\<open>server/policy.py\<close>): the blockers of the text policy, the metadata every
  market-data snapshot must carry, and which tools a scout loop may call.  Its findings have the
  fields of the engine's, with empty strings for the ones that only a text rule sets.
\<close>

definition MARKET_DATA_REQUIRED_FIELDS :: "string list" where
  "MARKET_DATA_REQUIRED_FIELDS = [''timestamp'', ''source'', ''symbol'', ''interval'', ''timezone'']"

definition AGENT_LOOP_ALLOWED_RISK_TIERS :: "string list" where
  "AGENT_LOOP_ALLOWED_RISK_TIERS = [''read'']"

definition AGENT_LOOP_BLOCKED_TOOL_TERMS :: "string list" where
  "AGENT_LOOP_BLOCKED_TOOL_TERMS = [''broker'', ''edit'', ''exec'', ''filesystem'', ''file-system'',
     ''fs.'', ''live'', ''order'', ''paper-start'', ''paper.start'', ''paper_start'', ''repo-write'',
     ''repo.write'', ''repo_write'', ''shell'', ''start-paper'', ''start_paper'', ''write'']"

definition plain_finding ::
  "string \<Rightarrow> string \<Rightarrow> string \<Rightarrow> string \<Rightarrow> string \<Rightarrow> policy_finding" where
  "plain_finding code message surface level matched =
     \<lparr>pfd_rule_id = [], pfd_category = [], pfd_severity = ''blocker'', pfd_code = code,
      pfd_message = message, pfd_surface = surface, pfd_evidence_level = level,
      pfd_matched_text = matched, pfd_sentence = []\<rparr>"

definition server_policy_finding :: "policy_finding \<Rightarrow> policy_finding" where
  "server_policy_finding f =
     \<lparr>pfd_rule_id = pfd_rule_id f, pfd_category = pfd_category f, pfd_severity = pfd_severity f,
      pfd_code = pfd_code f, pfd_message = pfd_message f, pfd_surface = pfd_surface f,
      pfd_evidence_level = pfd_evidence_level f, pfd_matched_text = pfd_matched_text f,
      pfd_sentence = pfd_sentence f\<rparr>"

section \<open>Market data\<close>

fun iter_market_data_snapshots :: "json \<Rightarrow> json list" where
  "iter_market_data_snapshots (JObj d) =
     concat (map (\<lambda>(k, v). if k \<in> {''market_data'', ''market_data_snapshot''}
         then (case v of JList xs \<Rightarrow> xs | _ \<Rightarrow> [v])
         else iter_market_data_snapshots v) d)"
| "iter_market_data_snapshots (JList xs) = concat (map iter_market_data_snapshots xs)"
| "iter_market_data_snapshots _ = []"

definition snapshot_findings :: "string \<Rightarrow> string \<Rightarrow> json \<Rightarrow> policy_finding list" where
  "snapshot_findings surface level snapshot =
     (case snapshot of
        JObj d \<Rightarrow>
          let missing = py_sorted id
                (filter (\<lambda>f. f \<notin> fst ` set d) MARKET_DATA_REQUIRED_FIELDS)
          in if missing = [] then []
             else [plain_finding ''market_data_metadata_missing''
               (''Market data snapshot missing required metadata: '' @ py_join '', '' missing)
               surface level []]
      | _ \<Rightarrow> [plain_finding ''market_data_metadata_missing''
               ''Market data snapshot must be an object with metadata.'' surface level []])"

definition market_data_findings :: "string \<Rightarrow> string \<Rightarrow> json \<Rightarrow> policy_finding list" where
  "market_data_findings surface level payload =
     concat (map (snapshot_findings surface level) (iter_market_data_snapshots payload))"

definition evaluate_server_policy ::
  "(string \<Rightarrow> json option) \<Rightarrow> policy_rule list \<Rightarrow> string \<Rightarrow> json \<Rightarrow> string \<Rightarrow> policy_decision" where
  "evaluate_server_policy loads rules surface payload level =
     (let decision = evaluate_policy loads rules surface payload level;
          findings = map server_policy_finding
              (filter (\<lambda>f. pfd_severity f = ''blocker'') (pd_findings decision)) @
            market_data_findings surface level payload
      in \<lparr>pd_allowed = (findings = []), pd_findings = findings\<rparr>)"

section \<open>Tools of a scout loop\<close>

definition normalized_risk_tier :: "string option \<Rightarrow> string" where
  "normalized_risk_tier risk_tier = py_lower (py_strip (or_str risk_tier ''unknown''))"

definition normalized_tool_id :: "string \<Rightarrow> string" where
  "normalized_tool_id tool_id = replace_char CHR ''_'' CHR ''-'' (py_lower (py_strip tool_id))"

definition evaluate_agent_loop_tool_policy :: "string \<Rightarrow> string option \<Rightarrow> policy_decision" where
  "evaluate_agent_loop_tool_policy tool_id risk_tier =
     (let normalized_risk = normalized_risk_tier risk_tier
      in if normalized_risk \<notin> set AGENT_LOOP_ALLOWED_RISK_TIERS
         then \<lparr>pd_allowed = False, pd_findings = [plain_finding ''agent_loop_tool_risk_blocked''
             (tool_id @ '' is blocked by risk tier '' @ normalized_risk @ ''.'')
             ''agent_loop.tool'' EVIDENCE_STRATEGY_IDEA []]\<rparr>
         else
           let normalized_id = normalized_tool_id tool_id
           in case find (\<lambda>term. has_sub term normalized_id) (py_sorted id AGENT_LOOP_BLOCKED_TOOL_TERMS) of
                Some matched_term \<Rightarrow>
                  \<lparr>pd_allowed = False, pd_findings = [plain_finding ''agent_loop_tool_surface_blocked''
                     (tool_id @ '' is blocked for bounded scout loops.'')
                     ''agent_loop.tool'' EVIDENCE_STRATEGY_IDEA matched_term]\<rparr>
              | None \<Rightarrow> \<lparr>pd_allowed = True, pd_findings = []\<rparr>)"

definition server_finding_payload :: "policy_finding \<Rightarrow> string dict" where
  "server_finding_payload f =
     (if pfd_rule_id f \<noteq> [] \<and> pfd_category f \<noteq> []
      then filter (\<lambda>kv. snd kv \<noteq> []) (policy_finding_payload f)
      else
        [(''severity'', pfd_severity f), (''code'', pfd_code f), (''message'', pfd_message f),
         (''surface'', pfd_surface f), (''evidence_level'', pfd_evidence_level f)] @
        filter (\<lambda>kv. snd kv \<noteq> [])
          [(''rule_id'', pfd_rule_id f), (''category'', pfd_category f),
           (''matched_text'', pfd_matched_text f), (''sentence'', pfd_sentence f)])"

section \<open>What is decided\<close>

text \<open>The metadata a snapshot must have.\<close>

definition has_metadata :: "json \<Rightarrow> bool" where
  "has_metadata v = (case v of
      JObj d \<Rightarrow> list_all (\<lambda>f. dict_get d f \<noteq> None) MARKET_DATA_REQUIRED_FIELDS
    | _ \<Rightarrow> False)"

lemma snapshot_findings_blocker:
  "f \<in> set (snapshot_findings surface level v) \<Longrightarrow> pfd_severity f = ''blocker''"
  by (cases v) (auto simp: snapshot_findings_def plain_finding_def Let_def split: if_splits)

lemma snapshot_findings_Nil: "snapshot_findings surface level v = [] \<longleftrightarrow> has_metadata v"
proof (cases v)
  case (JObj d)
  have "py_sorted id (filter (\<lambda>f. f \<notin> fst ` set d) MARKET_DATA_REQUIRED_FIELDS) = [] \<longleftrightarrow>
      filter (\<lambda>f. f \<notin> fst ` set d) MARKET_DATA_REQUIRED_FIELDS = []"
    by (metis set_empty set_py_sorted)
  then show ?thesis
    by (auto simp: JObj snapshot_findings_def has_metadata_def Let_def filter_empty_conv list_all_iff
        map_of_eq_None_iff)
qed (simp_all add: snapshot_findings_def has_metadata_def)

lemma market_data_findings_Nil:
  "market_data_findings surface level payload = [] \<longleftrightarrow>
     (\<forall>v \<in> set (iter_market_data_snapshots payload). has_metadata v)"
  by (simp add: market_data_findings_def snapshot_findings_Nil)

lemma agent_loop_allowed:
  "pd_allowed (evaluate_agent_loop_tool_policy tool_id risk_tier) \<longleftrightarrow>
     normalized_risk_tier risk_tier = ''read'' \<and>
     (\<forall>term \<in> set AGENT_LOOP_BLOCKED_TOOL_TERMS. \<not> has_sub term (normalized_tool_id tool_id))"
  by (auto simp: evaluate_agent_loop_tool_policy_def Let_def AGENT_LOOP_ALLOWED_RISK_TIERS_def
      find_None_iff split: option.split dest!: find_SomeD)

lemma agent_loop_findings:
  "pd_allowed (evaluate_agent_loop_tool_policy tool_id risk_tier) \<longleftrightarrow>
     pd_findings (evaluate_agent_loop_tool_policy tool_id risk_tier) = []"
  by (simp add: evaluate_agent_loop_tool_policy_def Let_def split: option.split)

end
