(* ===== verification/Policy_Claims.thy ===== *)
theory Policy_Claims
  imports Policy_Rules Server_Policy
begin

text \<open>
  The properties of the text policy, of the loading of its rules and of the server's policy.
\<close>

section \<open>Findings come from rules\<close>

lemma rule_finding_in:
  "f \<in> set (rule_finding surface level sentence rule) \<Longrightarrow>
     pfd_rule_id f = rule_id rule \<and> pfd_severity f = rule_severity rule"
  by (auto simp: rule_finding_def Let_def split: if_splits option.splits)

lemma evaluate_fragments_in:
  "f \<in> set (evaluate_fragments frs surface level rules) \<longleftrightarrow>
     (\<exists>fr \<in> set frs. \<exists>sentence \<in> set (policy_sentences fr). \<exists>rule \<in> set rules.
        f \<in> set (rule_finding surface level sentence rule))"
  by (auto simp: evaluate_fragments_def)

lemma evaluate_fragments_mono:
  "set rules' \<subseteq> set rules \<Longrightarrow>
     set (evaluate_fragments frs surface level rules') \<subseteq> set (evaluate_fragments frs surface level rules)"
  by (fastforce simp: evaluate_fragments_in subset_iff)

lemma dedupe_subset: "set (dedupe_findings seen fs) \<subseteq> set fs"
  by (induction seen fs rule: dedupe_findings.induct) auto

lemma dedupe_covers:
  "f \<in> set fs \<Longrightarrow> finding_key f \<in> set seen \<or>
     (\<exists>g \<in> set (dedupe_findings seen fs). finding_key g = finding_key f)"
proof (induction seen fs rule: dedupe_findings.induct)
  case (2 seen x fs)
  then show ?case by (cases "finding_key x \<in> set seen") auto
qed simp

text \<open>Removing duplicates never loses a blocker, when the rules have distinct ids.\<close>

lemma dedupe_blocker:
  assumes ids: "distinct (map rule_id rules)"
    and fs: "fs = evaluate_fragments frs surface level rules"
  shows "(\<exists>f \<in> set (dedupe_findings [] fs). pfd_severity f = ''blocker'') \<longleftrightarrow>
    (\<exists>f \<in> set fs. pfd_severity f = ''blocker'')"
proof
  assume "\<exists>f \<in> set fs. pfd_severity f = ''blocker''"
  then obtain f where f: "f \<in> set fs" "pfd_severity f = ''blocker''" by blast
  then obtain g where g: "g \<in> set (dedupe_findings [] fs)" "finding_key g = finding_key f"
    using dedupe_covers [of f fs "[]"] by auto
  have "g \<in> set fs" using g(1) dedupe_subset by blast
  then obtain r r' where "r \<in> set rules" "pfd_rule_id g = rule_id r" "pfd_severity g = rule_severity r"
    "r' \<in> set rules" "pfd_rule_id f = rule_id r'" "pfd_severity f = rule_severity r'"
    using f(1) unfolding fs evaluate_fragments_in by (blast dest: rule_finding_in)
  moreover have "pfd_rule_id g = pfd_rule_id f" using g(2) by (simp add: finding_key_def)
  ultimately have "pfd_severity g = ''blocker''"
    using ids f(2) by (auto simp: distinct_map dest: inj_onD)
  with g(1) show "\<exists>f \<in> set (dedupe_findings [] fs). pfd_severity f = ''blocker''" by blast
qed (use dedupe_subset in blast)

lemma decision_allowed:
  assumes "distinct (map rule_id rules)"
  shows "pd_allowed (evaluate_policy loads rules surface payload level) \<longleftrightarrow>
    (\<forall>f \<in> set (evaluate_fragments (payload_fragments loads payload) surface level rules).
       pfd_severity f \<noteq> ''blocker'')"
  using dedupe_blocker [OF assms refl, of "payload_fragments loads payload" surface level]
  by (auto simp: evaluate_policy_def Let_def list_ex_iff)

section \<open>A sample rule\<close>

text \<open>
  Patterns that look for a fixed phrase: the first occurrence, and, for the allowing pattern, one
  match from a negation at the start of the sentence to the last occurrence within reach, as the
  greedy \<open>.{0,140}\<close> of the shipped rules matches.
\<close>

fun find_phrase :: "string \<Rightarrow> nat \<Rightarrow> string \<Rightarrow> nat option" where
  "find_phrase p i [] = None"
| "find_phrase p i (c # s) = (if has_prefix p (py_lower (c # s)) then Some i else find_phrase p (Suc i) s)"

definition claim_pattern :: pattern where
  "claim_pattern = \<lparr>
     re_search = (\<lambda>s. map_option (\<lambda>i. (i, i + 17)) (find_phrase ''guaranteed profit'' 0 s)),
     re_finditer = (\<lambda>s. map (\<lambda>i. (i, i + 17))
       (filter (\<lambda>i. has_prefix ''guaranteed profit'' (py_lower (drop i s))) [0..<length s]))\<rparr>"

definition negation_pattern :: pattern where
  "negation_pattern = \<lparr>
     re_search = (\<lambda>s. if has_prefix ''no '' (py_lower s) then Some (0, length s) else None),
     re_finditer = (\<lambda>s. if has_prefix ''no '' (py_lower s) then [(0, length s)] else [])\<rparr>"

definition guaranteed_return_claim :: policy_rule where
  "guaranteed_return_claim = \<lparr>rule_id = ''guaranteed_return_claim'', rule_category = ''profitability_claim'',
     rule_severity = ''blocker'', rule_code = ''policy_violation'',
     rule_message = (\<lambda>m. ''Blocked trading claim: '' @ m), rule_surfaces = [],
     rule_evidence_levels = [], rule_block = [claim_pattern], rule_allow = [negation_pattern]\<rparr>"

abbreviation no_json :: "string \<Rightarrow> json option" where
  "no_json \<equiv> (\<lambda>_. None)"

section \<open>Evaluation\<close>

text \<open>
  The three ways to ask about a text agree: it is allowed by evaluate_policy exactly when
  contains_blocking_policy, which stops at the first blocker, denies it, and exactly when
  find_policy_findings, which drops duplicate findings, reports no blocker.
\<close>

theorem blocking_answers_agree:
  assumes "distinct (map rule_id rules)"
  shows "pd_allowed (evaluate_policy loads rules surface (JStr text) level) =
      (\<not> contains_blocking_policy loads rules text surface level) \<and>
    contains_blocking_policy loads rules text surface level =
      (\<exists>p \<in> set (find_policy_findings loads rules text surface level).
         dict_get p ''severity'' = Some ''blocker'')"
proof -
  have "pd_allowed (evaluate_policy loads rules surface (JStr text) level) =
      (\<not> contains_blocking_policy loads rules text surface level)"
    unfolding decision_allowed [OF assms]
    by (auto simp: payload_fragments_def contains_blocking_policy_def evaluate_text_def list_ex_iff)
  moreover have "contains_blocking_policy loads rules text surface level =
      (\<exists>f \<in> set (dedupe_findings [] (evaluate_text loads text surface level rules)).
         pfd_severity f = ''blocker'')"
    unfolding contains_blocking_policy_def evaluate_text_def list_ex_iff
    by (rule dedupe_blocker [OF assms refl, symmetric])
  ultimately show ?thesis
    by (auto simp: find_policy_findings_def policy_finding_payload_def)
qed

theorem blocking_answers_agree_witness:
  "\<not> pd_allowed (evaluate_policy no_json [guaranteed_return_claim] ''text''
      (JStr ''Enjoy guaranteed profit; daily.'') ''strategy_idea'')"
proof -
  have "contains_blocking_policy no_json [guaranteed_return_claim]
      ''Enjoy guaranteed profit; daily.'' ''text'' ''strategy_idea''" by code_simp
  moreover have "distinct (map rule_id [guaranteed_return_claim])" by simp
  ultimately show ?thesis using blocking_answers_agree by blast
qed

text \<open>
  Rules only restrict: what a larger rule set allows, every part of it allows.
\<close>

theorem more_rules_restrict:
  assumes "distinct (map rule_id rules)" "distinct (map rule_id rules')" "set rules' \<subseteq> set rules"
    and "pd_allowed (evaluate_policy loads rules surface payload level)"
  shows "pd_allowed (evaluate_policy loads rules' surface payload level)"
  using assms(4) evaluate_fragments_mono [OF assms(3), of "payload_fragments loads payload" surface level]
  unfolding decision_allowed [OF assms(1)] decision_allowed [OF assms(2)] by blast

theorem more_rules_restrict_witness:
  "pd_allowed (evaluate_policy no_json [] ''text'' (JStr ''No guaranteed profit.'') ''strategy_idea'')"
proof (rule more_rules_restrict [of "[guaranteed_return_claim]"])
  show "pd_allowed (evaluate_policy no_json [guaranteed_return_claim] ''text''
      (JStr ''No guaranteed profit.'') ''strategy_idea'')" by code_simp
qed simp_all

text \<open>The payload without what stands under a key of safe context.\<close>

fun without_safe_context :: "json \<Rightarrow> json" where
  "without_safe_context (JObj d) =
     JObj (map (\<lambda>(k, v). (k, without_safe_context v))
       (filter (\<lambda>kv. fst kv \<notin> set POLICY_SAFE_CONTEXT_KEYS) d))"
| "without_safe_context (JList xs) = JList (map without_safe_context xs)"
| "without_safe_context v = v"

lemma collect_safe_key:
  "key \<in> Some ` set POLICY_SAFE_CONTEXT_KEYS \<Longrightarrow> collect_policy_fragments key v = []"
  by (cases v) auto

lemma collect_entries:
  assumes "\<And>kv key. kv \<in> set d \<Longrightarrow> fst kv \<notin> set POLICY_SAFE_CONTEXT_KEYS \<Longrightarrow>
      collect_policy_fragments key (f (snd kv)) = collect_policy_fragments key (snd kv)"
  shows "concat (map (\<lambda>(k, v). collect_policy_fragments (Some k) (f v))
      (filter (\<lambda>kv. fst kv \<notin> set POLICY_SAFE_CONTEXT_KEYS) d)) =
    concat (map (\<lambda>(k, v). collect_policy_fragments (Some k) v) d)"
  using assms
proof (induction d)
  case (Cons kv d)
  have "concat (map (\<lambda>(k, v). collect_policy_fragments (Some k) (f v))
      (filter (\<lambda>kv. fst kv \<notin> set POLICY_SAFE_CONTEXT_KEYS) d)) =
    concat (map (\<lambda>(k, v). collect_policy_fragments (Some k) v) d)"
    by (rule Cons.IH) (rule Cons.prems, simp_all)
  then show ?case
    using Cons.prems [of kv "Some (fst kv)"] by (auto simp: collect_safe_key split: prod.split)
qed simp

lemma collect_without_safe_context:
  "collect_policy_fragments key (without_safe_context v) = collect_policy_fragments key v"
proof (induction v arbitrary: key rule: without_safe_context.induct)
  case (1 d)
  have "collect_policy_fragments key' (without_safe_context (snd kv)) = collect_policy_fragments key' (snd kv)"
    if "kv \<in> set d" "fst kv \<notin> set POLICY_SAFE_CONTEXT_KEYS" for kv key'
    using "1.IH" [of kv "fst kv" "snd kv" key'] that by simp
  from collect_entries [of d, OF this] show ?case by (simp add: o_def case_prod_unfold)
next
  case (2 xs)
  then show ?case by (simp add: o_def cong: map_cong)
qed simp_all

text \<open>
  What a structured payload says under non_goals or policy_observations, at any depth, has
  no influence on the decision.
\<close>

theorem safe_context_ignored:
  "evaluate_policy loads rules surface (JObj (map (\<lambda>(k, v). (k, without_safe_context v))
       (filter (\<lambda>kv. fst kv \<notin> set POLICY_SAFE_CONTEXT_KEYS) d))) level =
   evaluate_policy loads rules surface (JObj d) level"
proof -
  have "payload_fragments loads (without_safe_context (JObj d)) = payload_fragments loads (JObj d)"
    using collect_without_safe_context [of None "JObj d"] by (simp add: payload_fragments_def)
  then show ?thesis by (simp add: evaluate_policy_def)
qed

text \<open>
  C12: Only the first match of each block pattern in a sentence is checked against the allowed
  contexts: when those first matches are allowed the rule reports nothing, also when the sentence
  goes on to make the same claim in a context that is not allowed.
\<close>

theorem only_first_match_checked:
  assumes "\<forall>regex \<in> set (rule_block rule). \<forall>m. re_search regex sentence = Some m \<longrightarrow>
      is_allowed_match sentence m (rule_allow rule)"
  shows "rule_finding surface level sentence rule = []"
proof -
  have "blocking_match sentence (rule_allow rule) rs = None"
    if "\<forall>regex \<in> set rs. \<forall>m. re_search regex sentence = Some m \<longrightarrow>
      is_allowed_match sentence m (rule_allow rule)" for rs
    using that by (induction rs) (auto split: option.split)
  with assms show ?thesis by (simp add: rule_finding_def)
qed

theorem only_first_match_checked_witness:
  "let sentence = ''No guaranteed profit, but guaranteed profit now.'' in
   (26, 43) \<in> set (re_finditer claim_pattern sentence) \<and>
   \<not> is_allowed_match sentence (26, 43) (rule_allow guaranteed_return_claim) \<and>
   rule_finding ''text'' ''strategy_idea'' sentence guaranteed_return_claim = []"
proof -
  let ?s = "''No guaranteed profit, but guaranteed profit now.''"
  have "re_search claim_pattern ?s = Some (3, 20)" by code_simp
  moreover have "is_allowed_match ?s (3, 20) [negation_pattern]" by code_simp
  ultimately have "rule_finding ''text'' ''strategy_idea'' ?s guaranteed_return_claim = []"
    by (intro only_first_match_checked) (simp add: guaranteed_return_claim_def)
  moreover have "(26, 43) \<in> set (re_finditer claim_pattern ?s) \<and>
      \<not> is_allowed_match ?s (26, 43) (rule_allow guaranteed_return_claim)" by code_simp
  ultimately show ?thesis by (simp only: Let_def simp_thms)
qed

section \<open>Loading\<close>

definition rule_ok :: "policy_rule \<Rightarrow> bool" where
  "rule_ok r \<longleftrightarrow> rule_severity r \<in> set POLICY_RULE_SEVERITIES \<and>
     set (rule_surfaces r) \<subseteq> set POLICY_RULE_SURFACES \<and>
     set (rule_evidence_levels r) \<subseteq> set POLICY_RULE_EVIDENCE_LEVELS \<and> rule_block r \<noteq> []"

definition load_inv :: "load_state \<Rightarrow> bool" where
  "load_inv st \<longleftrightarrow> map rule_id (ld_rules st) = ld_seen st \<and> distinct (ld_seen st) \<and>
     (\<forall>r \<in> set (ld_rules st). rule_ok r)"

lemma invalid_values_Nil: "invalid_values allowed rid what xs = [] \<longleftrightarrow> set xs \<subseteq> set allowed"
  by (auto simp: invalid_values_def filter_empty_conv)

lemma compiled_nonempty:
  "regex_errors repr_of compile rid ps = [] \<Longrightarrow> ps \<noteq> [] \<Longrightarrow> compiled compile ps \<noteq> []"
  by (cases ps) (auto simp: regex_errors_def compiled_def split: sum.splits)

lemma str_items_nonempty:
  assumes "str_items repr_of raw key = Inr xs" "json_truthy (jget raw key)"
  shows "xs \<noteq> []"
  using assms by (cases "jget raw key")
    (auto simp: str_items_def jget_def py_iter_def map_sum_def split: option.splits sum.splits)

lemma load_fields_inv:
  assumes "ld_errors (load_fields repr_of compile format_of raw bs as ss ls st) = []"
    and "bs \<noteq> []" "load_inv st"
  shows "load_inv (load_fields repr_of compile format_of raw bs as ss ls st)"
  using assms compiled_nonempty [of repr_of compile "py_str repr_of (jget raw ''id'')" bs]
  by (auto simp: load_fields_def Let_def load_inv_def rule_ok_def invalid_values_Nil split: if_splits)

lemma load_fields_grows:
  "ld_errors (load_fields repr_of compile format_of raw bs as ss ls st) = [] \<Longrightarrow> ld_errors st = []"
  by (simp add: load_fields_def Let_def)

lemma load_rule_step:
  assumes "load_rule repr_of compile format_of st ir = Inr st'" "ld_errors st' = []"
  shows "ld_errors st = [] \<and> (load_inv st \<longrightarrow> load_inv st') \<and>
    length (ld_rules st') = Suc (length (ld_rules st))"
proof (cases "snd ir")
  case (JObj raw)
  let ?missing = "filter (\<lambda>key. \<not> json_truthy (jget raw key)) REQUIRED_RULE_KEYS"
  have m: "?missing = []"
    using assms by (auto simp: load_rule_def JObj Let_def split: if_splits)
  then have block: "json_truthy (jget raw ''block_patterns'')"
    by (auto simp: REQUIRED_RULE_KEYS_def split: if_splits)
  obtain bs as ss ls where items: "str_items repr_of raw ''block_patterns'' = Inr bs"
    and st': "st' = load_fields repr_of compile format_of raw bs as ss ls st"
    using assms(1) m by (auto simp: load_rule_def JObj Let_def split: sum.splits)
  have "regex_errors repr_of compile (py_str repr_of (jget raw ''id'')) bs = [] \<and>
      regex_errors repr_of compile (py_str repr_of (jget raw ''id'')) as = []"
    using assms(2) by (simp add: st' load_fields_def Let_def)
  then have "length (ld_rules st') = Suc (length (ld_rules st))"
    by (simp add: st' load_fields_def Let_def)
  then show ?thesis
    using load_fields_inv [of repr_of compile format_of raw bs as ss ls st] load_fields_grows
      str_items_nonempty [OF items block] assms(2) by (auto simp: st')
qed (use assms in \<open>auto simp: load_rule_def Let_def\<close>)

lemma load_rules_loop_inv:
  assumes "load_rules_loop repr_of compile format_of st rs = Inr st'" "ld_errors st' = []"
  shows "ld_errors st = [] \<and> (load_inv st \<longrightarrow> load_inv st') \<and>
    length (ld_rules st') = length (ld_rules st) + length rs"
  using assms
proof (induction rs arbitrary: st)
  case (Cons r rs)
  then obtain s1 where s1: "load_rule repr_of compile format_of st r = Inr s1"
    "load_rules_loop repr_of compile format_of s1 rs = Inr st'" by (auto split: sum.splits)
  with Cons load_rule_step [OF s1(1)] show ?case by auto
qed simp

text \<open>
  Rules that load are usable: the file held a list, every entry of it became one rule with an
  id of its own, a known severity, known surfaces and evidence levels, and at least one block
  pattern; any other file raises.
\<close>

theorem loaded_rules_usable:
  assumes "load_policy_rules repr_of compile format_of src = Inr rules"
  shows "distinct (map rule_id rules) \<and> (\<forall>r \<in> set rules. rule_ok r) \<and>
    (\<exists>payload raws. src = Inr (JObj payload) \<and> jget payload ''rules'' = JList raws \<and>
       length rules = length raws)"
proof -
  let ?start = "\<lparr>ld_rules = [], ld_seen = [], ld_errors = []\<rparr>"
  obtain st where st: "load_rules_from repr_of compile format_of src = Inr st"
    "ld_errors st = []" "rules = ld_rules st"
    using assms by (auto simp: load_policy_rules_def split: sum.splits if_splits)
  obtain payload raws where p: "src = Inr (JObj payload)" "jget payload ''rules'' = JList raws"
    "load_rules_loop repr_of compile format_of ?start (zip [0..<length raws] raws) = Inr st"
  proof -
    obtain v where v: "src = Inr v"
      using st(1,2) by (cases src) (auto simp: load_rules_from_def Let_def)
    obtain payload where pl: "v = JObj payload" "payload \<noteq> []"
      using st(1,2) by (cases v)
        (auto simp: load_rules_from_def v Let_def jget_def split: if_splits)
    obtain raws where "jget payload ''rules'' = JList raws"
      using st(1,2) by (cases "jget payload ''rules''") (auto simp: load_rules_from_def v pl Let_def)
    with st(1) pl v that show ?thesis by (auto simp: load_rules_from_def Let_def)
  qed
  have "load_inv ?start" by (simp add: load_inv_def)
  with load_rules_loop_inv [OF p(3) st(2)] have "load_inv st" "length (ld_rules st) = length raws"
    by simp_all
  with p(1,2) st(3) show ?thesis by (auto simp: load_inv_def)
qed

definition rules_file :: "string + json" where
  "rules_file = Inr (JObj [(''rules'', JList [JObj [(''id'', JStr ''r1''), (''category'', JStr ''c''),
     (''severity'', JStr ''blocker''), (''code'', JStr ''policy_violation''),
     (''message'', JStr ''m''), (''block_patterns'', JList [JStr ''x''])]])])"

theorem loaded_rules_usable_witness:
  "\<exists>rules. load_policy_rules (\<lambda>_. []) (\<lambda>_. Inr claim_pattern) (\<lambda>m _. m) rules_file = Inr rules \<and>
     length rules = 1 \<and> (\<forall>r \<in> set rules. rule_ok r)"
proof -
  have "map_sum (\<lambda>_. ()) (map rule_id)
      (load_policy_rules (\<lambda>_. []) (\<lambda>_. Inr claim_pattern) (\<lambda>m _. m) rules_file) = Inr [''r1'']"
    by code_simp
  then obtain rules where r: "load_policy_rules (\<lambda>_. []) (\<lambda>_. Inr claim_pattern) (\<lambda>m _. m) rules_file = Inr rules"
    "map rule_id rules = [''r1'']"
    by (cases "load_policy_rules (\<lambda>_. []) (\<lambda>_. Inr claim_pattern) (\<lambda>m _. m) rules_file") auto
  from r(2) have "length rules = 1" by (metis length_map length_Cons list.size(3) One_nat_def)
  with loaded_rules_usable [OF r(1)] r(1) show ?thesis by blast
qed

section \<open>The server's policy\<close>

text \<open>
  The server allows a payload exactly when no rule of severity blocker finds anything in it and
  every market-data snapshot at any depth is an object with all the required metadata; a denial
  always comes with a finding, and every finding is a blocker.
\<close>

theorem server_policy_decides:
  "pd_allowed (evaluate_server_policy loads rules surface payload level) =
      (pd_allowed (evaluate_policy loads rules surface payload level) \<and>
       list_all has_metadata (iter_market_data_snapshots payload)) \<and>
    pd_allowed (evaluate_server_policy loads rules surface payload level) =
      (blocked_finding (evaluate_server_policy loads rules surface payload level) = None)"
proof -
  let ?d = "evaluate_server_policy loads rules surface payload level"
  have "filter (\<lambda>f. pfd_severity f = ''blocker'') (pd_findings (evaluate_policy loads rules surface payload level)) = []
      \<longleftrightarrow> pd_allowed (evaluate_policy loads rules surface payload level)"
    by (auto simp: evaluate_policy_def Let_def list_ex_iff filter_empty_conv)
  then have "pd_allowed ?d = (pd_allowed (evaluate_policy loads rules surface payload level) \<and>
      list_all has_metadata (iter_market_data_snapshots payload))"
    by (auto simp: evaluate_server_policy_def Let_def market_data_findings_Nil list_all_iff)
  moreover have "\<forall>f \<in> set (pd_findings ?d). pfd_severity f = ''blocker''"
    by (auto simp: evaluate_server_policy_def Let_def server_policy_finding_def
        market_data_findings_def dest: snapshot_findings_blocker)
  then have "blocked_finding ?d = None \<longleftrightarrow> pd_findings ?d = []"
    by (cases "pd_findings ?d") (auto simp: blocked_finding_def)
  ultimately show ?thesis
    by (simp add: evaluate_server_policy_def Let_def)
qed

end
