(* ===== verification/Security.thy ===== *)
theory Security
  imports Auth Server_Policy
begin

text \<open>
  Rate limits, budgets and idempotent requests (\<open>server/security_controls.py\<close>).

  The Redis client is a parameter: \<open>redis\<close> holds the commands the code uses, over a state of the
  Redis server.  What Redis keeps under an idempotency key is the JSON text of one of two dictionaries, which
  only this code writes and reads; \<open>idem_entry\<close> has one constructor for each.  \<open>sha256\<close> is the
  hexadecimal digest of a text.
\<close>

section \<open>Errors\<close>

datatype security_error =
    Security_Controls_Unavailable
  | Rate_Limit_Exceeded string int
  | Idempotency_Conflict
  | Idempotency_In_Flight
  | Budget_Exceeded string

fun security_status_code :: "security_error \<Rightarrow> int" where
  "security_status_code Security_Controls_Unavailable = 503"
| "security_status_code (Rate_Limit_Exceeded _ _) = 429"
| "security_status_code Idempotency_Conflict = 409"
| "security_status_code Idempotency_In_Flight = 409"
| "security_status_code (Budget_Exceeded _) = 429"

fun security_code :: "security_error \<Rightarrow> string" where
  "security_code Security_Controls_Unavailable = ''security_controls_unavailable''"
| "security_code (Rate_Limit_Exceeded _ _) = ''rate_limit_exceeded''"
| "security_code Idempotency_Conflict = ''idempotency_conflict''"
| "security_code Idempotency_In_Flight = ''idempotency_in_flight''"
| "security_code (Budget_Exceeded _) = ''budget_exceeded''"

fun security_dimension :: "security_error \<Rightarrow> string" where
  "security_dimension Security_Controls_Unavailable = ''security_controls''"
| "security_dimension (Rate_Limit_Exceeded d _) = d"
| "security_dimension Idempotency_Conflict = ''idempotency''"
| "security_dimension Idempotency_In_Flight = ''idempotency''"
| "security_dimension (Budget_Exceeded d) = d"

fun security_retry_after :: "security_error \<Rightarrow> int" where
  "security_retry_after Security_Controls_Unavailable = 30"
| "security_retry_after (Rate_Limit_Exceeded _ n) = n"
| "security_retry_after Idempotency_Conflict = 0"
| "security_retry_after Idempotency_In_Flight = 1"
| "security_retry_after (Budget_Exceeded _) = 30"

definition security_error_payload :: "security_error \<Rightarrow> json" where
  "security_error_payload e = JObj [(''error'', JObj
     [(''code'', JStr (security_code e)), (''dimension'', JStr (security_dimension e)),
      (''retry_after_seconds'', JInt (security_retry_after e))])]"

definition budget_policy_finding :: "string \<Rightarrow> policy_finding" where
  "budget_policy_finding dimension =
     plain_finding ''budget_exceeded'' (''Run budget exceeded: '' @ dimension)
       (''budget.'' @ dimension) ''strategy_idea'' []"

section \<open>Configuration\<close>

record rate_limit_rule =
  rl_limit :: int
  rl_window_seconds :: int

abbreviation rate_rule :: "int \<Rightarrow> int \<Rightarrow> rate_limit_rule" where
  "rate_rule n w \<equiv> \<lparr>rl_limit = n, rl_window_seconds = w\<rparr>"

record rate_limit_config =
  user_minute :: rate_limit_rule
  user_day :: rate_limit_rule
  workspace_minute :: rate_limit_rule
  workspace_day :: rate_limit_rule
  ip_minute :: rate_limit_rule
  model_user_minute :: rate_limit_rule
  model_workspace_minute :: rate_limit_rule
  tool_user_minute :: rate_limit_rule
  tool_workspace_minute :: rate_limit_rule

definition default_rate_limits :: rate_limit_config where
  "default_rate_limits = \<lparr>user_minute = rate_rule 120 60, user_day = rate_rule 2000 86400,
     workspace_minute = rate_rule 600 60, workspace_day = rate_rule 10000 86400,
     ip_minute = rate_rule 180 60, model_user_minute = rate_rule 60 60,
     model_workspace_minute = rate_rule 300 60, tool_user_minute = rate_rule 120 60,
     tool_workspace_minute = rate_rule 600 60\<rparr>"

record run_budget_config =
  max_total_tokens :: int
  max_output_tokens :: int
  max_tool_calls :: int
  max_runtime_seconds :: int
  max_artifacts :: int

definition default_budget :: run_budget_config where
  "default_budget = \<lparr>max_total_tokens = 64000, max_output_tokens = 16000, max_tool_calls = 12,
     max_runtime_seconds = 180, max_artifacts = 12\<rparr>"

text \<open>The pending and the completed entry, with the body hash, the status code and the response.\<close>

datatype idem_entry = Pending string | Completed "string option" int "json dict"

text \<open>\<open>rd_set_nx\<close> is \<open>SET key value NX EX seconds\<close>, and answers whether it set the key.\<close>

record 'r redis =
  rd_ping :: "'r \<Rightarrow> bool"
  rd_get :: "string \<Rightarrow> 'r \<Rightarrow> idem_entry option"
  rd_set_nx :: "string \<Rightarrow> idem_entry \<Rightarrow> int \<Rightarrow> 'r \<Rightarrow> bool \<times> 'r"
  rd_set :: "string \<Rightarrow> idem_entry \<Rightarrow> int \<Rightarrow> 'r \<Rightarrow> 'r"
  rd_incr :: "string \<Rightarrow> 'r \<Rightarrow> int \<times> 'r"
  rd_expire :: "string \<Rightarrow> int \<Rightarrow> 'r \<Rightarrow> 'r"

record 'r security_controls =
  sc_redis :: "'r redis"
  sc_rate_limits :: rate_limit_config
  sc_budget :: run_budget_config
  sc_key_prefix :: string

section \<open>Rate limits\<close>

definition rate_key :: "'r security_controls \<Rightarrow> string \<Rightarrow> string \<Rightarrow> string" where
  "rate_key sc dimension identifier =
     sc_key_prefix sc @ '':rl:'' @ dimension @ '':'' @ identifier"

definition check_limit ::
  "'r security_controls \<Rightarrow> string \<Rightarrow> string \<Rightarrow> rate_limit_rule \<Rightarrow> 'r \<Rightarrow> security_error option \<times> 'r" where
  "check_limit sc dimension identifier rule s =
     (let key = rate_key sc dimension identifier;
          (count, s1) = rd_incr (sc_redis sc) key s;
          s2 = (if count = 1 then rd_expire (sc_redis sc) key (rl_window_seconds rule) s1 else s1)
      in (if count > rl_limit rule
          then Some (Rate_Limit_Exceeded dimension (rl_window_seconds rule)) else None, s2))"

text \<open>The checks of a call in turn; the first that fails raises and the rest are not made.\<close>

fun check_limits ::
  "'r security_controls \<Rightarrow> (string \<times> string \<times> rate_limit_rule) list \<Rightarrow> 'r
    \<Rightarrow> security_error option \<times> 'r" where
  "check_limits sc [] s = (None, s)"
| "check_limits sc ((dimension, identifier, rule) # cs) s =
     (case check_limit sc dimension identifier rule s of
        (Some e, s') \<Rightarrow> (Some e, s')
      | (None, s') \<Rightarrow> check_limits sc cs s')"

definition ensure_available :: "'r security_controls \<Rightarrow> 'r \<Rightarrow> security_error option" where
  "ensure_available sc s =
     (if rd_ping (sc_redis sc) s then None else Some Security_Controls_Unavailable)"

definition checked_limits ::
  "'r security_controls \<Rightarrow> (string \<times> string \<times> rate_limit_rule) list \<Rightarrow> 'r
    \<Rightarrow> security_error option \<times> 'r" where
  "checked_limits sc cs s =
     (case ensure_available sc s of Some e \<Rightarrow> (Some e, s) | None \<Rightarrow> check_limits sc cs s)"

definition check_write ::
  "'r security_controls \<Rightarrow> auth_context \<Rightarrow> string \<Rightarrow> 'r \<Rightarrow> security_error option \<times> 'r" where
  "check_write sc auth ip_address s =
     (let c = sc_rate_limits sc
      in checked_limits sc
        [(''user'', user_id auth, user_minute c), (''user-day'', user_id auth, user_day c),
         (''workspace'', auth_workspace_id auth, workspace_minute c),
         (''workspace-day'', auth_workspace_id auth, workspace_day c),
         (''ip'', if ip_address = [] then ''unknown'' else ip_address, ip_minute c)] s)"

definition check_model_call ::
  "'r security_controls \<Rightarrow> auth_context \<Rightarrow> string \<Rightarrow> 'r \<Rightarrow> security_error option \<times> 'r" where
  "check_model_call sc auth model s =
     (let c = sc_rate_limits sc
      in checked_limits sc
        [(''model-user'', user_id auth @ '':'' @ model, model_user_minute c),
         (''model-workspace'', auth_workspace_id auth @ '':'' @ model, model_workspace_minute c)] s)"

definition check_tool_call ::
  "'r security_controls \<Rightarrow> auth_context \<Rightarrow> string \<Rightarrow> 'r \<Rightarrow> security_error option \<times> 'r" where
  "check_tool_call sc auth tool_id s =
     (let c = sc_rate_limits sc
      in checked_limits sc
        [(''tool-user'', user_id auth @ '':'' @ tool_id, tool_user_minute c),
         (''tool-workspace'', auth_workspace_id auth @ '':'' @ tool_id, tool_workspace_minute c)] s)"

section \<open>Budgets\<close>

definition check_run_start :: "'r security_controls \<Rightarrow> 'r \<Rightarrow> security_error option" where
  "check_run_start sc s =
     (case ensure_available sc s of
        Some e \<Rightarrow> Some e
      | None \<Rightarrow>
          if max_runtime_seconds (sc_budget sc) \<le> 0 then Some (Budget_Exceeded ''runtime'')
          else if max_artifacts (sc_budget sc) \<le> 0 then Some (Budget_Exceeded ''artifacts'')
          else None)"

definition check_artifact_budget :: "'r security_controls \<Rightarrow> int \<Rightarrow> 'r \<Rightarrow> security_error option" where
  "check_artifact_budget sc current_count s =
     (case ensure_available sc s of
        Some e \<Rightarrow> Some e
      | None \<Rightarrow> if current_count \<ge> max_artifacts (sc_budget sc)
                then Some (Budget_Exceeded ''artifacts'') else None)"

definition check_usage_budget :: "'r security_controls \<Rightarrow> int \<Rightarrow> int \<Rightarrow> 'r \<Rightarrow> security_error option" where
  "check_usage_budget sc total_tokens output_tokens s =
     (case ensure_available sc s of
        Some e \<Rightarrow> Some e
      | None \<Rightarrow>
          if total_tokens > max_total_tokens (sc_budget sc) then Some (Budget_Exceeded ''tokens'')
          else if output_tokens > max_output_tokens (sc_budget sc)
          then Some (Budget_Exceeded ''output_tokens'')
          else None)"

section \<open>Canonical JSON\<close>

text \<open>\<open>json.dumps(v, sort_keys=True, separators=(",", ":"))\<close>, which escapes all but printable ASCII.\<close>

definition hex_digit :: "nat \<Rightarrow> char" where
  "hex_digit n = char_of (if n < 10 then 48 + n else 87 + n)"

definition json_char :: "char \<Rightarrow> string" where
  "json_char c = (let n = (of_char c :: nat)
     in if n = 34 then [CHR 0x5C, CHR 0x22] else if n = 92 then [CHR 0x5C, CHR 0x5C]
        else if n = 10 then CHR 0x5C # ''n'' else if n = 13 then CHR 0x5C # ''r''
        else if n = 9 then CHR 0x5C # ''t'' else if n = 8 then CHR 0x5C # ''b''
        else if n = 12 then CHR 0x5C # ''f''
        else if 32 \<le> n \<and> n \<le> 126 then [c]
        else CHR 0x5C # ''u00'' @ [hex_digit (n div 16), hex_digit (n mod 16)])"

definition json_string :: "string \<Rightarrow> string" where
  "json_string s = CHR 0x22 # concat (map json_char s) @ [CHR 0x22]"

function canonical_json :: "(json \<Rightarrow> string) \<Rightarrow> json \<Rightarrow> string" where
  "canonical_json repr_of JNull = ''null''"
| "canonical_json repr_of (JBool b) = (if b then ''true'' else ''false'')"
| "canonical_json repr_of (JInt i) = show_int i"
| "canonical_json repr_of (JFloat r) = repr_of (JFloat r)"
| "canonical_json repr_of (JStr s) = json_string s"
| "canonical_json repr_of (JList xs) =
     ''['' @ py_join '','' (map (canonical_json repr_of) xs) @ '']''"
| "canonical_json repr_of (JObj d) =
     ''{'' @ py_join '','' (map (\<lambda>(k, v). json_string k @ '':'' @ canonical_json repr_of v)
       (py_sorted fst d)) @ ''}''"
  by pat_completeness auto
termination
proof (relation "measure (\<lambda>(_, v). size v)", goal_cases)
  case 1
  show ?case by simp
next
  case (2 repr_of xs x)
  then show ?case by (auto dest: size_list_estimation'[where f = size, OF _ order_refl])
next
  case (3 repr_of d kv k v)
  then have "size v \<le> size_list (size_prod (\<lambda>_. 0) size) d"
    by (force intro: size_list_estimation')
  then show ?case by simp
qed

definition body_hash :: "(string \<Rightarrow> string) \<Rightarrow> (json \<Rightarrow> string) \<Rightarrow> json \<Rightarrow> string" where
  "body_hash sha256 repr_of body = sha256 (canonical_json repr_of body)"

section \<open>Idempotent requests\<close>

record idempotency_record =
  idem_key :: string
  idem_response :: "json dict option"
  idem_status_code :: "int option"

definition replay :: "idempotency_record \<Rightarrow> bool" where
  "replay r \<longleftrightarrow> idem_response r \<noteq> None \<and> idem_status_code r \<noteq> None"

definition idempotency_text :: "auth_context \<Rightarrow> string \<Rightarrow> string \<Rightarrow> string \<Rightarrow> string" where
  "idempotency_text auth meth path key =
     user_id auth @ '':'' @ auth_workspace_id auth @ '':'' @ meth @ '':'' @ path @ '':'' @ key"

definition idempotency_key ::
  "(string \<Rightarrow> string) \<Rightarrow> 'r security_controls \<Rightarrow> auth_context \<Rightarrow> string \<Rightarrow> string \<Rightarrow> string \<Rightarrow> string" where
  "idempotency_key sha256 sc auth meth path key =
     sc_key_prefix sc @ '':idem:'' @
     sha256 (idempotency_text auth meth path key)"

definition begin_idempotency ::
  "(string \<Rightarrow> string) \<Rightarrow> (json \<Rightarrow> string) \<Rightarrow> 'r security_controls \<Rightarrow> auth_context \<Rightarrow> string \<Rightarrow> string
    \<Rightarrow> string option \<Rightarrow> json \<Rightarrow> 'r \<Rightarrow> (security_error + idempotency_record option) \<times> 'r" where
  "begin_idempotency sha256 repr_of sc auth meth path key body s =
     (case key of
        None \<Rightarrow> (Inr None, s)
      | Some k \<Rightarrow>
          if k = [] then (Inr None, s)
          else case ensure_available sc s of
            Some e \<Rightarrow> (Inl e, s)
          | None \<Rightarrow>
              let idem = idempotency_key sha256 sc auth meth path k;
                  hash = body_hash sha256 repr_of body
              in case rd_get (sc_redis sc) idem s of
                   Some (Pending h) \<Rightarrow>
                     (Inl (if h \<noteq> hash then Idempotency_Conflict else Idempotency_In_Flight), s)
                 | Some (Completed h code response) \<Rightarrow>
                     if h \<noteq> Some hash then (Inl Idempotency_Conflict, s)
                     else (Inr (Some \<lparr>idem_key = idem, idem_response = Some response,
                             idem_status_code = Some code\<rparr>), s)
                 | None \<Rightarrow>
                     (case rd_set_nx (sc_redis sc) idem (Pending hash) 86400 s of
                        (False, s') \<Rightarrow> (Inl Idempotency_In_Flight, s')
                      | (True, s') \<Rightarrow> (Inr (Some \<lparr>idem_key = idem, idem_response = None,
                             idem_status_code = None\<rparr>), s')))"

definition complete_idempotency ::
  "'r security_controls \<Rightarrow> idempotency_record option \<Rightarrow> int \<Rightarrow> json dict \<Rightarrow> 'r \<Rightarrow> security_error option \<times> 'r" where
  "complete_idempotency sc record status_code response s =
     (case record of
        None \<Rightarrow> (None, s)
      | Some r \<Rightarrow>
          if replay r then (None, s)
          else case ensure_available sc s of
            Some e \<Rightarrow> (Some e, s)
          | None \<Rightarrow>
              let hash = (case rd_get (sc_redis sc) (idem_key r) s of
                    None \<Rightarrow> None | Some (Pending h) \<Rightarrow> Some h | Some (Completed h _ _) \<Rightarrow> h)
              in (None, rd_set (sc_redis sc) (idem_key r) (Completed hash status_code response) 86400 s))"

end
