(* ===== verification/Security_Claims.thy ===== *)
theory Security_Claims
  imports Security
begin

text \<open>
  The properties of rate limits and idempotent requests.  What Redis is relied on for is stated as
  two hypotheses: keys hold what was set, and counters count.  Both speak of a stretch of time in
  which no key expires; a reference server in memory shows that they can hold.
\<close>

section \<open>What Redis is relied on for\<close>

definition redis_store :: "'r redis \<Rightarrow> bool" where
  "redis_store rd \<longleftrightarrow>
     (\<forall>k v ex s. rd_get rd k s = None \<longrightarrow>
        fst (rd_set_nx rd k v ex s) \<and> rd_get rd k (snd (rd_set_nx rd k v ex s)) = Some v) \<and>
     (\<forall>k v ex s. rd_get rd k s \<noteq> None \<longrightarrow>
        \<not> fst (rd_set_nx rd k v ex s) \<and> snd (rd_set_nx rd k v ex s) = s) \<and>
     (\<forall>k v ex s. rd_get rd k (rd_set rd k v ex s) = Some v)"

definition redis_counter :: "'r redis \<Rightarrow> ('r \<Rightarrow> string \<Rightarrow> int) \<Rightarrow> bool" where
  "redis_counter rd cnt \<longleftrightarrow>
     (\<forall>k s. fst (rd_incr rd k s) = cnt s k + 1 \<and> cnt (snd (rd_incr rd k s)) = (cnt s)(k := cnt s k + 1)) \<and>
     (\<forall>k w s. cnt (rd_expire rd k w s) = cnt s)"

section \<open>A reference server\<close>

record memory_server =
  ms_values :: "idem_entry dict"
  ms_counts :: "int dict"

definition ms_count :: "memory_server \<Rightarrow> string \<Rightarrow> int" where
  "ms_count s k = (case dict_get (ms_counts s) k of None \<Rightarrow> 0 | Some n \<Rightarrow> n)"

definition memory_redis :: "memory_server redis" where
  "memory_redis = \<lparr>rd_ping = (\<lambda>_. True), rd_get = (\<lambda>k s. dict_get (ms_values s) k),
     rd_set_nx = (\<lambda>k v ex s. case dict_get (ms_values s) k of
         None \<Rightarrow> (True, s\<lparr>ms_values := dict_set k v (ms_values s)\<rparr>) | Some _ \<Rightarrow> (False, s)),
     rd_set = (\<lambda>k v ex s. s\<lparr>ms_values := dict_set k v (ms_values s)\<rparr>),
     rd_incr = (\<lambda>k s. (ms_count s k + 1, s\<lparr>ms_counts := dict_set k (ms_count s k + 1) (ms_counts s)\<rparr>)),
     rd_expire = (\<lambda>k w s. s)\<rparr>"

definition empty_server :: memory_server where
  "empty_server = \<lparr>ms_values = [], ms_counts = []\<rparr>"

definition memory_controls :: "memory_server security_controls" where
  "memory_controls = \<lparr>sc_redis = memory_redis, sc_rate_limits = default_rate_limits,
     sc_budget = default_budget, sc_key_prefix = ''api''\<rparr>"

lemma memory_redis_store: "redis_store memory_redis"
  by (auto simp: redis_store_def memory_redis_def split: option.split)

lemma memory_redis_counter: "redis_counter memory_redis ms_count"
  by (auto simp: redis_counter_def memory_redis_def ms_count_def)

section \<open>Rate limits\<close>

text \<open>A sequence of checks by any callers, and how many of those under one key were let through.\<close>

fun run_checks ::
  "'r security_controls \<Rightarrow> (string \<times> string \<times> rate_limit_rule) list \<Rightarrow> 'r \<Rightarrow> (string \<times> bool) list" where
  "run_checks sc [] s = []"
| "run_checks sc ((dimension, identifier, rule) # cs) s =
     (case check_limit sc dimension identifier rule s of
        (e, s') \<Rightarrow> (rate_key sc dimension identifier, e = None) # run_checks sc cs s')"

definition admitted :: "string \<Rightarrow> (string \<times> bool) list \<Rightarrow> nat" where
  "admitted k rs = length (filter (\<lambda>r. fst r = k \<and> snd r) rs)"

lemma check_limit_counter:
  assumes "redis_counter (sc_redis sc) cnt"
  shows "fst (check_limit sc dimension identifier rule s) = None \<longleftrightarrow>
      cnt s (rate_key sc dimension identifier) < rl_limit rule"
    "cnt (snd (check_limit sc dimension identifier rule s)) =
      (cnt s)(rate_key sc dimension identifier := cnt s (rate_key sc dimension identifier) + 1)"
  using assms by (auto simp: check_limit_def Let_def redis_counter_def split_beta)

lemma admitted_count:
  assumes rd: "redis_counter (sc_redis sc) cnt"
    and rule: "\<And>d i r. (d, i, r) \<in> set cs \<Longrightarrow> rate_key sc d i = k \<Longrightarrow> rl_limit r = limit"
  shows "int (admitted k (run_checks sc cs s)) =
    min (int (length (filter (\<lambda>(d, i, r). rate_key sc d i = k) cs))) (max 0 (limit - cnt s k))"
  using rule
proof (induction cs arbitrary: s)
  case (Cons c cs)
  obtain d i r where c: "c = (d, i, r)" by (cases c)
  let ?s = "snd (check_limit sc d i r s)"
  have IH: "int (admitted k (run_checks sc cs ?s)) =
      min (int (length (filter (\<lambda>(d, i, r). rate_key sc d i = k) cs))) (max 0 (limit - cnt ?s k))"
    by (rule Cons.IH) (rule Cons.prems, simp_all)
  have step: "run_checks sc (c # cs) s =
      (rate_key sc d i, fst (check_limit sc d i r s) = None) # run_checks sc cs ?s"
    by (simp add: c split_beta)
  show ?case
  proof (cases "rate_key sc d i = k")
    case True
    then have "rl_limit r = limit" using Cons.prems [of d i r] by (simp add: c)
    then show ?thesis
      using IH check_limit_counter [OF rd, of d i r s] True
      unfolding step by (auto simp: c admitted_def min_def max_def)
  next
    case False
    then show ?thesis
      using IH check_limit_counter(2) [OF rd, of d i r s] unfolding step by (simp add: c admitted_def)
  qed
qed (simp add: admitted_def)

text \<open>
  C13: Within a window, and whatever other keys are checked in between, exactly the first requests
  under a key are let through, as many as its limit leaves; every later one is refused.
\<close>

theorem rate_limit_exact:
  assumes "redis_counter (sc_redis sc) cnt" "cnt s k = 0" "0 \<le> limit"
    and "\<forall>(d, i, r) \<in> set cs. rate_key sc d i = k \<longrightarrow> rl_limit r = limit"
  shows "int (admitted k (run_checks sc cs s)) =
    min (int (length (filter (\<lambda>(d, i, r). rate_key sc d i = k) cs))) limit"
proof -
  have "rl_limit r = limit" if "(d, i, r) \<in> set cs" "rate_key sc d i = k" for d i r
    using assms(4) that by auto
  from admitted_count [OF assms(1), of cs k limit s, OF this] assms(2,3) show ?thesis by simp
qed

definition sample_checks :: "(string \<times> string \<times> rate_limit_rule) list" where
  "sample_checks = [(''user'', ''alice'', rate_rule 2 60), (''user'', ''bob'', rate_rule 9 60),
     (''user'', ''alice'', rate_rule 2 60), (''user'', ''alice'', rate_rule 2 60)]"

theorem rate_limit_exact_witness:
  "admitted ''api:rl:user:alice'' (run_checks memory_controls sample_checks empty_server) = 2"
proof -
  have "redis_counter (sc_redis memory_controls) ms_count"
    by (simp add: memory_controls_def memory_redis_counter)
  from rate_limit_exact [OF this, of empty_server "''api:rl:user:alice''" 2 sample_checks]
  show ?thesis
    by (simp add: sample_checks_def empty_server_def ms_count_def rate_key_def memory_controls_def)
qed

section \<open>Idempotent requests\<close>

text \<open>
  C14: A request with an idempotency key is carried out once: until it completes, every repetition
  is refused as in flight; after it completes, a repetition with the same body is answered with the
  recorded response and status, which completing again does not change; and a request with another
  body under the key is a conflict at any time.
\<close>

theorem idempotent_replay:
  assumes rd: "redis_store (sc_redis sc)" "\<forall>s. rd_ping (sc_redis sc) s"
    and key: "k \<noteq> []"
    and first: "begin_idempotency sha256 repr_of sc auth meth path (Some k) body s = (Inr (Some r), s1)"
      "\<not> replay r"
    and between: "rd_get (sc_redis sc) (idem_key r) s2 = rd_get (sc_redis sc) (idem_key r) s1"
    and completed: "complete_idempotency sc (Some r) code response s2 = (e, s3)"
    and later: "rd_get (sc_redis sc) (idem_key r) s4 = rd_get (sc_redis sc) (idem_key r) s3"
  shows "fst (begin_idempotency sha256 repr_of sc auth meth path (Some k) body s2) =
      Inl Idempotency_In_Flight \<and> e = None \<and>
    (\<exists>r'. begin_idempotency sha256 repr_of sc auth meth path (Some k) body s4 = (Inr (Some r'), s4) \<and>
       idem_response r' = Some response \<and> idem_status_code r' = Some code \<and>
       complete_idempotency sc (Some r') code' response' s4 = (None, s4)) \<and>
    (\<forall>body'. body_hash sha256 repr_of body' \<noteq> body_hash sha256 repr_of body \<longrightarrow>
       begin_idempotency sha256 repr_of sc auth meth path (Some k) body' s2 = (Inl Idempotency_Conflict, s2) \<and>
       begin_idempotency sha256 repr_of sc auth meth path (Some k) body' s4 = (Inl Idempotency_Conflict, s4))"
proof -
  let ?k = "idempotency_key sha256 sc auth meth path k"
  let ?h = "body_hash sha256 repr_of body"
  have ok: "ensure_available sc t = None" for t using rd(2) by (simp add: ensure_available_def)
  have free: "rd_get (sc_redis sc) ?k s = None"
    using first key ok by (auto simp: begin_idempotency_def Let_def replay_def
        split: option.splits idem_entry.splits if_splits)
  then have "fst (rd_set_nx (sc_redis sc) ?k (Pending ?h) 86400 s)"
    "rd_get (sc_redis sc) ?k (snd (rd_set_nx (sc_redis sc) ?k (Pending ?h) 86400 s)) = Some (Pending ?h)"
    using rd(1) by (simp_all add: redis_store_def)
  then have r: "idem_key r = ?k" "rd_get (sc_redis sc) ?k s1 = Some (Pending ?h)"
    using first key ok free by (auto simp: begin_idempotency_def Let_def split: prod.splits bool.splits)
  then have pending: "rd_get (sc_redis sc) ?k s2 = Some (Pending ?h)" using between by simp
  then have e: "e = None" "s3 = rd_set (sc_redis sc) ?k (Completed (Some ?h) code response) 86400 s2"
    using completed first(2) ok r(1) by (auto simp: complete_idempotency_def Let_def)
  then have "rd_get (sc_redis sc) ?k s4 = Some (Completed (Some ?h) code response)"
    using later r(1) rd(1) by (simp add: redis_store_def)
  with pending e(1) key ok show ?thesis
    by (auto simp: begin_idempotency_def complete_idempotency_def Let_def replay_def)
qed

theorem idempotent_replay_witness:
  "\<exists>r s1 s2 r'. begin_idempotency id (\<lambda>_. []) memory_controls alice ''POST'' ''/runs'' (Some ''k'') JNull empty_server
       = (Inr (Some r), s1) \<and>
     complete_idempotency memory_controls (Some r) 201 [(''run'', JInt 7)] s1 = (None, s2) \<and>
     begin_idempotency id (\<lambda>_. []) memory_controls alice ''POST'' ''/runs'' (Some ''k'') JNull s2 = (Inr (Some r'), s2) \<and>
     idem_response r' = Some [(''run'', JInt 7)]"
proof -
  let ?b = "begin_idempotency id (\<lambda>_. []) memory_controls alice ''POST'' ''/runs'' (Some ''k'') JNull"
  have rd: "redis_store (sc_redis memory_controls)" "\<forall>s. rd_ping (sc_redis memory_controls) s"
    by (simp_all add: memory_controls_def memory_redis_store) (simp add: memory_redis_def)
  have "(case fst (?b empty_server) of Inr (Some r) \<Rightarrow> \<not> replay r | _ \<Rightarrow> False)" by code_simp
  then obtain r where "fst (?b empty_server) = Inr (Some r)" "\<not> replay r"
    by (auto split: sum.splits option.splits)
  then have r: "?b empty_server = (Inr (Some r), snd (?b empty_server))" "\<not> replay r"
    by (simp_all add: prod_eq_iff)
  let ?s1 = "snd (?b empty_server)"
  obtain e s2 where c: "complete_idempotency memory_controls (Some r) 201 [(''run'', JInt 7)] ?s1 = (e, s2)"
    by fastforce
  have "''k'' \<noteq> ([] :: string)" by simp
  from idempotent_replay [OF rd this r refl c refl] r c show ?thesis by blast
qed

lemma split_at_colon:
  assumes "a @ CHR '':'' # x = b @ CHR '':'' # y" "CHR '':'' \<notin> set a" "CHR '':'' \<notin> set b"
  shows "a = b \<and> x = y"
  using assms
proof (induction a arbitrary: b)
  case Nil
  then show ?case by (cases b) auto
next
  case (Cons c a)
  then show ?case by (cases b) auto
qed

text \<open>
  Requests of different tenants or methods never share an idempotency key, provided the digest
  tells their texts apart and neither the users, the workspaces nor the methods contain a colon.
\<close>

theorem idempotency_keys_separate:
  assumes "idempotency_key sha256 sc auth meth path key = idempotency_key sha256 sc auth' meth' path' key'"
    and "sha256 (idempotency_text auth meth path key) = sha256 (idempotency_text auth' meth' path' key') \<Longrightarrow>
      idempotency_text auth meth path key = idempotency_text auth' meth' path' key'"
    and "\<forall>x \<in> {user_id auth, auth_workspace_id auth, meth, user_id auth', auth_workspace_id auth', meth'}.
      CHR '':'' \<notin> set x"
  shows "auth_tenant auth = auth_tenant auth' \<and> meth = meth' \<and> path @ '':'' @ key = path' @ '':'' @ key'"
proof -
  have "idempotency_text auth meth path key = idempotency_text auth' meth' path' key'"
    using assms(1) by (intro assms(2)) (simp add: idempotency_key_def)
  then have "user_id auth @ CHR '':'' # (auth_workspace_id auth @ CHR '':'' # (meth @ CHR '':'' # (path @ '':'' @ key))) =
      user_id auth' @ CHR '':'' # (auth_workspace_id auth' @ CHR '':'' # (meth' @ CHR '':'' # (path' @ '':'' @ key')))"
    by (simp add: idempotency_text_def)
  from split_at_colon [OF this] assms(3) have u: "user_id auth = user_id auth'"
    "auth_workspace_id auth @ CHR '':'' # (meth @ CHR '':'' # (path @ '':'' @ key)) =
      auth_workspace_id auth' @ CHR '':'' # (meth' @ CHR '':'' # (path' @ '':'' @ key'))" by auto
  from split_at_colon [OF u(2)] assms(3) have w: "auth_workspace_id auth = auth_workspace_id auth'"
    "meth @ CHR '':'' # (path @ '':'' @ key) = meth' @ CHR '':'' # (path' @ '':'' @ key')" by auto
  from split_at_colon [OF w(2)] assms(3) u(1) w(1) show ?thesis by (auto simp: auth_tenant_def)
qed

theorem idempotency_keys_separate_witness:
  "idempotency_key id memory_controls alice ''POST'' ''/runs'' ''k'' \<noteq>
   idempotency_key id memory_controls bob ''POST'' ''/runs'' ''k''"
proof
  assume "idempotency_key id memory_controls alice ''POST'' ''/runs'' ''k'' =
    idempotency_key id memory_controls bob ''POST'' ''/runs'' ''k''"
  from idempotency_keys_separate [OF this] have "auth_tenant alice = auth_tenant bob"
    by (simp add: alice_def bob_def)
  then show False by (simp add: alice_def bob_def auth_tenant_def)
qed

text \<open>
  C15: Without that proviso two tenants do share a key, whatever the digest: the parts are joined
  with colons and not escaped, so a colon can move from the user to the workspace.
\<close>

theorem idempotency_key_shared:
  "\<exists>auth auth'. auth_tenant auth \<noteq> auth_tenant auth' \<and>
     (\<exists>w. require_auth_context None (Some ''a:b'') (Some w) None None None = Inr auth) \<and>
     (\<exists>w. require_auth_context None (Some ''a'') (Some w) None None None = Inr auth') \<and>
     idempotency_key sha256 sc auth meth path key = idempotency_key sha256 sc auth' meth path key"
proof -
  let ?a = "\<lparr>user_id = ''a:b'', auth_workspace_id = ''c'', user_tier = ''paid_low'', auth_role = ''owner''\<rparr>"
  let ?b = "\<lparr>user_id = ''a'', auth_workspace_id = ''b:c'', user_tier = ''paid_low'', auth_role = ''owner''\<rparr>"
  have "require_auth_context None (Some ''a:b'') (Some ''c'') None None None = Inr ?a" by code_simp
  moreover have "require_auth_context None (Some ''a'') (Some ''b:c'') None None None = Inr ?b" by code_simp
  moreover have "auth_tenant ?a \<noteq> auth_tenant ?b" by (simp add: auth_tenant_def)
  moreover have "idempotency_key sha256 sc ?a meth path key = idempotency_key sha256 sc ?b meth path key"
    by (simp add: idempotency_key_def idempotency_text_def)
  ultimately show ?thesis by blast
qed

end
