(* ===== verification/Context.thy ===== *)
theory Context
  imports Conversations
begin

text \<open>
  The context a model call is given (\<open>server/conversation_context.py\<close>, \<open>token_estimation.py\<close>): which
  messages of a conversation fit the input budget, and when and what to compact into the memory.
  The environment variables the code reads are arguments, \<open>None\<close> when unset.
\<close>

definition CONTEXT_HISTORY_LIMIT :: int where "CONTEXT_HISTORY_LIMIT = 80"
definition RECENT_MESSAGE_TARGET :: int where "RECENT_MESSAGE_TARGET = 12"
definition DEFAULT_CONTEXT_WINDOW_TOKENS :: int where "DEFAULT_CONTEXT_WINDOW_TOKENS = 32000"
definition MIN_OUTPUT_RESERVE_TOKENS :: int where "MIN_OUTPUT_RESERVE_TOKENS = 2000"
definition COMPACTION_THRESHOLD_TOKENS :: int where "COMPACTION_THRESHOLD_TOKENS = 12000"
definition COMPACTION_THRESHOLD_MESSAGES :: int where "COMPACTION_THRESHOLD_MESSAGES = 20"

section \<open>Numbers\<close>

definition estimate_tokens :: "string \<Rightarrow> int" where
  "estimate_tokens value = max 1 (int (length value) div 4)"

text \<open>
  \<open>int(s)\<close>: white space around, a sign, and decimal digits with single underscores between them;
  \<open>None\<close> is \<open>ValueError\<close>.
\<close>

fun int_digits :: "bool \<Rightarrow> string \<Rightarrow> string option" where
  "int_digits after_digit [] = (if after_digit then Some [] else None)"
| "int_digits after_digit (c # s) =
     (if is_digit c then map_option (\<lambda>r. c # r) (int_digits True s)
      else if c = CHR ''_'' \<and> after_digit then int_digits False s
      else None)"

definition py_int_text :: "string \<Rightarrow> int option" where
  "py_int_text s =
     (case py_strip s of
        [] \<Rightarrow> None
      | c # t \<Rightarrow>
          if c = CHR ''-'' then map_option (\<lambda>d. - int (parse_nat d)) (int_digits False t)
          else if c = CHR ''+'' then map_option (\<lambda>d. int (parse_nat d)) (int_digits False t)
          else map_option (\<lambda>d. int (parse_nat d)) (int_digits False (c # t)))"

definition positive_int_env :: "string option \<Rightarrow> int \<Rightarrow> int" where
  "positive_int_env setting dflt =
     (case (case setting of None \<Rightarrow> Some dflt | Some s \<Rightarrow> py_int_text s) of
        None \<Rightarrow> dflt
      | Some value \<Rightarrow> if value > 0 then value else dflt)"

definition input_budget_tokens :: "string option \<Rightarrow> int" where
  "input_budget_tokens window =
     (let context_window = positive_int_env window DEFAULT_CONTEXT_WINDOW_TOKENS;
          reserve = max MIN_OUTPUT_RESERVE_TOKENS (context_window div 4)
      in max 1024 (context_window - reserve))"

definition compaction_threshold_tokens :: "string option \<Rightarrow> int" where
  "compaction_threshold_tokens setting = positive_int_env setting COMPACTION_THRESHOLD_TOKENS"

definition compaction_threshold_messages :: "string option \<Rightarrow> int" where
  "compaction_threshold_messages setting = positive_int_env setting COMPACTION_THRESHOLD_MESSAGES"

section \<open>Messages\<close>

record context_message =
  cm_id :: string
  cm_role :: string
  cm_content :: string

definition context_messages :: "message_record list \<Rightarrow> string option \<Rightarrow> context_message list" where
  "context_messages msgs current_message_id =
     map (\<lambda>m. \<lparr>cm_id = rec_id m, cm_role = msg_role m, cm_content = py_strip (msg_content m)\<rparr>)
       (filter (\<lambda>m. Some (rec_id m) \<noteq> current_message_id \<and> msg_role m \<in> {''user'', ''assistant''}
           \<and> py_strip (msg_content m) \<noteq> []) msgs)"

text \<open>
  The loop of \<open>_fit_recent_messages\<close> over the messages from the newest: \<open>selected\<close> is built
  backwards, so that it is in the order of the conversation.
\<close>

fun fit_loop ::
  "int \<Rightarrow> context_message list \<Rightarrow> (string \<times> string) list \<Rightarrow> int \<Rightarrow> (string \<times> string) list" where
  "fit_loop remaining [] selected used = selected"
| "fit_loop remaining (m # ms) selected used =
     (let cost = estimate_tokens (cm_content m)
      in if selected \<noteq> [] \<and> used + cost > remaining then selected
         else if selected = [] \<and> cost > remaining then selected
         else fit_loop remaining ms ((cm_role m, cm_content m) # selected) (used + cost))"

definition fit_recent_messages ::
  "context_message list \<Rightarrow> string \<Rightarrow> int \<Rightarrow> int \<Rightarrow> (string \<times> string) list" where
  "fit_recent_messages history current_user_message base_tokens budget_tokens =
     (let reserve = estimate_tokens current_user_message;
          remaining = max 0 (budget_tokens - base_tokens - reserve)
      in fit_loop remaining (rev (last_n RECENT_MESSAGE_TARGET history)) [] 0)"

section \<open>The context\<close>

definition memory_prompt :: "string \<Rightarrow> string" where
  "memory_prompt summary =
     ''Conversation memory summary for continuity. Treat this as internal context, not as a user-visible message.'' @
     [CHR 0x0A, CHR 0x0A] @ py_strip summary"

record conversation_context =
  cx_messages :: "(string \<times> string) list"
  cx_summary_used :: bool
  cx_history_message_count :: int
  cx_estimated_input_tokens :: int
  cx_truncated :: bool
  cx_prior_context_text :: string

text \<open>The summary of a memory when there is one that is not blank.\<close>

definition memory_text :: "memory_record option \<Rightarrow> string option" where
  "memory_text memory = (case memory of
      None \<Rightarrow> None
    | Some m \<Rightarrow> if py_strip (mem_summary m) = [] then None else Some (py_strip (mem_summary m)))"

definition build_context ::
  "string option \<Rightarrow> auth_context \<Rightarrow> string \<Rightarrow> string option \<Rightarrow> string \<Rightarrow> string \<Rightarrow> repo
    \<Rightarrow> conversation_context" where
  "build_context window auth cid current_message_id current_user_message system_prompt s =
     (let memory = get_conversation_memory auth cid s;
          raw_history = list_messages_for_context auth cid (Some CONTEXT_HISTORY_LIMIT) s;
          history = context_messages raw_history current_message_id;
          budget = input_budget_tokens window;
          head = (''system'', system_prompt) #
            (case memory_text memory of None \<Rightarrow> [] | Some t \<Rightarrow> [(''system'', memory_prompt t)]);
          recent = fit_recent_messages history current_user_message
            (sum_list (map (\<lambda>m. estimate_tokens (snd m)) head)) budget;
          msgs = head @ recent @ [(''user'', current_user_message)]
      in \<lparr>cx_messages = msgs,
          cx_summary_used = (memory_text memory \<noteq> None),
          cx_history_message_count = int (length history),
          cx_estimated_input_tokens = sum_list (map (\<lambda>m. estimate_tokens (snd m)) msgs),
          cx_truncated = (length recent < length history),
          cx_prior_context_text = py_join [CHR 0x0A]
            ((case memory_text memory of None \<Rightarrow> [] | Some t \<Rightarrow> [''memory: '' @ t]) @
             map (\<lambda>(role, content). role @ '': '' @ content) recent)\<rparr>)"

section \<open>Compaction\<close>

fun after_message :: "string \<Rightarrow> context_message list \<Rightarrow> context_message list option" where
  "after_message i [] = None"
| "after_message i (m # ms) = (if cm_id m = i then Some ms else after_message i ms)"

definition messages_for_compaction :: "auth_context \<Rightarrow> string \<Rightarrow> repo \<Rightarrow> context_message list" where
  "messages_for_compaction auth cid s =
     (let msgs = context_messages (list_messages_for_context auth cid None s) None
      in case get_conversation_memory auth cid s of
           None \<Rightarrow> msgs
         | Some memory \<Rightarrow>
             (case mem_covered_message_id memory of
                None \<Rightarrow> msgs
              | Some i \<Rightarrow> (case after_message i msgs of None \<Rightarrow> msgs | Some rest \<Rightarrow> rest)))"

definition should_compact ::
  "string option \<Rightarrow> string option \<Rightarrow> auth_context \<Rightarrow> string \<Rightarrow> repo \<Rightarrow> bool" where
  "should_compact message_setting token_setting auth cid s =
     (let msgs = messages_for_compaction auth cid s
      in if int (length msgs) \<ge> compaction_threshold_messages message_setting then True
         else sum_list (map (\<lambda>m. estimate_tokens (cm_content m)) msgs)
                \<ge> compaction_threshold_tokens token_setting)"

definition newline :: string where "newline = [CHR 0x0A]"

definition summary_prompt :: "string \<Rightarrow> string \<Rightarrow> string" where
  "summary_prompt transcript language =
     ''Create a concise internal memory summary in '' @
     (if language = ''vi'' then ''Vietnamese'' else ''English'') @
     '' for this Strategy Codebot conversation.'' @ newline @
     ''Preserve only durable context needed for future turns:'' @ newline @
     ''- user intent and current task'' @ newline @
     ''- strategy facts, market/timeframe, entry/exit/risk rules'' @ newline @
     ''- decisions already made'' @ newline @
     ''- artifact references or requested next steps'' @ newline @
     ''- open questions'' @ newline @
     ''- review-only product boundaries'' @ newline @ newline @
     ''Do not include secrets, raw traces, provider details, or observability metadata.'' @ newline @ newline @
     ''Transcript:'' @ newline @ transcript"

definition build_summary_messages ::
  "auth_context \<Rightarrow> string \<Rightarrow> string \<Rightarrow> repo \<Rightarrow> (string \<times> string) list \<times> string option \<times> int" where
  "build_summary_messages auth cid language s =
     (let memory = get_conversation_memory auth cid s;
          msgs = messages_for_compaction auth cid s
      in if msgs = [] then ([], None, 0)
         else
           let covered_message_id = cm_id (last msgs);
               transcript = py_join newline
                 ((case memory_text memory of None \<Rightarrow> [] | Some t \<Rightarrow> [''previous_memory_summary: '' @ t]) @
                  map (\<lambda>m. cm_role m @ '': '' @ cm_content m) msgs);
               prompt = summary_prompt transcript language
           in ([(''system'', ''Summarize conversation memory for future model context. Do not answer the user.''),
                (''user'', prompt)],
               Some covered_message_id, estimate_tokens prompt))"

end
