(* ===== verification/Context_Claims.thy ===== *)
theory Context_Claims
  imports Context
begin

text \<open>
  Properties of the model context: what a built context holds and how large it is, and that a
  stored summary takes exactly the summarised messages out of the next compaction.
\<close>

section \<open>Fitting messages\<close>

definition tokens_of :: "context_message list \<Rightarrow> int" where
  "tokens_of ms = sum_list (map (\<lambda>m. estimate_tokens (cm_content m)) ms)"

definition as_prompt :: "context_message \<Rightarrow> string \<times> string" where
  "as_prompt m = (cm_role m, cm_content m)"

lemma estimate_tokens_pos [simp]: "0 < estimate_tokens s"
  by (simp add: estimate_tokens_def)

lemma tokens_of_simps [simp]:
  "tokens_of [] = 0"
  "tokens_of (m # ms) = estimate_tokens (cm_content m) + tokens_of ms"
  "tokens_of (ms @ ns) = tokens_of ms + tokens_of ns"
  "tokens_of (rev ms) = tokens_of ms"
  by (simp_all add: tokens_of_def sum_list_rev flip: rev_map)

lemma tokens_of_nonneg: "0 \<le> tokens_of ms"
  by (induction ms) (auto intro!: add_nonneg_nonneg less_imp_le [OF estimate_tokens_pos])

lemma tokens_of_pos: "ms \<noteq> [] \<Longrightarrow> 0 < tokens_of ms"
  using tokens_of_nonneg by (cases ms) (auto intro: add_pos_nonneg)

lemma fit_loop_takes:
  assumes "selected = [] \<Longrightarrow> used = 0"
  shows "\<exists>k. k \<le> length ms \<and>
    fit_loop remaining ms selected used = rev (map as_prompt (take k ms)) @ selected \<and>
    (k = 0 \<or> used + tokens_of (take k ms) \<le> remaining) \<and>
    (k = length ms \<or> remaining < used + tokens_of (take (Suc k) ms))"
  using assms
proof (induction ms arbitrary: selected used)
  case (Cons m ms)
  let ?cost = "estimate_tokens (cm_content m)"
  show ?case
  proof (cases "remaining < used + ?cost")
    case True
    then show ?thesis using Cons.prems
      by (intro exI [of _ 0]) (cases "selected = []"; simp add: Let_def)
  next
    case False
    have "\<exists>k. k \<le> length ms \<and>
        fit_loop remaining ms (as_prompt m # selected) (used + ?cost) =
          rev (map as_prompt (take k ms)) @ as_prompt m # selected \<and>
        (k = 0 \<or> used + ?cost + tokens_of (take k ms) \<le> remaining) \<and>
        (k = length ms \<or> remaining < used + ?cost + tokens_of (take (Suc k) ms))"
      by (rule Cons.IH) simp
    then obtain k where "k \<le> length ms"
      "fit_loop remaining ms (as_prompt m # selected) (used + ?cost) =
         rev (map as_prompt (take k ms)) @ as_prompt m # selected"
      "k = 0 \<or> used + ?cost + tokens_of (take k ms) \<le> remaining"
      "k = length ms \<or> remaining < used + ?cost + tokens_of (take (Suc k) ms)"
      by blast
    then show ?thesis using False Cons.prems
      by (intro exI [of _ "Suc k"]) (auto simp: Let_def as_prompt_def add.assoc)
  qed
qed simp

lemma last_n_take: "last_n (int k) xs = rev (take k (rev xs))"
  by (simp add: last_n_def take_rev)

lemma take_rev_last_n:
  assumes "k \<le> n"
  shows "take k (rev (last_n (int n) xs)) = rev (last_n (int k) xs)"
  using assms by (simp add: last_n_take min_absorb1)

lemma length_last_n: "length (last_n (int n) xs) = min n (length xs)"
  by (simp add: last_n_def)

text \<open>The recent messages are the longest end of the last twelve that fits.\<close>

lemma fit_recent_longest:
  fixes base_tokens budget_tokens :: int and current_user_message :: string
  defines "room \<equiv> budget_tokens - base_tokens - estimate_tokens current_user_message"
  shows "\<exists>k. k \<le> min 12 (length history) \<and>
    fit_recent_messages history current_user_message base_tokens budget_tokens =
      map as_prompt (last_n (int k) history) \<and>
    (k = 0 \<or> tokens_of (last_n (int k) history) \<le> room) \<and>
    (k = min 12 (length history) \<or> room < tokens_of (last_n (int (Suc k)) history))"
proof -
  define h where "h = last_n 12 history"
  have len: "length h = min 12 (length history)"
    using length_last_n [of 12 history] by (simp add: h_def)
  have tk: "take k (rev h) = rev (last_n (int k) history)" if "k \<le> 12" for k
    using take_rev_last_n [OF that] by (simp add: h_def)
  let ?r = "max 0 room"
  obtain k where k: "k \<le> min 12 (length history)"
    and eq: "fit_loop ?r (rev h) [] 0 = rev (map as_prompt (take k (rev h)))"
    and fits: "k = 0 \<or> tokens_of (take k (rev h)) \<le> ?r"
    and full: "k = min 12 (length history) \<or> ?r < tokens_of (take (Suc k) (rev h))"
    using fit_loop_takes [of "[]" 0 "rev h" ?r] unfolding len length_rev by (auto simp only: add_0 append_Nil2 simp_thms)
  have tk_k: "take k (rev h) = rev (last_n (int k) history)"
    using k by (intro tk) simp
  have "k = 0 \<or> 0 < tokens_of (last_n (int k) history)"
    using k by (auto intro!: tokens_of_pos simp: last_n_def)
  then have "k = 0 \<or> tokens_of (last_n (int k) history) \<le> room"
    using fits by (auto simp: tk_k)
  moreover have "k = min 12 (length history) \<or> room < tokens_of (last_n (int (Suc k)) history)"
  proof (cases "k = min 12 (length history)")
    case False
    then have "take (Suc k) (rev h) = rev (last_n (int (Suc k)) history)"
      using k by (intro tk) (auto simp: min_def split: if_splits)
    then show ?thesis using full False by (simp del: of_nat_Suc)
  qed simp
  moreover have "fit_recent_messages history current_user_message base_tokens budget_tokens =
      map as_prompt (last_n (int k) history)"
    using eq by (simp add: fit_recent_messages_def room_def RECENT_MESSAGE_TARGET_def tk_k rev_map
        flip: h_def)
  ultimately show ?thesis using k by blast
qed

section \<open>Compaction\<close>

lemma positive_int_env_pos: "0 < dflt \<Longrightarrow> 0 < positive_int_env setting dflt"
  by (simp add: positive_int_env_def split: option.split)

lemma should_compact_Nil:
  assumes "messages_for_compaction auth cid s = []"
  shows "\<not> should_compact message_setting token_setting auth cid s"
  using positive_int_env_pos [of COMPACTION_THRESHOLD_MESSAGES message_setting]
    positive_int_env_pos [of COMPACTION_THRESHOLD_TOKENS token_setting]
  by (simp add: should_compact_def assms compaction_threshold_messages_def
      compaction_threshold_tokens_def COMPACTION_THRESHOLD_MESSAGES_def
      COMPACTION_THRESHOLD_TOKENS_def)

lemma after_message_suffix: "after_message i ms = Some rest \<Longrightarrow> \<exists>pre. ms = pre @ rest"
  by (induction ms) (auto split: if_splits intro: exI [of _ "_ # _"])

lemma after_message_last:
  assumes "ms \<noteq> []" "distinct (map cm_id ms)"
  shows "after_message (cm_id (last ms)) (ms @ new) = Some new"
  using assms
proof (induction ms)
  case (Cons m ms)
  show ?case
  proof (cases "ms = []")
    case False
    then have "cm_id (last ms) \<noteq> cm_id m"
      using Cons.prems by (metis distinct.simps(2) image_eqI last_in_set list.set_map list.simps(9))
    then show ?thesis using Cons False by auto
  qed simp
qed simp

lemma context_messages_append:
  "context_messages (xs @ ys) i = context_messages xs i @ context_messages ys i"
  by (simp add: context_messages_def)

lemma distinct_context_messages:
  assumes "distinct (map rec_id ms)"
  shows "distinct (map cm_id (context_messages ms i))"
  using assms by (auto simp: context_messages_def comp_def distinct_map intro: inj_on_subset)

text \<open>The messages to compact are an end of the thread, so their last is the last of the thread.\<close>

lemma messages_for_compaction_suffix:
  "\<exists>pre. context_messages (list_messages auth cid s) None = pre @ messages_for_compaction auth cid s"
  by (auto simp: messages_for_compaction_def list_messages_for_context_def Let_def
      split: option.split dest: after_message_suffix)

lemma compaction_after_cover:
  assumes mem: "get_conversation_memory auth cid s = Some m"
    and cov: "mem_covered_message_id m = Some (cm_id (last ms))"
    and thread: "context_messages (list_messages auth cid s) None = ms @ new"
    and ms: "ms \<noteq> []" "distinct (map cm_id ms)"
  shows "messages_for_compaction auth cid s = new"
  using after_message_last [OF ms]
  by (simp add: messages_for_compaction_def list_messages_for_context_def mem cov thread)

lemma upsert_memory_reads:
  assumes "upsert_conversation_memory now uuid auth cid summary cov tok s = (Some m, s')"
  shows "get_conversation_memory auth cid s' = Some m" "mem_covered_message_id m = cov"
    "list_messages auth' k s' = list_messages auth' k s"
  using assms
  by (auto simp: upsert_conversation_memory_def get_conversation_memory_def list_messages_def
      get_conversation_def is_authorized_def Let_def split: option.splits if_splits)

lemma memory_after_message:
  assumes "create_message now uuid auth cid content role s = (Inr (Some msg), s')"
  shows "get_conversation_memory auth cid s' = get_conversation_memory auth cid s"
  using assms
  by (auto simp: create_message_def get_conversation_memory_def get_conversation_def Let_def
      is_authorized_def split: option.splits if_splits)

section \<open>Properties\<close>

text \<open>The system messages of a context: the system prompt, and the memory when there is one.\<close>

definition head_messages :: "auth_context \<Rightarrow> string \<Rightarrow> string \<Rightarrow> repo \<Rightarrow> (string \<times> string) list" where
  "head_messages auth cid system_prompt s = (''system'', system_prompt) #
     (case memory_text (get_conversation_memory auth cid s) of
        None \<Rightarrow> [] | Some t \<Rightarrow> [(''system'', memory_prompt t)])"

definition prompt_tokens :: "(string \<times> string) list \<Rightarrow> int" where
  "prompt_tokens ms = sum_list (map (\<lambda>m. estimate_tokens (snd m)) ms)"

lemma prompt_tokens_simps [simp]:
  "prompt_tokens [] = 0"
  "prompt_tokens (m # ms) = estimate_tokens (snd m) + prompt_tokens ms"
  "prompt_tokens (ms @ ns) = prompt_tokens ms + prompt_tokens ns"
  "prompt_tokens (map as_prompt xs) = tokens_of xs"
  by (simp_all add: prompt_tokens_def tokens_of_def as_prompt_def comp_def)

text \<open>The history part, the tokens that are in any case, and the context with a history part.\<close>

definition history_of :: "auth_context \<Rightarrow> string \<Rightarrow> string option \<Rightarrow> repo \<Rightarrow> context_message list" where
  "history_of auth cid current s =
     context_messages (list_messages_for_context auth cid (Some CONTEXT_HISTORY_LIMIT) s) current"

definition fixed_tokens :: "auth_context \<Rightarrow> string \<Rightarrow> string \<Rightarrow> string \<Rightarrow> repo \<Rightarrow> int" where
  "fixed_tokens auth cid current_user_message system_prompt s =
     prompt_tokens (head_messages auth cid system_prompt s) + estimate_tokens current_user_message"

lemma build_context_unfold:
  fixes window current cid auth current_user_message system_prompt s
  defines "recent \<equiv> fit_recent_messages (history_of auth cid current s) current_user_message
      (prompt_tokens (head_messages auth cid system_prompt s)) (input_budget_tokens window)"
    and "cx \<equiv> build_context window auth cid current current_user_message system_prompt s"
  shows "cx_messages cx =
      head_messages auth cid system_prompt s @ recent @ [(''user'', current_user_message)]"
    and "cx_estimated_input_tokens cx =
      fixed_tokens auth cid current_user_message system_prompt s + prompt_tokens recent"
    and "cx_truncated cx \<longleftrightarrow> length recent < length (history_of auth cid current s)"
  by (simp_all add: build_context_def Let_def head_messages_def history_of_def recent_def
      cx_def prompt_tokens_def fixed_tokens_def cong: option.case_cong)

text \<open>
  C16: A model context is the system messages, the newest messages of the conversation in their
  order, and the user's message.  The history part is the longest end of the last twelve messages
  with which the whole estimate stays within the input budget, so the estimate exceeds the budget
  only when the fixed messages alone do; and truncated says whether a message was left out.
\<close>

theorem context_fits_budget:
  "let cx = build_context window auth cid current current_user_message system_prompt s;
       fixed = fixed_tokens auth cid current_user_message system_prompt s;
       history = history_of auth cid current s
   in cx_estimated_input_tokens cx \<le> max fixed (input_budget_tokens window) \<and>
      (\<exists>k. k \<le> min 12 (length history) \<and>
        cx_messages cx = head_messages auth cid system_prompt s @
          map as_prompt (last_n (int k) history) @ [(''user'', current_user_message)] \<and>
        (k = min 12 (length history) \<or>
         input_budget_tokens window < fixed + tokens_of (last_n (int (Suc k)) history)) \<and>
        (cx_truncated cx \<longleftrightarrow> k < length history))"
proof -
  let ?history = "history_of auth cid current s"
  let ?head = "prompt_tokens (head_messages auth cid system_prompt s)"
  let ?room = "input_budget_tokens window - ?head - estimate_tokens current_user_message"
  obtain k where k: "k \<le> min 12 (length ?history)"
    and recent: "fit_recent_messages ?history current_user_message ?head
      (input_budget_tokens window) = map as_prompt (last_n (int k) ?history)"
    and fits: "k = 0 \<or> tokens_of (last_n (int k) ?history) \<le> ?room"
    and full: "k = min 12 (length ?history) \<or> ?room < tokens_of (last_n (int (Suc k)) ?history)"
    using fit_recent_longest [of ?history current_user_message ?head "input_budget_tokens window"]
    by (elim exE conjE)
  have len: "length (last_n (int k) ?history) = k" using k by (simp add: length_last_n)
  note unfolded = build_context_unfold [of window auth cid current current_user_message
      system_prompt s, unfolded recent]
  show ?thesis
    unfolding Let_def unfolded
  proof (intro conjI exI [of _ k])
    show "fixed_tokens auth cid current_user_message system_prompt s +
        prompt_tokens (map as_prompt (last_n (int k) ?history))
        \<le> max (fixed_tokens auth cid current_user_message system_prompt s) (input_budget_tokens window)"
      using fits by (auto simp: fixed_tokens_def last_n_def)
    show "k = min 12 (length ?history) \<or> input_budget_tokens window
        < fixed_tokens auth cid current_user_message system_prompt s +
          tokens_of (last_n (int (Suc k)) ?history)"
      using full by (auto simp: fixed_tokens_def simp del: of_nat_Suc)
  qed (use k in \<open>simp_all add: len\<close>)
qed

text \<open>
  C17: Compaction makes progress and loses nothing: when the summary of the prompt that
  build_summary_messages gives is stored with the id it gives, nothing is left to compact, no
  threshold calls for another compaction, and the next compaction covers exactly the message sent
  after it.
\<close>

theorem compaction_progress:
  assumes ids: "distinct (map rec_id (list_messages auth cid s))" and inv: "conv_inv s"
    and build: "build_summary_messages auth cid language s = (prompt, covered, tokens)"
    and some: "prompt \<noteq> []"
    and store: "upsert_conversation_memory now uuid auth cid summary covered estimated s = (Some m, s1)"
    and send: "create_message now' uuid' auth cid content role s1 = (Inr (Some msg), s2)"
  shows "messages_for_compaction auth cid s1 = [] \<and>
    \<not> should_compact message_setting token_setting auth cid s1 \<and>
    messages_for_compaction auth cid s2 = context_messages [msg] None"
proof -
  let ?all = "context_messages (list_messages auth cid s) None"
  have rest: "messages_for_compaction auth cid s \<noteq> []"
    and cov: "covered = Some (cm_id (last (messages_for_compaction auth cid s)))"
    using build some by (auto simp: build_summary_messages_def Let_def split: if_splits)
  then have all: "?all \<noteq> []" and last: "last (messages_for_compaction auth cid s) = last ?all"
    using messages_for_compaction_suffix [of auth cid s] by auto
  note mem = upsert_memory_reads [OF store]
  have dist: "distinct (map cm_id ?all)" by (rule distinct_context_messages [OF ids])
  have none_left: "messages_for_compaction auth cid s1 = []"
  proof (rule compaction_after_cover [OF mem(1) _ _ all dist])
    show "mem_covered_message_id m = Some (cm_id (last ?all))" by (simp add: mem(2) cov last)
    show "context_messages (list_messages auth cid s1) None = ?all @ []" by (simp add: mem(3))
  qed
  have still: "\<not> should_compact message_setting token_setting auth cid s1"
    by (rule should_compact_Nil [OF none_left])
  have inv1: "conv_inv s1"
    using upsert_conversation_memory_inv [OF inv, of now uuid auth cid summary covered estimated]
    by (simp add: store)
  have mem2: "get_conversation_memory auth cid s2 = Some m"
    using memory_after_message [OF send] mem(1) by simp
  have "messages_for_compaction auth cid s2 = context_messages [msg] None"
  proof (rule compaction_after_cover [OF mem2 _ _ all dist])
    show "mem_covered_message_id m = Some (cm_id (last ?all))" by (simp add: mem(2) cov last)
    show "context_messages (list_messages auth cid s2) None = ?all @ context_messages [msg] None"
      by (simp add: create_message_appends(1) [OF inv1 send] mem(3) context_messages_append)
  qed
  with none_left still show ?thesis by blast
qed

text \<open>A conversation with one message.\<close>

definition chat :: repo where
  "chat = snd (create_message 2 ''m'' alice ''conv_c'' ''hello'' ''user''
     (snd (create_conversation 1 ''c'' alice None init_repo)))"

lemma chat_inv: "conv_inv chat"
  unfolding chat_def
  by (intro create_message_inv create_conversation_inv conv_inv_init)
    (simp add: unused_conv_def init_repo_def)

theorem compaction_progress_witness:
  "\<exists>m s1 msg s2.
     upsert_conversation_memory 3 ''n'' alice ''conv_c'' ''greeting'' (Some ''msg_m'') 9 chat = (Some m, s1) \<and>
     create_message 4 ''k'' alice ''conv_c'' ''next'' ''user'' s1 = (Inr (Some msg), s2) \<and>
     messages_for_compaction alice ''conv_c'' s1 = [] \<and>
     messages_for_compaction alice ''conv_c'' s2 = context_messages [msg] None"
proof -
  let ?b = "build_summary_messages alice ''conv_c'' ''en'' chat"
  let ?u = "upsert_conversation_memory 3 ''n'' alice ''conv_c'' ''greeting'' (Some ''msg_m'') 9 chat"
  let ?c = "create_message 4 ''k'' alice ''conv_c'' ''next'' ''user'' (snd ?u)"
  have ids: "distinct (map rec_id (list_messages alice ''conv_c'' chat))" by code_simp
  have "fst (snd ?b) = Some ''msg_m''" by code_simp
  then have b: "?b = (fst ?b, Some ''msg_m'', snd (snd ?b))" by (simp add: prod_eq_iff)
  have prompt: "fst ?b \<noteq> []" by code_simp
  have "fst ?u \<noteq> None" by code_simp
  then obtain m where u: "?u = (Some m, snd ?u)" by (auto simp: prod_eq_iff)
  have "(case fst ?c of Inr (Some _) \<Rightarrow> True | _ \<Rightarrow> False)" by code_simp
  then obtain msg where "fst ?c = Inr (Some msg)" by (auto split: sum.splits option.splits)
  then have c: "?c = (Inr (Some msg), snd ?c)" by (simp add: prod_eq_iff)
  show ?thesis
    using u c compaction_progress [OF ids chat_inv b prompt u c] by blast
qed

end
