(* ===== verification/Workflow_Contract.thy ===== *)
theory Workflow_Contract
  imports Prelude
begin

text \<open>
  The workflow registry (\<open>server/workflow_registry_contract.py\<close>): the one workflow of the service, with
  its steps, fields, sections, actions, option sets, input requests and task templates.  The parts
  that are long have a definition of their own.
\<close>

definition WORKFLOW_SCHEMA_VERSION :: int where
  "WORKFLOW_SCHEMA_VERSION = 1"

definition WORKFLOW_COMPONENT_KINDS :: "string list" where
  "WORKFLOW_COMPONENT_KINDS =
    [''workflow_header'', ''badge_row'', ''step_checklist'', ''field_status_section'',
     ''artifact_refs_section'', ''review_status_section'', ''action_gate_section'',
     ''custom_adapter_section'']"

definition WORKFLOW_TASK_KINDS :: "string list" where
  "WORKFLOW_TASK_KINDS =
    [''input_request'', ''choice_request'', ''artifact_review'', ''repair_decision'',
     ''confirmation_gate'', ''background_status'']"

definition workflow_option_sets :: json where
  "workflow_option_sets =
    JObj [
      (''market_defaults'', JList [
          JObj [
            (''id'', JStr ''crypto''), (''value'', JStr ''crypto''), (''label'', JStr ''Crypto'')],
          JObj [(''id'', JStr ''stock''), (''value'', JStr ''stock''), (''label'', JStr ''Stock'')],
          JObj [(''id'', JStr ''forex''), (''value'', JStr ''forex''), (''label'', JStr ''Forex'')]]),
      (''timeframe_defaults'', JList [
          JObj [(''id'', JStr ''15m''), (''value'', JStr ''15m''), (''label'', JStr ''15m'')],
          JObj [(''id'', JStr ''1h''), (''value'', JStr ''1h''), (''label'', JStr ''1h'')],
          JObj [(''id'', JStr ''4h''), (''value'', JStr ''4h''), (''label'', JStr ''4h'')],
          JObj [(''id'', JStr ''1d''), (''value'', JStr ''1d''), (''label'', JStr ''1d'')]]),
      (''strategy_style_defaults'', JList [
          JObj [(''id'', JStr ''trend''), (''value'', JStr ''trend''), (''label'', JStr ''Trend'')],
          JObj [
            (''id'', JStr ''mean_reversion''), (''value'', JStr ''mean_reversion''),
            (''label'', JStr ''Mean reversion'')],
          JObj [
            (''id'', JStr ''breakout''), (''value'', JStr ''breakout''),
            (''label'', JStr ''Breakout'')],
          JObj [
            (''id'', JStr ''scalping''), (''value'', JStr ''scalping''),
            (''label'', JStr ''Scalping'')],
          JObj [(''id'', JStr ''dca''), (''value'', JStr ''dca''), (''label'', JStr ''DCA'')]]),
      (''risk_preference_defaults'', JList [
          JObj [
            (''id'', JStr ''conservative''), (''value'', JStr ''conservative''),
            (''label'', JStr ''Conservative'')],
          JObj [
            (''id'', JStr ''balanced''), (''value'', JStr ''balanced''),
            (''label'', JStr ''Balanced'')],
          JObj [
            (''id'', JStr ''aggressive''), (''value'', JStr ''aggressive''),
            (''label'', JStr ''Aggressive'')]]),
      (''draft_only_choices'', JList [
          JObj [
            (''id'', JStr ''run_preview''), (''value'', JStr ''run_preview''),
            (''label'', JStr ''Run preview'')],
          JObj [
            (''id'', JStr ''draft_only''), (''value'', JStr ''draft_only''),
            (''label'', JStr ''Draft only'')]]),
      (''strategy_spec_next_actions'', JList [
          JObj [
            (''id'', JStr ''generate_pine''), (''value'', JStr ''generate_pine''),
            (''label'', JStr ''Generate Pine Script'')],
          JObj [
            (''id'', JStr ''revise_strategy_spec''), (''value'', JStr ''revise_strategy_spec''),
            (''label'', JStr ''Revise strategy spec'')],
          JObj [
            (''id'', JStr ''skip_pine''), (''value'', JStr ''skip_pine''),
            (''label'', JStr ''Skip Pine'')]])]"

definition workflow_input_request_templates :: json where
  "workflow_input_request_templates =
    JList [
      JObj [
        (''id'', JStr ''market''), (''field'', JStr ''market''), (''label'', JStr ''Market''),
        (''question'', JStr ''Which market should this strategy trade?''),
        (''kind'', JStr ''select_or_text''), (''required'', JBool True),
        (''placeholder'', JStr ''Choose or enter market''),
        (''option_set_id'', JStr ''market_defaults''), (''allow_custom'', JBool True),
        (''recommended_option_id'', JStr ''crypto''),
        (''custom_option_label'', JStr ''Use another market'')],
      JObj [
        (''id'', JStr ''symbol''), (''field'', JStr ''symbol''), (''label'', JStr ''Symbol''),
        (''question'', JStr ''Which symbol should the strategy watch?''),
        (''kind'', JStr ''text''), (''required'', JBool True),
        (''placeholder'', JStr ''BTCUSDT''), (''allow_custom'', JBool True),
        (''recommended_option_id'', JStr ''btcusdt''),
        (''custom_option_label'', JStr ''Enter another symbol''),
        (''options'', JList [
            JObj [
              (''id'', JStr ''btcusdt''), (''value'', JStr ''BTCUSDT''),
              (''label'', JStr ''BTCUSDT'')],
            JObj [
              (''id'', JStr ''ethusdt''), (''value'', JStr ''ETHUSDT''),
              (''label'', JStr ''ETHUSDT'')],
            JObj [(''id'', JStr ''aapl''), (''value'', JStr ''AAPL''), (''label'', JStr ''AAPL'')]])],
      JObj [
        (''id'', JStr ''timeframe''), (''field'', JStr ''timeframe''),
        (''label'', JStr ''Timeframe''),
        (''question'', JStr ''Which timeframe should the strategy use?''),
        (''kind'', JStr ''select_or_text''), (''required'', JBool True),
        (''placeholder'', JStr ''1h''), (''option_set_id'', JStr ''timeframe_defaults''),
        (''allow_custom'', JBool True), (''recommended_option_id'', JStr ''1h''),
        (''custom_option_label'', JStr ''Use another timeframe'')],
      JObj [
        (''id'', JStr ''style''), (''field'', JStr ''style''), (''label'', JStr ''Style''),
        (''question'', JStr ''What style should the strategy follow?''),
        (''kind'', JStr ''select_or_text''), (''required'', JBool True),
        (''option_set_id'', JStr ''strategy_style_defaults''), (''allow_custom'', JBool True),
        (''recommended_option_id'', JStr ''trend''),
        (''custom_option_label'', JStr ''Describe another style'')],
      JObj [
        (''id'', JStr ''entry_exit_idea''), (''field'', JStr ''entry_exit_idea''),
        (''label'', JStr ''Entry/exit idea''),
        (''question'', JStr ''Do you already have an entry or exit idea?''),
        (''kind'', JStr ''textarea''), (''required'', JBool False),
        (''placeholder'', JStr ''Optional entry or exit logic''), (''allow_custom'', JBool True),
        (''recommended_option_id'', JStr ''ma_cross''),
        (''custom_option_label'', JStr ''Write a different idea''),
        (''options'', JList [
            JObj [
              (''id'', JStr ''ma_cross''), (''value'', JStr ''moving average crossover''),
              (''label'', JStr ''MA crossover'')],
            JObj [
              (''id'', JStr ''rsi_reversal''),
              (''value'', JStr ''RSI overbought/oversold reversal''),
              (''label'', JStr ''RSI reversal'')],
            JObj [
              (''id'', JStr ''breakout_volume''),
              (''value'', JStr ''breakout with volume confirmation''),
              (''label'', JStr ''Breakout + volume'')]])],
      JObj [
        (''id'', JStr ''risk_preference''), (''field'', JStr ''risk_preference''),
        (''label'', JStr ''Risk preference''),
        (''question'', JStr ''What risk preference should guide the design?''),
        (''kind'', JStr ''select_or_text''), (''required'', JBool True),
        (''option_set_id'', JStr ''risk_preference_defaults''), (''allow_custom'', JBool True),
        (''recommended_option_id'', JStr ''balanced''),
        (''custom_option_label'', JStr ''Describe another risk preference'')],
      JObj [
        (''id'', JStr ''broker_connection_id''), (''field'', JStr ''broker_connection_id''),
        (''label'', JStr ''Broker connection''),
        (''question'', JStr ''Which paper broker connection should this simulation use?''),
        (''kind'', JStr ''text''), (''required'', JBool True), (''allow_custom'', JBool True),
        (''custom_option_label'', JStr ''Enter broker connection id'')],
      JObj [
        (''id'', JStr ''account_id''), (''field'', JStr ''account_id''),
        (''label'', JStr ''Account''),
        (''question'', JStr ''Which paper account should receive the simulation?''),
        (''kind'', JStr ''text''), (''required'', JBool True), (''allow_custom'', JBool True),
        (''custom_option_label'', JStr ''Enter account id'')],
      JObj [
        (''id'', JStr ''risk_policy_id''), (''field'', JStr ''risk_policy_id''),
        (''label'', JStr ''Risk policy''),
        (''question'', JStr ''Which risk policy should gate the paper bot?''),
        (''kind'', JStr ''text''), (''required'', JBool True), (''allow_custom'', JBool True),
        (''custom_option_label'', JStr ''Enter risk policy id'')],
      JObj [
        (''id'', JStr ''strategy_id''), (''field'', JStr ''strategy_id''),
        (''label'', JStr ''Strategy''),
        (''question'', JStr ''Which reviewed strategy should the bot proposal use?''),
        (''kind'', JStr ''text''), (''required'', JBool True), (''allow_custom'', JBool True),
        (''custom_option_label'', JStr ''Enter strategy id'')],
      JObj [
        (''id'', JStr ''data_subscriptions''), (''field'', JStr ''data_subscriptions''),
        (''label'', JStr ''Data subscriptions''),
        (''question'', JStr ''Which symbols/timeframes/data subscriptions are required?''),
        (''kind'', JStr ''textarea''), (''required'', JBool True),
        (''placeholder'', JStr ''BTCUSDT 1h''), (''allow_custom'', JBool True),
        (''custom_option_label'', JStr ''Enter subscriptions'')],
      JObj [
        (''id'', JStr ''draft_only_choice''), (''field'', JStr ''entry_exit_idea''),
        (''label'', JStr ''Backtest preference''),
        (''question'', JStr ''How should we handle the backtest preview for this draft?''),
        (''kind'', JStr ''single_select''), (''required'', JBool False),
        (''option_set_id'', JStr ''draft_only_choices''),
        (''recommended_option_id'', JStr ''run_preview'')],
      JObj [
        (''id'', JStr ''next_after_strategy_spec''),
        (''field'', JStr ''next_after_strategy_spec''), (''label'', JStr ''Next step''),
        (''question'', JStr ''Strategy spec is ready. What should we do next?''),
        (''kind'', JStr ''select_or_text''), (''required'', JBool True),
        (''option_set_id'', JStr ''strategy_spec_next_actions''), (''allow_custom'', JBool True),
        (''recommended_option_id'', JStr ''generate_pine''),
        (''custom_option_label'', JStr ''Tell the model what to do differently'')]]"

definition workflow_task_templates :: json where
  "workflow_task_templates =
    JList [
      JObj [
        (''id'', JStr ''collect_strategy_inputs''),
        (''step_id'', JStr ''collect_strategy_inputs''), (''kind'', JStr ''input_request''),
        (''title'', JStr ''Strategy inputs''), (''blocking'', JBool True),
        (''input_request_ids'', JList (map JStr [
            ''market'', ''symbol'', ''timeframe'', ''style'', ''entry_exit_idea'',
            ''risk_preference''])),
        (''action_ids'', JList (map JStr [])), (''default_status'', JStr ''pending_user''),
        (''resume_on_complete'', JBool True), (''resume_intent'', JStr ''strategy_building'')],
      JObj [
        (''id'', JStr ''draft_only_backtest_choice''), (''step_id'', JStr ''backtest_preview''),
        (''kind'', JStr ''choice_request''), (''title'', JStr ''Backtest preview choice''),
        (''blocking'', JBool True),
        (''input_request_ids'', JList (map JStr [''draft_only_choice''])),
        (''action_ids'', JList (map JStr [])), (''default_status'', JStr ''pending_user'')],
      JObj [
        (''id'', JStr ''review_strategy_spec_next_step''), (''step_id'', JStr ''generate_pine''),
        (''kind'', JStr ''choice_request''),
        (''title'', JStr ''Review strategy spec next step''), (''blocking'', JBool True),
        (''input_request_ids'', JList (map JStr [''next_after_strategy_spec''])),
        (''action_ids'', JList (map JStr [])), (''default_status'', JStr ''pending_user''),
        (''resume_on_complete'', JBool True), (''resume_intent'', JStr ''strategy_building'')],
      JObj [
        (''id'', JStr ''complete_paper_setup''),
        (''step_id'', JStr ''complete_setup_confirm_start''), (''kind'', JStr ''input_request''),
        (''title'', JStr ''Paper setup fields''), (''blocking'', JBool True),
        (''input_request_ids'', JList (map JStr [
            ''broker_connection_id'', ''account_id'', ''risk_policy_id'', ''strategy_id'',
            ''data_subscriptions''])),
        (''action_ids'', JList (map JStr [''confirm_paper_start''])),
        (''default_status'', JStr ''pending_user'')],
      JObj [
        (''id'', JStr ''confirm_paper_start''),
        (''step_id'', JStr ''complete_setup_confirm_start''),
        (''kind'', JStr ''confirmation_gate''), (''title'', JStr ''Confirm paper simulation''),
        (''blocking'', JBool True), (''input_request_ids'', JList (map JStr [])),
        (''action_ids'', JList (map JStr [''confirm_paper_start''])),
        (''default_status'', JStr ''blocked'')]]"

definition workflow_sections :: json where
  "workflow_sections =
    JList [
      JObj [
        (''id'', JStr ''strategy_inputs''), (''component_kind'', JStr ''field_status_section''),
        (''title'', JStr ''Strategy inputs''),
        (''fields'', JList (map JStr [
            ''market'', ''symbol'', ''timeframe'', ''style'', ''entry_exit_idea'',
            ''risk_preference'']))],
      JObj [
        (''id'', JStr ''paper_setup''), (''component_kind'', JStr ''action_gate_section''),
        (''title'', JStr ''Paper setup''), (''pending_label'', JStr ''Waiting for fields''),
        (''ready_label'', JStr ''Ready to confirm''),
        (''locked_message'', JStr ''Start paper simulation is locked until setup is complete.''),
        (''action_id'', JStr ''confirm_paper_start''),
        (''fields'', JList (map JStr [
            ''broker_connection_id'', ''account_id'', ''risk_policy_id'', ''strategy_id'',
            ''data_subscriptions'']))]]"

definition workflow_actions :: json where
  "workflow_actions =
    JList [
      JObj [
        (''id'', JStr ''confirm_paper_start''), (''kind'', JStr ''confirm_start_bot_proposal''),
        (''label'', JStr ''Start paper simulation''), (''enabled'', JBool False),
        (''disabled_reason'', JStr ''Setup fields are incomplete.'')]]"

definition workflow_guidance :: json where
  "workflow_guidance =
    JList (map JStr [
      ''Use for Strategy to Paper Bot Simulation requests.'',
      ''Model may propose workflow intent and next step only; registry validates UI sections.'',
      ''Model may propose task_template_id, short question copy, options, recommended option ids, and reasons; backend validates task state.'',
      ''Model may suggest skipped or not-applicable steps only for optional registry steps and must provide a short reason.'',
      ''Keep paper simulation boundaries visible.'',
      ''Do not represent broker execution or live trading evidence.'',
      ''Do not use skipped steps to unlock paper start or bypass proposal confirmation.'',
      ''Do not start runtime without proposal confirmation.''])"

definition strategy_bot_simulation :: "json dict" where
  "strategy_bot_simulation =
    [(''workflow_id'', JStr ''strategy_bot_simulation''),
     (''intent'', JStr ''strategy_to_paper_bot_simulation''),
     (''title'', JStr ''Strategy -> Paper Bot''),
     (''badges'', JList (map JStr [
        ''Paper simulation only'', ''No broker execution'', ''Review-only evidence''])),
     (''steps'', JList (map JStr [
        ''collect_strategy_inputs'', ''draft_strategy_spec'', ''generate_pine'',
        ''static_validation'', ''backtest_preview'', ''evidence_review'', ''draft_bot_proposal'',
        ''complete_setup_confirm_start''])),
     (''optional_steps'', JList (map JStr [
        ''generate_pine'', ''static_validation'', ''backtest_preview'', ''evidence_review''])),
     (''allowed_fields'', JList (map JStr [
        ''market'', ''symbol'', ''timeframe'', ''style'', ''entry_exit_idea'',
        ''risk_preference'', ''broker_connection_id'', ''account_id'', ''risk_policy_id'',
        ''strategy_id'', ''data_subscriptions'', ''next_after_strategy_spec''])),
     (''required_input_fields'', JList (map JStr [''market'', ''symbol'', ''timeframe'', ''style'', ''risk_preference''])),
     (''allowed_section_kinds'', JList (map JStr [
        ''field_status_section'', ''artifact_refs_section'', ''review_status_section'',
        ''action_gate_section'', ''custom_adapter_section''])),
     (''status_labels'', JObj [
        (''insufficient_evidence'', JObj [
            (''key'', JStr ''insufficient_evidence''),
            (''label'', JStr ''Insufficient evidence''), (''tone'', JStr ''neutral'')]),
        (''reviewable_with_caveats'', JObj [
            (''key'', JStr ''reviewable_with_caveats''),
            (''label'', JStr ''Reviewable with caveats''), (''tone'', JStr ''success'')]),
        (''needs_validation_or_robustness_check'', JObj [
            (''key'', JStr ''needs_validation_or_robustness_check''),
            (''label'', JStr ''Needs validation or robustness check''),
            (''tone'', JStr ''warning'')])]),
     (''default_status'', JStr ''insufficient_evidence''),
     (''sections'', workflow_sections),
     (''actions'', workflow_actions),
     (''option_sets'', workflow_option_sets),
     (''input_request_templates'', workflow_input_request_templates),
     (''task_templates'', workflow_task_templates),
     (''model_guidance'', workflow_guidance)]"

definition WORKFLOW_DEFINITIONS :: "json dict dict" where
  "WORKFLOW_DEFINITIONS = [(''strategy_bot_simulation'', strategy_bot_simulation)]"

end
