(* ===== verification/Workflow_Tasks.thy ===== *)
theory Workflow_Tasks
  imports Records Run_Modes Workflow_Contract
begin

text \<open>
  Tasks of a workflow (\<open>server/workflow_tasks.py\<close>): building the payload of a task from its template
  and from what a model proposes, and validating what a user answers.  A \<open>WorkflowTaskValidationError\<close>
  is the \<open>ValueError\<close> it extends.  The registry is a constant whose entries are dictionaries with
  string ids, so that its loops run over dictionaries only.
\<close>

definition MAX_WORKFLOW_PROMPT_OPTIONS :: nat where
  "MAX_WORKFLOW_PROMPT_OPTIONS = 3"

section \<open>Reading values\<close>

definition string_value :: "json \<Rightarrow> string option" where
  "string_value v = (case v of
      JStr s \<Rightarrow> if py_strip s = [] then None else Some (py_strip s)
    | _ \<Rightarrow> None)"

definition string_list :: "json \<Rightarrow> string list" where
  "string_list v = (case v of JList xs \<Rightarrow> List.map_filter string_value xs | _ \<Rightarrow> [])"

definition is_empty_value :: "json \<Rightarrow> bool" where
  "is_empty_value v \<longleftrightarrow> v = JNull \<or> v = JStr [] \<or> v = JList []"

text \<open>The dictionaries of a list, and the strings of a list.\<close>

definition dict_items :: "json \<Rightarrow> json dict list" where
  "dict_items v = (case v of
      JList xs \<Rightarrow> List.map_filter (\<lambda>x. case x of JObj d \<Rightarrow> Some d | _ \<Rightarrow> None) xs
    | _ \<Rightarrow> [])"

definition str_elems :: "json \<Rightarrow> string list" where
  "str_elems v = (case v of
      JList xs \<Rightarrow> List.map_filter (\<lambda>x. case x of JStr s \<Rightarrow> Some s | _ \<Rightarrow> None) xs
    | _ \<Rightarrow> [])"

definition json_dict :: "json \<Rightarrow> json dict" where
  "json_dict v = (case v of JObj d \<Rightarrow> d | _ \<Rightarrow> [])"

text \<open>
  \<open>dict(v or {})\<close>: of a dictionary, or of an iterable of pairs.  The keys of a dictionary are strings
  here; a pair with another key counts as an error.
\<close>

definition pair_of :: "json \<Rightarrow> py_error + string \<times> json" where
  "pair_of v = (case py_iter v of
      Inl e \<Rightarrow> Inl e
    | Inr [JStr k, x] \<Rightarrow> Inr (k, x)
    | Inr [_, _] \<Rightarrow> Inl TypeError
    | Inr _ \<Rightarrow> Inl (ValueError ''dictionary update sequence element''))"

definition dict_of :: "json \<Rightarrow> py_error + json dict" where
  "dict_of v = (case v of
      JObj d \<Rightarrow> Inr d
    | _ \<Rightarrow>
        if \<not> json_truthy v then Inr []
        else (case py_iter v of
            Inl e \<Rightarrow> Inl e
          | Inr items \<Rightarrow> map_sum id (dict_merge []) (collect_sum (map pair_of items))))"

text \<open>\<open>next\<close> of the entries with an id, and the text of an id.\<close>

definition with_id :: "json dict list \<Rightarrow> string \<Rightarrow> json dict option" where
  "with_id ds i = find (\<lambda>d. jget d ''id'' = JStr i) ds"

definition id_text :: "json dict \<Rightarrow> string" where
  "id_text d = (case jget d ''id'' of JStr s \<Rightarrow> s | _ \<Rightarrow> [])"

definition task_template :: "json dict \<Rightarrow> string \<Rightarrow> json dict option" where
  "task_template definition i = with_id (dict_items (jget definition ''task_templates'')) i"

definition input_request_template :: "json dict \<Rightarrow> string \<Rightarrow> json dict option" where
  "input_request_template definition i =
     with_id (dict_items (jget definition ''input_request_templates'')) i"

definition action_of :: "json dict \<Rightarrow> string \<Rightarrow> json dict option" where
  "action_of definition i = with_id (dict_items (jget definition ''actions'')) i"

section \<open>Options\<close>

definition option_matches :: "string \<Rightarrow> json dict \<Rightarrow> bool" where
  "option_matches value option \<longleftrightarrow> jget option ''id'' = JStr value \<or> jget option ''value'' = JStr value"

text \<open>The options of the registry under an option set id.\<close>

definition option_set :: "json dict \<Rightarrow> json \<Rightarrow> json" where
  "option_set definition i = (case i of
      JStr s \<Rightarrow> jget (json_dict (jget definition ''option_sets'')) s
    | _ \<Rightarrow> JNull)"

definition matching_option_value :: "json dict \<Rightarrow> json dict \<Rightarrow> string \<Rightarrow> json" where
  "matching_option_value definition template value =
     (case find (\<lambda>option. jget option ''disabled'' \<noteq> JBool True \<and> option_matches value option)
         (dict_items (jget template ''options'')) of
        Some option \<Rightarrow> jget option ''value''
      | None \<Rightarrow>
          if \<not> json_truthy (jget template ''option_set_id'') then JNull
          else (case find (option_matches value)
                  (dict_items (option_set definition (jget template ''option_set_id''))) of
              Some option \<Rightarrow> jget option ''value''
            | None \<Rightarrow> JNull))"

definition sanitize_option_value :: "json dict \<Rightarrow> json dict \<Rightarrow> json \<Rightarrow> py_error + json" where
  "sanitize_option_value definition template value =
     (let invalid = Inl (ValueError (id_text template @ '' has an invalid option''))
      in case string_value value of
           None \<Rightarrow> invalid
         | Some normalized \<Rightarrow>
             if matching_option_value definition template normalized = JNull then invalid
             else Inr (matching_option_value definition template normalized))"

definition sanitize_input_value :: "json dict \<Rightarrow> json dict \<Rightarrow> json \<Rightarrow> py_error + json" where
  "sanitize_input_value definition template value =
     (let kind = jget template ''kind''
      in if kind = JStr ''boolean'' then
           (case value of JBool _ \<Rightarrow> Inr value
            | _ \<Rightarrow> Inl (ValueError (id_text template @ '' must be boolean'')))
         else if kind = JStr ''multi_select'' then
           (case value of
              JList items \<Rightarrow> map_sum id JList
                (collect_sum (map (sanitize_option_value definition template) items))
            | _ \<Rightarrow> Inl (ValueError (id_text template @ '' must be a list'')))
         else if kind = JStr ''single_select'' \<or> kind = JStr ''select_or_text'' then
           (case string_value value of
              None \<Rightarrow> Inr JNull
            | Some normalized \<Rightarrow>
                let option_value = matching_option_value definition template normalized
                in if option_value \<noteq> JNull then Inr option_value
                   else if kind = JStr ''select_or_text'' \<and> jget template ''allow_custom'' = JBool True
                   then Inr (JStr normalized)
                   else Inl (ValueError (id_text template @ '' has an invalid option'')))
         else if kind = JStr ''text'' \<or> kind = JStr ''textarea'' then Inr (jstr (string_value value))
         else Inl (ValueError (id_text template @ '' has an unsupported kind'')))"

text \<open>
  Options a model proposes: at most three, with ids and values of their own; an option that is
  incomplete, disabled or a repetition is passed over.
\<close>

definition prompt_option :: "json dict \<Rightarrow> string \<Rightarrow> string \<Rightarrow> string \<Rightarrow> json dict" where
  "prompt_option item option_id option_value label =
     [(''id'', JStr option_id), (''value'', JStr option_value), (''label'', JStr label)] @
     (case string_value (jget item ''description'') of
        None \<Rightarrow> [] | Some description \<Rightarrow> [(''description'', JStr description)]) @
     (case string_value (jget item ''tone'') of
        None \<Rightarrow> []
      | Some tone \<Rightarrow> if tone \<in> {''neutral'', ''success'', ''warning'', ''danger''}
                    then [(''tone'', JStr tone)] else [])"

fun prompt_options_loop ::
  "string list \<Rightarrow> string list \<Rightarrow> json dict list \<Rightarrow> json list \<Rightarrow> json dict list" where
  "prompt_options_loop seen_ids seen_values options [] = options"
| "prompt_options_loop seen_ids seen_values options (item # items) =
     (if length options \<ge> MAX_WORKFLOW_PROMPT_OPTIONS then options
      else case item of
        JObj d \<Rightarrow>
          (case (string_value (jget d ''id''), string_value (jget d ''value''),
                 string_value (jget d ''label'')) of
             (Some i, Some v, Some l) \<Rightarrow>
               if i \<in> set seen_ids \<or> v \<in> set seen_values \<or> jget d ''disabled'' = JBool True
               then prompt_options_loop seen_ids seen_values options items
               else prompt_options_loop (seen_ids @ [i]) (seen_values @ [v])
                      (options @ [prompt_option d i v l]) items
           | _ \<Rightarrow> prompt_options_loop seen_ids seen_values options items)
      | _ \<Rightarrow> prompt_options_loop seen_ids seen_values options items)"

definition sanitize_prompt_options :: "json \<Rightarrow> json dict list" where
  "sanitize_prompt_options v = (case v of
      JList items \<Rightarrow> prompt_options_loop [] [] [] items
    | _ \<Rightarrow> [])"

fun first_options :: "json list \<Rightarrow> json dict list" where
  "first_options [] = []"
| "first_options (source # sources) =
     (let options = sanitize_prompt_options source
      in if options \<noteq> [] then options else first_options sources)"

definition effective_input_options ::
  "json dict \<Rightarrow> json dict \<Rightarrow> json dict option \<Rightarrow> json dict list" where
  "effective_input_options definition template override =
     first_options
       ((case override of None \<Rightarrow> [] | Some d \<Rightarrow> [jget d ''options'']) @
        [jget template ''options''] @
        (if json_truthy (jget template ''option_set_id'')
         then [option_set definition (jget template ''option_set_id'')] else []))"

section \<open>Payloads\<close>

text \<open>The overrides of a model for the selected inputs, the last one of an id winning.\<close>

definition input_request_overrides :: "string list \<Rightarrow> json list option \<Rightarrow> json dict dict" where
  "input_request_overrides selected_inputs input_requests =
     foldl (\<lambda>overrides item. case item of
         JObj d \<Rightarrow>
           (case string_value (jget d ''id'') of
              None \<Rightarrow> overrides
            | Some i \<Rightarrow> if i \<in> set selected_inputs then dict_set i d overrides else overrides)
       | _ \<Rightarrow> overrides) [] (case input_requests of None \<Rightarrow> [] | Some items \<Rightarrow> items)"

text \<open>A text of the override, or else of the template.\<close>

definition override_text :: "json dict option \<Rightarrow> json dict \<Rightarrow> string \<Rightarrow> string option" where
  "override_text override template key =
     (case string_value (jget (case override of None \<Rightarrow> [] | Some d \<Rightarrow> d) key) of
        Some s \<Rightarrow> Some s
      | None \<Rightarrow> string_value (jget template key))"

definition set_text :: "string \<Rightarrow> string option \<Rightarrow> json dict \<Rightarrow> json dict" where
  "set_text key t payload = (case t of None \<Rightarrow> payload | Some s \<Rightarrow> dict_set key (JStr s) payload)"

definition recommended_option ::
  "json dict list \<Rightarrow> string option \<Rightarrow> json dict \<Rightarrow> json dict" where
  "recommended_option options recommended payload =
     (if recommended \<noteq> None \<and> jstr recommended \<in> (\<lambda>d. jget d ''id'') ` set options
      then set_text ''recommended_option_id'' recommended payload
      else case options of
        [] \<Rightarrow> dict_pop ''recommended_option_id'' payload
      | option # _ \<Rightarrow> dict_set ''recommended_option_id'' (jget option ''id'') payload)"

definition input_request_payload :: "json dict \<Rightarrow> string \<Rightarrow> json dict option \<Rightarrow> json dict" where
  "input_request_payload definition request_id override =
     (case input_request_template definition request_id of
        None \<Rightarrow> [(''id'', JStr request_id)]
      | Some template \<Rightarrow>
          let options = effective_input_options definition template override;
              text = override_text override template;
              p1 = (if options \<noteq> [] then dict_set ''options'' (JList (map JObj options)) template
                    else template);
              p2 = set_text ''helper_text'' (text ''helper_text'')
                     (set_text ''placeholder'' (text ''placeholder'')
                       (set_text ''question'' (text ''question'') p1));
              p3 = (if jget p2 ''allow_custom'' = JBool True
                    then set_text ''custom_option_label'' (text ''custom_option_label'') p2 else p2)
          in recommended_option options (text ''recommended_option_id'') p3)"

definition action_payload :: "json dict \<Rightarrow> string \<Rightarrow> json dict" where
  "action_payload definition action_id =
     (case action_of definition action_id of None \<Rightarrow> [(''id'', JStr action_id)] | Some a \<Rightarrow> a)"

definition gated_action_payload :: "bool \<Rightarrow> string option \<Rightarrow> json dict \<Rightarrow> json dict" where
  "gated_action_payload start_allowed bot_proposal_id action =
     (if jget action ''kind'' = JStr ''confirm_start_bot_proposal''
      then (let gated = dict_set ''target_ref'' (jstr bot_proposal_id)
                  (dict_set ''enabled'' (JBool start_allowed) action)
            in if start_allowed then dict_pop ''disabled_reason'' gated else gated)
      else action)"

text \<open>The values that are known and valid; the others are dropped.\<close>

definition sanitized_known_values :: "json dict \<Rightarrow> string list \<Rightarrow> json dict \<Rightarrow> json dict" where
  "sanitized_known_values definition input_request_ids values =
     foldl (\<lambda>sanitized request_id.
         case (input_request_template definition request_id, dict_get values request_id) of
           (Some template, Some raw) \<Rightarrow>
             (case sanitize_input_value definition template raw of
                Inl _ \<Rightarrow> sanitized
              | Inr value \<Rightarrow> if is_empty_value value then sanitized
                            else dict_set request_id value sanitized)
         | _ \<Rightarrow> sanitized) [] input_request_ids"

text \<open>The ids of a template that the registry knows.\<close>

definition known_inputs :: "json dict \<Rightarrow> string list \<Rightarrow> string list" where
  "known_inputs definition ids = filter (\<lambda>i. input_request_template definition i \<noteq> None) ids"

definition known_actions :: "json dict \<Rightarrow> string list \<Rightarrow> string list" where
  "known_actions definition ids = filter (\<lambda>i. action_of definition i \<noteq> None) ids"

definition or_default :: "'a list option \<Rightarrow> 'a list \<Rightarrow> 'a list" where
  "or_default xs ys = (case xs of None \<Rightarrow> ys | Some zs \<Rightarrow> if zs = [] then ys else zs)"

definition default_status :: "json dict \<Rightarrow> json" where
  "default_status template = (case dict_get template ''default_status'' of
      None \<Rightarrow> JStr ''pending_user'' | Some v \<Rightarrow> v)"

definition build_workflow_task_payload ::
  "string \<Rightarrow> string \<Rightarrow> string option \<Rightarrow> string list option \<Rightarrow> string list option \<Rightarrow> json dict option
    \<Rightarrow> string option \<Rightarrow> json list option \<Rightarrow> json dict option" where
  "build_workflow_task_payload workflow_id template_id status input_request_ids action_ids values reason input_requests =
     (case dict_get WORKFLOW_DEFINITIONS workflow_id of
        None \<Rightarrow> None
      | Some definition \<Rightarrow>
        (case task_template definition template_id of
           None \<Rightarrow> None
         | Some template \<Rightarrow>
          let allowed_inputs = known_inputs definition (str_elems (jget template ''input_request_ids''));
              allowed_actions = known_actions definition (str_elems (jget template ''action_ids''));
              selected_inputs = filter (\<lambda>i. i \<in> set allowed_inputs) (or_default input_request_ids allowed_inputs);
              selected_actions = filter (\<lambda>i. i \<in> set allowed_actions) (or_default action_ids allowed_actions);
              overrides = input_request_overrides selected_inputs input_requests;
              normalized_status =
                (case status of
                   Some s \<Rightarrow> if s \<in> set WORKFLOW_TASK_STATUSES then JStr s else default_status template
                 | None \<Rightarrow> default_status template)
          in Some
            ([(''task_template_id'', jget template ''id''), (''step_id'', jget template ''step_id''),
              (''kind'', jget template ''kind''), (''title'', jget template ''title''),
              (''blocking'', JBool (jget template ''blocking'' = JBool True)),
              (''status'', normalized_status),
              (''input_request_ids'', JList (map JStr selected_inputs)),
              (''action_ids'', JList (map JStr selected_actions)),
              (''input_requests'', JList (map (\<lambda>i. JObj (input_request_payload definition i
                 (dict_get overrides i))) selected_inputs)),
              (''actions'', JList (map (\<lambda>i. JObj (action_payload definition i)) selected_actions)),
              (''values'', JObj (sanitized_known_values definition selected_inputs
                 (case values of None \<Rightarrow> [] | Some v \<Rightarrow> v)))] @
             (case reason of None \<Rightarrow> [] | Some r \<Rightarrow> if r = [] then [] else [(''reason'', JStr r)]))))"

end
