(* ===== verification/Workflow_Answers.thy ===== *)
theory Workflow_Answers
  imports Workflow_Tasks
begin

text \<open>
  Tasks as they come from a model and from the repository (\<open>server/workflow_tasks.py\<close>): normalising
  proposed tasks, the state of a stored task, what it asks for next, and the validation and the
  status of an answer.  A payload whose \<open>input_requests\<close> or \<open>actions\<close> is a number or a boolean, over
  which the code cannot iterate, counts as one without them.
\<close>

section \<open>Proposed tasks\<close>

text \<open>
  The template a proposed task names, and the id it has: a task may name its template by its id.
\<close>

definition proposed_task_ids :: "json dict \<Rightarrow> json dict \<Rightarrow> string option \<times> string option" where
  "proposed_task_ids definition item =
     (let template_id = string_value (json_or (jget item ''task_template_id'') (jget item ''template_id''));
          record_id = string_value (jget item ''id'')
      in case (template_id, record_id) of
           (None, Some r) \<Rightarrow>
             if task_template definition r \<noteq> None then (Some r, None) else (None, Some r)
         | _ \<Rightarrow> (template_id, record_id))"

text \<open>A built payload with its id and with its actions behind the gate.\<close>

definition gated_task_payload :: "bool \<Rightarrow> string option \<Rightarrow> string \<Rightarrow> json dict \<Rightarrow> json dict" where
  "gated_task_payload start_allowed bot_proposal_id task_id payload =
     dict_set ''actions''
       (JList (map (\<lambda>a. JObj (gated_action_payload start_allowed bot_proposal_id a))
         (dict_items (jget payload ''actions''))))
       (dict_set ''id'' (JStr task_id) payload)"

definition normalize_workflow_task ::
  "string \<Rightarrow> bool \<Rightarrow> string option \<Rightarrow> json dict \<Rightarrow> json dict \<Rightarrow> json dict option" where
  "normalize_workflow_task workflow_id start_allowed bot_proposal_id definition item =
     (case proposed_task_ids definition item of
        (None, _) \<Rightarrow> None
      | (Some t, record_id) \<Rightarrow>
          (case task_template definition t of
             None \<Rightarrow> None
           | Some template \<Rightarrow>
               if jget template ''kind'' \<notin> JStr ` set WORKFLOW_TASK_KINDS then None
               else map_option
                 (gated_task_payload start_allowed bot_proposal_id
                    (case record_id of None \<Rightarrow> t | Some i \<Rightarrow> i))
                 (build_workflow_task_payload workflow_id t
                    (string_value (jget item ''status''))
                    (Some (string_list (jget item ''input_request_ids'')))
                    (Some (string_list (jget item ''action_ids'')))
                    (case jget item ''values'' of JObj d \<Rightarrow> Some d | _ \<Rightarrow> None)
                    (string_value (jget item ''reason''))
                    (case jget item ''input_requests'' of JList xs \<Rightarrow> Some xs | _ \<Rightarrow> None))))"

definition normalize_workflow_tasks ::
  "string \<Rightarrow> json \<Rightarrow> bool \<Rightarrow> string option \<Rightarrow> json dict list" where
  "normalize_workflow_tasks workflow_id value start_allowed bot_proposal_id =
     (case dict_get WORKFLOW_DEFINITIONS workflow_id of
        None \<Rightarrow> []
      | Some definition \<Rightarrow>
          List.map_filter (normalize_workflow_task workflow_id start_allowed bot_proposal_id definition)
            (dict_items value))"

text \<open>The input request ids of tasks, in the order of the tasks.\<close>

definition task_request_ids :: "json dict list \<Rightarrow> string list" where
  "task_request_ids tasks = concat (map (\<lambda>task. str_elems (jget task ''input_request_ids'')) tasks)"

fun select_requests :: "json dict \<Rightarrow> string list \<Rightarrow> string list \<Rightarrow> json dict list" where
  "select_requests definition seen [] = []"
| "select_requests definition seen (i # is) =
     (case input_request_template definition i of
        None \<Rightarrow> select_requests definition seen is
      | Some template \<Rightarrow>
          if i \<in> set seen then select_requests definition seen is
          else template # select_requests definition (seen @ [i]) is)"

definition workflow_task_input_requests :: "string \<Rightarrow> json \<Rightarrow> json dict list \<Rightarrow> json dict list" where
  "workflow_task_input_requests workflow_id value tasks =
     (case dict_get WORKFLOW_DEFINITIONS workflow_id of
        None \<Rightarrow> []
      | Some definition \<Rightarrow>
          let named = string_list value;
              requested = (if named \<noteq> [] then named
                else List.map_filter (\<lambda>item. string_value (jget item ''id'')) (dict_items value))
          in select_requests definition []
               (if requested \<noteq> [] then requested else task_request_ids tasks))"

definition workflow_task_values ::
  "string \<Rightarrow> json \<Rightarrow> json dict list \<Rightarrow> json dict list \<Rightarrow> json dict" where
  "workflow_task_values workflow_id value input_requests tasks =
     (case dict_get WORKFLOW_DEFINITIONS workflow_id of
        None \<Rightarrow> []
      | Some definition \<Rightarrow>
          let requested = List.map_filter (\<lambda>r. case jget r ''id'' of JStr s \<Rightarrow> Some s | _ \<Rightarrow> None) input_requests;
              allowed_ids = (if requested \<noteq> [] then requested
                else rev (remdups (rev (task_request_ids tasks))))
          in sanitized_known_values definition allowed_ids (json_dict value))"

section \<open>Stored tasks\<close>

definition existing_task_values :: "task_record \<Rightarrow> py_error + json dict" where
  "existing_task_values task =
     map_sum id (\<lambda>values. case task_response task of
         None \<Rightarrow> values
       | Some response \<Rightarrow>
           (case jget response ''values'' of JObj d \<Rightarrow> dict_merge values d | _ \<Rightarrow> values))
       (dict_of (jget (task_payload task) ''values''))"

definition workflow_task_template_for_record :: "task_record \<Rightarrow> json dict option" where
  "workflow_task_template_for_record record =
     (case dict_get WORKFLOW_DEFINITIONS (task_workflow_id record) of
        None \<Rightarrow> None
      | Some definition \<Rightarrow> task_template definition (task_template_id record))"

definition workflow_task_continuation_state :: "task_record \<Rightarrow> py_error + json dict option" where
  "workflow_task_continuation_state record =
     (case workflow_task_template_for_record record of
        None \<Rightarrow> Inr None
      | Some template \<Rightarrow>
          if jget template ''resume_on_complete'' \<noteq> JBool True then Inr None
          else if task_status record \<notin> {''completed'', ''approved''} then Inr None
          else map_sum id (\<lambda>values. Some
            [(''required'', JBool True), (''task_id'', JStr (rec_id record)),
             (''workflow_id'', JStr (task_workflow_id record)),
             (''task_template_id'', JStr (task_template_id record)),
             (''resume_intent'', jstr (string_value (jget template ''resume_intent''))),
             (''reason'', JStr ''workflow_task_completed''), (''values'', JObj values)])
           (existing_task_values record))"

text \<open>\<open>list(v or [])\<close>.\<close>

definition list_or_empty :: "json \<Rightarrow> py_error + json" where
  "list_or_empty v = map_sum id JList (py_iter (json_or v (JList [])))"

text \<open>The state of a task that a client sees; \<open>isoformat\<close> is \<open>datetime.isoformat\<close>.\<close>

definition workflow_task_state :: "(datetime \<Rightarrow> string) \<Rightarrow> task_record \<Rightarrow> py_error + json dict" where
  "workflow_task_state isoformat record =
     (let payload = task_payload record in
      case (existing_task_values record,
            list_or_empty (jget payload ''input_request_ids''), list_or_empty (jget payload ''action_ids''),
            list_or_empty (jget payload ''input_requests''), list_or_empty (jget payload ''actions''),
            workflow_task_continuation_state record) of
        (Inr values, Inr input_request_ids, Inr action_ids, Inr input_requests, Inr actions, Inr continuation) \<Rightarrow>
          Inr ([(''id'', JStr (rec_id record)), (''workflow_id'', JStr (task_workflow_id record)),
            (''task_template_id'', JStr (task_template_id record)), (''step_id'', JStr (task_step_id record)),
            (''kind'', JStr (task_kind record)), (''status'', JStr (task_status record)),
            (''title'', json_or (jget payload ''title'') (JStr (task_template_id record))),
            (''blocking'', JBool (jget payload ''blocking'' = JBool True)),
            (''input_request_ids'', input_request_ids), (''action_ids'', action_ids),
            (''input_requests'', input_requests), (''actions'', actions), (''values'', JObj values),
            (''response'', case task_response record of None \<Rightarrow> JNull | Some r \<Rightarrow> JObj r),
            (''reason'', jget payload ''reason''), (''created_at'', JStr (isoformat (created_at record))),
            (''updated_at'', JStr (isoformat (task_updated_at record))),
            (''resolved_at'', case task_resolved_at record of None \<Rightarrow> JNull | Some t \<Rightarrow> JStr (isoformat t))] @
            (case continuation of None \<Rightarrow> [] | Some c \<Rightarrow> [(''continuation'', JObj c)]))
      | (Inl e, _) \<Rightarrow> Inl e
      | (_, Inl e, _) \<Rightarrow> Inl e
      | (_, _, Inl e, _) \<Rightarrow> Inl e
      | (_, _, _, Inl e, _) \<Rightarrow> Inl e
      | (_, _, _, _, Inl e, _) \<Rightarrow> Inl e
      | (_, _, _, _, _, Inl e) \<Rightarrow> Inl e)"

section \<open>What a task asks for\<close>

definition payload_input_request :: "json dict \<Rightarrow> string \<Rightarrow> json dict option" where
  "payload_input_request payload request_id =
     with_id (dict_items (jget payload ''input_requests'')) request_id"

definition payload_action :: "json dict \<Rightarrow> string \<Rightarrow> json dict option" where
  "payload_action payload action_id = with_id (dict_items (jget payload ''actions'')) action_id"

definition input_request_for_validation ::
  "json dict \<Rightarrow> json dict \<Rightarrow> string \<Rightarrow> json dict option" where
  "input_request_for_validation definition payload request_id =
     (case input_request_template definition request_id of
        None \<Rightarrow> None
      | Some template \<Rightarrow> Some
          (case payload_input_request payload request_id of
             None \<Rightarrow> template
           | Some payload_request \<Rightarrow>
               let options = sanitize_prompt_options (jget payload_request ''options'');
                   merged = (if options \<noteq> [] then dict_set ''options'' (JList (map JObj options)) template
                             else template)
               in if jget template ''allow_custom'' = JBool True
                  then dict_set ''allow_custom'' (JBool True) merged else merged))"

text \<open>The raw value of a request is there and valid: \<open>None\<close> is a missing key.\<close>

definition is_answered :: "json dict \<Rightarrow> json dict \<Rightarrow> json option \<Rightarrow> bool" where
  "is_answered definition request raw =
     (case raw of
        None \<Rightarrow> False
      | Some v \<Rightarrow>
          (case sanitize_input_value definition request v of
             Inl _ \<Rightarrow> False
           | Inr value \<Rightarrow> \<not> is_empty_value value))"

definition workflow_task_next_input_request_id ::
  "string \<Rightarrow> json dict \<Rightarrow> json dict option \<Rightarrow> py_error + string option" where
  "workflow_task_next_input_request_id workflow_id payload values =
     (case dict_get WORKFLOW_DEFINITIONS workflow_id of
        None \<Rightarrow> Inr None
      | Some definition \<Rightarrow>
          map_sum id (\<lambda>stored.
              let task_values = dict_merge stored (case values of None \<Rightarrow> [] | Some v \<Rightarrow> v)
              in find (\<lambda>i. case input_request_for_validation definition payload i of
                    None \<Rightarrow> False
                  | Some request \<Rightarrow>
                      is_empty_value (jget task_values i) \<or>
                      \<not> is_answered definition request (Some (jget task_values i)))
                  (string_list (jget payload ''input_request_ids'')))
            (dict_of (jget payload ''values'')))"

definition merge_workflow_task_input_request_overrides ::
  "string \<Rightarrow> json dict \<Rightarrow> json list \<Rightarrow> json dict option \<Rightarrow> py_error + json dict" where
  "merge_workflow_task_input_request_overrides workflow_id payload input_requests values =
     (case string_value (jget payload ''task_template_id'') of
        None \<Rightarrow> Inr payload
      | Some template_id \<Rightarrow>
          let selected_inputs = string_list (jget payload ''input_request_ids'')
          in if selected_inputs = [] then Inr payload
             else
               let incoming_ids = List.map_filter (\<lambda>d. string_value (jget d ''id'')) (dict_items (JList input_requests))
               in case (py_iter (json_or (jget payload ''input_requests'') (JList [])),
                        dict_of (jget payload ''values'')) of
                    (Inr items, Inr stored) \<Rightarrow>
                      let existing_overrides = filter (\<lambda>d. string_value (jget d ''id'') \<notin> Some ` set incoming_ids)
                            (dict_items (JList items));
                          task_values = dict_merge stored (case values of None \<Rightarrow> [] | Some v \<Rightarrow> v)
                      in Inr (case build_workflow_task_payload workflow_id template_id
                            (string_value (jget payload ''status'')) (Some selected_inputs)
                            (Some (string_list (jget payload ''action_ids''))) (Some task_values)
                            (string_value (jget payload ''reason''))
                            (Some (map JObj existing_overrides @ input_requests)) of
                          None \<Rightarrow> payload
                        | Some merged \<Rightarrow> merged)
                  | (Inl e, _) \<Rightarrow> Inl e
                  | (_, Inl e) \<Rightarrow> Inl e)"

section \<open>Answers\<close>

fun validate_loop ::
  "json dict \<Rightarrow> json dict \<Rightarrow> json dict \<Rightarrow> bool \<Rightarrow> json dict \<Rightarrow> string list \<Rightarrow> py_error + json dict" where
  "validate_loop definition payload values require_required sanitized [] = Inr sanitized"
| "validate_loop definition payload values require_required sanitized (i # is) =
     (let missing = Inl (ValueError (i @ '' is required''))
      in case input_request_for_validation definition payload i of
           None \<Rightarrow> validate_loop definition payload values require_required sanitized is
         | Some template \<Rightarrow>
             (case dict_get values i of
                None \<Rightarrow>
                  if require_required \<and> jget template ''required'' = JBool True then missing
                  else validate_loop definition payload values require_required sanitized is
              | Some raw \<Rightarrow>
                  (case sanitize_input_value definition template raw of
                     Inl e \<Rightarrow> Inl e
                   | Inr value \<Rightarrow>
                       if is_empty_value value
                       then (if jget template ''required'' = JBool True then missing
                             else validate_loop definition payload values require_required sanitized is)
                       else validate_loop definition payload values require_required
                              (dict_set i value sanitized) is)))"

definition validate_values ::
  "json dict \<Rightarrow> string list \<Rightarrow> json dict \<Rightarrow> json dict \<Rightarrow> bool \<Rightarrow> py_error + json dict" where
  "validate_values definition allowed_input_ids values payload require_required =
     (case py_sorted id (filter (\<lambda>k. k \<notin> set allowed_input_ids) (map fst values)) of
        unknown # _ \<Rightarrow> Inl (ValueError (''Unknown input request: '' @ unknown))
      | [] \<Rightarrow> validate_loop definition payload values require_required [] allowed_input_ids)"

text \<open>The ids of a stored payload, or else of its template, that the registry knows.\<close>

definition stored_ids :: "json dict \<Rightarrow> json dict \<Rightarrow> string \<Rightarrow> py_error + string list" where
  "stored_ids payload template key =
     map_sum id (\<lambda>items. str_elems (JList items))
       (py_iter (json_or (json_or (jget payload key) (jget template key)) (JList [])))"

definition action_error :: "task_record \<Rightarrow> string list \<Rightarrow> string \<Rightarrow> py_error option" where
  "action_error task allowed_actions action_id =
     (if resolved_status (task_status task) \<or> task_status task = ''blocked''
      then Some (ValueError ''Task action is not available in the current status'')
      else case payload_action (task_payload task) action_id of
        None \<Rightarrow> Some (ValueError ''Action is not available for this task'')
      | Some action \<Rightarrow>
          if action_id \<notin> set allowed_actions then Some (ValueError ''Action is not available for this task'')
          else if jget action ''enabled'' \<noteq> JBool True
          then Some (ValueError ''Action is disabled for this task'')
          else None)"

definition validate_workflow_task_response ::
  "task_record \<Rightarrow> json dict option \<Rightarrow> string option \<Rightarrow> bool \<Rightarrow> py_error + json dict" where
  "validate_workflow_task_response task values action_id partial =
     (case dict_get WORKFLOW_DEFINITIONS (task_workflow_id task) of
        None \<Rightarrow> Inl (ValueError ''Unknown workflow'')
      | Some definition \<Rightarrow>
        (case task_template definition (task_template_id task) of
           None \<Rightarrow> Inl (ValueError ''Unknown task template'')
         | Some template \<Rightarrow>
          (case (stored_ids (task_payload task) template ''input_request_ids'',
                 stored_ids (task_payload task) template ''action_ids'') of
             (Inr inputs, Inr actions) \<Rightarrow>
               (case (case action_id of None \<Rightarrow> None
                      | Some a \<Rightarrow> action_error task (known_actions definition actions) a) of
                  Some e \<Rightarrow> Inl e
                | None \<Rightarrow>
                    (case validate_values definition (known_inputs definition inputs)
                        (case values of None \<Rightarrow> [] | Some v \<Rightarrow> v) (task_payload task) (\<not> partial) of
                       Inl e \<Rightarrow> Inl e
                     | Inr sanitized \<Rightarrow>
                         map_sum id (\<lambda>final.
                             [(''workflow_id'', JStr (task_workflow_id task)),
                              (''task_template_id'', JStr (task_template_id task)),
                              (''action_id'', jstr action_id), (''values'', JObj final)])
                           (if partial
                            then map_sum id (\<lambda>existing. dict_merge existing sanitized) (existing_task_values task)
                            else Inr sanitized)))
           | (Inl e, _) \<Rightarrow> Inl e
           | (_, Inl e) \<Rightarrow> Inl e)))"

definition required_values_complete :: "task_record \<Rightarrow> json \<Rightarrow> py_error + bool" where
  "required_values_complete task values =
     (case dict_get WORKFLOW_DEFINITIONS (task_workflow_id task) of
        None \<Rightarrow> Inr False
      | Some definition \<Rightarrow>
        (case task_template definition (task_template_id task) of
           None \<Rightarrow> Inr False
         | Some template \<Rightarrow>
             map_sum id (\<lambda>inputs. list_all (\<lambda>i.
                   case input_request_for_validation definition (task_payload task) i of
                     None \<Rightarrow> True
                   | Some request \<Rightarrow>
                       jget request ''required'' \<noteq> JBool True \<or>
                       is_answered definition request (dict_get (json_dict values) i))
                 (known_inputs definition inputs))
               (stored_ids (task_payload task) template ''input_request_ids'')))"

definition workflow_task_response_status ::
  "task_record \<Rightarrow> json dict \<Rightarrow> string \<Rightarrow> py_error + string" where
  "workflow_task_response_status task response_json requested_status =
     (if requested_status \<in> {''rejected'', ''cancelled'', ''blocked''} then Inr requested_status
      else map_sum id (\<lambda>complete. if complete then requested_status else ''pending_user'')
        (required_values_complete task (jget response_json ''values'')))"

text \<open>What the user chose after a strategy spec.\<close>

definition workflow_task_strategy_spec_next_action :: "json \<Rightarrow> string option" where
  "workflow_task_strategy_spec_next_action value = (case value of
      JObj d \<Rightarrow>
        if jget d ''task_template_id'' \<noteq> JStr ''review_strategy_spec_next_step'' then None
        else (case jget d ''values'' of
            JObj values \<Rightarrow> string_value (jget values ''next_after_strategy_spec'')
          | _ \<Rightarrow> None)
    | _ \<Rightarrow> None)"

end
