(* ===== verification/Workflow_Registry.thy ===== *)
theory Workflow_Registry
  imports Workflow_Answers
begin

text \<open>
  Validation of the workflow state a model proposes (\<open>server/workflow_registry.py\<close>): what of it the
  registry knows is kept, and the start of a bot is allowed only at the final step.
\<close>

definition STRATEGY_BOT_WORKFLOW_ID :: string where
  "STRATEGY_BOT_WORKFLOW_ID = ''strategy_bot_simulation''"

definition STRATEGY_BOT_WORKFLOW_STEPS :: "string list" where
  "STRATEGY_BOT_WORKFLOW_STEPS = str_elems (jget strategy_bot_simulation ''steps'')"

definition STRATEGY_BOT_OPTIONAL_STEPS :: "string list" where
  "STRATEGY_BOT_OPTIONAL_STEPS = str_elems (jget strategy_bot_simulation ''optional_steps'')"

definition section_fields :: "string \<Rightarrow> string list" where
  "section_fields i =
     (case with_id (dict_items (jget strategy_bot_simulation ''sections'')) i of
        None \<Rightarrow> [] | Some s \<Rightarrow> str_elems (jget s ''fields''))"

definition STRATEGY_BOT_INPUT_FIELDS :: "string list" where
  "STRATEGY_BOT_INPUT_FIELDS = section_fields ''strategy_inputs''"

definition STRATEGY_BOT_REQUIRED_INPUT_FIELDS :: "string list" where
  "STRATEGY_BOT_REQUIRED_INPUT_FIELDS =
     (let required = str_elems (jget strategy_bot_simulation ''required_input_fields'')
      in if required \<noteq> [] then required else STRATEGY_BOT_INPUT_FIELDS)"

definition STRATEGY_BOT_SETUP_FIELDS :: "string list" where
  "STRATEGY_BOT_SETUP_FIELDS = section_fields ''paper_setup''"

text \<open>The lines of the guidance, one for every workflow.\<close>

definition definition_text :: "json dict \<Rightarrow> string \<Rightarrow> string" where
  "definition_text definition key = (case jget definition key of JStr s \<Rightarrow> s | _ \<Rightarrow> [])"

definition workflow_catalog_guidance :: string where
  "workflow_catalog_guidance = py_join [CHR 0x0A]
     ([''Workflow UI registry:'',
       ''- Models may choose workflow_id and propose next-step state, but backend registry validates payloads.'',
       ''- Do not invent component names. Allowed component kinds are: '' @
         py_join '', '' (py_sorted id WORKFLOW_COMPONENT_KINDS) @ ''.''] @
      map (\<lambda>definition. ''- '' @ definition_text definition ''workflow_id'' @ '' ('' @
          definition_text definition ''intent'' @ ''): '' @
          py_join ''; '' (str_elems (jget definition ''model_guidance'')))
        (dict_values WORKFLOW_DEFINITIONS))"

definition string_dict :: "json \<Rightarrow> string dict" where
  "string_dict v = (case v of
      JObj d \<Rightarrow> foldl (\<lambda>refs (k, item). case string_value item of
          None \<Rightarrow> refs | Some t \<Rightarrow> dict_set k t refs) [] d
    | _ \<Rightarrow> [])"

definition skipped_steps :: "json \<Rightarrow> json dict \<Rightarrow> string list \<Rightarrow> string \<Rightarrow> string list" where
  "skipped_steps v definition completed_steps current_step =
     filter (\<lambda>step. step \<in> set (string_list v) \<and>
         step \<in> set (str_elems (jget definition ''optional_steps'')) \<and>
         step \<notin> set completed_steps \<and> step \<noteq> current_step)
       (str_elems (jget definition ''steps''))"

definition step_reasons :: "json \<Rightarrow> string list \<Rightarrow> string dict" where
  "step_reasons v skipped = filter (\<lambda>(step, reason). step \<in> set skipped) (string_dict v)"

definition start_allowed_of ::
  "json dict \<Rightarrow> bool \<Rightarrow> string list \<Rightarrow> string option \<Rightarrow> string \<Rightarrow> bool" where
  "start_allowed_of definition requested missing_fields bot_proposal_id current_step =
     (if \<not> list_ex (\<lambda>a. jget a ''kind'' = JStr ''confirm_start_bot_proposal'')
          (dict_items (jget definition ''actions''))
      then requested
      else
        let steps = str_elems (jget definition ''steps'')
        in requested \<and> bot_proposal_id \<noteq> None \<and> missing_fields = [] \<and>
           last_opt steps = Some current_step)"

text \<open>\<open>_actions\<close>: the actions a proposal picks, which it may relabel and disable but not enable.\<close>

definition selected_action :: "json dict list \<Rightarrow> json dict \<Rightarrow> json dict option" where
  "selected_action defaults item =
     (case string_value (jget item ''id'') of
        None \<Rightarrow> None
      | Some action_id \<Rightarrow>
          map_option (\<lambda>base.
              let labelled = set_text ''label'' (string_value (jget item ''label'')) base
              in set_text ''disabled_reason'' (string_value (jget item ''disabled_reason''))
                   (dict_set ''enabled''
                     (JBool (jget item ''enabled'' = JBool True \<and> jget labelled ''enabled'' = JBool True))
                     labelled))
            (with_id (rev defaults) action_id))"

definition workflow_actions_of ::
  "json \<Rightarrow> json dict \<Rightarrow> bool \<Rightarrow> string option \<Rightarrow> json dict list" where
  "workflow_actions_of v definition start_allowed bot_proposal_id =
     (let defaults = map (gated_action_payload start_allowed bot_proposal_id)
            (dict_items (jget definition ''actions''))
      in case v of
           JList _ \<Rightarrow>
             (let selected = List.map_filter (selected_action defaults) (dict_items v)
              in if selected \<noteq> [] then selected else defaults)
         | _ \<Rightarrow> defaults)"

definition selected_section :: "json dict list \<Rightarrow> json dict \<Rightarrow> json dict option" where
  "selected_section defaults item =
     (case string_value (jget item ''id'') of
        None \<Rightarrow> None
      | Some section_id \<Rightarrow>
          (case with_id (rev defaults) section_id of
             None \<Rightarrow> None
           | Some base \<Rightarrow>
               (case string_value (jget item ''component_kind'') of
                  None \<Rightarrow> Some base
                | Some kind \<Rightarrow>
                    if JStr kind \<noteq> jget base ''component_kind'' \<or>
                       kind \<notin> set WORKFLOW_COMPONENT_KINDS
                    then None else Some base)))"

definition workflow_sections_of :: "json \<Rightarrow> json dict \<Rightarrow> json dict list" where
  "workflow_sections_of v definition =
     (let defaults = dict_items (jget definition ''sections'')
      in case v of
           JList _ \<Rightarrow>
             (let selected = List.map_filter (selected_section defaults) (dict_items v)
              in if selected \<noteq> [] then selected else defaults)
         | _ \<Rightarrow> defaults)"

definition status_key :: "json \<Rightarrow> string option" where
  "status_key v = (case v of
      JStr _ \<Rightarrow> string_value v
    | JObj d \<Rightarrow> string_value (jget d ''key'')
    | _ \<Rightarrow> None)"

definition status_label :: "json dict \<Rightarrow> json dict \<Rightarrow> json" where
  "status_label definition payload =
     (let labels = json_dict (jget definition ''status_labels'');
          known = (\<lambda>k. case k of None \<Rightarrow> False | Some s \<Rightarrow> dict_get labels s \<noteq> None);
          requested = status_key (jget payload ''status'');
          evidence = string_value (jget payload ''evidence_status'');
          key = (if known requested then the requested
                 else if known evidence then the evidence
                 else definition_text definition ''default_status'')
      in jget labels key)"

abbreviation jstrs :: "string list \<Rightarrow> json" where
  "jstrs xs \<equiv> JList (map JStr xs)"

abbreviation jobjs :: "json dict list \<Rightarrow> json" where
  "jobjs xs \<equiv> JList (map JObj xs)"

text \<open>The payload of a proposal whose workflow and current step are known.\<close>

definition validated_payload :: "string \<Rightarrow> json dict \<Rightarrow> string \<Rightarrow> json dict \<Rightarrow> json dict" where
  "validated_payload workflow_id definition current_step payload =
     (let steps = str_elems (jget definition ''steps'');
         allowed_fields = set (str_elems (jget definition ''allowed_fields''));
         completed_steps = filter (\<lambda>s. s \<in> set steps) (string_list (jget payload ''completed_steps''));
         skipped = skipped_steps (jget payload ''skipped_steps'') definition completed_steps current_step;
         required_fields = filter (\<lambda>f. f \<in> allowed_fields) (string_list (jget payload ''required_fields''));
         missing_fields = filter (\<lambda>f. f \<in> allowed_fields) (string_list (jget payload ''missing_fields''));
         artifact_refs = string_dict (jget payload ''artifact_refs'');
         status = status_label definition payload;
         bot_proposal_id = (case string_value (jget payload ''bot_proposal_id'') of
             Some b \<Rightarrow> Some b | None \<Rightarrow> dict_get artifact_refs ''bot_proposal_id'');
         start_allowed = start_allowed_of definition (jget payload ''start_allowed'' = JBool True)
           missing_fields bot_proposal_id current_step;
         tasks = normalize_workflow_tasks workflow_id (jget payload ''tasks'') start_allowed bot_proposal_id;
         input_requests = workflow_task_input_requests workflow_id (jget payload ''input_requests'') tasks
     in
       [(''schema_version'', JInt WORKFLOW_SCHEMA_VERSION), (''workflow_id'', JStr workflow_id),
        (''intent'', jget definition ''intent''), (''current_step'', JStr current_step),
        (''completed_steps'', jstrs completed_steps), (''skipped_steps'', jstrs skipped),
        (''step_reasons'', JObj (map (\<lambda>(k, r). (k, JStr r))
           (step_reasons (jget payload ''step_reasons'') skipped))),
        (''blocked_reason'', jstr (string_value (jget payload ''blocked_reason''))),
        (''required_fields'', jstrs required_fields), (''missing_fields'', jstrs missing_fields),
        (''artifact_refs'', JObj (map (\<lambda>(k, r). (k, JStr r)) artifact_refs)),
        (''status'', status),
        (''actions'', jobjs (workflow_actions_of (jget payload ''actions'') definition start_allowed bot_proposal_id)),
        (''sections'', jobjs (workflow_sections_of (jget payload ''sections'') definition)),
        (''tasks'', jobjs tasks), (''input_requests'', jobjs input_requests),
        (''task_values'', JObj (workflow_task_values workflow_id (jget payload ''task_values'')
           input_requests tasks)),
        (''evidence_status'', jget (json_dict status) ''key''),
        (''bot_proposal_id'', jstr bot_proposal_id), (''start_allowed'', JBool start_allowed)])"

definition proposed_step :: "json dict \<Rightarrow> json dict \<Rightarrow> string" where
  "proposed_step definition payload =
     (case string_value (jget payload ''current_step'') of
        Some s \<Rightarrow> s
      | None \<Rightarrow> hd (str_elems (jget definition ''steps'')))"

definition validate_workflow_payload :: "json dict \<Rightarrow> json dict option" where
  "validate_workflow_payload payload =
     (case string_value (json_or (jget payload ''workflow_id'') (jget payload ''workflow'')) of
        None \<Rightarrow> None
      | Some workflow_id \<Rightarrow>
        (case dict_get WORKFLOW_DEFINITIONS workflow_id of
           None \<Rightarrow> None
         | Some definition \<Rightarrow>
             if proposed_step definition payload \<notin> set (str_elems (jget definition ''steps'')) then None
             else Some (validated_payload workflow_id definition (proposed_step definition payload) payload)))"

end
