(* ===== verification/Workflow_Claims.thy ===== *)
theory Workflow_Claims
  imports Workflow_Registry
begin

text \<open>
  Properties of the workflow: an accepted answer completes its task, the payloads the registry
  builds are well formed, and a bot can be started only at the end of the workflow.
\<close>

section \<open>Strings and options\<close>

lemma dropWhile_rev_strip:
  "dropWhile is_space (rev (dropWhile is_space (rev (dropWhile is_space s)))) =
     rev (dropWhile is_space (rev (dropWhile is_space s)))"
proof -
  let ?t = "dropWhile is_space s"
  obtain b where b: "?t = rev (dropWhile is_space (rev ?t)) @ b"
    by (metis rev_append rev_rev_ident takeWhile_dropWhile_id)
  show ?thesis
  proof (cases "rev (dropWhile is_space (rev ?t))")
    case (Cons c r)
    then have "hd ?t = c" "?t \<noteq> []" by (subst b, simp add: Cons)+
    then have "\<not> is_space c" using hd_dropWhile by metis
    then show ?thesis using Cons by simp
  next
    case Nil
    then show ?thesis by (simp only: dropWhile.simps)
  qed
qed

lemma py_strip_strip [simp]: "py_strip (py_strip s) = py_strip s"
  by (simp add: py_strip_def dropWhile_rev_strip dropWhile_idem)

lemma string_value_Some: "string_value v = Some t \<Longrightarrow> string_value (JStr t) = Some t"
  by (auto simp: string_value_def split: json.splits if_splits)

text \<open>A text that \<open>string_value\<close> leaves alone.\<close>

definition plain_text :: "string \<Rightarrow> bool" where
  "plain_text t \<longleftrightarrow> string_value (JStr t) = Some t"

lemma plain_textI [intro]: "string_value v = Some t \<Longrightarrow> plain_text t"
  using string_value_Some by (auto simp: plain_text_def)

lemma plain_text_not_empty: "plain_text t \<Longrightarrow> t \<noteq> []"
  by (auto simp: plain_text_def string_value_def py_strip_def split: if_splits)

lemma jget_Nil [simp]: "jget [] k = JNull"
  by (simp add: jget_def)

lemma jget_Cons [simp]: "jget ((k', v) # d) k = (if k = k' then v else jget d k)"
  by (simp add: jget_def)

lemma jget_set [simp]: "jget (dict_set k v d) k' = (if k' = k then v else jget d k')"
  by (simp add: jget_def)

lemma jget_pop [simp]: "jget (dict_pop k d) k' = (if k' = k then JNull else jget d k')"
  by (simp add: jget_def)

lemma jget_append:
  "jget (d @ e) k = (case dict_get d k of None \<Rightarrow> jget e k | Some v \<Rightarrow> v)"
  by (simp add: jget_def map_add_def split: option.split)

lemma dict_items_map_JObj [simp]: "dict_items (JList (map JObj ds)) = ds"
  by (induction ds) (simp_all add: dict_items_def)

lemma dict_items_JNull [simp]: "dict_items JNull = []"
  by (simp add: dict_items_def)

lemma dict_items_map [simp]: "dict_items (JList (map (\<lambda>x. JObj (f x)) xs)) = map f xs"
  by (induction xs) (simp_all add: dict_items_def)

lemma str_elems_map_JStr [simp]: "str_elems (JList (map JStr ss)) = ss"
  by (induction ss) (simp_all add: str_elems_def)

text \<open>What the loop over proposed options keeps.\<close>

definition options_ok :: "string list \<Rightarrow> string list \<Rightarrow> json dict list \<Rightarrow> bool" where
  "options_ok is vs options \<longleftrightarrow> length options \<le> 3 \<and>
     map (\<lambda>d. jget d ''id'') options = map JStr is \<and> distinct is \<and>
     map (\<lambda>d. jget d ''value'') options = map JStr vs \<and> distinct vs \<and> list_all plain_text vs"

lemma prompt_option_fields [simp]:
  "jget (prompt_option d i v l) ''id'' = JStr i"
  "jget (prompt_option d i v l) ''value'' = JStr v"
  by (simp_all add: prompt_option_def)

lemma options_ok_snoc:
  assumes "options_ok is vs options" "length options < 3" "i \<notin> set is" "v \<notin> set vs" "plain_text v"
  shows "options_ok (is @ [i]) (vs @ [v]) (options @ [prompt_option d i v l])"
  using assms by (simp add: options_ok_def)

lemma prompt_options_loop_ok:
  "options_ok seen_ids seen_values options \<Longrightarrow>
     \<exists>is vs. options_ok is vs (prompt_options_loop seen_ids seen_values options items)"
proof (induction items arbitrary: seen_ids seen_values options)
  case (Cons item items)
  show ?case
  proof (cases "length options < 3 \<and> (\<exists>d i v l. item = JObj d \<and> string_value (jget d ''id'') = Some i \<and>
      string_value (jget d ''value'') = Some v \<and> string_value (jget d ''label'') = Some l \<and>
      i \<notin> set seen_ids \<and> v \<notin> set seen_values \<and> jget d ''disabled'' \<noteq> JBool True)")
    case True
    then obtain d i v l where item: "item = JObj d" "string_value (jget d ''id'') = Some i"
      "string_value (jget d ''value'') = Some v" "string_value (jget d ''label'') = Some l"
      "i \<notin> set seen_ids" "v \<notin> set seen_values" "jget d ''disabled'' \<noteq> JBool True"
      and len: "length options < 3" by blast
    have "options_ok (seen_ids @ [i]) (seen_values @ [v]) (options @ [prompt_option d i v l])"
      using Cons.prems item len by (intro options_ok_snoc) auto
    from Cons.IH [OF this] show ?thesis
      using item len by (simp add: MAX_WORKFLOW_PROMPT_OPTIONS_def)
  next
    case False
    then have "prompt_options_loop seen_ids seen_values options (item # items) = options \<or>
        prompt_options_loop seen_ids seen_values options (item # items) =
          prompt_options_loop seen_ids seen_values options items"
      by (cases item) (auto simp: MAX_WORKFLOW_PROMPT_OPTIONS_def split: option.splits)
    then show ?thesis
    proof (elim disjE)
      assume same: "prompt_options_loop seen_ids seen_values options (item # items) = options"
      show ?thesis unfolding same using Cons.prems by blast
    next
      assume skip: "prompt_options_loop seen_ids seen_values options (item # items) =
        prompt_options_loop seen_ids seen_values options items"
      show ?thesis unfolding skip by (rule Cons.IH [OF Cons.prems])
    qed
  qed
qed auto

lemma sanitize_prompt_options_ok:
  "\<exists>is vs. options_ok is vs (sanitize_prompt_options v)"
proof -
  have start: "options_ok [] [] []" by (simp add: options_ok_def)
  show ?thesis
    using prompt_options_loop_ok [OF start] start
    by (cases v) (auto simp: sanitize_prompt_options_def)
qed

text \<open>An option whose value is a plain text.\<close>

definition good_option :: "json dict \<Rightarrow> bool" where
  "good_option d \<longleftrightarrow> (case jget d ''value'' of JStr s \<Rightarrow> plain_text s | _ \<Rightarrow> False)"

lemma options_ok_good:
  assumes "options_ok is vs options" "d \<in> set options"
  shows "good_option d"
proof -
  have "jget d ''value'' \<in> set (map (\<lambda>d. jget d ''value'') options)" using assms(2) by simp
  then have "jget d ''value'' \<in> set (map JStr vs)"
    using assms(1) unfolding options_ok_def by (simp only:)
  then show ?thesis using assms(1) by (auto simp: good_option_def options_ok_def list_all_iff)
qed

text \<open>A request all of whose options are good.\<close>

definition good_request :: "json dict \<Rightarrow> json dict \<Rightarrow> bool" where
  "good_request definition request \<longleftrightarrow>
     list_all good_option (dict_items (jget request ''options'')) \<and>
     list_all good_option (dict_items (option_set definition (jget request ''option_set_id'')))"

lemma good_option_value:
  "good_option d \<Longrightarrow> \<exists>s. jget d ''value'' = JStr s \<and> plain_text s"
  by (auto simp: good_option_def split: json.splits)

lemma good_find:
  assumes "list_all good_option ds" "find P ds = Some d"
  shows "\<exists>t. jget d ''value'' = JStr t \<and> plain_text t"
  using assms find_SomeD good_option_value by (metis list_all_iff)

lemma matching_option_good:
  assumes good: "good_request definition request"
    and m: "matching_option_value definition request s \<noteq> JNull"
  shows "\<exists>t. matching_option_value definition request s = JStr t \<and> plain_text t"
  using assms good_find
  by (fastforce simp: matching_option_value_def good_request_def split: option.splits if_splits)

text \<open>The value of an option is matched again: by that option, or by one before it.\<close>

lemma matching_option_again:
  assumes good: "good_request definition request"
    and m: "matching_option_value definition request s = JStr t"
  shows "matching_option_value definition request t \<noteq> JNull"
proof -
  let ?os = "dict_items (jget request ''options'')"
  let ?set = "dict_items (option_set definition (jget request ''option_set_id''))"
  let ?hit = "\<lambda>u d. jget d ''disabled'' \<noteq> JBool True \<and> option_matches u d"
  have os: "list_all good_option ?os" and set: "list_all good_option ?set"
    using good by (simp_all add: good_request_def)
  show ?thesis
  proof (cases "find (?hit t) ?os")
    case (Some d)
    then show ?thesis using good_find [OF os Some] by (auto simp: matching_option_value_def)
  next
    case none: None
    have "find (?hit s) ?os = None"
    proof (cases "find (?hit s) ?os")
      case (Some d)
      then have "jget d ''value'' = JStr t" using m by (simp add: matching_option_value_def)
      then have "?hit t d" "d \<in> set ?os" using find_SomeD [OF Some] by (auto simp: option_matches_def)
      then show ?thesis using none by (auto simp: find_None_iff)
    qed
    then have truthy: "json_truthy (jget request ''option_set_id'')" and
      "(case find (option_matches s) ?set of Some d \<Rightarrow> jget d ''value'' | None \<Rightarrow> JNull) = JStr t"
      using m by (auto simp: matching_option_value_def split: if_splits)
    then obtain d where d: "d \<in> set ?set" "jget d ''value'' = JStr t"
      by (auto split: option.splits dest: find_SomeD)
    then obtain d' where "find (option_matches t) ?set = Some d'"
      by (cases "find (option_matches t) ?set") (auto simp: find_None_iff option_matches_def)
    then show ?thesis using none truthy good_find [OF set] by (fastforce simp: matching_option_value_def)
  qed
qed

section \<open>Valid values\<close>

lemma string_value_plain: "plain_text t \<Longrightarrow> string_value (JStr t) = Some t"
  by (simp add: plain_text_def)

lemma plain_not_empty_value: "plain_text t \<Longrightarrow> \<not> is_empty_value (JStr t)"
  using plain_text_not_empty by (simp add: is_empty_value_def)

lemma sanitize_option_again:
  assumes good: "good_request definition request"
    and ok: "sanitize_option_value definition request v = Inr w"
  shows "\<exists>u. sanitize_option_value definition request w = Inr u"
proof -
  obtain s where s: "w = matching_option_value definition request s" "w \<noteq> JNull"
    using ok by (auto simp: sanitize_option_value_def Let_def split: option.splits if_splits)
  then obtain t where t: "w = JStr t" "plain_text t" using matching_option_good [OF good] by metis
  then have "matching_option_value definition request t \<noteq> JNull"
    using matching_option_again [OF good] s(1) by metis
  then show ?thesis using t by (simp add: sanitize_option_value_def Let_def string_value_plain)
qed

text \<open>A valid value that is not empty is valid, and not empty, when it is read again.\<close>

lemma sanitize_input_again:
  assumes good: "good_request definition request"
    and ok: "sanitize_input_value definition request v = Inr w"
    and some: "\<not> is_empty_value w"
  shows "is_answered definition request (Some w)"
proof -
  let ?kind = "jget request ''kind''"
  consider (bool) "?kind = JStr ''boolean''" | (multi) "?kind = JStr ''multi_select''"
    | (sel) "?kind = JStr ''single_select'' \<or> ?kind = JStr ''select_or_text''"
    | (free) "?kind = JStr ''text'' \<or> ?kind = JStr ''textarea''"
    using ok by (auto simp: sanitize_input_value_def Let_def split: if_splits)
  then show ?thesis
  proof cases
    case bool
    then show ?thesis using ok
      by (auto simp: sanitize_input_value_def Let_def is_answered_def is_empty_value_def split: json.splits)
  next
    case multi
    obtain items ws where items: "v = JList items" "w = JList ws"
      "map (sanitize_option_value definition request) items = map Inr ws"
      using multi ok by (cases v; cases "collect_sum (map (sanitize_option_value definition request) (case v of JList is \<Rightarrow> is))")
        (auto simp: sanitize_input_value_def Let_def collect_sum_Inr)
    have "\<exists>u. sanitize_option_value definition request x = Inr u" if x: "x \<in> set ws" for x
    proof -
      have "Inr x \<in> set (map (sanitize_option_value definition request) items)"
        unfolding items(3) using x by simp
      then obtain y where "sanitize_option_value definition request y = Inr x" by auto
      then show ?thesis by (rule sanitize_option_again [OF good])
    qed
    then have "\<exists>us. map (sanitize_option_value definition request) ws = map Inr us"
      by (induction ws) (auto, metis list.simps(9))
    then obtain us where us: "map (sanitize_option_value definition request) ws = map Inr us" by blast
    moreover have "us \<noteq> []" using us some items(2) by (auto simp: is_empty_value_def)
    ultimately show ?thesis using multi items(2)
      by (simp add: is_answered_def sanitize_input_value_def Let_def is_empty_value_def)
  next
    case sel
    obtain s where s: "string_value v = Some s"
      using sel ok some by (cases "string_value v")
        (auto simp: sanitize_input_value_def Let_def is_empty_value_def)
    obtain t where t: "w = JStr t" "plain_text t"
      and again: "matching_option_value definition request t \<noteq> JNull \<or>
        ?kind = JStr ''select_or_text'' \<and> jget request ''allow_custom'' = JBool True"
    proof (cases "matching_option_value definition request s = JNull")
      case True
      then show ?thesis using that [of s] sel ok s
        by (auto simp: sanitize_input_value_def Let_def split: if_splits)
    next
      case False
      then obtain t where "matching_option_value definition request s = JStr t" "plain_text t"
        using matching_option_good [OF good] by blast
      then show ?thesis using that [of t] sel ok s matching_option_again [OF good]
        by (auto simp: sanitize_input_value_def Let_def)
    qed
    show ?thesis
    proof (cases "matching_option_value definition request t = JNull")
      case True
      then show ?thesis using again t sel plain_not_empty_value
        by (auto simp: is_answered_def sanitize_input_value_def Let_def string_value_plain)
    next
      case False
      then obtain u where "matching_option_value definition request t = JStr u" "plain_text u"
        using matching_option_good [OF good] by blast
      then show ?thesis using t sel plain_not_empty_value
        by (auto simp: is_answered_def sanitize_input_value_def Let_def string_value_plain)
    qed
  next
    case free
    then obtain t where t: "string_value v = Some t" "w = JStr t"
      using ok some by (cases "string_value v")
        (auto simp: sanitize_input_value_def Let_def jstr_def is_empty_value_def)
    then have "plain_text t" by blast
    then show ?thesis using t free plain_not_empty_value
      by (auto simp: is_answered_def sanitize_input_value_def Let_def string_value_plain jstr_def)
  qed
qed

section \<open>The registry\<close>

lemma workflow_definition:
  "dict_get WORKFLOW_DEFINITIONS w = Some d \<longleftrightarrow>
     w = ''strategy_bot_simulation'' \<and> d = strategy_bot_simulation"
  by (auto simp: WORKFLOW_DEFINITIONS_def)

lemma workflow_definition_get [simp]:
  "dict_get WORKFLOW_DEFINITIONS ''strategy_bot_simulation'' = Some strategy_bot_simulation"
  by (simp add: WORKFLOW_DEFINITIONS_def)

text \<open>What is checked of the registry: the shape of its templates and options.\<close>

definition registry_request_ok :: "json dict \<Rightarrow> bool" where
  "registry_request_ok t \<longleftrightarrow> good_request strategy_bot_simulation t \<and>
     (dict_get t ''options'' = None \<or> sanitize_prompt_options (jget t ''options'') \<noteq> [])"

lemma registry_requests_ok:
  "list_all registry_request_ok (dict_items (jget strategy_bot_simulation ''input_request_templates''))"
  by code_simp

definition registry_task_ok :: "json dict \<Rightarrow> bool" where
  "registry_task_ok t \<longleftrightarrow>
     default_status t \<in> JStr ` set WORKFLOW_TASK_STATUSES \<and>
     jget t ''kind'' \<in> JStr ` set WORKFLOW_TASK_KINDS \<and>
     jget t ''step_id'' \<in> JStr ` set STRATEGY_BOT_WORKFLOW_STEPS"

lemma registry_tasks_ok:
  "list_all registry_task_ok (dict_items (jget strategy_bot_simulation ''task_templates''))"
  by code_simp

lemma with_idD: "with_id ds i = Some d \<Longrightarrow> d \<in> set ds \<and> jget d ''id'' = JStr i"
  unfolding with_id_def by (rule find_SomeD)

lemma registry_request:
  "input_request_template strategy_bot_simulation i = Some t \<Longrightarrow> registry_request_ok t"
  using registry_requests_ok by (auto simp: input_request_template_def list_all_iff dest: with_idD)

lemma registry_task:
  "task_template strategy_bot_simulation i = Some t \<Longrightarrow> registry_task_ok t"
  using registry_tasks_ok by (auto simp: task_template_def list_all_iff dest: with_idD)

text \<open>The request an answer is checked against, the options of the payload merged in, is good.\<close>

lemma validation_request_good:
  assumes "input_request_for_validation strategy_bot_simulation payload i = Some request"
  shows "good_request strategy_bot_simulation request"
proof -
  obtain t where t: "input_request_template strategy_bot_simulation i = Some t"
    using assms by (auto simp: input_request_for_validation_def split: option.splits)
  have good: "good_request strategy_bot_simulation t"
    using registry_request [OF t] by (simp add: registry_request_ok_def)
  have new: "list_all good_option (sanitize_prompt_options v)" for v
    using sanitize_prompt_options_ok [of v] options_ok_good by (auto simp: list_all_iff)
  show ?thesis
    using assms t good new
    by (auto simp: input_request_for_validation_def good_request_def Let_def split: option.splits)
qed

section \<open>Answers\<close>

text \<open>The value an answer gives to a request: valid and not empty.\<close>

definition clean_value :: "json dict \<Rightarrow> json dict \<Rightarrow> json dict \<Rightarrow> string \<Rightarrow> json option" where
  "clean_value definition payload values i =
     (case (input_request_for_validation definition payload i, dict_get values i) of
        (Some request, Some raw) \<Rightarrow>
          (case sanitize_input_value definition request raw of
             Inl _ \<Rightarrow> None
           | Inr v \<Rightarrow> if is_empty_value v then None else Some v)
      | _ \<Rightarrow> None)"

text \<open>What an answer must give for a request.\<close>

definition answer_ok :: "json dict \<Rightarrow> json dict \<Rightarrow> json dict \<Rightarrow> bool \<Rightarrow> string \<Rightarrow> bool" where
  "answer_ok definition payload values require_required i =
     (case input_request_for_validation definition payload i of
        None \<Rightarrow> True
      | Some request \<Rightarrow>
          (case dict_get values i of
             None \<Rightarrow> \<not> (require_required \<and> jget request ''required'' = JBool True)
           | Some raw \<Rightarrow>
               (case sanitize_input_value definition request raw of
                  Inl _ \<Rightarrow> False
                | Inr v \<Rightarrow> jget request ''required'' = JBool True \<longrightarrow> \<not> is_empty_value v)))"

definition is_value_error :: "py_error \<Rightarrow> bool" where
  "is_value_error e = (case e of ValueError _ \<Rightarrow> True | _ \<Rightarrow> False)"

lemma collect_sum_Inl: "collect_sum xs = Inl e \<Longrightarrow> Inl e \<in> set xs"
  by (induction xs rule: collect_sum.induct) (auto split: sum.splits)

lemma sanitize_option_error:
  "sanitize_option_value definition request v = Inl e \<Longrightarrow> is_value_error e"
  by (auto simp: sanitize_option_value_def Let_def is_value_error_def split: option.splits if_splits)

lemma sanitize_options_error:
  "map_sum id JList (collect_sum (map (sanitize_option_value definition request) xs)) = Inl e \<Longrightarrow>
     is_value_error e"
proof -
  assume "map_sum id JList (collect_sum (map (sanitize_option_value definition request) xs)) = Inl e"
  then have "collect_sum (map (sanitize_option_value definition request) xs) = Inl e"
    by (cases "collect_sum (map (sanitize_option_value definition request) xs)") auto
  then have "Inl e \<in> set (map (sanitize_option_value definition request) xs)"
    by (rule collect_sum_Inl)
  then obtain x where "sanitize_option_value definition request x = Inl e" by auto
  then show ?thesis by (rule sanitize_option_error)
qed

lemma sanitize_input_value_error:
  "sanitize_input_value definition request v = Inl e \<Longrightarrow> is_value_error e"
  using sanitize_options_error
  by (auto simp: sanitize_input_value_def Let_def split: if_splits json.splits option.splits)
    (auto simp: is_value_error_def)

text \<open>The loop checks every request and collects the clean values.\<close>

lemma validate_loop_step:
  "answer_ok definition payload values req j \<Longrightarrow>
     \<exists>t. validate_loop definition payload values req sanitized (j # ids) =
         validate_loop definition payload values req t ids"
  "\<not> answer_ok definition payload values req j \<Longrightarrow>
     \<exists>e. validate_loop definition payload values req sanitized (j # ids) = Inl e"
  by (auto simp: answer_ok_def Let_def split: option.splits sum.splits)

lemma validate_loop_iff:
  "(\<exists>out. validate_loop definition payload values req sanitized ids = Inr out) \<longleftrightarrow>
     list_all (answer_ok definition payload values req) ids"
proof (induction ids arbitrary: sanitized)
  case (Cons j ids)
  show ?case
  proof (cases "answer_ok definition payload values req j")
    case True
    then obtain t where "validate_loop definition payload values req sanitized (j # ids) =
        validate_loop definition payload values req t ids"
      using validate_loop_step(1) by blast
    then show ?thesis using True Cons.IH [of t] by (simp del: validate_loop.simps)
  next
    case False
    then show ?thesis
      using validate_loop_step(2) [of "definition" payload "values" req j sanitized ids]
      by (auto simp del: validate_loop.simps)
  qed
qed simp

lemma validate_loop_error:
  "validate_loop definition payload values req sanitized ids = Inl e \<Longrightarrow> is_value_error e"
  by (induction ids arbitrary: sanitized)
    (auto simp: Let_def is_value_error_def split: option.splits sum.splits if_splits
      dest: sanitize_input_value_error [unfolded is_value_error_def])

lemma validate_loop_get:
  "validate_loop definition payload values req sanitized ids = Inr out \<Longrightarrow>
     dict_get out i = (case clean_value definition payload values i of
       Some v \<Rightarrow> if i \<in> set ids then Some v else dict_get sanitized i
     | None \<Rightarrow> dict_get sanitized i)"
proof (induction ids arbitrary: sanitized)
  case (Cons j ids)
  show ?case
  proof (cases "clean_value definition payload values j")
    case None
    then have "validate_loop definition payload values req sanitized ids = Inr out"
      using Cons.prems
      by (auto simp: clean_value_def Let_def split: option.splits sum.splits if_splits)
    from Cons.IH [OF this] show ?thesis using None by (auto split: option.split)
  next
    case (Some w)
    then have "validate_loop definition payload values req (dict_set j w sanitized) ids = Inr out"
      using Cons.prems
      by (auto simp: clean_value_def Let_def split: option.splits sum.splits if_splits)
    from Cons.IH [OF this] show ?thesis using Some by (auto split: option.split)
  qed
qed (auto split: option.split)

text \<open>What a task asks: the requests of its payload, or else of its template.\<close>

definition asked_inputs :: "task_record \<Rightarrow> string list" where
  "asked_inputs task =
     (case workflow_task_template_for_record task of
        None \<Rightarrow> []
      | Some template \<Rightarrow>
          (case stored_ids (task_payload task) template ''input_request_ids'' of
             Inl _ \<Rightarrow> []
           | Inr ids \<Rightarrow> known_inputs strategy_bot_simulation ids))"

lemma validate_values_Inr:
  assumes "validate_values definition ids values payload req = Inr out"
  shows "fst ` set values \<subseteq> set ids" "list_all (answer_ok definition payload values req) ids"
    "dict_get out i = (if i \<in> set ids then clean_value definition payload values i else None)"
proof -
  let ?unknown = "filter (\<lambda>k. k \<notin> set ids) (map fst values)"
  have none: "py_sorted id ?unknown = []"
    and out: "validate_loop definition payload values req [] ids = Inr out"
    using assms by (auto simp: validate_values_def split: list.splits)
  then have "set ?unknown = {}" by (metis set_empty set_py_sorted)
  then show "fst ` set values \<subseteq> set ids" by auto
  show "list_all (answer_ok definition payload values req) ids"
    using out validate_loop_iff by metis
  show "dict_get out i = (if i \<in> set ids then clean_value definition payload values i else None)"
    using validate_loop_get [OF out, of i] by (auto split: option.split)
qed

lemma validate_response_cases:
  assumes "validate_workflow_task_response task values action_id False = Inr response"
  shows "\<exists>template ids out. task_workflow_id task = ''strategy_bot_simulation'' \<and>
    task_template strategy_bot_simulation (task_template_id task) = Some template \<and>
    stored_ids (task_payload task) template ''input_request_ids'' = Inr ids \<and>
    validate_values strategy_bot_simulation (known_inputs strategy_bot_simulation ids)
      (case values of None \<Rightarrow> [] | Some v \<Rightarrow> v) (task_payload task) True = Inr out \<and>
    jget response ''values'' = JObj out"
  using assms
  by (auto simp: validate_workflow_task_response_def workflow_definition split: option.splits sum.splits)

lemma task_template_for_record:
  "workflow_task_template_for_record task = Some template \<longleftrightarrow>
     task_workflow_id task = ''strategy_bot_simulation'' \<and>
     task_template strategy_bot_simulation (task_template_id task) = Some template"
  by (auto simp: workflow_task_template_for_record_def workflow_definition split: option.split)

text \<open>The values of an answer, none when it has no values.\<close>

abbreviation given :: "json dict option \<Rightarrow> json dict" where
  "given values \<equiv> (case values of None \<Rightarrow> [] | Some v \<Rightarrow> v)"

text \<open>
  C19: A full answer that is accepted completes its task.  Its values are exactly the values the user
  gave to the requests of the task, in their valid form and without the empty ones; and the status
  that the answer gives the task is completed, since reading the values again finds every required
  request answered.
\<close>

theorem accepted_answer_completes:
  assumes accepted: "validate_workflow_task_response task values action_id False = Inr response"
  shows "workflow_task_response_status task response ''completed'' = Inr ''completed'' \<and>
    (\<exists>out. jget response ''values'' = JObj out \<and>
      (\<forall>i. dict_get out i =
        (if i \<in> set (asked_inputs task)
         then clean_value strategy_bot_simulation (task_payload task) (given values) i else None)))"
proof -
  obtain template ids out where task: "task_workflow_id task = ''strategy_bot_simulation''"
      "task_template strategy_bot_simulation (task_template_id task) = Some template"
    and ids: "stored_ids (task_payload task) template ''input_request_ids'' = Inr ids"
    and valid: "validate_values strategy_bot_simulation (known_inputs strategy_bot_simulation ids)
      (given values) (task_payload task) True = Inr out"
    and resp: "jget response ''values'' = JObj out"
    using validate_response_cases [OF accepted] by blast
  have asked: "asked_inputs task = known_inputs strategy_bot_simulation ids"
    using task ids by (simp add: asked_inputs_def task_template_for_record [THEN iffD2])
  note checked = validate_values_Inr [OF valid, folded asked]
  have "is_answered strategy_bot_simulation request (dict_get out i)"
    if i: "i \<in> set (asked_inputs task)"
      and request: "input_request_for_validation strategy_bot_simulation (task_payload task) i = Some request"
      and required: "jget request ''required'' = JBool True" for i request
  proof -
    have "answer_ok strategy_bot_simulation (task_payload task) (given values) True i"
      using checked(2) i by (auto simp: list_all_iff)
    then obtain raw w where "dict_get (given values) i = Some raw"
      and clean: "sanitize_input_value strategy_bot_simulation request raw = Inr w" "\<not> is_empty_value w"
      using request required by (auto simp: answer_ok_def split: option.splits sum.splits)
    then have "dict_get out i = Some w"
      using checked(3) i request by (simp add: clean_value_def)
    then show ?thesis
      using sanitize_input_again [OF validation_request_good [OF request] clean] by simp
  qed
  then have "workflow_task_response_status task response ''completed'' = Inr ''completed''"
    using task ids resp asked
    by (auto simp: workflow_task_response_status_def required_values_complete_def workflow_definition
        json_dict_def list_all_iff split: option.split)
  then show ?thesis using resp checked(3) by blast
qed

text \<open>A task that asks for the strategy inputs, and an answer to it.\<close>

definition inputs_task :: task_record where
  "inputs_task = \<lparr>rec_id = ''wft_1'', owner_user_id = ''alice'', workspace_id = ''w1'', created_at = 0,
     task_conversation_id = ''conv_1'', task_run_id = None, task_workflow_id = ''strategy_bot_simulation'',
     task_template_id = ''collect_strategy_inputs'', task_step_id = ''collect_strategy_inputs'',
     task_kind = ''input_request'', task_status = ''pending_user'', task_payload = [],
     task_response = None, task_updated_at = 0, task_resolved_at = None\<rparr>"

definition inputs_answer :: "json dict" where
  "inputs_answer = [(''market'', JStr ''crypto''), (''symbol'', JStr '' SOLUSDT ''), (''timeframe'', JStr ''1h''),
     (''style'', JStr ''trend''), (''entry_exit_idea'', JStr []), (''risk_preference'', JStr ''bold'')]"

theorem accepted_answer_completes_witness:
  "\<exists>response. validate_workflow_task_response inputs_task (Some inputs_answer) None False = Inr response \<and>
     workflow_task_response_status inputs_task response ''completed'' = Inr ''completed'' \<and>
     clean_value strategy_bot_simulation [] inputs_answer ''symbol'' = Some (JStr ''SOLUSDT'')"
proof -
  let ?v = "validate_workflow_task_response inputs_task (Some inputs_answer) None False"
  have "case ?v of Inl _ \<Rightarrow> False | Inr _ \<Rightarrow> True" by code_simp
  then obtain response where r: "?v = Inr response" by (auto split: sum.splits)
  moreover have "clean_value strategy_bot_simulation [] inputs_answer ''symbol'' = Some (JStr ''SOLUSDT'')"
    by code_simp
  ultimately show ?thesis using accepted_answer_completes [OF r] by blast
qed

text \<open>An action that the task offers now.\<close>

definition action_open :: "task_record \<Rightarrow> string list \<Rightarrow> string \<Rightarrow> bool" where
  "action_open task actions a \<longleftrightarrow>
     \<not> resolved_status (task_status task) \<and> task_status task \<noteq> ''blocked'' \<and>
     a \<in> set (known_actions strategy_bot_simulation actions) \<and>
     (case payload_action (task_payload task) a of
        None \<Rightarrow> False | Some action \<Rightarrow> jget action ''enabled'' = JBool True)"

lemma action_error_iff:
  "action_error task (known_actions strategy_bot_simulation actions) a = None \<longleftrightarrow>
     action_open task actions a"
  by (auto simp: action_error_def action_open_def split: option.split)

lemma action_error_value:
  "action_error task allowed a = Some e \<Longrightarrow> is_value_error e"
  by (auto simp: action_error_def is_value_error_def split: option.splits if_splits)

lemma validate_values_iff:
  "(\<exists>out. validate_values definition ids values payload req = Inr out) \<longleftrightarrow>
     fst ` set values \<subseteq> set ids \<and> list_all (answer_ok definition payload values req) ids"
proof (cases "filter (\<lambda>k. k \<notin> set ids) (map fst values) = []")
  case True
  then show ?thesis
    using validate_loop_iff [of "definition" payload "values" req "[]" ids]
    by (auto simp: validate_values_def py_sorted_def filter_empty_conv)
next
  case False
  then obtain u us where "py_sorted id (filter (\<lambda>k. k \<notin> set ids) (map fst values)) = u # us"
    by (cases "py_sorted id (filter (\<lambda>k. k \<notin> set ids) (map fst values))")
      (metis set_empty set_py_sorted, blast)
  then show ?thesis using False by (auto simp: validate_values_def filter_empty_conv)
qed

lemma validate_values_error:
  "validate_values definition ids values payload req = Inl e \<Longrightarrow> is_value_error e"
  by (auto simp: validate_values_def split: list.splits dest: validate_loop_error)
    (simp add: is_value_error_def)

text \<open>
  A full answer is accepted exactly when the action it takes, if any, is open, it answers only
  requests of the task, its values are valid, and every required request has a value that is not
  empty; every other answer raises a validation error.
\<close>

theorem answer_accepted_iff:
  assumes template: "workflow_task_template_for_record task = Some template"
    and ids: "stored_ids (task_payload task) template ''input_request_ids'' = Inr ids"
    and actions: "stored_ids (task_payload task) template ''action_ids'' = Inr actions"
  shows "case validate_workflow_task_response task values action_id False of
      Inr response \<Rightarrow>
        (case action_id of None \<Rightarrow> True | Some a \<Rightarrow> action_open task actions a) \<and>
        fst ` set (given values) \<subseteq> set (asked_inputs task) \<and>
        list_all (answer_ok strategy_bot_simulation (task_payload task) (given values) True) (asked_inputs task)
    | Inl e \<Rightarrow> is_value_error e \<and>
        \<not> ((case action_id of None \<Rightarrow> True | Some a \<Rightarrow> action_open task actions a) \<and>
        fst ` set (given values) \<subseteq> set (asked_inputs task) \<and>
        list_all (answer_ok strategy_bot_simulation (task_payload task) (given values) True) (asked_inputs task))"
proof -
  have asked: "asked_inputs task = known_inputs strategy_bot_simulation ids"
    using template ids by (simp add: asked_inputs_def)
  let ?err = "case action_id of None \<Rightarrow> None
    | Some a \<Rightarrow> action_error task (known_actions strategy_bot_simulation actions) a"
  let ?valid = "validate_values strategy_bot_simulation (asked_inputs task) (given values) (task_payload task) True"
  have v: "validate_workflow_task_response task values action_id False =
      (case ?err of Some e \<Rightarrow> Inl e
       | None \<Rightarrow> map_sum id (\<lambda>final.
           [(''workflow_id'', JStr (task_workflow_id task)),
            (''task_template_id'', JStr (task_template_id task)),
            (''action_id'', jstr action_id), (''values'', JObj final)]) ?valid)"
    using template ids actions
    by (cases ?err; cases ?valid)
      (simp_all add: validate_workflow_task_response_def task_template_for_record asked)
  have err: "?err = None \<longleftrightarrow> (case action_id of None \<Rightarrow> True | Some a \<Rightarrow> action_open task actions a)"
    by (simp add: action_error_iff split: option.split)
  show ?thesis
    unfolding v err [symmetric]
    using validate_values_iff [of strategy_bot_simulation "asked_inputs task" "given values" "task_payload task" True]
      action_error_value validate_values_error
    by (cases ?err; cases ?valid) (auto split: option.splits)
qed

text \<open>An answer that leaves required requests out.\<close>

definition short_answer :: "json dict" where
  "short_answer = [(''market'', JStr ''crypto'')]"

theorem answer_accepted_iff_witness:
  "(\<exists>response. validate_workflow_task_response inputs_task (Some inputs_answer) None False = Inr response) \<and>
   \<not> (\<exists>response. validate_workflow_task_response inputs_task (Some short_answer) None False = Inr response)"
proof -
  have some: "case workflow_task_template_for_record inputs_task of None \<Rightarrow> False
     | Some t \<Rightarrow> stored_ids (task_payload inputs_task) t ''input_request_ids'' = Inr (asked_inputs inputs_task) \<and>
         stored_ids (task_payload inputs_task) t ''action_ids'' = Inr []" by code_simp
  then obtain template where t: "workflow_task_template_for_record inputs_task = Some template"
    by (auto split: option.splits)
  have lists: "stored_ids (task_payload inputs_task) template ''input_request_ids'' = Inr (asked_inputs inputs_task)"
    "stored_ids (task_payload inputs_task) template ''action_ids'' = Inr []"
    using some by (simp_all add: t)
  have good: "fst ` set inputs_answer \<subseteq> set (asked_inputs inputs_task)"
    "list_all (answer_ok strategy_bot_simulation (task_payload inputs_task) inputs_answer True) (asked_inputs inputs_task)"
    by code_simp+
  have bad: "\<not> list_all (answer_ok strategy_bot_simulation (task_payload inputs_task) short_answer True)
      (asked_inputs inputs_task)" by code_simp
  show ?thesis
    using answer_accepted_iff [OF t lists, of None "Some inputs_answer"]
      answer_accepted_iff [OF t lists, of None "Some short_answer"] good bad
    by (simp split: sum.splits)
qed

section \<open>Task payloads\<close>

lemma jget_set_text [simp]:
  "jget (set_text key t d) k = (if k = key \<and> t \<noteq> None then jstr t else jget d k)"
  by (auto simp: set_text_def jstr_def split: option.split)

lemma first_options_ok: "\<exists>is vs. options_ok is vs (first_options sources)"
proof (induction sources)
  case Nil
  show ?case by (intro exI [of _ "[]"]) (simp add: options_ok_def)
next
  case (Cons source sources)
  then show ?case using sanitize_prompt_options_ok [of source] by (simp add: Let_def)
qed

lemma first_options_Nil:
  "first_options sources = [] \<longleftrightarrow> list_all (\<lambda>s. sanitize_prompt_options s = []) sources"
  by (induction sources) (auto simp: Let_def)

lemma options_ok_ids:
  assumes "options_ok is vs options"
  shows "length options \<le> 3" "distinct (map (\<lambda>d. jget d ''id'') options)"
  using assms by (auto simp: options_ok_def distinct_map inj_on_def)

text \<open>A request as a client sees it: at most three different options, one of them recommended.\<close>

definition request_ok :: "json dict \<Rightarrow> bool" where
  "request_ok request \<longleftrightarrow>
     (let options = dict_items (jget request ''options'') in
      length options \<le> 3 \<and> distinct (map (\<lambda>d. jget d ''id'') options) \<and>
      (options = [] \<or>
       jget request ''recommended_option_id'' \<in> (\<lambda>d. jget d ''id'') ` set options))"

lemma recommended_option_ok:
  assumes "options_ok is vs options" "dict_items (jget payload ''options'') = options"
  shows "request_ok (recommended_option options recommended payload)"
  using assms options_ok_ids [OF assms(1)]
  by (auto simp: request_ok_def recommended_option_def Let_def split: list.split)

lemma input_request_payload_ok:
  assumes t: "input_request_template strategy_bot_simulation i = Some t"
  shows "request_ok (input_request_payload strategy_bot_simulation i override)"
proof -
  let ?options = "effective_input_options strategy_bot_simulation t override"
  obtain ids vs where ok: "options_ok ids vs ?options"
    using first_options_ok unfolding effective_input_options_def by blast
  have none: "jget t ''options'' = JNull" if "?options = []"
  proof -
    have "sanitize_prompt_options (jget t ''options'') = []"
      using that by (simp add: effective_input_options_def first_options_Nil)
    then show ?thesis
      using registry_request [OF t] by (simp add: registry_request_ok_def jget_def split: option.splits)
  qed
  note rec = recommended_option_ok [OF ok]
  show ?thesis
  proof (cases "?options = []")
    case True
    then show ?thesis
      using none t by (auto simp: input_request_payload_def Let_def intro!: rec [unfolded True])
  next
    case False
    then show ?thesis using t by (auto simp: input_request_payload_def Let_def intro!: rec)
  qed
qed

lemma sanitized_known_values_get:
  assumes "dict_get (sanitized_known_values definition ids values) k = Some v"
  shows "k \<in> set ids \<and> (\<exists>t raw. input_request_template definition k = Some t \<and>
    sanitize_input_value definition t raw = Inr v \<and> \<not> is_empty_value v)"
proof -
  let ?f = "\<lambda>sanitized request_id.
         case (input_request_template definition request_id, dict_get values request_id) of
           (Some template, Some raw) \<Rightarrow>
             (case sanitize_input_value definition template raw of
                Inl _ \<Rightarrow> sanitized
              | Inr v \<Rightarrow> if is_empty_value v then sanitized else dict_set request_id v sanitized)
         | _ \<Rightarrow> sanitized"
  have "dict_get (foldl ?f acc ids) k = Some v \<Longrightarrow> dict_get acc k = Some v \<or>
      k \<in> set ids \<and> (\<exists>t raw. input_request_template definition k = Some t \<and>
        sanitize_input_value definition t raw = Inr v \<and> \<not> is_empty_value v)" for acc
  proof (induction ids arbitrary: acc)
    case (Cons i ids)
    have "dict_get (?f acc i) k = Some v \<Longrightarrow> dict_get acc k = Some v \<or>
        k = i \<and> (\<exists>t raw. input_request_template definition k = Some t \<and>
        sanitize_input_value definition t raw = Inr v \<and> \<not> is_empty_value v)"
      by (auto split: option.splits sum.splits if_splits)
    then show ?case using Cons by auto
  qed simp
  from this [of "[]"] assms show ?thesis by (simp add: sanitized_known_values_def)
qed

lemma build_payload_cases:
  assumes "build_workflow_task_payload w t status inputs acts values reason reqs = Some p"
  shows "\<exists>template selected vs overrides. w = ''strategy_bot_simulation'' \<and>
    task_template strategy_bot_simulation t = Some template \<and>
    set selected \<subseteq> set (known_inputs strategy_bot_simulation (str_elems (jget template ''input_request_ids''))) \<and>
    jget p ''status'' \<in> insert (default_status template) (JStr ` set WORKFLOW_TASK_STATUSES) \<and>
    jget p ''kind'' = jget template ''kind'' \<and> jget p ''step_id'' = jget template ''step_id'' \<and>
    jget p ''input_request_ids'' = JList (map JStr selected) \<and>
    jget p ''input_requests'' = JList (map (\<lambda>i. JObj (input_request_payload strategy_bot_simulation i
       (dict_get overrides i))) selected) \<and>
    jget p ''values'' = JObj (sanitized_known_values strategy_bot_simulation selected vs)"
proof -
  obtain template where t: "w = ''strategy_bot_simulation''"
      "task_template strategy_bot_simulation t = Some template"
    using assms by (auto simp: build_workflow_task_payload_def workflow_definition split: option.splits)
  let ?allowed = "known_inputs strategy_bot_simulation (str_elems (jget template ''input_request_ids''))"
  let ?selected = "filter (\<lambda>i. i \<in> set ?allowed) (or_default inputs ?allowed)"
  note built = assms [unfolded build_workflow_task_payload_def t(1) workflow_definition_get
      option.case t(2) Let_def option.inject, THEN sym]
  show ?thesis
  proof (intro exI conjI)
    show "jget p ''status'' \<in> insert (default_status template) (JStr ` set WORKFLOW_TASK_STATUSES)"
      unfolding built by (simp split: option.split)
    show "set ?selected \<subseteq> set ?allowed" by auto
    show "jget p ''input_request_ids'' = JList (map JStr ?selected)" unfolding built by simp
    show "jget p ''values'' = JObj (sanitized_known_values strategy_bot_simulation ?selected
        (case values of None \<Rightarrow> [] | Some v \<Rightarrow> v))" unfolding built by simp
    show "jget p ''input_requests'' = JList (map (\<lambda>i. JObj (input_request_payload strategy_bot_simulation i
        (dict_get (input_request_overrides ?selected reqs) i))) ?selected)" unfolding built by simp
    show "jget p ''kind'' = jget template ''kind''" "jget p ''step_id'' = jget template ''step_id''"
      unfolding built by simp_all
  qed (rule t)+
qed

text \<open>
  C20: Every task payload that is built is well formed, whatever the model proposes: its status, kind
  and step are known; it asks only for inputs of its template; every request offers at most three
  options, all different, with one of them recommended; and every value it carries is a valid
  non-empty value of one of its requests.
\<close>

theorem task_payload_wellformed:
  assumes "build_workflow_task_payload workflow_id template_id status inputs acts values reason requests = Some p"
  shows "jget p ''status'' \<in> JStr ` set WORKFLOW_TASK_STATUSES \<and>
    jget p ''kind'' \<in> JStr ` set WORKFLOW_TASK_KINDS \<and>
    jget p ''step_id'' \<in> JStr ` set STRATEGY_BOT_WORKFLOW_STEPS \<and>
    (\<exists>template. task_template strategy_bot_simulation template_id = Some template \<and>
      set (str_elems (jget p ''input_request_ids'')) \<subseteq> set (str_elems (jget template ''input_request_ids''))) \<and>
    list_all request_ok (dict_items (jget p ''input_requests'')) \<and>
    (\<forall>k v. dict_get (json_dict (jget p ''values'')) k = Some v \<longrightarrow>
      k \<in> set (str_elems (jget p ''input_request_ids'')) \<and>
      (\<exists>request. input_request_template strategy_bot_simulation k = Some request \<and>
         is_answered strategy_bot_simulation request (Some v)))"
proof -
  obtain template selected vs overrides where p:
    "task_template strategy_bot_simulation template_id = Some template"
    "set selected \<subseteq> set (known_inputs strategy_bot_simulation (str_elems (jget template ''input_request_ids'')))"
    "jget p ''status'' \<in> insert (default_status template) (JStr ` set WORKFLOW_TASK_STATUSES)"
    "jget p ''kind'' = jget template ''kind''" "jget p ''step_id'' = jget template ''step_id''"
    "jget p ''input_request_ids'' = JList (map JStr selected)"
    "jget p ''input_requests'' = JList (map (\<lambda>i. JObj (input_request_payload strategy_bot_simulation i
       (dict_get overrides i))) selected)"
    "jget p ''values'' = JObj (sanitized_known_values strategy_bot_simulation selected vs)"
    using build_payload_cases [OF assms] by blast
  note ok = registry_task [OF p(1), unfolded registry_task_ok_def]
  have inputs: "set (str_elems (jget p ''input_request_ids'')) \<subseteq> set (str_elems (jget template ''input_request_ids''))"
    using p(2,6) by (auto simp: known_inputs_def)
  have requests: "list_all request_ok (dict_items (jget p ''input_requests''))"
    using p(2,7) by (auto simp: list_all_iff known_inputs_def dest!: subsetD input_request_payload_ok)
  have "k \<in> set (str_elems (jget p ''input_request_ids'')) \<and>
      (\<exists>request. input_request_template strategy_bot_simulation k = Some request \<and>
         is_answered strategy_bot_simulation request (Some v))"
    if "dict_get (json_dict (jget p ''values'')) k = Some v" for k v
    using sanitized_known_values_get [of strategy_bot_simulation selected vs k v] that p(6,8)
      registry_request sanitize_input_again
    by (auto simp: json_dict_def registry_request_ok_def)
  then show ?thesis using p(1,3,4,5) ok inputs requests by auto
qed

theorem task_payload_wellformed_witness:
  "\<exists>p. build_workflow_task_payload ''strategy_bot_simulation'' ''collect_strategy_inputs'' (Some ''odd'')
      (Some [''timeframe'', ''nonsense'']) None (Some [(''timeframe'', JStr ''4h'')]) None None = Some p \<and>
    jget p ''status'' \<in> JStr ` set WORKFLOW_TASK_STATUSES \<and>
    list_all request_ok (dict_items (jget p ''input_requests'')) \<and>
    dict_get (json_dict (jget p ''values'')) ''timeframe'' = Some (JStr ''4h'') \<and>
    ''timeframe'' \<in> set (str_elems (jget p ''input_request_ids''))"
proof -
  let ?b = "build_workflow_task_payload ''strategy_bot_simulation'' ''collect_strategy_inputs'' (Some ''odd'')
      (Some [''timeframe'', ''nonsense'']) None (Some [(''timeframe'', JStr ''4h'')]) None None"
  have "case ?b of None \<Rightarrow> False
     | Some p \<Rightarrow> dict_get (json_dict (jget p ''values'')) ''timeframe'' = Some (JStr ''4h'')" by code_simp
  then obtain p where p: "?b = Some p"
    and v: "dict_get (json_dict (jget p ''values'')) ''timeframe'' = Some (JStr ''4h'')"
    by (auto split: option.splits)
  show ?thesis
    using p v task_payload_wellformed [OF p] by blast
qed

section \<open>The state a model proposes\<close>

lemma validate_payload_Some:
  "validate_workflow_payload payload = Some r \<Longrightarrow>
     proposed_step strategy_bot_simulation payload \<in> set STRATEGY_BOT_WORKFLOW_STEPS \<and>
     r = validated_payload ''strategy_bot_simulation'' strategy_bot_simulation
           (proposed_step strategy_bot_simulation payload) payload"
  by (auto simp: validate_workflow_payload_def workflow_definition STRATEGY_BOT_WORKFLOW_STEPS_def
      split: option.splits if_splits)

text \<open>The parts of a validated payload.\<close>

definition proposed_completed :: "json dict \<Rightarrow> string list" where
  "proposed_completed payload =
     filter (\<lambda>s. s \<in> set STRATEGY_BOT_WORKFLOW_STEPS) (string_list (jget payload ''completed_steps''))"

definition proposed_missing :: "json dict \<Rightarrow> string list" where
  "proposed_missing payload =
     filter (\<lambda>f. f \<in> set (str_elems (jget strategy_bot_simulation ''allowed_fields'')))
       (string_list (jget payload ''missing_fields''))"

definition proposed_bot :: "json dict \<Rightarrow> string option" where
  "proposed_bot payload = (case string_value (jget payload ''bot_proposal_id'') of
      Some b \<Rightarrow> Some b
    | None \<Rightarrow> dict_get (string_dict (jget payload ''artifact_refs'')) ''bot_proposal_id'')"

definition proposed_start :: "json dict \<Rightarrow> string \<Rightarrow> bool" where
  "proposed_start payload current \<longleftrightarrow>
     start_allowed_of strategy_bot_simulation (jget payload ''start_allowed'' = JBool True)
       (proposed_missing payload) (proposed_bot payload) current"

lemma validated_payload_fields:
  fixes payload current
  defines "r \<equiv> validated_payload ''strategy_bot_simulation'' strategy_bot_simulation current payload"
    and "skipped \<equiv> skipped_steps (jget payload ''skipped_steps'') strategy_bot_simulation
          (proposed_completed payload) current"
  shows "jget r ''current_step'' = JStr current"
    "jget r ''completed_steps'' = jstrs (proposed_completed payload)"
    "jget r ''skipped_steps'' = jstrs skipped"
    "jget r ''step_reasons'' = JObj (map (\<lambda>(k, r). (k, JStr r))
       (step_reasons (jget payload ''step_reasons'') skipped))"
    "jget r ''missing_fields'' = jstrs (proposed_missing payload)"
    "jget r ''bot_proposal_id'' = jstr (proposed_bot payload)"
    "jget r ''start_allowed'' = JBool (proposed_start payload current)"
    "jget r ''actions'' = jobjs (workflow_actions_of (jget payload ''actions'') strategy_bot_simulation
       (proposed_start payload current) (proposed_bot payload))"
    "jget r ''tasks'' = jobjs (normalize_workflow_tasks ''strategy_bot_simulation'' (jget payload ''tasks'')
       (proposed_start payload current) (proposed_bot payload))"
  unfolding r_def skipped_def
  by (simp_all add: validated_payload_def Let_def proposed_completed_def proposed_missing_def
      proposed_bot_def proposed_start_def STRATEGY_BOT_WORKFLOW_STEPS_def)

lemma start_allowed_iff:
  "start_allowed_of strategy_bot_simulation requested missing bid current \<longleftrightarrow>
     requested \<and> bid \<noteq> None \<and> missing = [] \<and> current = ''complete_setup_confirm_start''"
proof -
  have "list_ex (\<lambda>a. jget a ''kind'' = JStr ''confirm_start_bot_proposal'')
      (dict_items (jget strategy_bot_simulation ''actions''))"
    "last_opt (str_elems (jget strategy_bot_simulation ''steps'')) = Some ''complete_setup_confirm_start''"
    by code_simp+
  then show ?thesis by (auto simp: start_allowed_of_def)
qed

text \<open>An action that would start the bot is enabled only with the gate, and names the bot.\<close>

definition gated :: "bool \<Rightarrow> string option \<Rightarrow> json dict \<Rightarrow> bool" where
  "gated start_allowed bid action \<longleftrightarrow>
     (jget action ''kind'' = JStr ''confirm_start_bot_proposal'' \<longrightarrow>
      (jget action ''enabled'' = JBool True \<longrightarrow> start_allowed) \<and> jget action ''target_ref'' = jstr bid)"

lemma gated_action_payload_gated: "gated b bid (gated_action_payload b bid action)"
  by (simp add: gated_def gated_action_payload_def Let_def)

lemma selected_action_gated:
  assumes "list_all (gated b bid) defaults" "selected_action defaults item = Some action"
  shows "gated b bid action"
proof -
  obtain i base where "with_id (rev defaults) i = Some base"
    and a: "action = set_text ''disabled_reason'' (string_value (jget item ''disabled_reason''))
      (dict_set ''enabled''
        (JBool (jget item ''enabled'' = JBool True \<and>
           jget (set_text ''label'' (string_value (jget item ''label'')) base) ''enabled'' = JBool True))
        (set_text ''label'' (string_value (jget item ''label'')) base))"
    using assms(2) by (auto simp: selected_action_def Let_def split: option.splits)
  then have "gated b bid base" using assms(1) by (auto simp: list_all_iff dest: with_idD)
  then show ?thesis by (simp add: a gated_def)
qed

lemma set_map_filter: "y \<in> set (List.map_filter f xs) \<longleftrightarrow> (\<exists>x \<in> set xs. f x = Some y)"
  by (induction xs) (auto split: option.split)

lemma workflow_actions_gated: "list_all (gated b bid) (workflow_actions_of v d b bid)"
proof -
  let ?defaults = "map (gated_action_payload b bid) (dict_items (jget d ''actions''))"
  have defaults: "list_all (gated b bid) ?defaults"
    by (simp add: list_all_iff gated_action_payload_gated)
  have "gated b bid a" if "a \<in> set (List.map_filter (selected_action ?defaults) xs)" for a xs
    using that selected_action_gated [OF defaults] by (auto simp: set_map_filter)
  then show ?thesis using defaults
    by (auto simp: workflow_actions_of_def Let_def list_all_iff split: json.split)
qed

lemma normalize_task_Some:
  "normalize_workflow_task w b bid d item = Some task \<Longrightarrow>
     \<exists>i p. task = gated_task_payload b bid i p"
  by (auto simp: normalize_workflow_task_def split: prod.splits option.splits if_splits)

lemma gated_task_actions:
  "list_all (gated b bid) (dict_items (jget (gated_task_payload b bid i p) ''actions''))"
  by (simp add: gated_task_payload_def list_all_iff gated_action_payload_gated)

lemma normalized_task_gated:
  assumes "task \<in> set (normalize_workflow_tasks w v b bid)"
  shows "list_all (gated b bid) (dict_items (jget task ''actions''))"
proof -
  obtain d item where "normalize_workflow_task w b bid d item = Some task"
    using assms by (auto simp: normalize_workflow_tasks_def set_map_filter split: option.splits)
  then show ?thesis using normalize_task_Some gated_task_actions by metis
qed

text \<open>Every action a validated payload offers: its own and those of its tasks.\<close>

definition offered_actions :: "json dict \<Rightarrow> json dict list" where
  "offered_actions r = dict_items (jget r ''actions'') @
     concat (map (\<lambda>task. dict_items (jget task ''actions'')) (dict_items (jget r ''tasks'')))"

text \<open>
  C18: Whatever a model proposes, a validated payload offers an enabled action that starts a bot only
  when the model asked for the start at the final step of the workflow, with no field missing and
  with a bot proposal; the action then refers to that bot proposal.
\<close>

theorem start_gated:
  assumes valid: "validate_workflow_payload payload = Some r"
    and offered: "action \<in> set (offered_actions r)"
    and start: "jget action ''kind'' = JStr ''confirm_start_bot_proposal''"
      "jget action ''enabled'' = JBool True"
  shows "jget r ''start_allowed'' = JBool True \<and> jget payload ''start_allowed'' = JBool True \<and>
    jget r ''current_step'' = JStr ''complete_setup_confirm_start'' \<and>
    jget r ''missing_fields'' = JList [] \<and>
    (\<exists>bid. jget r ''bot_proposal_id'' = JStr bid \<and> jget action ''target_ref'' = JStr bid)"
proof -
  let ?current = "proposed_step strategy_bot_simulation payload"
  let ?b = "proposed_start payload ?current" and ?bid = "proposed_bot payload"
  note fields = validated_payload_fields [where payload = payload and current = ?current,
      folded conjunct2 [OF validate_payload_Some [OF valid]]]
  have "gated ?b ?bid action"
    using offered workflow_actions_gated normalized_task_gated
    by (auto simp: offered_actions_def fields list_all_iff)
  then have "?b" and target: "jget action ''target_ref'' = jstr ?bid"
    using start by (simp_all add: gated_def)
  then have "jget payload ''start_allowed'' = JBool True" "?bid \<noteq> None"
    "proposed_missing payload = []" "?current = ''complete_setup_confirm_start''"
    by (simp_all add: proposed_start_def start_allowed_iff)
  then show ?thesis
    using \<open>?b\<close> target by (auto simp: fields jstr_def)
qed

text \<open>A proposal at the final step, and its start action.\<close>

definition start_proposal :: "json dict" where
  "start_proposal = [(''workflow_id'', JStr ''strategy_bot_simulation''),
     (''current_step'', JStr ''complete_setup_confirm_start''), (''start_allowed'', JBool True),
     (''bot_proposal_id'', JStr ''bot_1''), (''skipped_steps'', JList [JStr ''generate_pine'']),
     (''completed_steps'', JList [JStr ''draft_strategy_spec'', JStr ''elsewhere'']),
     (''tasks'', JList [JObj [(''id'', JStr ''confirm_paper_start'')]])]"

definition start_action :: "json dict" where
  "start_action = [(''id'', JStr ''confirm_paper_start''), (''kind'', JStr ''confirm_start_bot_proposal''),
     (''label'', JStr ''Start paper simulation''), (''enabled'', JBool True), (''target_ref'', JStr ''bot_1'')]"

theorem start_gated_witness:
  "\<exists>r. validate_workflow_payload start_proposal = Some r \<and> start_action \<in> set (offered_actions r) \<and>
     jget r ''missing_fields'' = JList [] \<and> jget r ''start_allowed'' = JBool True"
proof -
  have "case validate_workflow_payload start_proposal of
      None \<Rightarrow> False | Some r \<Rightarrow> start_action \<in> set (offered_actions r)" by code_simp
  then obtain r where r: "validate_workflow_payload start_proposal = Some r"
    and a: "start_action \<in> set (offered_actions r)" by (auto split: option.splits)
  have "jget start_action ''kind'' = JStr ''confirm_start_bot_proposal''"
    "jget start_action ''enabled'' = JBool True" by code_simp+
  from start_gated [OF r a this] r a show ?thesis by blast
qed

text \<open>
  The steps of a validated payload are consistent, whatever the model proposes: the current and
  the completed steps are steps of the workflow; only optional steps are skipped, each once, none
  that is completed and not the current one; and only skipped steps have a reason.
\<close>

theorem steps_consistent:
  assumes valid: "validate_workflow_payload payload = Some r"
  shows "\<exists>current completed skipped.
    jget r ''current_step'' = JStr current \<and> jget r ''completed_steps'' = jstrs completed \<and>
    jget r ''skipped_steps'' = jstrs skipped \<and>
    current \<in> set STRATEGY_BOT_WORKFLOW_STEPS \<and> set completed \<subseteq> set STRATEGY_BOT_WORKFLOW_STEPS \<and>
    set skipped \<subseteq> set STRATEGY_BOT_OPTIONAL_STEPS - insert current (set completed) \<and> distinct skipped \<and>
    fst ` set (json_dict (jget r ''step_reasons'')) \<subseteq> set skipped"
proof -
  let ?current = "proposed_step strategy_bot_simulation payload"
  let ?skipped = "skipped_steps (jget payload ''skipped_steps'') strategy_bot_simulation
    (proposed_completed payload) ?current"
  note fields = validated_payload_fields [where payload = payload and current = ?current,
      folded conjunct2 [OF validate_payload_Some [OF valid]]]
  have "distinct STRATEGY_BOT_WORKFLOW_STEPS" by code_simp
  then have "distinct ?skipped"
    by (simp add: skipped_steps_def STRATEGY_BOT_WORKFLOW_STEPS_def)
  moreover have "set ?skipped \<subseteq> set STRATEGY_BOT_OPTIONAL_STEPS - insert ?current (set (proposed_completed payload))"
    by (auto simp: skipped_steps_def STRATEGY_BOT_OPTIONAL_STEPS_def)
  moreover have "fst ` set (json_dict (jget r ''step_reasons'')) \<subseteq> set ?skipped"
    by (auto simp: fields json_dict_def step_reasons_def)
  moreover have "set (proposed_completed payload) \<subseteq> set STRATEGY_BOT_WORKFLOW_STEPS"
    by (auto simp: proposed_completed_def)
  ultimately show ?thesis
    using validate_payload_Some [OF valid] fields(1-3) by blast
qed

theorem steps_consistent_witness:
  "\<exists>r skipped. validate_workflow_payload start_proposal = Some r \<and>
     jget r ''skipped_steps'' = jstrs skipped \<and> set skipped \<subseteq> set STRATEGY_BOT_OPTIONAL_STEPS"
proof -
  have "validate_workflow_payload start_proposal \<noteq> None" by code_simp
  then obtain r where r: "validate_workflow_payload start_proposal = Some r" by blast
  from steps_consistent [OF r] obtain skipped where "jget r ''skipped_steps'' = jstrs skipped"
    "set skipped \<subseteq> set STRATEGY_BOT_OPTIONAL_STEPS" by auto
  with r show ?thesis by blast
qed

end
