(* ===== verification/Tool_Runtime.thy ===== *)
theory Tool_Runtime
  imports Policy_Rules
begin

text \<open>
  The tool harness (\<open>tool_runtime.py\<close>): the trace of the tools a run calls, the policy that blocks a
  tool, and the check of the tool registry.  A computation that may raise is a function from a state
  to a result and a state; what it did before it raised stays done.  Arguments stand for what is
  outside: the time stamp of an event (by its number), the text of a schema error, the text of a
  float, list or object (\<open>repr_of\<close>), the loaded policy rules and \<open>json.loads\<close>.
\<close>

section \<open>Computations that may raise\<close>

record py_exc =
  exc_type :: string
  exc_message :: string

abbreviation exc :: "string \<Rightarrow> string \<Rightarrow> py_exc" where
  "exc t m \<equiv> \<lparr>exc_type = t, exc_message = m\<rparr>"

type_synonym ('s, 'a) comp = "'s \<Rightarrow> (py_exc + 'a) \<times> 's"

definition returnx :: "'a \<Rightarrow> ('s, 'a) comp" where
  "returnx x = (\<lambda>s. (Inr x, s))"

definition raisex :: "py_exc \<Rightarrow> ('s, 'a) comp" where
  "raisex e = (\<lambda>s. (Inl e, s))"

definition bindx :: "('s, 'a) comp \<Rightarrow> ('a \<Rightarrow> ('s, 'b) comp) \<Rightarrow> ('s, 'b) comp" where
  "bindx m f = (\<lambda>s. case m s of (Inl e, t) \<Rightarrow> (Inl e, t) | (Inr x, t) \<Rightarrow> f x t)"

definition thenx :: "('s, 'a) comp \<Rightarrow> ('s, 'b) comp \<Rightarrow> ('s, 'b) comp" where
  "thenx m n = bindx m (\<lambda>_. n)"

definition catchx :: "('s, 'a) comp \<Rightarrow> (py_exc \<Rightarrow> ('s, 'a) comp) \<Rightarrow> ('s, 'a) comp" where
  "catchx m h = (\<lambda>s. case m s of (Inl e, t) \<Rightarrow> h e t | (Inr x, t) \<Rightarrow> (Inr x, t))"

section \<open>Events\<close>

definition STATUS_STARTED :: string where "STATUS_STARTED = ''started''"
definition STATUS_PASS :: string where "STATUS_PASS = ''pass''"
definition STATUS_FAIL :: string where "STATUS_FAIL = ''fail''"
definition STATUS_BLOCKED :: string where "STATUS_BLOCKED = ''blocked''"

definition EVENT_STATUSES :: "string list" where
  "EVENT_STATUSES = [STATUS_STARTED, STATUS_PASS, STATUS_FAIL, STATUS_BLOCKED, ''skipped'']"

definition FAILURE_POLICY_VIOLATION :: string where "FAILURE_POLICY_VIOLATION = ''policy_violation''"
definition FAILURE_TOOL_ERROR :: string where "FAILURE_TOOL_ERROR = ''tool_error''"
definition FAILURE_PROVIDER_ERROR :: string where "FAILURE_PROVIDER_ERROR = ''provider_error''"
definition FAILURE_SCHEMA_INVALID :: string where "FAILURE_SCHEMA_INVALID = ''schema_invalid''"
definition FAILURE_UNKNOWN :: string where "FAILURE_UNKNOWN = ''unknown''"

definition POLICY_OBSERVE :: string where "POLICY_OBSERVE = ''observe''"
definition POLICY_ENFORCE :: string where "POLICY_ENFORCE = ''enforce''"

definition BLOCKED_RISK_TIERS :: "string list" where
  "BLOCKED_RISK_TIERS = [''broker_write'', ''destructive'']"

text \<open>The schema of an event (\<open>schemas/tool-event.schema.json\<close>).\<close>

definition schema_event_types :: "string list" where
  "schema_event_types = [''agent.started'', ''agent.handoff'', ''llm.started'', ''llm.completed'',
     ''tool.started'', ''tool.completed'', ''tool.failed'', ''tool.blocked'', ''guardrail.blocked'',
     ''repair.started'', ''repair.completed'', ''agent.completed'', ''evaluator_optimizer.summary'',
     ''agent_loop.started'', ''agent_loop.llm_completed'', ''agent_loop.tool_checked'',
     ''agent_loop.completed'']"

definition schema_failure_classes :: "string list" where
  "schema_failure_classes = [''missing_credential'', ''provider_rate_limited'', ''provider_timeout'',
     ''provider_not_found'', ''malformed_response'', ''schema_invalid'', ''policy_violation'',
     ''static_validation_failed'', ''review_failed'', ''review_validation_disagreement'',
     ''artifact_missing'', ''free_capacity_unavailable'', ''tool_error'', ''provider_error'', ''unknown'']"

definition schema_text_fields :: "string list" where
  "schema_text_fields = [''event_id'', ''created_at'', ''case_id'', ''workflow'', ''user_tier'',
     ''cost_profile'', ''stage'', ''agent_role'', ''model'', ''provider'', ''model_stage'',
     ''provider_route'', ''parent_event_id'', ''gate'', ''decision'', ''reason_code'', ''stop_reason'',
     ''final_validation_status'', ''final_review_status'', ''label'', ''input_summary'',
     ''output_summary'', ''tool_user_summary'']"

text \<open>The type \<open>integer\<close> with a minimum, which takes a float without a fraction too.\<close>

definition int_from :: "int \<Rightarrow> json \<Rightarrow> bool" where
  "int_from n v = (case v of
      JInt i \<Rightarrow> n \<le> i
    | JFloat r \<Rightarrow> of_int (floor r) = r \<and> of_int n \<le> r
    | _ \<Rightarrow> False)"

definition text_in :: "string list \<Rightarrow> json \<Rightarrow> bool" where
  "text_in xs v = (case v of JStr s \<Rightarrow> s \<in> set xs | _ \<Rightarrow> False)"

definition text_list :: "json \<Rightarrow> bool" where
  "text_list v = (case v of JList xs \<Rightarrow> list_all is_jstr xs | _ \<Rightarrow> False)"

definition error_object :: "json \<Rightarrow> bool" where
  "error_object v = (case v of
      JObj d \<Rightarrow> is_jstr (jget d ''type'') \<and> is_jstr (jget d ''message'') \<and>
        list_all (\<lambda>kv. fst kv \<in> {''type'', ''message''}) d
    | _ \<Rightarrow> False)"

definition field_ok :: "string \<Rightarrow> json \<Rightarrow> bool" where
  "field_ok k v =
     (if k \<in> set schema_text_fields then is_jstr v
      else if k \<in> {''sequence'', ''attempt''} then int_from 1 v
      else if k \<in> {''iteration'', ''latency_ms'', ''tool_call_count'', ''repair_count''} then int_from 0 v
      else if k \<in> {''run_id'', ''tool_id'', ''risk_tier''} then is_jstr v \<and> v \<noteq> JStr []
      else if k = ''event_type'' then text_in schema_event_types v
      else if k = ''policy_mode'' then text_in [POLICY_OBSERVE, POLICY_ENFORCE] v
      else if k = ''status'' then text_in EVENT_STATUSES v
      else if k = ''failure_class'' then text_in schema_failure_classes v
      else if k \<in> {''input_refs'', ''output_refs''} then text_list v
      else if k = ''usage'' then (case v of JObj _ \<Rightarrow> True | _ \<Rightarrow> False)
      else if k = ''repair_source_mix'' then
        (case v of JObj d \<Rightarrow> list_all (\<lambda>kv. int_from 0 (snd kv)) d | _ \<Rightarrow> False)
      else if k = ''budget_exhausted'' then (case v of JBool _ \<Rightarrow> True | JStr _ \<Rightarrow> True | _ \<Rightarrow> False)
      else if k = ''error'' then error_object v
      else False)"

definition event_ok :: "json dict \<Rightarrow> bool" where
  "event_ok event \<longleftrightarrow>
     list_all (\<lambda>k. dict_get event k \<noteq> None)
       [''sequence'', ''created_at'', ''run_id'', ''event_type'', ''policy_mode''] \<and>
     list_all (\<lambda>kv. field_ok (fst kv) (snd kv)) event"

section \<open>The harness\<close>

record tool_contract =
  contract_id :: string
  contract_risk_tier :: string

record tool_harness =
  th_run_id :: string
  th_policy_mode :: string
  th_contracts :: "tool_contract dict"
  th_events :: "json dict list"

record harness_env =
  he_stamp :: "nat \<Rightarrow> string"
  he_schema_message :: "json dict \<Rightarrow> string"
  he_rules :: "policy_rule list"
  he_loads :: "string \<Rightarrow> json option"

definition registry_entry :: "(json \<Rightarrow> string) \<Rightarrow> json \<Rightarrow> tool_contract option" where
  "registry_entry repr_of entry = (case entry of
      JObj d \<Rightarrow>
        if json_truthy (jget d ''id'')
        then Some \<lparr>contract_id = py_str repr_of (jget d ''id''),
              contract_risk_tier = (case dict_get d ''risk_tier'' of
                  None \<Rightarrow> ''unknown'' | Some v \<Rightarrow> py_str repr_of v)\<rparr>
        else None
    | _ \<Rightarrow> None)"

definition registry_tools :: "json dict \<Rightarrow> py_error + json list" where
  "registry_tools registry = (case dict_get registry ''tools'' of
      None \<Rightarrow> Inr [] | Some v \<Rightarrow> py_iter v)"

definition contracts_by_id :: "(json \<Rightarrow> string) \<Rightarrow> json dict \<Rightarrow> py_error + tool_contract dict" where
  "contracts_by_id repr_of registry =
     map_sum id (\<lambda>tools. foldl (\<lambda>contracts c. dict_set (contract_id c) c contracts) []
         (List.map_filter (registry_entry repr_of) tools))
       (registry_tools registry)"

text \<open>\<open>ToolHarness.__init__\<close>; \<open>default_registry\<close> is the registry file of the repository.\<close>

definition new_tool_harness ::
  "(json \<Rightarrow> string) \<Rightarrow> json dict \<Rightarrow> string \<Rightarrow> string \<Rightarrow> json dict option \<Rightarrow> py_error + tool_harness" where
  "new_tool_harness repr_of default_registry run_id policy_mode registry =
     (if policy_mode \<notin> {POLICY_OBSERVE, POLICY_ENFORCE}
      then Inl (ValueError ''policy must be observe or enforce'')
      else
        let chosen = (case registry of None \<Rightarrow> default_registry
            | Some r \<Rightarrow> if r = [] then default_registry else r)
        in map_sum id (\<lambda>contracts. \<lparr>th_run_id = run_id, th_policy_mode = policy_mode,
              th_contracts = contracts, th_events = []\<rparr>)
            (contracts_by_id repr_of chosen))"

text \<open>\<open>validate_payload(event, ...)\<close> and \<open>events.append(event)\<close>.\<close>

definition append_event :: "harness_env \<Rightarrow> json dict \<Rightarrow> (tool_harness, json dict) comp" where
  "append_event env event h =
     (if event_ok event then (Inr event, h\<lparr>th_events := th_events h @ [event]\<rparr>)
      else (Inl (exc ''ValidationError'' (he_schema_message env event)), h))"

definition record_event ::
  "harness_env \<Rightarrow> string \<Rightarrow> json dict \<Rightarrow> (tool_harness, json dict) comp" where
  "record_event env event_type extra h =
     append_event env
       (dict_merge
         [(''sequence'', JInt (int (length (th_events h)) + 1)),
          (''created_at'', JStr (he_stamp env (length (th_events h)))),
          (''run_id'', JStr (th_run_id h)), (''event_type'', JStr event_type),
          (''policy_mode'', JStr (th_policy_mode h))]
         (filter (\<lambda>kv. snd kv \<noteq> JNull) extra)) h"

definition record_external_event ::
  "harness_env \<Rightarrow> (json \<Rightarrow> string) \<Rightarrow> json dict \<Rightarrow> (tool_harness, json dict) comp" where
  "record_external_event env repr_of event =
     (case dict_get event ''event_type'' of
        None \<Rightarrow> raisex (exc ''KeyError'' ([CHR 0x27] @ ''event_type'' @ [CHR 0x27]))
      | Some t \<Rightarrow> record_event env (py_str repr_of t)
          (filter (\<lambda>kv. fst kv \<notin> {''sequence'', ''created_at'', ''run_id'', ''event_type''}) event))"

fun record_external_events ::
  "harness_env \<Rightarrow> (json \<Rightarrow> string) \<Rightarrow> json dict list \<Rightarrow> (tool_harness, unit) comp" where
  "record_external_events env repr_of [] = returnx ()"
| "record_external_events env repr_of (e # es) =
     thenx (record_external_event env repr_of e) (record_external_events env repr_of es)"

text \<open>\<open>_record\<close>: the event of a tool.  \<open>None\<close> or an empty text adds no field.\<close>

definition text_field :: "string \<Rightarrow> string option \<Rightarrow> json dict" where
  "text_field k t = (case t of None \<Rightarrow> [] | Some s \<Rightarrow> if s = [] then [] else [(k, JStr s)])"

definition error_field :: "py_exc option \<Rightarrow> json dict" where
  "error_field e = (case e of None \<Rightarrow> []
    | Some x \<Rightarrow> [(''error'', JObj [(''type'', JStr (exc_type x)), (''message'', JStr (exc_message x))])])"

definition record_tool ::
  "harness_env \<Rightarrow> string \<Rightarrow> tool_contract \<Rightarrow> string list \<Rightarrow> string list \<Rightarrow> py_exc option \<Rightarrow> string option
    \<Rightarrow> string option \<Rightarrow> (tool_harness, json dict) comp" where
  "record_tool env event_type contract input_refs output_refs err status failure_class h =
     append_event env
       ([(''sequence'', JInt (int (length (th_events h)) + 1)),
         (''created_at'', JStr (he_stamp env (length (th_events h)))),
         (''run_id'', JStr (th_run_id h)), (''event_type'', JStr event_type),
         (''tool_id'', JStr (contract_id contract)), (''policy_mode'', JStr (th_policy_mode h)),
         (''risk_tier'', JStr (contract_risk_tier contract)),
         (''input_refs'', JList (map JStr input_refs)), (''output_refs'', JList (map JStr output_refs))] @
        text_field ''status'' status @ text_field ''failure_class'' failure_class @ error_field err) h"

definition record_blocked_tool ::
  "harness_env \<Rightarrow> string \<Rightarrow> string \<Rightarrow> string option \<Rightarrow> string list \<Rightarrow> string list \<Rightarrow> string
    \<Rightarrow> (tool_harness, unit) comp" where
  "record_blocked_tool env tool_id reason risk_tier input_refs output_refs failure_class h =
     (let contract = (case dict_get (th_contracts h) tool_id of
            Some c \<Rightarrow> c
          | None \<Rightarrow> \<lparr>contract_id = tool_id, contract_risk_tier = or_str risk_tier ''unknown''\<rparr>)
      in thenx (record_tool env ''tool.started'' contract input_refs output_refs None (Some STATUS_STARTED) None)
          (thenx (record_tool env ''tool.blocked'' contract input_refs output_refs
               (Some (exc ''ToolBlockedError'' reason)) (Some STATUS_BLOCKED) (Some failure_class))
             (returnx ())) h)"

section \<open>The policy\<close>

definition contains_blocked_claim :: "harness_env \<Rightarrow> string \<Rightarrow> bool" where
  "contains_blocked_claim env text =
     contains_blocking_policy (he_loads env) (he_rules env) text ''policy_text'' EVIDENCE_GENERATED_ARTIFACT"

definition block_reason :: "harness_env \<Rightarrow> string \<Rightarrow> tool_contract \<Rightarrow> string option \<Rightarrow> string option" where
  "block_reason env policy_mode contract policy_text =
     (if policy_mode \<noteq> POLICY_ENFORCE then None
      else if contract_risk_tier contract \<in> set BLOCKED_RISK_TIERS
      then Some (contract_id contract @ '' is blocked by risk tier '' @ contract_risk_tier contract @ ''.'')
      else case policy_text of
          None \<Rightarrow> None
        | Some text \<Rightarrow>
            if text \<noteq> [] \<and> contains_blocked_claim env text
            then Some (contract_id contract @
              '' is blocked by Phase 3 policy because live/profit claim language was detected.'')
            else None)"

text \<open>
  \<open>call\<close>: the tool is a computation over a context of its own; it does not write to the trace.
\<close>

definition on_harness :: "(tool_harness, 'a) comp \<Rightarrow> (tool_harness \<times> 'c, 'a) comp" where
  "on_harness m = (\<lambda>(h, c). case m h of (r, h') \<Rightarrow> (r, (h', c)))"

definition on_context :: "('c, 'a) comp \<Rightarrow> (tool_harness \<times> 'c, 'a) comp" where
  "on_context m = (\<lambda>(h, c). case m c of (r, c') \<Rightarrow> (r, (h, c')))"

definition call_contract ::
  "harness_env \<Rightarrow> tool_contract \<Rightarrow> string \<Rightarrow> ('c, 'a) comp \<Rightarrow> string list \<Rightarrow> string list \<Rightarrow> string option
    \<Rightarrow> (tool_harness \<times> 'c, 'a) comp" where
  "call_contract env contract policy_mode func input_refs output_refs policy_text =
     (let event = (\<lambda>event_type err status failure_class. on_harness
            (record_tool env event_type contract input_refs output_refs err (Some status) failure_class))
      in thenx (event ''tool.started'' None STATUS_STARTED None)
          (case block_reason env policy_mode contract policy_text of
             Some reason \<Rightarrow>
               thenx (event ''tool.blocked'' (Some (exc ''ToolBlockedError'' reason)) STATUS_BLOCKED
                   (Some FAILURE_POLICY_VIOLATION))
                 (raisex (exc ''ToolBlockedError'' reason))
           | None \<Rightarrow>
               bindx (catchx (on_context func)
                   (\<lambda>e. thenx (event ''tool.failed'' (Some e) STATUS_FAIL (Some FAILURE_TOOL_ERROR)) (raisex e)))
                 (\<lambda>result. thenx (event ''tool.completed'' None STATUS_PASS None) (returnx result))))"

definition call_tool ::
  "harness_env \<Rightarrow> string \<Rightarrow> ('c, 'a) comp \<Rightarrow> string list \<Rightarrow> string list \<Rightarrow> string option
    \<Rightarrow> (tool_harness \<times> 'c, 'a) comp" where
  "call_tool env tool_id func input_refs output_refs policy_text hc =
     (case dict_get (th_contracts (fst hc)) tool_id of
        None \<Rightarrow> (Inl (exc ''ValueError'' (''Unknown tool id: '' @ tool_id)), hc)
      | Some contract \<Rightarrow>
          call_contract env contract (th_policy_mode (fst hc)) func input_refs output_refs policy_text hc)"

section \<open>The summary\<close>

definition tools_with :: "string \<Rightarrow> json dict list \<Rightarrow> json list" where
  "tools_with event_type events =
     map (\<lambda>e. jget e ''tool_id'')
       (filter (\<lambda>e. jget e ''event_type'' = JStr event_type \<and> dict_get e ''tool_id'' \<noteq> None) events)"

definition harness_summary :: "string \<Rightarrow> string \<Rightarrow> string list \<Rightarrow> tool_harness \<Rightarrow> json dict" where
  "harness_summary created_at trace_ref output_refs h =
     [(''run_id'', JStr (th_run_id h)), (''created_at'', JStr created_at),
      (''policy_mode'', JStr (th_policy_mode h)), (''trace_ref'', JStr trace_ref),
      (''event_count'', JInt (int (length (th_events h)))),
      (''completed_tools'', JList (tools_with ''tool.completed'' (th_events h))),
      (''failed_tools'', JList (tools_with ''tool.failed'' (th_events h))),
      (''blocked_tools'', JList (tools_with ''tool.blocked'' (th_events h))),
      (''output_refs'', JList (map JStr output_refs))]"

section \<open>Claims in the old form\<close>

definition legacy_policy_finding :: "string \<Rightarrow> string dict \<Rightarrow> string dict" where
  "legacy_policy_finding claim_field finding =
     (let text = (\<lambda>k. case dict_get finding k of None \<Rightarrow> [] | Some s \<Rightarrow> s);
          claim = (if text claim_field \<noteq> [] then text claim_field
                   else if text ''claim'' \<noteq> [] then text ''claim'' else text ''matched_text'')
      in dict_merge finding
          [(''claim'', claim),
           (''severity'', if dict_get finding ''severity'' = Some ''blocker'' then ''block'' else ''warn'')])"

definition find_policy_claims :: "harness_env \<Rightarrow> string \<Rightarrow> string dict list" where
  "find_policy_claims env text = map (legacy_policy_finding ''matched_text'')
     (find_policy_findings (he_loads env) (he_rules env) text ''policy_text'' EVIDENCE_GENERATED_ARTIFACT)"

definition find_blocked_claims :: "harness_env \<Rightarrow> string \<Rightarrow> string dict list" where
  "find_blocked_claims env text =
     filter (\<lambda>f. dict_get f ''severity'' = Some ''block'') (find_policy_claims env text)"

definition find_prompt_boundary_violations :: "harness_env \<Rightarrow> string \<Rightarrow> string dict list" where
  "find_prompt_boundary_violations env text = map (legacy_policy_finding ''rule_id'')
     (filter (\<lambda>f. dict_get f ''severity'' = Some ''blocker'')
       (find_policy_findings (he_loads env) (he_rules env) text ''user_prompt'' EVIDENCE_STRATEGY_IDEA))"

section \<open>The registry check\<close>

definition REQUIRED_TOOL_KEYS :: "string list" where
  "REQUIRED_TOOL_KEYS = [''id'', ''capability'', ''risk_tier'', ''input_schema_ref'', ''output_schema_ref'',
     ''evidence_required'', ''phase_status'']"

record check_entry =
  check_name :: string
  check_status :: string
  check_details :: string

abbreviation check_entry_of :: "string \<Rightarrow> string \<Rightarrow> string \<Rightarrow> check_entry" where
  "check_entry_of n s d \<equiv> \<lparr>check_name = n, check_status = s, check_details = d\<rparr>"

definition validation_check :: "string \<Rightarrow> bool \<Rightarrow> string \<Rightarrow> check_entry" where
  "validation_check name condition details =
     check_entry_of name (if condition then ''pass'' else ''fail'') details"

definition aggregate_status :: "string list \<Rightarrow> string" where
  "aggregate_status statuses =
     (if statuses = [] then ''skipped''
      else if ''fail'' \<in> set statuses then ''fail''
      else if ''manual_required'' \<in> set statuses then ''manual_required''
      else if ''pass'' \<in> set statuses then ''pass''
      else ''skipped'')"

text \<open>The names a provider-exposed tool goes by, without repetitions.\<close>

definition provider_names :: "(json \<Rightarrow> string) \<Rightarrow> json dict \<Rightarrow> string list" where
  "provider_names repr_of tool =
     (let handler = py_strip (if json_truthy (jget tool ''backend_handler'')
            then py_str repr_of (jget tool ''backend_handler'') else []);
          aliases = (case jget tool ''aliases'' of
              JList xs \<Rightarrow> filter (\<lambda>a. a \<noteq> []) (map (\<lambda>a. py_strip (py_str repr_of a)) xs)
            | _ \<Rightarrow> [])
      in rev (remdups (rev ((if handler = [] then [] else [handler]) @ aliases))))"

text \<open>The loop over the provider names, with the tool that has claimed each name so far.\<close>

fun provider_name_checks ::
  "string \<Rightarrow> string dict \<Rightarrow> string list \<Rightarrow> check_entry list \<times> string dict" where
  "provider_name_checks tool_id claimed [] = ([], claimed)"
| "provider_name_checks tool_id claimed (name # names) =
     (let previous = dict_get claimed name;
          check = validation_check (tool_id @ '':provider_name:'' @ name) (previous = None)
            (case previous of
               None \<Rightarrow> ''Provider name is unique.''
             | Some p \<Rightarrow> if p = [] then ''Provider name is unique.''
                         else ''Provider name already claimed by '' @ p @ ''.'');
          (checks, claimed') = provider_name_checks tool_id
            (if previous = None then dict_set name tool_id claimed else claimed) names
      in (check # checks, claimed'))"

text \<open>
  One entry of the registry.  \<open>contract_error\<close> is the text of the error when an entry does not have
  the schema of a tool contract.  The last check belongs to the \<open>else\<close> of the loop over the provider
  names, which runs whenever that loop ends.
\<close>

definition check_tool ::
  "(json \<Rightarrow> string) \<Rightarrow> (json dict \<Rightarrow> string option) \<Rightarrow> nat \<Rightarrow> json \<Rightarrow> string list \<times> string dict
    \<Rightarrow> check_entry list \<times> string list \<times> string dict" where
  "check_tool repr_of contract_error index entry st =
     (case entry of
        JObj tool \<Rightarrow>
          let seen = fst st;
              tool_id = (case dict_get tool ''id'' of
                  None \<Rightarrow> ''tool_'' @ digits_of index | Some v \<Rightarrow> py_str repr_of v);
              missing = py_sorted id (filter (\<lambda>k. dict_get tool k = None) REQUIRED_TOOL_KEYS);
              exposed = (jget tool ''provider_exposed'' = JBool True);
              names = (if exposed then provider_names repr_of tool else []);
              (name_checks, claimed) = provider_name_checks tool_id (snd st) names
          in ([validation_check (tool_id @ '':required_metadata'') (missing = [])
                 (if missing \<noteq> [] then ''Missing keys: '' @ py_join '', '' missing
                  else ''Required metadata present.''),
               validation_check (tool_id @ '':unique_id'') (tool_id \<notin> set seen)
                 (if tool_id \<in> set seen then ''Duplicate tool id.'' else ''Tool id is unique.'')] @
              (case contract_error tool of
                 None \<Rightarrow> []
               | Some e \<Rightarrow> [check_entry_of (tool_id @ '':schema'') STATUS_FAIL e]) @
              (if exposed
               then [validation_check (tool_id @ '':provider_metadata'') (names \<noteq> [])
                 (if names = [] then ''Provider-exposed tools must declare backend_handler or aliases.''
                  else ''Provider metadata present.'')] else []) @
              name_checks @
              [check_entry_of (tool_id @ '':schema'') STATUS_PASS ''Tool contract schema is valid.''],
              seen @ [tool_id], claimed)
      | _ \<Rightarrow> ([check_entry_of (''tool_'' @ digits_of index @ '':mapping'') STATUS_FAIL
              ''Each tool entry must be a mapping.''], st))"

fun check_tools ::
  "(json \<Rightarrow> string) \<Rightarrow> (json dict \<Rightarrow> string option) \<Rightarrow> nat \<Rightarrow> string list \<times> string dict \<Rightarrow> json list
    \<Rightarrow> check_entry list" where
  "check_tools repr_of contract_error index st [] = []"
| "check_tools repr_of contract_error index st (t # ts) =
     (let (checks, st') = check_tool repr_of contract_error index t st
      in checks @ check_tools repr_of contract_error (Suc index) st' ts)"

record registry_report =
  report_status :: string
  report_checks :: "check_entry list"
  report_next_actions :: "string list"

text \<open>\<open>policy_report\<close> is what \<open>validate_policy_rules\<close> answers: its status, rule count and errors.\<close>

definition check_tool_registry ::
  "(json \<Rightarrow> string) \<Rightarrow> (json dict \<Rightarrow> string option) \<Rightarrow> load_state \<Rightarrow> json list \<Rightarrow> registry_report" where
  "check_tool_registry repr_of contract_error policy_report tools =
     (let checks =
            [validation_check ''tools_present'' (tools \<noteq> [])
               (if tools \<noteq> [] then ''Found '' @ digits_of (length tools) @ '' tools.''
                else ''Registry must contain tools.'')] @
            check_tools repr_of contract_error 0 ([], []) tools @
            [validation_check ''policy_rules:schema'' (ld_errors policy_report = [])
               (if ld_errors policy_report = []
                then ''Policy rules loaded: '' @ digits_of (length (ld_rules policy_report))
                else py_join ''; '' (ld_errors policy_report))];
          status = aggregate_status (map check_status checks)
      in \<lparr>report_status = status, report_checks = checks,
          report_next_actions = (if status = ''pass'' then []
            else [''Fix tool registry metadata before enabling runtime harness changes.''])\<rparr>)"

end
