(* ===== verification/Tool_Laws.thy ===== *)
theory Tool_Laws
  imports Tool_Runtime
begin

text \<open>
  Triples for computations that may raise, the invariant of a trace (every event has the schema, and
  the events are trace_numbered from one), and what the operations of the harness append to it.
\<close>

section \<open>Triples\<close>

definition triple ::
  "('s \<Rightarrow> bool) \<Rightarrow> ('s, 'a) comp \<Rightarrow> ('a \<Rightarrow> 's \<Rightarrow> bool) \<Rightarrow> (py_exc \<Rightarrow> 's \<Rightarrow> bool) \<Rightarrow> bool" where
  "triple P m Q E \<longleftrightarrow> (\<forall>s. P s \<longrightarrow> (case m s of (Inl e, t) \<Rightarrow> E e t | (Inr x, t) \<Rightarrow> Q x t))"

abbreviation never :: "py_exc \<Rightarrow> 's \<Rightarrow> bool" where
  "never \<equiv> \<lambda>_ _. False"

named_theorems triples \<open>the rules of triples, one for each way to compose computations\<close>

lemma triple_returnx [triples]: "(\<And>s. P s \<Longrightarrow> Q x s) \<Longrightarrow> triple P (returnx x) Q E"
  by (simp add: triple_def returnx_def)

lemma triple_raisex [triples]: "(\<And>s. P s \<Longrightarrow> E e s) \<Longrightarrow> triple P (raisex e) Q E"
  by (simp add: triple_def raisex_def)

lemma triple_bindx:
  "triple P m R E \<Longrightarrow> (\<And>x. triple (R x) (f x) Q E) \<Longrightarrow> triple P (bindx m f) Q E"
  unfolding triple_def bindx_def
  by (fastforce split: prod.splits sum.splits)

lemma triple_thenx:
  "triple P m (\<lambda>_. R) E \<Longrightarrow> triple R n Q E \<Longrightarrow> triple P (thenx m n) Q E"
  unfolding thenx_def by (rule triple_bindx)

text \<open>The first part keeps the invariant, which is the usual case.\<close>

lemma triple_thenx_keeps [triples]:
  "triple P m (\<lambda>_. P) E \<Longrightarrow> triple P n Q E \<Longrightarrow> triple P (thenx m n) Q E"
  by (rule triple_thenx)

lemma triple_catchx [triples]:
  "triple P m Q R \<Longrightarrow> (\<And>e. triple (R e) (h e) Q E) \<Longrightarrow> triple P (catchx m h) Q E"
  unfolding triple_def catchx_def
  by (fastforce split: prod.splits sum.splits)

lemma triple_conseq:
  assumes "triple P m Q E" "\<And>s. P' s \<Longrightarrow> P s" "\<And>x s. Q x s \<Longrightarrow> Q' x s" "\<And>e s. E e s \<Longrightarrow> E' e s"
  shows "triple P' m Q' E'"
  using assms unfolding triple_def by (fastforce split: prod.splits sum.splits)

lemma triple_pre: "triple P m Q E \<Longrightarrow> (\<And>s. P' s \<Longrightarrow> P s) \<Longrightarrow> triple P' m Q E"
  by (rule triple_conseq)

lemma triple_post:
  "triple P m Q E \<Longrightarrow> (\<And>x s. Q x s \<Longrightarrow> Q' x s) \<Longrightarrow> triple P m Q' E"
  by (rule triple_conseq)

text \<open>A computation that looks at the state it starts from, or changes it first.\<close>

lemma triple_at: "(\<And>s. P s \<Longrightarrow> triple P (f s) Q E) \<Longrightarrow> triple P (\<lambda>s. f s s) Q E"
  by (simp add: triple_def)

lemma triple_after:
  "triple R m Q E \<Longrightarrow> (\<And>s. P s \<Longrightarrow> R (g s)) \<Longrightarrow> triple P (\<lambda>s. m (g s)) Q E"
  by (simp add: triple_def)

lemma triple_if [triples]:
  "(c \<Longrightarrow> triple P m Q E) \<Longrightarrow> (\<not> c \<Longrightarrow> triple P n Q E) \<Longrightarrow> triple P (if c then m else n) Q E"
  by simp

lemma tripleD:
  "triple P m Q E \<Longrightarrow> P s \<Longrightarrow> (case m s of (Inl e, t) \<Rightarrow> E e t | (Inr x, t) \<Rightarrow> Q x t)"
  by (simp add: triple_def)

lemma triple_runs:
  assumes "triple P m Q never" "P s"
  obtains x t where "m s = (Inr x, t)" "Q x t"
  using tripleD [OF assms] by (auto split: prod.splits sum.splits)

section \<open>Traces\<close>

abbreviation event_type_of :: "json dict \<Rightarrow> json" where
  "event_type_of e \<equiv> jget e ''event_type''"

text \<open>Events \<open>n + 1\<close>, \<open>n + 2\<close> and so on, each with the schema of an event.\<close>

fun trace_numbered :: "nat \<Rightarrow> json dict list \<Rightarrow> bool" where
  "trace_numbered n [] = True"
| "trace_numbered n (e # es) = (event_ok e \<and> jget e ''sequence'' = JInt (int n + 1) \<and> trace_numbered (Suc n) es)"

lemma trace_numbered_append [simp]: "trace_numbered n (es @ fs) \<longleftrightarrow> trace_numbered n es \<and> trace_numbered (n + length es) fs"
  by (induction es arbitrary: n) auto

lemma trace_numbered_nth: "trace_numbered n es \<Longrightarrow> i < length es \<Longrightarrow>
   event_ok (es ! i) \<and> jget (es ! i) ''sequence'' = JInt (int (n + i) + 1)"
  by (induction n es arbitrary: i rule: trace_numbered.induct) (auto simp: nth_Cons split: nat.split)

text \<open>
  What the harness must be given: the identity of a run, one of the two policy modes, and tools with
  an identity and a tier.
\<close>

definition contract_ok :: "tool_contract \<Rightarrow> bool" where
  "contract_ok c \<longleftrightarrow> contract_id c \<noteq> [] \<and> contract_risk_tier c \<noteq> []"

definition harness_ok :: "tool_harness \<Rightarrow> bool" where
  "harness_ok h \<longleftrightarrow> th_run_id h \<noteq> [] \<and> th_policy_mode h \<in> {POLICY_OBSERVE, POLICY_ENFORCE} \<and>
     list_all (\<lambda>kc. contract_ok (snd kc)) (th_contracts h)"

text \<open>The harness with more events.\<close>

definition with_events :: "json dict list \<Rightarrow> tool_harness \<Rightarrow> tool_harness" where
  "with_events es h = h\<lparr>th_events := th_events h @ es\<rparr>"

lemma with_events_simps [simp]:
  "th_run_id (with_events es h) = th_run_id h"
  "th_policy_mode (with_events es h) = th_policy_mode h"
  "th_contracts (with_events es h) = th_contracts h"
  "th_events (with_events es h) = th_events h @ es"
  "with_events fs (with_events es h) = with_events (es @ fs) h"
  "with_events [] h = h"
  "harness_ok (with_events es h) = harness_ok h"
  by (simp_all add: with_events_def harness_ok_def)

lemma harness_ok_contract:
  "harness_ok h \<Longrightarrow> dict_get (th_contracts h) k = Some c \<Longrightarrow> contract_ok c"
  by (auto simp: harness_ok_def list_all_iff dest!: dict_get_in)

section \<open>Events that have the schema\<close>

text \<open>What the schema says of each field, computed once.\<close>

named_theorems field_rules \<open>the fields of an event that have the schema\<close>

lemma field_ok_text [field_rules]:
  "k \<in> set schema_text_fields \<Longrightarrow> field_ok k v = is_jstr v"
  by (simp add: field_ok_def)

lemma field_ok_rules [field_rules]:
  "field_ok ''sequence'' v = int_from 1 v"
  "field_ok ''attempt'' v = int_from 1 v"
  "field_ok ''iteration'' v = int_from 0 v"
  "field_ok ''tool_call_count'' v = int_from 0 v"
  "field_ok ''run_id'' v = (is_jstr v \<and> v \<noteq> JStr [])"
  "field_ok ''tool_id'' v = (is_jstr v \<and> v \<noteq> JStr [])"
  "field_ok ''risk_tier'' v = (is_jstr v \<and> v \<noteq> JStr [])"
  "field_ok ''event_type'' v = text_in schema_event_types v"
  "field_ok ''policy_mode'' v = text_in [POLICY_OBSERVE, POLICY_ENFORCE] v"
  "field_ok ''status'' v = text_in EVENT_STATUSES v"
  "field_ok ''failure_class'' v = text_in schema_failure_classes v"
  "field_ok ''input_refs'' v = text_list v"
  "field_ok ''output_refs'' v = text_list v"
  "field_ok ''error'' v = error_object v"
  by (simp_all add: field_ok_def schema_text_fields_def)

lemma json_kinds [field_rules]:
  "is_jstr (JStr s)" "int_from n (JInt i) = (n \<le> i)" "text_in xs (JStr s) = (s \<in> set xs)"
  "text_list (JList (map JStr ss))" "error_object (JObj [(''type'', JStr a), (''message'', JStr b)])"
  by (simp_all add: is_jstr_def int_from_def text_in_def text_list_def error_object_def jget_def list_all_iff)

lemma text_fields [field_rules]:
  "''created_at'' \<in> set schema_text_fields" "''workflow'' \<in> set schema_text_fields"
  "''stage'' \<in> set schema_text_fields" "''agent_role'' \<in> set schema_text_fields"
  "''model'' \<in> set schema_text_fields" "''gate'' \<in> set schema_text_fields"
  "''decision'' \<in> set schema_text_fields" "''reason_code'' \<in> set schema_text_fields"
  "''label'' \<in> set schema_text_fields" "''input_summary'' \<in> set schema_text_fields"
  "''output_summary'' \<in> set schema_text_fields"
  by (simp_all add: schema_text_fields_def)

text \<open>The fields a caller may add to an event.\<close>

definition extra_ok :: "json dict \<Rightarrow> bool" where
  "extra_ok extra \<longleftrightarrow> list_all (\<lambda>kv. snd kv = JNull \<or>
     (field_ok (fst kv) (snd kv) \<and> fst kv \<notin> {''sequence'', ''event_type''})) extra"

lemma dict_merge_simps:
  "dict_merge d [] = d" "dict_merge d ((k, v) # e) = dict_merge (dict_set k v d) e"
  by (simp_all add: dict_merge_def)

lemma dict_merge_in: "kv \<in> set (dict_merge d e) \<Longrightarrow> kv \<in> set d \<or> kv \<in> set e"
proof (induction e arbitrary: d)
  case (Cons a e)
  from Cons.prems have "kv \<in> set (dict_merge (dict_set (fst a) (snd a) d) e)"
    by (cases a) (simp add: dict_merge_simps)
  from Cons.IH [OF this] show ?case
    by (cases kv, cases a) (auto dest: dict_set_set_in)
qed (simp add: dict_merge_simps)

lemma dict_merge_keeps: "dict_get d k \<noteq> None \<Longrightarrow> dict_get (dict_merge d e) k \<noteq> None"
proof (induction e arbitrary: d)
  case (Cons a e)
  have "dict_get (dict_set (fst a) (snd a) d) k \<noteq> None" using Cons.prems by simp
  from Cons.IH [OF this] show ?case by (cases a) (simp add: dict_merge_simps)
qed (simp add: dict_merge_simps)

lemma dict_merge_other: "k \<notin> fst ` set e \<Longrightarrow> dict_get (dict_merge d e) k = dict_get d k"
proof (induction e arbitrary: d)
  case (Cons a e)
  then show ?case by (cases a) (simp add: dict_merge_simps)
qed (simp add: dict_merge_simps)

lemma extra_ok_kept:
  "extra_ok extra \<Longrightarrow> kv \<in> set (filter (\<lambda>kv. snd kv \<noteq> JNull) extra) \<Longrightarrow>
     field_ok (fst kv) (snd kv) \<and> fst kv \<notin> {''sequence'', ''event_type''}"
  unfolding extra_ok_def list_all_iff by auto

lemma extra_ok_absent:
  "extra_ok extra \<Longrightarrow> k \<in> {''sequence'', ''event_type''} \<Longrightarrow>
     k \<notin> fst ` set (filter (\<lambda>kv. snd kv \<noteq> JNull) extra)"
  by (blast dest: extra_ok_kept)

lemma event_ok_merge:
  assumes "event_ok base" "\<And>kv. kv \<in> set e \<Longrightarrow> field_ok (fst kv) (snd kv)"
  shows "event_ok (dict_merge base e)"
  using assms unfolding event_ok_def list_all_iff
  by (metis dict_merge_in dict_merge_keeps)

lemma record_event_appends:
  assumes h: "harness_ok h" and t: "event_type \<in> set schema_event_types" and x: "extra_ok extra"
  obtains e where "record_event env event_type extra h = (Inr e, with_events [e] h)"
    "trace_numbered (length (th_events h)) [e]" "event_type_of e = JStr event_type"
proof -
  define base where "base = [(''sequence'', JInt (int (length (th_events h)) + 1)),
     (''created_at'', JStr (he_stamp env (length (th_events h)))),
     (''run_id'', JStr (th_run_id h)), (''event_type'', JStr event_type),
     (''policy_mode'', JStr (th_policy_mode h))]"
  define kept where "kept = filter (\<lambda>kv. snd kv \<noteq> JNull) extra"
  let ?e = "dict_merge base kept"
  have base: "event_ok base"
    using h t by (simp add: base_def event_ok_def field_rules harness_ok_def)
  have "event_ok ?e"
    by (rule event_ok_merge [OF base]) (use extra_ok_kept [OF x] kept_def in blast)
  moreover have "jget ?e ''sequence'' = JInt (int (length (th_events h)) + 1)"
    using extra_ok_absent [OF x, of "''sequence''", folded kept_def]
    by (simp add: jget_def dict_merge_other) (simp add: base_def)
  moreover have "event_type_of ?e = JStr event_type"
    using extra_ok_absent [OF x, of "''event_type''", folded kept_def]
    by (simp add: jget_def dict_merge_other) (simp add: base_def)
  moreover have "record_event env event_type extra h = append_event env ?e h"
    by (simp only: record_event_def base_def kept_def)
  ultimately show ?thesis
    by (intro that [of ?e]) (simp_all add: append_event_def with_events_def)
qed

text \<open>The event of a tool.\<close>

definition tool_event_ok :: "string \<Rightarrow> string option \<Rightarrow> string option \<Rightarrow> bool" where
  "tool_event_ok event_type status failure_class \<longleftrightarrow> event_type \<in> set schema_event_types \<and>
     (case status of None \<Rightarrow> True | Some s \<Rightarrow> s \<in> set EVENT_STATUSES) \<and>
     (case failure_class of None \<Rightarrow> True | Some f \<Rightarrow> f \<in> set schema_failure_classes)"

lemma field_ok_text_field:
  assumes "\<And>s. t = Some s \<Longrightarrow> s \<noteq> [] \<Longrightarrow> field_ok k (JStr s)"
  shows "list_all (\<lambda>kv. field_ok (fst kv) (snd kv)) (text_field k t)"
  using assms by (simp add: text_field_def split: option.split)

lemma field_ok_error_field: "list_all (\<lambda>kv. field_ok (fst kv) (snd kv)) (error_field err)"
  by (simp add: error_field_def field_rules split: option.split)

lemma record_tool_appends:
  assumes h: "harness_ok h" and c: "contract_ok contract"
    and t: "tool_event_ok event_type status failure_class"
  obtains e where
    "record_tool env event_type contract input_refs output_refs err status failure_class h =
       (Inr e, with_events [e] h)"
    "trace_numbered (length (th_events h)) [e]" "event_type_of e = JStr event_type"
    "jget e ''tool_id'' = JStr (contract_id contract)"
proof -
  let ?base = "[(''sequence'', JInt (int (length (th_events h)) + 1)),
     (''created_at'', JStr (he_stamp env (length (th_events h)))),
     (''run_id'', JStr (th_run_id h)), (''event_type'', JStr event_type),
     (''tool_id'', JStr (contract_id contract)), (''policy_mode'', JStr (th_policy_mode h)),
     (''risk_tier'', JStr (contract_risk_tier contract)),
     (''input_refs'', JList (map JStr input_refs)), (''output_refs'', JList (map JStr output_refs))]"
  let ?e = "?base @ text_field ''status'' status @ text_field ''failure_class'' failure_class @ error_field err"
  have base: "list_all (\<lambda>kv. field_ok (fst kv) (snd kv)) ?base"
    using h c t by (simp add: field_rules harness_ok_def contract_ok_def tool_event_ok_def)
  have status: "list_all (\<lambda>kv. field_ok (fst kv) (snd kv)) (text_field ''status'' status)"
    using t by (intro field_ok_text_field)
      (simp add: tool_event_ok_def field_rules)
  have failure: "list_all (\<lambda>kv. field_ok (fst kv) (snd kv)) (text_field ''failure_class'' failure_class)"
    using t by (intro field_ok_text_field)
      (simp add: tool_event_ok_def field_rules)
  from base status failure field_ok_error_field [of err] have "event_ok ?e"
    by (simp add: event_ok_def)
  then show ?thesis
    by (intro that [of ?e])
      (simp_all add: record_tool_def append_event_def with_events_def jget_def)
qed

section \<open>What the operations append\<close>

lemmas comp_defs = returnx_def raisex_def bindx_def thenx_def catchx_def

lemma tool_event_types:
  "tool_event_ok ''tool.started'' (Some STATUS_STARTED) None"
  "tool_event_ok ''tool.blocked'' (Some STATUS_BLOCKED) (Some FAILURE_POLICY_VIOLATION)"
  "tool_event_ok ''tool.blocked'' (Some STATUS_BLOCKED) (Some FAILURE_SCHEMA_INVALID)"
  "tool_event_ok ''tool.failed'' (Some STATUS_FAIL) (Some FAILURE_TOOL_ERROR)"
  "tool_event_ok ''tool.completed'' (Some STATUS_PASS) None"
  by (simp_all add: tool_event_ok_def schema_event_types_def EVENT_STATUSES_def schema_failure_classes_def
      STATUS_STARTED_def STATUS_BLOCKED_def STATUS_FAIL_def STATUS_PASS_def FAILURE_POLICY_VIOLATION_def
      FAILURE_SCHEMA_INVALID_def FAILURE_TOOL_ERROR_def)

text \<open>Two events of one tool, of the types given.\<close>

definition tool_pair :: "nat \<Rightarrow> string \<Rightarrow> string \<Rightarrow> string \<Rightarrow> json dict list \<Rightarrow> bool" where
  "tool_pair n tool_id first second es \<longleftrightarrow> trace_numbered n es \<and>
     map event_type_of es = [JStr first, JStr second] \<and>
     map (\<lambda>e. jget e ''tool_id'') es = [JStr tool_id, JStr tool_id]"

lemma record_tool_twice:
  assumes h: "harness_ok h" and c: "contract_ok contract"
    and t: "tool_event_ok t1 s1 f1" "tool_event_ok t2 s2 f2"
  obtains e1 e2 where
    "record_tool env t1 contract ins outs err1 s1 f1 h = (Inr e1, with_events [e1] h)"
    "record_tool env t2 contract ins outs err2 s2 f2 (with_events [e1] h) = (Inr e2, with_events [e1, e2] h)"
    "tool_pair (length (th_events h)) (contract_id contract) t1 t2 [e1, e2]"
proof -
  obtain e1 where e1: "record_tool env t1 contract ins outs err1 s1 f1 h = (Inr e1, with_events [e1] h)"
    "trace_numbered (length (th_events h)) [e1]" "event_type_of e1 = JStr t1"
    "jget e1 ''tool_id'' = JStr (contract_id contract)"
    by (rule record_tool_appends [OF h c t(1)])
  have h1: "harness_ok (with_events [e1] h)" using h by simp
  obtain e2 where "record_tool env t2 contract ins outs err2 s2 f2 (with_events [e1] h) =
      (Inr e2, with_events [e2] (with_events [e1] h))"
    "trace_numbered (length (th_events (with_events [e1] h))) [e2]" "event_type_of e2 = JStr t2"
    "jget e2 ''tool_id'' = JStr (contract_id contract)"
    by (rule record_tool_appends [OF h1 c t(2)])
  with e1 show ?thesis
    by (intro that [of e1 e2]) (simp_all add: tool_pair_def)
qed

lemma record_blocked_tool_appends:
  assumes h: "harness_ok h" and name: "tool_id \<noteq> []"
    and f: "failure_class \<in> {FAILURE_POLICY_VIOLATION, FAILURE_SCHEMA_INVALID}"
  obtains es k where "record_blocked_tool env tool_id reason tier ins outs failure_class h = (Inr (), with_events es h)"
    "tool_pair (length (th_events h)) k ''tool.started'' ''tool.blocked'' es"
proof -
  define contract where "contract = (case dict_get (th_contracts h) tool_id of Some c \<Rightarrow> c
     | None \<Rightarrow> \<lparr>contract_id = tool_id, contract_risk_tier = or_str tier ''unknown''\<rparr>)"
  have c: "contract_ok contract"
    using h name by (auto simp: contract_def contract_ok_def or_str_def split: option.split
        dest: harness_ok_contract [unfolded contract_ok_def])
  have t2: "tool_event_ok ''tool.blocked'' (Some STATUS_BLOCKED) (Some failure_class)"
    using f tool_event_types(2,3) by blast
  obtain e1 e2 where "record_tool env ''tool.started'' contract ins outs None (Some STATUS_STARTED) None h =
      (Inr e1, with_events [e1] h)"
    "record_tool env ''tool.blocked'' contract ins outs (Some (exc ''ToolBlockedError'' reason))
        (Some STATUS_BLOCKED) (Some failure_class) (with_events [e1] h) = (Inr e2, with_events [e1, e2] h)"
    "tool_pair (length (th_events h)) (contract_id contract) ''tool.started'' ''tool.blocked'' [e1, e2]"
    by (rule record_tool_twice [OF h c tool_event_types(1) t2])
  then show ?thesis
    by (intro that [of "[e1, e2]"])
      (simp_all add: record_blocked_tool_def contract_def [symmetric] Let_def comp_defs)
qed

text \<open>
  A call of a known tool: the tool runs exactly when it is not blocked, its result or exception is
  the answer, and two events are appended.
\<close>

lemma call_tool_cases:
  assumes h: "harness_ok h" and k: "dict_get (th_contracts h) tool_id = Some contract"
  obtains es where
    "call_tool env tool_id func ins outs policy_text (h, c) =
       (case block_reason env (th_policy_mode h) contract policy_text of
          Some reason \<Rightarrow> (Inl (exc ''ToolBlockedError'' reason), (with_events es h, c))
        | None \<Rightarrow> (fst (func c), (with_events es h, snd (func c))))"
    "tool_pair (length (th_events h)) (contract_id contract) ''tool.started''
       (case block_reason env (th_policy_mode h) contract policy_text of
          Some reason \<Rightarrow> ''tool.blocked''
        | None \<Rightarrow> (case fst (func c) of Inl e \<Rightarrow> ''tool.failed'' | Inr x \<Rightarrow> ''tool.completed'')) es"
proof -
  let ?reason = "block_reason env (th_policy_mode h) contract policy_text"
  have c: "contract_ok contract" by (rule harness_ok_contract [OF h k])
  note twice = record_tool_twice [OF h c tool_event_types(1), of _ _ _ env ins outs None]
  show thesis
  proof (cases ?reason)
    case (Some reason)
    obtain e1 e2 where "record_tool env ''tool.started'' contract ins outs None (Some STATUS_STARTED) None h =
        (Inr e1, with_events [e1] h)"
      "record_tool env ''tool.blocked'' contract ins outs (Some (exc ''ToolBlockedError'' reason))
          (Some STATUS_BLOCKED) (Some FAILURE_POLICY_VIOLATION) (with_events [e1] h) =
        (Inr e2, with_events [e1, e2] h)"
      "tool_pair (length (th_events h)) (contract_id contract) ''tool.started'' ''tool.blocked'' [e1, e2]"
      by (rule twice [OF tool_event_types(2)])
    with Some k show thesis
      by (intro that [of "[e1, e2]"])
        (simp_all add: call_tool_def call_contract_def Let_def comp_defs on_harness_def)
  next
    case None
    show thesis
    proof (cases "func c")
      case (Pair r c')
      show thesis
      proof (cases r)
        case (Inl e)
        obtain e1 e2 where "record_tool env ''tool.started'' contract ins outs None (Some STATUS_STARTED) None h =
            (Inr e1, with_events [e1] h)"
          "record_tool env ''tool.failed'' contract ins outs (Some e)
              (Some STATUS_FAIL) (Some FAILURE_TOOL_ERROR) (with_events [e1] h) =
            (Inr e2, with_events [e1, e2] h)"
          "tool_pair (length (th_events h)) (contract_id contract) ''tool.started'' ''tool.failed'' [e1, e2]"
          by (rule twice [OF tool_event_types(4)])
        with None k Pair Inl show thesis
          by (intro that [of "[e1, e2]"])
            (simp_all add: call_tool_def call_contract_def Let_def comp_defs on_harness_def on_context_def)
      next
        case (Inr x)
        obtain e1 e2 where "record_tool env ''tool.started'' contract ins outs None (Some STATUS_STARTED) None h =
            (Inr e1, with_events [e1] h)"
          "record_tool env ''tool.completed'' contract ins outs None
              (Some STATUS_PASS) None (with_events [e1] h) = (Inr e2, with_events [e1, e2] h)"
          "tool_pair (length (th_events h)) (contract_id contract) ''tool.started'' ''tool.completed'' [e1, e2]"
          by (rule twice [OF tool_event_types(5)])
        with None k Pair Inr show thesis
          by (intro that [of "[e1, e2]"])
            (simp_all add: call_tool_def call_contract_def Let_def comp_defs on_harness_def on_context_def)
      qed
    qed
  qed
qed

end
