(* ===== verification/Tool_Claims.thy ===== *)
theory Tool_Claims
  imports Tool_Laws
begin

text \<open>The properties of the tool harness and of the check of the tool registry.\<close>

section \<open>Calls\<close>

text \<open>
  C24: What a call of a registered tool does.  A call is blocked exactly when block_reason gives a
  reason: then the tool does not run and the call raises ToolBlockedError with that reason.  Otherwise
  the tool runs once and the call returns its result or raises its exception.  Either way exactly two
  events of this tool, which have the schema and the next two numbers, are appended: tool.started, and
  one that says how the call ended.
\<close>

theorem tool_call_recorded:
  assumes "harness_ok h" and "dict_get (th_contracts h) tool_id = Some contract"
  shows "case call_tool env tool_id func input_refs output_refs policy_text (h, c) of (r, (h', c')) \<Rightarrow>
    (r, c') = (case block_reason env (th_policy_mode h) contract policy_text of
        Some reason \<Rightarrow> (Inl (exc ''ToolBlockedError'' reason), c)
      | None \<Rightarrow> func c) \<and>
    h' = h\<lparr>th_events := th_events h @ drop (length (th_events h)) (th_events h')\<rparr> \<and>
    tool_pair (length (th_events h)) (contract_id contract) ''tool.started''
      (case (block_reason env (th_policy_mode h) contract policy_text, r) of
         (Some reason, _) \<Rightarrow> ''tool.blocked''
       | (None, Inl e) \<Rightarrow> ''tool.failed''
       | (None, Inr x) \<Rightarrow> ''tool.completed'')
      (drop (length (th_events h)) (th_events h'))"
proof -
  obtain es where
    "call_tool env tool_id func input_refs output_refs policy_text (h, c) =
       (case block_reason env (th_policy_mode h) contract policy_text of
          Some reason \<Rightarrow> (Inl (exc ''ToolBlockedError'' reason), (with_events es h, c))
        | None \<Rightarrow> (fst (func c), (with_events es h, snd (func c))))"
    "tool_pair (length (th_events h)) (contract_id contract) ''tool.started''
       (case block_reason env (th_policy_mode h) contract policy_text of
          Some reason \<Rightarrow> ''tool.blocked''
        | None \<Rightarrow> (case fst (func c) of Inl e \<Rightarrow> ''tool.failed'' | Inr x \<Rightarrow> ''tool.completed'')) es"
    by (rule call_tool_cases [OF assms, where env = env and func = func and ins = input_refs
          and outs = output_refs and policy_text = policy_text and c = c])
  then show ?thesis
    by (cases "block_reason env (th_policy_mode h) contract policy_text")
      (auto simp: with_events_def split: sum.split)
qed

section \<open>The registry\<close>

text \<open>What an entry of the registry must have, its identity and its provider names.\<close>

definition exposed_names :: "(json \<Rightarrow> string) \<Rightarrow> json \<Rightarrow> string list" where
  "exposed_names repr_of t = (case t of
      JObj tool \<Rightarrow> if jget tool ''provider_exposed'' = JBool True then provider_names repr_of tool else []
    | _ \<Rightarrow> [])"

definition entry_id :: "(json \<Rightarrow> string) \<Rightarrow> json \<Rightarrow> string" where
  "entry_id repr_of t = (case t of JObj tool \<Rightarrow> py_str repr_of (jget tool ''id'') | _ \<Rightarrow> [])"

definition entry_ok :: "(json \<Rightarrow> string) \<Rightarrow> (json dict \<Rightarrow> string option) \<Rightarrow> json \<Rightarrow> bool" where
  "entry_ok repr_of contract_error t = (case t of
      JObj tool \<Rightarrow> list_all (\<lambda>k. dict_get tool k \<noteq> None) REQUIRED_TOOL_KEYS \<and> contract_error tool = None \<and>
        (jget tool ''provider_exposed'' = JBool True \<longrightarrow> exposed_names repr_of t \<noteq> [])
    | _ \<Rightarrow> False)"

abbreviation passes :: "check_entry \<Rightarrow> bool" where
  "passes c \<equiv> check_status c = STATUS_PASS"

lemma validation_check_status [simp]:
  "check_status (validation_check n b d) = (if b then ''pass'' else ''fail'')"
  by (simp add: validation_check_def)

lemma distinct_provider_names: "distinct (exposed_names repr_of t)"
  by (simp add: exposed_names_def provider_names_def Let_def split: json.split)

text \<open>The names a tool claims: all are free exactly when the checks pass.\<close>

lemma provider_name_checks_Cons:
  assumes "provider_name_checks tool_id claimed (name # names) = (checks, claimed')"
  obtains v rest where "checks = v # rest" "passes v \<longleftrightarrow> name \<notin> fst ` set claimed"
    "provider_name_checks tool_id (if name \<in> fst ` set claimed then claimed else dict_set name tool_id claimed) names =
       (rest, claimed')"
proof -
  obtain rest c where rest:
    "provider_name_checks tool_id (if dict_get claimed name = None then dict_set name tool_id claimed else claimed)
       names = (rest, c)" by fastforce
  with assms have c: "c = claimed'" and checks: "checks = hd checks # rest"
      "check_status (hd checks) = (if dict_get claimed name = None then ''pass'' else ''fail'')"
    unfolding provider_name_checks.simps Let_def by (simp_all only: prod.case prod.inject, auto)
  from checks(2) have "passes (hd checks) \<longleftrightarrow> name \<notin> fst ` set claimed"
    by (simp add: map_of_eq_None_iff STATUS_PASS_def)
  with checks(1) rest c show thesis
    by (intro that [of "hd checks" rest]) (simp_all add: map_of_eq_None_iff if_not_P cong: if_cong split: if_splits)
qed

lemma set_fst_dict_set: "fst ` set (dict_set k v d) = insert k (fst ` set d)"
  using dom_update [of k v d] by (simp add: dom_map_of_conv_image_fst)

lemma provider_name_checks_pass:
  assumes "distinct names" "provider_name_checks tool_id claimed names = (checks, claimed')"
  shows "(list_all passes checks \<longleftrightarrow> set names \<inter> fst ` set claimed = {}) \<and>
    fst ` set claimed' = fst ` set claimed \<union> set names"
  using assms
proof (induction names arbitrary: claimed checks)
  case (Cons name names)
  obtain v rest where v: "checks = v # rest" "passes v \<longleftrightarrow> name \<notin> fst ` set claimed"
    and rest: "provider_name_checks tool_id
        (if name \<in> fst ` set claimed then claimed else dict_set name tool_id claimed) names = (rest, claimed')"
    by (rule provider_name_checks_Cons [OF Cons.prems(2)])
  from Cons.IH [OF _ rest] Cons.prems(1) v show ?case
    by (auto simp: set_fst_dict_set split: if_splits)
qed simp

definition known_status :: "check_entry \<Rightarrow> bool" where
  "known_status c \<longleftrightarrow> check_status c \<in> {''pass'', ''fail''}"

lemma known_validation_check [simp]: "known_status (validation_check n b d)"
  by (simp add: known_status_def)

lemma known_provider_checks:
  "list_all known_status (fst (provider_name_checks tool_id claimed names))"
  by (induction tool_id claimed names rule: provider_name_checks.induct)
    (auto simp: Let_def split: prod.split)

lemma missing_keys_Nil:
  "py_sorted id (filter (\<lambda>k. dict_get tool k = None) REQUIRED_TOOL_KEYS) = [] \<longleftrightarrow>
     list_all (\<lambda>k. dict_get tool k \<noteq> None) REQUIRED_TOOL_KEYS"
  by (metis (mono_tags, lifting) filter_empty_conv list_all_iff set_empty set_py_sorted)

lemma check_tool_known: "list_all known_status (fst (check_tool repr_of contract_error index t st))"
proof (cases t)
  case (JObj tool)
  show ?thesis
    using known_provider_checks unfolding JObj check_tool_def json.case Let_def
    by (auto simp: known_status_def list_all_iff STATUS_PASS_def STATUS_FAIL_def
        split: prod.split option.split) (metis (no_types, lifting) fst_conv)+
qed (simp_all add: check_tool_def known_status_def STATUS_FAIL_def)

text \<open>One entry: its checks pass exactly when it is usable and its identity and names are free.\<close>

lemma check_tool_pass:
  assumes "check_tool repr_of contract_error index t (seen, claimed) = (checks, seen', claimed')"
  shows "(list_all passes checks \<longleftrightarrow> entry_ok repr_of contract_error t \<and> entry_id repr_of t \<notin> set seen \<and>
      set (exposed_names repr_of t) \<inter> fst ` set claimed = {}) \<and>
    (entry_ok repr_of contract_error t \<longrightarrow> seen' = seen @ [entry_id repr_of t] \<and>
      fst ` set claimed' = fst ` set claimed \<union> set (exposed_names repr_of t))"
proof (cases t)
  case (JObj tool)
  define tool_id where "tool_id = (case dict_get tool ''id'' of
      None \<Rightarrow> ''tool_'' @ digits_of index | Some v \<Rightarrow> py_str repr_of v)"
  define names where "names = (if jget tool ''provider_exposed'' = JBool True then provider_names repr_of tool else [])"
  obtain rest c where rest: "provider_name_checks tool_id claimed names = (rest, c)" by fastforce
  have names: "exposed_names repr_of t = names" by (simp add: JObj exposed_names_def names_def)
  have pass: "(list_all passes rest \<longleftrightarrow> set names \<inter> fst ` set claimed = {}) \<and>
      fst ` set c = fst ` set claimed \<union> set names"
    by (rule provider_name_checks_pass [OF _ rest]) (use distinct_provider_names [of repr_of t] names in simp)
  let ?complete = "list_all (\<lambda>k. dict_get tool k \<noteq> None) REQUIRED_TOOL_KEYS"
  have ids: "entry_id repr_of t = tool_id" if "?complete"
  proof -
    from that have "dict_get tool ''id'' \<noteq> None" by (simp add: REQUIRED_TOOL_KEYS_def)
    then show ?thesis by (auto simp: JObj entry_id_def tool_id_def jget_def)
  qed
  from assms rest have "seen' = seen @ [tool_id]" "claimed' = c"
    by (auto simp: JObj check_tool_def tool_id_def [symmetric] names_def [symmetric] Let_def)
  moreover have "list_all passes checks \<longleftrightarrow> ?complete \<and> tool_id \<notin> set seen \<and> contract_error tool = None \<and>
      (jget tool ''provider_exposed'' = JBool True \<longrightarrow> names \<noteq> []) \<and> list_all passes rest"
    using assms rest unfolding JObj check_tool_def json.case Let_def fst_conv snd_conv
      tool_id_def [symmetric] names_def [symmetric] missing_keys_Nil
    by (auto simp: STATUS_PASS_def STATUS_FAIL_def split: option.splits if_splits)
  ultimately show ?thesis
    using pass ids by (auto simp: JObj entry_ok_def names [unfolded JObj])
qed (use assms in \<open>auto simp: check_tool_def entry_ok_def STATUS_FAIL_def STATUS_PASS_def\<close>)

lemma check_tools_pass:
  "list_all passes (check_tools repr_of contract_error index (seen, claimed) ts) \<longleftrightarrow>
     list_all (entry_ok repr_of contract_error) ts \<and>
     distinct (map (entry_id repr_of) ts) \<and> entry_id repr_of ` set ts \<inter> set seen = {} \<and>
     distinct (concat (map (exposed_names repr_of) ts)) \<and>
     set (concat (map (exposed_names repr_of) ts)) \<inter> fst ` set claimed = {}"
proof (induction ts arbitrary: index seen claimed)
  case (Cons t ts)
  obtain checks seen' claimed' where step:
    "check_tool repr_of contract_error index t (seen, claimed) = (checks, seen', claimed')"
    by (metis prod_cases3)
  note pass = check_tool_pass [OF step]
  have unfolded: "check_tools repr_of contract_error index (seen, claimed) (t # ts) =
      checks @ check_tools repr_of contract_error (Suc index) (seen', claimed') ts"
    by (simp add: step)
  show ?case
  proof (cases "entry_ok repr_of contract_error t")
    case True
    with pass have state: "set seen' = insert (entry_id repr_of t) (set seen)"
      "fst ` set claimed' = fst ` set claimed \<union> set (exposed_names repr_of t)" by auto
    show ?thesis
      unfolding unfolded list_all_append Cons.IH using pass True state distinct_provider_names [of repr_of t]
      by auto
  next
    case False
    with pass show ?thesis unfolding unfolded by simp
  qed
qed simp

lemma check_tools_known: "list_all known_status (check_tools repr_of contract_error index st ts)"
proof (induction ts arbitrary: index st)
  case (Cons t ts)
  then show ?case using check_tool_known [of repr_of contract_error index t st]
    by (auto split: prod.split)
qed simp

lemma aggregate_pass:
  assumes "cs \<noteq> []" "list_all known_status cs"
  shows "aggregate_status (map check_status cs) = ''pass'' \<longleftrightarrow> list_all passes cs"
proof -
  have "''fail'' \<notin> check_status ` set cs \<longleftrightarrow> list_all passes cs"
    using assms(2) by (force simp: list_all_iff known_status_def STATUS_PASS_def)
  moreover have "''manual_required'' \<notin> check_status ` set cs"
    using assms(2) by (auto simp: list_all_iff known_status_def)
  moreover have "list_all passes cs \<Longrightarrow> ''pass'' \<in> check_status ` set cs"
    using assms(1) by (cases cs) (auto simp: STATUS_PASS_def)
  ultimately show ?thesis by (auto simp: aggregate_status_def)
qed

text \<open>
  What a passing check of the tool registry means.  The report is pass exactly when there are
  tools, every entry has the required keys, a valid contract and, if it is exposed to providers, a
  name, all identities are different, no two tools (nor one tool twice) share a provider name, and the
  policy rules loaded without an error.
\<close>

theorem registry_check_exact:
  "report_status (check_tool_registry repr_of contract_error policy_report tools) = ''pass'' \<longleftrightarrow>
     tools \<noteq> [] \<and> list_all (entry_ok repr_of contract_error) tools \<and>
     distinct (map (entry_id repr_of) tools) \<and> distinct (concat (map (exposed_names repr_of) tools)) \<and>
     ld_errors policy_report = []"
proof -
  let ?present = "validation_check ''tools_present'' (tools \<noteq> [])
     (if tools \<noteq> [] then ''Found '' @ digits_of (length tools) @ '' tools.'' else ''Registry must contain tools.'')"
  let ?policy = "validation_check ''policy_rules:schema'' (ld_errors policy_report = [])
     (if ld_errors policy_report = [] then ''Policy rules loaded: '' @ digits_of (length (ld_rules policy_report))
      else py_join ''; '' (ld_errors policy_report))"
  let ?checks = "[?present] @ check_tools repr_of contract_error 0 ([], []) tools @ [?policy]"
  have report: "report_status (check_tool_registry repr_of contract_error policy_report tools) =
      aggregate_status (map check_status ?checks)"
    by (simp only: check_tool_registry_def Let_def registry_report.simps)
  have known: "list_all known_status ?checks"
    by (simp only: list_all_append list.pred_inject known_validation_check check_tools_known simp_thms)
  have aggregate: "aggregate_status (map check_status ?checks) = ''pass'' \<longleftrightarrow> list_all passes ?checks"
    by (rule aggregate_pass [OF _ known]) (simp only: append_is_Nil_conv list.distinct simp_thms)
  have "passes ?present \<longleftrightarrow> tools \<noteq> []" "passes ?policy \<longleftrightarrow> ld_errors policy_report = []"
    by (simp_all only: validation_check_status STATUS_PASS_def) simp_all
  then show ?thesis
    unfolding report aggregate list_all_append list.pred_inject check_tools_pass by auto
qed

lemma check_tools_in:
  assumes "JObj tool \<in> set tools"
  shows "\<exists>i st'. set (fst (check_tool repr_of contract_error i (JObj tool) st')) \<subseteq>
    set (check_tools repr_of contract_error index st tools)"
  using assms
proof (induction tools arbitrary: index st)
  case (Cons t ts)
  obtain checks st' where step: "check_tool repr_of contract_error index t st = (checks, st')"
    by (metis surj_pair)
  show ?case
  proof (cases "t = JObj tool")
    case True
    then show ?thesis using step by (intro exI [of _ index] exI [of _ st]) simp
  next
    case False
    with Cons obtain i u where "set (fst (check_tool repr_of contract_error i (JObj tool) u)) \<subseteq>
        set (check_tools repr_of contract_error (Suc index) st' ts)" by fastforce
    with step show ?thesis by (intro exI [of _ i] exI [of _ u]) auto
  qed
qed simp

text \<open>
  An entry whose contract is not valid is reported both as invalid and as valid: the report has
  a failing and a passing check of the same name.
\<close>

theorem invalid_contract_also_passes:
  assumes "JObj tool \<in> set tools" and "dict_get tool ''id'' = Some v" and "contract_error tool = Some message"
  shows "{\<lparr>check_name = py_str repr_of v @ '':schema'', check_status = ''fail'', check_details = message\<rparr>,
      \<lparr>check_name = py_str repr_of v @ '':schema'', check_status = ''pass'',
        check_details = ''Tool contract schema is valid.''\<rparr>}
    \<subseteq> set (report_checks (check_tool_registry repr_of contract_error policy_report tools))"
proof -
  obtain i st where within: "set (fst (check_tool repr_of contract_error i (JObj tool) st)) \<subseteq>
      set (check_tools repr_of contract_error 0 ([], []) tools)"
    using check_tools_in [OF assms(1)] by blast
  have "{\<lparr>check_name = py_str repr_of v @ '':schema'', check_status = STATUS_FAIL, check_details = message\<rparr>,
      \<lparr>check_name = py_str repr_of v @ '':schema'', check_status = STATUS_PASS,
        check_details = ''Tool contract schema is valid.''\<rparr>}
    \<subseteq> set (fst (check_tool repr_of contract_error i (JObj tool) st))"
    unfolding check_tool_def json.case Let_def assms(2,3) option.case by (simp split: prod.split)
  with within show ?thesis
    unfolding check_tool_registry_def Let_def by (auto simp: STATUS_FAIL_def STATUS_PASS_def)
qed

section \<open>Witnesses\<close>

definition sample_tool_harness :: tool_harness where
  "sample_tool_harness = \<lparr>th_run_id = ''r1'', th_policy_mode = POLICY_ENFORCE,
     th_contracts = [(''drop_all'', \<lparr>contract_id = ''drop_all'', contract_risk_tier = ''destructive''\<rparr>)],
     th_events = []\<rparr>"

definition sample_harness_env :: harness_env where
  "sample_harness_env = \<lparr>he_stamp = (\<lambda>n. ''t''), he_schema_message = (\<lambda>e. ''invalid''), he_rules = [],
     he_loads = (\<lambda>s. None)\<rparr>"

theorem tool_call_recorded_witness:
  "fst (call_tool sample_harness_env ''drop_all'' (\<lambda>c. (Inr (), c + 1)) [] [] None
      (sample_tool_harness, 0 :: int)) =
     Inl (exc ''ToolBlockedError'' ''drop_all is blocked by risk tier destructive.'') \<and>
   snd (snd (call_tool sample_harness_env ''drop_all'' (\<lambda>c. (Inr (), c + 1)) [] [] None
      (sample_tool_harness, 0 :: int))) = 0"
proof -
  have h: "harness_ok sample_tool_harness"
    by (simp add: sample_tool_harness_def harness_ok_def contract_ok_def)
  have k: "dict_get (th_contracts sample_tool_harness) ''drop_all'' =
      Some \<lparr>contract_id = ''drop_all'', contract_risk_tier = ''destructive''\<rparr>"
    by (simp add: sample_tool_harness_def)
  show ?thesis
    using tool_call_recorded [OF h k, where env = sample_harness_env and func = "\<lambda>c. (Inr (), c + 1)"
        and input_refs = "[]" and output_refs = "[]" and policy_text = None and c = "0 :: int"]
    by (auto simp: block_reason_def sample_tool_harness_def BLOCKED_RISK_TIERS_def split: prod.splits)
qed

theorem invalid_contract_also_passes_witness:
  "{\<lparr>check_name = ''t:schema'', check_status = ''fail'', check_details = ''bad''\<rparr>,
    \<lparr>check_name = ''t:schema'', check_status = ''pass'', check_details = ''Tool contract schema is valid.''\<rparr>}
   \<subseteq> set (report_checks (check_tool_registry (\<lambda>v. []) (\<lambda>tool. Some ''bad'')
       \<lparr>ld_rules = [], ld_seen = [], ld_errors = []\<rparr> [JObj [(''id'', JStr ''t'')]]))"
  using invalid_contract_also_passes [of "[(''id'', JStr ''t'')]" "[JObj [(''id'', JStr ''t'')]]" "JStr ''t''"
      "\<lambda>tool. Some ''bad''" "''bad''" "\<lambda>v. []" "\<lparr>ld_rules = [], ld_seen = [], ld_errors = []\<rparr>"]
  by (simp add: py_str_def)

end
