(* ===== verification/Agent_Loop.thy ===== *)
theory Agent_Loop
  imports Tool_Runtime Server_Policy
begin

text \<open>
  The bounded scout loop (\<open>server/agent_loop.py\<close>): a model is asked again and again, the tools it
  calls are checked and run, and budgets bound the iterations, the tool calls, the tokens and the
  time.  Arguments stand for the model client (what a request streams, and the exception that ends
  the stream, if any), the clock (by the number of times it has been read), running a tool, the check
  of its arguments, the compact form of its output, and the texts of JSON and of floats.
\<close>

section \<open>Data\<close>

record agent_budget =
  max_iterations :: int
  max_tool_calls :: int
  max_tokens :: int
  max_runtime_seconds :: rat

definition default_agent_budget :: agent_budget where
  "default_agent_budget = \<lparr>max_iterations = 4, max_tool_calls = 4, max_tokens = 8000,
     max_runtime_seconds = 30\<rparr>"

record agent_tool_result =
  tr_tool_name :: string
  tr_status :: string
  tr_output :: "json dict option"
  tr_error :: "string option"

record agent_result =
  ar_status :: string
  ar_response_text :: string
  ar_tool_results :: "agent_tool_result list"
  ar_events :: "json dict list"
  ar_iterations :: int
  ar_tool_calls :: int
  ar_input_tokens :: int
  ar_output_tokens :: int
  ar_blocked_reason :: "string option"
  ar_budget_exhausted :: "string option"

record client_event =
  ce_type :: string
  ce_text :: "string option"
  ce_tool_name :: "string option"
  ce_arguments :: "json dict option"
  ce_input_tokens :: int
  ce_output_tokens :: int

type_synonym chat_messages = "(string \<times> string) list"

record 'c agent_env =
  ae_harness :: harness_env
  ae_budget :: agent_budget
  ae_model :: string
  ae_stream :: "nat \<Rightarrow> chat_messages \<Rightarrow> client_event list \<times> py_exc option"
  ae_clock :: "nat \<Rightarrow> rat"
  ae_validate :: "string \<Rightarrow> json dict \<Rightarrow> string option"
  ae_execute :: "string \<Rightarrow> json dict \<Rightarrow> ('c, json dict) comp"
  ae_compact :: "json dict \<Rightarrow> json dict"
  ae_dumps :: "json dict \<Rightarrow> string"
  ae_float_text :: "rat \<Rightarrow> string"

text \<open>The variables of \<open>run\<close>, the harness and the context of the tools.\<close>

record 'c agent_state =
  ag_harness :: tool_harness
  ag_context :: 'c
  ag_conversation :: chat_messages
  ag_chunks :: "string list"
  ag_results :: "agent_tool_result list"
  ag_input :: int
  ag_output :: int
  ag_calls :: int
  ag_iterations :: int
  ag_ticks :: nat

section \<open>Recording\<close>

text \<open>A computation on the harness, and one on the harness and the context, as one on the state.\<close>

definition with_harness :: "(tool_harness, 'a) comp \<Rightarrow> ('c agent_state, 'a) comp" where
  "with_harness m = (\<lambda>s. case m (ag_harness s) of (r, h) \<Rightarrow> (r, s\<lparr>ag_harness := h\<rparr>))"

definition with_tools :: "(tool_harness \<times> 'c, 'a) comp \<Rightarrow> ('c agent_state, 'a) comp" where
  "with_tools m = (\<lambda>s. case m (ag_harness s, ag_context s) of
      (r, (h, c)) \<Rightarrow> (r, s\<lparr>ag_harness := h, ag_context := c\<rparr>))"

definition record_scout :: "'c agent_env \<Rightarrow> string \<Rightarrow> json dict \<Rightarrow> ('c agent_state, json dict) comp" where
  "record_scout env event_type extra =
     with_harness (record_event (ae_harness env) event_type
       (dict_merge [(''workflow'', JStr ''bounded_agent_loop''), (''stage'', JStr ''bounded_scout''),
          (''agent_role'', JStr ''bounded_scout_runner''), (''model'', JStr (ae_model env))] extra))"

definition record_event_pair ::
  "'c agent_env \<Rightarrow> string \<Rightarrow> string \<Rightarrow> json dict \<Rightarrow> json dict \<Rightarrow> json dict \<Rightarrow> ('c agent_state, unit) comp" where
  "record_event_pair env first second primary secondary shared =
     thenx (record_scout env first (shared @ primary))
       (thenx (record_scout env second (shared @ secondary)) (returnx ()))"

definition record_budget_block :: "'c agent_env \<Rightarrow> string \<Rightarrow> ('c agent_state, unit) comp" where
  "record_budget_block env reason =
     thenx (record_scout env ''guardrail.blocked''
       [(''status'', JStr STATUS_BLOCKED), (''failure_class'', JStr FAILURE_UNKNOWN),
        (''label'', JStr ''agent_loop_budget''), (''input_summary'', JStr reason)]) (returnx ())"

definition record_llm_completed ::
  "'c agent_env \<Rightarrow> nat \<Rightarrow> string \<Rightarrow> string option \<Rightarrow> py_exc option \<Rightarrow> ('c agent_state, unit) comp" where
  "record_llm_completed env attempt status failure_class err = (\<lambda>s.
     let failure = (if failure_class = None \<and> status = STATUS_BLOCKED
           then Some FAILURE_POLICY_VIOLATION else failure_class)
     in record_event_pair env ''agent_loop.llm_completed'' ''llm.completed''
          [(''iteration'', JInt (int attempt))] [(''attempt'', JInt (int attempt))]
          ([(''status'', JStr status), (''failure_class'', jstr failure)] @ error_field err @
           [(''usage'', JObj [(''input_tokens'', JInt (ag_input s)), (''output_tokens'', JInt (ag_output s))])]) s)"

definition record_tool_checked ::
  "'c agent_env \<Rightarrow> string \<Rightarrow> string \<Rightarrow> string \<Rightarrow> string \<Rightarrow> string option \<Rightarrow> nat \<Rightarrow> ('c agent_state, unit) comp" where
  "record_tool_checked env tool_id risk_tier gate decision reason_code iteration = (\<lambda>s.
     thenx (record_scout env ''agent_loop.tool_checked''
       [(''tool_id'', JStr tool_id), (''risk_tier'', JStr risk_tier), (''gate'', JStr gate),
        (''decision'', JStr decision), (''reason_code'', jstr reason_code),
        (''iteration'', JInt (int iteration)), (''tool_call_count'', JInt (ag_calls s)),
        (''budget_exhausted'', JBool False),
        (''status'', JStr (if decision = ''blocked'' then STATUS_BLOCKED else STATUS_PASS))])
       (returnx ()) s)"

section \<open>Budgets\<close>

text \<open>\<open>_budget_exhausted\<close>; the clock was first read when the run started.\<close>

definition budget_exhausted :: "'c agent_env \<Rightarrow> ('c agent_state, string option) comp" where
  "budget_exhausted env = (\<lambda>s.
     let b = ae_budget env;
         timed = (max_runtime_seconds b \<ge> 0);
         late = (timed \<and> ae_clock env (ag_ticks s) - ae_clock env 0 \<ge> max_runtime_seconds b);
         s' = (if timed then s\<lparr>ag_ticks := ag_ticks s + 1\<rparr> else s)
     in (Inr (if late then Some (''max_runtime_seconds budget exhausted ('' @
                ae_float_text env (max_runtime_seconds b) @ '')'')
              else if max_tokens b \<ge> 0 \<and> ag_input s + ag_output s \<ge> max_tokens b
              then Some (''max_tokens budget exhausted ('' @ show_int (max_tokens b) @ '')'')
              else None), s'))"

section \<open>Tools\<close>

definition result_of :: "string \<Rightarrow> string \<Rightarrow> json dict option \<Rightarrow> string option \<Rightarrow> agent_tool_result" where
  "result_of name status output err =
     \<lparr>tr_tool_name = name, tr_status = status, tr_output = output, tr_error = err\<rparr>"

text \<open>\<open>str(exc) or type(exc).__name__\<close>.\<close>

definition exc_text :: "py_exc \<Rightarrow> string" where
  "exc_text e = (if exc_message e = [] then exc_type e else exc_message e)"

definition blocked_tool ::
  "'c agent_env \<Rightarrow> string \<Rightarrow> string \<Rightarrow> string \<Rightarrow> string \<Rightarrow> ('c agent_state, agent_tool_result) comp" where
  "blocked_tool env name risk_tier reason failure_class =
     thenx (with_harness (record_blocked_tool (ae_harness env) name reason (Some risk_tier) [] [] failure_class))
       (returnx (result_of name ''blocked'' None (Some reason)))"

definition run_tool ::
  "'c agent_env \<Rightarrow> string \<Rightarrow> json dict \<Rightarrow> ('c agent_state, agent_tool_result) comp" where
  "run_tool env name arguments =
     catchx (bindx (with_tools (call_tool (ae_harness env) name (ae_execute env name arguments) [] [] None))
         (\<lambda>output. returnx (result_of name ''completed'' (Some (ae_compact env output)) None)))
       (\<lambda>e. returnx (if exc_type e = ''ToolBlockedError''
          then result_of name ''blocked'' None (Some (exc_message e))
          else result_of name ''failed'' None (Some (exc_text e))))"

definition tool_name_of :: "client_event \<Rightarrow> string" where
  "tool_name_of event = or_str (ce_tool_name event) ''unknown''"

definition arguments_of :: "client_event \<Rightarrow> json dict" where
  "arguments_of event = (case ce_arguments event of None \<Rightarrow> [] | Some a \<Rightarrow> a)"

definition risk_tier_of :: "tool_harness \<Rightarrow> string \<Rightarrow> string" where
  "risk_tier_of h name = (case dict_get (th_contracts h) name of
      None \<Rightarrow> ''unknown'' | Some c \<Rightarrow> contract_risk_tier c)"

definition execute_tool_event ::
  "'c agent_env \<Rightarrow> client_event \<Rightarrow> nat \<Rightarrow> ('c agent_state, agent_tool_result) comp" where
  "execute_tool_event env event iteration = (\<lambda>s.
     let name = tool_name_of event;
         arguments = arguments_of event;
         risk_tier = risk_tier_of (ag_harness s) name;
         decision = evaluate_agent_loop_tool_policy name (Some risk_tier);
         finding = blocked_finding decision
     in thenx (record_tool_checked env name risk_tier ''policy''
            (if pd_allowed decision then ''allowed'' else ''blocked'')
            (map_option pfd_code finding) iteration)
          (if \<not> pd_allowed decision
           then blocked_tool env name risk_tier
             (case finding of None \<Rightarrow> ''Tool is blocked.'' | Some f \<Rightarrow> pfd_message f)
             FAILURE_POLICY_VIOLATION
           else case ae_validate env name arguments of
               Some err \<Rightarrow>
                 if err \<noteq> []
                 then thenx (record_tool_checked env name risk_tier ''schema'' ''blocked''
                        (Some ''schema_invalid'') iteration)
                      (blocked_tool env name risk_tier err FAILURE_SCHEMA_INVALID)
                 else run_tool env name arguments
             | None \<Rightarrow> run_tool env name arguments) s)"

section \<open>The loop\<close>

definition finish ::
  "'c agent_env \<Rightarrow> nat \<Rightarrow> string \<Rightarrow> string option \<Rightarrow> string option \<Rightarrow> ('c agent_state, agent_result) comp" where
  "finish env start status blocked_reason budget_reason = (\<lambda>s.
     bindx (record_event_pair env ''agent_loop.completed'' ''agent.completed''
         [(''iteration'', JInt (ag_iterations s)), (''tool_call_count'', JInt (ag_calls s)),
          (''budget_exhausted'', jstr budget_reason)] []
         [(''status'', JStr (if status = ''completed'' then STATUS_PASS else STATUS_BLOCKED)),
          (''failure_class'', if status \<noteq> ''completed'' then JStr FAILURE_UNKNOWN else JNull),
          (''output_summary'', case blocked_reason of
             Some r \<Rightarrow> if r = [] then jstr budget_reason else JStr r
           | None \<Rightarrow> jstr budget_reason)])
       (\<lambda>_ t. (Inr \<lparr>ar_status = status, ar_response_text = concat (ag_chunks t),
           ar_tool_results = ag_results t, ar_events = drop start (th_events (ag_harness t)),
           ar_iterations = ag_iterations t, ar_tool_calls = ag_calls t,
           ar_input_tokens = ag_input t, ar_output_tokens = ag_output t,
           ar_blocked_reason = blocked_reason, ar_budget_exhausted = budget_reason\<rparr>, t)) s)"

text \<open>
  One event of the stream.  The answer is \<open>Some\<close> the result of the run when the code returns from the
  loop, and \<open>None\<close> when it goes on; a tool call sets \<open>saw_tool_call\<close>, which is in the other part.
\<close>

definition usage_event ::
  "'c agent_env \<Rightarrow> nat \<Rightarrow> nat \<Rightarrow> client_event \<Rightarrow> ('c agent_state, agent_result option) comp" where
  "usage_event env start attempt event = (\<lambda>s.
     bindx (budget_exhausted env) (\<lambda>reason.
       case reason of
         None \<Rightarrow> returnx None
       | Some r \<Rightarrow>
           thenx (record_budget_block env r)
             (thenx (record_llm_completed env attempt STATUS_BLOCKED None None)
               (bindx (finish env start ''partial'' None (Some r)) (\<lambda>x. returnx (Some x)))))
     (s\<lparr>ag_input := ag_input s + ce_input_tokens event,
        ag_output := ag_output s + ce_output_tokens event\<rparr>))"

definition tool_event ::
  "'c agent_env \<Rightarrow> nat \<Rightarrow> nat \<Rightarrow> client_event \<Rightarrow> ('c agent_state, agent_result option) comp" where
  "tool_event env start attempt event = (\<lambda>s.
     if ag_calls s \<ge> max_tool_calls (ae_budget env) then
       (let r = ''max_tool_calls budget exhausted ('' @ show_int (max_tool_calls (ae_budget env)) @ '')''
        in thenx (record_budget_block env r)
             (thenx (record_llm_completed env attempt STATUS_BLOCKED None None)
               (bindx (finish env start ''blocked'' (Some r) (Some r)) (\<lambda>x. returnx (Some x)))) s)
     else
       bindx (execute_tool_event env event attempt) (\<lambda>result t.
         let t' = t\<lparr>ag_results := ag_results t @ [result]\<rparr>
         in if tr_status result = ''blocked'' then
              thenx (record_llm_completed env attempt STATUS_BLOCKED None None)
                (bindx (finish env start ''blocked'' (tr_error result) None) (\<lambda>x. returnx (Some x))) t'
            else if tr_status result = ''failed'' then
              thenx (record_llm_completed env attempt STATUS_FAIL None None)
                (bindx (finish env start ''partial'' (tr_error result) None) (\<lambda>x. returnx (Some x))) t'
            else (case tr_output result of
                None \<Rightarrow> (Inr None, t')
              | Some output \<Rightarrow> (Inr None, t'\<lparr>ag_conversation := ag_conversation t' @
                    [(''assistant'', ''Tool '' @ tr_tool_name result @ '' returned: '' @ ae_dumps env output)]\<rparr>)))
         (s\<lparr>ag_calls := ag_calls s + 1\<rparr>))"

fun stream_loop ::
  "'c agent_env \<Rightarrow> nat \<Rightarrow> nat \<Rightarrow> py_exc option \<Rightarrow> bool \<Rightarrow> client_event list
    \<Rightarrow> ('c agent_state, agent_result option \<times> bool) comp" where
  "stream_loop env start attempt broken saw [] =
     (case broken of None \<Rightarrow> returnx (None, saw) | Some e \<Rightarrow> raisex e)"
| "stream_loop env start attempt broken saw (event # events) =
     (if ce_type event = ''usage'' then
        bindx (usage_event env start attempt event) (\<lambda>r.
          case r of Some x \<Rightarrow> returnx (Some x, saw)
          | None \<Rightarrow> stream_loop env start attempt broken saw events)
      else if ce_type event = ''message.delta'' \<and> ce_text event \<notin> {None, Some []} then
        (\<lambda>s. stream_loop env start attempt broken saw events
          (s\<lparr>ag_chunks := ag_chunks s @ [the (ce_text event)]\<rparr>))
      else if ce_type event \<noteq> ''tool.call'' then
        stream_loop env start attempt broken saw events
      else
        bindx (tool_event env start attempt event) (\<lambda>r.
          case r of Some x \<Rightarrow> returnx (Some x, True)
          | None \<Rightarrow> stream_loop env start attempt broken True events))"

text \<open>One iteration: the request, its stream, and what follows it; \<open>None\<close> asks for another.\<close>

definition iteration ::
  "'c agent_env \<Rightarrow> nat \<Rightarrow> nat \<Rightarrow> ('c agent_state, agent_result option) comp" where
  "iteration env start attempt = (\<lambda>s.
     thenx (with_harness (record_event (ae_harness env) ''llm.started''
         [(''workflow'', JStr ''bounded_agent_loop''), (''stage'', JStr ''bounded_scout''),
          (''model'', JStr (ae_model env)), (''attempt'', JInt (int attempt)),
          (''status'', JStr STATUS_STARTED)]))
       (bindx
         (catchx
           (\<lambda>t. let (events, broken) = ae_stream env attempt (ag_conversation t)
                in stream_loop env start attempt broken False events t)
           (\<lambda>e. thenx (record_llm_completed env attempt STATUS_FAIL (Some FAILURE_PROVIDER_ERROR)
                  (Some (exc (exc_type e) (exc_text e))))
                (bindx (finish env start ''partial'' (Some (exc_text e)) None)
                  (\<lambda>x. returnx (Some x, True)))))
         (\<lambda>(r, saw).
           case r of
             Some x \<Rightarrow> returnx (Some x)
           | None \<Rightarrow>
               thenx (record_llm_completed env attempt STATUS_PASS None None)
                 (if \<not> saw
                  then bindx (finish env start ''completed'' None None) (\<lambda>x. returnx (Some x))
                  else bindx (budget_exhausted env) (\<lambda>reason.
                    case reason of
                      None \<Rightarrow> returnx None
                    | Some b \<Rightarrow> thenx (record_budget_block env b)
                        (bindx (finish env start ''partial'' None (Some b)) (\<lambda>x. returnx (Some x)))))))
     (s\<lparr>ag_iterations := int attempt\<rparr>))"

fun iterations_loop ::
  "'c agent_env \<Rightarrow> nat \<Rightarrow> nat list \<Rightarrow> ('c agent_state, agent_result) comp" where
  "iterations_loop env start [] =
     (let r = ''max_iterations budget exhausted ('' @ show_int (max_iterations (ae_budget env)) @ '')''
      in thenx (record_budget_block env r) (finish env start ''partial'' None (Some r)))"
| "iterations_loop env start (attempt # attempts) =
     bindx (iteration env start attempt) (\<lambda>r.
       case r of Some x \<Rightarrow> returnx x | None \<Rightarrow> iterations_loop env start attempts)"

definition start_state :: "tool_harness \<Rightarrow> 'c \<Rightarrow> chat_messages \<Rightarrow> 'c agent_state" where
  "start_state h c msgs = \<lparr>ag_harness = h, ag_context = c, ag_conversation = msgs, ag_chunks = [],
     ag_results = [], ag_input = 0, ag_output = 0, ag_calls = 0, ag_iterations = 0, ag_ticks = 1\<rparr>"

definition run_agent ::
  "'c agent_env \<Rightarrow> chat_messages \<Rightarrow> (tool_harness \<times> 'c, agent_result) comp" where
  "run_agent env msgs = (\<lambda>(h, c).
     let start = length (th_events h);
         attempts = [1..<Suc (nat (max (max_iterations (ae_budget env)) 0))]
     in case thenx (record_event_pair env ''agent_loop.started'' ''agent.started''
              [(''iteration'', JInt 0), (''tool_call_count'', JInt 0)] []
              [(''status'', JStr STATUS_STARTED)])
            (bindx (budget_exhausted env) (\<lambda>reason.
              case reason of
                Some r \<Rightarrow> thenx (record_budget_block env r) (finish env start ''partial'' None (Some r))
              | None \<Rightarrow> iterations_loop env start attempts))
            (start_state h c msgs)
       of (r, s) \<Rightarrow> (r, (ag_harness s, ag_context s)))"

end
