(* ===== verification/Agent_Laws.thy ===== *)
theory Agent_Laws
  imports Agent_Loop Tool_Laws
begin

text \<open>
  The laws of the scout loop: what holds of its variables between two events of the stream, and of
  the result when it ends.  A run never raises, so every triple here ends in \<open>never\<close> except those of
  the stream, which may break off.
\<close>

section \<open>The trace of a run\<close>

definition opened :: "json dict list \<Rightarrow> bool" where
  "opened es \<longleftrightarrow> take 2 (map event_type_of es) = [JStr ''agent_loop.started'', JStr ''agent.started'']"

definition closed :: "json dict list \<Rightarrow> bool" where
  "closed es \<longleftrightarrow> drop (length es - 2) (map event_type_of es) =
     [JStr ''agent_loop.completed'', JStr ''agent.completed'']"

lemma opened_append: "opened es \<Longrightarrow> opened (es @ fs)"
  by (cases es rule: list.exhaust; cases "tl es" rule: list.exhaust) (auto simp: opened_def)

lemma closed_append:
  "event_type_of e = JStr ''agent_loop.completed'' \<Longrightarrow> event_type_of f = JStr ''agent.completed'' \<Longrightarrow>
     closed (es @ [e, f])"
  by (simp add: closed_def)

definition traced :: "tool_harness \<Rightarrow> tool_harness \<Rightarrow> bool" where
  "traced h0 h \<longleftrightarrow> (\<exists>es. h = with_events es h0 \<and> trace_numbered (length (th_events h0)) es \<and> opened es)"

lemma traced_append:
  assumes "traced h0 h" "trace_numbered (length (th_events h)) fs"
  shows "traced h0 (with_events fs h)"
proof -
  obtain es where es: "h = with_events es h0" "trace_numbered (length (th_events h0)) es" "opened es"
    using assms(1) by (auto simp: traced_def)
  then have "trace_numbered (length (th_events h0)) (es @ fs)" "opened (es @ fs)"
    using assms(2) by (simp_all add: opened_append)
  with es(1) show ?thesis by (auto simp: traced_def)
qed

text \<open>The invariant: \<open>R\<close> is what holds of the other variables.\<close>

definition loop_inv :: "tool_harness \<Rightarrow> ('c agent_state \<Rightarrow> bool) \<Rightarrow> 'c agent_state \<Rightarrow> bool" where
  "loop_inv h0 R s \<longleftrightarrow> harness_ok h0 \<and> traced h0 (ag_harness s) \<and> R (s\<lparr>ag_harness := h0\<rparr>)"

lemma loop_inv_harness: "loop_inv h0 R s \<Longrightarrow> harness_ok (ag_harness s)"
  by (auto simp: loop_inv_def traced_def)

lemma loop_inv_config:
  "loop_inv h0 R s \<Longrightarrow> th_contracts (ag_harness s) = th_contracts h0 \<and>
     th_policy_mode (ag_harness s) = th_policy_mode h0"
  by (auto simp: loop_inv_def traced_def)

lemma loop_inv_append:
  "loop_inv h0 R s \<Longrightarrow> trace_numbered (length (th_events (ag_harness s))) es \<Longrightarrow>
     loop_inv h0 R (s\<lparr>ag_harness := with_events es (ag_harness s)\<rparr>)"
  by (simp add: loop_inv_def traced_append)

lemma loop_inv_weaken: "loop_inv h0 R s \<Longrightarrow> (\<And>t. R t \<Longrightarrow> R' t) \<Longrightarrow> loop_inv h0 R' s"
  by (simp add: loop_inv_def)

section \<open>Recording\<close>

lemma event_types_known:
  "''agent_loop.started'' \<in> set schema_event_types" "''agent.started'' \<in> set schema_event_types"
  "''agent_loop.completed'' \<in> set schema_event_types" "''agent.completed'' \<in> set schema_event_types"
  "''agent_loop.llm_completed'' \<in> set schema_event_types" "''llm.completed'' \<in> set schema_event_types"
  "''llm.started'' \<in> set schema_event_types" "''guardrail.blocked'' \<in> set schema_event_types"
  "''agent_loop.tool_checked'' \<in> set schema_event_types"
  by (simp_all add: schema_event_types_def)

lemma constants_known [field_rules]:
  "STATUS_STARTED \<in> set EVENT_STATUSES" "STATUS_PASS \<in> set EVENT_STATUSES"
  "STATUS_FAIL \<in> set EVENT_STATUSES" "STATUS_BLOCKED \<in> set EVENT_STATUSES"
  "FAILURE_UNKNOWN \<in> set schema_failure_classes"
  "FAILURE_POLICY_VIOLATION \<in> set schema_failure_classes"
  "FAILURE_PROVIDER_ERROR \<in> set schema_failure_classes"
  by (simp_all add: EVENT_STATUSES_def schema_failure_classes_def STATUS_STARTED_def STATUS_PASS_def
      STATUS_FAIL_def STATUS_BLOCKED_def FAILURE_UNKNOWN_def FAILURE_POLICY_VIOLATION_def
      FAILURE_PROVIDER_ERROR_def)

lemma more_fields [field_rules]:
  "field_ok ''usage'' (JObj d)" "field_ok ''budget_exhausted'' (JBool b)"
  "field_ok ''budget_exhausted'' (JStr r)"
  by (simp_all add: field_ok_def schema_text_fields_def)

lemma extra_ok_append [simp]: "extra_ok (xs @ ys) \<longleftrightarrow> extra_ok xs \<and> extra_ok ys"
  by (simp add: extra_ok_def)

lemma extra_ok_Nil [simp]: "extra_ok []"
  by (simp add: extra_ok_def)

lemma extra_ok_merge:
  assumes "extra_ok xs" "extra_ok ys"
  shows "extra_ok (dict_merge xs ys)"
  using assms unfolding extra_ok_def list_all_iff by (metis dict_merge_in)

lemma extra_ok_error_field [simp]: "extra_ok (error_field e)"
  by (simp add: extra_ok_def error_field_def field_rules split: option.split)

lemma extra_ok_scout:
  "extra_ok [(''workflow'', JStr ''bounded_agent_loop''), (''stage'', JStr ''bounded_scout''),
     (''agent_role'', JStr ''bounded_scout_runner''), (''model'', JStr m)]"
  by (simp add: extra_ok_def field_rules)

lemma record_scout_appends:
  assumes "harness_ok (ag_harness s)" "event_type \<in> set schema_event_types" "extra_ok extra"
  obtains e where
    "record_scout env event_type extra s = (Inr e, s\<lparr>ag_harness := with_events [e] (ag_harness s)\<rparr>)"
    "trace_numbered (length (th_events (ag_harness s))) [e]" "event_type_of e = JStr event_type"
proof -
  obtain e where
    "record_event (ae_harness env) event_type
       (dict_merge [(''workflow'', JStr ''bounded_agent_loop''), (''stage'', JStr ''bounded_scout''),
          (''agent_role'', JStr ''bounded_scout_runner''), (''model'', JStr (ae_model env))] extra)
       (ag_harness s) = (Inr e, with_events [e] (ag_harness s))"
    "trace_numbered (length (th_events (ag_harness s))) [e]" "event_type_of e = JStr event_type"
    by (rule record_event_appends [OF assms(1,2) extra_ok_merge [OF extra_ok_scout assms(3)]])
  then show ?thesis
    by (intro that [of e]) (simp_all only: record_scout_def with_harness_def prod.case)
qed

lemma record_scout_keeps:
  assumes "event_type \<in> set schema_event_types" "extra_ok extra"
  shows "triple (loop_inv h0 R) (record_scout env event_type extra) (\<lambda>_. loop_inv h0 R) never"
  unfolding triple_def
proof (intro allI impI)
  fix s assume s: "loop_inv h0 R s"
  obtain e where e:
    "record_scout env event_type extra s = (Inr e, s\<lparr>ag_harness := with_events [e] (ag_harness s)\<rparr>)"
    "trace_numbered (length (th_events (ag_harness s))) [e]"
    by (rule record_scout_appends [OF loop_inv_harness [OF s] assms])
  then show "case record_scout env event_type extra s of (Inl e, t) \<Rightarrow> False | (Inr x, t) \<Rightarrow> loop_inv h0 R t"
    using loop_inv_append [OF s e(2)] by simp
qed

lemma record_event_pair_appends:
  assumes h: "harness_ok (ag_harness s)"
    and t: "first \<in> set schema_event_types" "second \<in> set schema_event_types"
    and x: "extra_ok primary" "extra_ok secondary" "extra_ok shared"
  obtains e f where
    "record_event_pair env first second primary secondary shared s =
       (Inr (), s\<lparr>ag_harness := with_events [e, f] (ag_harness s)\<rparr>)"
    "trace_numbered (length (th_events (ag_harness s))) [e, f]"
    "event_type_of e = JStr first" "event_type_of f = JStr second"
proof -
  have x1: "extra_ok (shared @ primary)" and x2: "extra_ok (shared @ secondary)" using x by simp_all
  obtain e where e: "record_scout env first (shared @ primary) s =
      (Inr e, s\<lparr>ag_harness := with_events [e] (ag_harness s)\<rparr>)"
    "trace_numbered (length (th_events (ag_harness s))) [e]" "event_type_of e = JStr first"
    by (rule record_scout_appends [OF h t(1) x1])
  let ?s = "s\<lparr>ag_harness := with_events [e] (ag_harness s)\<rparr>"
  have hs: "harness_ok (ag_harness ?s)" using h by simp
  obtain f where f: "record_scout env second (shared @ secondary) ?s =
      (Inr f, ?s\<lparr>ag_harness := with_events [f] (ag_harness ?s)\<rparr>)"
    "trace_numbered (length (th_events (ag_harness ?s))) [f]" "event_type_of f = JStr second"
    by (rule record_scout_appends [OF hs t(2) x2])
  from e f show ?thesis
    by (intro that [of e f]) (simp_all add: record_event_pair_def comp_defs)
qed

lemma record_event_pair_keeps:
  assumes "first \<in> set schema_event_types" "second \<in> set schema_event_types"
    "extra_ok primary" "extra_ok secondary" "extra_ok shared"
  shows "triple (loop_inv h0 R) (record_event_pair env first second primary secondary shared)
    (\<lambda>_. loop_inv h0 R) never"
  unfolding record_event_pair_def
  by (intro triples record_scout_keeps) (simp_all add: assms)

lemma record_budget_block_keeps [triples]:
  "triple (loop_inv h0 R) (record_budget_block env r) (\<lambda>_. loop_inv h0 R) never"
  unfolding record_budget_block_def
  by (intro triples record_scout_keeps) (simp_all add: event_types_known extra_ok_def field_rules)

lemma record_llm_completed_keeps [triples]:
  assumes "0 < attempt" "status \<in> set EVENT_STATUSES"
    "\<And>f. failure_class = Some f \<Longrightarrow> f \<in> set schema_failure_classes"
  shows "triple (loop_inv h0 R) (record_llm_completed env attempt status failure_class err) (\<lambda>_. loop_inv h0 R) never"
proof -
  let ?failure = "if failure_class = None \<and> status = STATUS_BLOCKED
     then Some FAILURE_POLICY_VIOLATION else failure_class"
  let ?usage = "\<lambda>s. (''usage'', JObj [(''input_tokens'', JInt (ag_input s)), (''output_tokens'', JInt (ag_output s))])"
  let ?m = "\<lambda>s. record_event_pair env ''agent_loop.llm_completed'' ''llm.completed''
     [(''iteration'', JInt (int attempt))] [(''attempt'', JInt (int attempt))]
     ([(''status'', JStr status), (''failure_class'', jstr ?failure)] @ error_field err @ [?usage s])"
  have "extra_ok [(''status'', JStr status), (''failure_class'', jstr ?failure)]"
    using assms by (auto simp: extra_ok_def field_rules jstr_def split: option.split)
  moreover have "extra_ok [?usage s]" for s :: "'a agent_state"
    by (simp add: extra_ok_def field_rules)
  ultimately have shared: "extra_ok ([(''status'', JStr status), (''failure_class'', jstr ?failure)] @
      error_field err @ [?usage s])" for s :: "'a agent_state"
    by (simp only: extra_ok_append extra_ok_error_field)
  have "extra_ok [(''iteration'', JInt (int attempt))]" "extra_ok [(''attempt'', JInt (int attempt))]"
    using assms(1) by (simp_all add: extra_ok_def field_rules)
  note keeps = record_event_pair_keeps [OF event_types_known(5,6) this shared]
  show ?thesis
    unfolding record_llm_completed_def Let_def
    by (rule triple_at [of _ ?m, OF keeps])
qed

lemma record_tool_checked_keeps:
  assumes "tool_id \<noteq> []" "risk_tier \<noteq> []" "\<And>s. R s \<Longrightarrow> 0 \<le> ag_calls s"
  shows "triple (loop_inv h0 R) (record_tool_checked env tool_id risk_tier gate decision reason attempt)
    (\<lambda>_. loop_inv h0 R) never"
proof -
  let ?m = "\<lambda>s. thenx (record_scout env ''agent_loop.tool_checked''
       [(''tool_id'', JStr tool_id), (''risk_tier'', JStr risk_tier), (''gate'', JStr gate),
        (''decision'', JStr decision), (''reason_code'', jstr reason),
        (''iteration'', JInt (int attempt)), (''tool_call_count'', JInt (ag_calls s)),
        (''budget_exhausted'', JBool False),
        (''status'', JStr (if decision = ''blocked'' then STATUS_BLOCKED else STATUS_PASS))])
       (returnx ())"
  have keeps: "triple (loop_inv h0 R) (?m s) (\<lambda>_. loop_inv h0 R) never" if s: "loop_inv h0 R s" for s
  proof -
    have "0 \<le> ag_calls s" using assms(3) [of "s\<lparr>ag_harness := h0\<rparr>"] s by (simp add: loop_inv_def)
    then show ?thesis
      using assms(1,2)
      by (intro triples record_scout_keeps)
        (auto simp: event_types_known extra_ok_def field_rules jstr_def split: option.split)
  qed
  show ?thesis
    unfolding record_tool_checked_def
    by (rule triple_at [of _ ?m, OF keeps])
qed

end
