(* ===== verification/Agent_Runs.thy ===== *)
theory Agent_Runs
  imports Agent_Laws
begin

text \<open>
  The laws of a run of the scout loop, from a tool call to the whole run: which tools are run, what
  the counters say of the results, and how every run ends.
\<close>

section \<open>Tools\<close>

text \<open>
  The calls a run may carry out: of a tool of the registry whose tier is \<open>read\<close>, whose name has none
  of the blocked terms, with arguments the check of the tool accepts.
\<close>

definition permitted :: "'c agent_env \<Rightarrow> tool_harness \<Rightarrow> string \<Rightarrow> json dict \<Rightarrow> bool" where
  "permitted env h name arguments \<longleftrightarrow>
     (case dict_get (th_contracts h) name of
        None \<Rightarrow> False
      | Some contract \<Rightarrow> normalized_risk_tier (Some (contract_risk_tier contract)) = ''read'') \<and>
     \<not> list_ex (\<lambda>term. has_sub term (normalized_tool_id name)) AGENT_LOOP_BLOCKED_TOOL_TERMS \<and>
     ae_validate env name arguments \<in> {None, Some []}"

text \<open>What a permitted call keeps, if it changes only the context.\<close>

definition kept_by_tools :: "'c agent_env \<Rightarrow> tool_harness \<Rightarrow> ('c agent_state \<Rightarrow> bool) \<Rightarrow> bool" where
  "kept_by_tools env h R \<longleftrightarrow> (\<forall>name arguments s. permitted env h name arguments \<longrightarrow> R s \<longrightarrow>
     R (s\<lparr>ag_context := snd (ae_execute env name arguments (ag_context s))\<rparr>))"

lemma harness_context_swap:
  "s\<lparr>ag_harness := h, ag_context := c\<rparr> = s\<lparr>ag_context := c, ag_harness := h\<rparr>"
  by simp

lemma loop_inv_call:
  assumes s: "loop_inv h0 R s" and R: "kept_by_tools env h0 R"
    and p: "permitted env h0 name arguments"
  obtains r c es where
    "with_tools (call_tool (ae_harness env) name (ae_execute env name arguments) [] [] None) s =
       (r, s\<lparr>ag_harness := with_events es (ag_harness s), ag_context := c\<rparr>)"
    "loop_inv h0 R (s\<lparr>ag_harness := with_events es (ag_harness s), ag_context := c\<rparr>)"
proof -
  let ?h = "ag_harness s"
  from p obtain contract where k: "dict_get (th_contracts ?h) name = Some contract"
    using loop_inv_config [OF s] by (auto simp: permitted_def split: option.splits)
  obtain es where es:
    "call_tool (ae_harness env) name (ae_execute env name arguments) [] [] None (?h, ag_context s) =
       (case block_reason (ae_harness env) (th_policy_mode ?h) contract None of
          Some reason \<Rightarrow> (Inl (exc ''ToolBlockedError'' reason), (with_events es ?h, ag_context s))
        | None \<Rightarrow> (fst (ae_execute env name arguments (ag_context s)),
            (with_events es ?h, snd (ae_execute env name arguments (ag_context s)))))"
    "trace_numbered (length (th_events ?h)) es"
    by (rule call_tool_cases [OF loop_inv_harness [OF s] k, where env = "ae_harness env"
          and func = "ae_execute env name arguments" and ins = "[]" and outs = "[]"
          and policy_text = None and c = "ag_context s"])
      (unfold tool_pair_def, blast)
  have kept: "loop_inv h0 R (s\<lparr>ag_context := snd (ae_execute env name arguments (ag_context s))\<rparr>)"
  proof -
    have "R (s\<lparr>ag_harness := h0\<rparr>)" using s by (simp add: loop_inv_def)
    with R p have "R (s\<lparr>ag_harness := h0,
        ag_context := snd (ae_execute env name arguments (ag_context (s\<lparr>ag_harness := h0\<rparr>)))\<rparr>)"
      unfolding kept_by_tools_def by blast
    then show ?thesis using s by (simp add: loop_inv_def harness_context_swap)
  qed
  note appended = loop_inv_append [OF s es(2)] loop_inv_append [OF kept, simplified, OF es(2)]
  show thesis
  proof (cases "block_reason (ae_harness env) (th_policy_mode ?h) contract None")
    case None
    with es(1) appended(2) show thesis
      by (intro that) (auto simp: with_tools_def harness_context_swap)
  next
    case (Some reason)
    with es(1) appended(1) show thesis
      by (intro that [of _ "ag_context s" es]) (auto simp: with_tools_def harness_context_swap)
  qed
qed

text \<open>The results of a tool: one that is not completed carries a reason.\<close>

definition tool_result_ok :: "agent_tool_result \<Rightarrow> bool" where
  "tool_result_ok x \<longleftrightarrow> tr_status x \<in> {''completed'', ''blocked'', ''failed''} \<and>
     (tr_status x \<noteq> ''completed'' \<longrightarrow> tr_error x \<noteq> None)"

lemma run_tool_keeps:
  assumes R: "kept_by_tools env h0 R" and p: "permitted env h0 name arguments"
  shows "triple (loop_inv h0 R) (run_tool env name arguments) (\<lambda>x s. tool_result_ok x \<and> loop_inv h0 R s) never"
  unfolding triple_def
proof (intro allI impI)
  fix s assume s: "loop_inv h0 R s"
  obtain r c es where
    "with_tools (call_tool (ae_harness env) name (ae_execute env name arguments) [] [] None) s =
       (r, s\<lparr>ag_harness := with_events es (ag_harness s), ag_context := c\<rparr>)"
    "loop_inv h0 R (s\<lparr>ag_harness := with_events es (ag_harness s), ag_context := c\<rparr>)"
    by (rule loop_inv_call [OF s R p])
  then show "case run_tool env name arguments s of (Inl e, t) \<Rightarrow> False | (Inr x, t) \<Rightarrow> tool_result_ok x \<and> loop_inv h0 R t"
    by (cases r) (auto simp: run_tool_def comp_defs tool_result_ok_def result_of_def)
qed

lemma blocked_tool_keeps:
  assumes name: "name \<noteq> []" and f: "failure_class \<in> {FAILURE_POLICY_VIOLATION, FAILURE_SCHEMA_INVALID}"
  shows "triple (loop_inv h0 R) (blocked_tool env name tier reason failure_class)
    (\<lambda>x s. tool_result_ok x \<and> loop_inv h0 R s) never"
  unfolding triple_def
proof (intro allI impI)
  fix s assume s: "loop_inv h0 R s"
  obtain es k where es:
    "record_blocked_tool (ae_harness env) name reason (Some tier) [] [] failure_class (ag_harness s) =
       (Inr (), with_events es (ag_harness s))"
    "tool_pair (length (th_events (ag_harness s))) k ''tool.started'' ''tool.blocked'' es"
    by (rule record_blocked_tool_appends [OF loop_inv_harness [OF s] name f])
  from loop_inv_append [OF s] es
  show "case blocked_tool env name tier reason failure_class s of
      (Inl e, t) \<Rightarrow> False | (Inr x, t) \<Rightarrow> tool_result_ok x \<and> loop_inv h0 R t"
    by (simp add: blocked_tool_def comp_defs with_harness_def tool_pair_def tool_result_ok_def result_of_def)
qed

lemma tool_name_of_nonempty: "tool_name_of event \<noteq> []"
  by (simp add: tool_name_of_def or_str_def split: option.split)

lemma risk_tier_of_nonempty: "harness_ok h \<Longrightarrow> risk_tier_of h name \<noteq> []"
  by (auto simp: risk_tier_of_def split: option.split
      dest: harness_ok_contract [unfolded contract_ok_def])

lemma permitted_iff:
  "pd_allowed (evaluate_agent_loop_tool_policy name (Some (risk_tier_of h name))) \<Longrightarrow>
     ae_validate env name arguments \<in> {None, Some []} \<Longrightarrow> permitted env h name arguments"
  by (auto simp: agent_loop_allowed permitted_def risk_tier_of_def list_ex_iff normalized_risk_tier_def
      or_str_def py_strip_def py_lower_def lower_char_def is_space_def split: option.splits)

lemma execute_tool_event_keeps:
  assumes R: "kept_by_tools env h0 R" and calls: "\<And>s. R s \<Longrightarrow> 0 \<le> ag_calls s"
  shows "triple (loop_inv h0 R) (execute_tool_event env event attempt)
    (\<lambda>x s. tool_result_ok x \<and> loop_inv h0 R s) never"
  unfolding triple_def
proof (intro allI impI)
  fix s assume s: "loop_inv h0 R s"
  let ?name = "tool_name_of event" and ?arguments = "arguments_of event"
  let ?tier = "risk_tier_of (ag_harness s) ?name"
  have tier: "?tier \<noteq> []" by (rule risk_tier_of_nonempty [OF loop_inv_harness [OF s]])
  have same: "?tier = risk_tier_of h0 ?name"
    using loop_inv_config [OF s] by (simp add: risk_tier_of_def)
  let ?rest = "if \<not> pd_allowed (evaluate_agent_loop_tool_policy ?name (Some ?tier))
     then blocked_tool env ?name ?tier
       (case blocked_finding (evaluate_agent_loop_tool_policy ?name (Some ?tier)) of
          None \<Rightarrow> ''Tool is blocked.'' | Some f \<Rightarrow> pfd_message f) FAILURE_POLICY_VIOLATION
     else case ae_validate env ?name ?arguments of
         Some err \<Rightarrow>
           if err \<noteq> []
           then thenx (record_tool_checked env ?name ?tier ''schema'' ''blocked'' (Some ''schema_invalid'') attempt)
             (blocked_tool env ?name ?tier err FAILURE_SCHEMA_INVALID)
           else run_tool env ?name ?arguments
       | None \<Rightarrow> run_tool env ?name ?arguments"
  note checked = record_tool_checked_keeps [OF tool_name_of_nonempty tier calls]
  have rest: "triple (loop_inv h0 R) ?rest (\<lambda>x s. tool_result_ok x \<and> loop_inv h0 R s) never"
  proof (cases "pd_allowed (evaluate_agent_loop_tool_policy ?name (Some ?tier)) \<and>
      ae_validate env ?name ?arguments \<in> {None, Some []}")
    case True
    then have "permitted env h0 ?name ?arguments"
      unfolding same by (intro permitted_iff) auto
    from run_tool_keeps [OF R this] True show ?thesis by auto
  next
    case False
    then show ?thesis
      by (auto intro!: triples checked blocked_tool_keeps tool_name_of_nonempty split: option.split)
  qed
  let ?all = "\<lambda>decision reason. thenx (record_tool_checked env ?name ?tier ''policy'' decision reason attempt) ?rest"
  let ?decision = "evaluate_agent_loop_tool_policy ?name (Some ?tier)"
  have all: "triple (loop_inv h0 R) (?all decision reason) (\<lambda>x s. tool_result_ok x \<and> loop_inv h0 R s) never" for decision reason
    by (rule triple_thenx_keeps [OF checked rest])
  have "execute_tool_event env event attempt s =
      ?all (if pd_allowed ?decision then ''allowed'' else ''blocked'')
        (map_option pfd_code (blocked_finding ?decision)) s"
    by (simp only: execute_tool_event_def Let_def)
  then show "case execute_tool_event env event attempt s of
      (Inl e, t) \<Rightarrow> False | (Inr x, t) \<Rightarrow> tool_result_ok x \<and> loop_inv h0 R t"
    by (simp only: tripleD [OF all s])
qed

section \<open>The counters and the results\<close>

abbreviation tool_completed :: "agent_tool_result \<Rightarrow> bool" where
  "tool_completed r \<equiv> tr_status r = ''completed''"

definition counters_ok :: "'c agent_env \<Rightarrow> 'c agent_state \<Rightarrow> bool" where
  "counters_ok env s \<longleftrightarrow> 0 \<le> ag_calls s \<and> ag_calls s \<le> max 0 (max_tool_calls (ae_budget env)) \<and>
     0 \<le> ag_iterations s \<and> ag_iterations s \<le> max 0 (max_iterations (ae_budget env))"

text \<open>
  The tokens.  They are below the budget when the run looks at it; one event of the stream may take them
  over it, by at most what it reports.
\<close>

definition streamed :: "'c agent_env \<Rightarrow> client_event \<Rightarrow> bool" where
  "streamed env event \<longleftrightarrow> (\<exists>n conversation. event \<in> set (fst (ae_stream env n conversation)))"

definition usage_at_most :: "'c agent_env \<Rightarrow> int \<Rightarrow> bool" where
  "usage_at_most env most \<longleftrightarrow> 0 \<le> most \<and>
     (\<forall>event. streamed env event \<longrightarrow> ce_input_tokens event + ce_output_tokens event \<le> most)"

definition tokens_left :: "'c agent_env \<Rightarrow> int \<Rightarrow> bool" where
  "tokens_left env used \<longleftrightarrow> (0 \<le> max_tokens (ae_budget env) \<longrightarrow> used < max_tokens (ae_budget env))"

definition tokens_near :: "'c agent_env \<Rightarrow> int \<Rightarrow> bool" where
  "tokens_near env used \<longleftrightarrow> (\<forall>most. 0 \<le> max_tokens (ae_budget env) \<longrightarrow> usage_at_most env most \<longrightarrow>
     used \<le> max_tokens (ae_budget env) + most)"

lemma tokens_left_near: "tokens_left env used \<Longrightarrow> tokens_near env used"
  by (fastforce simp: tokens_left_def tokens_near_def usage_at_most_def)

lemma tokens_near_event:
  "tokens_left env used \<Longrightarrow> streamed env event \<Longrightarrow>
     tokens_near env (used + (ce_input_tokens event + ce_output_tokens event))"
  by (fastforce simp: tokens_left_def tokens_near_def usage_at_most_def)

text \<open>
  The time.  All readings of the clock so far were in time, and there were more of them than iterations;
  after the end, those there had to be for the iterations were in time.
\<close>

definition timely :: "'c agent_env \<Rightarrow> int \<Rightarrow> nat \<Rightarrow> bool" where
  "timely env iterations ticks \<longleftrightarrow> (0 \<le> max_runtime_seconds (ae_budget env) \<longrightarrow> iterations < int ticks \<and>
     (\<forall>k. 0 < k \<and> k < ticks \<longrightarrow> ae_clock env k - ae_clock env 0 < max_runtime_seconds (ae_budget env)))"

definition was_timely :: "'c agent_env \<Rightarrow> int \<Rightarrow> bool" where
  "was_timely env iterations \<longleftrightarrow> (\<forall>k. 0 \<le> max_runtime_seconds (ae_budget env) \<longrightarrow> 0 < k \<longrightarrow> int k \<le> iterations \<longrightarrow>
     ae_clock env k - ae_clock env 0 < max_runtime_seconds (ae_budget env))"

lemma timely_was: "timely env iterations ticks \<Longrightarrow> was_timely env iterations"
  by (fastforce simp: timely_def was_timely_def)

text \<open>
  Before the budget is looked at, when the next iteration may begin, between two events, during a tool
  call, and at the end; \<open>k\<close> is the number of the iteration.
\<close>

definition spending :: "('c \<Rightarrow> bool) \<Rightarrow> 'c agent_env \<Rightarrow> int \<Rightarrow> 'c agent_state \<Rightarrow> bool" where
  "spending I env k s \<longleftrightarrow> I (ag_context s) \<and> counters_ok env s \<and> ag_iterations s = k \<and>
     tokens_near env (ag_input s + ag_output s) \<and> timely env k (ag_ticks s) \<and>
     int (length (ag_results s)) = ag_calls s \<and> list_all tool_completed (ag_results s)"

definition between :: "('c \<Rightarrow> bool) \<Rightarrow> 'c agent_env \<Rightarrow> int \<Rightarrow> 'c agent_state \<Rightarrow> bool" where
  "between I env k s \<longleftrightarrow> I (ag_context s) \<and> counters_ok env s \<and> ag_iterations s = k \<and>
     tokens_left env (ag_input s + ag_output s) \<and> timely env k (ag_ticks s) \<and>
     int (length (ag_results s)) = ag_calls s \<and> list_all tool_completed (ag_results s)"

definition ready :: "('c \<Rightarrow> bool) \<Rightarrow> 'c agent_env \<Rightarrow> int \<Rightarrow> 'c agent_state \<Rightarrow> bool" where
  "ready I env k s \<longleftrightarrow> between I env k s \<and> timely env (k + 1) (ag_ticks s)"

definition calling :: "('c \<Rightarrow> bool) \<Rightarrow> 'c agent_env \<Rightarrow> int \<Rightarrow> 'c agent_state \<Rightarrow> bool" where
  "calling I env k s \<longleftrightarrow> I (ag_context s) \<and> counters_ok env s \<and> ag_iterations s = k \<and>
     tokens_left env (ag_input s + ag_output s) \<and> timely env k (ag_ticks s) \<and>
     int (length (ag_results s)) + 1 = ag_calls s \<and> list_all tool_completed (ag_results s)"

definition ended :: "('c \<Rightarrow> bool) \<Rightarrow> 'c agent_env \<Rightarrow> string option \<Rightarrow> 'c agent_state \<Rightarrow> bool" where
  "ended I env exhausted s \<longleftrightarrow> I (ag_context s) \<and> counters_ok env s \<and>
     tokens_near env (ag_input s + ag_output s) \<and> was_timely env (ag_iterations s) \<and>
     (exhausted = None \<longrightarrow> tokens_left env (ag_input s + ag_output s)) \<and>
     int (length (ag_results s)) = ag_calls s \<and> list_all tool_completed (butlast (ag_results s))"

lemmas phases = spending_def between_def ready_def calling_def ended_def counters_ok_def

lemma between_ended: "between I env k s \<Longrightarrow> ended I env exhausted s"
  by (auto simp: phases list_all_iff tokens_left_near timely_was dest: in_set_butlastD)

lemma between_spending: "between I env k s \<Longrightarrow> spending I env k s"
  by (simp add: phases tokens_left_near)

text \<open>What permitted calls keep of the context.\<close>

definition context_kept :: "('c \<Rightarrow> bool) \<Rightarrow> 'c agent_env \<Rightarrow> tool_harness \<Rightarrow> bool" where
  "context_kept I env h \<longleftrightarrow> (\<forall>name arguments c. permitted env h name arguments \<longrightarrow> I c \<longrightarrow>
     I (snd (ae_execute env name arguments c)))"

lemma calling_kept: "context_kept I env h0 \<Longrightarrow> kept_by_tools env h0 (calling I env k)"
  by (simp add: context_kept_def kept_by_tools_def phases)

section \<open>The end of a run\<close>

definition run_result :: "tool_harness \<Rightarrow> ('c agent_state \<Rightarrow> bool) \<Rightarrow> agent_result \<Rightarrow> 'c agent_state \<Rightarrow> bool" where
  "run_result h0 R x s \<longleftrightarrow> loop_inv h0 R s \<and> ag_harness s = with_events (ar_events x) h0 \<and>
     trace_numbered (length (th_events h0)) (ar_events x) \<and> opened (ar_events x) \<and> closed (ar_events x) \<and>
     ar_tool_results x = ag_results s \<and> ar_tool_calls x = ag_calls s \<and> ar_iterations x = ag_iterations s \<and>
     ar_input_tokens x = ag_input s \<and> ar_output_tokens x = ag_output s \<and>
     ar_status x \<in> {''completed'', ''partial'', ''blocked''} \<and>
     (ar_status x = ''completed'' \<longleftrightarrow> ar_blocked_reason x = None \<and> ar_budget_exhausted x = None)"

lemma extra_ok_finish:
  assumes "0 \<le> ag_iterations s" "0 \<le> ag_calls s"
  shows "extra_ok [(''iteration'', JInt (ag_iterations s)), (''tool_call_count'', JInt (ag_calls s)),
      (''budget_exhausted'', jstr g)]"
    "extra_ok [(''status'', JStr (if status = ''completed'' then STATUS_PASS else STATUS_BLOCKED)),
      (''failure_class'', if status \<noteq> ''completed'' then JStr FAILURE_UNKNOWN else JNull),
      (''output_summary'', case b of Some r \<Rightarrow> if r = [] then jstr g else JStr r | None \<Rightarrow> jstr g)]"
  using assms by (auto simp: extra_ok_def field_rules jstr_def split: option.split)

lemma finish_result:
  assumes R: "\<And>s. R s \<Longrightarrow> 0 \<le> ag_iterations s \<and> 0 \<le> ag_calls s"
    and st: "status \<in> {''completed'', ''partial'', ''blocked''}" "status = ''completed'' \<longleftrightarrow> b = None \<and> g = None"
    and start: "start = length (th_events h0)"
  shows "triple (loop_inv h0 R) (finish env start status b g)
    (\<lambda>x s. run_result h0 R x s \<and> ar_status x = status \<and> ar_budget_exhausted x = g) never"
  unfolding triple_def
proof (intro allI impI)
  fix s assume s: "loop_inv h0 R s"
  have "0 \<le> ag_iterations s" "0 \<le> ag_calls s"
    using R [of "s\<lparr>ag_harness := h0\<rparr>"] s by (simp_all add: loop_inv_def)
  note fields = extra_ok_finish(1) [OF this, of g] extra_ok_finish(2) [OF this, of status g b]
  obtain e f where pair:
    "record_event_pair env ''agent_loop.completed'' ''agent.completed''
       [(''iteration'', JInt (ag_iterations s)), (''tool_call_count'', JInt (ag_calls s)),
        (''budget_exhausted'', jstr g)] []
       [(''status'', JStr (if status = ''completed'' then STATUS_PASS else STATUS_BLOCKED)),
        (''failure_class'', if status \<noteq> ''completed'' then JStr FAILURE_UNKNOWN else JNull),
        (''output_summary'', case b of Some r \<Rightarrow> if r = [] then jstr g else JStr r | None \<Rightarrow> jstr g)] s =
       (Inr (), s\<lparr>ag_harness := with_events [e, f] (ag_harness s)\<rparr>)"
    "trace_numbered (length (th_events (ag_harness s))) [e, f]"
    "event_type_of e = JStr ''agent_loop.completed''" "event_type_of f = JStr ''agent.completed''"
    by (rule record_event_pair_appends [OF loop_inv_harness [OF s] event_types_known(3,4) fields(1)
          extra_ok_Nil fields(2), where env = env])
  obtain es where es: "ag_harness s = with_events es h0" "trace_numbered (length (th_events h0)) es" "opened es"
    using s by (auto simp: loop_inv_def traced_def)
  let ?t = "s\<lparr>ag_harness := with_events [e, f] (ag_harness s)\<rparr>"
  let ?x = "\<lparr>ar_status = status, ar_response_text = concat (ag_chunks s), ar_tool_results = ag_results s,
     ar_events = es @ [e, f], ar_iterations = ag_iterations s, ar_tool_calls = ag_calls s,
     ar_input_tokens = ag_input s, ar_output_tokens = ag_output s, ar_blocked_reason = b, ar_budget_exhausted = g\<rparr>"
  have runs: "finish env start status b g s = (Inr ?x, ?t)"
    using es(1) by (simp add: finish_def bindx_def pair(1) start)
  have "run_result h0 R ?x ?t"
    using loop_inv_append [OF s pair(2)] es pair(2-4) st
    by (simp add: run_result_def opened_append closed_append)
  then show "case finish env start status b g s of (Inl e, t) \<Rightarrow> False
      | (Inr x, t) \<Rightarrow> run_result h0 R x t \<and> ar_status x = status \<and> ar_budget_exhausted x = g"
    by (simp add: runs)
qed

section \<open>One event of the stream\<close>

lemma loop_inv_phases:
  "loop_inv h0 (spending I env k) s \<longleftrightarrow> harness_ok h0 \<and> traced h0 (ag_harness s) \<and> spending I env k s"
  "loop_inv h0 (between I env k) s \<longleftrightarrow> harness_ok h0 \<and> traced h0 (ag_harness s) \<and> between I env k s"
  "loop_inv h0 (ready I env k) s \<longleftrightarrow> harness_ok h0 \<and> traced h0 (ag_harness s) \<and> ready I env k s"
  "loop_inv h0 (calling I env k) s \<longleftrightarrow> harness_ok h0 \<and> traced h0 (ag_harness s) \<and> calling I env k s"
  "loop_inv h0 (ended I env g) s \<longleftrightarrow> harness_ok h0 \<and> traced h0 (ag_harness s) \<and> ended I env g s"
  by (simp_all add: loop_inv_def phases)

text \<open>The result of a run that is over; a completed run has completed all its tool calls.\<close>

definition run_over :: "('c \<Rightarrow> bool) \<Rightarrow> 'c agent_env \<Rightarrow> tool_harness \<Rightarrow> agent_result \<Rightarrow> 'c agent_state \<Rightarrow> bool" where
  "run_over I env h0 x s \<longleftrightarrow> run_result h0 (ended I env (ar_budget_exhausted x)) x s \<and>
     (ar_status x = ''completed'' \<longrightarrow> list_all tool_completed (ar_tool_results x))"

lemma run_over_ended:
  "run_result h0 (ended I env (ar_budget_exhausted x)) x s \<Longrightarrow> ar_status x \<noteq> ''completed'' \<Longrightarrow> run_over I env h0 x s"
  by (simp add: run_over_def)

lemma run_over_between: "run_result h0 (between I env k) x s \<Longrightarrow> run_over I env h0 x s"
  by (auto simp: run_over_def run_result_def loop_inv_phases between_ended) (simp add: between_def)

text \<open>Whether a run goes on, with what then holds, or is over with a result.\<close>

definition on_or_over ::
  "('c \<Rightarrow> bool) \<Rightarrow> 'c agent_env \<Rightarrow> ('c agent_state \<Rightarrow> bool) \<Rightarrow> tool_harness \<Rightarrow> agent_result option
    \<Rightarrow> 'c agent_state \<Rightarrow> bool" where
  "on_or_over I env R h0 r s = (case r of None \<Rightarrow> loop_inv h0 R s | Some x \<Rightarrow> run_over I env h0 x s)"

text \<open>The look at the budget: what it lets go on is within the budget.\<close>

definition looked :: "('c \<Rightarrow> bool) \<Rightarrow> 'c agent_env \<Rightarrow> int \<Rightarrow> string option \<Rightarrow> 'c agent_state \<Rightarrow> bool" where
  "looked I env k exhausted = (case exhausted of None \<Rightarrow> ready I env k | Some _ \<Rightarrow> ended I env exhausted)"

lemma spending_over:
  "spending I env k s \<Longrightarrow> ended I env (Some g) s \<and> ended I env (Some g) (s\<lparr>ag_ticks := n\<rparr>)"
  using timely_was [of env k]
  by (auto simp: phases list_all_iff dest: in_set_butlastD)

lemma spending_ready:
  assumes "spending I env k s" "tokens_left env (ag_input s + ag_output s)"
  shows "0 \<le> max_runtime_seconds (ae_budget env) \<Longrightarrow>
      ae_clock env (ag_ticks s) - ae_clock env 0 < max_runtime_seconds (ae_budget env) \<Longrightarrow>
      ready I env k (s\<lparr>ag_ticks := ag_ticks s + 1\<rparr>)"
    and "\<not> 0 \<le> max_runtime_seconds (ae_budget env) \<Longrightarrow> ready I env k s"
  using assms by (auto simp: phases timely_def less_Suc_eq)

lemma budget_exhausted_keeps:
  "triple (loop_inv h0 (spending I env k)) (budget_exhausted env) (\<lambda>r. loop_inv h0 (looked I env k r)) never"
  unfolding triple_def
proof (intro allI impI)
  fix s assume "loop_inv h0 (spending I env k) s"
  then have s: "harness_ok h0" "traced h0 (ag_harness s)" "spending I env k s" by (simp_all add: loop_inv_phases)
  have left: "tokens_left env (ag_input s + ag_output s)"
    if "\<not> (0 \<le> max_tokens (ae_budget env) \<and> max_tokens (ae_budget env) \<le> ag_input s + ag_output s)"
    using that by (auto simp: tokens_left_def)
  note over = spending_over [OF s(3)] and on = spending_ready [OF s(3) left]
  have looked: "loop_inv h0 (looked I env k (if a then Some x else if b then Some y else None)) t \<longleftrightarrow>
      harness_ok h0 \<and> traced h0 (ag_harness t) \<and>
      (if a then ended I env (Some x) t else if b then ended I env (Some y) t else ready I env k t)" for a b x y t
    by (simp add: looked_def loop_inv_phases)
  show "case budget_exhausted env s of (Inl e, t) \<Rightarrow> False | (Inr r, t) \<Rightarrow> loop_inv h0 (looked I env k r) t"
    unfolding budget_exhausted_def Let_def prod.case sum.case looked
    using s(1,2) over on by (cases "0 \<le> max_runtime_seconds (ae_budget env)") auto
qed

lemma phases_nonneg:
  "between I env k s \<Longrightarrow> 0 \<le> ag_iterations s \<and> 0 \<le> ag_calls s"
  "ended I env g s \<Longrightarrow> 0 \<le> ag_iterations s \<and> 0 \<le> ag_calls s"
  by (simp_all add: phases)

lemma finish_over:
  assumes "status \<in> {''partial'', ''blocked''}" "b \<noteq> None \<or> g \<noteq> None" "start = length (th_events h0)"
  shows "triple (loop_inv h0 (ended I env g)) (finish env start status b g) (run_over I env h0) never"
  by (rule triple_post [OF finish_result [OF phases_nonneg(2)]]) (use assms in \<open>auto intro: run_over_ended\<close>)

lemma finish_between:
  assumes "status \<in> {''completed'', ''partial'', ''blocked''}" "status = ''completed'' \<longleftrightarrow> b = None \<and> g = None"
    "start = length (th_events h0)"
  shows "triple (loop_inv h0 (between I env k)) (finish env start status b g) (run_over I env h0) never"
  by (rule triple_post [OF finish_result [OF phases_nonneg(1) assms]]) (auto intro: run_over_between)

lemma some_result:
  "triple P m (run_over I env h0) never \<Longrightarrow>
     triple P (bindx m (\<lambda>x. returnx (Some x))) (on_or_over I env R h0) never"
  by (rule triple_bindx) (auto intro!: triples simp: on_or_over_def)

text \<open>Recording how the model call ended, and finishing.\<close>

lemma completed_fields:
  "STATUS_BLOCKED \<in> set EVENT_STATUSES" "STATUS_FAIL \<in> set EVENT_STATUSES" "STATUS_PASS \<in> set EVENT_STATUSES"
  by (rule constants_known)+

lemma usage_event_keeps:
  assumes "0 < attempt" "start = length (th_events h0)" and event: "streamed env event"
  shows "triple (loop_inv h0 (between I env k)) (usage_event env start attempt event)
    (on_or_over I env (between I env k) h0) never"
  unfolding usage_event_def
proof (rule triple_after)
  show "triple (loop_inv h0 (spending I env k)) (bindx (budget_exhausted env) (\<lambda>reason. case reason of
      None \<Rightarrow> returnx None
    | Some r \<Rightarrow> thenx (record_budget_block env r) (thenx (record_llm_completed env attempt STATUS_BLOCKED None None)
        (bindx (finish env start ''partial'' None (Some r)) (\<lambda>x. returnx (Some x))))))
      (on_or_over I env (between I env k) h0) never"
  proof (rule triple_bindx [OF budget_exhausted_keeps], goal_cases)
    case (1 reason)
    show ?case
    proof (cases reason)
      case None
      then show ?thesis
        by (auto intro!: triples simp: looked_def on_or_over_def loop_inv_phases ready_def)
    next
      case (Some r)
      show ?thesis
        unfolding Some option.case looked_def
        by (intro triples some_result finish_over) (simp_all add: assms completed_fields)
    qed
  qed
next
  fix s assume "loop_inv h0 (between I env k) s"
  with tokens_near_event [OF _ event] show "loop_inv h0 (spending I env k)
      (s\<lparr>ag_input := ag_input s + ce_input_tokens event, ag_output := ag_output s + ce_output_tokens event\<rparr>)"
    by (fastforce simp: loop_inv_phases phases algebra_simps)
qed

lemma tool_call_over:
  assumes "0 < attempt" "start = length (th_events h0)" "status \<in> set EVENT_STATUSES"
    "st \<in> {''partial'', ''blocked''}" "b \<noteq> None \<or> g \<noteq> None"
  shows "triple (loop_inv h0 (ended I env g)) (thenx (record_llm_completed env attempt status None None)
      (bindx (finish env start st b g) (\<lambda>x. returnx (Some x)))) (on_or_over I env (between I env k) h0) never"
  by (intro triples some_result finish_over) (use assms in simp_all)

text \<open>What follows a tool call: the end of the run, or the answer of the tool in the conversation.\<close>

definition after_tool ::
  "'c agent_env \<Rightarrow> nat \<Rightarrow> nat \<Rightarrow> agent_tool_result \<Rightarrow> ('c agent_state, agent_result option) comp" where
  "after_tool env start attempt result t =
     (let t' = t\<lparr>ag_results := ag_results t @ [result]\<rparr>
      in if tr_status result = ''blocked'' then
           thenx (record_llm_completed env attempt STATUS_BLOCKED None None)
             (bindx (finish env start ''blocked'' (tr_error result) None) (\<lambda>x. returnx (Some x))) t'
         else if tr_status result = ''failed'' then
           thenx (record_llm_completed env attempt STATUS_FAIL None None)
             (bindx (finish env start ''partial'' (tr_error result) None) (\<lambda>x. returnx (Some x))) t'
         else (case tr_output result of
             None \<Rightarrow> (Inr None, t')
           | Some output \<Rightarrow> (Inr None, t'\<lparr>ag_conversation := ag_conversation t' @
                 [(''assistant'', ''Tool '' @ tr_tool_name result @ '' returned: '' @ ae_dumps env output)]\<rparr>)))"

lemma triple_False [simp]: "triple (\<lambda>s. False) m Q E"
  by (simp add: triple_def)

lemma after_tool_keeps:
  assumes "0 < attempt" "start = length (th_events h0)" and x: "tool_result_ok result"
  shows "triple (loop_inv h0 (calling I env k)) (after_tool env start attempt result) (on_or_over I env (between I env k) h0) never"
  unfolding triple_def
proof (intro allI impI)
  fix t assume t: "loop_inv h0 (calling I env k) t"
  let ?t = "t\<lparr>ag_results := ag_results t @ [result]\<rparr>"
  have over: "loop_inv h0 (ended I env None) ?t"
    using t by (auto simp: loop_inv_phases phases tokens_left_near timely_was)
  have on: "loop_inv h0 (between I env k) ?t" if "tr_status result = ''completed''"
    using t that by (simp add: loop_inv_phases phases)
  note ends = tool_call_over [OF assms(1,2), of _ _ "tr_error result" None, THEN tripleD, OF _ _ _ over]
  consider "tr_status result = ''blocked''" "tr_error result \<noteq> None"
    | "tr_status result = ''failed''" "tr_error result \<noteq> None" | "tr_status result = ''completed''"
    using x by (auto simp: tool_result_ok_def)
  then show "case after_tool env start attempt result t of (Inl e, t) \<Rightarrow> False | (Inr x, t) \<Rightarrow> on_or_over I env (between I env k) h0 x t"
  proof cases
    case 1
    with ends [of STATUS_BLOCKED "''blocked''"] show ?thesis by (simp add: after_tool_def completed_fields)
  next
    case 2
    with ends [of STATUS_FAIL "''partial''"] show ?thesis by (simp add: after_tool_def completed_fields)
  next
    case 3
    with on [OF 3] show ?thesis
      by (auto simp: after_tool_def Let_def on_or_over_def loop_inv_phases phases split: option.split)
  qed
qed

lemma tool_event_keeps:
  assumes "0 < attempt" "start = length (th_events h0)" and I: "context_kept I env h0"
  shows "triple (loop_inv h0 (between I env k)) (tool_event env start attempt event) (on_or_over I env (between I env k) h0) never"
  unfolding triple_def
proof (intro allI impI)
  fix s assume s: "loop_inv h0 (between I env k) s"
  let ?r = "''max_tool_calls budget exhausted ('' @ show_int (max_tool_calls (ae_budget env)) @ '')''"
  show "case tool_event env start attempt event s of (Inl e, t) \<Rightarrow> False | (Inr x, t) \<Rightarrow> on_or_over I env (between I env k) h0 x t"
  proof (cases "ag_calls s \<ge> max_tool_calls (ae_budget env)")
    case True
    have "triple (loop_inv h0 (between I env k)) (thenx (record_budget_block env ?r)
        (thenx (record_llm_completed env attempt STATUS_BLOCKED None None)
          (bindx (finish env start ''blocked'' (Some ?r) (Some ?r)) (\<lambda>x. returnx (Some x)))))
        (on_or_over I env (between I env k) h0) never"
      by (intro triples some_result finish_between) (simp_all add: assms completed_fields)
    from tripleD [OF this s] True show ?thesis
      by (simp only: tool_event_def Let_def if_True)
  next
    case False
    let ?s = "s\<lparr>ag_calls := ag_calls s + 1\<rparr>"
    have s': "loop_inv h0 (calling I env k) ?s"
      using s False by (auto simp: loop_inv_phases phases)
    have nonneg: "0 \<le> ag_calls u" if "calling I env k u" for u
      using that by (simp add: phases)
    have "triple (loop_inv h0 (calling I env k)) (bindx (execute_tool_event env event attempt)
        (after_tool env start attempt)) (on_or_over I env (between I env k) h0) never"
    proof (rule triple_bindx [OF execute_tool_event_keeps [OF calling_kept [OF I] nonneg]])
      fix x
      show "triple (\<lambda>s. tool_result_ok x \<and> loop_inv h0 (calling I env k) s) (after_tool env start attempt x)
          (on_or_over I env (between I env k) h0) never"
        by (cases "tool_result_ok x") (use after_tool_keeps [OF assms(1,2)] in \<open>simp_all\<close>)
    qed
    from tripleD [OF this s'] False show ?thesis
      by (simp only: tool_event_def after_tool_def [abs_def] if_False)
  qed
qed

section \<open>The stream, the iterations and the run\<close>

definition stream_post ::
  "('c \<Rightarrow> bool) \<Rightarrow> 'c agent_env \<Rightarrow> int \<Rightarrow> tool_harness \<Rightarrow> agent_result option \<times> bool
    \<Rightarrow> 'c agent_state \<Rightarrow> bool" where
  "stream_post I env k h0 r s = on_or_over I env (between I env k) h0 (fst r) s"

lemma stream_step:
  assumes "triple P m (on_or_over I env (between I env k) h0) never"
    and "triple (loop_inv h0 (between I env k)) n (stream_post I env k h0) E"
  shows "triple P (bindx m (\<lambda>r. case r of Some x \<Rightarrow> returnx (Some x, b) | None \<Rightarrow> n)) (stream_post I env k h0) E"
proof (rule triple_bindx)
  show "triple P m (on_or_over I env (between I env k) h0) E"
    by (rule triple_conseq [OF assms(1)]) auto
  fix r
  show "triple (on_or_over I env (between I env k) h0 r) (case r of Some x \<Rightarrow> returnx (Some x, b) | None \<Rightarrow> n) (stream_post I env k h0) E"
    using assms(2)
    by (cases r) (auto intro!: triples simp: stream_post_def on_or_over_def [abs_def])
qed

lemma stream_loop_keeps:
  assumes "0 < attempt" "start = length (th_events h0)" "context_kept I env h0" "\<And>e. e \<in> set events \<Longrightarrow> streamed env e"
  shows "triple (loop_inv h0 (between I env k)) (stream_loop env start attempt broken saw events)
    (stream_post I env k h0) (\<lambda>_. loop_inv h0 (between I env k))"
  using assms(4)
proof (induction events arbitrary: saw)
  case Nil
  show ?case
    by (auto intro!: triples simp: stream_post_def on_or_over_def split: option.split)
next
  case (Cons event events)
  then have IH: "triple (loop_inv h0 (between I env k)) (stream_loop env start attempt broken saw events)
      (stream_post I env k h0) (\<lambda>_. loop_inv h0 (between I env k))" for saw by simp
  have event: "streamed env event" using Cons.prems by simp
  have delta: "triple (loop_inv h0 (between I env k))
      (\<lambda>s. stream_loop env start attempt broken saw events (s\<lparr>ag_chunks := ag_chunks s @ [the (ce_text event)]\<rparr>))
      (stream_post I env k h0) (\<lambda>_. loop_inv h0 (between I env k))"
    by (rule triple_after [OF IH]) (simp only: loop_inv_phases, simp add: phases)
  show ?case
    unfolding stream_loop.simps
    by (intro triple_if stream_step usage_event_keeps tool_event_keeps delta IH event assms)
qed

text \<open>The parts of an iteration: the request, its stream, an exception of the stream, and what follows.\<close>

lemma llm_started_keeps:
  assumes "0 < attempt"
  shows "triple (loop_inv h0 R) (with_harness (record_event (ae_harness env) ''llm.started''
      [(''workflow'', JStr ''bounded_agent_loop''), (''stage'', JStr ''bounded_scout''),
       (''model'', JStr (ae_model env)), (''attempt'', JInt (int attempt)),
       (''status'', JStr STATUS_STARTED)])) (\<lambda>_. loop_inv h0 R) never"
    (is "triple _ (with_harness ?m) _ _")
  unfolding triple_def
proof (intro allI impI)
  fix s assume s: "loop_inv h0 R s"
  have x: "extra_ok [(''workflow'', JStr ''bounded_agent_loop''), (''stage'', JStr ''bounded_scout''),
     (''model'', JStr (ae_model env)), (''attempt'', JInt (int attempt)), (''status'', JStr STATUS_STARTED)]"
    using assms by (simp add: extra_ok_def field_rules)
  obtain e where "?m (ag_harness s) = (Inr e, with_events [e] (ag_harness s))"
    "trace_numbered (length (th_events (ag_harness s))) [e]"
    by (rule record_event_appends [OF loop_inv_harness [OF s] event_types_known(7) x, where env = "ae_harness env"])
  with loop_inv_append [OF s]
  show "case with_harness ?m s of (Inl e, t) \<Rightarrow> False | (Inr x, t) \<Rightarrow> loop_inv h0 R t"
    by (simp add: with_harness_def)
qed

lemma stream_body_keeps:
  assumes "0 < attempt" "start = length (th_events h0)" "context_kept I env h0"
  shows "triple (loop_inv h0 (between I env k))
      (\<lambda>t. let (events, broken) = ae_stream env attempt (ag_conversation t)
           in stream_loop env start attempt broken False events t)
      (stream_post I env k h0) (\<lambda>_. loop_inv h0 (between I env k))"
  unfolding triple_def
proof (intro allI impI)
  fix t assume t: "loop_inv h0 (between I env k) t"
  obtain events broken where "ae_stream env attempt (ag_conversation t) = (events, broken)" by fastforce
  moreover from this have "streamed env e" if "e \<in> set events" for e
    using that unfolding streamed_def by (metis fst_conv)
  ultimately
  show "case let (events, broken) = ae_stream env attempt (ag_conversation t)
       in stream_loop env start attempt broken False events t of
     (Inl e, t) \<Rightarrow> loop_inv h0 (between I env k) t | (Inr x, t) \<Rightarrow> stream_post I env k h0 x t"
    using tripleD [OF stream_loop_keeps [OF assms] t] by simp
qed

lemma stream_handler_keeps:
  assumes "0 < attempt" "start = length (th_events h0)"
  shows "triple (loop_inv h0 (between I env k))
      (thenx (record_llm_completed env attempt STATUS_FAIL (Some FAILURE_PROVIDER_ERROR) (Some e))
        (bindx (finish env start ''partial'' (Some r) None) (\<lambda>x. returnx (Some x, True))))
      (stream_post I env k h0) never"
  using assms
  by (intro triple_thenx_keeps record_llm_completed_keeps triple_bindx [OF finish_between] triple_returnx)
    (auto simp: completed_fields constants_known stream_post_def on_or_over_def)

lemma budget_stop_keeps:
  assumes "start = length (th_events h0)"
  shows "triple (loop_inv h0 (looked I env k reason)) (case reason of
        None \<Rightarrow> returnx None
      | Some b \<Rightarrow> thenx (record_budget_block env b)
          (bindx (finish env start ''partial'' None (Some b)) (\<lambda>x. returnx (Some x))))
      (on_or_over I env (ready I env k) h0) never"
proof (cases reason)
  case (Some b)
  show ?thesis
    unfolding Some option.case looked_def
    by (intro triples some_result finish_over) (simp_all add: assms)
qed (auto intro!: triples simp: on_or_over_def looked_def)

text \<open>The look at the budget after a stream begins in the phase between two events.\<close>

lemma budget_between_keeps:
  "triple (loop_inv h0 (between I env k)) (budget_exhausted env) (\<lambda>r. loop_inv h0 (looked I env k r)) never"
  by (rule triple_conseq [OF budget_exhausted_keeps]) (auto intro: loop_inv_weaken between_spending)

lemma after_stream_keeps:
  assumes "0 < attempt" "start = length (th_events h0)"
  shows "triple (stream_post I env k h0 r) (case r of (r, saw) \<Rightarrow> (case r of
        Some x \<Rightarrow> returnx (Some x)
      | None \<Rightarrow> thenx (record_llm_completed env attempt STATUS_PASS None None)
          (if \<not> saw then bindx (finish env start ''completed'' None None) (\<lambda>x. returnx (Some x))
           else bindx (budget_exhausted env) (\<lambda>reason. case reason of
               None \<Rightarrow> returnx None
             | Some b \<Rightarrow> thenx (record_budget_block env b)
                 (bindx (finish env start ''partial'' None (Some b)) (\<lambda>x. returnx (Some x)))))))
      (on_or_over I env (ready I env k) h0) never"
proof (cases "fst r")
  case (Some x)
  then show ?thesis by (cases r) (auto intro!: triples simp: stream_post_def on_or_over_def)
next
  case None
  obtain saw where r: "r = (None, saw)" using None by (cases r) auto
  have pre: "stream_post I env k h0 (None, saw) = loop_inv h0 (between I env k)"
    by (auto simp: stream_post_def on_or_over_def)
  show ?thesis
    unfolding r prod.case option.case pre
    by (intro triples some_result finish_between triple_bindx [OF budget_between_keeps] budget_stop_keeps)
      (simp_all add: assms completed_fields)
qed

lemma iteration_keeps:
  assumes a: "0 < attempt" "int attempt \<le> max 0 (max_iterations (ae_budget env))"
    and start: "start = length (th_events h0)" and I: "context_kept I env h0"
  shows "triple (loop_inv h0 (ready I env (int attempt - 1))) (iteration env start attempt)
    (on_or_over I env (ready I env (int attempt)) h0) never"
  unfolding iteration_def
  by (rule triple_after [where R = "loop_inv h0 (between I env (int attempt))"],
      rule triple_thenx_keeps [OF llm_started_keeps [OF a(1)]], rule triple_bindx,
      rule triple_catchx [OF stream_body_keeps [OF a(1) start I] stream_handler_keeps [OF a(1) start]],
      rule after_stream_keeps [OF a(1) start])
    (use a in \<open>simp add: loop_inv_phases phases\<close>)

text \<open>The iterations from number \<open>a\<close> on.\<close>

lemma iterations_loop_keeps:
  assumes "0 < a" and start: "start = length (th_events h0)" and I: "context_kept I env h0"
    and attempts: "attempts = [a..<Suc (nat (max (max_iterations (ae_budget env)) 0))]"
  shows "triple (loop_inv h0 (ready I env (int a - 1))) (iterations_loop env start attempts) (run_over I env h0) never"
  using assms(1) attempts
proof (induction attempts arbitrary: a)
  case Nil
  have "triple (loop_inv h0 (between I env (int a - 1))) (iterations_loop env start []) (run_over I env h0) never"
    unfolding iterations_loop.simps Let_def
    by (intro triples finish_between) (simp_all add: start)
  then show ?case
    by (rule triple_conseq) (auto intro: loop_inv_weaken simp: ready_def)
next
  case (Cons b attempts)
  from sym [OF Cons.prems(2), unfolded upt_eq_Cons_conv]
  have b: "b = a" "int a \<le> max 0 (max_iterations (ae_budget env))"
    and rest: "attempts = [Suc a..<Suc (nat (max (max_iterations (ae_budget env)) 0))]"
    by (auto simp del: upt_Suc)
  have "triple (loop_inv h0 (ready I env (int a))) (iterations_loop env start attempts) (run_over I env h0) never"
    using Cons.IH [OF _ rest] by simp
  then have "triple (on_or_over I env (ready I env (int a)) h0 r)
      (case r of Some x \<Rightarrow> returnx x | None \<Rightarrow> iterations_loop env start attempts) (run_over I env h0) never" for r
    by (cases r) (auto intro!: triples simp: on_or_over_def [abs_def])
  with iteration_keeps [OF Cons.prems(1) b(2) start I] show ?case
    unfolding iterations_loop.simps b(1) by (rule triple_bindx)
qed

text \<open>A run never raises, and is over when it returns.\<close>

lemma run_agent_over:
  assumes h: "harness_ok h" and c: "I c" and I: "context_kept I env h"
  obtains x s where "run_agent env msgs (h, c) = (Inr x, (ag_harness s, ag_context s))" "run_over I env h x s"
proof -
  let ?s = "start_state h c msgs" and ?start = "length (th_events h)"
  have harness: "ag_harness ?s = h" by (simp add: start_state_def)
  have x: "extra_ok [(''iteration'', JInt 0), (''tool_call_count'', JInt 0)]" "extra_ok [(''status'', JStr STATUS_STARTED)]"
    by (simp_all add: extra_ok_def field_rules)
  obtain e f where pair: "record_event_pair env ''agent_loop.started'' ''agent.started''
       [(''iteration'', JInt 0), (''tool_call_count'', JInt 0)] [] [(''status'', JStr STATUS_STARTED)] ?s =
     (Inr (), ?s\<lparr>ag_harness := with_events [e, f] h\<rparr>)"
    "trace_numbered (length (th_events h)) [e, f]"
    "event_type_of e = JStr ''agent_loop.started''" "event_type_of f = JStr ''agent.started''"
    by (rule record_event_pair_appends [of ?s, OF _ event_types_known(1,2) x(1) extra_ok_Nil x(2),
          unfolded harness, OF h, where env = env])
  let ?t = "?s\<lparr>ag_harness := with_events [e, f] h\<rparr>"
  have "traced h (with_events [e, f] h)"
    unfolding traced_def using pair by (intro exI [of _ "[e, f]"]) (simp add: opened_def)
  then have t: "loop_inv h (spending I env 0) ?t"
    using h c by (simp add: loop_inv_phases phases start_state_def tokens_near_def usage_at_most_def timely_def)
  let ?rest = "bindx (budget_exhausted env) (\<lambda>reason. case reason of
      Some r \<Rightarrow> thenx (record_budget_block env r) (finish env ?start ''partial'' None (Some r))
    | None \<Rightarrow> iterations_loop env ?start [1..<Suc (nat (max (max_iterations (ae_budget env)) 0))])"
  have "triple (loop_inv h (spending I env 0)) ?rest (run_over I env h) never"
  proof (rule triple_bindx [OF budget_exhausted_keeps])
    fix reason
    show "triple (loop_inv h (looked I env 0 reason)) (case reason of
        Some r \<Rightarrow> thenx (record_budget_block env r) (finish env ?start ''partial'' None (Some r))
      | None \<Rightarrow> iterations_loop env ?start [1..<Suc (nat (max (max_iterations (ae_budget env)) 0))])
      (run_over I env h) never"
    proof (cases reason)
      case None
      show ?thesis
        using iterations_loop_keeps [OF _ refl I refl, of 1] by (simp add: None looked_def)
    next
      case (Some r)
      show ?thesis
        unfolding Some option.case looked_def by (intro triples finish_over) simp_all
    qed
  qed
  from triple_runs [OF this t] obtain x s where rest: "?rest ?t = (Inr x, s)" and over: "run_over I env h x s" .
  let ?first = "record_event_pair env ''agent_loop.started'' ''agent.started''
     [(''iteration'', JInt 0), (''tool_call_count'', JInt 0)] [] [(''status'', JStr STATUS_STARTED)]"
  have first: "thenx ?first n ?s = n ?t" for n :: "('a agent_state, agent_result) comp"
    by (simp only: thenx_def bindx_def pair(1) prod.case sum.case)
  have "run_agent env msgs (h, c) = (Inr x, (ag_harness s, ag_context s))"
    by (simp only: run_agent_def Let_def prod.case first rest)
  with over show thesis by (intro that)
qed

end
