(* ===== verification/Agent_Claims.thy ===== *)
theory Agent_Claims
  imports Agent_Runs
begin

text \<open>The properties of a run of the scout loop, for a harness with a usable configuration.\<close>

lemma trace_numbered_all: "trace_numbered n es \<Longrightarrow> list_all event_ok es \<and>
   map (\<lambda>e. jget e ''sequence'') es = map (\<lambda>i. JInt (int (n + i) + 1)) [0..<length es]"
proof (induction n es rule: trace_numbered.induct)
  case (2 n e es)
  then have "map (\<lambda>e. jget e ''sequence'') es = map (\<lambda>i. JInt (int (Suc n + i) + 1)) [0..<length es]" by simp
  also have "\<dots> = map (\<lambda>i. JInt (int (n + i) + 1)) [Suc 0..<Suc (length es)]"
    by (simp add: map_Suc_upt [symmetric] comp_def del: upt_Suc)
  finally show ?case using 2 by (simp add: upt_conv_Cons del: upt_Suc)
qed simp

lemma any_context: "context_kept (\<lambda>_. True) env h"
  by (simp add: context_kept_def)

text \<open>
  C22: A run of the scout loop never raises: whatever the model streams, whether its stream breaks off,
  and whether tools raise, the run returns a result.  The events it appended to the trace are those of
  the result; each has the schema of an event, they are numbered on from the events the trace had, and
  they begin with the two events of a start and end with the two events of a completion.
\<close>

theorem run_returns_with_trace:
  assumes "harness_ok h"
  shows "case run_agent env msgs (h, c) of
      (Inl e, _) \<Rightarrow> False
    | (Inr x, (h', _)) \<Rightarrow>
        h' = h\<lparr>th_events := th_events h @ ar_events x\<rparr> \<and> list_all event_ok (ar_events x) \<and>
        map (\<lambda>e. jget e ''sequence'') (ar_events x) =
          map (\<lambda>i. JInt (int (length (th_events h) + i) + 1)) [0..<length (ar_events x)] \<and>
        take 2 (map (\<lambda>e. jget e ''event_type'') (ar_events x)) =
          [JStr ''agent_loop.started'', JStr ''agent.started''] \<and>
        drop (length (ar_events x) - 2) (map (\<lambda>e. jget e ''event_type'') (ar_events x)) =
          [JStr ''agent_loop.completed'', JStr ''agent.completed'']"
proof -
  obtain x s where "run_agent env msgs (h, c) = (Inr x, (ag_harness s, ag_context s))"
    "run_over (\<lambda>_. True) env h x s"
    by (rule run_agent_over [OF assms TrueI any_context])
  then show ?thesis
    by (auto simp: run_over_def run_result_def with_events_def opened_def closed_def
        dest: trace_numbered_all)
qed

text \<open>
  C23: What the budgets of a run bound.  It makes at most max_tool_calls tool calls and max_iterations
  requests (none when a budget is negative).  With a token budget, a run that names no exhausted budget
  has used fewer tokens, and no run has used more than the budget and what one usage event reports
  beyond it.  With a time budget, the first k readings of the clock after the start were all in time when
  the k-th request was made (a request in progress may outlast it).  There is one result for each call counted, and every result but the last is of a completed
  tool: after a blocked or failed tool no other is run.  The run is completed exactly when it gives
  neither a reason nor an exhausted budget, and then all its tools completed.
\<close>

theorem run_within_budgets:
  assumes "harness_ok h"
  shows "case run_agent env msgs (h, c) of
      (Inl e, _) \<Rightarrow> False
    | (Inr x, _) \<Rightarrow>
        0 \<le> ar_tool_calls x \<and> ar_tool_calls x \<le> max 0 (max_tool_calls (ae_budget env)) \<and>
        0 \<le> ar_iterations x \<and> ar_iterations x \<le> max 0 (max_iterations (ae_budget env)) \<and>
        (0 \<le> max_tokens (ae_budget env) \<longrightarrow>
          (ar_budget_exhausted x = None \<longrightarrow>
            ar_input_tokens x + ar_output_tokens x < max_tokens (ae_budget env)) \<and>
          (\<forall>most. usage_at_most env most \<longrightarrow>
            ar_input_tokens x + ar_output_tokens x \<le> max_tokens (ae_budget env) + most)) \<and>
        (0 \<le> max_runtime_seconds (ae_budget env) \<longrightarrow>
          (\<forall>k. 0 < k \<and> int k \<le> ar_iterations x \<longrightarrow>
            ae_clock env k - ae_clock env 0 < max_runtime_seconds (ae_budget env))) \<and>
        int (length (ar_tool_results x)) = ar_tool_calls x \<and>
        list_all (\<lambda>r. tr_status r = ''completed'') (butlast (ar_tool_results x)) \<and>
        (ar_status x = ''completed'') = (ar_blocked_reason x = None \<and> ar_budget_exhausted x = None) \<and>
        (ar_status x = ''completed'' \<longrightarrow> list_all (\<lambda>r. tr_status r = ''completed'') (ar_tool_results x))"
proof -
  obtain x s where "run_agent env msgs (h, c) = (Inr x, (ag_harness s, ag_context s))"
    "run_over (\<lambda>_. True) env h x s"
    by (rule run_agent_over [OF assms TrueI any_context])
  then show ?thesis
    by (auto simp: run_over_def run_result_def loop_inv_phases phases tokens_left_def tokens_near_def
        was_timely_def)
qed

text \<open>
  C21: Only permitted tools touch what tools act on.  If every execution of a tool of the registry with
  the tier read, a name without the terms of writing, trading and shell tools, and arguments its
  check accepts, keeps a property of the context, then a run keeps it, whatever the model asks for and
  whatever the executions of other tools would do.
\<close>

theorem only_permitted_tools_run:
  assumes "harness_ok h" and "I c"
    and "\<And>name arguments c. permitted env h name arguments \<Longrightarrow> I c \<Longrightarrow> I (snd (ae_execute env name arguments c))"
  shows "I (snd (snd (run_agent env msgs (h, c))))"
proof -
  have "context_kept I env h" using assms(3) by (simp add: context_kept_def)
  then obtain x s where "run_agent env msgs (h, c) = (Inr x, (ag_harness s, ag_context s))"
    "run_over I env h x s"
    by (rule run_agent_over [where I = I, OF assms(1,2)])
  then show ?thesis by (simp add: run_over_def run_result_def loop_inv_phases phases)
qed

section \<open>Witnesses\<close>

text \<open>A model that asks for a tool of each kind; every tool notes its name in the context.\<close>

definition sample_contracts :: "tool_contract dict" where
  "sample_contracts = [(''list_runs'', \<lparr>contract_id = ''list_runs'', contract_risk_tier = ''read''\<rparr>),
     (''place_order'', \<lparr>contract_id = ''place_order'', contract_risk_tier = ''read''\<rparr>),
     (''sync_broker'', \<lparr>contract_id = ''sync_broker'', contract_risk_tier = ''broker_write''\<rparr>)]"

definition sample_harness :: tool_harness where
  "sample_harness = \<lparr>th_run_id = ''r1'', th_policy_mode = POLICY_ENFORCE, th_contracts = sample_contracts,
     th_events = []\<rparr>"

definition ask_for :: "string \<Rightarrow> client_event" where
  "ask_for name = \<lparr>ce_type = ''tool.call'', ce_text = None, ce_tool_name = Some name, ce_arguments = None,
     ce_input_tokens = 0, ce_output_tokens = 0\<rparr>"

definition sample_env :: "string list agent_env" where
  "sample_env = \<lparr>ae_harness = \<lparr>he_stamp = (\<lambda>n. ''t''), he_schema_message = (\<lambda>e. ''invalid''), he_rules = [],
       he_loads = (\<lambda>s. None)\<rparr>,
     ae_budget = default_agent_budget, ae_model = ''m'',
     ae_stream = (\<lambda>n conversation. ([ask_for ''list_runs'', ask_for ''place_order''], None)),
     ae_clock = (\<lambda>n. 0), ae_validate = (\<lambda>name arguments. None),
     ae_execute = (\<lambda>name arguments names. (Inr [], names @ [name])), ae_compact = (\<lambda>d. d),
     ae_dumps = (\<lambda>d. ''{}''), ae_float_text = (\<lambda>r. ''30.0'')\<rparr>"

lemma sample_harness_ok: "harness_ok sample_harness"
  by (simp add: harness_ok_def sample_harness_def sample_contracts_def contract_ok_def)

lemma sample_permitted: "permitted sample_env sample_harness name arguments \<Longrightarrow> name = ''list_runs''"
  by (auto simp: permitted_def sample_harness_def sample_contracts_def AGENT_LOOP_BLOCKED_TOOL_TERMS_def
      normalized_risk_tier_def normalized_tool_id_def or_str_def py_strip_def py_lower_def lower_char_def
      is_space_def replace_char_def has_prefix_def split: if_splits)

lemma sample_execute: "ae_execute sample_env name arguments names = (Inr [], names @ [name])"
  by (simp add: sample_env_def)

theorem run_returns_with_trace_witness:
  "harness_ok sample_harness \<and>
   (case run_agent sample_env [] (sample_harness, []) of
      (Inl e, _) \<Rightarrow> False
    | (Inr x, (h', _)) \<Rightarrow> th_events h' = ar_events x \<and> list_all event_ok (ar_events x))"
  using sample_harness_ok run_returns_with_trace [OF sample_harness_ok, of sample_env "[]" "[]"]
  by (auto simp: sample_harness_def split: sum.splits prod.splits)

theorem run_within_budgets_witness:
  "harness_ok sample_harness \<and>
   (case run_agent sample_env [] (sample_harness, []) of
      (Inl e, _) \<Rightarrow> False
    | (Inr x, _) \<Rightarrow> ar_tool_calls x \<le> 4 \<and> ar_iterations x \<le> 4)"
  using sample_harness_ok run_within_budgets [OF sample_harness_ok, of sample_env "[]" "[]"]
  by (auto simp: sample_env_def default_agent_budget_def split: sum.splits prod.splits)

theorem only_permitted_tools_run_witness:
  "list_all (\<lambda>name. name = ''list_runs'') (snd (snd (run_agent sample_env [] (sample_harness, []))))"
  by (rule only_permitted_tools_run [OF sample_harness_ok])
    (auto dest: sample_permitted simp: sample_execute)

end
