(* ===== verification/Paper_Worker.thy ===== *)
theory Paper_Worker
  imports Streams Context Tool_Runtime Nautilus_Laws
begin

text \<open>
  The worker of the paper-trading runtimes (\<open>server/nautilus_paper_worker.py\<close>), over the repository:
  which runtimes it stops and claims, and how it serves one, reading the command and the market-data
  streams from Redis and handing bars to the execution engine.

  A worker runs beside others, so between two of its calls of the repository anything else may be
  called: \<open>we_others n\<close> is what the others have done to the repository before call \<open>n\<close>.  Arguments
  stand for the clock and the UUIDs (by the number of the call), the Redis client (an answer \<open>None\<close> is
  an exception), the execution engine, the slow period a strategy needs, \<open>json.loads\<close> and the digest.
\<close>

section \<open>Streams\<close>

type_synonym stream_entry = "string \<times> string dict"

definition decode_stream_fields :: "(string \<Rightarrow> json option) \<Rightarrow> string dict \<Rightarrow> json dict" where
  "decode_stream_fields loads entry_fields =
     map (\<lambda>(k, t). (k, case loads t of Some v \<Rightarrow> v | None \<Rightarrow> JStr t)) entry_fields"

definition deterministic_event_key :: "(string \<Rightarrow> string) \<Rightarrow> string \<Rightarrow> string \<Rightarrow> string \<Rightarrow> string" where
  "deterministic_event_key digest runtime_id source_event_id event_type =
     digest (runtime_id @ '':'' @ source_event_id @ '':'' @ event_type)"

text \<open>\<open>value.partition("-")\<close> and the two numbers of a stream id.\<close>

definition stream_id_tuple :: "string \<Rightarrow> int \<times> int" where
  "stream_id_tuple t =
     (let major = takeWhile (\<lambda>c. c \<noteq> CHR ''-'') t;
          minor = drop 1 (dropWhile (\<lambda>c. c \<noteq> CHR ''-'') t)
      in case (py_int_text major, py_int_text (if minor = [] then ''0'' else minor)) of
           (Some a, Some b) \<Rightarrow> (a, b)
         | _ \<Rightarrow> (0, 0))"

definition stream_id_lte :: "string \<Rightarrow> string \<Rightarrow> bool" where
  "stream_id_lte left right \<longleftrightarrow> right = ''+'' \<or>
     (let (a, b) = stream_id_tuple left; (c, d) = stream_id_tuple right in a < c \<or> (a = c \<and> b \<le> d))"

definition LOCAL_NAUTILUS_SOURCE :: string where
  "LOCAL_NAUTILUS_SOURCE = ''nautilus_local_paper''"

record market_message =
  nm_stream_name :: string
  nm_stream_id :: string
  nm_source_event_id :: string
  nm_payload :: "json dict"

type_synonym event_input = "string \<times> payload option \<times> string option"

record native_result =
  nr_events :: "event_input list"
  nr_metrics :: "json dict"

record worker_env =
  we_worker_id :: string
  we_lease_seconds :: int
  we_heartbeat_interval_seconds :: int
  we_event_batch_size :: int
  we_max_runtime_processes :: int
  we_max_strategies_per_runtime :: int
  we_clock :: "nat \<Rightarrow> datetime"
  we_draw :: "nat \<Rightarrow> repo \<Rightarrow> nat \<Rightarrow> string"
  we_others :: "nat \<Rightarrow> repo \<Rightarrow> repo"
  we_xread :: "nat \<Rightarrow> string dict \<Rightarrow> int \<Rightarrow> (string \<times> stream_entry list) list option"
  we_xrevrange :: "nat \<Rightarrow> string \<Rightarrow> string \<Rightarrow> int \<Rightarrow> stream_entry list option"
  we_xrange :: "nat \<Rightarrow> string \<Rightarrow> string \<Rightarrow> stream_entry list option"
  we_native :: "nat \<Rightarrow> nautilus_runtime \<Rightarrow> market_message list \<Rightarrow> py_exc + native_result"
  we_slow_period :: "json dict \<Rightarrow> int option"
  we_loads :: "string \<Rightarrow> json option"
  we_digest :: "string \<Rightarrow> string"
  we_repr :: "json \<Rightarrow> string"

section \<open>Calls of the repository\<close>

record worker_state =
  ws_repo :: repo
  ws_ticks :: nat

definition exc_of :: "py_error \<Rightarrow> py_exc" where
  "exc_of e = (case e of
      KeyError \<Rightarrow> exc ''KeyError'' [] | TypeError \<Rightarrow> exc ''TypeError'' []
    | AttributeError \<Rightarrow> exc ''AttributeError'' [] | ValueError m \<Rightarrow> exc ''ValueError'' m)"

definition lift_error :: "py_error + 'a \<Rightarrow> ('s, 'a) comp" where
  "lift_error r = (case r of Inl e \<Rightarrow> raisex (exc_of e) | Inr x \<Rightarrow> returnx x)"

definition repo_call :: "worker_env \<Rightarrow> (nat \<Rightarrow> repo \<Rightarrow> 'a \<times> repo) \<Rightarrow> (worker_state, 'a) comp" where
  "repo_call env f = (\<lambda>w.
     let n = ws_ticks w; s = we_others env n (ws_repo w); (x, s') = f n s
     in (Inr x, \<lparr>ws_repo = s', ws_ticks = Suc n\<rparr>))"

definition read_ticks :: "(nat \<Rightarrow> (worker_state, 'a) comp) \<Rightarrow> (worker_state, 'a) comp" where
  "read_ticks m = (\<lambda>w. m (ws_ticks w) w)"

definition renew_call :: "worker_env \<Rightarrow> string \<Rightarrow> (worker_state, nautilus_runtime option) comp" where
  "renew_call env nid = repo_call env (\<lambda>n.
     renew_nautilus_runtime_lease (we_clock env n) nid (we_worker_id env) (we_lease_seconds env))"

definition claim_call :: "worker_env \<Rightarrow> string \<Rightarrow> (worker_state, nautilus_runtime option) comp" where
  "claim_call env nid = repo_call env (\<lambda>n.
     claim_nautilus_runtime_lease (we_clock env n) nid (we_worker_id env) (we_lease_seconds env))"

definition release_call :: "worker_env \<Rightarrow> string \<Rightarrow> (worker_state, nautilus_runtime option) comp" where
  "release_call env nid = repo_call env (\<lambda>n.
     release_nautilus_runtime_lease (we_clock env n) nid (we_worker_id env) (Some ''stopped'') None)"

definition append_call ::
  "worker_env \<Rightarrow> string \<Rightarrow> event_input list \<Rightarrow> (worker_state, nautilus_event list option) comp" where
  "append_call env nid events = repo_call env (\<lambda>n s.
     append_nautilus_runtime_events_for_worker (we_clock env n) (we_draw env n s) nid (we_worker_id env) events s)"

definition persist_call :: "worker_env \<Rightarrow> string \<Rightarrow> payload \<Rightarrow> (worker_state, nautilus_runtime option) comp" where
  "persist_call env nid cursor = repo_call env (\<lambda>n.
     persist_nautilus_runtime_stream_cursor (we_clock env n) nid (we_worker_id env) cursor)"

definition heartbeat_call ::
  "worker_env \<Rightarrow> auth_context \<Rightarrow> string \<Rightarrow> payload \<Rightarrow> (worker_state, nautilus_heartbeat option) comp" where
  "heartbeat_call env auth nid payload = bindx (repo_call env (\<lambda>n s.
     record_nautilus_runtime_heartbeat (we_clock env n) (we_draw env n s 0) auth nid (Some payload) None s))
     lift_error"

definition list_call :: "worker_env \<Rightarrow> string \<Rightarrow> (worker_state, nautilus_runtime list) comp" where
  "list_call env desired_state = repo_call env (\<lambda>n s.
     (list_desired_nautilus_runtimes (we_clock env n) ''paper'' desired_state (Some (we_worker_id env))
        (Some (we_max_runtime_processes env)) s, s))"

section \<open>Reading\<close>

definition xread :: "worker_env \<Rightarrow> nat \<Rightarrow> string dict \<Rightarrow> int \<Rightarrow> (string \<times> stream_entry list) list" where
  "xread env n streams count = (case we_xread env n streams count of None \<Rightarrow> [] | Some ms \<Rightarrow> ms)"

definition xrevrange :: "worker_env \<Rightarrow> nat \<Rightarrow> string \<Rightarrow> string \<Rightarrow> int \<Rightarrow> stream_entry list" where
  "xrevrange env n stream max_id count =
     (case we_xrevrange env n stream max_id count of
        Some es \<Rightarrow> es
      | None \<Rightarrow>
          (case we_xrange env n stream max_id of
             None \<Rightarrow> []
           | Some es \<Rightarrow> first_n count (rev (filter (\<lambda>e. stream_id_lte (fst e) max_id) es))))"

definition stream_cursor_of :: "nautilus_runtime \<Rightarrow> payload" where
  "stream_cursor_of runtime = (case nrt_stream_cursor runtime of None \<Rightarrow> [] | Some c \<Rightarrow> c)"

definition last_id_of :: "worker_env \<Rightarrow> nautilus_runtime \<Rightarrow> string \<Rightarrow> string \<Rightarrow> string" where
  "last_id_of env runtime stream first =
     py_str (we_repr env) (json_or (jget (stream_cursor_of runtime) stream) (JStr first))"

text \<open>The events of a command, and those of all commands with the cursor they move.\<close>

definition command_events ::
  "worker_env \<Rightarrow> nautilus_runtime \<Rightarrow> stream_entry \<Rightarrow> event_input list" where
  "command_events env runtime entry =
     (let payload = decode_stream_fields (we_loads env) (snd entry);
          action = py_str (we_repr env) (json_or (jget payload ''action'') (JStr []));
          event = (\<lambda>event_type. (event_type, Some (dict_merge [(''source'', JStr ''command_stream'')] payload),
            Some (deterministic_event_key (we_digest env) (rec_id runtime) (fst entry) action)))
      in if action \<in> {''stop'', ''reload''}
         then [event (if action = ''stop'' then ''stop_requested'' else ''runtime_error'')]
         else if action = ''kill-switch'' then [event ''risk_block'']
         else [])"

definition consume_commands ::
  "worker_env \<Rightarrow> nat \<Rightarrow> nautilus_runtime \<Rightarrow> event_input list \<times> string dict" where
  "consume_commands env n runtime =
     (let stream = runtime_command_stream_key (rec_id runtime);
          entries = concat (map snd (xread env n [(stream, last_id_of env runtime stream ''0-0'')] 10))
      in (concat (map (command_events env runtime) entries),
          if entries = [] then [] else [(stream, fst (last entries))]))"

text \<open>The streams of the subscriptions; one that is not an object or has no key raises.\<close>

fun market_streams :: "(json \<Rightarrow> string) \<Rightarrow> json list \<Rightarrow> string dict \<Rightarrow> py_error + string dict" where
  "market_streams repr_of [] streams = Inr streams"
| "market_streams repr_of (v # vs) streams =
     (case v of
        JObj p \<Rightarrow>
          (case runtime_market_streams repr_of [p] streams of
             Inl e \<Rightarrow> Inl e
           | Inr streams' \<Rightarrow> market_streams repr_of vs streams')
      | _ \<Rightarrow> Inl AttributeError)"

definition market_message_of :: "worker_env \<Rightarrow> string \<Rightarrow> stream_entry \<Rightarrow> market_message" where
  "market_message_of env stream entry =
     (let payload = decode_stream_fields (we_loads env) (snd entry)
      in \<lparr>nm_stream_name = stream, nm_stream_id = fst entry,
          nm_source_event_id = py_str (we_repr env) (json_or (jget payload ''event_id'') (JStr (fst entry))),
          nm_payload = payload\<rparr>)"

definition needs_warmup_backfill :: "json dict \<Rightarrow> py_error + bool" where
  "needs_warmup_backfill metrics = (case jget metrics ''warmup_status'' of
      JList _ \<Rightarrow> Inl TypeError
    | JObj _ \<Rightarrow> Inl TypeError
    | JStr w \<Rightarrow> Inr (w \<in> {''pending'', ''warming_up''})
    | _ \<Rightarrow> Inr False)"

definition nautilus_warmup_bar_count :: "worker_env \<Rightarrow> json dict \<Rightarrow> int option \<Rightarrow> int option" where
  "nautilus_warmup_bar_count env spec override = (case override of
      Some n \<Rightarrow> Some (min (max 1 n) 5000)
    | None \<Rightarrow> map_option (\<lambda>slow. min (max 200 (slow * 3)) 5000) (we_slow_period env spec))"

definition dict_or_empty :: "json \<Rightarrow> json dict" where
  "dict_or_empty v = (case v of JObj d \<Rightarrow> d | _ \<Rightarrow> [])"

text \<open>\<open>isinstance(override, int)\<close> takes a Boolean too.\<close>

definition runtime_warmup_backfill_limit :: "worker_env \<Rightarrow> nautilus_runtime \<Rightarrow> int" where
  "runtime_warmup_backfill_limit env runtime =
     (let manifest = nrt_manifest runtime;
          paper = dict_or_empty (jget manifest ''paper_runtime'');
          override = (case jget paper ''warmup_min_bars'' of
              JInt i \<Rightarrow> Some i | JBool b \<Rightarrow> Some (of_bool b) | _ \<Rightarrow> None)
      in case nautilus_warmup_bar_count env (dict_or_empty (jget manifest ''strategy_spec'')) override of
           None \<Rightarrow> 0
         | Some required \<Rightarrow>
             max 0 (required -
               (case json_or (jget paper ''warmup_bars'') (jget manifest ''warmup_bars'') of
                  JList xs \<Rightarrow> int (length xs) | _ \<Rightarrow> 0)))"

definition closed_bar :: "worker_env \<Rightarrow> stream_entry \<Rightarrow> bool" where
  "closed_bar env entry \<longleftrightarrow>
     py_lower (py_str (we_repr env) (jget (decode_stream_fields (we_loads env) (snd entry)) ''closed''))
       \<in> {''1'', ''true''}"

definition ends_with :: "string \<Rightarrow> string \<Rightarrow> bool" where
  "ends_with s t \<longleftrightarrow> has_prefix (rev t) (rev s)"

definition warmup_backfill_messages ::
  "worker_env \<Rightarrow> nat \<Rightarrow> nautilus_runtime \<Rightarrow> string dict \<Rightarrow> market_message list" where
  "warmup_backfill_messages env n runtime streams =
     (let limit = runtime_warmup_backfill_limit env runtime
      in if limit \<le> 0 then []
         else last_n limit (concat (map (\<lambda>(stream, cursor).
             if \<not> ends_with stream '':bars'' then []
             else map (market_message_of env stream)
               (filter (closed_bar env) (rev (xrevrange env n stream
                 (if cursor \<noteq> [] \<and> cursor \<noteq> ''0-0'' then cursor else ''+'') limit)))) streams)))"

text \<open>The first message of each stream and id.\<close>

definition merge_market_messages ::
  "market_message list \<Rightarrow> market_message list \<Rightarrow> market_message list" where
  "merge_market_messages backfill live =
     first_by (\<lambda>m. (nm_stream_name m, nm_stream_id m)) [] (backfill @ live)"

fun batches_of :: "nat \<Rightarrow> nat \<Rightarrow> 'a list \<Rightarrow> 'a list list" where
  "batches_of 0 n xs = []"
| "batches_of (Suc fuel) n xs = (if xs = [] then [] else take n xs # batches_of fuel n (drop n xs))"

text \<open>\<open>range(0, len(events), batch_size)\<close> raises for 0; each batch takes at least one event.\<close>

definition event_batches :: "event_input list \<Rightarrow> int \<Rightarrow> py_error + event_input list list" where
  "event_batches events batch_size =
     (if batch_size = 0 then Inl (ValueError ''range() arg 3 must not be zero'')
      else if batch_size < 0 then Inr []
      else Inr (batches_of (length events) (nat batch_size) events))"

section \<open>Serving a runtime\<close>

record market_outcome =
  mo_events :: "event_input list"
  mo_cursors :: "string dict"
  mo_metrics :: "json dict"

definition native_call ::
  "worker_env \<Rightarrow> nautilus_runtime \<Rightarrow> market_message list \<Rightarrow> (worker_state, native_result) comp" where
  "native_call env runtime bars = read_ticks (\<lambda>n.
     case we_native env n runtime bars of Inl e \<Rightarrow> raisex e | Inr r \<Rightarrow> returnx r)"

definition consume_market_data ::
  "worker_env \<Rightarrow> nautilus_runtime \<Rightarrow> (worker_state, market_outcome) comp" where
  "consume_market_data env runtime = read_ticks (\<lambda>n.
     bindx (lift_error (market_streams (we_repr env) (nrt_data_subscriptions runtime) [])) (\<lambda>keys.
       let streams = map (\<lambda>(stream, first). (stream, last_id_of env runtime stream first)) keys
       in if streams = [] then
            returnx \<lparr>mo_events = [], mo_cursors = [], mo_metrics = [(''paper_engine'', JStr LOCAL_NAUTILUS_SOURCE)]\<rparr>
          else
            let messages = xread env n streams (we_event_batch_size env);
                cursors = foldl (\<lambda>d (stream, entries).
                  if entries = [] then d else dict_set stream (fst (last entries)) d) [] messages;
                live = concat (map (\<lambda>(stream, entries). map (market_message_of env stream) entries) messages)
            in bindx (native_call env runtime []) (\<lambda>probe.
                 bindx (lift_error (needs_warmup_backfill (nr_metrics probe))) (\<lambda>backfill.
                   let native = (if backfill
                         then merge_market_messages (warmup_backfill_messages env n runtime streams) live
                         else live)
                   in if native = [] then
                        returnx \<lparr>mo_events = nr_events probe, mo_cursors = [], mo_metrics = nr_metrics probe\<rparr>
                      else bindx (native_call env runtime native) (\<lambda>result.
                        returnx \<lparr>mo_events = nr_events result,
                          mo_cursors = (if ''runtime_error'' \<in> set (map fst (nr_events result)) then [] else cursors),
                          mo_metrics = nr_metrics result\<rparr>)))))"

definition persist_cursors ::
  "worker_env \<Rightarrow> nautilus_runtime \<Rightarrow> string dict \<Rightarrow> (worker_state, nautilus_runtime) comp" where
  "persist_cursors env runtime cursors =
     (if cursors = [] then returnx runtime
      else bindx (persist_call env (rec_id runtime)
          (dict_merge (stream_cursor_of runtime) (map (\<lambda>(k, v). (k, JStr v)) cursors)))
        (\<lambda>r. returnx (case r of None \<Rightarrow> runtime | Some updated \<Rightarrow> updated)))"

fun append_batches :: "worker_env \<Rightarrow> string \<Rightarrow> event_input list list \<Rightarrow> (worker_state, unit) comp" where
  "append_batches env nid [] = returnx ()"
| "append_batches env nid (b # bs) = thenx (append_call env nid b) (append_batches env nid bs)"

definition should_heartbeat :: "worker_env \<Rightarrow> nat \<Rightarrow> nautilus_runtime \<Rightarrow> bool \<Rightarrow> bool" where
  "should_heartbeat env n runtime consumed \<longleftrightarrow>
     (case nrt_last_heartbeat_at runtime of
        None \<Rightarrow> True
      | Some t \<Rightarrow> consumed \<or> we_clock env n - t \<ge> seconds (we_heartbeat_interval_seconds env))"

definition stop_events :: "event_input list \<Rightarrow> bool" where
  "stop_events events \<longleftrightarrow> list_ex (\<lambda>e. fst e \<in> {''stop_requested'', ''risk_block''}) events"

text \<open>What a runtime that goes on is served with.\<close>

definition heartbeat_payload ::
  "worker_env \<Rightarrow> nat \<Rightarrow> market_outcome \<Rightarrow> payload" where
  "heartbeat_payload env stream_count market =
     [(''status'', JStr ''ok''),
      (''metrics'', JObj (dict_merge
         [(''worker_id'', JStr (we_worker_id env)), (''paper_engine'', JStr LOCAL_NAUTILUS_SOURCE),
          (''stream_count'', JInt (int stream_count)),
          (''event_batch_size'', JInt (int (length (mo_events market))))] (mo_metrics market)))]"

definition serve_market ::
  "worker_env \<Rightarrow> auth_context \<Rightarrow> nautilus_runtime \<Rightarrow> event_input list \<Rightarrow> string dict
    \<Rightarrow> (worker_state, nautilus_runtime option) comp" where
  "serve_market env auth runtime commands command_cursors =
     bindx (consume_market_data env runtime) (\<lambda>market.
       thenx (if mo_events market = [] then returnx ()
              else bindx (lift_error (event_batches (mo_events market) (we_event_batch_size env)))
                (append_batches env (rec_id runtime)))
         (bindx (persist_cursors env runtime (mo_cursors market)) (\<lambda>runtime.
           read_ticks (\<lambda>n.
             if \<not> should_heartbeat env n runtime
                  (commands \<noteq> [] \<or> command_cursors \<noteq> [] \<or> mo_events market \<noteq> [] \<or> mo_cursors market \<noteq> [])
             then returnx (Some runtime)
             else bindx (lift_error (market_streams (we_repr env) (nrt_data_subscriptions runtime) []))
               (\<lambda>streams. bindx (heartbeat_call env auth (rec_id runtime)
                   (heartbeat_payload env (length streams) market))
                 (\<lambda>h. returnx (Some (case h of None \<Rightarrow> runtime | Some hb \<Rightarrow> hb_runtime hb))))))))"

definition serve_runtime ::
  "worker_env \<Rightarrow> auth_context \<Rightarrow> nautilus_runtime \<Rightarrow> (worker_state, nautilus_runtime option) comp" where
  "serve_runtime env auth runtime = read_ticks (\<lambda>n.
     let (commands, command_cursors) = consume_commands env n runtime
     in thenx (if commands = [] then returnx None else append_call env (rec_id runtime) commands)
          (if stop_events commands then release_call env (rec_id runtime)
           else bindx (persist_cursors env runtime command_cursors) (\<lambda>runtime.
             serve_market env auth runtime commands command_cursors)))"

definition run_runtime ::
  "worker_env \<Rightarrow> nautilus_runtime \<Rightarrow> bool \<Rightarrow> (worker_state, nautilus_runtime option) comp" where
  "run_runtime env runtime already_renewed =
     (let auth = \<lparr>user_id = owner_user_id runtime, auth_workspace_id = workspace_id runtime,
            user_tier = DEFAULT_USER_TIER, auth_role = ''owner''\<rparr>
      in if already_renewed then serve_runtime env auth runtime
         else bindx (renew_call env (rec_id runtime)) (\<lambda>renewed.
           case renewed of None \<Rightarrow> returnx None | Some r \<Rightarrow> serve_runtime env auth r))"

section \<open>A pass of the worker\<close>

fun stop_loop :: "worker_env \<Rightarrow> nautilus_runtime list \<Rightarrow> int \<Rightarrow> (worker_state, int) comp" where
  "stop_loop env [] stopped = returnx stopped"
| "stop_loop env (r # rs) stopped =
     bindx (release_call env (rec_id r)) (\<lambda>released.
       stop_loop env rs (if released = None then stopped else stopped + 1))"

fun claim_loop :: "worker_env \<Rightarrow> nautilus_runtime list \<Rightarrow> int \<Rightarrow> (worker_state, int) comp" where
  "claim_loop env [] claimed = returnx claimed"
| "claim_loop env (r # rs) claimed =
     (if int (length (nrt_strategy_ids r)) > we_max_strategies_per_runtime env then claim_loop env rs claimed
      else bindx (claim_call env (rec_id r)) (\<lambda>lease.
        case lease of
          None \<Rightarrow> claim_loop env rs claimed
        | Some runtime \<Rightarrow> thenx (run_runtime env runtime True) (claim_loop env rs (claimed + 1))))"

definition worker_run_once :: "worker_env \<Rightarrow> (worker_state, int) comp" where
  "worker_run_once env =
     bindx (list_call env ''stopping'') (\<lambda>stop_candidates.
       bindx (stop_loop env stop_candidates 0) (\<lambda>stopped.
         bindx (list_call env ''running'') (\<lambda>candidates.
           bindx (claim_loop env candidates 0) (\<lambda>claimed. returnx (claimed + stopped)))))"

end
