(* ===== verification/Worker_Laws.thy ===== *)
theory Worker_Laws
  imports Paper_Worker Tool_Laws
begin

text \<open>
  Laws of the paper worker: what a property of the repository must keep so that every pass of the
  worker keeps it, whether the pass ends or raises, and with others calling in between.
\<close>

section \<open>Computations that keep a property of the repository\<close>

text \<open>\<open>Q\<close> is what holds of the result.\<close>

definition holds :: "(repo \<Rightarrow> bool) \<Rightarrow> ('a \<Rightarrow> bool) \<Rightarrow> (worker_state, 'a) comp \<Rightarrow> bool" where
  "holds J Q m \<longleftrightarrow> triple (\<lambda>w. J (ws_repo w)) m (\<lambda>x w. J (ws_repo w) \<and> Q x) (\<lambda>_ w. J (ws_repo w))"

abbreviation keeps :: "(repo \<Rightarrow> bool) \<Rightarrow> (worker_state, 'a) comp \<Rightarrow> bool" where
  "keeps J m \<equiv> holds J (\<lambda>_. True) m"

named_theorems keeping \<open>the rules for computations that keep a property\<close>

lemma holdsD: "holds J Q m \<Longrightarrow> J (ws_repo w) \<Longrightarrow> J (ws_repo (snd (m w)))"
  unfolding holds_def by (drule tripleD, assumption) (auto split: prod.splits sum.splits)

lemma holds_weaken: "holds J Q m \<Longrightarrow> (\<And>x. Q x \<Longrightarrow> Q' x) \<Longrightarrow> holds J Q' m"
  unfolding holds_def by (erule triple_conseq) auto

lemma holds_keeps: "holds J Q m \<Longrightarrow> keeps J m"
  by (erule holds_weaken) simp

lemma keeps_returnx [keeping]: "keeps J (returnx x)"
  by (simp add: holds_def triple_def returnx_def)

lemma holds_returnx: "Q x \<Longrightarrow> holds J Q (returnx x)"
  by (simp add: holds_def triple_def returnx_def)

lemma keeps_raisex [keeping]: "holds J Q (raisex e)"
  by (simp add: holds_def triple_def raisex_def)

lemma keeps_lift_error [keeping]: "keeps J (lift_error r)"
  by (cases r) (simp_all add: lift_error_def keeping)

lemma holds_bindx: "holds J Q m \<Longrightarrow> (\<And>x. Q x \<Longrightarrow> holds J Q' (f x)) \<Longrightarrow> holds J Q' (bindx m f)"
  unfolding holds_def by (erule triple_bindx) (auto simp: triple_def)

lemma keeps_bindx [keeping]: "keeps J m \<Longrightarrow> (\<And>x. holds J Q' (f x)) \<Longrightarrow> holds J Q' (bindx m f)"
  by (rule holds_bindx)

lemma keeps_thenx [keeping]: "keeps J m \<Longrightarrow> holds J Q' n \<Longrightarrow> holds J Q' (thenx m n)"
  unfolding thenx_def by (rule keeps_bindx)

lemma keeps_if [keeping]:
  "(c \<Longrightarrow> holds J Q m) \<Longrightarrow> (\<not> c \<Longrightarrow> holds J Q n) \<Longrightarrow> holds J Q (if c then m else n)"
  by simp

lemma keeps_Let [keeping]: "(\<And>x. holds J Q (f x)) \<Longrightarrow> holds J Q (Let a f)"
  by simp

lemma keeps_read_ticks [keeping]: "(\<And>n. holds J Q (m n)) \<Longrightarrow> holds J Q (read_ticks m)"
  by (simp add: holds_def triple_def read_ticks_def)

lemma holds_repo_call:
  assumes "\<And>n s. J s \<Longrightarrow> J (we_others env n s)" "\<And>n s. J s \<Longrightarrow> J (snd (f n s)) \<and> Q (fst (f n s))"
  shows "holds J Q (repo_call env f)"
  unfolding holds_def triple_def
proof (intro allI impI)
  fix w :: worker_state assume "J (ws_repo w)"
  then have "J (we_others env (ws_ticks w) (ws_repo w))" by (rule assms(1))
  then have "J (snd (f (ws_ticks w) (we_others env (ws_ticks w) (ws_repo w)))) \<and>
      Q (fst (f (ws_ticks w) (we_others env (ws_ticks w) (ws_repo w))))" by (rule assms(2))
  then show "case repo_call env f w of (Inl e, w) \<Rightarrow> J (ws_repo w)
      | (Inr x, w) \<Rightarrow> J (ws_repo w) \<and> Q x"
    by (simp add: repo_call_def Let_def split_beta)
qed

lemma keeps_repo_call:
  "(\<And>n s. J s \<Longrightarrow> J (we_others env n s)) \<Longrightarrow> (\<And>n s. J s \<Longrightarrow> J (snd (f n s))) \<Longrightarrow> keeps J (repo_call env f)"
  by (rule holds_repo_call) auto

text \<open>
  The parts of a pass that only append, persist, and beat: \<open>ok\<close> says which runtimes may be served.
\<close>

lemma keeps_native_call [keeping]: "keeps J (native_call env r bars)"
  unfolding native_call_def by (intro keeping) (auto split: sum.split intro: keeping)

lemma keeps_consume_market_data [keeping]: "keeps J (consume_market_data env r)"
  unfolding consume_market_data_def
  by (rule keeps_read_ticks, rule keeps_bindx, rule keeps_lift_error, rule keeps_Let, rule keeps_if,
      rule keeps_returnx, rule keeps_Let, rule keeps_Let, rule keeps_Let, rule keeps_bindx,
      rule keeps_native_call, rule keeps_bindx, rule keeps_lift_error, rule keeps_Let, rule keeps_if,
      rule keeps_returnx, rule keeps_bindx, rule keeps_native_call, rule keeps_returnx)

lemma keeps_append_batches:
  "(\<And>es. keeps J (append_call env nid es)) \<Longrightarrow> keeps J (append_batches env nid bs)"
  by (induction bs) (auto intro: keeping)

text \<open>What a call gives back is the runtime it was made for.\<close>

definition for_runtime :: "string \<Rightarrow> nautilus_runtime option \<Rightarrow> bool" where
  "for_runtime nid r \<longleftrightarrow> (\<forall>x. r = Some x \<longrightarrow> rec_id x = nid)"

lemma holds_persist_cursors:
  assumes "\<And>c. holds J (for_runtime (rec_id r)) (persist_call env (rec_id r) c)"
  shows "holds J (\<lambda>x. rec_id x = rec_id r) (persist_cursors env r cursors)"
proof -
  have pick: "holds J (\<lambda>x. rec_id x = rec_id r)
      (returnx (case u of None \<Rightarrow> r | Some updated \<Rightarrow> updated))" if "for_runtime (rec_id r) u" for u
    using that by (cases u) (simp_all add: for_runtime_def holds_returnx)
  show ?thesis
    unfolding persist_cursors_def
    by (rule keeps_if) (rule holds_returnx, rule refl, rule holds_bindx [OF assms], erule pick)
qed

lemma keeps_serve_market:
  assumes "\<And>es. keeps J (append_call env (rec_id r) es)"
    and "\<And>c. holds J (for_runtime (rec_id r)) (persist_call env (rec_id r) c)"
    and "\<And>p. keeps J (heartbeat_call env auth (rec_id r) p)"
  shows "keeps J (serve_market env auth r cs cc)"
proof -
  have rest: "keeps J (read_ticks (\<lambda>n.
      if \<not> should_heartbeat env n x b then returnx (Some x)
      else bindx (lift_error (market_streams (we_repr env) (nrt_data_subscriptions x) []))
        (\<lambda>streams. bindx (heartbeat_call env auth (rec_id x) (heartbeat_payload env (length streams) market))
          (\<lambda>h. returnx (Some (case h of None \<Rightarrow> x | Some hb \<Rightarrow> hb_runtime hb))))))"
    if "rec_id x = rec_id r" for x b market
    using assms(3) that by (intro keeping) auto
  show ?thesis
    unfolding serve_market_def
    by (intro keeps_bindx keeps_consume_market_data keeps_thenx keeps_if keeps_returnx keeps_lift_error
        keeps_append_batches assms(1) holds_bindx [OF holds_persist_cursors [OF assms(2)]] rest)
qed

lemma keeps_serve_runtime:
  assumes "\<And>es. keeps J (append_call env (rec_id r) es)"
    and "\<And>c. holds J (for_runtime (rec_id r)) (persist_call env (rec_id r) c)"
    and "\<And>p. keeps J (heartbeat_call env auth (rec_id r) p)"
    and "keeps J (release_call env (rec_id r))"
  shows "keeps J (serve_runtime env auth r)"
proof -
  have market: "keeps J (serve_market env auth x cs cc)" if "rec_id x = rec_id r" for x cs cc
    using assms(1-3) that by (intro keeps_serve_market) auto
  show ?thesis
    unfolding serve_runtime_def
    by (intro keeps_read_ticks) (auto simp: split_beta intro!: keeps_thenx keeps_if keeps_returnx assms(1,4)
        holds_bindx [OF holds_persist_cursors [OF assms(2)]] market)
qed

lemma keeps_run_runtime:
  assumes "\<And>es. keeps J (append_call env (rec_id r) es)"
    and "\<And>c. holds J (for_runtime (rec_id r)) (persist_call env (rec_id r) c)"
    and "\<And>auth p. keeps J (heartbeat_call env auth (rec_id r) p)"
    and "keeps J (release_call env (rec_id r))"
  shows "keeps J (run_runtime env r True)"
  using assms by (auto simp: run_runtime_def Let_def intro!: keeps_serve_runtime)

text \<open>
  A pass keeps what its calls keep: \<open>ok\<close> holds of the runtimes that are wanted running, which it may
  claim and serve, \<open>rel\<close> of those that are wanted stopping, which it may release.
\<close>

locale worker_frame =
  fixes J :: "repo \<Rightarrow> bool" and env :: worker_env and ok rel :: "string \<Rightarrow> bool"
  assumes list_stopping: "holds J (list_all (\<lambda>r. rel (rec_id r))) (list_call env ''stopping'')"
    and list_running: "holds J (list_all (\<lambda>r. ok (rec_id r))) (list_call env ''running'')"
    and releases: "rel nid \<or> ok nid \<Longrightarrow> keeps J (release_call env nid)"
    and claims: "ok nid \<Longrightarrow> holds J (for_runtime nid) (claim_call env nid)"
    and appends: "keeps J (append_call env nid es)"
    and persists: "ok nid \<Longrightarrow> holds J (for_runtime nid) (persist_call env nid c)"
    and beats: "ok nid \<Longrightarrow> keeps J (heartbeat_call env auth nid p)"
begin

lemma claim_loop: "list_all (\<lambda>r. ok (rec_id r)) rs \<Longrightarrow> keeps J (claim_loop env rs n)"
proof (induction rs arbitrary: n)
  case (Cons r rs)
  then have ok: "ok (rec_id r)" and rest: "\<And>n. keeps J (claim_loop env rs n)" by simp_all
  have "keeps J (case l of None \<Rightarrow> claim_loop env rs n
      | Some x \<Rightarrow> thenx (run_runtime env x True) (claim_loop env rs (n + 1)))"
    if "for_runtime (rec_id r) l" for l
    using that ok rest
    by (cases l) (auto simp: for_runtime_def
        intro!: keeps_thenx keeps_run_runtime appends persists beats releases)
  from holds_bindx [OF claims [OF ok] this] rest show ?case
    by (simp only: claim_loop.simps split: if_split) simp
qed (simp add: keeping)

lemma stop_loop: "list_all (\<lambda>r. rel (rec_id r)) rs \<Longrightarrow> keeps J (stop_loop env rs n)"
  by (induction rs arbitrary: n) (auto intro!: keeps_bindx keeps_returnx releases)

lemma claim_part:
  "keeps J (bindx (list_call env ''running'') (\<lambda>candidates.
     bindx (claim_loop env candidates 0) (\<lambda>claimed. returnx (claimed + stopped))))"
  by (rule holds_bindx, rule list_running, rule keeps_bindx, erule claim_loop, rule keeps_returnx)

lemma worker_pass: "keeps J (worker_run_once env)"
  unfolding worker_run_once_def
  by (rule holds_bindx, rule list_stopping, rule keeps_bindx, erule stop_loop, rule claim_part)

end

section \<open>What the calls keep\<close>

lemma claim_for_runtime: "nrt_inv s \<Longrightarrow> for_runtime nid (fst (claim_nautilus_runtime_lease t nid w l s))"
  by (auto simp: for_runtime_def claim_nautilus_runtime_lease_def Let_def dest: keyed_id [OF nrt_invD(1)]
      split: option.splits if_splits)

lemma persist_for_runtime: "nrt_inv s \<Longrightarrow> for_runtime nid (fst (persist_nautilus_runtime_stream_cursor t nid w c s))"
  by (auto simp: for_runtime_def persist_nautilus_runtime_stream_cursor_def Let_def dest: keyed_id [OF nrt_invD(1)]
      split: option.splits if_splits)

text \<open>It is enough that every operation of the repository that is called keeps the property.\<close>

lemma worker_frameI:
  assumes J: "\<And>s. J s \<Longrightarrow> nrt_inv s"
    and others: "\<And>n s. J s \<Longrightarrow> J (we_others env n s)"
    and stopping: "\<And>t s r. J s \<Longrightarrow> r \<in> set (list_desired_nautilus_runtimes t ''paper'' ''stopping''
        (Some (we_worker_id env)) (Some (we_max_runtime_processes env)) s) \<Longrightarrow> rel (rec_id r)"
    and running: "\<And>t s r. J s \<Longrightarrow> r \<in> set (list_desired_nautilus_runtimes t ''paper'' ''running''
        (Some (we_worker_id env)) (Some (we_max_runtime_processes env)) s) \<Longrightarrow> ok (rec_id r)"
    and release: "\<And>nid t s. rel nid \<or> ok nid \<Longrightarrow> J s \<Longrightarrow>
        J (snd (release_nautilus_runtime_lease t nid (we_worker_id env) (Some ''stopped'') None s))"
    and claim: "\<And>nid t s. ok nid \<Longrightarrow> J s \<Longrightarrow>
        J (snd (claim_nautilus_runtime_lease t nid (we_worker_id env) (we_lease_seconds env) s))"
    and append: "\<And>nid n es s. J s \<Longrightarrow>
        J (snd (append_nautilus_runtime_events_for_worker (we_clock env n) (we_draw env n s) nid (we_worker_id env) es s))"
    and persist: "\<And>nid t c s. ok nid \<Longrightarrow> J s \<Longrightarrow>
        J (snd (persist_nautilus_runtime_stream_cursor t nid (we_worker_id env) c s))"
    and beat: "\<And>nid n auth p s. ok nid \<Longrightarrow> J s \<Longrightarrow>
        J (snd (record_nautilus_runtime_heartbeat (we_clock env n) (we_draw env n s 0) auth nid (Some p) None s))"
  shows "worker_frame J env ok rel"
proof (unfold_locales, goal_cases)
  case 1
  show ?case unfolding list_call_def
    by (rule holds_repo_call, erule others) (auto simp: list_all_iff intro: stopping)
next
  case 2
  show ?case unfolding list_call_def
    by (rule holds_repo_call, erule others) (auto simp: list_all_iff intro: running)
next
  case (3 nid)
  then show ?case unfolding release_call_def by (intro keeps_repo_call others release)
next
  case (4 nid)
  then show ?case unfolding claim_call_def
    by (intro holds_repo_call others conjI claim claim_for_runtime J)
next
  case (5 nid es)
  show ?case unfolding append_call_def by (intro keeps_repo_call others append)
next
  case (6 nid c)
  then show ?case unfolding persist_call_def
    by (intro holds_repo_call others conjI persist persist_for_runtime J)
next
  case (7 nid auth p)
  then show ?case unfolding heartbeat_call_def
    by (intro keeps_bindx keeps_repo_call others beat keeps_lift_error)
qed

end
