(* ===== verification/Worker_Runs.thy ===== *)
theory Worker_Runs
  imports Worker_Laws
begin

text \<open>
  What passes of workers do to the runtimes: every pass is a sequence of worker steps, a runtime that a
  worker holds is stopped by its pass, and what keeps runtimes from ever being stopped.
\<close>

text \<open>The passes of some workers, one after the other; a pass that raises is over.\<close>

definition run_passes :: "worker_env list \<Rightarrow> worker_state \<Rightarrow> worker_state" where
  "run_passes envs w = fold (\<lambda>env w. snd (worker_run_once env w)) envs w"

lemma run_passes_keep:
  assumes "list_all (\<lambda>env. \<exists>ok rel. worker_frame J env ok rel) envs" "J (ws_repo w)"
  shows "J (ws_repo (run_passes envs w))"
  using assms
proof (induction envs arbitrary: w)
  case (Cons env envs)
  then obtain ok rel where "worker_frame J env ok rel" by auto
  from holdsD [OF worker_frame.worker_pass [OF this] Cons.prems(2)] Cons
  show ?case by (simp add: run_passes_def)
qed (simp add: run_passes_def)

text \<open>
  Drawn UUIDs are new and distinct, and the others only do what workers and redeployments do.
\<close>

definition draws_fresh :: "worker_env \<Rightarrow> bool" where
  "draws_fresh env \<longleftrightarrow> (\<forall>n s. inj (we_draw env n s) \<and> (\<forall>i. unused_event (opaque_id ''nevt'' (we_draw env n s i)) s))"

lemma draws_freshD:
  "draws_fresh env \<Longrightarrow> inj (we_draw env n s)"
  "draws_fresh env \<Longrightarrow> unused_event (opaque_id ''nevt'' (we_draw env n s i)) s"
  by (simp_all add: draws_fresh_def)

section \<open>A pass is a sequence of worker steps\<close>

lemma worker_steps_frame:
  assumes fresh: "draws_fresh env" and others: "\<And>n s. worker_step\<^sup>*\<^sup>* s (we_others env n s)"
    and s0: "nrt_inv s0"
  shows "worker_frame (worker_step\<^sup>*\<^sup>* s0) env (\<lambda>_. True) (\<lambda>_. True)"
proof (rule worker_frameI, goal_cases)
  case (1 s)
  then show ?case using s0 by (induction) (auto intro: worker_step_inv)
next
  case (2 s n)
  then show ?case using others by (rule rtranclp_trans)
next
  case (5 nid t s)
  show ?case
    by (rule rtranclp.rtrancl_into_rtrancl, rule 5(2), rule worker_step.release) (simp add: halting_states_def)
next
  case (7 nid n es s)
  show ?case
    by (rule rtranclp.rtrancl_into_rtrancl, rule 7, rule worker_step.report) (rule draws_freshD [OF fresh])+
next
  case (9 nid n auth p s)
  show ?case
    by (rule rtranclp.rtrancl_into_rtrancl, rule 9, rule worker_step.beat) (rule draws_freshD [OF fresh])
qed (auto intro: rtranclp.rtrancl_into_rtrancl worker_step.intros simp: halting_states_def)

lemma pass_worker_steps:
  assumes "draws_fresh env" "\<And>n s. worker_step\<^sup>*\<^sup>* s (we_others env n s)" "nrt_inv (ws_repo w)"
  shows "worker_step\<^sup>*\<^sup>* (ws_repo w) (ws_repo (snd (worker_run_once env w)))"
  by (rule holdsD [OF worker_frame.worker_pass [OF worker_steps_frame [OF assms]]]) simp

section \<open>Runtimes that are wanted stopping\<close>

abbreviation wants_stop :: "nautilus_runtime \<Rightarrow> bool" where
  "wants_stop r \<equiv> nrt_desired_state r = ''stopping''"

definition stop_rows :: "repo \<Rightarrow> nautilus_runtime dict" where
  "stop_rows s = dict_filter wants_stop (nautilus_runtimes s)"

lemma get_stop_rows:
  "nrt_inv s \<Longrightarrow> dict_get (stop_rows s) k = (case dict_get (nautilus_runtimes s) k of None \<Rightarrow> None
     | Some r \<Rightarrow> if wants_stop r then Some r else None)"
  using nrt_invD(1) by (auto simp: stop_rows_def keyed_def dict_get_filter)

text \<open>A change of a runtime that is not wanted stopping, and is not after it.\<close>

lemma stop_rows_set:
  assumes "nrt_inv s" "dict_get (stop_rows s) k = None" "\<not> wants_stop r"
  shows "stop_rows (s\<lparr>nautilus_runtimes := dict_set k r (nautilus_runtimes s)\<rparr>) = stop_rows s"
proof -
  have "\<not> wants_stop v" if "dict_get (nautilus_runtimes s) k = Some v" for v
    using assms(2) that by (simp add: get_stop_rows [OF assms(1)] split: if_splits)
  with assms(3) show ?thesis by (simp add: stop_rows_def dict_filter_set_other)
qed

lemma stop_list_rows:
  "list_desired_nautilus_runtimes t mode ''stopping'' w limit s =
     first_n (bounded_nautilus_limit limit) (py_sorted runtime_order_key
       (filter (\<lambda>r. runtime_wanted mode ''stopping'' r
          \<and> ((case nrt_lease_until r of None \<Rightarrow> True | Some u \<Rightarrow> u < t) \<or> (w \<noteq> None \<and> nrt_worker_id r = w)))
         (dict_values (stop_rows s))))"
  by (simp add: list_desired_nautilus_runtimes_def stop_rows_def dict_filter_def dict_values_def filter_map
      runtime_wanted_def comp_def conj_commute conj_left_commute)

text \<open>Operations on a runtime that is not wanted stopping leave those that are as they are.\<close>

lemma release_stop_rows:
  assumes "nrt_inv s" "dict_get (stop_rows s) k = None"
  shows "stop_rows (snd (release_nautilus_runtime_lease t k w st err s)) = stop_rows s"
  using assms keyed_id [OF nrt_invD(1) [OF assms(1)], of k]
  by (auto simp: release_nautilus_runtime_lease_def Let_def get_stop_rows [OF assms(1)]
      split: option.splits if_splits intro!: stop_rows_set [OF assms(1)])

lemma claim_stop_rows:
  assumes "nrt_inv s" "dict_get (stop_rows s) k = None"
  shows "stop_rows (snd (claim_nautilus_runtime_lease t k w l s)) = stop_rows s"
  using assms keyed_id [OF nrt_invD(1) [OF assms(1)], of k]
  by (auto simp: claim_nautilus_runtime_lease_def Let_def get_stop_rows [OF assms(1)]
      split: option.splits if_splits intro!: stop_rows_set [OF assms(1)])

lemma persist_stop_rows:
  assumes "nrt_inv s" "dict_get (stop_rows s) k = None"
  shows "stop_rows (snd (persist_nautilus_runtime_stream_cursor t k w c s)) = stop_rows s"
  using assms keyed_id [OF nrt_invD(1) [OF assms(1)], of k]
  by (auto simp: persist_nautilus_runtime_stream_cursor_def Let_def get_stop_rows [OF assms(1)]
      split: option.splits if_splits intro!: stop_rows_set [OF assms(1)])

lemma heartbeat_stop_rows:
  assumes inv: "nrt_inv s" and free: "dict_get (stop_rows s) k = None"
    and fresh: "unused_event (opaque_id ''nevt'' uuid) s"
  shows "stop_rows (snd (record_nautilus_runtime_heartbeat t uuid auth k p idem s)) = stop_rows s"
proof (cases rule: record_heartbeat_cases [of auth k s t uuid p idem])
  case (recorded rt st s1 h)
  have rt: "dict_get (nautilus_runtimes s) k = Some rt" "rec_id rt = k"
    using nrt.fetch_stored [OF recorded(1)] nrt.fetch_id [OF nrt_invD(1) [OF inv] recorded(1)]
    by simp_all
  have rows: "nautilus_runtimes s1 = nautilus_runtimes s" by (simp add: recorded(3))
  then have "stop_rows s1 = stop_rows s" by (simp add: stop_rows_def)
  moreover have "nrt_inv s1"
    using append_nautilus_event_inv [OF inv _ fresh] inv rt recorded(3) by auto
  ultimately show ?thesis
    unfolding recorded(4) snd_conv
    using free rt by (subst stop_rows_set) (auto simp: get_stop_rows [OF inv] recorded(5) split: if_splits)
qed auto

lemma append_stop_rows [simp]:
  "stop_rows (snd (append_nautilus_runtime_events_for_worker t draw k w es s)) = stop_rows s"
  by (simp add: stop_rows_def)

text \<open>A release by a worker that does not hold the runtime changes nothing.\<close>

lemma release_refused:
  "dict_get (nautilus_runtimes s) k = Some r \<Longrightarrow> nrt_worker_id r \<noteq> Some w \<Longrightarrow>
     release_nautilus_runtime_lease t k w st err s = (None, s)"
  by (simp add: release_nautilus_runtime_lease_def)

section \<open>Runtimes that are never stopped\<close>

text \<open>
  The runtimes a worker is given to stop, at any time: those of its list that are due, at most as many
  as it may run.
\<close>

definition nothing_to_release :: "worker_env \<Rightarrow> repo \<Rightarrow> bool" where
  "nothing_to_release env s \<longleftrightarrow> (\<forall>t. list_all (\<lambda>r. nrt_worker_id r \<noteq> Some (we_worker_id env))
     (list_desired_nautilus_runtimes t ''paper'' ''stopping'' (Some (we_worker_id env))
        (Some (we_max_runtime_processes env)) s))"

lemma desired_stored:
  "nrt_inv s \<Longrightarrow> r \<in> set (list_desired_nautilus_runtimes t mode d w limit s) \<Longrightarrow>
     dict_get (nautilus_runtimes s) (rec_id r) = Some r \<and> nrt_desired_state r = d"
  by (auto simp: list_desired_nautilus_runtimes_def first_n_def runtime_wanted_def keyed_value [OF nrt_invD(1)]
      dest!: in_set_takeD)

lemma nothing_to_release_frame:
  assumes fresh: "draws_fresh env" and none: "nothing_to_release env s0"
    and others: "\<And>n s. nrt_inv s \<Longrightarrow> nrt_inv (we_others env n s) \<and> stop_rows (we_others env n s) = stop_rows s"
  shows "worker_frame (\<lambda>s. nrt_inv s \<and> stop_rows s = stop_rows s0) env
    (\<lambda>k. dict_get (stop_rows s0) k = None)
    (\<lambda>k. \<exists>r. dict_get (stop_rows s0) k = Some r \<and> nrt_worker_id r \<noteq> Some (we_worker_id env))"
proof (rule worker_frameI, goal_cases)
  case (3 t s r)
  then have inv: "nrt_inv s" and rows: "stop_rows s = stop_rows s0" by simp_all
  from 3(2) have "r \<in> set (list_desired_nautilus_runtimes t ''paper'' ''stopping''
      (Some (we_worker_id env)) (Some (we_max_runtime_processes env)) s0)"
    by (simp only: stop_list_rows rows)
  then have "nrt_worker_id r \<noteq> Some (we_worker_id env)"
    using none unfolding nothing_to_release_def list_all_iff by blast
  moreover have "dict_get (stop_rows s) (rec_id r) = Some r"
    using desired_stored [OF inv 3(2)] by (simp add: get_stop_rows [OF inv])
  ultimately show ?case by (simp add: rows)
next
  case (4 t s r)
  then have inv: "nrt_inv s" and rows: "stop_rows s = stop_rows s0" by simp_all
  have "dict_get (stop_rows s) (rec_id r) = None"
    using desired_stored [OF inv 4(2)] by (simp add: get_stop_rows [OF inv])
  then show ?case by (simp only: rows)
next
  case (5 k t s)
  show ?case
  proof (cases "dict_get (stop_rows s) k")
    case None
    with 5 show ?thesis by (auto simp: release_stop_rows runtime_field_ops_inv)
  next
    case (Some r)
    then have "dict_get (nautilus_runtimes s) k = Some r"
      by (simp add: get_stop_rows [OF 5(2) [THEN conjunct1]] split: option.splits if_splits)
    moreover have "nrt_worker_id r \<noteq> Some (we_worker_id env)" using 5 Some by auto
    ultimately have "release_nautilus_runtime_lease t k (we_worker_id env) (Some ''stopped'') None s = (None, s)"
      by (rule release_refused)
    then show ?thesis using 5(2) by (simp only: snd_conv)
  qed
next
  case (7 nid n es s)
  then show ?case using append_ops_inv(2) draws_freshD [OF fresh] by auto
next
  case (9 nid n auth p s)
  then show ?case
    using heartbeat_stop_rows record_heartbeat_inv draws_freshD(2) [OF fresh] by auto
qed (use others in \<open>auto simp: claim_stop_rows persist_stop_rows runtime_field_ops_inv\<close>)

section \<open>A runtime that its worker stops\<close>

text \<open>An operation on another runtime, and a release by the holder.\<close>

lemma release_at:
  assumes "nrt_inv s" "runtime_at P k s" "nid \<noteq> k \<or> (\<forall>r. P r \<longrightarrow> nrt_worker_id r \<noteq> Some w)"
  shows "runtime_at P k (snd (release_nautilus_runtime_lease t nid w st err s))"
  using assms(2,3) keyed_id [OF nrt_invD(1) [OF assms(1)], of nid]
  by (auto simp: release_nautilus_runtime_lease_def Let_def runtime_at_def split: option.split)

lemma claim_at:
  "nrt_inv s \<Longrightarrow> runtime_at P k s \<Longrightarrow> nid \<noteq> k \<Longrightarrow>
     runtime_at P k (snd (claim_nautilus_runtime_lease t nid w l s))"
  using keyed_id [OF nrt_invD(1), of s nid]
  by (auto simp: claim_nautilus_runtime_lease_def Let_def runtime_at_def split: option.split)

lemma persist_at:
  "nrt_inv s \<Longrightarrow> runtime_at P k s \<Longrightarrow> nid \<noteq> k \<Longrightarrow>
     runtime_at P k (snd (persist_nautilus_runtime_stream_cursor t nid w c s))"
  using keyed_id [OF nrt_invD(1), of s nid]
  by (auto simp: persist_nautilus_runtime_stream_cursor_def Let_def runtime_at_def split: option.split)

lemma heartbeat_at:
  assumes inv: "nrt_inv s" and at: "runtime_at P k s" and other: "nid \<noteq> k"
  shows "runtime_at P k (snd (record_nautilus_runtime_heartbeat t uuid auth nid p idem s))"
proof (cases rule: record_heartbeat_cases [of auth nid s t uuid p idem])
  case (recorded rt st s1 h)
  have "rec_id rt = nid" using nrt.fetch_id [OF nrt_invD(1) [OF inv] recorded(1)] .
  moreover have "nautilus_runtimes s1 = nautilus_runtimes s" by (simp add: recorded(3))
  ultimately show ?thesis using at other by (auto simp: recorded(4) runtime_at_def)
qed (use at in auto)

lemma release_owned:
  assumes "nrt_inv s" "runtime_at (\<lambda>r. wants_stop r \<and> nrt_worker_id r = Some w) k s"
  shows "runtime_at (\<lambda>r. wants_stop r \<and> nrt_worker_id r = None \<and> nrt_state r = ''stopped'') k
    (snd (release_nautilus_runtime_lease t k w (Some ''stopped'') None s))"
  using assms(2) keyed_id [OF nrt_invD(1) [OF assms(1)], of k]
  by (auto simp: release_nautilus_runtime_lease_def Let_def runtime_at_def or_str_def)

text \<open>What passes keep of a runtime that is wanted stopping, while the others leave it alone.\<close>

lemma runtime_at_frame:
  assumes fresh: "draws_fresh env"
    and others: "\<And>n s. nrt_inv s \<Longrightarrow> nrt_inv (we_others env n s) \<and>
      dict_get (nautilus_runtimes (we_others env n s)) k = dict_get (nautilus_runtimes s) k"
    and P: "\<And>r. P r \<Longrightarrow> wants_stop r \<and> nrt_worker_id r \<noteq> Some (we_worker_id env)"
  shows "worker_frame (\<lambda>s. nrt_inv s \<and> runtime_at P k s) env (\<lambda>n. n \<noteq> k) (\<lambda>_. True)"
proof (rule worker_frameI, goal_cases)
  case (2 s n)
  then show ?case using others by (auto simp: runtime_at_def)
next
  case (4 t s r)
  then have inv: "nrt_inv s" and at: "runtime_at P k s" by simp_all
  from desired_stored [OF inv 4(2)] at P show ?case by (auto simp: runtime_at_def)
next
  case (5 nid t s)
  then show ?case using P by (auto simp: release_at runtime_field_ops_inv)
next
  case (7 nid n es s)
  then show ?case using append_ops_inv(2) draws_freshD [OF fresh] by (auto simp: runtime_at_def)
next
  case (9 nid n auth p s)
  then show ?case using heartbeat_at record_heartbeat_inv draws_freshD(2) [OF fresh] by auto
qed (auto simp: claim_at persist_at runtime_field_ops_inv)

abbreviation wants_stop_by :: "string \<Rightarrow> nautilus_runtime \<Rightarrow> bool" where
  "wants_stop_by w \<equiv> \<lambda>r. wants_stop r \<and> nrt_worker_id r = Some w"

abbreviation stopped_free :: "nautilus_runtime \<Rightarrow> bool" where
  "stopped_free \<equiv> \<lambda>r. wants_stop r \<and> nrt_worker_id r = None \<and> nrt_state r = ''stopped''"

locale stopping_worker =
  fixes env :: worker_env and k :: string
  assumes fresh: "draws_fresh env"
    and others_inv: "nrt_inv s \<Longrightarrow> nrt_inv (we_others env n s)"
    and others_row: "nrt_inv s \<Longrightarrow>
      dict_get (nautilus_runtimes (we_others env n s)) k = dict_get (nautilus_runtimes s) k"
begin

abbreviation owned :: "repo \<Rightarrow> bool" where
  "owned s \<equiv> nrt_inv s \<and> runtime_at (wants_stop_by (we_worker_id env)) k s"

abbreviation freed :: "repo \<Rightarrow> bool" where
  "freed s \<equiv> nrt_inv s \<and> runtime_at stopped_free k s"

lemma freed_frame: "worker_frame freed env (\<lambda>n. n \<noteq> k) (\<lambda>_. True)"
  using others_inv others_row by (intro runtime_at_frame fresh) auto

lemma others_owned: "owned s \<Longrightarrow> owned (we_others env n s)"
  using others_inv others_row by (simp add: runtime_at_def)

lemma release_step:
  assumes "owned (ws_repo w)"
  obtains x w' where "release_call env nid w = (Inr x, w')"
    "if nid = k then freed (ws_repo w') else owned (ws_repo w')"
proof -
  let ?s = "we_others env (ws_ticks w) (ws_repo w)"
  let ?r = "release_nautilus_runtime_lease (we_clock env (ws_ticks w)) nid (we_worker_id env) (Some ''stopped'') None ?s"
  have s: "owned ?s" using assms by (rule others_owned)
  have "if nid = k then freed (snd ?r) else owned (snd ?r)"
    using s release_owned [of ?s "we_worker_id env" k] release_at [of ?s _ k nid] runtime_field_ops_inv(6)
    by auto
  then show thesis
    by (intro that [of "fst ?r" "\<lparr>ws_repo = snd ?r, ws_ticks = Suc (ws_ticks w)\<rparr>"])
      (auto simp: release_call_def repo_call_def Let_def split_beta)
qed

lemma release_answers: obtains x w' where "release_call env nid w = (Inr x, w')"
  by (auto simp: release_call_def repo_call_def Let_def split_beta)

lemma stop_loop_answers: obtains x w' where "stop_loop env rs n w = (Inr x, w')"
proof (induction rs arbitrary: n w thesis)
  case (Cons r rs)
  obtain x w' where "release_call env (rec_id r) w = (Inr x, w')" by (rule release_answers)
  with Cons.IH [of "if x = None then n else n + 1" w'] Cons.prems show ?case by (auto simp: bindx_def)
qed (auto simp: returnx_def)

lemma stop_loop_frees:
  "owned (ws_repo w) \<Longrightarrow> k \<in> rec_id ` set rs \<Longrightarrow> freed (ws_repo (snd (stop_loop env rs n w)))"
proof (induction rs arbitrary: n w)
  case (Cons r rs)
  obtain x w' where step: "release_call env (rec_id r) w = (Inr x, w')"
    "if rec_id r = k then freed (ws_repo w') else owned (ws_repo w')"
    using Cons.prems(1) by (rule release_step)
  have "keeps freed (stop_loop env rs m)" for m
    by (rule worker_frame.stop_loop [OF freed_frame]) (simp add: list_all_iff)
  from holdsD [OF this] have later: "freed (ws_repo w') \<Longrightarrow> freed (ws_repo (snd (stop_loop env rs m w')))" for m .
  show ?case
    using step Cons later by (cases "rec_id r = k") (auto simp: bindx_def)
qed simp

lemma pass_frees:
  assumes "owned (ws_repo w)"
    and listed: "k \<in> rec_id ` set (list_desired_nautilus_runtimes (we_clock env (ws_ticks w)) ''paper'' ''stopping''
      (Some (we_worker_id env)) (Some (we_max_runtime_processes env)) (we_others env (ws_ticks w) (ws_repo w)))"
  shows "freed (ws_repo (snd (worker_run_once env w)))"
proof -
  let ?s = "we_others env (ws_ticks w) (ws_repo w)"
  let ?rs = "list_desired_nautilus_runtimes (we_clock env (ws_ticks w)) ''paper'' ''stopping''
      (Some (we_worker_id env)) (Some (we_max_runtime_processes env)) ?s"
  let ?w = "\<lparr>ws_repo = ?s, ws_ticks = Suc (ws_ticks w)\<rparr>"
  obtain n w' where loop: "stop_loop env ?rs 0 ?w = (Inr n, w')" by (rule stop_loop_answers)
  have "owned (ws_repo ?w)" using others_owned [OF assms(1)] by simp
  from stop_loop_frees [OF this listed, of 0] have "freed (ws_repo w')" by (simp only: loop snd_conv)
  from holdsD [OF worker_frame.claim_part [OF freed_frame] this, of n]
  show ?thesis
    by (simp add: worker_run_once_def list_call_def repo_call_def Let_def bindx_def loop)
qed

end

end
