(* ===== verification/Worker_Claims.thy ===== *)
theory Worker_Claims
  imports Worker_Runs Nautilus_Claims
begin

text \<open>
  What the paper worker guarantees and where it gets stuck, with a worker that runs alone and a
  repository on which each statement is run.
\<close>

section \<open>A worker that runs alone\<close>

text \<open>UUIDs longer than every id in the logs.\<close>

definition long_draw :: "nat \<Rightarrow> repo \<Rightarrow> nat \<Rightarrow> string" where
  "long_draw n s i = replicate (sum_list (map (\<lambda>(k, es). sum_list (map (\<lambda>e. length (rec_id e)) es))
     (nautilus_events s)) + i) (CHR ''x'')"

definition alone :: "worker_env \<Rightarrow> worker_env" where
  "alone env = env\<lparr>we_draw := long_draw, we_others := \<lambda>n s. s\<rparr>"

lemma alone_simps [simp]:
  "we_draw (alone env) = long_draw" "we_others (alone env) n s = s"
  "we_worker_id (alone env) = we_worker_id env"
  "we_max_runtime_processes (alone env) = we_max_runtime_processes env"
  "we_clock (alone env) = we_clock env"
  by (simp_all add: alone_def)

lemma long_draw_unused: "unused_event (opaque_id ''nevt'' (long_draw n s i)) s"
  unfolding unused_event_def
proof (intro allI ballI notI)
  fix k e assume e: "e \<in> set (nrt_log s k)" and i: "rec_id e = opaque_id ''nevt'' (long_draw n s i)"
  obtain es where es: "(k, es) \<in> set (nautilus_events s)" "e \<in> set es"
    using e by (cases "dict_get (nautilus_events s) k") (auto simp: nrt_log_def log_of_def dest: map_of_SomeD)
  let ?l = "\<lambda>es. sum_list (map (\<lambda>e. length (rec_id e)) es)"
  have "length (rec_id e) \<le> ?l es" using es(2) by (intro member_le_sum_list) auto
  also have "\<dots> \<le> sum_list (map (\<lambda>(k, es). ?l es) (nautilus_events s))"
    using es(1) by (intro member_le_sum_list) (auto intro: rev_image_eqI [of "(k, es)"])
  finally show False by (simp add: i opaque_id_def long_draw_def)
qed

lemma alone_fresh: "draws_fresh (alone env)"
proof -
  have "inj (long_draw n s)" for n s
    by (rule injI) (auto simp: long_draw_def dest: arg_cong [of _ _ length])
  then show ?thesis by (simp add: draws_fresh_def long_draw_unused)
qed

interpretation lone: worker_frame nrt_inv "alone env" "\<lambda>_. True" "\<lambda>_. True" for env
proof (rule worker_frameI, goal_cases)
  case (7 nid n es s)
  then show ?case using draws_freshD [OF alone_fresh] by (intro append_ops_inv(2)) auto
next
  case (9 nid n auth p s)
  then show ?case using draws_freshD(2) [OF alone_fresh] by (intro record_heartbeat_inv) auto
qed (auto simp: runtime_field_ops_inv)

interpretation lone_stop: stopping_worker "alone env" k for env k
  by unfold_locales (auto simp: alone_fresh)

text \<open>Two runtimes wanted stopping: no worker has ever held the older one, \<open>w1\<close> holds the other.\<close>

definition stuck_repo :: repo where
  "stuck_repo =
     (let stop = (\<lambda>t k s. snd (set_nautilus_runtime_desired_state t alice k ''stopping''
            (snd (set_nautilus_runtime_state t alice k ''stopping'' s))));
          s = stop (minutes 1) ''nrt_a'' nrt_repo;
          s = snd (upsert_nautilus_runtime (minutes 2) ''b'' alice ''key2'' ''broker'' ''acct'' ''paper'' ''risk''
            ''strat'' [] [] s)
      in stop (minutes 4) ''nrt_b'' (snd (claim_nautilus_runtime_lease (minutes 3) ''nrt_b'' ''w1'' 60 s)))"

definition lone_worker :: "string \<Rightarrow> int \<Rightarrow> worker_env" where
  "lone_worker w n = alone \<lparr>we_worker_id = w, we_lease_seconds = 60, we_heartbeat_interval_seconds = 15,
     we_event_batch_size = 100, we_max_runtime_processes = n, we_max_strategies_per_runtime = 20,
     we_clock = \<lambda>n. minutes 5 + seconds (int n), we_draw = \<lambda>_ _ _. [], we_others = \<lambda>_ s. s,
     we_xread = \<lambda>_ _ _. None, we_xrevrange = \<lambda>_ _ _ _. None, we_xrange = \<lambda>_ _ _. None,
     we_native = \<lambda>_ _ _. Inr \<lparr>nr_events = [], nr_metrics = []\<rparr>, we_slow_period = \<lambda>_. None,
     we_loads = \<lambda>_. None, we_digest = \<lambda>t. t, we_repr = \<lambda>_. []\<rparr>"

lemma lone_worker_simps [simp]:
  "we_worker_id (lone_worker w n) = w" "we_max_runtime_processes (lone_worker w n) = n"
  "we_others (lone_worker w n) i s = s"
  by (simp_all add: lone_worker_def)

lemma lone_worker_fresh: "draws_fresh (lone_worker w n)"
  by (simp add: lone_worker_def alone_fresh)

lemma lone_passes_inv:
  assumes "nrt_inv (ws_repo w)"
  shows "nrt_inv (ws_repo (run_passes (replicate m (lone_worker u n)) w))"
proof (rule run_passes_keep)
  have "worker_frame nrt_inv (lone_worker u n) (\<lambda>_. True) (\<lambda>_. True)"
    unfolding lone_worker_def by (rule lone.worker_frame_axioms)
  then show "list_all (\<lambda>env. \<exists>ok rel. worker_frame nrt_inv env ok rel) (replicate m (lone_worker u n))"
    unfolding list_all_iff by (metis in_set_replicate)
qed (rule assms)

lemma stuck_inv: "nrt_inv stuck_repo"
proof -
  have u: "unused_runtime (opaque_id ''nrt'' ''b'') (snd (set_nautilus_runtime_desired_state (minutes 1) alice ''nrt_a'' ''stopping''
            (snd (set_nautilus_runtime_state (minutes 1) alice ''nrt_a'' ''stopping'' nrt_repo))))"
    unfolding unused_runtime_def by code_simp
  show ?thesis
    unfolding stuck_repo_def Let_def by (intro runtime_field_ops_inv upsert_nautilus_runtime_inv nrt_repo_inv u)
qed

lemma stuck_rows: "map (\<lambda>r. (rec_id r, nrt_desired_state r, nrt_mode r, nrt_worker_id r, nrt_updated_at r))
    (dict_values (nautilus_runtimes stuck_repo)) =
  [(''nrt_a'', ''stopping'', ''paper'', None, minutes 1), (''nrt_b'', ''stopping'', ''paper'', Some ''w1'', minutes 4)]"
  by code_simp

section \<open>What passes do to the repository\<close>

text \<open>
  C25: whatever the streams, the engine and the strategies answer, and whether its passes end or raise,
  workers change the repository only by the worker steps (claims, heartbeats, events, stream cursors,
  releases as stopped), when the others do too and drawn UUIDs are new; so any number of passes leaves
  a runtime whose kill switch has been activated halted, and its switch on.
\<close>

theorem worker_passes_refine:
  assumes "nrt_inv (ws_repo w)"
    and "list_all draws_fresh envs" "\<forall>env \<in> set envs. \<forall>n s. worker_step\<^sup>*\<^sup>* s (we_others env n s)"
  shows "worker_step\<^sup>*\<^sup>* (ws_repo w) (ws_repo (run_passes envs w)) \<and>
    (runtime_at halted k (ws_repo w) \<longrightarrow> runtime_at halted k (ws_repo (run_passes envs w)))"
proof -
  have "worker_step\<^sup>*\<^sup>* (ws_repo w) (ws_repo (run_passes envs w))"
  proof (rule run_passes_keep)
    show "list_all (\<lambda>env. \<exists>ok rel. worker_frame (worker_step\<^sup>*\<^sup>* (ws_repo w)) env ok rel) envs"
      using assms worker_steps_frame [OF _ _ assms(1)] by (fastforce simp: list_all_iff)
  qed simp
  then show ?thesis using worker_run_halted [OF _ assms(1)] by blast
qed

theorem worker_passes_refine_witness:
  "runtime_at halted ''nrt_a'' (ws_repo (run_passes [lone_worker ''w1'' 4, lone_worker ''w2'' 4]
     \<lparr>ws_repo = snd (activate_nautilus_runtime_kill_switch 7 alice ''nrt_a'' nrt_repo), ws_ticks = 0\<rparr>))"
proof -
  let ?s = "snd (activate_nautilus_runtime_kill_switch 7 alice ''nrt_a'' nrt_repo)"
  obtain r where r: "get_nautilus_runtime alice ''nrt_a'' nrt_repo = Some r"
    by (simp add: nrt_repo_def upsert_nautilus_runtime_def init_repo_def Let_def opaque_id_def
        get_nautilus_runtime_def is_authorized_def)
  have "nrt_inv ?s" by (rule runtime_field_ops_inv(2) [OF nrt_repo_inv])
  from worker_passes_refine [of "\<lparr>ws_repo = ?s, ws_ticks = 0\<rparr>" "[lone_worker ''w1'' 4, lone_worker ''w2'' 4]" "''nrt_a''"]
    this kill_switch_halts [OF nrt_repo_inv r]
  show ?thesis by (simp add: lone_worker_fresh)
qed

text \<open>
  C26: a runtime that is wanted stopping and held by a worker is stopped and free after the worker's next
  pass, when it is among the runtimes that the pass is given to stop and the others leave it alone: no
  error of the streams, the engine or the strategies, not even one that ends the pass, prevents it.
\<close>

theorem held_runtime_stopped:
  assumes "draws_fresh env" "nrt_inv (ws_repo w)"
    and "\<forall>n s. nrt_inv s \<longrightarrow> nrt_inv (we_others env n s) \<and>
      dict_get (nautilus_runtimes (we_others env n s)) k = dict_get (nautilus_runtimes s) k"
    and "runtime_at (wants_stop_by (we_worker_id env)) k (ws_repo w)"
    and "k \<in> rec_id ` set (list_desired_nautilus_runtimes (we_clock env (ws_ticks w)) ''paper'' ''stopping''
      (Some (we_worker_id env)) (Some (we_max_runtime_processes env)) (we_others env (ws_ticks w) (ws_repo w)))"
  shows "runtime_at stopped_free k (ws_repo (snd (worker_run_once env w)))"
proof -
  have "stopping_worker env k" using assms(1,3) by unfold_locales auto
  from stopping_worker.pass_frees [OF this _ assms(5)] assms(2,4) show ?thesis by blast
qed

text \<open>
  C27: what is wanted stopping is stopped only by the worker that holds it.  When every runtime that the
  workers are given to stop is held by none or by another, no number of their passes changes any runtime
  that is wanted stopping, although they may hold one themselves that is not among the first; all others
  are taken to leave these runtimes alone.  (A runtime wanted running may well be stopped by a command.)
\<close>

theorem stop_list_blocked:
  assumes "nrt_inv (ws_repo w)" "list_all draws_fresh envs"
    and "list_all (\<lambda>env. nothing_to_release env (ws_repo w)) envs"
    and "\<forall>env \<in> set envs. \<forall>n s. nrt_inv s \<longrightarrow>
      nrt_inv (we_others env n s) \<and> stop_rows (we_others env n s) = stop_rows s"
  shows "stop_rows (ws_repo (run_passes envs w)) = stop_rows (ws_repo w)"
proof -
  let ?J = "\<lambda>s. nrt_inv s \<and> stop_rows s = stop_rows (ws_repo w)"
  have "list_all (\<lambda>env. \<exists>ok rel. worker_frame ?J env ok rel) envs"
    using assms nothing_to_release_frame [of _ "ws_repo w"] by (fastforce simp: list_all_iff)
  from run_passes_keep [OF this] assms(1) show ?thesis by blast
qed

section \<open>The statements on the concrete repository\<close>

lemma stuck_stop_list:
  obtains a b where "\<And>t n. list_desired_nautilus_runtimes t ''paper'' ''stopping'' (Some ''w1'') (Some n) stuck_repo =
      first_n (bounded_nautilus_limit (Some n)) [a, b]"
    "dict_get (nautilus_runtimes stuck_repo) ''nrt_b'' = Some b" "rec_id b = ''nrt_b''"
    "nrt_worker_id a = None" "nrt_worker_id b = Some ''w1''" "nrt_state b = ''stopping''"
    "nrt_desired_state b = ''stopping''"
proof -
  obtain a b where rows: "dict_values (nautilus_runtimes stuck_repo) = [a, b]"
    using stuck_rows by (auto simp: map_eq_Cons_conv)
  have b: "nrt_state a = ''stopping''" "nrt_lease_until a = None" "nrt_state b = ''stopping''"
  proof -
    have "map (\<lambda>r. (nrt_state r, nrt_lease_until r = None)) (dict_values (nautilus_runtimes stuck_repo)) =
        [(''stopping'', True), (''stopping'', False)]" by code_simp
    then show "nrt_state a = ''stopping''" "nrt_lease_until a = None" "nrt_state b = ''stopping''" by (simp_all add: rows)
  qed
  note f = stuck_rows [unfolded rows, simplified]
  have "list_desired_nautilus_runtimes t ''paper'' ''stopping'' (Some ''w1'') (Some n) stuck_repo =
      first_n (bounded_nautilus_limit (Some n)) [a, b]" for t n
  proof -
    have "filter (\<lambda>r. runtime_wanted ''paper'' ''stopping'' r
          \<and> ((case nrt_lease_until r of None \<Rightarrow> True | Some u \<Rightarrow> u < t) \<or> (Some ''w1'' \<noteq> None \<and> nrt_worker_id r = Some ''w1'')))
        [a, b] = [a, b]" using f b by (simp add: runtime_wanted_def)
    moreover have "py_sorted runtime_order_key [a, b] = [a, b]"
      using f by (simp add: py_sorted_def runtime_order_key_def minutes_def seconds_def)
    ultimately show ?thesis by (simp only: list_desired_nautilus_runtimes_def rows)
  qed
  moreover have "dict_get (nautilus_runtimes stuck_repo) ''nrt_b'' = Some b"
    using keyed_value [OF nrt_invD(1) [OF stuck_inv], of b] rows f by simp
  ultimately show thesis using f b by (intro that [of a b]) simp_all
qed

theorem held_runtime_stopped_witness:
  "runtime_at stopped_free ''nrt_b'' (ws_repo (snd (worker_run_once (lone_worker ''w1'' 4)
     \<lparr>ws_repo = stuck_repo, ws_ticks = 0\<rparr>)))"
proof (rule stuck_stop_list, goal_cases)
  case (1 a b)
  then show ?case
    by (intro held_runtime_stopped)
      (simp_all add: lone_worker_fresh stuck_inv runtime_at_def first_n_def bounded_nautilus_limit_def)
qed

theorem stop_list_blocked_witness:
  "\<exists>b. dict_get (nautilus_runtimes (ws_repo (run_passes (replicate 9 (lone_worker ''w1'' 1))
       \<lparr>ws_repo = stuck_repo, ws_ticks = 0\<rparr>))) ''nrt_b'' = Some b \<and>
     nrt_state b = ''stopping'' \<and> nrt_worker_id b = Some ''w1''"
proof (rule stuck_stop_list, goal_cases)
  case (1 a b)
  note list = 1(1) and b = 1(2-)
  let ?w = "\<lparr>ws_repo = stuck_repo, ws_ticks = 0\<rparr>"
  let ?envs = "replicate 9 (lone_worker ''w1'' 1)"
  have none: "nothing_to_release (lone_worker ''w1'' 1) stuck_repo"
    using b(3) by (simp add: nothing_to_release_def list first_n_def bounded_nautilus_limit_def)
  have "stop_rows (ws_repo (run_passes ?envs ?w)) = stop_rows (ws_repo ?w)"
    by (rule stop_list_blocked) (simp_all add: stuck_inv lone_worker_fresh none list_all_iff)
  then have "dict_get (dict_filter wants_stop (nautilus_runtimes (ws_repo (run_passes ?envs ?w)))) ''nrt_b'' = Some b"
    using b get_stop_rows [OF stuck_inv, of "''nrt_b''"] by (simp add: stop_rows_def)
  then have "(''nrt_b'', b) \<in> set (nautilus_runtimes (ws_repo (run_passes ?envs ?w)))"
    by (auto simp: dict_filter_def dest: map_of_SomeD)
  moreover have "nrt_inv (ws_repo (run_passes ?envs ?w))" by (rule lone_passes_inv) (simp add: stuck_inv)
  then have "dict_ok (nautilus_runtimes (ws_repo (run_passes ?envs ?w)))"
    using nrt_invD(1) by (simp add: keyed_def)
  ultimately show ?case using b by (blast intro: dict_in_get)
qed

end
