(* ===== verification/Collector.thy ===== *)
theory Collector
  imports Paper_Worker
begin

text \<open>
  The market-data collector (\<open>server/market_data_collector.py\<close>): it leases the streams of the
  subscriptions in use, polls an exchange for closed bars and publishes each to its stream, with the
  messages of \<open>nautilus_streams.py\<close>.

  The Redis client is an argument, a record of the commands that are used over a state \<open>'r\<close> of its own;
  \<open>ce_others n\<close> is what others have done to that state before the \<open>n\<close>-th command.  The clock, the
  exchange, \<open>json.dumps\<close> and the text forms of times and floats are arguments too.
\<close>

section \<open>Messages\<close>

definition encode_stream_fields :: "(json \<Rightarrow> string) \<Rightarrow> (json \<Rightarrow> string) \<Rightarrow> json dict \<Rightarrow> string dict" where
  "encode_stream_fields repr_of dumps payload = concat (map (\<lambda>(key, v). case v of
       JNull \<Rightarrow> []
     | JBool b \<Rightarrow> [(key, if b then ''1'' else ''0'')]
     | JInt i \<Rightarrow> [(key, show_int i)]
     | JFloat r \<Rightarrow> [(key, repr_of v)]
     | JStr t \<Rightarrow> [(key, t)]
     | _ \<Rightarrow> [(key, dumps v)]) payload)"

definition opt_float :: "rat option \<Rightarrow> json" where
  "opt_float x = (case x of None \<Rightarrow> JNull | Some r \<Rightarrow> JFloat r)"

text \<open>\<open>received\<close> is \<open>now_iso()\<close>.\<close>

definition tick_message ::
  "string \<Rightarrow> string \<Rightarrow> string \<Rightarrow> string \<Rightarrow> int \<Rightarrow> string option \<Rightarrow> rat option \<Rightarrow> rat option \<Rightarrow> rat option
    \<Rightarrow> rat option \<Rightarrow> json dict" where
  "tick_message received event_id venue symbol sequence ts_exchange bid ask last_price size_of =
     [(''event_id'', JStr event_id), (''venue'', JStr (py_upper venue)), (''symbol'', JStr (py_upper symbol)),
      (''ts_exchange'', JStr (or_str ts_exchange received)), (''ts_received'', JStr received),
      (''sequence'', JInt sequence), (''bid'', opt_float bid), (''ask'', opt_float ask),
      (''last'', opt_float last_price), (''size'', opt_float size_of)]"

definition bar_message ::
  "string \<Rightarrow> string \<Rightarrow> string \<Rightarrow> string \<Rightarrow> string \<Rightarrow> int \<Rightarrow> rat \<Rightarrow> rat \<Rightarrow> rat \<Rightarrow> rat \<Rightarrow> rat \<Rightarrow> bool \<Rightarrow> string option
    \<Rightarrow> json dict" where
  "bar_message received event_id venue symbol timeframe sequence open_price high low close_price volume is_closed
      ts_exchange =
     [(''event_id'', JStr event_id), (''venue'', JStr (py_upper venue)), (''symbol'', JStr (py_upper symbol)),
      (''timeframe'', JStr timeframe), (''ts_exchange'', JStr (or_str ts_exchange received)),
      (''ts_received'', JStr received), (''sequence'', JInt sequence), (''open'', JFloat open_price),
      (''high'', JFloat high), (''low'', JFloat low), (''close'', JFloat close_price),
      (''volume'', JFloat volume), (''closed'', JBool is_closed)]"

section \<open>The exchange\<close>

definition NAUTILUS_MARKET_DATA_MAXLEN :: int where
  "NAUTILUS_MARKET_DATA_MAXLEN = 100000"

definition DEFAULT_BACKFILL_LIMIT :: int where "DEFAULT_BACKFILL_LIMIT = 8"
definition DEFAULT_DISCOVERY_LIMIT :: int where "DEFAULT_DISCOVERY_LIMIT = 5000"
definition DEFAULT_EVENT_ID_CACHE_LIMIT :: int where
  "DEFAULT_EVENT_ID_CACHE_LIMIT = NAUTILUS_MARKET_DATA_MAXLEN"
definition DEFAULT_LEASE_SECONDS :: int where "DEFAULT_LEASE_SECONDS = 30"

text \<open>\<open>int(DEFAULT_POLL_SECONDS * 1000)\<close>.\<close>

definition DEFAULT_POLL_MS :: int where "DEFAULT_POLL_MS = 5000"

definition CCXT_EXCHANGE_IDS :: "string dict" where
  "CCXT_EXCHANGE_IDS = [(''BINANCE'', ''binance''), (''BYBIT'', ''bybit''), (''OKX'', ''okx''), (''KRAKEN'', ''kraken'')]"

definition TIMEFRAME_MILLIS :: "int dict" where
  "TIMEFRAME_MILLIS = [(''1m'', 60000), (''3m'', 180000), (''5m'', 300000), (''15m'', 900000), (''30m'', 1800000),
     (''1h'', 3600000), (''2h'', 7200000), (''4h'', 14400000), (''1d'', 86400000)]"

definition timeframe_millis :: "string \<Rightarrow> int option" where
  "timeframe_millis timeframe = dict_get TIMEFRAME_MILLIS (py_lower (py_strip timeframe))"

definition stream_cursor_key :: "string \<Rightarrow> string" where
  "stream_cursor_key stream = ''mdcursor:'' @ stream @ '':exchange_ts_ms''"

record normalized_bar =
  nb_event_id :: string
  nb_venue :: string
  nb_symbol :: string
  nb_timeframe :: string
  nb_ts_exchange :: string
  nb_ts_received :: string
  nb_sequence :: int
  nb_open :: rat
  nb_high :: rat
  nb_low :: rat
  nb_close :: rat
  nb_volume :: rat
  nb_closed :: bool
  nb_source :: string
  nb_exchange :: string
  nb_adapter :: string

record ohlcv_adapter =
  oa_venue :: string
  oa_exchange_id :: string
  oa_adapter_name :: string

definition default_exchange_adapter_registry :: "ohlcv_adapter dict" where
  "default_exchange_adapter_registry = map (\<lambda>(venue, exchange_id).
     (venue, \<lparr>oa_venue = venue, oa_exchange_id = exchange_id, oa_adapter_name = ''ccxt_ohlcv_rest''\<rparr>))
     CCXT_EXCHANGE_IDS"

definition adapter_supports :: "ohlcv_adapter \<Rightarrow> md_subscription \<Rightarrow> bool" where
  "adapter_supports adapter sub \<longleftrightarrow> md_venue sub = oa_venue adapter \<and> md_data_type sub = ''bar''
     \<and> md_timeframe sub \<noteq> None \<and> md_timeframe sub \<noteq> Some []"

record 'r redis_client =
  rc_get :: "string \<Rightarrow> ('r, string option) comp"
  rc_set :: "string \<Rightarrow> string \<Rightarrow> ('r, bool) comp"
  rc_set_nx :: "string \<Rightarrow> string \<Rightarrow> int \<Rightarrow> ('r, bool) comp"
  rc_expire :: "(string \<Rightarrow> int \<Rightarrow> ('r, bool) comp) option"
  rc_xadd :: "string \<Rightarrow> string dict \<Rightarrow> int \<Rightarrow> ('r, string) comp"

text \<open>
  Times cross a float: \<open>ce_since v\<close> is \<open>int(datetime.fromtimestamp(v / 1000, UTC).timestamp() * 1000)\<close>,
  \<open>ce_iso v\<close> the ISO text of that datetime, \<open>ce_parse_iso\<close> is \<open>_parse_iso_ms\<close>; a time out of range or a
  text that is none raises.  \<open>ce_markets\<close> holds the symbols of an exchange when they could be loaded.
\<close>

record 'r collector_env =
  ce_worker_id :: string
  ce_client :: "'r redis_client"
  ce_others :: "nat \<Rightarrow> 'r \<Rightarrow> 'r"
  ce_now_ms :: "nat \<Rightarrow> int"
  ce_now_iso :: "nat \<Rightarrow> string"
  ce_since :: "int \<Rightarrow> py_error + int"
  ce_iso :: "int \<Rightarrow> py_error + string"
  ce_parse_iso :: "string \<Rightarrow> py_error + int"
  ce_parse_float :: "string \<Rightarrow> rat option"
  ce_markets :: "nat \<Rightarrow> string \<Rightarrow> string list option"
  ce_fetch_ohlcv :: "nat \<Rightarrow> string \<Rightarrow> string \<Rightarrow> string \<Rightarrow> int option \<Rightarrow> int \<Rightarrow> py_exc + json list"
  ce_dumps :: "json \<Rightarrow> string"
  ce_repr :: "json \<Rightarrow> string"
  ce_adapters :: "ohlcv_adapter dict"
  ce_repository :: "nat \<Rightarrow> repo option"

definition py_int :: "json \<Rightarrow> py_error + int" where
  "py_int v = (case v of
      JInt i \<Rightarrow> Inr i
    | JBool b \<Rightarrow> Inr (of_bool b)
    | JFloat r \<Rightarrow> Inr (if r < 0 then - \<lfloor>- r\<rfloor> else \<lfloor>r\<rfloor>)
    | JStr t \<Rightarrow> (case py_int_text t of Some i \<Rightarrow> Inr i
        | None \<Rightarrow> Inl (ValueError ''invalid literal for int() with base 10''))
    | _ \<Rightarrow> Inl TypeError)"

definition py_float :: "'r collector_env \<Rightarrow> json \<Rightarrow> py_error + rat" where
  "py_float env v = (case v of
      JInt i \<Rightarrow> Inr (of_int i)
    | JBool b \<Rightarrow> Inr (of_bool b)
    | JFloat r \<Rightarrow> Inr r
    | JStr t \<Rightarrow> (case ce_parse_float env t of Some r \<Rightarrow> Inr r
        | None \<Rightarrow> Inl (ValueError ''could not convert string to float''))
    | _ \<Rightarrow> Inl TypeError)"

text \<open>The symbols an exchange may know, and the one it does (of \<open>server/market_data.py\<close>).\<close>

definition base_symbol :: "string \<Rightarrow> string" where
  "base_symbol symbol =
     (let upper = takeWhile (\<lambda>c. c \<noteq> CHR ''/'') (py_upper symbol);
          upper = (if ends_with upper ''USDT'' then take (length upper - 4) upper else upper);
          upper = (if ends_with upper ''USD'' \<and> length upper > 3 then take (length upper - 3) upper else upper)
      in if upper = [] then ''ETH'' else upper)"

definition ccxt_symbols :: "string \<Rightarrow> string list" where
  "ccxt_symbols symbol = (if CHR ''/'' \<in> set symbol then [py_upper symbol]
     else [base_symbol symbol @ ''/USDT'', base_symbol symbol @ ''/USD''])"

definition resolve_async_ccxt_symbol :: "string list option \<Rightarrow> string \<Rightarrow> string option" where
  "resolve_async_ccxt_symbol markets symbol = (case markets of
      Some ms \<Rightarrow> find (\<lambda>c. c \<in> set ms) (ccxt_symbols symbol)
    | None \<Rightarrow> (case ccxt_symbols symbol of [] \<Rightarrow> None | c # _ \<Rightarrow> Some c))"

definition normalize_ohlcv ::
  "'r collector_env \<Rightarrow> nat \<Rightarrow> ohlcv_adapter \<Rightarrow> md_subscription \<Rightarrow> json \<Rightarrow> py_error + normalized_bar option" where
  "normalize_ohlcv env n adapter sub raw_bar = (case raw_bar of
      JList (b0 # b1 # b2 # b3 # b4 # b5 # _) \<Rightarrow>
        (case py_int b0 of Inl e \<Rightarrow> Inl e | Inr open_time \<Rightarrow>
          if (case timeframe_millis (or_str (md_timeframe sub) []) of
                None \<Rightarrow> False | Some timeframe_ms \<Rightarrow> open_time + timeframe_ms > ce_now_ms env n)
          then Inr None
          else
           (case ce_iso env open_time of Inl e \<Rightarrow> Inl e | Inr ts_exchange \<Rightarrow>
           (case py_float env b1 of Inl e \<Rightarrow> Inl e | Inr open_price \<Rightarrow>
           (case py_float env b2 of Inl e \<Rightarrow> Inl e | Inr high \<Rightarrow>
           (case py_float env b3 of Inl e \<Rightarrow> Inl e | Inr low \<Rightarrow>
           (case py_float env b4 of Inl e \<Rightarrow> Inl e | Inr close_price \<Rightarrow>
           (case py_float env (json_or b5 (JInt 0)) of Inl e \<Rightarrow> Inl e | Inr volume \<Rightarrow>
             let symbol = py_upper (md_symbol sub);
                 timeframe = (case md_timeframe sub of None \<Rightarrow> ''None'' | Some t \<Rightarrow> t)
             in Inr (Some \<lparr>
               nb_event_id = ''exchange_collector:'' @ oa_exchange_id adapter @ '':'' @ symbol @ '':''
                 @ timeframe @ '':'' @ show_int open_time,
               nb_venue = oa_venue adapter, nb_symbol = symbol, nb_timeframe = timeframe,
               nb_ts_exchange = ts_exchange, nb_ts_received = ce_now_iso env n, nb_sequence = open_time,
               nb_open = open_price, nb_high = high, nb_low = low, nb_close = close_price,
               nb_volume = volume, nb_closed = True, nb_source = ''exchange_collector'',
               nb_exchange = oa_exchange_id adapter, nb_adapter = oa_adapter_name adapter\<rparr>))))))))
    | _ \<Rightarrow> Inr None)"

fun normalized_bars ::
  "'r collector_env \<Rightarrow> nat \<Rightarrow> ohlcv_adapter \<Rightarrow> md_subscription \<Rightarrow> json list \<Rightarrow> py_error + normalized_bar list" where
  "normalized_bars env n adapter sub [] = Inr []"
| "normalized_bars env n adapter sub (raw # raws) =
     (case normalize_ohlcv env n adapter sub raw of Inl e \<Rightarrow> Inl e | Inr b \<Rightarrow>
       (case normalized_bars env n adapter sub raws of Inl e \<Rightarrow> Inl e
        | Inr bs \<Rightarrow> Inr ((case b of None \<Rightarrow> [] | Some x \<Rightarrow> [x]) @ bs)))"

section \<open>The state of a collector\<close>

record 'r collector =
  mc_redis :: 'r
  mc_ticks :: nat
  mc_upstream :: "string list"
  mc_published_ids :: "string list"
  mc_published_order :: "string list"
  mc_next_poll :: "int dict"
  mc_poll_errors :: "string dict"
  mc_sequence :: int

definition new_collector :: "'r \<Rightarrow> 'r collector" where
  "new_collector r = \<lparr>mc_redis = r, mc_ticks = 0, mc_upstream = [], mc_published_ids = [],
     mc_published_order = [], mc_next_poll = [], mc_poll_errors = [], mc_sequence = 0\<rparr>"

definition redis_call :: "'r collector_env \<Rightarrow> ('r, 'a) comp \<Rightarrow> ('r collector, 'a) comp" where
  "redis_call env command = (\<lambda>c.
     let (x, r) = command (ce_others env (mc_ticks c) (mc_redis c))
     in (x, c\<lparr>mc_redis := r, mc_ticks := Suc (mc_ticks c)\<rparr>))"

definition at_tick :: "(nat \<Rightarrow> ('r collector, 'a) comp) \<Rightarrow> ('r collector, 'a) comp" where
  "at_tick m = (\<lambda>c. m (mc_ticks c) c)"

definition update :: "('r collector \<Rightarrow> 'r collector) \<Rightarrow> ('r collector, unit) comp" where
  "update f = (\<lambda>c. (Inr (), f c))"

definition exc_text_of :: "py_exc \<Rightarrow> string" where
  "exc_text_of e = exc_type e @ '': '' @ exc_message e"

text \<open>\<open>except AttributeError\<close>: other exceptions go on.\<close>

definition catch_attribute_error :: "('s, 'a) comp \<Rightarrow> ('s, 'a) comp \<Rightarrow> ('s, 'a) comp" where
  "catch_attribute_error m h =
     catchx m (\<lambda>e. if exc_type e = ''AttributeError'' then h else raisex e)"

section \<open>Subscriptions and leases\<close>

definition note_upstream :: "string \<Rightarrow> 'r collector \<Rightarrow> 'r collector" where
  "note_upstream stream c = c\<lparr>mc_upstream := List.insert stream (mc_upstream c)\<rparr>"

definition ensure_subscription :: "md_subscription \<Rightarrow> ('r collector, string) comp" where
  "ensure_subscription sub = bindx (lift_error (stream_key sub)) (\<lambda>stream.
     thenx (update (note_upstream stream)) (returnx stream))"

definition desired_subscriptions :: "'r collector_env \<Rightarrow> nat \<Rightarrow> int \<Rightarrow> md_subscription list" where
  "desired_subscriptions env n limit = (case ce_repository env n of
      None \<Rightarrow> []
    | Some s \<Rightarrow> map (subscription_from_payload (ce_repr env))
        (list_active_nautilus_market_data_subscriptions (ce_repr env) ''paper'' ''running'' (Some limit) s))"

definition adapter_for :: "'r collector_env \<Rightarrow> md_subscription \<Rightarrow> ohlcv_adapter option" where
  "adapter_for env sub = (case dict_get (ce_adapters env) (md_venue sub) of
      None \<Rightarrow> None
    | Some adapter \<Rightarrow> if adapter_supports adapter sub then Some adapter else None)"

definition acquire_stream_lease :: "'r collector_env \<Rightarrow> string \<Rightarrow> int \<Rightarrow> ('r collector, bool) comp" where
  "acquire_stream_lease env stream lease_seconds =
     (let lease_key = ''mdlease:'' @ stream;
          take_lease = redis_call env (rc_set_nx (ce_client env) lease_key (ce_worker_id env) lease_seconds)
      in catch_attribute_error
           (bindx (redis_call env (rc_get (ce_client env) lease_key)) (\<lambda>owner.
              if owner = Some (ce_worker_id env) then
                (case rc_expire (ce_client env) of
                   None \<Rightarrow> returnx True
                 | Some expire \<Rightarrow> bindx (redis_call env (expire lease_key lease_seconds)) (\<lambda>renewed.
                     if renewed then returnx True else take_lease))
              else if owner \<noteq> None \<and> owner \<noteq> Some [] then returnx False
              else take_lease))
           (returnx True))"

fun reconcile_loop ::
  "'r collector_env \<Rightarrow> int \<Rightarrow> md_subscription list \<Rightarrow> md_subscription list \<Rightarrow> ('r collector, md_subscription list) comp"
where
  "reconcile_loop env lease_seconds [] owned = returnx owned"
| "reconcile_loop env lease_seconds (sub # subs) owned =
     bindx (ensure_subscription sub) (\<lambda>stream.
       if adapter_for env sub = None then reconcile_loop env lease_seconds subs owned
       else bindx (acquire_stream_lease env stream lease_seconds) (\<lambda>acquired.
         reconcile_loop env lease_seconds subs (if acquired then owned @ [sub] else owned)))"

definition reconcile_desired_subscriptions ::
  "'r collector_env \<Rightarrow> int \<Rightarrow> int \<Rightarrow> ('r collector, md_subscription list) comp" where
  "reconcile_desired_subscriptions env lease_seconds limit = at_tick (\<lambda>n.
     reconcile_loop env lease_seconds (desired_subscriptions env n limit) [])"

section \<open>Publishing\<close>

definition next_sequence :: "('r collector, int) comp" where
  "next_sequence = (\<lambda>c. (Inr (mc_sequence c + 1), c\<lparr>mc_sequence := mc_sequence c + 1\<rparr>))"

definition publish_fields :: "'r collector_env \<Rightarrow> string \<Rightarrow> json dict \<Rightarrow> ('r collector, string) comp" where
  "publish_fields env stream payload = thenx (update (note_upstream stream))
     (redis_call env (rc_xadd (ce_client env) stream (encode_stream_fields (ce_repr env) (ce_dumps env) payload)
       NAUTILUS_MARKET_DATA_MAXLEN))"

definition publish_tick ::
  "'r collector_env \<Rightarrow> string \<Rightarrow> string \<Rightarrow> rat option \<Rightarrow> rat option \<Rightarrow> rat option \<Rightarrow> rat option \<Rightarrow> string option
    \<Rightarrow> ('r collector, string) comp" where
  "publish_tick env venue symbol bid ask last_price size_of event_id = bindx next_sequence (\<lambda>i.
     bindx (lift_error (market_data_stream_key venue symbol ''tick'' None)) (\<lambda>stream. at_tick (\<lambda>n.
       publish_fields env stream (tick_message (ce_now_iso env n) (or_str event_id (''tick-'' @ show_int i))
         venue symbol i None bid ask last_price size_of))))"

definition publish_bar ::
  "'r collector_env \<Rightarrow> string \<Rightarrow> string \<Rightarrow> string \<Rightarrow> rat \<Rightarrow> rat \<Rightarrow> rat \<Rightarrow> rat \<Rightarrow> rat \<Rightarrow> bool \<Rightarrow> string option
    \<Rightarrow> string option \<Rightarrow> json dict \<Rightarrow> ('r collector, string) comp" where
  "publish_bar env venue symbol timeframe open_price high low close_price volume is_closed event_id ts_exchange
      metadata = bindx next_sequence (\<lambda>i.
     bindx (lift_error (market_data_stream_key venue symbol ''bar'' (Some timeframe))) (\<lambda>stream. at_tick (\<lambda>n.
       publish_fields env stream (dict_merge (bar_message (ce_now_iso env n)
         (or_str event_id (''bar-'' @ show_int i)) venue symbol timeframe i open_price high low close_price volume
         is_closed ts_exchange) metadata))))"

text \<open>The oldest ids beyond the limit are forgotten.\<close>

fun forget_oldest :: "nat \<Rightarrow> string list \<Rightarrow> string list \<Rightarrow> string list \<times> string list" where
  "forget_oldest limit ids [] = (ids, [])"
| "forget_oldest limit ids (expired # order) =
     (if length (expired # order) > limit then forget_oldest limit (removeAll expired ids) order
      else (ids, expired # order))"

definition remember_published_event_id :: "string \<Rightarrow> 'r collector \<Rightarrow> 'r collector" where
  "remember_published_event_id event_id c =
     (let (ids, order) = forget_oldest (nat DEFAULT_EVENT_ID_CACHE_LIMIT)
            (List.insert event_id (mc_published_ids c)) (mc_published_order c @ [event_id])
      in c\<lparr>mc_published_ids := ids, mc_published_order := order\<rparr>)"

definition publish_normalized_bar ::
  "'r collector_env \<Rightarrow> normalized_bar \<Rightarrow> ('r collector, string option) comp" where
  "publish_normalized_bar env bar = (\<lambda>c.
     if nb_event_id bar \<in> set (mc_published_ids c) then returnx None c
     else bindx (publish_bar env (nb_venue bar) (nb_symbol bar) (nb_timeframe bar) (nb_open bar) (nb_high bar)
            (nb_low bar) (nb_close bar) (nb_volume bar) (nb_closed bar) (Some (nb_event_id bar))
            (Some (nb_ts_exchange bar))
            [(''source'', JStr (nb_source bar)), (''exchange'', JStr (nb_exchange bar)),
             (''adapter'', JStr (nb_adapter bar)), (''ts_received'', JStr (nb_ts_received bar)),
             (''collector_worker_id'', JStr (ce_worker_id env))])
          (\<lambda>stream_id. thenx (update (remember_published_event_id (nb_event_id bar))) (returnx (Some stream_id))) c)"

fun publish_bars :: "'r collector_env \<Rightarrow> normalized_bar list \<Rightarrow> int \<Rightarrow> ('r collector, int) comp" where
  "publish_bars env [] published = returnx published"
| "publish_bars env (bar # bars) published = bindx (publish_normalized_bar env bar) (\<lambda>r.
     publish_bars env bars (if r = None then published else published + 1))"

section \<open>Polling\<close>

definition load_stream_cursor :: "'r collector_env \<Rightarrow> string \<Rightarrow> ('r collector, int option) comp" where
  "load_stream_cursor env stream = bindx
     (catch_attribute_error (redis_call env (rc_get (ce_client env) (stream_cursor_key stream))) (returnx None))
     (\<lambda>raw. case raw of
        None \<Rightarrow> returnx None
      | Some t \<Rightarrow> (case py_int_text t of
          None \<Rightarrow> returnx None
        | Some v \<Rightarrow> bindx (lift_error (ce_since env v)) (\<lambda>since. returnx (Some since))))"

definition persist_stream_cursor :: "'r collector_env \<Rightarrow> string \<Rightarrow> int \<Rightarrow> ('r collector, unit) comp" where
  "persist_stream_cursor env stream exchange_ts_ms = catch_attribute_error
     (thenx (redis_call env (rc_set (ce_client env) (stream_cursor_key stream) (show_int exchange_ts_ms))) (returnx ()))
     (returnx ())"

definition should_poll_stream :: "'r collector_env \<Rightarrow> string \<Rightarrow> 'r collector \<Rightarrow> bool" where
  "should_poll_stream env stream c \<longleftrightarrow>
     ce_now_ms env (mc_ticks c) \<ge> (case dict_get (mc_next_poll c) stream of None \<Rightarrow> 0 | Some t \<Rightarrow> t)"

definition schedule_next_poll ::
  "'r collector_env \<Rightarrow> string \<Rightarrow> md_subscription \<Rightarrow> int option \<Rightarrow> 'r collector \<Rightarrow> 'r collector" where
  "schedule_next_poll env stream sub last_exchange_ms c =
     (case timeframe_millis (or_str (md_timeframe sub) []) of
        None \<Rightarrow> c
      | Some timeframe_ms \<Rightarrow>
          let now_ms = ce_now_ms env (mc_ticks c)
          in c\<lparr>mc_next_poll := dict_set stream (case last_exchange_ms of
                 None \<Rightarrow> now_ms + min timeframe_ms DEFAULT_POLL_MS
               | Some t \<Rightarrow> max (now_ms + 250) (t + 2 * timeframe_ms + 1000)) (mc_next_poll c)\<rparr>)"

text \<open>\<open>[bar for bar in bars if _parse_iso_ms(bar.ts_exchange) > since_ms]\<close>.\<close>

fun newer_bars :: "'r collector_env \<Rightarrow> int \<Rightarrow> normalized_bar list \<Rightarrow> py_error + normalized_bar list" where
  "newer_bars env since_ms [] = Inr []"
| "newer_bars env since_ms (bar # bars) =
     (case ce_parse_iso env (nb_ts_exchange bar) of Inl e \<Rightarrow> Inl e | Inr t \<Rightarrow>
       (case newer_bars env since_ms bars of Inl e \<Rightarrow> Inl e
        | Inr bs \<Rightarrow> Inr (if t > since_ms then bar # bs else bs)))"

definition fetch_recent_bars ::
  "'r collector_env \<Rightarrow> nat \<Rightarrow> ohlcv_adapter \<Rightarrow> md_subscription \<Rightarrow> int option \<Rightarrow> int \<Rightarrow> py_exc + normalized_bar list"
where
  "fetch_recent_bars env n adapter sub since limit =
     (if \<not> adapter_supports adapter sub then Inr []
      else case resolve_async_ccxt_symbol (ce_markets env n (oa_exchange_id adapter)) (md_symbol sub) of
        None \<Rightarrow> Inr []
      | Some market_symbol \<Rightarrow>
         (case ce_fetch_ohlcv env n (oa_exchange_id adapter) market_symbol (or_str (md_timeframe sub) []) since limit of
            Inl e \<Rightarrow> Inl e
          | Inr raws \<Rightarrow> (case normalized_bars env n adapter sub raws of
                Inl e \<Rightarrow> Inl (exc_of e) | Inr bars \<Rightarrow> Inr bars)))"

definition poll_closed_bars ::
  "'r collector_env \<Rightarrow> nat \<Rightarrow> ohlcv_adapter \<Rightarrow> md_subscription \<Rightarrow> int option \<Rightarrow> int \<Rightarrow> py_exc + normalized_bar list"
where
  "poll_closed_bars env n adapter sub since limit =
     (case fetch_recent_bars env n adapter sub since limit of
        Inl e \<Rightarrow> Inl e
      | Inr bars \<Rightarrow>
         (case since of
            None \<Rightarrow> Inr bars
          | Some since_ms \<Rightarrow> (case newer_bars env since_ms bars of Inl e \<Rightarrow> Inl (exc_of e) | Inr bs \<Rightarrow> Inr bs)))"

text \<open>What the \<open>try\<close> of \<open>poll_once\<close> does, and what follows when it answers.\<close>

definition fetch_stream ::
  "'r collector_env \<Rightarrow> int \<Rightarrow> ohlcv_adapter \<Rightarrow> md_subscription \<Rightarrow> string \<Rightarrow> ('r collector, normalized_bar list) comp"
where
  "fetch_stream env backfill_limit adapter sub stream =
     bindx (load_stream_cursor env stream) (\<lambda>since. at_tick (\<lambda>n.
       case poll_closed_bars env n adapter sub since backfill_limit of Inl e \<Rightarrow> raisex e | Inr bars \<Rightarrow> returnx bars))"

definition publish_stream ::
  "'r collector_env \<Rightarrow> md_subscription \<Rightarrow> string \<Rightarrow> normalized_bar list \<Rightarrow> int \<Rightarrow> ('r collector, int) comp" where
  "publish_stream env sub stream bars published =
     thenx (update (\<lambda>c. c\<lparr>mc_poll_errors := dict_pop stream (mc_poll_errors c)\<rparr>))
      (bindx (if bars = [] then returnx None
              else bindx (lift_error (ce_parse_iso env (nb_ts_exchange (last bars)))) (\<lambda>t. returnx (Some t)))
        (\<lambda>last_exchange_ms. bindx (publish_bars env bars published) (\<lambda>published.
          thenx (case last_exchange_ms of None \<Rightarrow> returnx () | Some t \<Rightarrow> persist_stream_cursor env stream t)
            (thenx (update (schedule_next_poll env stream sub last_exchange_ms)) (returnx published)))))"

definition poll_stream ::
  "'r collector_env \<Rightarrow> int \<Rightarrow> ohlcv_adapter \<Rightarrow> md_subscription \<Rightarrow> string \<Rightarrow> int \<Rightarrow> ('r collector, int) comp" where
  "poll_stream env backfill_limit adapter sub stream published = (\<lambda>c.
     case fetch_stream env backfill_limit adapter sub stream c of
       (Inl e, c) \<Rightarrow> (Inr published, c\<lparr>mc_poll_errors := dict_set stream (exc_text_of e) (mc_poll_errors c)\<rparr>)
     | (Inr bars, c) \<Rightarrow> publish_stream env sub stream bars published c)"

fun poll_loop ::
  "'r collector_env \<Rightarrow> int \<Rightarrow> md_subscription list \<Rightarrow> int \<Rightarrow> ('r collector, int) comp" where
  "poll_loop env backfill_limit [] published = returnx published"
| "poll_loop env backfill_limit (sub # subs) published =
     (case adapter_for env sub of
        None \<Rightarrow> poll_loop env backfill_limit subs published
      | Some adapter \<Rightarrow> bindx (lift_error (stream_key sub)) (\<lambda>stream c.
          if \<not> should_poll_stream env stream c then poll_loop env backfill_limit subs published c
          else bindx (poll_stream env backfill_limit adapter sub stream published)
            (poll_loop env backfill_limit subs) c))"

definition poll_once :: "'r collector_env \<Rightarrow> int \<Rightarrow> int \<Rightarrow> ('r collector, int) comp" where
  "poll_once env backfill_limit lease_seconds =
     bindx (reconcile_desired_subscriptions env lease_seconds DEFAULT_DISCOVERY_LIMIT)
       (\<lambda>subs. poll_loop env backfill_limit subs 0)"

end
