(* ===== verification/Collector_Laws.thy ===== *)
theory Collector_Laws
  imports Collector
begin

text \<open>
  What a poll of an exchange gives, and what repeated polls publish: the contract of the exchange and of
  the Redis commands as a locale, with the laws of a collector over them.
\<close>

section \<open>What is remembered\<close>

text \<open>The ids that are remembered are those of the order, each once, and not more than the limit.\<close>

definition cache_ok :: "'r collector \<Rightarrow> bool" where
  "cache_ok c \<longleftrightarrow> set (mc_published_ids c) = set (mc_published_order c) \<and> distinct (mc_published_order c) \<and>
     int (length (mc_published_order c)) \<le> DEFAULT_EVENT_ID_CACHE_LIMIT"

lemma forget_oldest_drop:
  "distinct order \<Longrightarrow> set ids = set order \<Longrightarrow>
     snd (forget_oldest n ids order) = drop (length order - n) order \<and>
     set (fst (forget_oldest n ids order)) = set (drop (length order - n) order)"
proof (induction n ids order rule: forget_oldest.induct)
  case (2 n ids x order)
  then show ?case
    by (cases "length order - n") (auto simp: Suc_diff_le not_less_eq_eq[symmetric])
qed simp

lemma remember_order:
  assumes "cache_ok c" "i \<notin> set (mc_published_ids c)"
  shows "mc_published_order (remember_published_event_id i c) =
      drop (Suc (length (mc_published_order c)) - nat DEFAULT_EVENT_ID_CACHE_LIMIT) (mc_published_order c @ [i])"
    "cache_ok (remember_published_event_id i c)"
proof -
  let ?n = "nat DEFAULT_EVENT_ID_CACHE_LIMIT" and ?o = "mc_published_order c @ [i]"
  have "distinct ?o" "set (List.insert i (mc_published_ids c)) = set ?o"
    using assms by (auto simp: cache_ok_def)
  from forget_oldest_drop [OF this, of ?n] show order: "mc_published_order (remember_published_event_id i c) =
      drop (Suc (length (mc_published_order c)) - ?n) ?o"
    and "cache_ok (remember_published_event_id i c)"
    using \<open>distinct ?o\<close> by (auto simp: remember_published_event_id_def Let_def split_beta cache_ok_def
        DEFAULT_EVENT_ID_CACHE_LIMIT_def NAUTILUS_MARKET_DATA_MAXLEN_def simp del: drop_append)
qed

section \<open>Numbers in stored texts\<close>

lemma int_digits_all: "list_all is_digit s \<Longrightarrow> s \<noteq> [] \<or> b \<Longrightarrow> int_digits b s = Some s"
  by (induction s arbitrary: b) auto

lemma digit_no_space: "is_digit c \<Longrightarrow> \<not> is_space c"
  by (auto simp: is_digit_def is_space_def Let_def)

lemma py_strip_id:
  assumes "s \<noteq> []" "\<not> is_space (hd s)" "\<not> is_space (last s)"
  shows "py_strip s = s"
proof -
  have "dropWhile is_space s = s" using assms(1,2) by (cases s) auto
  moreover have "dropWhile is_space (rev s) = rev s"
    using assms(1,3) by (cases s rule: rev_cases) auto
  ultimately show ?thesis by (simp add: py_strip_def)
qed

lemma py_int_show [simp]: "py_int_text (show_int i) = Some i"
proof -
  have d: "digits_of n \<noteq> [] \<and> list_all is_digit (digits_of n)" for n
    using digits_of_decimal [of n] by (simp add: is_decimal_def)
  have ends: "\<not> is_space (hd (digits_of n))" "\<not> is_space (last (digits_of n))" "is_digit (hd (digits_of n))" for n
    using d [of n] by (auto simp: list_all_iff intro!: digit_no_space)
  have minus: "\<not> is_space (CHR ''-'')" "\<not> is_digit (CHR ''-'')" "\<not> is_digit (CHR ''+'')"
    by (simp_all add: is_space_def is_digit_def)
  show ?thesis
  proof (cases "i < 0")
    case True
    have "py_strip (show_int i) = show_int i"
      using True d [of "nat (- i)"] ends [of "nat (- i)"] minus by (intro py_strip_id) (simp_all add: show_int_def)
    with True d [of "nat (- i)"] show ?thesis
      by (simp add: py_int_text_def) (simp add: show_int_def int_digits_all)
  next
    case False
    then have "py_strip (show_int i) = show_int i"
      using d [of "nat i"] ends [of "nat i"] by (intro py_strip_id) (simp_all add: show_int_def)
    moreover obtain c t where "digits_of (nat i) = c # t" "is_digit c"
      using d [of "nat i"] ends(3) [of "nat i"] by (cases "digits_of (nat i)") auto
    moreover have "int_digits False (digits_of (nat i)) = Some (digits_of (nat i))"
      using d [of "nat i"] by (simp add: int_digits_all)
    ultimately show ?thesis
      using False minus parse_digits_of [of "nat i"] by (auto simp: py_int_text_def show_int_def)
  qed
qed

section \<open>Parts of a sorted list\<close>

lemma filter_antitone:
  assumes "sorted_wrt (<) (xs :: int list)" "\<And>x y. x < y \<Longrightarrow> P y \<Longrightarrow> P x"
  shows "filter P xs = takeWhile P xs"
  using assms(1)
proof (induction xs)
  case (Cons x xs)
  have "filter P xs = []" if "\<not> P x"
    using Cons.prems that assms(2) by (auto simp: filter_empty_conv)
  with Cons show ?case by auto
qed simp

lemma filter_take_antitone:
  assumes "sorted_wrt (<) (xs :: int list)" "\<And>x y. x < y \<Longrightarrow> P y \<Longrightarrow> P x"
  shows "filter P (take n xs) = take n (filter P xs)"
proof -
  have "sorted_wrt (<) (take n xs)" using assms(1) by (rule sorted_wrt_take)
  moreover have "takeWhile P (take n xs) = take n (takeWhile P xs)"
    by (induction xs arbitrary: n) (auto simp: take_Cons split: nat.split)
  ultimately show ?thesis using assms by (simp add: filter_antitone)
qed

text \<open>The bars of a feed (their open times) that have begun, and those a request is answered with.\<close>

definition begun :: "int list \<Rightarrow> int \<Rightarrow> int list" where
  "begun feed now = filter (\<lambda>t. t \<le> now) feed"

definition fetched :: "int list \<Rightarrow> int \<Rightarrow> int option \<Rightarrow> int \<Rightarrow> int list" where
  "fetched feed now since limit = (case since of
      None \<Rightarrow> drop (length (begun feed now) - nat limit) (begun feed now)
    | Some s \<Rightarrow> take (nat limit) (filter (\<lambda>t. s \<le> t) (begun feed now)))"

text \<open>The closed bars after a time.\<close>

definition closed_after :: "int list \<Rightarrow> int \<Rightarrow> int \<Rightarrow> int \<Rightarrow> int list" where
  "closed_after feed tf now s = filter (\<lambda>t. s < t \<and> t + tf \<le> now) feed"

lemma fetched_after:
  assumes feed: "sorted_wrt (<) feed" "s \<in> set feed" and s: "s \<le> now" and tf: "0 < tf"
  shows "filter (\<lambda>t. s < t \<and> t + tf \<le> now) (fetched feed now (Some s) limit) =
    take (nat limit - 1) (closed_after feed tf now s)"
proof -
  obtain A B where AB: "feed = A @ s # B" using feed(2) by (auto dest: split_list)
  have order: "\<And>a. a \<in> set A \<Longrightarrow> a < s" "\<And>b. b \<in> set B \<Longrightarrow> s < b" and B: "sorted_wrt (<) B"
    using feed(1) by (auto simp: AB sorted_wrt_append)
  have after: "filter (\<lambda>t. s \<le> t) (begun feed now) = s # filter (\<lambda>t. t \<le> now) B"
  proof -
    have "filter (\<lambda>t. t \<le> now \<and> s \<le> t) A = []" using order by (force simp: filter_empty_conv)
    moreover have "filter (\<lambda>t. t \<le> now \<and> s \<le> t) B = filter (\<lambda>t. t \<le> now) B"
      using order by (intro filter_cong) force+
    ultimately show ?thesis using s by (simp add: begun_def AB)
  qed
  have closed: "closed_after feed tf now s = filter (\<lambda>t. t + tf \<le> now) B"
  proof -
    have "filter (\<lambda>t. s < t \<and> t + tf \<le> now) A = []" using order by (force simp: filter_empty_conv)
    moreover have "filter (\<lambda>t. s < t \<and> t + tf \<le> now) B = filter (\<lambda>t. t + tf \<le> now) B"
      using order by (intro filter_cong) force+
    ultimately show ?thesis by (simp add: closed_after_def AB)
  qed
  have "filter (\<lambda>t. s < t \<and> t + tf \<le> now) (take n (filter (\<lambda>t. t \<le> now) B)) =
      take n (filter (\<lambda>t. t + tf \<le> now) B)" for n
  proof -
    have "filter (\<lambda>t. s < t \<and> t + tf \<le> now) (take n (filter (\<lambda>t. t \<le> now) B)) =
        filter (\<lambda>t. t + tf \<le> now) (take n (filter (\<lambda>t. t \<le> now) B))"
      using order by (intro filter_cong) (auto dest: in_set_takeD)
    also have "\<dots> = take n (filter (\<lambda>t. t + tf \<le> now) (filter (\<lambda>t. t \<le> now) B))"
      using B by (intro filter_take_antitone sorted_wrt_filter) auto
    also have "filter (\<lambda>t. t + tf \<le> now) (filter (\<lambda>t. t \<le> now) B) = filter (\<lambda>t. t + tf \<le> now) B"
      using tf by (auto intro: filter_cong)
    finally show ?thesis .
  qed
  then show ?thesis
    by (cases "nat limit") (simp_all add: fetched_def after closed)
qed

text \<open>Parts of the feed without gaps.\<close>

definition segment :: "int list \<Rightarrow> int list \<Rightarrow> bool" where
  "segment feed ts \<longleftrightarrow> (\<exists>A B. feed = A @ ts @ B)"

lemma segment_Nil [simp]: "segment feed []"
  by (auto simp: segment_def)

lemma segment_refl: "segment feed feed"
  unfolding segment_def by (intro exI [of _ "[]"]) simp

lemma segment_sub: "segment feed ts \<Longrightarrow> set ts \<subseteq> set feed"
  by (auto simp: segment_def)

lemma segment_take: "segment feed ts \<Longrightarrow> segment feed (take n ts)"
  unfolding segment_def by (metis append.assoc append_take_drop_id)

lemma segment_drop: "segment feed ts \<Longrightarrow> segment feed (drop n ts)"
  unfolding segment_def by (metis append.assoc append_take_drop_id)

lemma segment_filter:
  assumes "sorted_wrt (<) feed" "segment feed ts" "\<And>x y. x < y \<Longrightarrow> P y \<Longrightarrow> P x"
  shows "segment feed (filter P ts)"
proof -
  have "sorted_wrt (<) ts" using assms(1,2) by (auto simp: segment_def sorted_wrt_append)
  then have "filter P ts = take (length (takeWhile P ts)) ts"
    by (simp add: filter_antitone assms(3) takeWhile_eq_take [symmetric])
  then show ?thesis using segment_take [OF assms(2)] by metis
qed

lemma segment_distinct: "sorted_wrt (<) feed \<Longrightarrow> segment feed ts \<Longrightarrow> distinct ts"
  by (auto simp: segment_def sorted_wrt_append strict_sorted_iff)

lemma segment_fetched:
  assumes "sorted_wrt (<) feed" "0 < tf"
  shows "segment feed (filter (\<lambda>t. t + tf \<le> now) (fetched feed now None limit))"
proof -
  have b: "segment feed (begun feed now)"
    unfolding begun_def using assms(1) segment_refl by (rule segment_filter) simp
  show ?thesis
    unfolding fetched_def option.case by (rule segment_filter [OF assms(1) segment_drop [OF b]]) simp
qed

lemma segment_closed_after:
  assumes feed: "sorted_wrt (<) feed" and ts: "segment feed ts" "ts \<noteq> []"
  shows "segment feed (ts @ take n (closed_after feed tf now (last ts)))"
proof -
  obtain A B where AB: "feed = A @ ts @ B" using ts(1) by (auto simp: segment_def)
  have order: "\<And>a. a \<in> set (A @ ts) \<Longrightarrow> a \<le> last ts" "\<And>b. b \<in> set B \<Longrightarrow> last ts < b" and B: "sorted_wrt (<) B"
  proof -
    obtain us u where ts': "ts = us @ [u]" using ts(2) by (cases ts rule: rev_cases) auto
    show "\<And>a. a \<in> set (A @ ts) \<Longrightarrow> a \<le> last ts" "\<And>b. b \<in> set B \<Longrightarrow> last ts < b" "sorted_wrt (<) B"
      using feed by (auto simp: AB ts' sorted_wrt_append intro: less_imp_le)
  qed
  have "closed_after feed tf now (last ts) = filter (\<lambda>t. t + tf \<le> now) B"
  proof -
    have "filter (\<lambda>t. last ts < t \<and> t + tf \<le> now) (A @ ts) = []" using order(1) by (force simp: filter_empty_conv)
    moreover have "filter (\<lambda>t. last ts < t \<and> t + tf \<le> now) B = filter (\<lambda>t. t + tf \<le> now) B"
      using order(2) by (intro filter_cong) force+
    ultimately show ?thesis by (simp add: closed_after_def AB)
  qed
  moreover have "filter (\<lambda>t. t + tf \<le> now) B = takeWhile (\<lambda>t. t + tf \<le> now) B"
    using B by (rule filter_antitone) auto
  moreover obtain j where "takeWhile (\<lambda>t. t + tf \<le> now) B = take j B"
    using takeWhile_eq_take by blast
  ultimately have "take n (closed_after feed tf now (last ts)) = take (min n j) B"
    by simp
  then have "feed = A @ (ts @ take n (closed_after feed tf now (last ts))) @ drop (min n j) B"
    by (simp add: AB)
  then show ?thesis unfolding segment_def by blast
qed

section \<open>The contract of the exchange\<close>

text \<open>
  The exchange answers with the bars of a feed: the latest ones, or the earliest from a time on (the
  time included), at most as many as asked for, the one that has not closed among them.  Open times
  survive their text forms.
\<close>

type_synonym ohlcv = "rat \<times> rat \<times> rat \<times> rat \<times> rat"

definition raw_bar_of :: "(int \<Rightarrow> ohlcv) \<Rightarrow> int \<Rightarrow> json" where
  "raw_bar_of candle t = (case candle t of (o1, h, l, c, v) \<Rightarrow>
     JList [JInt t, JFloat o1, JFloat h, JFloat l, JFloat c, JFloat v])"

definition event_id_at :: "ohlcv_adapter \<Rightarrow> md_subscription \<Rightarrow> int \<Rightarrow> string" where
  "event_id_at adapter sub t = ''exchange_collector:'' @ oa_exchange_id adapter @ '':'' @ py_upper (md_symbol sub)
     @ '':'' @ (case md_timeframe sub of None \<Rightarrow> ''None'' | Some t \<Rightarrow> t) @ '':'' @ show_int t"

lemma show_int_inj [simp]: "show_int i = show_int j \<longleftrightarrow> i = j"
  using py_int_show by (metis option.inject)

lemma event_id_at_inj [simp]: "event_id_at adapter sub t = event_id_at adapter sub u \<longleftrightarrow> t = u"
  by (simp add: event_id_at_def)

locale exchange_feed =
  fixes env :: "'r collector_env" and adapter :: ohlcv_adapter and sub :: md_subscription
    and market :: string and tf :: int and feed :: "int list" and candle :: "int \<Rightarrow> ohlcv" and iso_of :: "int \<Rightarrow> string"
  assumes feed: "sorted_wrt (<) feed"
    and supported: "adapter_supports adapter sub"
    and timeframe: "timeframe_millis (or_str (md_timeframe sub) []) = Some tf" "0 < tf"
    and market: "resolve_async_ccxt_symbol (ce_markets env n (oa_exchange_id adapter)) (md_symbol sub) = Some market"
    and fetch: "ce_fetch_ohlcv env n (oa_exchange_id adapter) market (or_str (md_timeframe sub) []) since limit = Inr raws
      \<Longrightarrow> raws = map (raw_bar_of candle) (fetched feed (ce_now_ms env n) since limit)"
    and times: "t \<in> set feed \<Longrightarrow> ce_iso env t = Inr (iso_of t)" "t \<in> set feed \<Longrightarrow> ce_parse_iso env (iso_of t) = Inr t"
      "t \<in> set feed \<Longrightarrow> ce_since env t = Inr t"
begin

definition bar_at :: "nat \<Rightarrow> int \<Rightarrow> normalized_bar" where
  "bar_at n t = (case candle t of (o1, h, l, c, v) \<Rightarrow>
     \<lparr>nb_event_id = event_id_at adapter sub t, nb_venue = oa_venue adapter, nb_symbol = py_upper (md_symbol sub),
      nb_timeframe = (case md_timeframe sub of None \<Rightarrow> ''None'' | Some t \<Rightarrow> t), nb_ts_exchange = iso_of t,
      nb_ts_received = ce_now_iso env n, nb_sequence = t, nb_open = o1, nb_high = h, nb_low = l, nb_close = c,
      nb_volume = v, nb_closed = True, nb_source = ''exchange_collector'', nb_exchange = oa_exchange_id adapter,
      nb_adapter = oa_adapter_name adapter\<rparr>)"

lemma bar_at_simps [simp]:
  "nb_event_id (bar_at n t) = event_id_at adapter sub t" "nb_ts_exchange (bar_at n t) = iso_of t"
  "nb_sequence (bar_at n t) = t" "nb_closed (bar_at n t)"
  by (simp_all add: bar_at_def split: prod.split)

lemma normalize_candle:
  "t \<in> set feed \<Longrightarrow> normalize_ohlcv env n adapter sub (raw_bar_of candle t) =
     Inr (if t + tf \<le> ce_now_ms env n then Some (bar_at n t) else None)"
  using times(1) [of t] timeframe(1)
  by (cases "candle t")
    (auto simp: normalize_ohlcv_def raw_bar_of_def py_int_def py_float_def bar_at_def event_id_at_def json_or_def Let_def)

lemma normalized_candles:
  "set ts \<subseteq> set feed \<Longrightarrow> normalized_bars env n adapter sub (map (raw_bar_of candle) ts) =
     Inr (map (bar_at n) (filter (\<lambda>t. t + tf \<le> ce_now_ms env n) ts))"
  by (induction ts) (auto simp: normalize_candle)

lemma fetched_in_feed: "set (fetched feed now since limit) \<subseteq> set feed"
  by (auto simp: fetched_def begun_def split: option.split dest: in_set_takeD in_set_dropD)

lemma newer_candles:
  "set ts \<subseteq> set feed \<Longrightarrow> newer_bars env s (map (bar_at n) (filter Q ts)) =
     Inr (map (bar_at n) (filter (\<lambda>t. s < t \<and> Q t) ts))"
  by (induction ts) (auto simp: times(2))

lemma poll_answer:
  "poll_closed_bars env n adapter sub since limit = Inr bars \<Longrightarrow>
     bars = map (bar_at n) (filter (\<lambda>t. (\<forall>s. since = Some s \<longrightarrow> s < t) \<and> t + tf \<le> ce_now_ms env n)
       (fetched feed (ce_now_ms env n) since limit))"
  using supported market [of n] fetched_in_feed [of "ce_now_ms env n" since limit]
  by (auto simp: poll_closed_bars_def fetch_recent_bars_def normalized_candles newer_candles conj_commute
      split: option.splits sum.splits dest!: fetch)

lemma poll_after:
  assumes "poll_closed_bars env n adapter sub (Some s) limit = Inr bars" "s \<in> set feed" "s \<le> ce_now_ms env n"
  shows "bars = map (bar_at n) (take (nat limit - 1) (closed_after feed tf (ce_now_ms env n) s))"
  using poll_answer [OF assms(1)] fetched_after [OF feed assms(2,3) timeframe(2), of limit] by simp

end

end
