(* ===== verification/Collector_Runs.thy ===== *)
theory Collector_Runs
  imports Collector_Laws Tool_Laws
begin

text \<open>
  What repeated polls of a stream publish: the contract of the Redis commands as a locale over that of the
  exchange, and the invariant that the stream holds a gapless part of the feed up to the stored cursor.
\<close>

section \<open>Fields that are published\<close>

text \<open>The id and the flag of a published bar.\<close>

definition bar_fields :: "'r collector_env \<Rightarrow> nat \<Rightarrow> int \<Rightarrow> normalized_bar \<Rightarrow> json dict" where
  "bar_fields env n i bar = dict_merge (bar_message (ce_now_iso env n) (or_str (Some (nb_event_id bar)) (''bar-'' @ show_int i))
     (nb_venue bar) (nb_symbol bar) (nb_timeframe bar) i (nb_open bar) (nb_high bar) (nb_low bar) (nb_close bar)
     (nb_volume bar) (nb_closed bar) (Some (nb_ts_exchange bar)))
     [(''source'', JStr (nb_source bar)), (''exchange'', JStr (nb_exchange bar)), (''adapter'', JStr (nb_adapter bar)),
      (''ts_received'', JStr (nb_ts_received bar)), (''collector_worker_id'', JStr (ce_worker_id env))]"

lemma bar_fields_encoded:
  "nb_event_id bar \<noteq> [] \<Longrightarrow> nb_closed bar \<Longrightarrow>
     dict_get (encode_stream_fields r d (bar_fields env n i bar)) ''event_id'' = Some (nb_event_id bar) \<and>
     dict_get (encode_stream_fields r d (bar_fields env n i bar)) ''closed'' = Some ''1''"
  by (simp add: bar_fields_def bar_message_def dict_merge_def encode_stream_fields_def or_str_def)

lemma publish_normalized_bar_new:
  "nb_event_id bar \<notin> set (mc_published_ids c) \<Longrightarrow> publish_normalized_bar env bar c =
     bindx (bindx next_sequence (\<lambda>i.
       bindx (lift_error (market_data_stream_key (nb_venue bar) (nb_symbol bar) ''bar'' (Some (nb_timeframe bar))))
         (\<lambda>stream. at_tick (\<lambda>n. publish_fields env stream (bar_fields env n i bar)))))
       (\<lambda>i. thenx (update (remember_published_event_id (nb_event_id bar))) (returnx (Some i))) c"
  by (simp add: publish_normalized_bar_def publish_bar_def bar_fields_def)

lemma remember_ids: "set (mc_published_ids (remember_published_event_id i c)) \<subseteq> insert i (set (mc_published_ids c))"
proof -
  have "set (fst (forget_oldest n ids order)) \<subseteq> set ids" for n ids order
    by (induction n ids order rule: forget_oldest.induct) auto
  from this [of "nat DEFAULT_EVENT_ID_CACHE_LIMIT" "List.insert i (mc_published_ids c)" "mc_published_order c @ [i]"]
  show ?thesis by (auto simp: remember_published_event_id_def Let_def split_beta)
qed

lemma remember_frame [simp]:
  "mc_redis (remember_published_event_id i c) = mc_redis c" "mc_ticks (remember_published_event_id i c) = mc_ticks c"
  by (simp_all add: remember_published_event_id_def Let_def split_beta)

section \<open>The contract of the store\<close>

text \<open>
  \<open>kv\<close> are the texts stored under keys, \<open>entries\<close> the fields of the entries of the stream.  A command
  that fails changes nothing, and others leave the stream and its cursor alone.
\<close>

locale polled_stream = exchange_feed env adapter sub market tf feed candle iso_of
  for env :: "'r collector_env" and adapter sub market tf feed candle iso_of +
  fixes stream :: string and kv :: "'r \<Rightarrow> string \<Rightarrow> string option" and entries :: "'r \<Rightarrow> string dict list"
  assumes key: "stream_key sub = Inr stream"
    and clock: "m \<le> n \<Longrightarrow> ce_now_ms env m \<le> ce_now_ms env n"
    and others: "kv (ce_others env n r) (stream_cursor_key stream) = kv r (stream_cursor_key stream)"
      "entries (ce_others env n r) = entries r"
    and get: "rc_get (ce_client env) k r = (x, r') \<Longrightarrow> kv r' = kv r \<and> entries r' = entries r \<and>
      (case x of Inl e \<Rightarrow> exc_type e \<noteq> ''AttributeError'' | Inr v \<Rightarrow> v = kv r k)"
    and set_text: "rc_set (ce_client env) k v r = (y, r') \<Longrightarrow> entries r' = entries r \<and>
      (case y of Inl e \<Rightarrow> kv r' = kv r \<and> exc_type e \<noteq> ''AttributeError'' | Inr _ \<Rightarrow> kv r' = (kv r)(k := Some v))"
    and xadd: "rc_xadd (ce_client env) stream f len r = (z, r') \<Longrightarrow> kv r' = kv r \<and>
      entries r' = entries r @ (case z of Inl _ \<Rightarrow> [] | Inr _ \<Rightarrow> [f])"
begin

text \<open>The bars of \<open>ts\<close> have been published, the cursor is \<open>cur\<close>, and \<open>n\<close> is a tick that has been.\<close>

definition published :: "nat \<Rightarrow> int list \<Rightarrow> string option \<Rightarrow> 'r collector \<Rightarrow> bool" where
  "published n ts cur c \<longleftrightarrow> n \<le> mc_ticks c \<and>
     map (\<lambda>f. dict_get f ''event_id'') (entries (mc_redis c)) = map (\<lambda>t. Some (event_id_at adapter sub t)) ts \<and>
     list_all (\<lambda>f. dict_get f ''closed'' = Some ''1'') (entries (mc_redis c)) \<and>
     set (mc_published_ids c) \<subseteq> event_id_at adapter sub ` set ts \<and>
     kv (mc_redis c) (stream_cursor_key stream) = cur"

lemma bar_stream: "market_data_stream_key (nb_venue (bar_at n t)) (nb_symbol (bar_at n t)) ''bar''
    (Some (nb_timeframe (bar_at n t))) = Inr stream"
  using key supported
  by (auto simp: stream_key_def adapter_supports_def bar_at_def market_data_stream_key_def Let_def
      split: prod.splits option.splits if_splits)

lemma event_id_nonempty [simp]: "event_id_at adapter sub t \<noteq> []"
  by (simp add: event_id_at_def)

lemma publish_one:
  assumes "published n ts cur c" "t \<notin> set ts"
    and "publish_normalized_bar env (bar_at m t) c = (Inr x, c')"
  shows "published n (ts @ [t]) cur c'"
proof -
  have new: "nb_event_id (bar_at m t) \<notin> set (mc_published_ids c)"
    using assms(1,2) by (auto simp: published_def)
  let ?f = "encode_stream_fields (ce_repr env) (ce_dumps env) (bar_fields env (mc_ticks c) (mc_sequence c + 1) (bar_at m t))"
  let ?r = "ce_others env (mc_ticks c) (mc_redis c)"
  obtain z r' where add: "rc_xadd (ce_client env) stream ?f NAUTILUS_MARKET_DATA_MAXLEN ?r = (z, r')"
    by fastforce
  have z: "\<not> isl z" and c': "mc_redis c' = r'" "mc_ticks c' = Suc (mc_ticks c)"
      "set (mc_published_ids c') \<subseteq> insert (event_id_at adapter sub t) (set (mc_published_ids c))"
    using assms(3) remember_ids
    by (auto simp: publish_normalized_bar_new [OF new] bindx_def thenx_def next_sequence_def bar_stream lift_error_def
        returnx_def raisex_def at_tick_def publish_fields_def update_def redis_call_def note_upstream_def add
        split: sum.splits dest!: subsetD [OF remember_ids])
  from bar_fields_encoded [of "bar_at m t" "ce_repr env" "ce_dumps env" env "mc_ticks c" "mc_sequence c + 1"]
  have f: "dict_get ?f ''event_id'' = Some (event_id_at adapter sub t)" "dict_get ?f ''closed'' = Some ''1''" by simp_all
  from xadd [OF add] others [of "mc_ticks c" "mc_redis c"] z
  have "entries r' = entries (mc_redis c) @ [?f]" "kv r' (stream_cursor_key stream) = kv (mc_redis c) (stream_cursor_key stream)"
    by (auto split: sum.splits)
  with assms(1) c' f show ?thesis by (auto simp: published_def)
qed

lemma publish_all:
  "published n ts cur c \<Longrightarrow> distinct (ts @ us) \<Longrightarrow> publish_bars env (map (bar_at m) us) k c = (Inr x, c') \<Longrightarrow>
     published n (ts @ us) cur c'"
proof (induction us arbitrary: ts k c)
  case (Cons t us)
  obtain y d where y: "publish_normalized_bar env (bar_at m t) c = (Inr y, d)"
    "publish_bars env (map (bar_at m) us) (if y = None then k else k + 1) d = (Inr x, c')"
    using Cons.prems(3) by (auto simp: bindx_def split: prod.splits sum.splits)
  have "published n (ts @ [t]) cur d" using Cons.prems y(1) by (intro publish_one) auto
  from Cons.IH [OF this _ y(2)] Cons.prems(2) show ?case by simp
qed (simp add: returnx_def)

lemma persisted:
  assumes "published n ts cur c" "persist_stream_cursor env stream t c = (Inr x, c')"
  shows "published n ts (Some (show_int t)) c'"
proof -
  let ?r = "ce_others env (mc_ticks c) (mc_redis c)"
  obtain y r' where s: "rc_set (ce_client env) (stream_cursor_key stream) (show_int t) ?r = (y, r')" by fastforce
  from set_text [OF s] others [of "mc_ticks c" "mc_redis c"] assms show ?thesis
    by (auto simp: persist_stream_cursor_def catch_attribute_error_def catchx_def thenx_def bindx_def redis_call_def
        returnx_def raisex_def published_def s split: sum.splits if_splits)
qed

lemma fetched_bars:
  assumes "published n ts (if ts = [] then None else Some (show_int (last ts))) c"
    and "fetch_stream env limit adapter sub stream c = (x, c')" "set ts \<subseteq> set feed"
  shows "published n ts (if ts = [] then None else Some (show_int (last ts))) c' \<and>
    (\<forall>bars. x = Inr bars \<longrightarrow> 
       poll_closed_bars env (mc_ticks c') adapter sub (if ts = [] then None else Some (last ts)) limit = Inr bars)"
proof -
  let ?r = "ce_others env (mc_ticks c) (mc_redis c)"
  obtain y r' where g: "rc_get (ce_client env) (stream_cursor_key stream) ?r = (y, r')" by fastforce
  have "last ts \<in> set feed" if "ts \<noteq> []" using assms(3) that by auto
  with get [OF g] others [of "mc_ticks c" "mc_redis c"] assms(1,2) show ?thesis
    by (auto simp: fetch_stream_def load_stream_cursor_def catch_attribute_error_def catchx_def bindx_def redis_call_def
        returnx_def raisex_def published_def g at_tick_def lift_error_def times(3)
        split: sum.splits if_splits option.splits)
qed

text \<open>The stream holds the bars of \<open>ts\<close>, which are a part of the feed without gaps, and the cursor its end.\<close>

definition at_cursor :: "int list \<Rightarrow> 'r collector \<Rightarrow> bool" where
  "at_cursor ts c \<longleftrightarrow> segment feed ts \<and> (\<exists>n. list_all (\<lambda>t. t + tf \<le> ce_now_ms env n) ts \<and>
     published n ts (if ts = [] then None else Some (show_int (last ts))) c)"

lemma published_frame:
  "mc_redis d = mc_redis c \<Longrightarrow> mc_ticks d = mc_ticks c \<Longrightarrow> mc_published_ids d = mc_published_ids c \<Longrightarrow>
     published n ts cur d = published n ts cur c"
  by (simp add: published_def)

lemma published_later: "published n ts cur c \<Longrightarrow> m \<le> mc_ticks c \<Longrightarrow> published m ts cur c"
  by (simp add: published_def)

lemma schedule_frame [simp]:
  "mc_redis (schedule_next_poll env s u t c) = mc_redis c" "mc_ticks (schedule_next_poll env s u t c) = mc_ticks c"
  "mc_published_ids (schedule_next_poll env s u t c) = mc_published_ids c"
  by (simp_all add: schedule_next_poll_def Let_def split: option.split)

text \<open>The bars a poll gives are the next ones of the feed.\<close>

lemma polled_bars:
  assumes ts: "segment feed ts" "list_all (\<lambda>t. t + tf \<le> ce_now_ms env n) ts" and m: "n \<le> m"
    and bars: "poll_closed_bars env m adapter sub (if ts = [] then None else Some (last ts)) limit = Inr bars"
  obtains us where "bars = map (bar_at m) us" "segment feed (ts @ us)"
    "list_all (\<lambda>t. t + tf \<le> ce_now_ms env m) (ts @ us)"
    "ts \<noteq> [] \<Longrightarrow> us = take (nat limit - 1) (closed_after feed tf (ce_now_ms env m) (last ts))"
proof -
  have old: "list_all (\<lambda>t. t + tf \<le> ce_now_ms env m) ts"
    using ts(2) clock [OF m] by (auto simp: list_all_iff)
  show thesis
  proof (cases "ts = []")
    case True
    from poll_answer [of m None limit bars] bars True
    have "bars = map (bar_at m) (filter (\<lambda>t. t + tf \<le> ce_now_ms env m) (fetched feed (ce_now_ms env m) None limit))"
      by simp
    then show thesis
      by (rule that) (use True segment_fetched [OF feed timeframe(2)] in \<open>auto simp: list_all_iff\<close>)
  next
    case False
    then have "last ts \<in> set ts" by simp
    then have last: "last ts \<in> set feed" "last ts \<le> ce_now_ms env m"
      using segment_sub [OF ts(1)] old timeframe(2) by (force simp: list_all_iff)+
    have "bars = map (bar_at m) (take (nat limit - 1) (closed_after feed tf (ce_now_ms env m) (last ts)))"
      using bars False by (intro poll_after last) simp
    then show thesis
      by (rule that) (use old segment_closed_after [OF feed ts(1) False] in
        \<open>auto simp: list_all_iff closed_after_def dest: in_set_takeD\<close>)
  qed
qed

lemma publish_stream_at:
  assumes pub: "published n ts (if ts = [] then None else Some (show_int (last ts))) c"
    and us: "segment feed (ts @ us)"
    and run: "publish_stream env sub stream (map (bar_at m) us) k c = (Inr x, c')"
  shows "published n (ts @ us) (if ts @ us = [] then None else Some (show_int (last (ts @ us)))) c'"
proof -
  let ?c = "c\<lparr>mc_poll_errors := dict_pop stream (mc_poll_errors c)\<rparr>"
  have pub': "published n ts (if ts = [] then None else Some (show_int (last ts))) ?c"
    using pub by (simp add: published_frame [of ?c c])
  have dist: "distinct (ts @ us)" by (rule segment_distinct [OF feed us])
  show ?thesis
  proof (cases "us = []")
    case True
    then have "c' = schedule_next_poll env stream sub None ?c"
      using run by (simp add: publish_stream_def thenx_def bindx_def update_def returnx_def)
    then have "published n ts cur c' = published n ts cur ?c" for cur by (intro published_frame) simp_all
    with pub' show ?thesis by (simp only: True append_Nil2)
  next
    case False
    then have iso: "ce_parse_iso env (nb_ts_exchange (last (map (bar_at m) us))) = Inr (last us)"
      using segment_sub [OF us] times(2) by (simp add: last_map subset_iff)
    obtain y d where d: "publish_bars env (map (bar_at m) us) k ?c = (Inr y, d)"
      and rest: "thenx (persist_stream_cursor env stream (last us))
        (thenx (update (schedule_next_poll env stream sub (Some (last us)))) (returnx y)) d = (Inr x, c')"
      using run False iso
      by (auto simp: publish_stream_def thenx_def bindx_def update_def returnx_def lift_error_def
          split: prod.splits sum.splits)
    obtain z d' where e: "persist_stream_cursor env stream (last us) d = (Inr z, d')"
      and c': "c' = schedule_next_poll env stream sub (Some (last us)) d'"
      using rest by (auto simp: thenx_def bindx_def update_def returnx_def split: prod.splits sum.splits)
    from persisted [OF publish_all [OF pub' dist d] e] show ?thesis
      using False published_frame [of c' d'] by (simp add: c')
  qed
qed

theorem poll_stream_at:
  assumes at: "at_cursor ts c" and run: "poll_stream env limit adapter sub stream k c = (Inr x, c')"
  shows "\<exists>us. at_cursor (ts @ us) c'"
proof -
  obtain n where ts: "segment feed ts" "list_all (\<lambda>t. t + tf \<le> ce_now_ms env n) ts"
    and pub: "published n ts (if ts = [] then None else Some (show_int (last ts))) c"
    using at by (auto simp: at_cursor_def)
  obtain y d where f: "fetch_stream env limit adapter sub stream c = (y, d)" by fastforce
  note d = fetched_bars [OF pub f segment_sub [OF ts(1)]]
  show ?thesis
  proof (cases y)
    case (Inl e)
    then have "mc_redis c' = mc_redis d" "mc_ticks c' = mc_ticks d" "mc_published_ids c' = mc_published_ids d"
      using run f by (auto simp: poll_stream_def)
    with d ts have "at_cursor (ts @ []) c'"
      unfolding at_cursor_def append_Nil2 by (intro conjI exI [of _ n]) (simp_all add: published_frame [of c' d])
    then show ?thesis by blast
  next
    case (Inr bars)
    let ?m = "mc_ticks d"
    have m: "n \<le> ?m" using d by (simp add: published_def)
    obtain us where us: "bars = map (bar_at ?m) us" "segment feed (ts @ us)"
      "list_all (\<lambda>t. t + tf \<le> ce_now_ms env ?m) (ts @ us)"
      using d Inr by (blast intro: polled_bars [OF ts m])
    have pub_d: "published ?m ts (if ts = [] then None else Some (show_int (last ts))) d"
      by (rule published_later [OF conjunct1 [OF d] order_refl])
    have "publish_stream env sub stream (map (bar_at ?m) us) k d = (Inr x, c')"
      using run f Inr us(1) by (simp add: poll_stream_def)
    from publish_stream_at [OF pub_d us(2) this] us(2,3) show ?thesis unfolding at_cursor_def by blast
  qed
qed

end

end
