(* ===== verification/Json_Text.thy ===== *)
theory Json_Text
  imports Security
begin

text \<open>
  Reading JSON: \<open>json.loads\<close> of the Python library, as its scanner works, and that it reads back what
  \<open>canonical_json\<close> writes (\<open>json.dumps(v, sort_keys=True, separators=(",", ":"))\<close>).

  What the strings and numbers of the model cannot hold is an argument, a record: the value of a number
  with a fraction or an exponent, that of the constants \<open>NaN\<close> and \<open>Infinity\<close>, and what a string holds for
  a code point above 255.
\<close>

section \<open>The scanner\<close>

record json_reader =
  jr_float :: "string \<Rightarrow> json"
  jr_constant :: "string \<Rightarrow> json"
  jr_wide :: "nat \<Rightarrow> string"

definition is_json_space :: "char \<Rightarrow> bool" where
  "is_json_space c \<longleftrightarrow> (of_char c :: nat) \<in> {9, 10, 13, 32}"

definition skip_space :: "string \<Rightarrow> string" where
  "skip_space s = dropWhile is_json_space s"

subsection \<open>Strings\<close>

definition hex_value :: "char \<Rightarrow> nat option" where
  "hex_value c = (let n = (of_char c :: nat)
     in if 48 \<le> n \<and> n \<le> 57 then Some (n - 48)
        else if 65 \<le> n \<and> n \<le> 70 then Some (n - 55)
        else if 97 \<le> n \<and> n \<le> 102 then Some (n - 87)
        else None)"

fun scan_hex :: "string \<Rightarrow> (nat \<times> string) option" where
  "scan_hex (a # b # c # d # s) = (case (hex_value a, hex_value b, hex_value c, hex_value d) of
      (Some w, Some x, Some y, Some z) \<Rightarrow> Some (((w * 16 + x) * 16 + y) * 16 + z, s)
    | _ \<Rightarrow> None)"
| "scan_hex _ = None"

text \<open>What follows a backslash and \<open>u\<close>; two escapes of a surrogate pair are one code point.\<close>

definition scan_unicode :: "string \<Rightarrow> (nat \<times> string) option" where
  "scan_unicode s = (case scan_hex s of
      None \<Rightarrow> None
    | Some (n, t) \<Rightarrow>
        if 0xD800 \<le> n \<and> n \<le> 0xDBFF \<and> has_prefix [CHR 0x5C, CHR ''u''] t
        then case scan_hex (drop 2 t) of
            None \<Rightarrow> None
          | Some (m, u) \<Rightarrow>
              if 0xDC00 \<le> m \<and> m \<le> 0xDFFF then Some (0x10000 + (n - 0xD800) * 1024 + (m - 0xDC00), u)
              else Some (n, t)
        else Some (n, t))"

definition unescape :: "char \<Rightarrow> char option" where
  "unescape c =
     (if c = CHR 0x22 \<or> c = CHR 0x5C \<or> c = CHR ''/'' then Some c
      else if c = CHR ''b'' then Some (char_of (8 :: nat))
      else if c = CHR ''f'' then Some (char_of (12 :: nat))
      else if c = CHR ''n'' then Some (char_of (10 :: nat))
      else if c = CHR ''r'' then Some (char_of (13 :: nat))
      else if c = CHR ''t'' then Some (char_of (9 :: nat))
      else None)"

definition char_text :: "json_reader \<Rightarrow> nat \<Rightarrow> string" where
  "char_text reader n = (if n < 256 then [char_of n] else jr_wide reader n)"

definition prepend :: "'a list \<Rightarrow> ('a list \<times> 'b) option \<Rightarrow> ('a list \<times> 'b) option" where
  "prepend xs r = map_option (\<lambda>(ys, b). (xs @ ys, b)) r"

lemma scan_hex_shorter: "scan_hex s = Some (n, t) \<Longrightarrow> length t < length s"
  by (induction s rule: scan_hex.induct) (auto split: option.splits)

lemma scan_unicode_shorter: "scan_unicode s = Some (n, t) \<Longrightarrow> length t < length s"
  by (auto simp: scan_unicode_def dest!: scan_hex_shorter split: option.splits if_splits)

text \<open>The rest of a string, after its opening quote.\<close>

function scan_string :: "json_reader \<Rightarrow> string \<Rightarrow> (string \<times> string) option" where
  "scan_string reader [] = None"
| "scan_string reader (c # s) =
     (if c = CHR 0x22 then Some ([], s)
      else if c = CHR 0x5C then
        (case s of
           [] \<Rightarrow> None
         | e # t \<Rightarrow>
             if e = CHR ''u'' then
               (case scan_unicode t of
                  None \<Rightarrow> None
                | Some (n, u) \<Rightarrow> prepend (char_text reader n) (scan_string reader u))
             else (case unescape e of
                 None \<Rightarrow> None
               | Some x \<Rightarrow> prepend [x] (scan_string reader t)))
      else if (of_char c :: nat) < 32 then None
      else prepend [c] (scan_string reader s))"
  by pat_completeness auto
termination
  by (relation "measure (\<lambda>(_, s). length s)") (auto dest: scan_unicode_shorter)

subsection \<open>Numbers\<close>

definition scan_integer :: "string \<Rightarrow> (string \<times> string) option" where
  "scan_integer s =
     (let (sign, t) = (if has_prefix ''-'' s then (''-'', tl s) else ([], s))
      in case t of
           [] \<Rightarrow> None
         | c # u \<Rightarrow>
             if c = CHR ''0'' then Some (sign @ [c], u)
             else if is_digit c then Some (sign @ takeWhile is_digit t, dropWhile is_digit t)
             else None)"

text \<open>The fraction and the exponent; when there are no digits there is none.\<close>

definition scan_fraction :: "string \<Rightarrow> string \<times> string" where
  "scan_fraction s = (case s of
      [] \<Rightarrow> ([], s)
    | c # t \<Rightarrow>
        if c = CHR ''.'' \<and> takeWhile is_digit t \<noteq> [] then (c # takeWhile is_digit t, dropWhile is_digit t)
        else ([], s))"

definition split_sign :: "string \<Rightarrow> string \<times> string" where
  "split_sign s = (case s of
      [] \<Rightarrow> ([], s) | c # t \<Rightarrow> if c = CHR ''-'' \<or> c = CHR ''+'' then ([c], t) else ([], s))"

definition scan_exponent :: "string \<Rightarrow> string \<times> string" where
  "scan_exponent s = (case s of
      [] \<Rightarrow> ([], s)
    | c # t \<Rightarrow>
        (let (sign, u) = split_sign t
         in if (c = CHR ''e'' \<or> c = CHR ''E'') \<and> takeWhile is_digit u \<noteq> []
            then (c # sign @ takeWhile is_digit u, dropWhile is_digit u)
            else ([], s)))"

definition integer_of :: "string \<Rightarrow> int" where
  "integer_of s = (if has_prefix ''-'' s then - int (parse_nat (tl s)) else int (parse_nat s))"

definition scan_number :: "json_reader \<Rightarrow> string \<Rightarrow> (json \<times> string) option" where
  "scan_number reader s = (case scan_integer s of
      None \<Rightarrow> None
    | Some (i, t) \<Rightarrow>
        (let (f, u) = scan_fraction t; (e, r) = scan_exponent u
         in Some (if f = [] \<and> e = [] then JInt (integer_of i)
                  else jr_float reader (i @ f @ e), r)))"

subsection \<open>Values\<close>

definition scan_constant :: "json_reader \<Rightarrow> string \<Rightarrow> (json \<times> string) option" where
  "scan_constant reader s =
     (if has_prefix ''null'' s then Some (JNull, drop 4 s)
      else if has_prefix ''true'' s then Some (JBool True, drop 4 s)
      else if has_prefix ''false'' s then Some (JBool False, drop 5 s)
      else if has_prefix ''NaN'' s then Some (jr_constant reader ''NaN'', drop 3 s)
      else if has_prefix ''Infinity'' s then Some (jr_constant reader ''Infinity'', drop 8 s)
      else if has_prefix ''-Infinity'' s then Some (jr_constant reader ''-Infinity'', drop 9 s)
      else None)"

text \<open>The items of a list and the members of an object, after the opening bracket, when there are any.\<close>

fun scan_value :: "json_reader \<Rightarrow> nat \<Rightarrow> string \<Rightarrow> (json \<times> string) option"
  and scan_items :: "json_reader \<Rightarrow> nat \<Rightarrow> string \<Rightarrow> (json list \<times> string) option"
  and scan_members :: "json_reader \<Rightarrow> nat \<Rightarrow> string \<Rightarrow> (json dict \<times> string) option" where
  "scan_value reader 0 s = None"
| "scan_value reader (Suc n) s = (case s of
      [] \<Rightarrow> None
    | c # t \<Rightarrow>
        if c = CHR 0x22 then map_option (\<lambda>(x, r). (JStr x, r)) (scan_string reader t)
        else if c = CHR ''{'' then
          (if has_prefix ''}'' (skip_space t) then Some (JObj [], tl (skip_space t))
           else map_option (\<lambda>(d, r). (JObj (dict_merge [] d), r)) (scan_members reader n (skip_space t)))
        else if c = CHR ''['' then
          (if has_prefix '']'' (skip_space t) then Some (JList [], tl (skip_space t))
           else map_option (\<lambda>(xs, r). (JList xs, r)) (scan_items reader n (skip_space t)))
        else case scan_constant reader s of
            Some x \<Rightarrow> Some x
          | None \<Rightarrow> scan_number reader s)"
| "scan_items reader 0 s = None"
| "scan_items reader (Suc n) s = (case scan_value reader n s of
      None \<Rightarrow> None
    | Some (v, r) \<Rightarrow>
        (case skip_space r of
           [] \<Rightarrow> None
         | c # t \<Rightarrow>
             if c = CHR '']'' then Some ([v], t)
             else if c = CHR '','' then prepend [v] (scan_items reader n (skip_space t))
             else None))"
| "scan_members reader 0 s = None"
| "scan_members reader (Suc n) s =
     (if \<not> has_prefix [CHR 0x22] s then None
      else case scan_string reader (tl s) of
        None \<Rightarrow> None
      | Some (k, r) \<Rightarrow>
          if \<not> has_prefix '':'' (skip_space r) then None
          else case scan_value reader n (skip_space (tl (skip_space r))) of
            None \<Rightarrow> None
          | Some (v, u) \<Rightarrow>
              (case skip_space u of
                 [] \<Rightarrow> None
               | c # t \<Rightarrow>
                   if c = CHR ''}'' then Some ([(k, v)], t)
                   else if c = CHR '','' then prepend [(k, v)] (scan_members reader n (skip_space t))
                   else None))"

text \<open>
  \<open>json.loads\<close>; \<open>None\<close> is the \<open>JSONDecodeError\<close>.  A value inside another is at least one character
  shorter and takes at most two steps, so the steps given are always enough (\<open>scan_enough\<close>).
\<close>

definition json_loads :: "json_reader \<Rightarrow> string \<Rightarrow> json option" where
  "json_loads reader s = (case scan_value reader (2 * length s + 1) (skip_space s) of
      None \<Rightarrow> None
    | Some (v, r) \<Rightarrow> if skip_space r = [] then Some v else None)"

section \<open>Enough steps\<close>

lemma skip_space_le: "length (skip_space s) \<le> length s"
  by (simp add: skip_space_def length_dropWhile_le)

lemma prepend_eq_Some: "prepend xs r = Some (zs, b) \<longleftrightarrow> (\<exists>ys. r = Some (ys, b) \<and> zs = xs @ ys)"
  by (auto simp: prepend_def)

lemma scan_string_shorter: "scan_string reader s = Some (x, r) \<Longrightarrow> length r < length s"
proof (induction reader s arbitrary: x r rule: scan_string.induct)
  case (2 reader c s)
  then show ?case
    by (fastforce simp: prepend_eq_Some dest: scan_unicode_shorter split: if_splits list.splits option.splits)
qed simp

lemma scan_integer_shorter:
  assumes "scan_integer s = Some (i, t)"
  shows "length t < length s"
proof -
  define u where "u = (if has_prefix ''-'' s then tl s else s)"
  obtain c w where u: "u = c # w"
    using assms by (cases u) (auto simp: scan_integer_def u_def Let_def split: if_splits)
  moreover have "length u \<le> length s" by (simp add: u_def)
  moreover have "t = w \<or> is_digit c \<and> t = dropWhile is_digit u"
    using assms u by (auto simp: scan_integer_def u_def Let_def split: if_splits)
  moreover have "length (dropWhile is_digit w) \<le> length w" by (rule length_dropWhile_le)
  ultimately show ?thesis by auto
qed

lemma scan_fraction_le: "length (snd (scan_fraction s)) \<le> length s"
  by (auto simp: scan_fraction_def intro: le_SucI length_dropWhile_le split: list.split)

lemma scan_exponent_le: "length (snd (scan_exponent s)) \<le> length s"
  using length_dropWhile_le [of is_digit]
  by (auto simp: scan_exponent_def split_sign_def Let_def intro: le_SucI split: list.split)

lemma scan_number_shorter:
  assumes "scan_number reader s = Some (v, r)"
  shows "length r < length s"
proof -
  obtain i t where t: "scan_integer s = Some (i, t)"
    using assms by (auto simp: scan_number_def split: option.splits)
  with assms have "r = snd (scan_exponent (snd (scan_fraction t)))"
    by (simp add: scan_number_def Let_def split_beta)
  with scan_integer_shorter [OF t] scan_fraction_le [of t] scan_exponent_le [of "snd (scan_fraction t)"]
  show ?thesis by simp
qed

lemma scan_constant_shorter: "scan_constant reader s = Some (v, r) \<Longrightarrow> length r < length s"
  by (cases s) (auto simp: scan_constant_def has_prefix_def split: if_splits)

lemma scan_shorter:
  "scan_value reader n s = Some (v, r) \<Longrightarrow> length r < length s"
  "scan_items reader n s = Some (vs, r) \<Longrightarrow> length r < length s"
  "scan_members reader n s = Some (d, r) \<Longrightarrow> length r < length s"
proof (induction reader n s and reader n s and reader n s arbitrary: v r and vs r and d r
    rule: scan_value_scan_items_scan_members.induct)
  case (2 reader n s)
  show ?case
  proof (cases s)
    case (Cons c t)
    have "length (tl (skip_space t)) < length s" "length (skip_space t) < length s"
      using skip_space_le [of t] by (simp_all add: Cons)
    with 2 Cons show ?thesis
      by (fastforce dest: scan_string_shorter scan_constant_shorter scan_number_shorter
          split: if_splits option.splits)
  qed (use 2 in simp)
next
  case (4 reader n s)
  obtain v u where v: "scan_value reader n s = Some (v, u)" using "4.prems" by (auto split: option.splits)
  obtain c t where c: "skip_space u = c # t" using "4.prems" v by (cases "skip_space u") auto
  have t: "length t < length s" "length (skip_space t) \<le> length t"
    using "4.IH"(1) [OF v] skip_space_le [of u] skip_space_le [of t] by (simp_all add: c)
  show ?case
  proof (cases "c = CHR '']''")
    case True
    with "4.prems" v c t show ?thesis by simp
  next
    case False
    with "4.prems" v c have comma: "c = CHR '',''"
      and "\<exists>ys. scan_items reader n (skip_space t) = Some (ys, r)"
      by (auto simp: prepend_eq_Some split: if_splits)
    with "4.IH"(2) [OF v refl c False comma] t show ?thesis by auto
  qed
next
  case (6 reader n s)
  have q: "has_prefix [CHR 0x22] s" using "6.prems" by (simp split: if_splits)
  obtain k u where k: "scan_string reader (tl s) = Some (k, u)" using "6.prems" by (auto split: option.splits if_splits)
  have colon: "has_prefix '':'' (skip_space u)" using "6.prems" q k by (auto split: if_splits)
  obtain v w where v: "scan_value reader n (skip_space (tl (skip_space u))) = Some (v, w)"
    using "6.prems" q k colon by (auto split: option.splits)
  obtain c t where c: "skip_space w = c # t" using "6.prems" q k colon v by (cases "skip_space w") auto
  have "length w < length (skip_space (tl (skip_space u)))"
    using "6.IH"(1) [OF _ k refl _ v] q colon by simp
  then have t: "length t < length s" "length (skip_space t) \<le> length t"
    using scan_string_shorter [OF k] skip_space_le [of u] skip_space_le [of t] skip_space_le [of w]
      skip_space_le [of "tl (skip_space u)"] by (simp_all add: c)
  show ?case
  proof (cases "c = CHR ''}''")
    case True
    with "6.prems" q k colon v c t show ?thesis by simp
  next
    case False
    with "6.prems" q k colon v c have comma: "c = CHR '',''"
      and "\<exists>ys. scan_members reader n (skip_space t) = Some (ys, r)"
      by (auto simp: prepend_eq_Some split: if_splits)
    with "6.IH"(2) [OF _ k refl _ v refl c False comma] q colon t show ?thesis by auto
  qed
qed simp_all

lemma after_value:
  assumes "scan_value reader n s = Some (v, u)" "skip_space u = c # t"
  shows "length (skip_space t) < length s"
proof -
  have "length (skip_space u) \<le> length u" "length (skip_space t) \<le> length t" by (rule skip_space_le)+
  with scan_shorter(1) [OF assms(1)] show ?thesis by (simp add: assms(2))
qed

lemma scan_steady:
  "2 * length s + 1 \<le> n \<Longrightarrow> 2 * length s + 1 \<le> m \<Longrightarrow> scan_value reader n s = scan_value reader m s"
  "2 * length s + 2 \<le> n \<Longrightarrow> 2 * length s + 2 \<le> m \<Longrightarrow> scan_items reader n s = scan_items reader m s"
  "2 * length s + 2 \<le> n \<Longrightarrow> 2 * length s + 2 \<le> m \<Longrightarrow> scan_members reader n s = scan_members reader m s"
proof (induction reader n s and reader n s and reader n s arbitrary: m and m and m
    rule: scan_value_scan_items_scan_members.induct)
  case (2 reader n s)
  obtain k where m: "m = Suc k" using "2.prems" by (cases m) auto
  show ?case
  proof (cases s)
    case (Cons c t)
    have steps: "2 * length (skip_space t) + 2 \<le> n" "2 * length (skip_space t) + 2 \<le> k"
      using "2.prems" skip_space_le [of t] by (simp_all add: m Cons)
    then have "scan_members reader n (skip_space t) = scan_members reader k (skip_space t)"
      if "c \<noteq> CHR 0x22" "c = CHR ''{''" "\<not> has_prefix ''}'' (skip_space t)"
      by (rule "2.IH"(1) [OF Cons that])
    moreover have "scan_items reader n (skip_space t) = scan_items reader k (skip_space t)"
      if "c \<noteq> CHR 0x22" "c \<noteq> CHR ''{''" "c = CHR ''[''" "\<not> has_prefix '']'' (skip_space t)"
      using steps by (rule "2.IH"(2) [OF Cons that])
    ultimately show ?thesis by (simp add: Cons m)
  qed (simp add: m)
next
  case (4 reader n s)
  obtain k where m: "m = Suc k" using "4.prems" by (cases m) auto
  have same: "scan_value reader k s = scan_value reader n s" 
    by (rule "4.IH"(1) [symmetric]) (use "4.prems" m in simp_all)
  show ?case
  proof (cases "scan_value reader n s")
    case (Some x)
    obtain v u where v: "scan_value reader n s = Some (v, u)" using Some by (cases x) auto
    show ?thesis
    proof (cases "skip_space u")
      case (Cons c t)
      have steps: "2 * length (skip_space t) + 2 \<le> n" "2 * length (skip_space t) + 2 \<le> k"
        using after_value [OF v Cons] "4.prems" by (simp_all add: m)
      have "scan_items reader n (skip_space t) = scan_items reader k (skip_space t)"
        if "c \<noteq> CHR '']''" "c = CHR '',''"
        using steps by (rule "4.IH"(2) [OF v refl Cons that])
      then show ?thesis by (simp add: m same v Cons)
    qed (simp add: m same v)
  qed (simp add: m same)
next
  case (6 reader n s)
  obtain k where m: "m = Suc k" using "6.prems" by (cases m) auto
  have shorter: "length (skip_space (tl (skip_space u))) < length s"
    if "scan_string reader (tl s) = Some (x, u)" for x u
    using scan_string_shorter [OF that] skip_space_le [of u] skip_space_le [of "tl (skip_space u)"] by simp
  have same: "scan_value reader n (skip_space (tl (skip_space u))) =
      scan_value reader k (skip_space (tl (skip_space u)))"
    if "has_prefix [CHR 0x22] s" "scan_string reader (tl s) = Some (x, u)" "has_prefix '':'' (skip_space u)" for x u
  proof -
    have le: "2 * length (skip_space (tl (skip_space u))) + 1 \<le> n"
      "2 * length (skip_space (tl (skip_space u))) + 1 \<le> k"
      using shorter [OF that(2)] "6.prems" by (simp_all add: m)
    show ?thesis
      by (rule "6.IH"(1) [OF _ that(2) refl _ le]) (use that in simp_all)
  qed
  have rest: "scan_members reader n (skip_space t) = scan_members reader k (skip_space t)"
    if "has_prefix [CHR 0x22] s" "scan_string reader (tl s) = Some (x, u)" "has_prefix '':'' (skip_space u)"
      "scan_value reader n (skip_space (tl (skip_space u))) = Some (v, w)" "skip_space w = c # t"
      "c \<noteq> CHR ''}''" "c = CHR '',''"
    for x u v w c t
  proof -
    have le: "2 * length (skip_space t) + 2 \<le> n" "2 * length (skip_space t) + 2 \<le> k"
      using shorter [OF that(2)] after_value [OF that(4,5)] "6.prems" by (simp_all add: m)
    show ?thesis
      by (rule "6.IH"(2) [OF _ that(2) refl _ that(4) refl that(5,6,7) le]) (use that(1,3) in simp_all)
  qed
  show ?case
  proof (cases "has_prefix [CHR 0x22] s")
    case q: True
    show ?thesis
    proof (cases "scan_string reader (tl s)")
      case (Some y)
      obtain x u where x: "scan_string reader (tl s) = Some (x, u)" using Some by (cases y) auto
      show ?thesis
      proof (cases "has_prefix '':'' (skip_space u)")
        case colon: True
        let ?s = "skip_space (tl (skip_space u))"
        note eq = same [OF q x colon]
        show ?thesis
        proof (cases "scan_value reader n ?s")
          case (Some z)
          obtain v w where v: "scan_value reader n ?s = Some (v, w)" using Some by (cases z) auto
          show ?thesis
          proof (cases "skip_space w")
            case (Cons c t)
            with rest [OF q x colon v Cons] show ?thesis
              by (simp add: m q x colon v eq [symmetric])
          qed (simp add: m q x colon v eq [symmetric])
        qed (simp add: m q x colon eq [symmetric])
      qed (simp add: m q x)
    qed (simp add: m q)
  qed (simp add: m)
qed simp_all

text \<open>The steps of \<open>json_loads\<close> are enough: more give the same.\<close>

lemma scan_enough:
  "2 * length s + 1 \<le> n \<Longrightarrow> json_loads reader s = (case scan_value reader n (skip_space s) of
      None \<Rightarrow> None | Some (v, r) \<Rightarrow> if skip_space r = [] then Some v else None)"
  using scan_steady(1) [of "skip_space s" n "2 * length s + 1" reader] skip_space_le [of s]
  by (simp add: json_loads_def)

section \<open>What is written is read\<close>

subsection \<open>Strings\<close>

lemma hex_value_digit: "n < 16 \<Longrightarrow> hex_value (hex_digit n) = Some n"
  by (auto simp: hex_value_def hex_digit_def Let_def)

lemma scan_hex_byte: "n < 256 \<Longrightarrow>
   scan_hex (CHR ''0'' # CHR ''0'' # hex_digit (n div 16) # hex_digit (n mod 16) # s) = Some (n, s)"
  by (simp add: hex_value_digit less_mult_imp_div_less) (simp add: hex_value_def)

lemma char_of_codes:
  "char_of (8 :: nat) = CHR 0x08" "char_of (9 :: nat) = CHR 0x09" "char_of (10 :: nat) = CHR 0x0A"
  "char_of (12 :: nat) = CHR 0x0C" "char_of (13 :: nat) = CHR 0x0D" "char_of (34 :: nat) = CHR 0x22"
  "char_of (92 :: nat) = CHR 0x5C"
  by code_simp+

lemma scan_char:
  "scan_string reader (json_char c @ s) = prepend [c] (scan_string reader s)"
proof -
  let ?n = "of_char c :: nat"
  have c: "c = char_of ?n" by simp
  have quote: "?n = 34" if "c = CHR 0x22" using that by simp
  have backslash: "?n = 92" if "c = CHR 0x5C" using that by simp
  consider "?n \<in> {8, 9, 10, 12, 13, 34, 92}"
    | "32 \<le> ?n" "?n \<le> 126" "?n \<notin> {34, 92}"
    | "?n \<notin> {8, 9, 10, 12, 13, 34, 92}" "\<not> (32 \<le> ?n \<and> ?n \<le> 126)" by auto
  then show ?thesis
  proof cases
    case 1
    then have "c \<in> char_of ` {8, 9, 10, 12, 13, 34, 92 :: nat}" using c by blast
    then show ?thesis
      by (auto simp: char_of_codes json_char_def unescape_def)
  next
    case 2
    then have "json_char c = [c]" by (simp add: json_char_def)
    moreover have "c \<noteq> CHR 0x22" "c \<noteq> CHR 0x5C" using 2(3) quote backslash by auto
    ultimately show ?thesis using 2 by simp
  next
    case 3
    have small: "\<not> 0xD800 \<le> ?n" using nat_of_char_less_256 [of c] by linarith
    have "scan_unicode (''00'' @ [hex_digit (?n div 16), hex_digit (?n mod 16)] @ s) = Some (?n, s)"
      using scan_hex_byte [OF nat_of_char_less_256 [of c]] small
      by (simp add: scan_unicode_def del: scan_hex.simps)
    moreover have "json_char c = CHR 0x5C # CHR ''u'' # ''00'' @ [hex_digit (?n div 16), hex_digit (?n mod 16)]"
      using 3 by (simp add: json_char_def Let_def)
    ultimately show ?thesis by (simp add: char_text_def)
  qed
qed

lemma scan_json_string:
  "scan_string reader (concat (map json_char s) @ CHR 0x22 # rest) = Some (s, rest)"
  by (induction s) (simp_all add: scan_char prepend_def)

subsection \<open>Numbers\<close>

text \<open>What may follow a value in a text.\<close>

definition stops :: "string \<Rightarrow> bool" where
  "stops rest \<longleftrightarrow> rest = [] \<or> hd rest \<in> {CHR '','', CHR '']'', CHR ''}''}"

lemma stops_simps [simp]:
  "stops []" "stops (CHR '','' # s)" "stops (CHR '']'' # s)" "stops (CHR ''}'' # s)"
  by (simp_all add: stops_def)

lemma no_digit_append:
  assumes "rest = [] \<or> \<not> is_digit (hd rest)"
  shows "takeWhile is_digit (s @ rest) = takeWhile is_digit s" "dropWhile is_digit (s @ rest) = dropWhile is_digit s @ rest"
proof -
  have "takeWhile is_digit rest = []" "dropWhile is_digit rest = rest"
    using assms by (cases rest; auto)+
  then show "takeWhile is_digit (s @ rest) = takeWhile is_digit s"
    "dropWhile is_digit (s @ rest) = dropWhile is_digit s @ rest"
    by (induction s) auto
qed

lemma stops_no_digit: "stops rest \<Longrightarrow> rest = [] \<or> \<not> is_digit (hd rest)"
  by (auto simp: stops_def is_digit_def)

lemma has_prefix_Cons: "has_prefix (c # p) (d # s) \<longleftrightarrow> c = d \<and> has_prefix p s"
  by (auto simp: has_prefix_def)

lemma scan_integer_append:
  assumes "scan_integer s = Some (i, t)" "rest = [] \<or> \<not> is_digit (hd rest)"
  shows "scan_integer (s @ rest) = Some (i, t @ rest)"
proof (cases s)
  case (Cons c u)
  with assms no_digit_append [OF assms(2)] no_digit_append [OF assms(2), of "[]"] show ?thesis
    by (cases u) (auto simp: scan_integer_def has_prefix_def Let_def split: if_splits)
qed (use assms in \<open>simp add: scan_integer_def has_prefix_def\<close>)

lemma split_sign_append:
  "stops rest \<Longrightarrow> split_sign (s @ rest) = (fst (split_sign s), snd (split_sign s) @ rest)"
  by (cases s; cases rest) (auto simp: split_sign_def stops_def)

lemma stops_scan:
  assumes "stops rest"
  shows "scan_fraction rest = ([], rest)" "scan_exponent rest = ([], rest)"
  using assms by (cases rest; auto simp: stops_def scan_fraction_def scan_exponent_def Let_def split_beta)+

lemma scan_fraction_append:
  assumes "stops rest"
  shows "scan_fraction (s @ rest) = (fst (scan_fraction s), snd (scan_fraction s) @ rest)"
  using no_digit_append [OF stops_no_digit [OF assms]] stops_scan [OF assms]
  by (cases s) (auto simp: scan_fraction_def)

lemma scan_exponent_append:
  assumes "stops rest"
  shows "scan_exponent (s @ rest) = (fst (scan_exponent s), snd (scan_exponent s) @ rest)"
  using no_digit_append [OF stops_no_digit [OF assms]] stops_scan [OF assms] split_sign_append [OF assms]
  by (cases s) (auto simp: scan_exponent_def Let_def split_beta)

lemma scan_number_append:
  assumes "scan_number reader s = Some (v, [])" "stops rest"
  shows "scan_number reader (s @ rest) = Some (v, rest)"
proof -
  obtain i t where "scan_integer s = Some (i, t)"
    using assms(1) by (auto simp: scan_number_def split: option.splits)
  with assms(1) scan_integer_append [OF this stops_no_digit [OF assms(2)]] show ?thesis
    by (auto simp: scan_number_def Let_def split_beta scan_fraction_append [OF assms(2)]
        scan_exponent_append [OF assms(2)])
qed

lemma digits_of_start: "\<exists>c s. digits_of n = c # s \<and> is_digit c \<and> (c = CHR ''0'' \<longrightarrow> s = [])"
proof (induction n rule: digits_of.induct)
  case (1 n)
  show ?case
  proof (cases "n < 10")
    case True
    then show ?thesis by (subst digits_of.simps) (simp add: is_digit_char_of)
  next
    case False
    obtain c s where c: "digits_of (n div 10) = c # s" "is_digit c" "c = CHR ''0'' \<longrightarrow> s = []"
      using 1 [OF False] by auto
    have "c \<noteq> CHR ''0''"
    proof
      assume "c = CHR ''0''"
      then have "digits_of (n div 10) = ''0''" using c by simp
      then have "n div 10 = parse_nat ''0''" by (metis parse_digits_of)
      then show False using False by (simp add: parse_nat_def)
    qed
    with c False show ?thesis by (subst digits_of.simps) simp
  qed
qed

lemma digits_of_all: "list_all is_digit (digits_of n)"
  using digits_of_decimal [of n] by (simp add: is_decimal_def)

lemma minus_no_digit: "\<not> is_digit (CHR ''-'')"
  by (simp add: is_digit_def)

lemma scan_digits:
  "scan_integer (digits_of n) = Some (digits_of n, [])"
  "scan_integer (''-'' @ digits_of n) = Some (''-'' @ digits_of n, [])"
proof -
  obtain c s where c: "digits_of n = c # s" "is_digit c" "c = CHR ''0'' \<longrightarrow> s = []"
    using digits_of_start [of n] by blast
  have "takeWhile is_digit (digits_of n) = digits_of n" "dropWhile is_digit (digits_of n) = []"
    using digits_of_all [of n] by (simp_all add: list_all_iff takeWhile_eq_all_conv)
  with c minus_no_digit show "scan_integer (digits_of n) = Some (digits_of n, [])"
    "scan_integer (''-'' @ digits_of n) = Some (''-'' @ digits_of n, [])"
    by (auto simp: scan_integer_def has_prefix_def Let_def)
qed

lemma digits_of_unsigned: "\<not> has_prefix ''-'' (digits_of n)"
  using digits_of_start [of n] minus_no_digit by (auto simp: has_prefix_def)

lemma scan_show_int: "scan_number reader (show_int i) = Some (JInt i, [])"
proof (cases "i < 0")
  case True
  have "integer_of (''-'' @ digits_of (nat (- i))) = i"
    using True by (simp add: integer_of_def has_prefix_def)
  with True scan_digits(2) [of "nat (- i)"] show ?thesis
    by (simp add: scan_number_def show_int_def stops_scan)
next
  case False
  have "integer_of (digits_of (nat i)) = i"
    using False by (simp add: integer_of_def digits_of_unsigned)
  with False scan_digits(1) [of "nat i"] show ?thesis
    by (simp add: scan_number_def show_int_def stops_scan)
qed

text \<open>A number begins with a digit or a minus sign, and is none of the constants.\<close>

lemma scan_number_start:
  assumes "scan_number reader s = Some x"
  obtains c t where "s = c # t" "is_digit c \<or> c = CHR ''-'' \<and> (\<exists>d u. t = d # u \<and> is_digit d)"
proof -
  have "is_digit (CHR ''0'')" by (simp add: is_digit_def)
  then show thesis
    using assms that
    by (cases s) (auto simp: scan_number_def scan_integer_def has_prefix_def Let_def split: if_splits list.splits
        option.splits)
qed

subsection \<open>Values\<close>

text \<open>What is read back: the members of every object in the order of their keys.\<close>

fun sort_json :: "json \<Rightarrow> json" where
  "sort_json (JList xs) = JList (map sort_json xs)"
| "sort_json (JObj d) = JObj (py_sorted fst (map (\<lambda>(k, v). (k, sort_json v)) d))"
| "sort_json v = v"

text \<open>
  The text of a float is a JSON number that is read as the same float, as Python says of \<open>repr\<close>.
\<close>

definition reads_floats :: "json_reader \<Rightarrow> (json \<Rightarrow> string) \<Rightarrow> bool" where
  "reads_floats reader repr_of \<longleftrightarrow> (\<forall>r. scan_number reader (repr_of (JFloat r)) = Some (JFloat r, []))"

definition member_text :: "(json \<Rightarrow> string) \<Rightarrow> string \<times> json \<Rightarrow> string" where
  "member_text repr_of m = json_string (fst m) @ '':'' @ canonical_json repr_of (snd m)"

lemma canonical_object:
  "canonical_json repr_of (JObj d) = ''{'' @ py_join '','' (map (member_text repr_of) (py_sorted fst d)) @ ''}''"
  by (simp add: member_text_def [abs_def] split_beta')

lemma map_sorted:
  "py_sorted fst (map (\<lambda>(k, v). (k, f v)) d) = map (\<lambda>(k, v). (k, f v)) (py_sorted fst d)"
proof -
  have insort: "insort_key fst (k, f v) (map (\<lambda>(k, v). (k, f v)) e) = map (\<lambda>(k, v). (k, f v)) (insort_key fst (k, v) e)"
    for k v e
    by (induction e) auto
  have "sort_key fst (map (\<lambda>(k, v). (k, f v)) d) = map (\<lambda>(k, v). (k, f v)) (sort_key fst d)"
    by (induction d) (auto simp: insort)
  then show ?thesis by (simp add: py_sorted_def)
qed

lemma dict_merge_distinct: "distinct (map fst (d @ e)) \<Longrightarrow> dict_merge d e = d @ e"
proof (induction e arbitrary: d)
  case (Cons x e)
  obtain k v where x: "x = (k, v)" by (cases x)
  have "k \<notin> fst ` set d \<Longrightarrow> dict_set k v d = d @ [(k, v)]" for d :: "(string \<times> 'a) list"
    by (induction d) auto
  with Cons.prems have "dict_set k v d = d @ [(k, v)]" by (auto simp: x)
  with Cons.IH [of "d @ [(k, v)]"] Cons.prems show ?case by (simp add: dict_merge_def x)
qed (simp add: dict_merge_def)

lemma canonical_start:
  assumes "reads_floats reader repr_of"
  obtains c t where "canonical_json repr_of v = c # t" "\<not> is_json_space c" "c \<noteq> CHR '']''" "c \<noteq> CHR ''}''"
proof -
  note found = that
  have number: thesis if x: "scan_number reader (canonical_json repr_of v) = Some x" for x
  proof -
    obtain c t where c: "canonical_json repr_of v = c # t" "is_digit c \<or> c = CHR ''-''"
      by (rule scan_number_start [OF x]) blast
    then have "\<not> is_json_space c" "c \<noteq> CHR '']''" "c \<noteq> CHR ''}''"
      by (auto simp: is_digit_def is_json_space_def)
    with c(1) show thesis by (rule found)
  qed
  show thesis
  proof (cases v)
    case (JFloat r)
    with assms show thesis by (intro number [where x = "(JFloat r, [])"]) (simp add: reads_floats_def)
  next
    case (JInt i)
    then show thesis by (intro number [where x = "(JInt i, [])"]) (simp add: scan_show_int)
  next
    case (JBool b)
    with found [of "CHR ''t''" "''rue''"] found [of "CHR ''f''" "''alse''"] show thesis
      by (cases b) (simp_all add: is_json_space_def)
  qed (use found in \<open>auto simp: is_json_space_def json_string_def split: if_splits\<close>)
qed

lemma scan_number_value:
  assumes "scan_number reader s = Some (v, [])" "stops rest"
  shows "scan_value reader (Suc n) (s @ rest) = Some (v, rest)"
proof -
  obtain c t where s: "s = c # t" "is_digit c \<or> c = CHR ''-'' \<and> (\<exists>d u. t = d # u \<and> is_digit d)"
    by (rule scan_number_start [OF assms(1)])
  have letters: "\<not> is_digit (CHR ''n'')" "\<not> is_digit (CHR ''t'')" "\<not> is_digit (CHR ''f'')"
    "\<not> is_digit (CHR ''N'')" "\<not> is_digit (CHR ''I'')" "\<not> is_digit (CHR 0x22)" "\<not> is_digit (CHR ''{'')"
    "\<not> is_digit (CHR ''['')"
    by (simp_all add: is_digit_def)
  then have c: "c \<noteq> CHR 0x22" "c \<noteq> CHR ''{''" "c \<noteq> CHR ''[''"
    using s(2) by auto
  have "c \<noteq> CHR ''n''" "c \<noteq> CHR ''t''" "c \<noteq> CHR ''f''" "c \<noteq> CHR ''N''" "c \<noteq> CHR ''I''"
    using s(2) letters by auto
  moreover have "\<not> has_prefix ''-Infinity'' (c # t @ rest)"
  proof (cases t)
    case (Cons d u)
    with s(2) letters minus_no_digit show ?thesis by (auto simp: has_prefix_Cons)
  qed (use s(2) minus_no_digit in \<open>auto simp: has_prefix_Cons\<close>)
  ultimately have "scan_constant reader (s @ rest) = None"
    by (simp add: scan_constant_def s(1) has_prefix_Cons)
  with scan_number_append [OF assms] c show ?thesis by (simp add: s(1))
qed

lemma skip_space_canonical:
  assumes "reads_floats reader repr_of"
  shows "skip_space (canonical_json repr_of v @ rest) = canonical_json repr_of v @ rest"
    "\<not> has_prefix '']'' (canonical_json repr_of v @ rest)"
proof -
  obtain c t where "canonical_json repr_of v = c # t" "\<not> is_json_space c" "c \<noteq> CHR '']''"
    by (rule canonical_start [OF assms])
  then show "skip_space (canonical_json repr_of v @ rest) = canonical_json repr_of v @ rest"
    "\<not> has_prefix '']'' (canonical_json repr_of v @ rest)"
    by (simp_all add: skip_space_def has_prefix_Cons del: canonical_json.simps)
qed

lemma scan_canonical_items:
  assumes floats: "reads_floats reader repr_of"
    and each: "\<And>x n rest. x \<in> set xs \<Longrightarrow> stops rest \<Longrightarrow> 2 * length (canonical_json repr_of x) + 1 \<le> n \<Longrightarrow>
      scan_value reader n (canonical_json repr_of x @ rest) = Some (sort_json x, rest)"
    and "xs \<noteq> []" "2 * length (py_join '','' (map (canonical_json repr_of) xs)) + 2 \<le> n"
  shows "scan_items reader n (py_join '','' (map (canonical_json repr_of) xs) @ CHR '']'' # rest) =
    Some (map sort_json xs, rest)"
  using each assms(3,4)
proof (induction xs arbitrary: n)
  case (Cons x xs)
  obtain m where n: "n = Suc m" using Cons.prems(3) by (cases n) auto
  show ?case
  proof (cases xs)
    case Nil
    with Cons.prems show ?thesis by (simp add: n skip_space_def is_json_space_def)
  next
    case (Cons y ys)
    let ?t = "py_join '','' (map (canonical_json repr_of) xs) @ CHR '']'' # rest"
    have "scan_value reader m (canonical_json repr_of x @ CHR '','' # ?t) = Some (sort_json x, CHR '','' # ?t)"
      using Cons.prems(1) [of x "CHR '','' # ?t" m] Cons.prems(3) by (simp add: n Cons)
    moreover have "scan_items reader m ?t = Some (map sort_json xs, rest)"
      using Cons.prems by (intro Cons.IH) (simp_all add: n Cons)
    moreover obtain z where "?t = canonical_json repr_of y @ z"
      by (cases ys) (auto simp: Cons)
    then have "skip_space ?t = ?t" using skip_space_canonical(1) [OF floats] by metis
    ultimately show ?thesis
      by (simp add: n Cons skip_space_def is_json_space_def prepend_def)
  qed
qed simp

lemma scan_canonical_members:
  assumes floats: "reads_floats reader repr_of"
    and each: "\<And>x n rest. x \<in> set ms \<Longrightarrow> stops rest \<Longrightarrow> 2 * length (canonical_json repr_of (snd x)) + 1 \<le> n \<Longrightarrow>
      scan_value reader n (canonical_json repr_of (snd x) @ rest) = Some (sort_json (snd x), rest)"
    and "ms \<noteq> []" "2 * length (py_join '','' (map (member_text repr_of) ms)) + 2 \<le> n"
  shows "scan_members reader n (py_join '','' (map (member_text repr_of) ms) @ CHR ''}'' # rest) =
    Some (map (\<lambda>(k, v). (k, sort_json v)) ms, rest)"
  using each assms(3,4)
proof (induction ms arbitrary: n)
  case (Cons m ms)
  obtain k v where m: "m = (k, v)" by (cases m)
  obtain i where n: "n = Suc i" using Cons.prems(3) by (cases n) auto
  have key: "scan_string reader (tl (member_text repr_of m @ z)) = Some (k, CHR '':'' # canonical_json repr_of v @ z)"
    "has_prefix [CHR 0x22] (member_text repr_of m @ z)" for z
    by (simp_all add: m member_text_def json_string_def scan_json_string has_prefix_Cons)
      (simp add: has_prefix_def)
  have colon: "skip_space (CHR '':'' # z) = CHR '':'' # z" "has_prefix '':'' (CHR '':'' # z)" for z
    by (simp_all add: skip_space_def is_json_space_def has_prefix_def)
  show ?case
  proof (cases ms)
    case Nil
    have "scan_value reader i (canonical_json repr_of v @ CHR ''}'' # rest) = Some (sort_json v, CHR ''}'' # rest)"
      using Cons.prems(1) [of m "CHR ''}'' # rest" i] Cons.prems(3) by (simp add: n m Nil member_text_def)
    then show ?thesis
      using key [of "CHR ''}'' # rest"]
      by (simp add: n Nil m colon skip_space_canonical [OF floats]) (simp add: skip_space_def is_json_space_def)
  next
    case (Cons y ys)
    define t where "t = py_join '','' (map (member_text repr_of) ms) @ CHR ''}'' # rest"
    have all: "py_join '','' (map (member_text repr_of) (m # ms)) @ CHR ''}'' # rest = member_text repr_of m @ CHR '','' # t"
      by (simp add: t_def Cons)
    have "scan_value reader i (canonical_json repr_of v @ CHR '','' # t) = Some (sort_json v, CHR '','' # t)"
      using Cons.prems(1) [of m "CHR '','' # t" i] Cons.prems(3) by (simp add: n Cons m member_text_def)
    moreover have "scan_members reader i t = Some (map (\<lambda>(k, v). (k, sort_json v)) ms, rest)"
      unfolding t_def using Cons.prems by (intro Cons.IH) (simp_all add: n Cons)
    moreover have "skip_space t = t"
      by (cases ys) (simp_all add: t_def Cons member_text_def json_string_def skip_space_def is_json_space_def)
    moreover have "skip_space (CHR '','' # t) = CHR '','' # t"
      by (simp add: skip_space_def is_json_space_def)
    ultimately show ?thesis
      unfolding all n using key [of "CHR '','' # t"]
      by (simp add: m colon skip_space_canonical [OF floats] prepend_def)
  qed
qed simp

lemma scan_scalars:
  assumes "0 < n"
  shows "scan_value reader n (''null'' @ rest) = Some (JNull, rest)"
    "scan_value reader n (''true'' @ rest) = Some (JBool True, rest)"
    "scan_value reader n (''false'' @ rest) = Some (JBool False, rest)"
    "stops rest \<Longrightarrow> scan_value reader n (show_int i @ rest) = Some (JInt i, rest)"
    "scan_value reader n (json_string s @ rest) = Some (JStr s, rest)"
proof -
  obtain m where n: "n = Suc m" using assms by (cases n) auto
  show "scan_value reader n (''null'' @ rest) = Some (JNull, rest)"
    "scan_value reader n (''true'' @ rest) = Some (JBool True, rest)"
    "scan_value reader n (''false'' @ rest) = Some (JBool False, rest)"
    by (simp_all add: n scan_constant_def has_prefix_def)
  show "scan_value reader n (json_string s @ rest) = Some (JStr s, rest)"
    by (simp add: n json_string_def scan_json_string)
  show "stops rest \<Longrightarrow> scan_value reader n (show_int i @ rest) = Some (JInt i, rest)"
    unfolding n by (rule scan_number_value [OF scan_show_int])
qed

lemma scan_float:
  assumes "reads_floats reader repr_of" "0 < n" "stops rest"
  shows "scan_value reader n (repr_of (JFloat r) @ rest) = Some (JFloat r, rest)"
proof -
  have "scan_number reader (repr_of (JFloat r)) = Some (JFloat r, [])"
    using assms(1) by (simp add: reads_floats_def)
  from scan_number_value [OF this assms(3), of "n - 1"] assms(2) show ?thesis by simp
qed

lemma scan_canonical:
  assumes floats: "reads_floats reader repr_of"
  shows "json_wf v \<Longrightarrow> stops rest \<Longrightarrow> 2 * length (canonical_json repr_of v) + 1 \<le> n \<Longrightarrow>
    scan_value reader n (canonical_json repr_of v @ rest) = Some (sort_json v, rest)"
proof (induction v arbitrary: n rest rule: json_wf.induct)
  case (1 xs)
  obtain i where n: "n = Suc i" using "1.prems"(3) by (cases n) auto
  show ?case
  proof (cases "xs = []")
    case True
    then show ?thesis by (simp add: n skip_space_def is_json_space_def has_prefix_def)
  next
    case False
    let ?t = "py_join '','' (map (canonical_json repr_of) xs)"
    obtain y ys where xs: "xs = y # ys" using False by (cases xs) auto
    have items: "scan_items reader i (?t @ CHR '']'' # rest) = Some (map sort_json xs, rest)"
    proof (rule scan_canonical_items [OF floats _ False])
      fix x n rest assume "x \<in> set xs" "stops rest" "2 * length (canonical_json repr_of x) + 1 \<le> n"
      then show "scan_value reader n (canonical_json repr_of x @ rest) = Some (sort_json x, rest)"
        using "1.prems"(1) by (intro "1.IH") (simp_all add: list_all_iff)
    qed (use "1.prems"(3) in \<open>simp add: n\<close>)
    obtain z where "?t @ CHR '']'' # rest = canonical_json repr_of y @ z"
      by (cases ys) (auto simp: xs)
    then have "skip_space (?t @ CHR '']'' # rest) = ?t @ CHR '']'' # rest"
      "\<not> has_prefix '']'' (?t @ CHR '']'' # rest)"
      using skip_space_canonical [OF floats, of y z] by simp_all
    with items show ?thesis by (simp add: n)
  qed
next
  case (2 d)
  obtain i where n: "n = Suc i" using "2.prems"(3) by (cases n) auto
  let ?d = "py_sorted fst d"
  show ?case
  proof (cases "d = []")
    case True
    then show ?thesis by (simp add: n py_sorted_def skip_space_def is_json_space_def has_prefix_def)
  next
    case False
    let ?t = "py_join '','' (map (member_text repr_of) ?d)"
    have d: "?d \<noteq> []" using False by (metis set_empty set_py_sorted)
    then obtain y ys where ys: "?d = y # ys" by (cases ?d) auto
    have members: "scan_members reader i (?t @ CHR ''}'' # rest) = Some (map (\<lambda>(k, v). (k, sort_json v)) ?d, rest)"
    proof (rule scan_canonical_members [OF floats _ d])
      fix x n rest assume x: "x \<in> set ?d" "stops rest" "2 * length (canonical_json repr_of (snd x)) + 1 \<le> n"
      obtain k v where kv: "x = (k, v)" by (cases x)
      with x(1) have "(k, v) \<in> set d" by simp
      moreover from this have "json_wf v" using "2.prems"(1) by (auto simp: list_all_iff)
      ultimately show "scan_value reader n (canonical_json repr_of (snd x) @ rest) = Some (sort_json (snd x), rest)"
        using "2.IH" x(2,3) by (simp add: kv)
    qed (use "2.prems"(3) in \<open>simp add: n canonical_object del: canonical_json.simps\<close>)
    have start: "skip_space (?t @ z) = ?t @ z" "\<not> has_prefix ''}'' (?t @ z)" for z
      by (cases ys; simp add: ys member_text_def json_string_def skip_space_def is_json_space_def has_prefix_def)+
    have "distinct (map fst ?d)"
      using "2.prems"(1) by (simp add: py_sorted_def distinct_map distinct_sort inj_on_def)
    then have "dict_merge [] (map (\<lambda>(k, v). (k, sort_json v)) ?d) = map (\<lambda>(k, v). (k, sort_json v)) ?d"
      by (intro dict_merge_distinct [of "[]", simplified]) (simp add: comp_def split_beta')
    with members start show ?thesis
      by (simp add: n canonical_object map_sorted del: canonical_json.simps)
  qed
qed (auto simp: scan_scalars [simplified] scan_float [OF floats])

text \<open>What was written as canonical JSON is read back, up to the order of the members of objects.\<close>

lemma json_loads_canonical:
  assumes "reads_floats reader repr_of" "json_wf v"
  shows "json_loads reader (canonical_json repr_of v) = Some (sort_json v)"
proof -
  let ?s = "canonical_json repr_of v"
  have "scan_value reader (2 * length ?s + 1) (?s @ []) = Some (sort_json v, [])"
    by (rule scan_canonical [OF assms]) simp_all
  moreover have "skip_space (?s @ []) = ?s @ []" by (rule skip_space_canonical(1) [OF assms(1)])
  ultimately have "scan_value reader (2 * length ?s + 1) (skip_space ?s) = Some (sort_json v, [])" by simp
  then show ?thesis by (simp only: json_loads_def option.case prod.case) (simp add: skip_space_def)
qed

lemma json_loads_int: "json_loads reader (show_int i) = Some (JInt i)"
proof -
  obtain c t where "show_int i = c # t" "is_digit c \<or> c = CHR ''-'' \<and> (\<exists>d u. t = d # u \<and> is_digit d)"
    by (rule scan_number_start [OF scan_show_int])
  then have "skip_space (show_int i) = show_int i"
    by (auto simp: skip_space_def is_json_space_def is_digit_def)
  moreover have "scan_value reader (2 * length (show_int i) + 1) (show_int i @ []) = Some (JInt i, [])"
    by (rule scan_scalars(4)) simp_all
  ultimately show ?thesis by (simp only: json_loads_def append_Nil2 option.case prod.case) (simp add: skip_space_def)
qed

text \<open>A text that begins with a letter other than those of the constants is no JSON.\<close>

lemma json_loads_word:
  assumes "c \<notin> {CHR ''n'', CHR ''t'', CHR ''f'', CHR ''N'', CHR ''I''}"
    and "(65 \<le> n \<and> n \<le> 90) \<or> (97 \<le> n \<and> n \<le> 122)" and "n = (of_char c :: nat)"
  shows "json_loads reader (c # s) = None"
proof -
  have c: "\<not> is_json_space c" "\<not> is_digit c" "c \<noteq> CHR ''-''" "c \<noteq> CHR 0x22" "c \<noteq> CHR ''{''" "c \<noteq> CHR ''[''"
    using assms(2,3) by (auto simp: is_json_space_def is_digit_def)
  moreover have "c \<noteq> CHR ''0''" using c(2) by (auto simp: is_digit_def)
  moreover have "scan_constant reader (c # s) = None"
    using assms(1) c(3) by (auto simp: scan_constant_def has_prefix_Cons)
  moreover have "\<not> has_prefix ''-'' (c # s)" using c(3) by (auto simp: has_prefix_Cons)
  ultimately show ?thesis
    by (simp add: json_loads_def skip_space_def scan_number_def scan_integer_def)
qed

subsection \<open>A reader with a text for every float\<close>

text \<open>
  The floats of the model are rationals; here the text of one is its numerator, a point and its
  denominator, so that there is one for each.
\<close>

definition fraction_repr :: "json \<Rightarrow> string" where
  "fraction_repr v = (case v of
      JFloat r \<Rightarrow> (case quotient_of r of (p, q) \<Rightarrow> show_int p @ ''.'' @ digits_of (nat q))
    | _ \<Rightarrow> [])"

definition fraction_reader :: json_reader where
  "fraction_reader = \<lparr>jr_float = (\<lambda>s. JFloat (of_int (integer_of (takeWhile (\<lambda>c. c \<noteq> CHR ''.'') s)) /
       of_nat (parse_nat (tl (dropWhile (\<lambda>c. c \<noteq> CHR ''.'') s))))),
     jr_constant = JStr, jr_wide = (\<lambda>n. [])\<rparr>"

lemma show_int_digits: "list_all (\<lambda>c. is_digit c \<or> c = CHR ''-'') (show_int i)"
  using digits_of_all by (auto simp: show_int_def list_all_iff)

lemma integer_of_show: "integer_of (show_int i) = i"
  using digits_of_unsigned [of "nat i"] by (auto simp: show_int_def integer_of_def has_prefix_Cons)
    (simp add: has_prefix_def)

lemma scan_integer_show: "scan_integer (show_int i) = Some (show_int i, [])"
  using scan_digits by (auto simp: show_int_def)

lemma fractions_read: "reads_floats fraction_reader fraction_repr"
  unfolding reads_floats_def
proof
  fix r :: rat
  obtain p q where pq: "quotient_of r = (p, q)" by fastforce
  have q: "0 < q" "r = of_int p / of_int q"
    using pq quotient_of_denom_pos quotient_of_div by auto
  have point: "\<not> is_digit (CHR ''.'')" by (simp add: is_digit_def)
  have digits: "takeWhile is_digit (digits_of n) = digits_of n" "dropWhile is_digit (digits_of n) = []" "digits_of n \<noteq> []"
    for n
    using digits_of_all [of n] digits_of_start [of n] by (auto simp: list_all_iff takeWhile_eq_all_conv)
  let ?t = "''.'' @ digits_of (nat q)"
  have parts: "takeWhile (\<lambda>c. c \<noteq> CHR ''.'') (show_int p @ ?t) = show_int p"
    "dropWhile (\<lambda>c. c \<noteq> CHR ''.'') (show_int p @ ?t) = ?t"
    using show_int_digits [of p] point by (auto simp: list_all_iff takeWhile_append dropWhile_append)
  have "scan_integer (show_int p @ ?t) = Some (show_int p, ?t)"
    using scan_integer_append [OF scan_integer_show, of ?t p] point by simp
  moreover have "scan_fraction ?t = (?t, [])" by (simp add: scan_fraction_def digits)
  ultimately have "scan_number fraction_reader (show_int p @ ?t) = Some (JFloat r, [])"
    using parts q by (simp add: scan_number_def stops_scan fraction_reader_def integer_of_show)
  then show "scan_number fraction_reader (fraction_repr (JFloat r)) = Some (JFloat r, [])"
    by (simp add: fraction_repr_def pq)
qed

end
