(* ===== verification/Collector_Claims.thy ===== *)
theory Collector_Claims
  imports Collector_Runs Json_Text
begin

text \<open>
  What the collector guarantees: the bars a poll gives, what repeated polls publish, and what a consumer
  reads back; with an exchange and a store on which each statement is run.
\<close>

section \<open>Repeated polls\<close>

text \<open>The polls of a stream that is polled again and again, each with its limit.\<close>

fun poll_runs ::
  "'r collector_env \<Rightarrow> ohlcv_adapter \<Rightarrow> md_subscription \<Rightarrow> string \<Rightarrow> int list \<Rightarrow> ('r collector, unit) comp" where
  "poll_runs env adapter sub stream [] = returnx ()"
| "poll_runs env adapter sub stream (limit # limits) =
     bindx (poll_stream env limit adapter sub stream 0) (\<lambda>_. poll_runs env adapter sub stream limits)"

lemma poll_runs_at:
  assumes "polled_stream env adapter sub market tf feed candle iso_of stream kv entries"
    and "polled_stream.at_cursor env adapter sub tf feed stream kv entries ts c"
    and "poll_runs env adapter sub stream limits c = (Inr x, c')"
  shows "\<exists>us. polled_stream.at_cursor env adapter sub tf feed stream kv entries (ts @ us) c'"
  using assms(2,3)
proof (induction limits arbitrary: ts c)
  case Nil
  then show ?case by (auto simp: returnx_def intro: exI [of _ "[]"])
next
  case (Cons limit limits)
  obtain y d where run: "poll_stream env limit adapter sub stream 0 c = (Inr y, d)"
    "poll_runs env adapter sub stream limits d = (Inr x, c')"
    using Cons.prems(2) by (auto simp: bindx_def split: prod.splits sum.splits)
  obtain us where "polled_stream.at_cursor env adapter sub tf feed stream kv entries (ts @ us) d"
    using polled_stream.poll_stream_at [OF assms(1) Cons.prems(1) run(1)] by blast
  from Cons.IH [OF this run(2)] show ?case by (metis append.assoc)
qed

section \<open>An exchange and a store\<close>

record store =
  st_texts :: "string dict"
  st_entries :: "string dict list"

definition store_client :: "store redis_client" where
  "store_client = \<lparr>
     rc_get = \<lambda>k r. (Inr (dict_get (st_texts r) k), r),
     rc_set = \<lambda>k v r. (Inr True, r\<lparr>st_texts := dict_set k v (st_texts r)\<rparr>),
     rc_set_nx = \<lambda>k v ex r. if dict_get (st_texts r) k = None then (Inr True, r\<lparr>st_texts := dict_set k v (st_texts r)\<rparr>)
       else (Inr False, r),
     rc_expire = None,
     rc_xadd = \<lambda>stream f len r. (Inr ''1-0'', r\<lparr>st_entries := st_entries r @ [f]\<rparr>)\<rparr>"

definition minute_feed :: "int list" where
  "minute_feed = [0, 60000, 120000, 180000]"

definition flat_candle :: "int \<Rightarrow> ohlcv" where
  "flat_candle t = (1, 1, 1, 1, 0)"

definition feed_env :: "store collector_env" where
  "feed_env = \<lparr>ce_worker_id = ''w1'', ce_client = store_client, ce_others = \<lambda>n r. r, ce_now_ms = \<lambda>n. 200000,
     ce_now_iso = \<lambda>n. ''now'', ce_since = Inr, ce_iso = \<lambda>t. Inr (show_int t),
     ce_parse_iso = \<lambda>t. (case py_int_text t of None \<Rightarrow> Inl TypeError | Some i \<Rightarrow> Inr i), ce_parse_float = \<lambda>_. None,
     ce_markets = \<lambda>_ _. None,
     ce_fetch_ohlcv = \<lambda>_ _ _ _ since limit. Inr (map (raw_bar_of flat_candle) (fetched minute_feed 200000 since limit)),
     ce_dumps = \<lambda>_. [], ce_repr = \<lambda>_. ''1.0'', ce_adapters = default_exchange_adapter_registry,
     ce_repository = \<lambda>_. None\<rparr>"

definition minute_sub :: md_subscription where
  "minute_sub = \<lparr>md_venue = ''BINANCE'', md_symbol = ''BTCUSDT'', md_data_type = ''bar'', md_timeframe = Some ''1m''\<rparr>"

definition binance :: ohlcv_adapter where
  "binance = \<lparr>oa_venue = ''BINANCE'', oa_exchange_id = ''binance'', oa_adapter_name = ''ccxt_ohlcv_rest''\<rparr>"

lemma feed_timeframe: "timeframe_millis (or_str (md_timeframe minute_sub) []) = Some 60000"
  by code_simp

lemma feed_market: "resolve_async_ccxt_symbol None (md_symbol minute_sub) = Some ''BTC/USDT''"
  by code_simp

lemma feed_key: "stream_key minute_sub = Inr ''md:BINANCE:BTCUSDT:1m:bars''"
  by code_simp

interpretation minute: exchange_feed feed_env binance minute_sub "''BTC/USDT''" 60000 minute_feed flat_candle show_int
proof (unfold_locales, goal_cases)
  case 3
  show ?case by (rule feed_timeframe)
next
  case (5 n)
  then show ?case using feed_market by (simp add: feed_env_def)
qed (auto simp: minute_feed_def feed_env_def adapter_supports_def minute_sub_def binance_def)

interpretation minute: polled_stream feed_env binance minute_sub "''BTC/USDT''" 60000 minute_feed flat_candle show_int
  "''md:BINANCE:BTCUSDT:1m:bars''" "\<lambda>r. dict_get (st_texts r)" st_entries
  by unfold_locales (auto simp: feed_env_def feed_key store_client_def dict_simps)

lemma minute_poll_answers: "\<exists>bars. poll_closed_bars feed_env n binance minute_sub since limit = Inr bars"
proof -
  have "ce_fetch_ohlcv feed_env n (oa_exchange_id binance) ''BTC/USDT'' (or_str (md_timeframe minute_sub) []) since limit =
      Inr (map (raw_bar_of flat_candle) (fetched minute_feed (ce_now_ms feed_env n) since limit))"
    by (simp add: feed_env_def)
  then show ?thesis
    using minute.supported minute.market [of n]
    by (simp add: poll_closed_bars_def fetch_recent_bars_def minute.normalized_candles [OF minute.fetched_in_feed]
        minute.newer_candles [OF minute.fetched_in_feed] split: option.split)
qed

text \<open>Neither the store nor the texts of this example ever fail.\<close>

lemma minute_publish_one: "\<exists>y d. publish_normalized_bar feed_env (minute.bar_at m t) c = (Inr y, d)"
proof (cases "nb_event_id (minute.bar_at m t) \<in> set (mc_published_ids c)")
  case True
  then show ?thesis by (simp add: publish_normalized_bar_def returnx_def)
next
  case False
  have "rc_xadd (ce_client feed_env) s f l r = (Inr ''1-0'', r\<lparr>st_entries := st_entries r @ [f]\<rparr>)" for s f l r
    by (simp add: feed_env_def store_client_def)
  then show ?thesis
    by (simp add: publish_normalized_bar_new [OF False] minute.bar_stream bindx_def thenx_def next_sequence_def lift_error_def
        returnx_def at_tick_def publish_fields_def update_def redis_call_def Let_def)
qed

lemma minute_publish_all: "\<exists>y d. publish_bars feed_env (map (minute.bar_at m) us) k c = (Inr y, d)"
proof (induction us arbitrary: k c)
  case (Cons t us)
  obtain y d where "publish_normalized_bar feed_env (minute.bar_at m t) c = (Inr y, d)"
    using minute_publish_one by blast
  with Cons.IH show ?case by (simp add: bindx_def)
qed (simp add: returnx_def)

lemma minute_poll_stream:
  assumes "minute.at_cursor ts c"
  shows "\<exists>y d. poll_stream feed_env limit binance minute_sub ''md:BINANCE:BTCUSDT:1m:bars'' k c = (Inr y, d)"
proof -
  obtain n where ts: "segment minute_feed ts" "list_all (\<lambda>t. t + 60000 \<le> ce_now_ms feed_env n) ts"
    and pub: "minute.published n ts (if ts = [] then None else Some (show_int (last ts))) c"
    using assms by (auto simp: minute.at_cursor_def)
  obtain z d where f: "fetch_stream feed_env limit binance minute_sub ''md:BINANCE:BTCUSDT:1m:bars'' c = (z, d)" by fastforce
  note d = minute.fetched_bars [OF pub f segment_sub [OF ts(1)]]
  show ?thesis
  proof (cases z)
    case (Inr bars)
    then obtain us where us: "bars = map (minute.bar_at (mc_ticks d)) us" "segment minute_feed (ts @ us)"
      using d by (elim conjE allE impE) (auto simp: minute.published_def elim!: minute.polled_bars [OF ts])
    have "ce_parse_iso feed_env (nb_ts_exchange (last bars)) = Inr (last us)" if "us \<noteq> []"
      using that segment_sub [OF us(2)] minute.times(2) us(1) by (simp add: last_map subset_iff)
    moreover have "\<exists>y e. persist_stream_cursor feed_env s t c = (Inr y, e)" for s t c
      by (simp add: persist_stream_cursor_def catch_attribute_error_def catchx_def thenx_def bindx_def redis_call_def
          returnx_def feed_env_def store_client_def)
    ultimately show ?thesis
      using minute_publish_all [of "mc_ticks d" us k "d\<lparr>mc_poll_errors := dict_pop ''md:BINANCE:BTCUSDT:1m:bars'' (mc_poll_errors d)\<rparr>"]
      by (auto simp: poll_stream_def f Inr publish_stream_def us(1) thenx_def bindx_def update_def returnx_def
          lift_error_def split: prod.splits sum.splits) (metis Pair_inject Inl_Inr_False)+
  qed (simp add: poll_stream_def f)
qed

lemma minute_at_start: "minute.at_cursor [] (new_collector \<lparr>st_texts = [], st_entries = []\<rparr>)"
  by (auto simp: minute.at_cursor_def minute.published_def new_collector_def)

lemma minute_poll_runs:
  "minute.at_cursor ts c \<Longrightarrow>
     \<exists>x d. poll_runs feed_env binance minute_sub ''md:BINANCE:BTCUSDT:1m:bars'' limits c = (Inr x, d)"
proof (induction limits arbitrary: ts c)
  case (Cons limit limits)
  obtain y d where run: "poll_stream feed_env limit binance minute_sub ''md:BINANCE:BTCUSDT:1m:bars'' 0 c = (Inr y, d)"
    using minute_poll_stream [OF Cons.prems] by blast
  then obtain us where "minute.at_cursor (ts @ us) d"
    using minute.poll_stream_at [OF Cons.prems] by blast
  from Cons.IH [OF this] run show ?case by (simp add: bindx_def)
qed (simp add: returnx_def)

section \<open>What polls give and publish\<close>

text \<open>
  C29: a poll from the open time of a known bar gives, in order, the next closed bars of the exchange, one
  fewer than the limit, since the exchange counts the bar at the given time: with a limit of one it gives
  none, however many there are, and the cursor never moves again.
\<close>

theorem poll_gives_next_bars:
  assumes "exchange_feed env adapter sub market tf feed candle iso_of"
    and "poll_closed_bars env n adapter sub (Some s) limit = Inr bars"
    and "s \<in> set feed" "s \<le> ce_now_ms env n"
  shows "map nb_sequence bars = take (nat limit - 1) (closed_after feed tf (ce_now_ms env n) s)"
  using exchange_feed.poll_after [OF assms]
  by (simp add: comp_def exchange_feed.bar_at_simps [OF assms(1)])

theorem poll_gives_next_bars_witness:
  "poll_closed_bars feed_env 0 binance minute_sub (Some 0) 1 = Inr [] \<and>
   closed_after minute_feed 60000 (ce_now_ms feed_env 0) 0 = [60000, 120000]"
proof -
  obtain bars where bars: "poll_closed_bars feed_env 0 binance minute_sub (Some 0) 1 = Inr bars"
    using minute_poll_answers by blast
  have "map nb_sequence bars = take (nat 1 - 1) (closed_after minute_feed 60000 (ce_now_ms feed_env 0) 0)"
    by (rule poll_gives_next_bars [OF minute.exchange_feed_axioms bars]) (simp_all add: minute_feed_def feed_env_def)
  then show ?thesis using bars by (simp add: closed_after_def minute_feed_def feed_env_def)
qed

text \<open>
  C28: the polls of a stream, whatever their limits and however many of them the exchange fails, leave in
  the stream each bar of a part of the exchange's history without gaps, in order and once, all of them
  closed, and in the cursor the last one's time; unless a command of the store fails.
\<close>

theorem polls_publish_gapless:
  assumes "polled_stream env adapter sub market tf feed candle iso_of stream kv entries"
    and "entries (mc_redis c) = []" "kv (mc_redis c) (stream_cursor_key stream) = None" "mc_published_ids c = []"
    and "poll_runs env adapter sub stream limits c = (Inr x, c')"
  shows "\<exists>ts. segment feed ts \<and>
    map (\<lambda>f. dict_get f ''event_id'') (entries (mc_redis c')) = map (\<lambda>t. Some (event_id_at adapter sub t)) ts \<and>
    list_all (\<lambda>f. dict_get f ''closed'' = Some ''1'') (entries (mc_redis c')) \<and>
    kv (mc_redis c') (stream_cursor_key stream) = (if ts = [] then None else Some (show_int (last ts)))"
proof -
  have "polled_stream.at_cursor env adapter sub tf feed stream kv entries [] c"
    using assms(2-4) by (simp add: polled_stream.at_cursor_def [OF assms(1)] polled_stream.published_def [OF assms(1)])
      blast
  from poll_runs_at [OF assms(1) this assms(5)] show ?thesis
    by (auto simp: polled_stream.at_cursor_def [OF assms(1)] polled_stream.published_def [OF assms(1)])
qed

theorem polls_publish_gapless_witness:
  "\<exists>x c' ts. poll_runs feed_env binance minute_sub ''md:BINANCE:BTCUSDT:1m:bars'' [2, 8]
       (new_collector \<lparr>st_texts = [], st_entries = []\<rparr>) = (Inr x, c') \<and>
     segment minute_feed ts \<and>
     map (\<lambda>f. dict_get f ''event_id'') (st_entries (mc_redis c')) = map (\<lambda>t. Some (event_id_at binance minute_sub t)) ts"
proof -
  let ?c = "new_collector \<lparr>st_texts = [], st_entries = []\<rparr>"
  obtain x c' where run: "poll_runs feed_env binance minute_sub ''md:BINANCE:BTCUSDT:1m:bars'' [2, 8] ?c = (Inr x, c')"
    using minute_poll_runs [OF minute_at_start] by blast
  have "\<exists>ts. segment minute_feed ts \<and>
      map (\<lambda>f. dict_get f ''event_id'') (st_entries (mc_redis c')) = map (\<lambda>t. Some (event_id_at binance minute_sub t)) ts \<and>
      list_all (\<lambda>f. dict_get f ''closed'' = Some ''1'') (st_entries (mc_redis c')) \<and>
      dict_get (st_texts (mc_redis c')) (stream_cursor_key ''md:BINANCE:BTCUSDT:1m:bars'') =
        (if ts = [] then None else Some (show_int (last ts)))"
    by (rule polls_publish_gapless [OF minute.polled_stream_axioms _ _ _ run]) (simp_all add: new_collector_def)
  with run show ?thesis by blast
qed

section \<open>Reading back\<close>

text \<open>
  What a consumer reads of a value that was published.  A Boolean becomes a number, and the members of
  an object come in the order of their keys.  A text is not quoted in the stream, so it is read as what
  it is the JSON of, when it is JSON.
\<close>

definition read_back :: "json \<Rightarrow> json" where
  "read_back v = (case v of JBool b \<Rightarrow> JInt (of_bool b) | _ \<Rightarrow> sort_json v)"

definition carried :: "json_reader \<Rightarrow> json \<Rightarrow> json" where
  "carried reader v = (case v of
      JStr t \<Rightarrow> (case json_loads reader t of None \<Rightarrow> v | Some w \<Rightarrow> w)
    | _ \<Rightarrow> read_back v)"

abbreviation through_stream :: "json_reader \<Rightarrow> (json \<Rightarrow> string) \<Rightarrow> json dict \<Rightarrow> json dict" where
  "through_stream reader repr_of payload \<equiv>
     decode_stream_fields (json_loads reader) (encode_stream_fields repr_of (canonical_json repr_of) payload)"

lemma through_stream_Cons:
  "through_stream reader repr_of (kv # payload) =
     through_stream reader repr_of [kv] @ through_stream reader repr_of payload"
  by (simp add: encode_stream_fields_def decode_stream_fields_def)

lemma json_loads_flag: "json_loads reader ''1'' = Some (JInt 1)" "json_loads reader ''0'' = Some (JInt 0)"
proof -
  have "show_int 1 = ''1''" "show_int 0 = ''0''" by code_simp+
  with json_loads_int [of reader 1] json_loads_int [of reader 0]
  show "json_loads reader ''1'' = Some (JInt 1)" "json_loads reader ''0'' = Some (JInt 0)" by simp_all
qed

lemma through_stream_single:
  assumes "reads_floats reader repr_of" "json_wf v"
  shows "through_stream reader repr_of [(k, v)] = (if v = JNull then [] else [(k, carried reader v)])"
  using json_loads_canonical [OF assms] json_loads_flag [of reader]
  by (cases v) (auto simp: carried_def read_back_def encode_stream_fields_def decode_stream_fields_def
      simp del: canonical_json.simps(6,7))

text \<open>
  C30: the fields of a published message are read in order, without those that are None.  Numbers, lists
  and objects come back, Booleans as the numbers 1 and 0; and the message comes back in this way exactly
  when none of its texts is the JSON of something else: a text such as 60 or null is read as the number
  or as None.  The texts of floats are taken to be read as the same floats.
\<close>

theorem stream_fields_roundtrip:
  assumes "reads_floats reader repr_of" and "list_all (\<lambda>kv. json_wf (snd kv)) payload"
  shows "decode_stream_fields (json_loads reader) (encode_stream_fields repr_of (canonical_json repr_of) payload) =
      map (\<lambda>(k, v). (k, carried reader v)) (filter (\<lambda>kv. snd kv \<noteq> JNull) payload) \<and>
    (decode_stream_fields (json_loads reader) (encode_stream_fields repr_of (canonical_json repr_of) payload) =
      map (\<lambda>(k, v). (k, read_back v)) (filter (\<lambda>kv. snd kv \<noteq> JNull) payload)
     \<longleftrightarrow> (\<forall>k t. (k, JStr t) \<in> set payload \<longrightarrow> json_loads reader t \<in> {None, Some (JStr t)}))"
proof -
  have all: "through_stream reader repr_of payload =
      map (\<lambda>(k, v). (k, carried reader v)) (filter (\<lambda>kv. snd kv \<noteq> JNull) payload)"
    using assms(2)
  proof (induction payload)
    case (Cons kv payload)
    obtain k v where kv: "kv = (k, v)" by (cases kv)
    have "through_stream reader repr_of (kv # payload) =
        (if v = JNull then [] else [(k, carried reader v)]) @ through_stream reader repr_of payload"
      unfolding kv through_stream_Cons [of reader repr_of "(k, v)" payload]
      using Cons.prems by (subst through_stream_single [OF assms(1)]) (simp_all add: kv)
    with Cons show ?case by (simp add: kv)
  qed (simp add: encode_stream_fields_def decode_stream_fields_def)
  have same: "carried reader v = read_back v \<longleftrightarrow> (\<forall>t. v = JStr t \<longrightarrow> json_loads reader t \<in> {None, Some (JStr t)})" for v
    by (auto simp: carried_def read_back_def split: json.split option.split)
  show ?thesis
    unfolding all by (auto simp: same)
qed

theorem stream_fields_roundtrip_witness:
  "decode_stream_fields (json_loads fraction_reader)
     (encode_stream_fields fraction_repr (canonical_json fraction_repr)
       [(''symbol'', JStr ''BTC''), (''timeframe'', JStr ''60''), (''bid'', JNull), (''last'', JFloat (1 / 2)),
        (''closed'', JBool True), (''meta'', JObj [(''b'', JStr ''1''), (''a'', JList [JNull])])]) =
   [(''symbol'', JStr ''BTC''), (''timeframe'', JInt 60), (''last'', JFloat (1 / 2)), (''closed'', JInt 1),
    (''meta'', JObj [(''a'', JList [JNull]), (''b'', JStr ''1'')])]"
  (is "decode_stream_fields _ (encode_stream_fields _ _ ?p) = _")
proof -
  have "json_loads fraction_reader ''BTC'' = None" by (rule json_loads_word [OF _ _ refl]) simp_all
  moreover have "json_loads fraction_reader ''60'' = Some (JInt 60)"
  proof -
    have "canonical_json fraction_repr (JInt 60) = ''60''" by (simp add: show_int_def) code_simp
    with json_loads_canonical [OF fractions_read, of "JInt 60"] show ?thesis by simp
  qed
  moreover have "sort_json (JObj [(''b'', JStr ''1''), (''a'', JList [JNull])]) =
      JObj [(''a'', JList [JNull]), (''b'', JStr ''1'')]" by code_simp
  moreover have "list_all (\<lambda>kv. json_wf (snd kv)) ?p" by simp
  ultimately show ?thesis
    using stream_fields_roundtrip [OF fractions_read, of ?p]
    by (simp add: carried_def read_back_def del: sort_json.simps(2))
qed

end
