(* ===== verification/Routing.thy ===== *)
theory Routing
  imports Agent_Loop Auth
begin

text \<open>
  The routing of model calls (\<open>server/model_routing.py\<close>): which routes the registry gives a tier and a
  stage, and the stream that tries them in turn, as the list of the events it yields and how it ends.

  Loading the registry, creating the client of a route, what a client streams and what the queue of its
  thread answers are arguments; so are \<open>float\<close> of a text and the text of a list of failures.
\<close>

section \<open>Names\<close>

definition DEFAULT_MODEL_STAGE :: string where "DEFAULT_MODEL_STAGE = ''strategy_reasoning''"
definition PROVIDER_KEEPALIVE_EVENT :: string where "PROVIDER_KEEPALIVE_EVENT = ''provider.keepalive''"
definition PROVIDER_ROUTE_EVENT :: string where "PROVIDER_ROUTE_EVENT = ''provider.route''"

definition TIER_ALIASES :: "string dict" where
  "TIER_ALIASES = [(''paid.cheap'', ''paid_low''), (''paid_cheap'', ''paid_low''), (''paid.low'', ''paid_low''),
     (''paid-low'', ''paid_low''), (''paid_low'', ''paid_low''), (''paid.medium'', ''paid_medium''),
     (''paid-medium'', ''paid_medium''), (''paid_medium'', ''paid_medium''), (''paid.high'', ''paid_high''),
     (''paid-high'', ''paid_high''), (''paid_high'', ''paid_high''), (''dev'', ''dev''), (''local'', ''dev''),
     (''local_dev'', ''dev''), (''local-dev'', ''dev''), (''free'', ''free'')]"

definition normalize_user_tier :: "string option \<Rightarrow> string option \<Rightarrow> string" where
  "normalize_user_tier setting given =
     (let tier = py_strip (or_str given (or_str setting DEFAULT_USER_TIER))
      in if tier = [] then DEFAULT_USER_TIER
         else (case dict_get TIER_ALIASES (py_lower tier) of None \<Rightarrow> tier | Some t \<Rightarrow> t))"

section \<open>Routes of the registry\<close>

text \<open>\<open>d.get(key)\<close> of a value that may be no object, and the elements of one that is iterated.\<close>

definition get_of :: "json \<Rightarrow> string \<Rightarrow> py_error + json" where
  "get_of v k = (case v of JObj d \<Rightarrow> Inr (jget d k) | _ \<Rightarrow> Inl AttributeError)"

definition elements_of :: "json \<Rightarrow> py_error + json list" where
  "elements_of v = (case v of
      JList xs \<Rightarrow> Inr xs
    | JStr t \<Rightarrow> Inr (map (\<lambda>c. JStr [c]) t)
    | JObj d \<Rightarrow> Inr (map (\<lambda>kv. JStr (fst kv)) d)
    | _ \<Rightarrow> Inl TypeError)"

definition resolve_routes ::
  "(json \<Rightarrow> string) \<Rightarrow> string option \<Rightarrow> json dict \<Rightarrow> string option \<Rightarrow> string option \<Rightarrow> py_error + string list"
where
  "resolve_routes repr_of setting registry tier stage =
     (let normalized_tier = normalize_user_tier setting tier;
          normalized_stage = or_str stage DEFAULT_MODEL_STAGE;
          tiers = json_or (jget registry ''model_tiers'') (JObj [])
      in case get_of tiers normalized_tier of Inl e \<Rightarrow> Inl e | Inr own \<Rightarrow>
        (case (if json_truthy own then Inr own else get_of tiers DEFAULT_USER_TIER) of Inl e \<Rightarrow> Inl e | Inr config \<Rightarrow>
        (case get_of (json_or config (JObj [])) ''routes_by_stage'' of Inl e \<Rightarrow> Inl e | Inr by_stage \<Rightarrow>
        (let by_stage = json_or by_stage (JObj []) in
         case get_of by_stage normalized_stage of Inl e \<Rightarrow> Inl e | Inr staged \<Rightarrow>
        (case (if json_truthy staged then Inr staged else get_of by_stage DEFAULT_MODEL_STAGE) of
           Inl e \<Rightarrow> Inl e | Inr routes \<Rightarrow>
        (case elements_of (json_or routes (JList [])) of Inl e \<Rightarrow> Inl e | Inr xs \<Rightarrow>
           Inr (filter (\<lambda>r. py_strip r \<noteq> []) (map (py_str repr_of) xs))))))))"

section \<open>Errors of providers\<close>

text \<open>An exception with the names of its classes and, when it has one, its status code.\<close>

record provider_exc = py_exc +
  px_classes :: "string list"
  px_status :: "int option"

definition configuration_error :: "string \<Rightarrow> provider_exc" where
  "configuration_error t = \<lparr>exc_type = ''ProviderConfigurationError'', exc_message = t,
     px_classes = [''ProviderConfigurationError'', ''RuntimeError''], px_status = None\<rparr>"

definition route_unavailable :: "string \<Rightarrow> provider_exc" where
  "route_unavailable t = \<lparr>exc_type = ''ModelRouteUnavailable'', exc_message = t,
     px_classes = [''ModelRouteUnavailable'', ''ProviderConfigurationError'', ''RuntimeError''], px_status = None\<rparr>"

definition timeout_error :: "string \<Rightarrow> provider_exc" where
  "timeout_error t = \<lparr>exc_type = ''ProviderTimeoutError'', exc_message = t,
     px_classes = [''ProviderTimeoutError'', ''RuntimeError''], px_status = None\<rparr>"

definition plain_error :: "py_error \<Rightarrow> provider_exc" where
  "plain_error e = (case e of
      KeyError \<Rightarrow> \<lparr>exc_type = ''KeyError'', exc_message = [], px_classes = [''KeyError''], px_status = None\<rparr>
    | TypeError \<Rightarrow> \<lparr>exc_type = ''TypeError'', exc_message = [], px_classes = [''TypeError''], px_status = None\<rparr>
    | AttributeError \<Rightarrow>
        \<lparr>exc_type = ''AttributeError'', exc_message = [], px_classes = [''AttributeError''], px_status = None\<rparr>
    | ValueError t \<Rightarrow>
        \<lparr>exc_type = ''ValueError'', exc_message = t, px_classes = [''ValueError''], px_status = None\<rparr>)"

definition RETRYABLE_STATUS :: "int list" where
  "RETRYABLE_STATUS = [408, 409, 429, 500, 502, 503, 504]"

definition is_fallbackable_provider_error :: "provider_exc \<Rightarrow> bool" where
  "is_fallbackable_provider_error e \<longleftrightarrow>
     (if list_ex (\<lambda>c. c \<in> {''ProviderConfigurationError'', ''ProviderTimeoutError'', ''TimeoutError''}) (px_classes e)
      then True
      else if exc_type e \<in> {''RateLimitError'', ''APIConnectionError'', ''APITimeoutError'', ''APIStatusError'',
          ''InternalServerError''}
      then (case px_status e of None \<Rightarrow> True | Some c \<Rightarrow> c \<in> set RETRYABLE_STATUS)
      else if exc_type e = ''APIError''
      then (case px_status e of
              Some c \<Rightarrow> c \<in> set RETRYABLE_STATUS
            | None \<Rightarrow> list_ex (\<lambda>token. has_sub token (py_lower (exc_message e)))
                [''quota'', ''rate limit'', ''rate-limit'', ''429'', ''temporarily unavailable''])
      else (case px_status e of None \<Rightarrow> False | Some c \<Rightarrow> c \<in> set RETRYABLE_STATUS))"

definition split_route :: "string \<Rightarrow> provider_exc + string \<times> string" where
  "split_route route =
     (let provider = takeWhile (\<lambda>c. c \<noteq> CHR ''/'') route;
          rest = dropWhile (\<lambda>c. c \<noteq> CHR ''/'') route
      in if rest = [] \<or> provider = [] \<or> tl rest = []
         then Inl (route_unavailable (''Invalid model route: '' @ route))
         else Inr (provider, tl rest))"

section \<open>The client of a route\<close>

text \<open>What the default factory makes: the kind of client, its model, key, address and timeout.\<close>

datatype client_spec =
    Chat_Completions string "string option" string rat
  | Responses string "string option" rat

definition route_timeout_seconds :: "(string \<Rightarrow> rat option) \<Rightarrow> string option \<Rightarrow> rat" where
  "route_timeout_seconds to_float setting =
     (let raw = py_strip (case setting of None \<Rightarrow> ''25.0'' | Some t \<Rightarrow> t)
      in if raw = [] then 25
         else (case to_float raw of None \<Rightarrow> 25 | Some t \<Rightarrow> if t > 0 then t else 25))"

definition default_route_client_factory ::
  "(string \<Rightarrow> string option) \<Rightarrow> (string \<Rightarrow> rat option) \<Rightarrow> string \<Rightarrow> rat option \<Rightarrow> provider_exc + client_spec" where
  "default_route_client_factory getenv to_float route timeout_seconds =
     (case split_route route of
        Inl e \<Rightarrow> Inl e
      | Inr (provider, model) \<Rightarrow>
         (let seconds_of = (case timeout_seconds of Some t \<Rightarrow> t
                | None \<Rightarrow> route_timeout_seconds to_float (getenv ''STRATEGY_CODEBOT_LLM_ROUTE_TIMEOUT_SECONDS''));
              base = (\<lambda>name dflt. case getenv name of None \<Rightarrow> dflt | Some t \<Rightarrow> t)
          in if provider = ''litellm_proxy'' then Inr (Chat_Completions model (getenv ''LITELLM_PROXY_API_KEY'')
                 (base ''LITELLM_PROXY_API_BASE'' ''http://litellm-proxy:4000/v1'') seconds_of)
             else if provider = ''openrouter'' then Inr (Chat_Completions model (getenv ''OPENROUTER_API_KEY'')
                 (base ''OPENROUTER_API_BASE'' ''https://openrouter.ai/api/v1'') seconds_of)
             else if provider \<in> {''vercel_ai_gateway'', ''vercel-ai-gateway''}
               then Inr (Chat_Completions model (getenv ''VERCEL_AI_GATEWAY_API_KEY'')
                 (base ''VERCEL_AI_GATEWAY_API_BASE'' ''https://ai-gateway.vercel.sh/v1'') seconds_of)
             else if provider = ''openai''
               then Inr (Responses (if has_prefix ''openai/'' model then drop 7 model else model)
                 (getenv ''OPENAI_API_KEY'') seconds_of)
             else Inl (route_unavailable (''Unsupported model route provider: '' @ provider))))"

definition gateway_env_report :: "(string \<Rightarrow> string option) \<Rightarrow> string list \<times> string list dict" where
  "gateway_env_report getenv =
     (let gateways = [(''litellm_proxy'', [(''api_key'', ''LITELLM_PROXY_API_KEY''), (''base_url'', ''LITELLM_PROXY_API_BASE'')]),
            (''openrouter'', [(''api_key'', ''OPENROUTER_API_KEY'')]),
            (''vercel_ai_gateway'', [(''api_key'', ''VERCEL_AI_GATEWAY_API_KEY'')]),
            (''openai'', [(''api_key'', ''OPENAI_API_KEY'')])];
          absent_of = (\<lambda>envs. map fst (filter (\<lambda>(label, env). label \<noteq> ''base_url''
            \<and> (getenv env = None \<or> getenv env = Some [])) envs));
          absent = map (\<lambda>(g, envs). (g, absent_of envs)) gateways
      in (map fst (filter (\<lambda>(g, a). a = []) absent), filter (\<lambda>(g, a). a \<noteq> []) absent))"

section \<open>Streams\<close>

record llm_event = client_event +
  le_model :: "string option"

text \<open>How a stream ends; a consumer may also find it still open.\<close>

datatype stream_end = Returned | Raised provider_exc | Still_Open

type_synonym stream_trace = "llm_event list \<times> stream_end"

record llm_client =
  lc_model :: string
  lc_configured :: "provider_exc option"
  lc_stream :: stream_trace

text \<open>
  The stream with a hard timeout reads a queue that a thread fills with the events of the client.  A step
  is the time that has passed when it is checked, and the answer of the queue: none in time (with the time
  that has then passed, in milliseconds), an event, the exception of the client, or its end.
\<close>

datatype queue_answer = Queue_Empty int | Queue_Event llm_event | Queue_Exception provider_exc | Queue_Done

definition keepalive_event :: "string \<Rightarrow> rat \<Rightarrow> int \<Rightarrow> llm_event" where
  "keepalive_event model timeout elapsed_ms = \<lparr>ce_type = PROVIDER_KEEPALIVE_EVENT, ce_text = None, ce_tool_name = None,
     ce_arguments = Some [(''elapsed_ms'', JInt elapsed_ms), (''timeout_seconds'', JFloat timeout)],
     ce_input_tokens = 0, ce_output_tokens = 0, le_model = Some model\<rparr>"

definition trace_cons :: "llm_event \<Rightarrow> stream_trace \<Rightarrow> stream_trace" where
  "trace_cons e t = (e # fst t, snd t)"

fun stream_with_hard_route_timeout ::
  "(rat \<Rightarrow> string) \<Rightarrow> string \<Rightarrow> rat \<Rightarrow> (rat \<times> queue_answer) list \<Rightarrow> stream_trace" where
  "stream_with_hard_route_timeout ms_text model timeout [] = ([], Still_Open)"
| "stream_with_hard_route_timeout ms_text model timeout ((elapsed, answer) # steps) =
     (if timeout - elapsed \<le> 0
      then ([], Raised (timeout_error (''Provider route timed out after '' @ ms_text timeout @ ''s'')))
      else case answer of
          Queue_Empty ms \<Rightarrow> trace_cons (keepalive_event model timeout ms)
            (stream_with_hard_route_timeout ms_text model timeout steps)
        | Queue_Done \<Rightarrow> ([], Returned)
        | Queue_Exception e \<Rightarrow> ([], Raised e)
        | Queue_Event e \<Rightarrow> trace_cons e (stream_with_hard_route_timeout ms_text model timeout steps))"

section \<open>Routing\<close>

record routing_env =
  re_registry :: "provider_exc + json dict"
  re_tier_setting :: "string option"
  re_client :: "nat \<Rightarrow> string \<Rightarrow> rat option \<Rightarrow> provider_exc + llm_client"
  re_accepts_timeout :: bool
  re_queue :: "nat \<Rightarrow> (rat \<times> queue_answer) list"
  re_float :: "string \<Rightarrow> rat option"
  re_ms_text :: "rat \<Rightarrow> string"
  re_failures_text :: "json list \<Rightarrow> string"
  re_repr :: "json \<Rightarrow> string"

text \<open>\<open>float(raw)\<close> when it is positive, of the value in the context.\<close>

definition positive_float_of :: "routing_env \<Rightarrow> json \<Rightarrow> rat option" where
  "positive_float_of env raw =
     (case (case raw of
              JInt i \<Rightarrow> Some (of_int i) | JBool b \<Rightarrow> Some (of_bool b) | JFloat r \<Rightarrow> Some r
            | JStr t \<Rightarrow> re_float env t | _ \<Rightarrow> None) of
        None \<Rightarrow> None
      | Some t \<Rightarrow> if t > 0 then Some t else None)"

definition create_route_client :: "routing_env \<Rightarrow> nat \<Rightarrow> string \<Rightarrow> rat option \<Rightarrow> provider_exc + llm_client" where
  "create_route_client env i route timeout_seconds =
     re_client env i route (if re_accepts_timeout env then timeout_seconds else None)"

definition configured_client :: "routing_env \<Rightarrow> nat \<Rightarrow> string \<Rightarrow> rat option \<Rightarrow> provider_exc + llm_client" where
  "configured_client env i route timeout_seconds =
     (case create_route_client env i route timeout_seconds of
        Inl e \<Rightarrow> Inl e
      | Inr client \<Rightarrow> (case lc_configured client of None \<Rightarrow> Inr client | Some e \<Rightarrow> Inl e))"

definition failure_entry :: "string \<Rightarrow> provider_exc \<Rightarrow> json" where
  "failure_entry route e = JObj [(''provider_route'', JStr route), (''error'', JStr (exc_type e)),
     (''message'', JStr (exc_message e))]"

definition route_payload_of ::
  "string \<Rightarrow> string \<Rightarrow> string \<Rightarrow> string \<Rightarrow> string \<Rightarrow> nat \<Rightarrow> json list \<Rightarrow> json dict" where
  "route_payload_of tier stage route provider model i failures =
     [(''model_tier'', JStr tier), (''model_stage'', JStr stage), (''provider_route'', JStr route),
      (''provider'', JStr provider), (''model'', JStr model), (''fallback_used'', JBool (i > 0)),
      (''attempt_count'', JInt (int i + 1)), (''fallback_attempts'', JList failures)]"

definition route_event :: "json dict \<Rightarrow> string \<Rightarrow> llm_event" where
  "route_event payload model = \<lparr>ce_type = PROVIDER_ROUTE_EVENT, ce_text = None, ce_tool_name = None,
     ce_arguments = Some payload, ce_input_tokens = 0, ce_output_tokens = 0, le_model = Some model\<rparr>"

definition set_default :: "string \<Rightarrow> json \<Rightarrow> json dict \<Rightarrow> json dict" where
  "set_default k v d = (case dict_get d k of None \<Rightarrow> dict_set k v d | Some _ \<Rightarrow> d)"

definition or_model :: "string option \<Rightarrow> json \<Rightarrow> string option" where
  "or_model model dflt = (if model = None \<or> model = Some [] then (case dflt of JStr t \<Rightarrow> Some t | _ \<Rightarrow> None) else model)"

definition with_route_metadata :: "json dict \<Rightarrow> llm_event \<Rightarrow> llm_event" where
  "with_route_metadata payload event =
     (if ce_type event = ''tool.call'' then event\<lparr>le_model := or_model (le_model event) (jget payload ''model'')\<rparr>
      else event\<lparr>ce_arguments := Some (foldl (\<lambda>d k. set_default k (jget payload k) d)
               (case ce_arguments event of None \<Rightarrow> [] | Some a \<Rightarrow> a)
               [''model_tier'', ''model_stage'', ''provider_route'', ''fallback_used'', ''attempt_count'']),
             le_model := or_model (le_model event) (jget payload ''model'')\<rparr>)"

definition is_content :: "llm_event \<Rightarrow> bool" where
  "is_content e \<longleftrightarrow> ce_type e \<noteq> PROVIDER_KEEPALIVE_EVENT"

text \<open>The events of a client, read directly or from the queue of its thread.\<close>

definition client_trace :: "routing_env \<Rightarrow> bool \<Rightarrow> rat option \<Rightarrow> nat \<Rightarrow> llm_client \<Rightarrow> stream_trace" where
  "client_trace env hard timeout_seconds i client =
     (case timeout_seconds of
        Some t \<Rightarrow> if hard then stream_with_hard_route_timeout (re_ms_text env) (lc_model client) t (re_queue env i)
          else lc_stream client
      | None \<Rightarrow> lc_stream client)"

definition trace_append :: "llm_event list \<Rightarrow> stream_trace \<Rightarrow> stream_trace" where
  "trace_append es t = (es @ fst t, snd t)"

fun try_routes ::
  "routing_env \<Rightarrow> string \<Rightarrow> string \<Rightarrow> bool \<Rightarrow> rat option \<Rightarrow> nat \<Rightarrow> json list \<Rightarrow> string list \<Rightarrow> stream_trace" where
  "try_routes env tier stage hard timeout_seconds i failures [] =
     ([], Raised (configuration_error (''All model routes failed for tier='' @ tier @ '' stage='' @ stage @ '': ''
        @ re_failures_text env failures)))"
| "try_routes env tier stage hard timeout_seconds i failures (route # routes) =
     (case configured_client env i route timeout_seconds of
        Inl e \<Rightarrow>
          if \<not> is_fallbackable_provider_error e then ([], Raised e)
          else try_routes env tier stage hard timeout_seconds (Suc i) (failures @ [failure_entry route e]) routes
      | Inr client \<Rightarrow>
         (case split_route route of
            Inl e \<Rightarrow> ([], Raised e)
          | Inr (provider, _) \<Rightarrow>
             (let payload = route_payload_of tier stage route provider (lc_model client) i failures;
                  (events, ending) = client_trace env hard timeout_seconds i client;
                  sent = route_event payload (lc_model client) # map (with_route_metadata payload) events
              in case ending of
                   Raised e \<Rightarrow>
                     if list_ex is_content events \<or> \<not> is_fallbackable_provider_error e then (sent, Raised e)
                     else trace_append sent
                       (try_routes env tier stage hard timeout_seconds (Suc i) (failures @ [failure_entry route e]) routes)
                 | _ \<Rightarrow> (sent, ending))))"

text \<open>The tier of the caller, or that of the context, which is stripped and so has to be a text.\<close>

definition tier_given :: "auth_context option \<Rightarrow> json dict \<Rightarrow> py_error + string option" where
  "tier_given auth context = (case auth of
      Some a \<Rightarrow> Inr (Some (user_tier a))
    | None \<Rightarrow> (case jget context ''user_tier'' of
        JStr t \<Rightarrow> Inr (Some t)
      | v \<Rightarrow> if json_truthy v then Inl AttributeError else Inr None))"

definition routed_stream :: "routing_env \<Rightarrow> auth_context option \<Rightarrow> json dict \<Rightarrow> stream_trace" where
  "routed_stream env auth context = (case tier_given auth context of Inl e \<Rightarrow> ([], Raised (plain_error e)) | Inr given \<Rightarrow>
     (let tier = normalize_user_tier (re_tier_setting env) given;
          stage = py_str (re_repr env) (json_or (jget context ''stage'') (JStr DEFAULT_MODEL_STAGE))
      in case re_registry env of
           Inl e \<Rightarrow> ([], Raised e)
         | Inr registry \<Rightarrow>
            (case resolve_routes (re_repr env) (re_tier_setting env) registry (Some tier) (Some stage) of
               Inl e \<Rightarrow> ([], Raised (plain_error e))
             | Inr routes \<Rightarrow>
                if routes = []
                then ([], Raised (configuration_error (''No model routes configured for tier='' @ tier @ '' stage='' @ stage)))
                else try_routes env tier stage (jget context ''hard_route_timeout'' = JBool True)
                  (positive_float_of env (jget context ''route_timeout_seconds'')) 0 [] routes)))"

fun first_configured :: "routing_env \<Rightarrow> string \<Rightarrow> nat \<Rightarrow> string list \<Rightarrow> provider_exc option" where
  "first_configured env tier i [] =
     Some (configuration_error (''No configured model route is available for tier='' @ tier))"
| "first_configured env tier i (route # routes) =
     (case configured_client env i route None of
        Inr client \<Rightarrow> None
      | Inl e \<Rightarrow> if \<not> is_fallbackable_provider_error e then Some e else first_configured env tier (Suc i) routes)"

text \<open>\<open>ensure_configured\<close>: the exception it raises, if any.\<close>

definition ensure_configured :: "routing_env \<Rightarrow> provider_exc option" where
  "ensure_configured env =
     (let tier = normalize_user_tier (re_tier_setting env) None
      in case re_registry env of
           Inl e \<Rightarrow> Some e
         | Inr registry \<Rightarrow>
            (case resolve_routes (re_repr env) (re_tier_setting env) registry (Some tier) (Some DEFAULT_MODEL_STAGE) of
               Inl e \<Rightarrow> Some (plain_error e)
             | Inr routes \<Rightarrow>
                if routes = []
                then Some (configuration_error (''No model routes configured for tier='' @ tier @ '' stage='' @ DEFAULT_MODEL_STAGE))
                else first_configured env tier 0 routes))"

end
