(* ===== verification/Routing_Claims.thy ===== *)
theory Routing_Claims
  imports Routing
begin

text \<open>
  What the routed stream is: the stream of the first route that does not fail quietly, that is, without
  having sent content and with an error another route may make up for.
\<close>

section \<open>The route that answers\<close>

definition fails_quietly :: "routing_env \<Rightarrow> bool \<Rightarrow> rat option \<Rightarrow> nat \<Rightarrow> string \<Rightarrow> bool" where
  "fails_quietly env hard timeout_seconds i route =
     (case configured_client env i route timeout_seconds of
        Inl e \<Rightarrow> is_fallbackable_provider_error e
      | Inr client \<Rightarrow>
         (case client_trace env hard timeout_seconds i client of
            (events, Raised e) \<Rightarrow> \<not> list_ex is_content events \<and> is_fallbackable_provider_error e
          | _ \<Rightarrow> False))"

text \<open>What the stream carries besides the notices of the router and the keepalives.\<close>

definition carries :: "llm_event \<Rightarrow> bool" where
  "carries e \<longleftrightarrow> ce_type e \<notin> {PROVIDER_ROUTE_EVENT, PROVIDER_KEEPALIVE_EVENT}"

lemma carries_route [simp]: "\<not> carries (route_event payload model)"
  by (simp add: carries_def route_event_def)

lemma carries_metadata [simp]: "carries (with_route_metadata payload e) = carries e"
  by (simp add: carries_def with_route_metadata_def)

lemma filter_carries_metadata:
  "filter carries (map (with_route_metadata payload) es) = map (with_route_metadata payload) (filter carries es)"
  by (simp add: filter_map comp_def)

lemma no_content_carries: "\<not> list_ex is_content es \<Longrightarrow> filter carries es = []"
  by (auto simp: list_ex_iff is_content_def carries_def filter_empty_conv)

text \<open>The payload of the route that is tried as number \<open>i\<close>.\<close>

definition payload_of_attempt :: "string \<Rightarrow> nat \<Rightarrow> json dict \<Rightarrow> bool" where
  "payload_of_attempt route i payload \<longleftrightarrow> jget payload ''provider_route'' = JStr route \<and>
     jget payload ''attempt_count'' = JInt (int i + 1) \<and> jget payload ''fallback_used'' = JBool (i > 0)"

lemma route_payload_of_attempt [simp]:
  "payload_of_attempt route i (route_payload_of tier stage route provider model i failures)"
  by (simp add: payload_of_attempt_def route_payload_of_def jget_def)

text \<open>What the answer of a route that does not fail quietly is.\<close>

definition answered_by :: "routing_env \<Rightarrow> bool \<Rightarrow> rat option \<Rightarrow> nat \<Rightarrow> string \<Rightarrow> stream_trace \<Rightarrow> bool" where
  "answered_by env hard timeout_seconds i route t =
     (case configured_client env i route timeout_seconds of
        Inl e \<Rightarrow> filter carries (fst t) = [] \<and> snd t = Raised e
      | Inr client \<Rightarrow> \<exists>payload. payload_of_attempt route i payload \<and>
          filter carries (fst t) = map (with_route_metadata payload)
            (filter carries (fst (client_trace env hard timeout_seconds i client))) \<and>
          snd t = snd (client_trace env hard timeout_seconds i client))"

lemma answered_by_later:
  "answered_by env hard ts i route t \<Longrightarrow> filter carries es = [] \<Longrightarrow> answered_by env hard ts i route (trace_append es t)"
  by (auto simp: answered_by_def trace_append_def split: sum.splits)

lemma find_upt_Suc:
  "find P [0..<Suc n] = (if P 0 then Some 0 else map_option Suc (find (\<lambda>k. P (Suc k)) [0..<n]))"
proof -
  have "[0..<Suc n] = 0 # map Suc [0..<n]" by (simp add: upt_conv_Cons map_Suc_upt del: upt_Suc)
  moreover have "find P (map Suc xs) = map_option Suc (find (\<lambda>k. P (Suc k)) xs)" for xs
    by (induction xs) auto
  ultimately show ?thesis by simp
qed

lemma try_routes_answer:
  assumes "list_all (\<lambda>r. \<not> isl (split_route r)) routes"
  shows "case find (\<lambda>k. \<not> fails_quietly env hard ts (i + k) (routes ! k)) [0..<length routes] of
      Some k \<Rightarrow> answered_by env hard ts (i + k) (routes ! k) (try_routes env tier stage hard ts i failures routes)
    | None \<Rightarrow> filter carries (fst (try_routes env tier stage hard ts i failures routes)) = [] \<and>
        (\<exists>text. snd (try_routes env tier stage hard ts i failures routes) = Raised (configuration_error text))"
  using assms
proof (induction routes arbitrary: i failures)
  case Nil
  show ?case by simp blast
next
  case (Cons route routes)
  note IH = Cons.IH [of "Suc i"]
  show ?case
  proof (cases "fails_quietly env hard ts i route")
    case False
    obtain pr m where split: "split_route route = Inr (pr, m)" using Cons.prems by (cases "split_route route") auto
    have "answered_by env hard ts i route (try_routes env tier stage hard ts i failures (route # routes))"
      using False
      by (auto simp: answered_by_def fails_quietly_def split Let_def filter_carries_metadata no_content_carries
          split: sum.splits prod.splits stream_end.splits intro: exI [of _ "route_payload_of tier stage route pr _ i failures"])
    then show ?thesis using False by (simp add: find_upt_Suc del: try_routes.simps upt_Suc)
  next
    case True
    obtain pr m where split: "split_route route = Inr (pr, m)" using Cons.prems by (cases "split_route route") auto
    obtain es fs where step: "try_routes env tier stage hard ts i failures (route # routes) =
        trace_append es (try_routes env tier stage hard ts (Suc i) fs routes)" "filter carries es = []"
    proof (cases "configured_client env i route ts")
      case (Inl e)
      with True show thesis
        by (intro that [of "[]" "failures @ [failure_entry route e]"]) (simp_all add: fails_quietly_def trace_append_def)
    next
      case (Inr client)
      with True obtain events e where t: "client_trace env hard ts i client = (events, Raised e)"
        "\<not> list_ex is_content events" "is_fallbackable_provider_error e"
        by (auto simp: fails_quietly_def split: prod.splits stream_end.splits)
      let ?p = "route_payload_of tier stage route pr (lc_model client) i failures"
      show thesis
        by (rule that [of "route_event ?p (lc_model client) # map (with_route_metadata ?p) events"
              "failures @ [failure_entry route e]"])
          (simp_all add: Inr split t filter_carries_metadata no_content_carries Let_def)
    qed
    from IH [of fs] Cons.prems have IH':
      "case find (\<lambda>k. \<not> fails_quietly env hard ts (Suc i + k) (routes ! k)) [0..<length routes] of
        Some k \<Rightarrow> answered_by env hard ts (Suc i + k) (routes ! k) (try_routes env tier stage hard ts (Suc i) fs routes)
      | None \<Rightarrow> filter carries (fst (try_routes env tier stage hard ts (Suc i) fs routes)) = [] \<and>
          (\<exists>text. snd (try_routes env tier stage hard ts (Suc i) fs routes) = Raised (configuration_error text))"
      by simp
    show ?thesis
    proof (cases "find (\<lambda>k. \<not> fails_quietly env hard ts (Suc i + k) (routes ! k)) [0..<length routes]")
      case None
      with IH' True step show ?thesis by (simp add: find_upt_Suc trace_append_def del: try_routes.simps upt_Suc)
    next
      case (Some k)
      with IH' True step answered_by_later [OF _ step(2)] show ?thesis
        by (simp add: find_upt_Suc del: try_routes.simps upt_Suc)
    qed
  qed
qed

text \<open>
  C31: the stream carries the events of the first of the tier's routes for the stage that does not fail
  quietly, each with that route and the number of the attempt, and ends as that route's stream ends: an
  error reaches the caller only after content, or when no other route may make up for it.  When all routes
  fail quietly, the stream carries nothing and raises a configuration error.
\<close>

theorem stream_of_first_answering_route:
  assumes "tier_given auth context = Inr given" "re_registry env = Inr registry"
    and "tier = normalize_user_tier (re_tier_setting env) given"
    and "stage = py_str (re_repr env) (json_or (jget context ''stage'') (JStr DEFAULT_MODEL_STAGE))"
    and "resolve_routes (re_repr env) (re_tier_setting env) registry (Some tier) (Some stage) = Inr routes"
    and "routes \<noteq> []" "list_all (\<lambda>r. \<not> isl (split_route r)) routes"
    and "hard = (jget context ''hard_route_timeout'' = JBool True)"
    and "timeout_seconds = positive_float_of env (jget context ''route_timeout_seconds'')"
  shows "case find (\<lambda>k. \<not> fails_quietly env hard timeout_seconds k (routes ! k)) [0..<length routes] of
      Some k \<Rightarrow> answered_by env hard timeout_seconds k (routes ! k) (routed_stream env auth context)
    | None \<Rightarrow> filter carries (fst (routed_stream env auth context)) = [] \<and>
        (\<exists>text. snd (routed_stream env auth context) = Raised (configuration_error text))"
proof -
  have "routed_stream env auth context = try_routes env tier stage hard timeout_seconds 0 [] routes"
    unfolding routed_stream_def assms(1,2) sum.case Let_def assms(3) [symmetric] assms(4) [symmetric] assms(5)
      assms(8) [symmetric] assms(9) [symmetric]
    using assms(6) by simp
  then show ?thesis
    using try_routes_answer [OF assms(7), where env = env and hard = hard and ts = timeout_seconds and i = 0
        and tier = tier and stage = stage and failures = "[]"] by (simp only: add_0)
qed

section \<open>Three routes\<close>

text \<open>The first is not configured, the second times out after a keepalive, the third answers.\<close>

definition delta_event :: llm_event where
  "delta_event = \<lparr>ce_type = ''text.delta'', ce_text = Some ''hi'', ce_tool_name = None, ce_arguments = None,
     ce_input_tokens = 0, ce_output_tokens = 1, le_model = None\<rparr>"

definition three_routes :: routing_env where
  "three_routes = \<lparr>re_registry = Inr [(''model_tiers'', JObj [(''paid_low'', JObj [(''routes_by_stage'',
       JObj [(''strategy_reasoning'', JList [JStr ''a/x'', JStr ''b/y'', JStr ''c/z''])])])])],
     re_tier_setting = None,
     re_client = (\<lambda>i route t. if i = 0 then Inl (configuration_error ''no key'')
       else Inr \<lparr>lc_model = ''m'', lc_configured = None, lc_stream = (if i = 1
         then ([keepalive_event ''m'' 5 1000], Raised (timeout_error ''slow'')) else ([delta_event], Returned))\<rparr>),
     re_accepts_timeout = True, re_queue = (\<lambda>_. []), re_float = (\<lambda>_. None), re_ms_text = (\<lambda>_. []),
     re_failures_text = (\<lambda>_. []), re_repr = (\<lambda>_. [])\<rparr>"

theorem stream_of_first_answering_route_witness:
  "answered_by three_routes False None 2 ''c/z'' (routed_stream three_routes None [])"
proof -
  let ?routes = "[''a/x'', ''b/y'', ''c/z'']"
  have routes: "resolve_routes (re_repr three_routes) (re_tier_setting three_routes)
      [(''model_tiers'', JObj [(''paid_low'', JObj [(''routes_by_stage'',
       JObj [(''strategy_reasoning'', JList [JStr ''a/x'', JStr ''b/y'', JStr ''c/z''])])])])]
      (Some ''paid_low'') (Some ''strategy_reasoning'') = Inr ?routes"
    by code_simp
  have quiet: "fails_quietly three_routes False None 0 ''a/x''" "fails_quietly three_routes False None 1 ''b/y''"
    "\<not> fails_quietly three_routes False None 2 ''c/z''"
    by (simp_all add: fails_quietly_def configured_client_def create_route_client_def client_trace_def three_routes_def
        is_fallbackable_provider_error_def configuration_error_def timeout_error_def is_content_def keepalive_event_def)
  have find: "find (\<lambda>k. \<not> fails_quietly three_routes False None k (?routes ! k)) [0..<length ?routes] = Some 2"
    using quiet by (simp add: upt_rec numeral_2_eq_2)
  have "case find (\<lambda>k. \<not> fails_quietly three_routes False None k (?routes ! k)) [0..<length ?routes] of
      Some k \<Rightarrow> answered_by three_routes False None k (?routes ! k) (routed_stream three_routes None [])
    | None \<Rightarrow> filter carries (fst (routed_stream three_routes None [])) = [] \<and>
        (\<exists>text. snd (routed_stream three_routes None []) = Raised (configuration_error text))"
  proof (rule stream_of_first_answering_route [OF _ _ _ _ routes])
    show "tier_given None [] = Inr None" by (simp add: tier_given_def jget_def)
    show "''paid_low'' = normalize_user_tier (re_tier_setting three_routes) None" by code_simp
    show "''strategy_reasoning'' = py_str (re_repr three_routes) (json_or (jget [] ''stage'') (JStr DEFAULT_MODEL_STAGE))"
      by code_simp
    show "list_all (\<lambda>r. \<not> isl (split_route r)) ?routes" by code_simp
  qed (simp_all add: three_routes_def jget_def positive_float_of_def)
  moreover have "?routes ! 2 = ''c/z''" by simp
  ultimately show ?thesis by (simp only: find option.case)
qed

end
