(* ===== verification/Live_Routes.thy ===== *)
theory Live_Routes
  imports Routing Paper_Worker
begin

text \<open>
  The routes of the offline workflow (\<open>live.py\<close>): the gateway and credentials of a model, the policy of
  a stage, the health of a route with its cooldown, which models a stage may use, and the classes of
  failures (\<open>classify_failure\<close> of \<open>agent_harness.py\<close>).

  The registry is the decoded model registry.  The environment variables, the clock, \<open>float\<close> of a text
  and the ISO text of a time are arguments.
\<close>

section \<open>Names\<close>

definition STATUS_SKIPPED :: string where "STATUS_SKIPPED = ''skipped''"
definition FAILURE_MISSING_CREDENTIAL :: string where "FAILURE_MISSING_CREDENTIAL = ''missing_credential''"
definition FAILURE_PROVIDER_RATE_LIMITED :: string where "FAILURE_PROVIDER_RATE_LIMITED = ''provider_rate_limited''"
definition FAILURE_PROVIDER_TIMEOUT :: string where "FAILURE_PROVIDER_TIMEOUT = ''provider_timeout''"
definition FAILURE_PROVIDER_NOT_FOUND :: string where "FAILURE_PROVIDER_NOT_FOUND = ''provider_not_found''"
definition FAILURE_MALFORMED_RESPONSE :: string where "FAILURE_MALFORMED_RESPONSE = ''malformed_response''"
definition FAILURE_STATIC_VALIDATION_FAILED :: string where
  "FAILURE_STATIC_VALIDATION_FAILED = ''static_validation_failed''"
definition FAILURE_REVIEW_FAILED :: string where "FAILURE_REVIEW_FAILED = ''review_failed''"
definition FAILURE_REVIEW_VALIDATION_DISAGREEMENT :: string where
  "FAILURE_REVIEW_VALIDATION_DISAGREEMENT = ''review_validation_disagreement''"
definition FAILURE_ARTIFACT_MISSING :: string where "FAILURE_ARTIFACT_MISSING = ''artifact_missing''"
definition FAILURE_FREE_CAPACITY_UNAVAILABLE :: string where
  "FAILURE_FREE_CAPACITY_UNAVAILABLE = ''free_capacity_unavailable''"
definition FAILURE_CONFIGURATION_ERROR :: string where "FAILURE_CONFIGURATION_ERROR = ''configuration_error''"

definition ROUTE_STATUS_HEALTHY :: string where "ROUTE_STATUS_HEALTHY = ''healthy''"
definition ROUTE_STATUS_DEGRADED :: string where "ROUTE_STATUS_DEGRADED = ''degraded''"
definition ROUTE_STATUS_UNSTABLE :: string where "ROUTE_STATUS_UNSTABLE = ''unstable''"
definition ROUTE_STATUS_COOLDOWN :: string where "ROUTE_STATUS_COOLDOWN = ''cooldown''"
definition DEFAULT_ROUTE_COOLDOWN_SECONDS :: int where "DEFAULT_ROUTE_COOLDOWN_SECONDS = 600"
definition DEFAULT_MAX_CONSECUTIVE_FAILURES :: int where "DEFAULT_MAX_CONSECUTIVE_FAILURES = 2"
definition PROVIDER_TIMEOUT_ENFORCER_SIGNAL :: string where
  "PROVIDER_TIMEOUT_ENFORCER_SIGNAL = ''signal_deadline''"
definition PROVIDER_TIMEOUT_ENFORCER_FUTURE :: string where
  "PROVIDER_TIMEOUT_ENFORCER_FUTURE = ''app_future_deadline''"
definition PROVIDER_ERROR_SUBCLASS_CONNECTION :: string where
  "PROVIDER_ERROR_SUBCLASS_CONNECTION = ''provider_connection_error''"

definition STAGE_STRATEGY_REASONING :: string where "STAGE_STRATEGY_REASONING = ''strategy_reasoning''"
definition STAGE_STRATEGY_CODING :: string where "STAGE_STRATEGY_CODING = ''strategy_coding''"
definition STAGE_PINE_CODE_GENERATION :: string where "STAGE_PINE_CODE_GENERATION = ''pine_code_generation''"
definition STAGE_BALANCED_REVIEW :: string where "STAGE_BALANCED_REVIEW = ''balanced_review''"
definition STAGE_REPAIR :: string where "STAGE_REPAIR = ''repair''"
definition STAGE_MARKET_RESEARCH :: string where "STAGE_MARKET_RESEARCH = ''market_research''"
definition USER_TIER_FREE :: string where "USER_TIER_FREE = ''free''"
definition COST_PROFILE_CHEAP :: string where "COST_PROFILE_CHEAP = ''cheap''"
definition MAX_REPAIR_LOOPS :: int where "MAX_REPAIR_LOOPS = 2"

definition CHEAP_STAGE_MODELS :: "string dict" where
  "CHEAP_STAGE_MODELS = [(STAGE_STRATEGY_REASONING, ''strategy_reasoning''), (STAGE_STRATEGY_CODING, ''strategy_coding''),
     (STAGE_PINE_CODE_GENERATION, ''pine_code_generation''), (STAGE_BALANCED_REVIEW, ''balanced_review''),
     (STAGE_REPAIR, ''pine_code_generation'')]"

definition QUALITY_STAGE_AGENTS :: "string dict" where
  "QUALITY_STAGE_AGENTS = [(STAGE_STRATEGY_REASONING, ''trading_analyst''), (STAGE_STRATEGY_CODING, ''orchestrator''),
     (STAGE_PINE_CODE_GENERATION, ''pine_specialist''), (STAGE_BALANCED_REVIEW, ''critic''),
     (STAGE_REPAIR, ''pine_specialist'')]"

section \<open>Values of the registry\<close>

definition get_or :: "json dict \<Rightarrow> string \<Rightarrow> json \<Rightarrow> json" where
  "get_or d k dflt = (case dict_get d k of None \<Rightarrow> dflt | Some v \<Rightarrow> v)"

definition object_or_empty :: "json \<Rightarrow> json dict" where
  "object_or_empty v = (case v of JObj d \<Rightarrow> d | _ \<Rightarrow> [])"

definition int_trunc :: "rat \<Rightarrow> int" where
  "int_trunc r = (if r < 0 then - \<lfloor>- r\<rfloor> else \<lfloor>r\<rfloor>)"

definition int_of :: "json \<Rightarrow> py_error + int" where
  "int_of v = (case v of
      JInt i \<Rightarrow> Inr i
    | JBool b \<Rightarrow> Inr (of_bool b)
    | JFloat r \<Rightarrow> Inr (int_trunc r)
    | JStr t \<Rightarrow> (case py_int_text t of Some i \<Rightarrow> Inr i
        | None \<Rightarrow> Inl (ValueError ''invalid literal for int() with base 10''))
    | _ \<Rightarrow> Inl TypeError)"

definition float_of :: "(string \<Rightarrow> rat option) \<Rightarrow> json \<Rightarrow> py_error + rat" where
  "float_of to_float v = (case v of
      JInt i \<Rightarrow> Inr (of_int i)
    | JBool b \<Rightarrow> Inr (of_bool b)
    | JFloat r \<Rightarrow> Inr r
    | JStr t \<Rightarrow> (case to_float t of Some r \<Rightarrow> Inr r
        | None \<Rightarrow> Inl (ValueError ''could not convert string to float''))
    | _ \<Rightarrow> Inl TypeError)"

text \<open>The first error, or the value of the next step.\<close>

definition try_sum :: "'e + 'a \<Rightarrow> ('a \<Rightarrow> 'e + 'b) \<Rightarrow> 'e + 'b" where
  "try_sum r f = (case r of Inl e \<Rightarrow> Inl e | Inr x \<Rightarrow> f x)"

section \<open>The policy of a stage\<close>

record stage_route_policy =
  sp_request_timeout :: rat
  sp_max_retries :: int
  sp_cooldown_seconds :: int
  sp_max_consecutive :: int
  sp_prefer_healthy :: bool

definition stage_route_policy_of ::
  "(string \<Rightarrow> rat option) \<Rightarrow> json dict \<Rightarrow> string option \<Rightarrow> py_error + stage_route_policy" where
  "stage_route_policy_of to_float registry stage =
     (let defaults = object_or_empty (jget registry ''defaults'');
          stage_timeouts = object_or_empty (jget registry ''stage_timeouts'');
          default_timeout = get_or defaults ''request_timeout_seconds'' (JInt 60);
          timeout_value = (case stage of None \<Rightarrow> default_timeout | Some t \<Rightarrow> get_or stage_timeouts t default_timeout);
          key = (if stage = Some ''compact_free'' then ''free_route_policy'' else ''route_policy'');
          route_defaults = object_or_empty (jget registry key)
      in try_sum (float_of to_float timeout_value) (\<lambda>timeout.
         try_sum (int_of (get_or route_defaults ''max_retries'' (get_or defaults ''max_retries'' (JInt 2)))) (\<lambda>retries.
         try_sum (int_of (get_or route_defaults ''cooldown_seconds'' (JInt DEFAULT_ROUTE_COOLDOWN_SECONDS))) (\<lambda>cooldown.
         try_sum (int_of (get_or route_defaults ''max_consecutive_failures'' (JInt DEFAULT_MAX_CONSECUTIVE_FAILURES))) (\<lambda>failures.
           Inr \<lparr>sp_request_timeout = timeout, sp_max_retries = retries, sp_cooldown_seconds = cooldown,
             sp_max_consecutive = failures,
             sp_prefer_healthy = json_truthy (get_or route_defaults ''prefer_healthy_routes'' (JBool True))\<rparr>)))))"

section \<open>The health of a route\<close>

record route_health =
  rh_stage :: string
  rh_model :: string
  rh_provider :: string
  rh_gateway :: string
  rh_successes :: int
  rh_failures :: int
  rh_consecutive :: int
  rh_timeouts :: int
  rh_not_found :: int
  rh_cooldowns :: int
  rh_cooldown_until :: "rat option"
  rh_failure_class :: "string option"
  rh_error :: "string option"
  rh_latency_ms :: "int option"
  rh_max_consecutive :: int

type_synonym health_table = "((string \<times> string) \<times> route_health) list"

definition new_route_health :: "string \<Rightarrow> string \<Rightarrow> string \<Rightarrow> string \<Rightarrow> route_health" where
  "new_route_health stage model provider gateway =
     \<lparr>rh_stage = stage, rh_model = model, rh_provider = provider, rh_gateway = gateway, rh_successes = 0,
      rh_failures = 0, rh_consecutive = 0, rh_timeouts = 0, rh_not_found = 0, rh_cooldowns = 0,
      rh_cooldown_until = None, rh_failure_class = None, rh_error = None, rh_latency_ms = None,
      rh_max_consecutive = 0\<rparr>"

text \<open>\<open>cooldown_until and cooldown_until > now\<close>\<close>

definition cooling :: "route_health \<Rightarrow> rat \<Rightarrow> bool" where
  "cooling h now = (case rh_cooldown_until h of None \<Rightarrow> False | Some c \<Rightarrow> c \<noteq> 0 \<and> c > now)"

definition route_status :: "route_health \<Rightarrow> rat \<Rightarrow> string" where
  "route_status h now =
     (if cooling h now then ROUTE_STATUS_COOLDOWN
      else if rh_timeouts h \<noteq> 0 \<or> rh_not_found h \<noteq> 0 \<or> rh_max_consecutive h \<ge> DEFAULT_MAX_CONSECUTIVE_FAILURES
      then ROUTE_STATUS_UNSTABLE
      else if rh_failures h \<noteq> 0 then ROUTE_STATUS_DEGRADED else ROUTE_STATUS_HEALTHY)"

definition iso_from_epoch :: "(rat \<Rightarrow> string) \<Rightarrow> rat option \<Rightarrow> json" where
  "iso_from_epoch iso_text t = jstr (map_option iso_text t)"

definition jint :: "int option \<Rightarrow> json" where
  "jint x = (case x of None \<Rightarrow> JNull | Some i \<Rightarrow> JInt i)"

definition route_health_dict :: "(rat \<Rightarrow> string) \<Rightarrow> rat \<Rightarrow> route_health \<Rightarrow> json dict" where
  "route_health_dict iso_text now h =
     [(''stage'', JStr (rh_stage h)), (''model'', JStr (rh_model h)), (''provider'', JStr (rh_provider h)),
      (''gateway'', JStr (rh_gateway h)), (''status'', JStr (route_status h now)),
      (''success_count'', JInt (rh_successes h)), (''failure_count'', JInt (rh_failures h)),
      (''consecutive_failure_count'', JInt (rh_consecutive h)),
      (''consecutive_failure_max'', JInt (rh_max_consecutive h)), (''timeout_count'', JInt (rh_timeouts h)),
      (''not_found_count'', JInt (rh_not_found h)), (''cooldown_count'', JInt (rh_cooldowns h)),
      (''cooldown_until'', iso_from_epoch iso_text (rh_cooldown_until h)),
      (''last_failure_class'', jstr (rh_failure_class h)), (''last_error'', jstr (rh_error h)),
      (''last_latency_ms'', jint (rh_latency_ms h))]"

definition route_health_key :: "string option \<Rightarrow> string \<Rightarrow> string \<times> string" where
  "route_health_key stage model = (or_str stage ''single'', model)"

text \<open>The state of a route, which the first look at it creates.\<close>

definition route_health_state ::
  "health_table \<Rightarrow> string option \<Rightarrow> string \<Rightarrow> string \<Rightarrow> string \<Rightarrow> route_health \<times> health_table" where
  "route_health_state table stage model provider gateway =
     (let key = route_health_key stage model
      in case map_of table key of
           Some h \<Rightarrow> (h, table)
         | None \<Rightarrow> (let h = new_route_health (fst key) model provider gateway in (h, AList.update key h table)))"

definition route_health_snapshot :: "(rat \<Rightarrow> string) \<Rightarrow> rat \<Rightarrow> health_table \<Rightarrow> json dict list" where
  "route_health_snapshot iso_text now table =
     map (\<lambda>kh. route_health_dict iso_text now (snd kh)) (py_sorted fst table)"

definition record_route_success :: "int \<Rightarrow> route_health \<Rightarrow> route_health" where
  "record_route_success latency_ms h =
     h\<lparr>rh_successes := rh_successes h + 1, rh_consecutive := 0, rh_failure_class := None, rh_error := None,
       rh_latency_ms := Some latency_ms\<rparr>"

definition PROVIDER_FAILURES :: "string list" where
  "PROVIDER_FAILURES = [FAILURE_PROVIDER_ERROR, FAILURE_PROVIDER_TIMEOUT, FAILURE_PROVIDER_NOT_FOUND,
     FAILURE_STATIC_VALIDATION_FAILED]"

definition record_route_failure ::
  "stage_route_policy \<Rightarrow> rat \<Rightarrow> string \<Rightarrow> string \<Rightarrow> route_health \<Rightarrow> route_health" where
  "record_route_failure policy now failure_class error h =
     (let provider_failure = failure_class \<in> set PROVIDER_FAILURES;
          h = h\<lparr>rh_failures := rh_failures h + 1, rh_failure_class := Some failure_class, rh_error := Some error\<rparr>;
          h = (if provider_failure
               then h\<lparr>rh_consecutive := rh_consecutive h + 1,
                      rh_max_consecutive := max (rh_max_consecutive h) (rh_consecutive h + 1)\<rparr>
               else h);
          h = (if failure_class = FAILURE_PROVIDER_TIMEOUT then h\<lparr>rh_timeouts := rh_timeouts h + 1\<rparr> else h);
          h = (if failure_class = FAILURE_PROVIDER_NOT_FOUND then h\<lparr>rh_not_found := rh_not_found h + 1\<rparr> else h)
      in if failure_class \<in> {FAILURE_PROVIDER_TIMEOUT, FAILURE_PROVIDER_NOT_FOUND}
            \<or> (provider_failure \<and> rh_consecutive h \<ge> sp_max_consecutive policy)
         then h\<lparr>rh_cooldowns := rh_cooldowns h + 1,
                rh_cooldown_until := Some (now + of_int (sp_cooldown_seconds policy))\<rparr>
         else h)"

definition route_status_fields :: "(rat \<Rightarrow> string) \<Rightarrow> rat \<Rightarrow> route_health \<Rightarrow> json dict" where
  "route_status_fields iso_text now h =
     [(''route_status'', JStr (route_status h now)),
      (''cooldown_until'', iso_from_epoch iso_text (rh_cooldown_until h)),
      (''quarantine_until'', iso_from_epoch iso_text (rh_cooldown_until h)),
      (''consecutive_failure_count'', JInt (rh_consecutive h))]"

text \<open>What is recorded when a route is passed over, or nothing when it may be used.\<close>

definition route_cooldown_skip ::
  "(rat \<Rightarrow> string) \<Rightarrow> rat \<Rightarrow> stage_route_policy \<Rightarrow> route_health \<Rightarrow> json dict option" where
  "route_cooldown_skip iso_text now policy h =
     (if sp_prefer_healthy policy \<and> cooling h now
      then Some [(''stage'', JStr (rh_stage h)), (''model'', JStr (rh_model h)), (''provider'', JStr (rh_provider h)),
        (''status'', JStr STATUS_SKIPPED),
        (''error_code'', JStr (or_str (rh_failure_class h) FAILURE_PROVIDER_ERROR)),
        (''failure_class'', JStr (or_str (rh_failure_class h) FAILURE_PROVIDER_ERROR)),
        (''skip_reason'', JStr ''route_cooldown''), (''route_status'', JStr (route_status h now)),
        (''cooldown_until'', iso_from_epoch iso_text (rh_cooldown_until h)),
        (''quarantine_until'', iso_from_epoch iso_text (rh_cooldown_until h)),
        (''cooldown_seconds'', JInt (sp_cooldown_seconds policy)),
        (''consecutive_failure_count'', JInt (rh_consecutive h))]
      else None)"

section \<open>Health kept from earlier runs\<close>

definition epoch_from_iso :: "(string \<Rightarrow> rat option) \<Rightarrow> (json \<Rightarrow> string) \<Rightarrow> json \<Rightarrow> rat option" where
  "epoch_from_iso parse_iso repr_of v =
     (if \<not> json_truthy v then None
      else case json_num v of Some r \<Rightarrow> Some r | None \<Rightarrow> parse_iso (py_str repr_of v))"

definition safe_int :: "json \<Rightarrow> int" where
  "safe_int v = (case int_of (json_or v (JInt 0)) of Inl e \<Rightarrow> 0 | Inr i \<Rightarrow> i)"

text \<open>A text of a row, or nothing; the columns of the table are texts and integers.\<close>

definition text_of :: "json \<Rightarrow> string option" where
  "text_of v = (case v of JStr t \<Rightarrow> Some t | _ \<Rightarrow> None)"

definition load_route_row ::
  "(string \<Rightarrow> rat option) \<Rightarrow> (json \<Rightarrow> string) \<Rightarrow> health_table \<Rightarrow> json dict \<Rightarrow> health_table" where
  "load_route_row parse_iso repr_of table row =
     (let text = (\<lambda>k. py_str repr_of (jget row k));
          model = py_str repr_of (json_or (jget row ''model'') (JStr (text ''gateway'' @ ''/'' @ text ''route_model'')));
          stage = py_str repr_of (json_or (jget row ''stage'') (JStr ''single''));
          (h, table) = route_health_state table (Some stage) model
            (py_str repr_of (json_or (jget row ''provider'') (JStr ''unknown'')))
            (py_str repr_of (json_or (jget row ''gateway'') (JStr ''direct'')));
          until = epoch_from_iso parse_iso repr_of (jget row ''cooldown_until'');
          own = (case rh_cooldown_until h of Some c \<Rightarrow> (if c = 0 then None else Some c) | None \<Rightarrow> None);
          h = h\<lparr>rh_successes := max (rh_successes h) (safe_int (jget row ''success_count'')),
                rh_failures := max (rh_failures h) (safe_int (jget row ''failure_count'')),
                rh_consecutive := max (rh_consecutive h) (safe_int (jget row ''consecutive_failure_count'')),
                rh_max_consecutive := max (rh_max_consecutive h) (safe_int (jget row ''consecutive_failure_max'')),
                rh_timeouts := max (rh_timeouts h) (safe_int (jget row ''timeout_count'')),
                rh_cooldowns := max (rh_cooldowns h) (safe_int (jget row ''cooldown_count'')),
                rh_failure_class := (case rh_failure_class h of Some (c # t) \<Rightarrow> Some (c # t)
                  | _ \<Rightarrow> text_of (jget row ''last_failure_class'')),
                rh_error := (case rh_error h of Some (c # t) \<Rightarrow> Some (c # t) | _ \<Rightarrow> text_of (jget row ''last_error'')),
                rh_latency_ms := (case rh_latency_ms h of
                    Some i \<Rightarrow> if i \<noteq> 0 then Some i else (case jget row ''last_latency_ms'' of JInt j \<Rightarrow> Some j | _ \<Rightarrow> None)
                  | None \<Rightarrow> (case jget row ''last_latency_ms'' of JInt j \<Rightarrow> Some j | _ \<Rightarrow> None)),
                rh_cooldown_until := (case until of
                    Some u \<Rightarrow> if u \<noteq> 0 \<and> (case own of None \<Rightarrow> True | Some c \<Rightarrow> u > c) then Some u else rh_cooldown_until h
                  | None \<Rightarrow> rh_cooldown_until h)\<rparr>
      in AList.update (route_health_key (Some stage) model) h table)"

definition load_persistent_route_health ::
  "(string \<Rightarrow> rat option) \<Rightarrow> (json \<Rightarrow> string) \<Rightarrow> json dict list \<Rightarrow> health_table \<Rightarrow> health_table" where
  "load_persistent_route_health parse_iso repr_of rows table = foldl (load_route_row parse_iso repr_of) table rows"

section \<open>Classes of failures\<close>

definition FAILURE_CLASSES :: "string dict" where
  "FAILURE_CLASSES =
     [(''missing_provider_credential'', FAILURE_MISSING_CREDENTIAL),
      (FAILURE_MISSING_CREDENTIAL, FAILURE_MISSING_CREDENTIAL),
      (FAILURE_PROVIDER_RATE_LIMITED, FAILURE_PROVIDER_RATE_LIMITED),
      (FAILURE_PROVIDER_TIMEOUT, FAILURE_PROVIDER_TIMEOUT),
      (FAILURE_PROVIDER_NOT_FOUND, FAILURE_PROVIDER_NOT_FOUND),
      (''malformed_provider_response'', FAILURE_MALFORMED_RESPONSE),
      (FAILURE_MALFORMED_RESPONSE, FAILURE_MALFORMED_RESPONSE),
      (''schema_invalid_provider_response'', FAILURE_SCHEMA_INVALID),
      (FAILURE_SCHEMA_INVALID, FAILURE_SCHEMA_INVALID),
      (''safety_policy_violation'', FAILURE_POLICY_VIOLATION),
      (FAILURE_POLICY_VIOLATION, FAILURE_POLICY_VIOLATION),
      (FAILURE_STATIC_VALIDATION_FAILED, FAILURE_STATIC_VALIDATION_FAILED),
      (FAILURE_REVIEW_FAILED, FAILURE_REVIEW_FAILED),
      (FAILURE_REVIEW_VALIDATION_DISAGREEMENT, FAILURE_REVIEW_VALIDATION_DISAGREEMENT),
      (FAILURE_ARTIFACT_MISSING, FAILURE_ARTIFACT_MISSING),
      (FAILURE_CONFIGURATION_ERROR, FAILURE_CONFIGURATION_ERROR),
      (FAILURE_FREE_CAPACITY_UNAVAILABLE, FAILURE_FREE_CAPACITY_UNAVAILABLE)]"

definition has_any :: "string list \<Rightarrow> string \<Rightarrow> bool" where
  "has_any terms t = list_ex (\<lambda>term. has_sub term t) terms"

definition classify_failure :: "string option \<Rightarrow> string option \<Rightarrow> string" where
  "classify_failure error_code error =
     (case (case error_code of None \<Rightarrow> None | Some c \<Rightarrow> dict_get FAILURE_CLASSES c) of
        Some c \<Rightarrow> c
      | None \<Rightarrow>
         (let t = py_lower (or_str error [])
          in if has_any [''429'', ''ratelimit'', ''rate limit'', ''rate-limited''] t then FAILURE_PROVIDER_RATE_LIMITED
             else if has_any [''404'', ''notfound'', ''no endpoints found''] t then FAILURE_PROVIDER_NOT_FOUND
             else if has_any [''timeout'', ''readtimeout'', ''timed out''] t then FAILURE_PROVIDER_TIMEOUT
             else if has_any [''schema'', ''validationerror''] t then FAILURE_SCHEMA_INVALID
             else if has_any [''policy'', ''safety''] t then FAILURE_POLICY_VIOLATION
             else if error_code = Some FAILURE_PROVIDER_ERROR then FAILURE_PROVIDER_ERROR
             else or_str error_code FAILURE_UNKNOWN))"

definition timeout_enforced_by :: "string \<Rightarrow> string option" where
  "timeout_enforced_by t =
     (if has_sub PROVIDER_TIMEOUT_ENFORCER_FUTURE t then Some PROVIDER_TIMEOUT_ENFORCER_FUTURE
      else if has_sub PROVIDER_TIMEOUT_ENFORCER_SIGNAL t then Some PROVIDER_TIMEOUT_ENFORCER_SIGNAL
      else None)"

definition provider_error_subclass :: "py_exc \<Rightarrow> string option" where
  "provider_error_subclass e =
     (if has_any [''connection error'', ''apiconnectionerror'', ''connecterror'', ''connection refused'', ''connection reset'']
           (py_lower (exc_type e @ '': '' @ exc_message e))
      then Some PROVIDER_ERROR_SUBCLASS_CONNECTION else None)"

section \<open>The gateway of a model\<close>

record provider_route =
  pr_gateway :: string
  pr_provider :: string
  pr_route_model :: string
  pr_completion_model :: "string option"
  pr_credential_env :: "string option"
  pr_required_envs :: "string list"
  pr_api_key_env :: "string option"
  pr_base_url_env :: "string option"
  pr_base_url_default :: "string option"
  pr_headers :: "string dict"

text \<open>An environment variable that is set and not empty.\<close>

definition env_set :: "(string \<Rightarrow> string option) \<Rightarrow> string option \<Rightarrow> string option" where
  "env_set getenv name = (case name of
      Some (c # n) \<Rightarrow> (case getenv (c # n) of Some (d # v) \<Rightarrow> Some (d # v) | _ \<Rightarrow> None)
    | _ \<Rightarrow> None)"

definition completion_kwargs_of :: "(string \<Rightarrow> string option) \<Rightarrow> provider_route \<Rightarrow> json dict" where
  "completion_kwargs_of getenv route =
     (case env_set getenv (pr_base_url_env route) of
        Some u \<Rightarrow> [(''base_url'', JStr u)]
      | None \<Rightarrow> (case pr_base_url_default route of Some (c # u) \<Rightarrow> [(''base_url'', JStr (c # u))] | _ \<Rightarrow> []))
     @ (case env_set getenv (pr_api_key_env route) of Some k \<Rightarrow> [(''api_key'', JStr k)] | None \<Rightarrow> [])
     @ (if pr_headers route = [] then [] else [(''extra_headers'', JObj (map (map_prod id JStr) (pr_headers route)))])"

definition missing_envs :: "(string \<Rightarrow> string option) \<Rightarrow> provider_route \<Rightarrow> string list" where
  "missing_envs getenv route =
     (let envs = filter (\<lambda>e. e \<noteq> [])
            ((case pr_credential_env route of None \<Rightarrow> [] | Some e \<Rightarrow> [e]) @ pr_required_envs route)
      in filter (\<lambda>e. env_set getenv (Some e) = None) (rev (remdups (rev envs))))"

definition response_schema_profile :: "provider_route \<Rightarrow> string" where
  "response_schema_profile route =
     (if pr_gateway route = ''vercel_ai_gateway'' \<or> has_prefix ''google/'' (pr_route_model route)
          \<or> has_prefix ''gemini/'' (pr_route_model route)
      then ''gemini_compatible'' else ''strict'')"

definition before_slash :: "string \<Rightarrow> string" where
  "before_slash t = takeWhile (\<lambda>c. c \<noteq> CHR ''/'') t"

definition after_slash :: "string \<Rightarrow> string" where
  "after_slash t = tl (dropWhile (\<lambda>c. c \<noteq> CHR ''/'') t)"

definition provider_of :: "string \<Rightarrow> string" where
  "provider_of model = (if CHR ''/'' \<in> set model then before_slash model else ''unknown'')"

definition route_model_of :: "string \<Rightarrow> string" where
  "route_model_of model = (if CHR ''/'' \<in> set model then after_slash model else model)"

definition CREDENTIAL_ENVS :: "string dict" where
  "CREDENTIAL_ENVS = [(''openai'', ''OPENAI_API_KEY''), (''anthropic'', ''ANTHROPIC_API_KEY''),
     (''openrouter'', ''OPENROUTER_API_KEY''), (''google'', ''GEMINI_API_KEY''), (''gemini'', ''GEMINI_API_KEY''),
     (''litellm'', ''LITELLM_API_KEY''), (''groq'', ''GROQ_API_KEY''), (''together'', ''TOGETHER_API_KEY''),
     (''fireworks'', ''FIREWORKS_API_KEY''), (''fireworks_ai'', ''FIREWORKS_API_KEY''),
     (''deepinfra'', ''DEEPINFRA_API_KEY'')]"

definition provider_route_of :: "(string \<Rightarrow> string option) \<Rightarrow> string \<Rightarrow> provider_route" where
  "provider_route_of getenv model =
     (let provider = provider_of model; route_model = route_model_of model
      in if provider = ''litellm_proxy''
         then \<lparr>pr_gateway = ''litellm_proxy'', pr_provider = provider_of route_model, pr_route_model = route_model,
           pr_completion_model = Some (''openai/'' @ route_model), pr_credential_env = Some ''LITELLM_PROXY_API_KEY'',
           pr_required_envs = [''LITELLM_PROXY_API_BASE''], pr_api_key_env = Some ''LITELLM_PROXY_API_KEY'',
           pr_base_url_env = Some ''LITELLM_PROXY_API_BASE'', pr_base_url_default = None, pr_headers = []\<rparr>
         else if provider = ''vercel_ai_gateway''
         then \<lparr>pr_gateway = ''vercel_ai_gateway'', pr_provider = provider_of route_model, pr_route_model = route_model,
           pr_completion_model = None, pr_credential_env = Some ''VERCEL_AI_GATEWAY_API_KEY'', pr_required_envs = [],
           pr_api_key_env = Some ''VERCEL_AI_GATEWAY_API_KEY'', pr_base_url_env = Some ''VERCEL_AI_GATEWAY_API_BASE'',
           pr_base_url_default = Some ''https://ai-gateway.vercel.sh/v1'', pr_headers = []\<rparr>
         else if provider = ''portkey''
         then \<lparr>pr_gateway = ''portkey'', pr_provider = provider_of route_model, pr_route_model = route_model,
           pr_completion_model = None, pr_credential_env = Some ''PORTKEY_API_KEY'', pr_required_envs = [],
           pr_api_key_env = Some ''PORTKEY_API_KEY'', pr_base_url_env = Some ''PORTKEY_API_BASE'',
           pr_base_url_default = Some ''https://api.portkey.ai/v1'',
           pr_headers =
             (case env_set getenv (Some ''PORTKEY_VIRTUAL_KEY'') of
                Some v \<Rightarrow> [(''x-portkey-virtual-key'', v)] | None \<Rightarrow> [])
             @ (case env_set getenv (Some ''PORTKEY_CONFIG_ID'') of
                Some v \<Rightarrow> [(''x-portkey-config'', v)] | None \<Rightarrow> [])\<rparr>
         else \<lparr>pr_gateway = ''direct'', pr_provider = provider, pr_route_model = model, pr_completion_model = None,
           pr_credential_env = dict_get CREDENTIAL_ENVS provider, pr_required_envs = [],
           pr_api_key_env = dict_get CREDENTIAL_ENVS provider,
           pr_base_url_env = (if provider = ''openrouter'' then Some ''OPENROUTER_API_BASE'' else None),
           pr_base_url_default = None, pr_headers = []\<rparr>)"

definition attempt_base :: "string \<Rightarrow> provider_route \<Rightarrow> string option \<Rightarrow> json dict" where
  "attempt_base model route stage =
     [(''model'', JStr model), (''provider'', JStr (pr_provider route)), (''gateway'', JStr (pr_gateway route)),
      (''route_provider'', JStr (pr_provider route)), (''route_model'', JStr (pr_route_model route))]
     @ (let p = response_schema_profile route in if p = ''strict'' then [] else [(''schema_profile'', JStr p)])
     @ (case stage of Some (c # t) \<Rightarrow> [(''stage'', JStr (c # t))] | _ \<Rightarrow> [])"

section \<open>The models of a stage\<close>

text \<open>\<open>d[key]\<close>\<close>

definition item_of :: "json \<Rightarrow> string \<Rightarrow> py_error + json" where
  "item_of v k = (case v of
      JObj d \<Rightarrow> (case dict_get d k of None \<Rightarrow> Inl KeyError | Some w \<Rightarrow> Inr w)
    | _ \<Rightarrow> Inl TypeError)"

definition model_names :: "json list \<Rightarrow> string list" where
  "model_names xs = List.map_filter (\<lambda>v. case v of JStr (c # t) \<Rightarrow> Some (c # t) | _ \<Rightarrow> None) xs"

definition models_for_agent :: "json dict \<Rightarrow> string \<Rightarrow> string option \<Rightarrow> py_error + string list" where
  "models_for_agent registry agent model_override =
     (if model_override \<noteq> None \<and> model_override \<noteq> Some [] then Inr [or_str model_override []]
      else try_sum (item_of (JObj registry) ''agents'') (\<lambda>agents.
           try_sum (item_of agents agent) (\<lambda>config.
           try_sum (item_of config ''primary'') (\<lambda>primary.
           try_sum (elements_of (get_or (object_or_empty config) ''fallbacks'' (JList []))) (\<lambda>fallbacks.
             Inr (model_names (primary # fallbacks)))))))"

definition is_free_model :: "string \<Rightarrow> bool" where
  "is_free_model m \<longleftrightarrow> ends_with m '':free'' \<or> m = ''openrouter/openrouter/free''"

definition models_for_user_tier :: "json dict \<Rightarrow> string \<Rightarrow> string \<Rightarrow> py_error + string list" where
  "models_for_user_tier registry stage tier =
     (case jget registry ''model_tiers'' of
        JObj tiers \<Rightarrow>
          (case jget tiers tier of
             JObj tier_config \<Rightarrow>
               (case jget tier_config ''routes_by_stage'' of
                  JObj routes_by_stage \<Rightarrow>
                    try_sum (case jget routes_by_stage stage of
                        JStr m \<Rightarrow> Inr [m]
                      | JList ms \<Rightarrow> Inr (model_names ms)
                      | _ \<Rightarrow> Inl (ValueError (''model_tiers.'' @ tier @ ''.routes_by_stage.'' @ stage
                               @ '' must be a model string or list'')))
                    (\<lambda>models. let paid_models = filter (\<lambda>m. \<not> is_free_model m) models
                       in if tier = USER_TIER_FREE \<and> paid_models \<noteq> []
                          then Inl (ValueError (''free tier routes must use explicit OpenRouter free models: ''
                                 @ py_join '', '' paid_models))
                          else Inr models)
                | _ \<Rightarrow> Inl (ValueError (''model_tiers.'' @ tier @ ''.routes_by_stage must be a mapping'')))
           | _ \<Rightarrow> Inl (ValueError (''model_tiers.'' @ tier @ '' is missing from model registry'')))
      | _ \<Rightarrow> Inr [])"

definition tier_config_of :: "json dict \<Rightarrow> string \<Rightarrow> json dict" where
  "tier_config_of registry tier = object_or_empty (jget (object_or_empty (jget registry ''model_tiers'')) tier)"

definition max_repair_loops_for_tier :: "json dict \<Rightarrow> string \<Rightarrow> py_error + int" where
  "max_repair_loops_for_tier registry tier =
     (let tier_config = tier_config_of registry tier
      in if tier_config = [] then Inr MAX_REPAIR_LOOPS
         else int_of (get_or tier_config ''max_repair_loops'' (JInt MAX_REPAIR_LOOPS)))"

text \<open>The default of \<open>get\<close> is evaluated first, and so raises even when it is not used.\<close>

definition max_llm_repair_loops_for_tier :: "json dict \<Rightarrow> string \<Rightarrow> py_error + int" where
  "max_llm_repair_loops_for_tier registry tier =
     try_sum (max_repair_loops_for_tier registry tier) (\<lambda>n.
       int_of (get_or (tier_config_of registry tier) ''max_llm_repair_loops'' (JInt n)))"

definition max_post_repair_reviews_for_tier :: "json dict \<Rightarrow> string \<Rightarrow> py_error + int" where
  "max_post_repair_reviews_for_tier registry tier =
     try_sum (max_repair_loops_for_tier registry tier) (\<lambda>n.
       int_of (get_or (tier_config_of registry tier) ''max_post_repair_reviews'' (JInt n)))"

definition allow_deterministic_repair_after_budget :: "json dict \<Rightarrow> string \<Rightarrow> bool" where
  "allow_deterministic_repair_after_budget registry tier =
     json_truthy (get_or (tier_config_of registry tier) ''allow_deterministic_repair_after_budget'' (JBool True))"

definition key_of :: "string dict \<Rightarrow> string \<Rightarrow> py_error + string" where
  "key_of d k = (case dict_get d k of None \<Rightarrow> Inl KeyError | Some v \<Rightarrow> Inr v)"

text \<open>A model that is no text is refused where its route is looked up, with the same error.\<close>

definition models_for_stage ::
  "json dict \<Rightarrow> string \<Rightarrow> string dict \<Rightarrow> string \<Rightarrow> string \<Rightarrow> bool \<Rightarrow> py_error + string list" where
  "models_for_stage registry stage overrides cost_profile tier use_tier_routing =
     (case dict_get overrides stage of
        Some m \<Rightarrow> Inr [m]
      | None \<Rightarrow>
         try_sum (if use_tier_routing then models_for_user_tier registry stage tier else Inr []) (\<lambda>tier_models.
           if tier_models \<noteq> [] then Inr tier_models
           else if cost_profile = COST_PROFILE_CHEAP then
             try_sum (key_of CHEAP_STAGE_MODELS stage) (\<lambda>model_key.
             try_sum (item_of (JObj registry) ''provider_model_mappings'') (\<lambda>mappings.
             try_sum (item_of mappings ''openrouter'') (\<lambda>openrouter.
             try_sum (item_of openrouter ''cheap_quality'') (\<lambda>cheap.
             try_sum (item_of cheap model_key) (\<lambda>model_config. case model_config of
                 JList ms \<Rightarrow> Inr (model_names ms) | JStr m \<Rightarrow> Inr [m] | _ \<Rightarrow> Inl TypeError)))))
           else try_sum (key_of QUALITY_STAGE_AGENTS stage) (\<lambda>agent. models_for_agent registry agent None)))"

end
