(* ===== verification/Live_Calls.thy ===== *)
theory Live_Calls
  imports Live_Routes
begin

text \<open>
  Calling a model with retries and fallbacks (\<open>_call_model_with_fallbacks\<close> of \<open>live.py\<close>): every model in
  turn, up to \<open>max_retries + 1\<close> attempts each, until one answers with a payload that passes.

  The state is what the calls share and change: the list of attempts, the health of the routes, the cache
  of responses, the requests sent to providers (each with the model it is for) and the attribution events.  What is outside is an argument,
  given by the number of attempts recorded so far: the clocks, and \<open>_litellm_completion\<close> (the package
  \<open>litellm\<close> under a deadline).  So are the environment, the JSON library, the digest of a cache key, the
  regular expression for an address, and texts of times, floats and type errors.  An exception is named by
  the class that a handler catches it by, else by its own.  The copy of an attribution event that goes to
  the database (\<open>_persist_route_attempt\<close>) is left out: it changes nothing here.
\<close>

section \<open>What is outside\<close>

datatype moment = At_Skip | At_Record | At_Status | At_Check

datatype span = Provider_Ms | Parse_Ms | Validation_Ms | Scan_Ms | Total_Ms

text \<open>A response: a dictionary, or an object with its dictionary form and the content of its first choice.\<close>

datatype llm_response = Response_Dict "json dict" | Response_Object "json dict" "py_exc + json"

record live_env =
  lv_getenv :: "string \<Rightarrow> string option"
  lv_now :: "nat \<Rightarrow> moment \<Rightarrow> rat"
  lv_ms :: "nat \<Rightarrow> span \<Rightarrow> int"
  lv_started :: "nat \<Rightarrow> string"
  lv_completed :: "nat \<Rightarrow> string"
  lv_complete :: "nat \<Rightarrow> json dict \<Rightarrow> py_exc + llm_response \<times> string list"
  lv_loads :: "string \<Rightarrow> py_exc + json"
  lv_dumps :: "json \<Rightarrow> string"
  lv_cache_key :: "json dict \<Rightarrow> string"
  lv_strip_urls :: "string \<Rightarrow> string"
  lv_policy :: harness_env
  lv_float :: "string \<Rightarrow> rat option"
  lv_round3 :: "rat \<Rightarrow> rat"
  lv_iso :: "rat \<Rightarrow> string"
  lv_repr :: "json \<Rightarrow> string"
  lv_type_text :: "json \<Rightarrow> string"

record live_options =
  lo_overrides :: "string dict"
  lo_workflow :: string
  lo_cost_profile :: string
  lo_user_tier :: string
  lo_save_raw :: bool
  lo_use_tier_routing :: bool
  lo_user_id :: "string option"
  lo_workspace_id :: "string option"
  lo_case_id :: "string option"
  lo_response_cache :: string
  lo_prompt_profile :: string

record live_state =
  ls_attempts :: "json dict list"
  ls_health :: health_table
  ls_cache :: "json dict dict"
  ls_requests :: "(string \<times> json dict) list"
  ls_attributions :: "json dict list"

definition LLM_RESPONSE_CACHE_EVAL_DEV :: string where "LLM_RESPONSE_CACHE_EVAL_DEV = ''eval_dev''"

section \<open>Times and sizes\<close>

text \<open>\<open>round(r, 4)\<close>: to the nearest, and to the even one of two.\<close>

definition round_even :: "rat \<Rightarrow> int" where
  "round_even r = (let f = \<lfloor>r\<rfloor>; d = r - of_int f
     in if d < 1 / 2 then f else if d > 1 / 2 then f + 1 else if even f then f else f + 1)"

definition round4 :: "rat \<Rightarrow> rat" where
  "round4 r = of_int (round_even (r * 10000)) / 10000"

definition limit_ms :: "rat \<Rightarrow> int" where
  "limit_ms timeout = int_trunc (timeout * 1000)"

definition timeout_overrun :: "int \<Rightarrow> rat \<Rightarrow> bool" where
  "timeout_overrun duration_ms timeout \<longleftrightarrow> duration_ms > limit_ms timeout"

record attempt_progress =
  ap_provider_ms :: int
  ap_parse_ms :: int
  ap_validation_ms :: int
  ap_scan_ms :: int

definition no_progress :: attempt_progress where
  "no_progress = \<lparr>ap_provider_ms = 0, ap_parse_ms = 0, ap_validation_ms = 0, ap_scan_ms = 0\<rparr>"

definition timing_fields ::
  "string \<Rightarrow> string \<Rightarrow> int \<Rightarrow> rat \<Rightarrow> attempt_progress \<Rightarrow> int \<Rightarrow> int \<Rightarrow> int \<Rightarrow> json dict" where
  "timing_fields started_at completed_at duration_ms timeout p response_chars output_chars prompt_chars =
     [(''started_at'', JStr started_at), (''completed_at'', JStr completed_at), (''duration_ms'', JInt duration_ms),
      (''stage_total_ms'', JInt duration_ms), (''provider_call_ms'', JInt (ap_provider_ms p)),
      (''provider_call_ratio'', JFloat (if duration_ms > 0
          then round4 (of_int (ap_provider_ms p) / of_int duration_ms) else 0)),
      (''local_processing_ms'', JInt (ap_parse_ms p + ap_validation_ms p + ap_scan_ms p)),
      (''response_parse_ms'', JInt (ap_parse_ms p)), (''payload_validation_ms'', JInt (ap_validation_ms p)),
      (''policy_scan_ms'', JInt (ap_scan_ms p)), (''response_chars'', JInt response_chars),
      (''output_chars'', JInt output_chars),
      (''prompt_to_output_ratio'', if output_chars > 0
          then JFloat (round4 (of_int prompt_chars / of_int output_chars)) else JNull),
      (''request_timeout_seconds'', JFloat timeout),
      (''timeout_overrun'', JBool (timeout_overrun duration_ms timeout))]"

text \<open>The order of the keys does not change how long the text is.\<close>

definition json_size :: "live_env \<Rightarrow> json \<Rightarrow> int" where
  "json_size env v = int (length (lv_dumps env v))"

definition message_chars :: "chat_messages \<Rightarrow> int" where
  "message_chars ms = sum_list (map (\<lambda>m. int (length (snd m))) ms)"

definition output_chars_of :: "live_env \<Rightarrow> json dict \<Rightarrow> int" where
  "output_chars_of env payload = (case jget payload ''output'' of JObj d \<Rightarrow> json_size env (JObj d) | _ \<Rightarrow> 0)"

definition CACHE_KEYS :: "string list" where
  "CACHE_KEYS = [''cache_hit'', ''cache_layer'', ''cache_key_hash'', ''cache_saved_ms'', ''cache_ttl_seconds'',
     ''cache_bypass_reason'', ''retrieval_cache_status'', ''embedding_cache_status'']"

definition context_size_fields :: "live_env \<Rightarrow> json dict \<Rightarrow> chat_messages \<Rightarrow> json dict" where
  "context_size_fields env packet ms =
     (let knowledge = jget packet ''knowledge_context'';
          chars_of = (\<lambda>role. message_chars (filter (\<lambda>m. fst m = role) ms))
      in [(''prompt_chars'', JInt (int (length (py_str (lv_repr env) (json_or (jget packet ''original_prompt'') (JStr []))))))
         , (''system_prompt_chars'', JInt (chars_of ''system'')), (''user_context_chars'', JInt (chars_of ''user'')),
          (''knowledge_context_chars'', JInt (if json_truthy knowledge then json_size env knowledge else 0)),
          (''stage_input_chars'', JInt (message_chars ms))]
         @ (case knowledge of JObj d \<Rightarrow> List.map_filter (\<lambda>k. map_option (Pair k) (dict_get d k)) CACHE_KEYS | _ \<Rightarrow> []))"

section \<open>Responses\<close>

definition response_to_dict :: "llm_response \<Rightarrow> json dict" where
  "response_to_dict r = (case r of Response_Dict d \<Rightarrow> d | Response_Object d c \<Rightarrow> d)"

definition quoted :: "string \<Rightarrow> string" where
  "quoted t = [CHR 0x27] @ t @ [CHR 0x27]"

definition subscript :: "live_env \<Rightarrow> json \<Rightarrow> string \<Rightarrow> py_exc + json" where
  "subscript env v k = (case v of
      JObj d \<Rightarrow> (case dict_get d k of None \<Rightarrow> Inl (exc ''KeyError'' (quoted k)) | Some w \<Rightarrow> Inr w)
    | _ \<Rightarrow> Inl (exc ''TypeError'' (lv_type_text env v)))"

definition first_item :: "live_env \<Rightarrow> json \<Rightarrow> py_exc + json" where
  "first_item env v = (case v of
      JList (x # xs) \<Rightarrow> Inr x
    | JList [] \<Rightarrow> Inl (exc ''IndexError'' ''list index out of range'')
    | JStr (c # t) \<Rightarrow> Inr (JStr [c])
    | JStr [] \<Rightarrow> Inl (exc ''IndexError'' ''string index out of range'')
    | JObj d \<Rightarrow> Inl (exc ''KeyError'' ''0'')
    | _ \<Rightarrow> Inl (exc ''TypeError'' (lv_type_text env v)))"

definition content_of_response :: "live_env \<Rightarrow> llm_response \<Rightarrow> py_exc + json" where
  "content_of_response env r = (case r of
      Response_Object d c \<Rightarrow> c
    | Response_Dict d \<Rightarrow> try_sum (subscript env (JObj d) ''choices'') (\<lambda>choices.
        try_sum (first_item env choices) (\<lambda>choice.
        try_sum (subscript env choice ''message'') (\<lambda>message. subscript env message ''content''))))"

definition response_error :: "string \<Rightarrow> py_exc" where
  "response_error t = exc ''LiveResponseError'' t"

definition schema_error :: "string \<Rightarrow> py_exc" where
  "schema_error t = exc ''LiveResponseSchemaError'' t"

definition payload_from_response :: "live_env \<Rightarrow> llm_response \<Rightarrow> py_exc + json dict" where
  "payload_from_response env r =
     try_sum (content_of_response env r) (\<lambda>content.
     try_sum (case content of JStr t \<Rightarrow> lv_loads env t | _ \<Rightarrow> Inl (exc ''TypeError'' (lv_type_text env content))) (\<lambda>payload.
       case payload of JObj d \<Rightarrow> Inr d | _ \<Rightarrow> Inl (response_error ''Provider response must be a JSON object.'')))"

definition usage_from_response :: "json dict \<Rightarrow> json dict" where
  "usage_from_response raw = object_or_empty (jget raw ''usage'')"

text \<open>\<open>value not in (None, "", {}, [])\<close>\<close>

definition nonblank :: "json \<Rightarrow> bool" where
  "nonblank v \<longleftrightarrow> v \<notin> {JNull, JStr [], JObj [], JList []}"

definition nonblank_entry :: "string \<Rightarrow> string \<Rightarrow> json dict \<Rightarrow> json dict" where
  "nonblank_entry name k d = (if nonblank (jget d k) then [(name, jget d k)] else [])"

definition HEADER_MAP :: "string dict" where
  "HEADER_MAP = [(''x-litellm-response-duration-ms'', ''litellm.response_duration_ms''),
     (''x-litellm-overhead-duration-ms'', ''litellm.overhead_duration_ms''),
     (''x-litellm-callback-duration-ms'', ''litellm.callback_duration_ms''),
     (''x-litellm-attempted-retries'', ''litellm.attempted_retries''),
     (''x-litellm-attempted-fallbacks'', ''litellm.attempted_fallbacks'')]"

definition header_entry :: "json dict \<Rightarrow> string \<times> string \<Rightarrow> json dict" where
  "header_entry headers hm =
     (let v = json_or (jget headers (''llm_provider-'' @ fst hm)) (jget headers (fst hm))
      in if nonblank v then [(snd hm, v)] else [])"

definition proxy_metadata_from_response :: "json dict \<Rightarrow> json dict" where
  "proxy_metadata_from_response raw =
     (let top = concat (map (\<lambda>k. nonblank_entry (''litellm.'' @ k) k raw)
            [''model'', ''provider'', ''litellm_metadata'', ''_response_ms'', ''litellm_overhead_time_ms'', ''callback_duration_ms'']);
          hidden = (case jget raw ''_hidden_params'' of
              JObj h \<Rightarrow>
                (let safe = concat (map (\<lambda>k. nonblank_entry k k h)
                       [''custom_llm_provider'', ''model_id'', ''model_group'', ''deployment'', ''api_base''])
                 in (case jget h ''additional_headers'' of
                       JObj hs \<Rightarrow> concat (map (header_entry hs) HEADER_MAP) | _ \<Rightarrow> [])
                    @ (if safe = [] then [] else [(''litellm.hidden_params'', JObj safe)]))
            | _ \<Rightarrow> []);
          usage = usage_from_response raw;
          costs = concat (map (\<lambda>k. case dict_get raw k of Some v \<Rightarrow> [(''litellm.'' @ k, v)]
              | None \<Rightarrow> (case dict_get usage k of Some v \<Rightarrow> [(''litellm.'' @ k, v)] | None \<Rightarrow> []))
            [''cost'', ''response_cost'', ''prompt_tokens'', ''completion_tokens'', ''total_tokens''])
      in dict_merge (dict_merge top hidden) costs)"

section \<open>The text the policy sees\<close>

definition has_http :: "string \<Rightarrow> bool" where
  "has_http t \<longleftrightarrow> has_prefix ''http://'' t \<or> has_prefix ''https://'' t"

definition first_text :: "live_env \<Rightarrow> json dict \<Rightarrow> string list \<Rightarrow> string \<Rightarrow> string" where
  "first_text env d ks dflt = py_strip (py_str (lv_repr env) (foldr (\<lambda>k v. json_or (jget d k) v) ks (JStr dflt)))"

definition citation_from_any :: "live_env \<Rightarrow> json \<Rightarrow> string dict option" where
  "citation_from_any env item = (case item of
      JObj d \<Rightarrow>
        (let url = first_text env d [''url'', ''source_uri'', ''uri''] []
         in if has_http url
            then Some [(''title'', first_n 160 (first_text env d [''title'', ''name''] url)), (''url'', url),
                (''snippet'', first_n 280 (first_text env d [''snippet'', ''content'', ''text''] []))]
            else None)
    | _ \<Rightarrow> None)"

definition cite :: "string dict \<Rightarrow> string \<Rightarrow> string" where
  "cite c k = (case dict_get c k of None \<Rightarrow> [] | Some t \<Rightarrow> t)"

fun merge_citations :: "live_env \<Rightarrow> string dict list \<Rightarrow> json list \<Rightarrow> string dict list" where
  "merge_citations env citations [] = citations"
| "merge_citations env citations (item # items) =
     (case citation_from_any env item of
        None \<Rightarrow> merge_citations env citations items
      | Some c \<Rightarrow>
          if py_lower (cite c ''url'') \<in> set (map (\<lambda>x. py_lower (cite x ''url'')) citations)
          then merge_citations env citations items
          else if length citations + 1 \<ge> 8 then citations @ [c]
          else merge_citations env (citations @ [c]) items)"

definition merge_market_research_citations :: "live_env \<Rightarrow> json list \<Rightarrow> string dict list" where
  "merge_market_research_citations env groups =
     merge_citations env [] (concat (map (\<lambda>g. case g of JList xs \<Rightarrow> xs | _ \<Rightarrow> []) groups))"

definition market_research_output :: "json dict \<Rightarrow> json dict option" where
  "market_research_output payload =
     (case jget payload ''output'' of
        JObj d \<Rightarrow> if jget payload ''stage'' = JStr STAGE_MARKET_RESEARCH then Some d
          else (case (jget payload ''research_summary'', jget payload ''citations'') of
                  (JStr _, JList _) \<Rightarrow> Some payload | _ \<Rightarrow> None)
      | _ \<Rightarrow> (case (jget payload ''research_summary'', jget payload ''citations'') of
                (JStr _, JList _) \<Rightarrow> Some payload | _ \<Rightarrow> None))"

definition policy_scan_payload :: "live_env \<Rightarrow> string option \<Rightarrow> json dict \<Rightarrow> json dict" where
  "policy_scan_payload env stage payload =
     (if stage \<noteq> Some STAGE_MARKET_RESEARCH then payload
      else let output = (case market_research_output payload of Some d \<Rightarrow> if d = [] then payload else d | None \<Rightarrow> payload);
               citations = merge_market_research_citations env [get_or output ''citations'' (JList [])]
           in [(''research_summary'', JStr (lv_strip_urls env
                   (py_str (lv_repr env) (json_or (jget output ''research_summary'') (JStr []))))),
               (''warnings'', JList (case jget output ''warnings'' of
                   JList xs \<Rightarrow> map (\<lambda>x. JStr (lv_strip_urls env (py_str (lv_repr env) x)))
                     (filter (\<lambda>x. py_strip (py_str (lv_repr env) x) \<noteq> []) xs)
                 | _ \<Rightarrow> [])),
               (''citation_text'', JList (map (\<lambda>c. JObj
                   [(''title'', JStr (lv_strip_urls env (cite c ''title''))),
                    (''snippet'', JStr (lv_strip_urls env (cite c ''snippet'')))]) citations))])"

section \<open>The request\<close>

lemma jget_smaller: "jget d k = JObj e \<Longrightarrow> (k', v) \<in> set e \<Longrightarrow> size v < size_list (size_prod (\<lambda>_. 0) size) d"
proof -
  assume "jget d k = JObj e" "(k', v) \<in> set e"
  then have "(k, JObj e) \<in> set d" by (auto simp: jget_def dest: dict_get_in split: option.splits)
  then have "size (JObj e) \<le> size_list (size_prod (\<lambda>_. 0) size) d" by (force intro: size_list_estimation')
  moreover from \<open>(k', v) \<in> set e\<close> have "size v \<le> size_list (size_prod (\<lambda>_. 0) size) e"
    by (force intro: size_list_estimation')
  ultimately show ?thesis by simp
qed

lemma jget_item_smaller: "jget d k = JObj e \<Longrightarrow> size_list (size_prod (\<lambda>_. 0) size) e < size_list (size_prod (\<lambda>_. 0) size) d"
proof -
  assume "jget d k = JObj e"
  then have "(k, JObj e) \<in> set d" by (auto simp: jget_def dest: dict_get_in split: option.splits)
  then have "size (JObj e) \<le> size_list (size_prod (\<lambda>_. 0) size) d" by (force intro: size_list_estimation')
  then show ?thesis by simp
qed

definition without_unions :: "json dict \<Rightarrow> json dict" where
  "without_unions d = (let d = foldl (\<lambda>d k. dict_pop k d) d [''default'', ''anyOf'', ''oneOf'', ''allOf''];
       d = (case jget d ''type'' of
              JList ts \<Rightarrow> dict_set ''type''
                (case filter (\<lambda>t. t \<noteq> JStr ''null'') ts of [] \<Rightarrow> JStr ''string'' | t # _ \<Rightarrow> t) d
            | _ \<Rightarrow> d)
     in case jget d ''enum'' of JList xs \<Rightarrow> dict_set ''enum'' (JList (filter (\<lambda>x. x \<noteq> JNull) xs)) d | _ \<Rightarrow> d)"

function gemini_compatible_schema_node :: "json dict \<Rightarrow> json dict" where
  "gemini_compatible_schema_node d =
     (let node = without_unions d in
      if jget node ''type'' = JStr ''object'' then
        (case jget d ''properties'' of
           JObj props \<Rightarrow>
             (let kept = concat (map (\<lambda>(k, v). case v of JObj e \<Rightarrow> [(k, JObj (gemini_compatible_schema_node e))] | _ \<Rightarrow> []) props);
                  node = dict_set ''properties'' (JObj kept) node;
                  node = (case get_or node ''required'' (JList []) of
                      JList ks \<Rightarrow> dict_set ''required''
                        (JList (filter (\<lambda>k. case k of JStr t \<Rightarrow> t \<in> set (map fst kept) | _ \<Rightarrow> False) ks)) node
                    | _ \<Rightarrow> node)
              in dict_set ''additionalProperties'' (JBool False) node)
         | _ \<Rightarrow> node)
      else if jget node ''type'' = JStr ''array'' then
        (case jget d ''items'' of
           JObj e \<Rightarrow> dict_set ''items'' (JObj (gemini_compatible_schema_node e)) node
         | _ \<Rightarrow> dict_set ''items'' (JObj [(''type'', JStr ''string'')]) node)
      else node)"
  by pat_completeness auto
termination
proof (relation "measure (\<lambda>d. size_list (size_prod (\<lambda>_. 0) size) d)", goal_cases)
  case 1
  show ?case by simp
next
  case (2 d node props kv k v e)
  then have "size (JObj e) < size_list (size_prod (\<lambda>_. 0) size) d"
    by (intro jget_smaller [of d _ props]) auto
  then show ?case by simp
next
  case (3 d node e)
  then show ?case by (simp add: jget_item_smaller)
qed

definition gemini_compatible_response_format :: "json dict \<Rightarrow> py_error + json dict" where
  "gemini_compatible_response_format response_format =
     (case get_or response_format ''json_schema'' (JObj []) of
        JObj js \<Rightarrow> (case jget js ''schema'' of
            JObj s \<Rightarrow> Inr (dict_set ''json_schema'' (JObj (dict_set ''schema_profile'' (JStr ''gemini_compatible'')
              (dict_set ''schema'' (JObj (gemini_compatible_schema_node s)) js))) response_format)
          | _ \<Rightarrow> Inr response_format)
      | _ \<Rightarrow> Inl AttributeError)"

definition response_format_for_route :: "json dict \<Rightarrow> provider_route \<Rightarrow> py_error + json dict" where
  "response_format_for_route response_format route =
     (if response_schema_profile route \<noteq> ''gemini_compatible'' then Inr response_format
      else gemini_compatible_response_format response_format)"

definition messages_json :: "chat_messages \<Rightarrow> json" where
  "messages_json ms = JList (map (\<lambda>(role, content). JObj [(''role'', JStr role), (''content'', JStr content)]) ms)"

definition completion_kwargs ::
  "live_env \<Rightarrow> provider_route \<Rightarrow> chat_messages \<Rightarrow> rat \<Rightarrow> rat \<Rightarrow> json dict \<Rightarrow> json dict \<Rightarrow> bool \<Rightarrow> json dict" where
  "completion_kwargs env route ms temperature timeout response_format metadata web_search =
     dict_merge
       [(''model'', JStr (or_str (pr_completion_model route) (pr_route_model route))),
        (''messages'', messages_json ms), (''temperature'', JFloat temperature), (''timeout'', JFloat timeout),
        (''response_format'', JObj response_format)]
       (completion_kwargs_of (lv_getenv env) route)
     @ (if web_search then [(''tools'', JList [JObj [(''type'', JStr ''openrouter:web_search''),
            (''parameters'', JObj [(''max_results'', JInt 3)])]])] else [])
     @ (if metadata = [] then [] else [(''metadata'', JObj metadata)])"

definition llm_response_cache_key ::
  "live_env \<Rightarrow> string \<Rightarrow> provider_route \<Rightarrow> chat_messages \<Rightarrow> json dict \<Rightarrow> string option \<Rightarrow> string \<Rightarrow> bool \<Rightarrow> string" where
  "llm_response_cache_key env model route ms response_format stage policy web_search =
     lv_cache_key env
       [(''model'', JStr model), (''route_model'', JStr (pr_route_model route)), (''gateway'', JStr (pr_gateway route)),
        (''stage'', jstr stage), (''policy'', JStr policy), (''messages'', messages_json ms),
        (''response_format'', JObj response_format), (''web_search'', JBool web_search)]"

definition caching :: "live_options option \<Rightarrow> bool" where
  "caching opts \<longleftrightarrow> (case opts of None \<Rightarrow> False | Some lo \<Rightarrow> lo_response_cache lo = LLM_RESPONSE_CACHE_EVAL_DEV)"

definition load_llm_response_cache :: "live_options option \<Rightarrow> string \<Rightarrow> live_state \<Rightarrow> json dict option" where
  "load_llm_response_cache opts key st = (if caching opts then dict_get (ls_cache st) key else None)"

definition store_llm_response_cache :: "live_options option \<Rightarrow> string \<Rightarrow> json dict \<Rightarrow> live_state \<Rightarrow> live_state" where
  "store_llm_response_cache opts key raw st =
     (if caching opts then st\<lparr>ls_cache := dict_set key raw (ls_cache st)\<rparr> else st)"

definition text_entry :: "string \<Rightarrow> string option \<Rightarrow> json dict" where
  "text_entry k v = (case v of Some (c # t) \<Rightarrow> [(k, JStr (c # t))] | _ \<Rightarrow> [])"

definition litellm_proxy_metadata ::
  "provider_route \<Rightarrow> live_options option \<Rightarrow> string option \<Rightarrow> string option \<Rightarrow> json dict" where
  "litellm_proxy_metadata route opts stage run_id =
     (if pr_gateway route \<noteq> ''litellm_proxy'' then []
      else [(''strategy_codebot.gateway'', JStr (pr_gateway route)),
            (''strategy_codebot.route_model'', JStr (pr_route_model route))]
        @ text_entry ''strategy_codebot.stage'' stage @ text_entry ''strategy_codebot.run_id'' run_id
        @ (case opts of None \<Rightarrow> [] | Some lo \<Rightarrow>
            [(''strategy_codebot.workflow'', JStr (lo_workflow lo)), (''strategy_codebot.user_tier'', JStr (lo_user_tier lo))]
            @ text_entry ''strategy_codebot.case_id'' (lo_case_id lo)
            @ text_entry ''strategy_codebot.user_id'' (lo_user_id lo)
            @ text_entry ''strategy_codebot.workspace_id'' (lo_workspace_id lo)))"

definition malformed_recovery_messages :: "chat_messages \<Rightarrow> string option \<Rightarrow> string \<Rightarrow> chat_messages" where
  "malformed_recovery_messages ms stage error =
     ms @ [(''user'',
       ''The previous provider response''
       @ (case stage of Some (c # t) \<Rightarrow> '' for stage `'' @ (c # t) @ ''`'' | _ \<Rightarrow> [])
       @ '' was rejected before use: '' @ first_n 500 error @ [CHR 0x0A]
       @ (if stage = Some STAGE_STRATEGY_CODING \<and> has_sub ''full-capital position sizing'' error
          then ''For strategy_coding, repair strategy_spec.position_sizing and risk_rules to use fixed units, ''
            @ ''1-2% account equity risk per trade, or another explicitly bounded small-risk model. ''
            @ ''Do not use 100% equity, full balance, entire account, all available capital, or all-in sizing. ''
          else [])
       @ ''Retry with strict JSON only. Do not include markdown, prose, comments, or extra keys. ''
       @ ''Return exactly one JSON object matching the provided response_format schema.'')]"

section \<open>Attribution events\<close>

fun split_dots :: "string \<Rightarrow> string \<Rightarrow> string list" where
  "split_dots acc [] = [rev acc]"
| "split_dots acc (c # t) = (if c = CHR ''.'' then rev acc # split_dots [] t else split_dots (c # acc) t)"

fun follow_path :: "json \<Rightarrow> string list \<Rightarrow> json" where
  "follow_path v [] = v"
| "follow_path v (p # ps) = (case v of JObj d \<Rightarrow> follow_path (jget d p) ps | _ \<Rightarrow> JNull)"

text \<open>The longest prefix of a dotted key that is a key itself, from \<open>i\<close> parts down.\<close>

fun longest_prefix :: "json dict \<Rightarrow> string list \<Rightarrow> nat \<Rightarrow> json \<times> string list" where
  "longest_prefix d parts 0 = (JObj d, parts)"
| "longest_prefix d parts (Suc i) =
     (case dict_get d (py_join ''.'' (take (Suc i) parts)) of
        Some v \<Rightarrow> (v, drop (Suc i) parts) | None \<Rightarrow> longest_prefix d parts i)"

fun proxy_metadata_value :: "json dict \<Rightarrow> string list \<Rightarrow> json" where
  "proxy_metadata_value d [] = JNull"
| "proxy_metadata_value d (key # keys) =
     (if nonblank (jget d key) then jget d key
      else let parts = split_dots [] key; (v, rest) = longest_prefix d parts (length parts);
               found = follow_path v rest
           in if nonblank found then found else proxy_metadata_value d keys)"

definition proxy_float :: "live_env \<Rightarrow> json dict \<Rightarrow> string list \<Rightarrow> json" where
  "proxy_float env d keys = (let v = proxy_metadata_value d keys
     in if v = JNull then JNull
        else case float_of (lv_float env) v of Inl e \<Rightarrow> JNull | Inr r \<Rightarrow> JFloat (lv_round3 env r))"

definition proxy_int :: "json dict \<Rightarrow> string list \<Rightarrow> json" where
  "proxy_int d keys = (let v = proxy_metadata_value d keys
     in if v = JNull then JNull else case int_of v of Inl e \<Rightarrow> JNull | Inr i \<Rightarrow> JInt i)"

definition proxy_timing_fields :: "live_env \<Rightarrow> json dict \<Rightarrow> json dict" where
  "proxy_timing_fields env event =
     (let d = object_or_empty (jget event ''proxy_metadata'')
      in [(''resolved_provider'', proxy_metadata_value d [''litellm.provider'', ''litellm.hidden_params.custom_llm_provider'']),
          (''upstream_provider_ms'', proxy_float env d [''litellm.response_duration_ms'', ''litellm._response_ms'']),
          (''litellm_overhead_ms'', proxy_float env d [''litellm.overhead_duration_ms'', ''litellm.litellm_overhead_time_ms'']),
          (''callback_duration_ms'', proxy_float env d [''litellm.callback_duration_ms'']),
          (''attempted_retries'', proxy_int d [''litellm.attempted_retries'']),
          (''attempted_fallbacks'', proxy_int d [''litellm.attempted_fallbacks''])])"

definition same_keys :: "string list \<Rightarrow> json dict \<Rightarrow> json dict" where
  "same_keys ks d = map (\<lambda>k. (k, jget d k)) ks"

definition proxy_attribution_event_payload :: "live_env \<Rightarrow> live_options option \<Rightarrow> json dict \<Rightarrow> json dict option" where
  "proxy_attribution_event_payload env opts event =
     (let model = py_str (lv_repr env) (json_or (jget event ''model'') (JStr []));
          gateway = jget event ''gateway'';
          proxied = has_prefix ''litellm_proxy/'' model
      in if gateway \<noteq> JStr ''litellm_proxy'' \<and> \<not> proxied then None
         else Some (filter (\<lambda>kv. snd kv \<noteq> JNull)
           ([(''event_type'', JStr ''proxy.attribution''), (''run_id'', jget event ''run_id''),
             (''case_id'', case opts of None \<Rightarrow> JNull | Some lo \<Rightarrow> jstr (lo_case_id lo)), (''stage'', jget event ''stage''),
             (''route_model'', json_or (jget event ''route_model'') (if proxied then JStr (after_slash model) else JNull)),
             (''model'', JStr model), (''gateway'', json_or gateway (JStr ''litellm_proxy''))]
            @ same_keys [''prompt_profile'', ''started_at'', ''completed_at'', ''provider_call_ms''] event
            @ [(''stage_total_ms'', json_or (jget event ''stage_total_ms'')
                (json_or (jget event ''duration_ms'') (jget event ''latency_ms'')))]
            @ same_keys [''provider_call_ratio'', ''local_processing_ms'', ''system_prompt_chars'', ''user_context_chars'',
                ''stage_input_chars'', ''output_chars'', ''status'', ''failure_class'', ''provider_error_subclass'',
                ''timeout_enforced_by'', ''timeout_overrun'', ''fallback_used'', ''fallback_from''] event
            @ proxy_timing_fields env event)))"

text \<open>An event goes to the table of route health and to the attribution file.\<close>

definition append_proxy_attribution_event ::
  "live_env \<Rightarrow> live_options option \<Rightarrow> json dict \<Rightarrow> live_state \<Rightarrow> live_state" where
  "append_proxy_attribution_event env opts event st =
     (case proxy_attribution_event_payload env opts event of
        None \<Rightarrow> st | Some p \<Rightarrow> st\<lparr>ls_attributions := ls_attributions st @ [p]\<rparr>)"

section \<open>One attempt\<close>

record call_args =
  ca_models :: "string list"
  ca_messages :: chat_messages
  ca_format :: "json dict"
  ca_policy :: string
  ca_validator :: "json dict \<Rightarrow> py_exc + json dict"
  ca_stage :: "string option"
  ca_options :: "live_options option"
  ca_run_id :: "string option"
  ca_metrics :: "json dict"
  ca_web_search :: bool

record call_context =
  cc_env :: live_env
  cc_args :: call_args
  cc_route_policy :: stage_route_policy
  cc_temperature :: rat

record provider_call_result =
  pc_payload :: "json dict"
  pc_raw :: "json dict"
  pc_usage :: "json dict"
  pc_model :: string
  pc_provider :: string
  pc_latency_ms :: int
  pc_findings :: "string dict list"
  pc_warnings :: "string list"
  pc_metadata :: "json dict"
  pc_timing :: "json dict"

text \<open>What an attempt knows once the payload has passed its validator.\<close>

record provider_answer =
  an_payload :: "json dict"
  an_raw :: "json dict"
  an_warnings :: "string list"
  an_metadata :: "json dict"
  an_findings :: "string dict list"
  an_prompt_chars :: int
  an_progress :: attempt_progress

datatype attempt_outcome =
    Answered provider_call_result
  | Blocked py_exc
  | Retry_With chat_messages bool
  | Next_Model

definition request_timeout_of :: "call_context \<Rightarrow> rat" where
  "request_timeout_of cx = sp_request_timeout (cc_route_policy cx)"

definition route_of :: "call_context \<Rightarrow> string \<Rightarrow> provider_route" where
  "route_of cx model = provider_route_of (lv_getenv (cc_env cx)) model"

definition health_of :: "call_context \<Rightarrow> string \<Rightarrow> live_state \<Rightarrow> route_health \<times> health_table" where
  "health_of cx model st = route_health_state (ls_health st) (ca_stage (cc_args cx)) model
     (pr_provider (route_of cx model)) (pr_gateway (route_of cx model))"

definition update_health :: "call_context \<Rightarrow> string \<Rightarrow> (route_health \<Rightarrow> route_health) \<Rightarrow> live_state \<Rightarrow> live_state" where
  "update_health cx model f st =
     (let (h, table) = health_of cx model st
      in st\<lparr>ls_health := AList.update (route_health_key (ca_stage (cc_args cx)) model) (f h) table\<rparr>)"

definition status_fields_now :: "call_context \<Rightarrow> string \<Rightarrow> nat \<Rightarrow> live_state \<Rightarrow> json dict" where
  "status_fields_now cx model n st =
     route_status_fields (lv_iso (cc_env cx)) (lv_now (cc_env cx) n At_Status) (fst (health_of cx model st))"

definition record_failure :: "call_context \<Rightarrow> string \<Rightarrow> nat \<Rightarrow> string \<Rightarrow> string \<Rightarrow> live_state \<Rightarrow> live_state" where
  "record_failure cx model n failure_class error st =
     update_health cx model (record_route_failure (cc_route_policy cx) (lv_now (cc_env cx) n At_Record) failure_class error) st"

definition in_cooldown :: "call_context \<Rightarrow> string \<Rightarrow> nat \<Rightarrow> live_state \<Rightarrow> bool" where
  "in_cooldown cx model n st = cooling (fst (health_of cx model st)) (lv_now (cc_env cx) n At_Check)"

definition base_of :: "call_context \<Rightarrow> string \<Rightarrow> json dict" where
  "base_of cx model =
     (let args = cc_args cx;
          base = dict_merge (attempt_base model (route_of cx model) (ca_stage args))
            ((''stage_timeout_seconds'', JFloat (request_timeout_of cx)) # ca_metrics args)
      in case ca_models args of
           (c # p) # ms \<Rightarrow> if model \<noteq> c # p
             then dict_merge base [(''fallback_used'', JBool True), (''fallback_from'', JStr (c # p))] else base
         | _ \<Rightarrow> base)"

definition finding_json :: "string dict \<Rightarrow> json" where
  "finding_json f = JObj (map (map_prod id JStr) f)"

definition texts_json :: "string list \<Rightarrow> json" where
  "texts_json ts = JList (map JStr ts)"

definition with_event :: "call_context \<Rightarrow> json dict \<Rightarrow> live_state \<Rightarrow> live_state" where
  "with_event cx record st = append_proxy_attribution_event (cc_env cx) (ca_options (cc_args cx))
     (dict_merge record [(''run_id'', jstr (ca_run_id (cc_args cx)))]) st"

definition with_attempt :: "json dict \<Rightarrow> live_state \<Rightarrow> live_state" where
  "with_attempt record st = st\<lparr>ls_attempts := ls_attempts st @ [record]\<rparr>"

text \<open>The response of the cache or of the provider; an exception comes with the times taken so far.\<close>

definition obtain_response ::
  "call_context \<Rightarrow> string \<Rightarrow> chat_messages \<Rightarrow> int \<Rightarrow> live_state
   \<Rightarrow> (py_exc \<times> attempt_progress + (llm_response \<times> string list \<times> json dict \<times> string \<times> bool) \<times> attempt_progress) \<times> live_state"
where
  "obtain_response cx model ms attempt_number st =
     (let env = cc_env cx; args = cc_args cx; route = route_of cx model; n = length (ls_attempts st);
          metadata = litellm_proxy_metadata route (ca_options args) (ca_stage args) (ca_run_id args)
      in case response_format_for_route (ca_format args) route of
           Inl e \<Rightarrow> (Inl (exc_of e, no_progress), st)
         | Inr format \<Rightarrow>
            (let key = llm_response_cache_key env model route ms format (ca_stage args) (ca_policy args) (ca_web_search args)
             in case load_llm_response_cache (ca_options args) key st of
                  Some raw \<Rightarrow> (Inr ((Response_Dict raw, [''llm_response_cache_hit''],
                     dict_merge metadata [(''strategy_codebot.llm_response_cache'', JStr ''hit''),
                       (''strategy_codebot.llm_response_cache_key'', JStr key)], key, True), no_progress), st)
                | None \<Rightarrow>
                   (let st = with_event cx (dict_merge (base_of cx model) [(''attempt'', JInt attempt_number),
                             (''status'', JStr STATUS_STARTED), (''started_at'', JStr (lv_started env n))]) st;
                        kwargs = completion_kwargs env route ms (cc_temperature cx) (request_timeout_of cx) format metadata
                          (ca_web_search args);
                        st = st\<lparr>ls_requests := ls_requests st @ [(model, kwargs)]\<rparr>
                    in case lv_complete env n kwargs of
                         Inl e \<Rightarrow> (Inl (e, no_progress), st)
                       | Inr (response, warnings) \<Rightarrow>
                          (Inr ((response, warnings, metadata, key, False),
                             no_progress\<lparr>ap_provider_ms := lv_ms env n Provider_Ms\<rparr>), st))))"

definition attempt_body ::
  "call_context \<Rightarrow> string \<Rightarrow> chat_messages \<Rightarrow> int \<Rightarrow> live_state
   \<Rightarrow> (py_exc \<times> attempt_progress + provider_answer) \<times> live_state"
where
  "attempt_body cx model ms attempt_number st =
     (let env = cc_env cx; args = cc_args cx; n = length (ls_attempts st)
      in case obtain_response cx model ms attempt_number st of
           (Inl e, st) \<Rightarrow> (Inl e, st)
         | (Inr ((response, warnings, metadata, key, cached), p), st) \<Rightarrow>
            (let raw = response_to_dict response;
                 st = (if cached then st else store_llm_response_cache (ca_options args) key raw st);
                 metadata = dict_merge metadata (proxy_metadata_from_response raw)
             in case payload_from_response env response of
                  Inl e \<Rightarrow> (Inl (e, p), st)
                | Inr payload \<Rightarrow>
                   (let p = p\<lparr>ap_parse_ms := lv_ms env n Parse_Ms\<rparr>
                    in case ca_validator args payload of
                         Inl e \<Rightarrow> (Inl (e, p), st)
                       | Inr payload \<Rightarrow>
                          (let p = p\<lparr>ap_validation_ms := lv_ms env n Validation_Ms, ap_scan_ms := lv_ms env n Scan_Ms\<rparr>
                           in case int_of (json_or (jget (ca_metrics args) ''stage_input_chars'') (JInt 0)) of
                                Inl e \<Rightarrow> (Inl (exc_of e, p), st)
                              | Inr prompt_chars \<Rightarrow>
                                 (Inr \<lparr>an_payload = payload, an_raw = raw, an_warnings = warnings, an_metadata = metadata,
                                    an_findings = find_policy_claims (lv_policy env)
                                      (lv_dumps env (JObj (policy_scan_payload env (ca_stage args) payload))),
                                    an_prompt_chars = prompt_chars, an_progress = p\<rparr>,
                                  st)))))"

section \<open>What an attempt records\<close>

definition answer_extras :: "call_context \<Rightarrow> string \<Rightarrow> bool \<Rightarrow> provider_answer \<Rightarrow> json dict" where
  "answer_extras cx model recovery a =
     (let p = response_schema_profile (route_of cx model) in if p = ''strict'' then [] else [(''schema_profile'', JStr p)])
     @ (if recovery then [(''malformed_recovery'', JBool True)] else [])
     @ (if an_warnings a = [] then [] else [(''provider_warnings'', texts_json (an_warnings a))])
     @ (if an_metadata a = [] then [] else [(''proxy_metadata'', JObj (an_metadata a))])"

definition late_record ::
  "call_context \<Rightarrow> string \<Rightarrow> int \<Rightarrow> string \<Rightarrow> int \<Rightarrow> json dict \<Rightarrow> json dict \<Rightarrow> bool \<Rightarrow> provider_answer \<Rightarrow> json dict" where
  "late_record cx model attempt_number error latency_ms timing status recovery a =
     dict_merge (base_of cx model)
       ([(''attempt'', JInt attempt_number), (''status'', JStr STATUS_FAIL), (''error_code'', JStr FAILURE_PROVIDER_TIMEOUT),
         (''failure_class'', JStr FAILURE_PROVIDER_TIMEOUT), (''error'', JStr error), (''late_response_discarded'', JBool True),
         (''latency_ms'', JInt latency_ms)] @ timing
        @ [(''timing'', JObj timing), (''timeout_enforced_by'', JStr ''post_response_overrun'')] @ status
        @ answer_extras cx model recovery a)"

definition violation_record ::
  "call_context \<Rightarrow> string \<Rightarrow> int \<Rightarrow> int \<Rightarrow> json dict \<Rightarrow> json dict \<Rightarrow> string dict list \<Rightarrow> json dict" where
  "violation_record cx model attempt_number latency_ms timing status blocking =
     dict_merge (base_of cx model)
       ([(''attempt'', JInt attempt_number), (''status'', JStr STATUS_FAIL), (''error_code'', JStr ''safety_policy_violation''),
         (''failure_class'', JStr FAILURE_POLICY_VIOLATION), (''latency_ms'', JInt latency_ms),
         (''request_timeout_seconds'', JFloat (request_timeout_of cx))] @ timing
        @ [(''timing'', JObj timing)] @ status @ [(''policy_findings'', JList (map finding_json blocking))])"

definition passed_record ::
  "call_context \<Rightarrow> string \<Rightarrow> int \<Rightarrow> int \<Rightarrow> json dict \<Rightarrow> json dict \<Rightarrow> bool \<Rightarrow> provider_answer \<Rightarrow> json dict" where
  "passed_record cx model attempt_number latency_ms timing status recovery a =
     dict_merge (base_of cx model)
       ([(''attempt'', JInt attempt_number), (''status'', JStr STATUS_PASS), (''latency_ms'', JInt latency_ms)] @ timing
        @ [(''timing'', JObj timing)] @ answer_extras cx model recovery a @ status)"

definition error_record ::
  "call_context \<Rightarrow> string \<Rightarrow> int \<Rightarrow> string \<Rightarrow> string \<Rightarrow> string \<Rightarrow> int \<Rightarrow> json dict \<Rightarrow> json dict \<Rightarrow> json dict \<Rightarrow> json dict" where
  "error_record cx model attempt_number error_code failure_class error latency_ms timing status extras =
     dict_merge (base_of cx model)
       ([(''attempt'', JInt attempt_number), (''status'', JStr STATUS_FAIL), (''error_code'', JStr error_code),
         (''failure_class'', JStr failure_class), (''error'', JStr error), (''latency_ms'', JInt latency_ms)] @ timing
        @ [(''timing'', JObj timing)] @ status @ extras)"

definition cooldown_record :: "call_context \<Rightarrow> string \<Rightarrow> json dict \<Rightarrow> json dict" where
  "cooldown_record cx model skip = dict_merge (base_of cx model) skip"

definition credential_record :: "call_context \<Rightarrow> string \<Rightarrow> string list \<Rightarrow> json dict" where
  "credential_record cx model envs = dict_merge (base_of cx model)
     [(''status'', JStr STATUS_SKIPPED), (''error_code'', JStr ''missing_provider_credential''),
      (''failure_class'', JStr FAILURE_MISSING_CREDENTIAL), (''credential'', JStr (hd envs)),
      (''missing_credentials'', texts_json envs)]"

definition blocking_findings :: "string dict list \<Rightarrow> string dict list" where
  "blocking_findings fs = filter (\<lambda>f. dict_get f ''severity'' = Some ''block'') fs"

section \<open>What follows an attempt\<close>

definition MALFORMED_CLASSES :: "string list" where
  "MALFORMED_CLASSES = [''JSONDecodeError'', ''KeyError'', ''TypeError'', ''ValidationError'', ''LiveResponseError'',
     ''LiveResponseSchemaError'']"

definition safety_error :: "string \<Rightarrow> py_exc" where
  "safety_error t = exc ''LiveSafetyError'' t"

definition attempt_timing :: "call_context \<Rightarrow> nat \<Rightarrow> attempt_progress \<Rightarrow> json dict" where
  "attempt_timing cx n p = timing_fields (lv_started (cc_env cx) n) (lv_completed (cc_env cx) n)
     (lv_ms (cc_env cx) n Total_Ms) (request_timeout_of cx) p 0 0 0"

text \<open>A payload that passed its validator is late, violates the policy, or is the answer.\<close>

definition finish_answer ::
  "call_context \<Rightarrow> string \<Rightarrow> nat \<Rightarrow> int \<Rightarrow> bool \<Rightarrow> provider_answer \<Rightarrow> live_state \<Rightarrow> attempt_outcome \<times> live_state" where
  "finish_answer cx model n attempt_number recovery a st =
     (let env = cc_env cx; args = cc_args cx; latency_ms = lv_ms env n Total_Ms;
          timing = timing_fields (lv_started env n) (lv_completed env n) latency_ms (request_timeout_of cx) (an_progress a)
            (json_size env (JObj (an_raw a))) (output_chars_of env (an_payload a))
            (an_prompt_chars a)
      in if timeout_overrun latency_ms (request_timeout_of cx)
         then
          (let error = ''provider response exceeded stage timeout: '' @ show_int latency_ms @ ''ms > ''
                 @ show_int (limit_ms (request_timeout_of cx)) @ ''ms'';
               st = record_failure cx model n FAILURE_PROVIDER_TIMEOUT error st;
               record = late_record cx model attempt_number error latency_ms timing (status_fields_now cx model n st) recovery a
           in (Next_Model, with_event cx record (with_attempt record st)))
         else if ca_policy args = POLICY_ENFORCE \<and> blocking_findings (an_findings a) \<noteq> []
         then
          (let st = record_failure cx model n FAILURE_POLICY_VIOLATION ''safety_policy_violation'' st;
               record = violation_record cx model attempt_number latency_ms timing (status_fields_now cx model n st)
                 (blocking_findings (an_findings a));
               subject = (case ca_stage args of Some (c # t) \<Rightarrow> (c # t) @ '' response'' | _ \<Rightarrow> ''Provider response'')
           in (Blocked (safety_error (subject @ '' violates live/profitability safety policy.'')),
               with_event cx record (with_attempt record st)))
         else
          (let st = update_health cx model (record_route_success latency_ms) st;
               record = passed_record cx model attempt_number latency_ms timing (status_fields_now cx model n st) recovery a
           in (Answered \<lparr>pc_payload = an_payload a, pc_raw = an_raw a, pc_usage = usage_from_response (an_raw a),
                 pc_model = model, pc_provider = pr_provider (route_of cx model), pc_latency_ms = latency_ms,
                 pc_findings = an_findings a, pc_warnings = an_warnings a, pc_metadata = an_metadata a, pc_timing = timing\<rparr>,
               with_event cx record (with_attempt record st))))"

text \<open>A response that cannot be used: the next attempt asks for a repair.\<close>

definition malformed_response ::
  "call_context \<Rightarrow> string \<Rightarrow> nat \<Rightarrow> nat \<Rightarrow> py_exc \<Rightarrow> attempt_progress \<Rightarrow> live_state \<Rightarrow> attempt_outcome \<times> live_state" where
  "malformed_response cx model n index e p st =
     (let env = cc_env cx; args = cc_args cx; error = exc_message e; latency_ms = lv_ms env n Total_Ms;
          enforced = timeout_enforced_by error;
          late = timeout_overrun latency_ms (request_timeout_of cx) \<or> enforced \<noteq> None;
          error_code = (if late then FAILURE_PROVIDER_TIMEOUT
            else if exc_type e \<in> {''ValidationError'', ''LiveResponseSchemaError''} then ''schema_invalid_provider_response''
            else ''malformed_provider_response'');
          failure_class = (if late then FAILURE_PROVIDER_TIMEOUT else classify_failure (Some error_code) (Some error));
          st = record_failure cx model n failure_class error st;
          record = error_record cx model (int index + 1) error_code failure_class error latency_ms (attempt_timing cx n p)
            (status_fields_now cx model n st)
            ([(''late_response_discarded'', JBool late),
              (''malformed_recovery_next'', JBool (\<not> late \<and> int index < sp_max_retries (cc_route_policy cx)))]
             @ (case enforced of None \<Rightarrow> [] | Some t \<Rightarrow> [(''timeout_enforced_by'', JStr t)]));
          st = with_event cx record (with_attempt record st)
      in (if late \<or> in_cooldown cx model n st then Next_Model
          else Retry_With (malformed_recovery_messages (ca_messages args) (ca_stage args) error) True, st))"

text \<open>Any other exception, for instance of the provider: the next attempt sends the same messages.\<close>

definition provider_failure ::
  "call_context \<Rightarrow> string \<Rightarrow> nat \<Rightarrow> nat \<Rightarrow> py_exc \<Rightarrow> attempt_progress \<Rightarrow> chat_messages \<Rightarrow> bool \<Rightarrow> live_state
   \<Rightarrow> attempt_outcome \<times> live_state"
where
  "provider_failure cx model n index e p ms recovery st =
     (let env = cc_env cx; error = exc_message e; latency_ms = lv_ms env n Total_Ms;
          p = (if p = no_progress then p\<lparr>ap_provider_ms := latency_ms\<rparr> else p);
          enforced = timeout_enforced_by error;
          late = timeout_overrun latency_ms (request_timeout_of cx) \<or> enforced \<noteq> None;
          failure_class = (if late then FAILURE_PROVIDER_TIMEOUT
            else classify_failure (Some FAILURE_PROVIDER_ERROR) (Some error));
          st = record_failure cx model n failure_class error st;
          record = error_record cx model (int index + 1)
            (if late then FAILURE_PROVIDER_TIMEOUT else FAILURE_PROVIDER_ERROR) failure_class error latency_ms
            (attempt_timing cx n p) (status_fields_now cx model n st)
            ((''late_response_discarded'', JBool late)
             # (case enforced of None \<Rightarrow> [] | Some t \<Rightarrow> [(''timeout_enforced_by'', JStr t)])
             @ (case provider_error_subclass e of None \<Rightarrow> [] | Some t \<Rightarrow> [(''provider_error_subclass'', JStr t)]));
          st = with_event cx record (with_attempt record st)
      in (if in_cooldown cx model n st then Next_Model else Retry_With ms recovery, st))"

definition try_attempt ::
  "call_context \<Rightarrow> string \<Rightarrow> nat \<Rightarrow> chat_messages \<Rightarrow> bool \<Rightarrow> live_state \<Rightarrow> attempt_outcome \<times> live_state" where
  "try_attempt cx model index ms recovery st =
     (let n = length (ls_attempts st)
      in case attempt_body cx model ms (int index + 1) st of
           (Inr a, st) \<Rightarrow> finish_answer cx model n (int index + 1) recovery a st
         | (Inl (e, p), st) \<Rightarrow>
             if exc_type e = ''LiveSafetyError'' then (Blocked e, st)
             else if exc_type e \<in> set MALFORMED_CLASSES then malformed_response cx model n index e p st
             else provider_failure cx model n index e p ms recovery st)"

section \<open>The attempts of a model, and the models\<close>

text \<open>\<open>for attempt_index in range(max_retries + 1)\<close>, from \<open>index\<close> with \<open>left\<close> to go.\<close>

fun attempt_loop ::
  "call_context \<Rightarrow> string \<Rightarrow> nat \<Rightarrow> nat \<Rightarrow> chat_messages \<Rightarrow> bool \<Rightarrow> live_state \<Rightarrow> attempt_outcome \<times> live_state" where
  "attempt_loop cx model 0 index ms recovery st = (Next_Model, st)"
| "attempt_loop cx model (Suc left) index ms recovery st =
     (case try_attempt cx model index ms recovery st of
        (Retry_With ms recovery, st) \<Rightarrow> attempt_loop cx model left (Suc index) ms recovery st
      | (outcome, st) \<Rightarrow> (outcome, st))"

definition attempts_per_model :: "call_context \<Rightarrow> nat" where
  "attempts_per_model cx = nat (sp_max_retries (cc_route_policy cx) + 1)"

definition try_model :: "call_context \<Rightarrow> string \<Rightarrow> live_state \<Rightarrow> attempt_outcome \<times> live_state" where
  "try_model cx model st =
     (let env = cc_env cx; n = length (ls_attempts st); route = route_of cx model;
          (h, table) = health_of cx model st;
          st = st\<lparr>ls_health := table\<rparr>
      in case route_cooldown_skip (lv_iso env) (lv_now env n At_Skip) (cc_route_policy cx) h of
           Some skip \<Rightarrow> (Next_Model, with_attempt (cooldown_record cx model skip) st)
         | None \<Rightarrow>
            (let envs = missing_envs (lv_getenv env) route
             in if envs \<noteq> [] then (Next_Model, with_attempt (credential_record cx model envs) st)
                else attempt_loop cx model (attempts_per_model cx) 0 (ca_messages (cc_args cx)) False st))"

fun models_loop :: "call_context \<Rightarrow> string list \<Rightarrow> live_state \<Rightarrow> attempt_outcome \<times> live_state" where
  "models_loop cx [] st = (Next_Model, st)"
| "models_loop cx (model # models) st =
     (case try_model cx model st of
        (Answered r, st) \<Rightarrow> (Answered r, st)
      | (Blocked e, st) \<Rightarrow> (Blocked e, st)
      | (_, st) \<Rightarrow> models_loop cx models st)"

definition is_skipped :: "json dict \<Rightarrow> bool" where
  "is_skipped attempt \<longleftrightarrow> jget attempt ''status'' = JStr STATUS_SKIPPED"

definition live_failure :: "json dict list \<Rightarrow> py_exc" where
  "live_failure checked =
     (if checked \<noteq> [] \<and> list_all is_skipped checked
      then if list_ex (\<lambda>a. jget a ''skip_reason'' = JStr ''route_cooldown'') checked
           then exc ''LiveProviderError'' ''All configured live model routes are in cooldown/quarantine.''
           else exc ''LiveCredentialError'' ''No configured live model has credentials available.''
      else exc ''LiveProviderError'' ''Live generation failed for all configured models.'')"

definition call_context_of :: "live_env \<Rightarrow> json dict \<Rightarrow> call_args \<Rightarrow> py_error + call_context" where
  "call_context_of env registry args =
     try_sum (stage_route_policy_of (lv_float env) registry (ca_stage args)) (\<lambda>policy.
     try_sum (get_of (get_or registry ''defaults'' (JObj [])) ''temperature'') (\<lambda>_.
     try_sum (float_of (lv_float env)
         (get_or (object_or_empty (get_or registry ''defaults'' (JObj []))) ''temperature'' (JFloat (1 / 5)))) (\<lambda>temperature.
       Inr \<lparr>cc_env = env, cc_args = args, cc_route_policy = policy, cc_temperature = temperature\<rparr>)))"

definition call_model_with_fallbacks ::
  "live_env \<Rightarrow> json dict \<Rightarrow> call_args \<Rightarrow> (live_state, provider_call_result) comp" where
  "call_model_with_fallbacks env registry args = (\<lambda>st.
     case call_context_of env registry args of
       Inl e \<Rightarrow> (Inl (exc_of e), st)
     | Inr cx \<Rightarrow>
        (case models_loop cx (ca_models args) st of
           (Answered r, st') \<Rightarrow> (Inr r, st')
         | (Blocked e, st') \<Rightarrow> (Inl e, st')
         | (_, st') \<Rightarrow> (Inl (live_failure (drop (length (ls_attempts st)) (ls_attempts st'))), st')))"

end
