(* ===== verification/Live_Laws.thy ===== *)
theory Live_Laws
  imports Live_Calls "HOL-Library.Multiset"
begin

text \<open>
  Laws of model calls: what a property of the shared state must be kept by so that a whole call keeps it
  (the locale \<open>call_frame\<close>), how many requests a call sends, and what an answer has passed.
\<close>

section \<open>Parts of the state that an operation leaves alone\<close>

named_theorems live_simps \<open>projections of the updated state of model calls\<close>

lemma with_attempt_simps [simp, live_simps]:
  "ls_attempts (with_attempt r st) = ls_attempts st @ [r]"
  "ls_health (with_attempt r st) = ls_health st"
  "ls_cache (with_attempt r st) = ls_cache st"
  "ls_requests (with_attempt r st) = ls_requests st"
  by (simp_all add: with_attempt_def)

lemma with_event_simps [simp, live_simps]:
  "ls_attempts (with_event cx r st) = ls_attempts st"
  "ls_health (with_event cx r st) = ls_health st"
  "ls_cache (with_event cx r st) = ls_cache st"
  "ls_requests (with_event cx r st) = ls_requests st"
  by (simp_all add: with_event_def append_proxy_attribution_event_def split: option.split)

lemma update_health_simps [simp, live_simps]:
  "ls_attempts (update_health cx m f st) = ls_attempts st"
  "ls_cache (update_health cx m f st) = ls_cache st"
  "ls_requests (update_health cx m f st) = ls_requests st"
  by (simp_all add: update_health_def split_beta)

lemma record_failure_simps [simp, live_simps]:
  "ls_attempts (record_failure cx m n c e st) = ls_attempts st"
  "ls_requests (record_failure cx m n c e st) = ls_requests st"
  by (simp_all add: record_failure_def)

lemma store_cache_simps [simp, live_simps]:
  "ls_attempts (store_llm_response_cache opts k raw st) = ls_attempts st"
  "ls_health (store_llm_response_cache opts k raw st) = ls_health st"
  "ls_requests (store_llm_response_cache opts k raw st) = ls_requests st"
  by (simp_all add: store_llm_response_cache_def)

section \<open>What a call keeps\<close>

text \<open>
  \<open>J\<close> is a property of the state, and \<open>usable\<close> says which models the call may use: those that are not are
  passed over, whenever \<open>J\<close> holds.
\<close>

locale call_frame =
  fixes cx :: call_context
    and J :: "live_state \<Rightarrow> bool"
    and usable :: "string \<Rightarrow> bool"
  assumes keeps_attempt: "J st \<Longrightarrow> J (with_attempt r st)"
    and keeps_event: "J st \<Longrightarrow> J (with_event cx r st)"
    and keeps_store: "J st \<Longrightarrow> J (store_llm_response_cache opts k raw st)"
    and keeps_request: "usable m \<Longrightarrow> J st \<Longrightarrow> J (st\<lparr>ls_requests := ls_requests st @ [(m, kwargs)]\<rparr>)"
    and keeps_success: "usable m \<Longrightarrow> J st \<Longrightarrow> J (update_health cx m (record_route_success ms) st)"
    and keeps_failure: "usable m \<Longrightarrow> J st \<Longrightarrow> J (record_failure cx m n c e st)"
    and keeps_look: "J st \<Longrightarrow> J (st\<lparr>ls_health := snd (health_of cx m st)\<rparr>)"
    and passed_over: "\<not> usable m \<Longrightarrow> J st \<Longrightarrow>
      route_cooldown_skip (lv_iso (cc_env cx)) (lv_now (cc_env cx) (length (ls_attempts st)) At_Skip)
        (cc_route_policy cx) (fst (health_of cx m st)) \<noteq> None"
begin

lemma obtain_response_keeps:
  assumes "usable m" "J st"
  shows "J (snd (obtain_response cx m ms k st))"
proof -
  have "J ((with_event cx r st)\<lparr>ls_requests := ls_requests st @ [(m, kwargs)]\<rparr>)" for r kwargs
    using keeps_request [OF assms(1) keeps_event [OF assms(2)], of r kwargs] by simp
  with assms(2) show ?thesis
    by (simp add: obtain_response_def Let_def split: sum.split option.split prod.split)
qed

lemma attempt_body_keeps:
  assumes "usable m" "J st"
  shows "J (snd (attempt_body cx m ms k st))"
proof -
  obtain r st' where got: "obtain_response cx m ms k st = (r, st')" by (cases "obtain_response cx m ms k st")
  with obtain_response_keeps [OF assms, of ms k] have "J st'" by simp
  with keeps_store [OF this] show ?thesis
    by (simp add: attempt_body_def got Let_def split: sum.split prod.split)
qed

lemma finish_answer_keeps:
  assumes "usable m" "J st"
  shows "J (snd (finish_answer cx m n k rec a st))"
  using assms
  by (simp add: finish_answer_def Let_def keeps_event keeps_attempt keeps_failure keeps_success)

lemma malformed_response_keeps:
  assumes "usable m" "J st"
  shows "J (snd (malformed_response cx m n i e p st))"
  using assms by (simp add: malformed_response_def Let_def keeps_event keeps_attempt keeps_failure)

lemma provider_failure_keeps:
  assumes "usable m" "J st"
  shows "J (snd (provider_failure cx m n i e p ms rec st))"
  using assms by (simp add: provider_failure_def Let_def keeps_event keeps_attempt keeps_failure)

lemma try_attempt_keeps:
  assumes "usable m" "J st"
  shows "J (snd (try_attempt cx m i ms rec st))"
proof -
  obtain r st' where got: "attempt_body cx m ms (int i + 1) st = (r, st')"
    by (cases "attempt_body cx m ms (int i + 1) st")
  with attempt_body_keeps [OF assms, of ms "int i + 1"] have "J st'" by simp
  with assms(1) show ?thesis
    by (simp add: try_attempt_def Let_def got finish_answer_keeps malformed_response_keeps provider_failure_keeps
        split: sum.split prod.split)
qed

lemma attempt_loop_keeps:
  "usable m \<Longrightarrow> J st \<Longrightarrow> J (snd (attempt_loop cx m left i ms rec st))"
proof (induction left arbitrary: i ms rec st)
  case (Suc left)
  from try_attempt_keeps [OF Suc.prems, of i ms rec] Suc.IH [OF Suc.prems(1)] show ?case
    by (auto split: prod.split attempt_outcome.split)
qed simp

lemma try_model_keeps:
  assumes "J st"
  shows "J (snd (try_model cx m st))"
proof (cases "usable m")
  case True
  with assms show ?thesis
    by (simp add: try_model_def Let_def split_beta keeps_look keeps_attempt attempt_loop_keeps split: option.split)
next
  case False
  from passed_over [OF this assms] obtain skip where
    "route_cooldown_skip (lv_iso (cc_env cx)) (lv_now (cc_env cx) (length (ls_attempts st)) At_Skip) (cc_route_policy cx)
       (fst (health_of cx m st)) = Some skip" by fastforce
  with assms show ?thesis
    by (simp add: try_model_def Let_def split_beta keeps_look keeps_attempt)
qed

lemma models_loop_keeps: "J st \<Longrightarrow> J (snd (models_loop cx ms st))"
proof (induction ms arbitrary: st)
  case (Cons m ms)
  from try_model_keeps [OF Cons.prems, of m] Cons.IH show ?case
    by (auto split: prod.split attempt_outcome.split)
qed simp

end

text \<open>A call with its context: it raises before it does anything, or it is the loop over the models.\<close>

lemma call_cases:
  assumes "call_model_with_fallbacks env registry args st = (r, st')"
  obtains (unconfigured) e where "call_context_of env registry args = Inl e" "r = Inl (exc_of e)" "st' = st"
    | (configured) cx outcome where "call_context_of env registry args = Inr cx"
        "models_loop cx (ca_models args) st = (outcome, st')"
        "r = (case outcome of Answered x \<Rightarrow> Inr x | Blocked e \<Rightarrow> Inl e
          | _ \<Rightarrow> Inl (live_failure (drop (length (ls_attempts st)) (ls_attempts st'))))"
  using assms
  by (auto simp: call_model_with_fallbacks_def split: sum.splits prod.splits attempt_outcome.splits)

lemma call_context_of_parts:
  "call_context_of env registry args = Inr cx \<Longrightarrow> cc_env cx = env \<and> cc_args cx = args \<and>
     stage_route_policy_of (lv_float env) registry (ca_stage args) = Inr (cc_route_policy cx)"
  by (auto simp: call_context_of_def try_sum_def split: sum.splits)


section \<open>The health table\<close>

definition health_ok :: "route_health \<Rightarrow> bool" where
  "health_ok h \<longleftrightarrow> 0 \<le> rh_successes h \<and> 0 \<le> rh_consecutive h \<and> rh_consecutive h \<le> rh_max_consecutive h
     \<and> rh_max_consecutive h \<le> rh_failures h \<and> 0 \<le> rh_timeouts h \<and> 0 \<le> rh_not_found h
     \<and> rh_timeouts h + rh_not_found h \<le> rh_failures h \<and> 0 \<le> rh_cooldowns h \<and> rh_cooldowns h \<le> rh_failures h
     \<and> (rh_cooldown_until h = None \<longleftrightarrow> rh_cooldowns h = 0)
     \<and> (rh_consecutive h \<noteq> 0 \<longrightarrow> rh_failure_class h \<noteq> None)"

definition health_table_ok :: "health_table \<Rightarrow> bool" where
  "health_table_ok t \<longleftrightarrow> distinct (map fst t) \<and> (\<forall>(k, h) \<in> set t. k = (rh_stage h, rh_model h) \<and> health_ok h)"

lemma new_route_health_ok: "health_ok (new_route_health s m p g)"
  by (simp add: health_ok_def new_route_health_def)

lemma record_route_success_ok: "health_ok h \<Longrightarrow> health_ok (record_route_success ms h)"
  by (auto simp: health_ok_def record_route_success_def)

lemma failure_classes_differ: "FAILURE_PROVIDER_TIMEOUT \<noteq> FAILURE_PROVIDER_NOT_FOUND"
  by (simp add: FAILURE_PROVIDER_TIMEOUT_def FAILURE_PROVIDER_NOT_FOUND_def)

lemma record_route_failure_ok:
  assumes "health_ok h"
  shows "health_ok (record_route_failure policy now c e h)"
  using assms failure_classes_differ
  by (auto simp: health_ok_def record_route_failure_def Let_def max_def)

lemma record_route_names [simp]:
  "rh_stage (record_route_success ms h) = rh_stage h" "rh_model (record_route_success ms h) = rh_model h"
  "rh_stage (record_route_failure policy now c e h) = rh_stage h"
  "rh_model (record_route_failure policy now c e h) = rh_model h"
  by (simp_all add: record_route_success_def record_route_failure_def Let_def)

lemma health_table_ok_update:
  assumes "health_table_ok t" "health_ok h" "k = (rh_stage h, rh_model h)"
  shows "health_table_ok (AList.update k h t)"
proof -
  have "(k', x) \<in> set (AList.update k h t) \<Longrightarrow> (k' = k \<and> x = h) \<or> (k', x) \<in> set t" for k' x
    by (induction t) (auto split: if_splits)
  with assms show ?thesis
    by (fastforce simp: health_table_ok_def distinct_update)
qed

text \<open>Looking at a route gives its state in the table, and puts it there when it is new.\<close>

lemma health_of_look:
  assumes "health_of cx m st = (h, t)"
  shows "map_of t (route_health_key (ca_stage (cc_args cx)) m) = Some h"
    and "k \<noteq> route_health_key (ca_stage (cc_args cx)) m \<Longrightarrow> map_of t k = map_of (ls_health st) k"
    and "map_of (ls_health st) (route_health_key (ca_stage (cc_args cx)) m) = Some x \<Longrightarrow> h = x \<and> t = ls_health st"
  using assms
  by (auto simp: health_of_def route_health_state_def Let_def update_conv' split: option.splits)

lemma health_of_ok:
  assumes "health_table_ok (ls_health st)" "health_of cx m st = (h, t)"
  shows "health_table_ok t \<and> health_ok h \<and> route_health_key (ca_stage (cc_args cx)) m = (rh_stage h, rh_model h)"
proof (cases "map_of (ls_health st) (route_health_key (ca_stage (cc_args cx)) m)")
  case None
  with assms have "h = new_route_health (fst (route_health_key (ca_stage (cc_args cx)) m)) m
        (pr_provider (route_of cx m)) (pr_gateway (route_of cx m))"
    and t: "t = AList.update (route_health_key (ca_stage (cc_args cx)) m) h (ls_health st)"
    by (auto simp: health_of_def route_health_state_def Let_def)
  then have h: "health_ok h" "route_health_key (ca_stage (cc_args cx)) m = (rh_stage h, rh_model h)"
    by (auto simp: health_ok_def new_route_health_def route_health_key_def)
  then show ?thesis using t health_table_ok_update [OF assms(1) h] by simp
next
  case (Some x)
  then have "(route_health_key (ca_stage (cc_args cx)) m, x) \<in> set (ls_health st)" by (rule map_of_SomeD)
  with assms(1) health_of_look(3) [OF assms(2) Some] show ?thesis
    by (auto simp: health_table_ok_def)
qed

lemma update_health_ok:
  assumes "health_table_ok (ls_health st)" "\<And>h. health_ok h \<Longrightarrow> health_ok (f h)"
    and "\<And>h. rh_stage (f h) = rh_stage h \<and> rh_model (f h) = rh_model h"
  shows "health_table_ok (ls_health (update_health cx m f st))"
proof -
  obtain h t where l: "health_of cx m st = (h, t)" by (cases "health_of cx m st")
  with health_of_ok [OF assms(1) l] assms(2,3) show ?thesis
    by (simp add: update_health_def health_table_ok_update)
qed

interpretation health: call_frame cx "\<lambda>st. health_table_ok (ls_health st)" "\<lambda>_. True" for cx
proof (unfold_locales, goal_cases)
  case (5 m st ms)
  then show ?case by (intro update_health_ok) (auto simp: record_route_success_ok)
next
  case (6 m st n c e)
  then show ?case unfolding record_failure_def by (intro update_health_ok) (auto simp: record_route_failure_ok)
next
  case (7 st m)
  then show ?case using health_of_ok [OF _ prod.collapse [symmetric]] by simp
qed simp_all

section \<open>Attempts and requests\<close>

text \<open>Attempts are only added.\<close>

interpretation appended: call_frame cx "\<lambda>st. \<exists>new. ls_attempts st = old @ new" "\<lambda>_. True" for cx old
  by unfold_locales auto

text \<open>The route of a model that is passed over in every attempt to come.\<close>

definition quarantined :: "call_context \<Rightarrow> string \<Rightarrow> route_health \<Rightarrow> live_state \<Rightarrow> bool" where
  "quarantined cx m h st \<longleftrightarrow> map_of (ls_health st) (route_health_key (ca_stage (cc_args cx)) m) = Some h"

definition requests_for :: "string \<Rightarrow> live_state \<Rightarrow> (string \<times> json dict) list" where
  "requests_for m st = filter (\<lambda>q. fst q = m) (ls_requests st)"

lemma key_inject: "route_health_key s m = route_health_key s m' \<longleftrightarrow> m = m'"
  by (simp add: route_health_key_def)

lemma update_health_other:
  assumes "m' \<noteq> m"
  shows "map_of (ls_health (update_health cx m' f st)) (route_health_key (ca_stage (cc_args cx)) m) =
    map_of (ls_health st) (route_health_key (ca_stage (cc_args cx)) m)"
proof -
  obtain h t where l: "health_of cx m' st = (h, t)" by (cases "health_of cx m' st")
  from assms have "route_health_key (ca_stage (cc_args cx)) m \<noteq> route_health_key (ca_stage (cc_args cx)) m'"
    by (simp add: key_inject)
  with health_of_look(2) [OF l, of "route_health_key (ca_stage (cc_args cx)) m"] show ?thesis
    by (simp add: update_health_def l update_conv')
qed

lemma look_other:
  assumes "quarantined cx m h st"
  shows "quarantined cx m h (st\<lparr>ls_health := snd (health_of cx m' st)\<rparr>)"
proof -
  obtain h' t where l: "health_of cx m' st = (h', t)" by (cases "health_of cx m' st")
  show ?thesis
  proof (cases "m' = m")
    case True
    with l assms health_of_look(3) [of cx m st h' t h] show ?thesis by (auto simp: quarantined_def)
  next
    case False
    then have "route_health_key (ca_stage (cc_args cx)) m \<noteq> route_health_key (ca_stage (cc_args cx)) m'"
      by (simp add: key_inject)
    with health_of_look(2) [OF l, of "route_health_key (ca_stage (cc_args cx)) m"] assms l show ?thesis
      by (simp add: quarantined_def)
  qed
qed

lemma quarantine_frame:
  assumes "sp_prefer_healthy (cc_route_policy cx)"
    and "\<And>n. first \<le> n \<Longrightarrow> cooling h (lv_now (cc_env cx) n At_Skip)"
  shows "call_frame cx (\<lambda>st. quarantined cx m h st \<and> requests_for m st = old \<and> first \<le> length (ls_attempts st))
    (\<lambda>x. x \<noteq> m)"
proof (unfold_locales, goal_cases)
  case (8 m' st)
  then have "fst (health_of cx m st) = h" using health_of_look(3) [of cx m st] prod.collapse
    by (metis quarantined_def)
  with 8 assms show ?case by (simp add: route_cooldown_skip_def)
qed (auto simp: quarantined_def requests_for_def update_health_other record_failure_def
    store_llm_response_cache_def with_event_def append_proxy_attribution_event_def
    dest: look_other [unfolded quarantined_def] split: option.splits)

section \<open>How many requests\<close>

text \<open>Between two states requests are sent at most for the models of a multiset, each as often as it is there.\<close>

definition sends :: "string multiset \<Rightarrow> live_state \<Rightarrow> live_state \<Rightarrow> bool" where
  "sends budget st st' \<longleftrightarrow> (\<exists>rs. ls_requests st' = ls_requests st @ rs \<and> mset (map fst rs) \<subseteq># budget)"

lemma sends_none [simp]: "ls_requests st' = ls_requests st \<Longrightarrow> sends budget st st'"
  by (simp add: sends_def)

lemma sends_trans:
  assumes "sends M st st'" "sends N st' st''"
  shows "sends (M + N) st st''"
  using assms by (fastforce simp: sends_def intro: subset_mset.add_mono)

lemma sends_more: "sends M st st' \<Longrightarrow> M \<subseteq># N \<Longrightarrow> sends N st st'"
  by (auto simp: sends_def intro: subset_mset.order_trans)

lemma sends_same: "sends M st st' \<Longrightarrow> ls_requests st'' = ls_requests st' \<Longrightarrow> sends M st st''"
  by (simp add: sends_def)

lemma obtain_response_sends: "obtain_response cx m ms k st = (r, st') \<Longrightarrow> sends {#m#} st st'"
  by (fastforce simp: obtain_response_def Let_def sends_def split: sum.splits option.splits prod.splits)

lemma attempt_body_sends:
  assumes "attempt_body cx m ms k st = (r, st')"
  shows "sends {#m#} st st'"
proof -
  obtain q s where got: "obtain_response cx m ms k st = (q, s)" by (cases "obtain_response cx m ms k st")
  have "ls_requests st' = ls_requests s"
    using assms by (auto simp: attempt_body_def got Let_def split: sum.splits prod.splits if_splits)
  with obtain_response_sends [OF got] show ?thesis by (rule sends_same)
qed

lemma after_attempt_requests [simp]:
  "ls_requests (snd (finish_answer cx m n k rec a st)) = ls_requests st"
  "ls_requests (snd (malformed_response cx m n i e p st)) = ls_requests st"
  "ls_requests (snd (provider_failure cx m n i e p ms rec st)) = ls_requests st"
  by (simp_all add: finish_answer_def malformed_response_def provider_failure_def Let_def)

lemma try_attempt_sends: "sends {#m#} st (snd (try_attempt cx m i ms rec st))"
proof -
  obtain q s where got: "attempt_body cx m ms (int i + 1) st = (q, s)" by (cases "attempt_body cx m ms (int i + 1) st")
  have "ls_requests (snd (try_attempt cx m i ms rec st)) = ls_requests s"
    by (simp add: try_attempt_def got Let_def split: sum.split prod.split)
  with attempt_body_sends [OF got] show ?thesis by (rule sends_same)
qed

lemma attempt_loop_sends: "sends (replicate_mset left m) st (snd (attempt_loop cx m left i ms rec st))"
proof (induction left arbitrary: i ms rec st)
  case (Suc left)
  obtain q s where t: "try_attempt cx m i ms rec st = (q, s)" by (cases "try_attempt cx m i ms rec st")
  with try_attempt_sends [of m st cx i ms rec] have one: "sends {#m#} st s" by simp
  show ?case
  proof (cases q)
    case (Retry_With ms' rec')
    with t show ?thesis using sends_trans [OF one Suc.IH [of s "Suc i" ms' rec']] by simp
  qed (use t one in \<open>auto intro: sends_more [OF one]\<close>)
qed simp

lemma try_model_sends: "sends (replicate_mset (attempts_per_model cx) m) st (snd (try_model cx m st))"
proof -
  have "sends (replicate_mset (attempts_per_model cx) m) st
      (snd (attempt_loop cx m (attempts_per_model cx) 0 ms False (st\<lparr>ls_health := t\<rparr>)))" for ms t
    using attempt_loop_sends [of "attempts_per_model cx" m "st\<lparr>ls_health := t\<rparr>" cx 0 ms False] by (simp add: sends_def)
  then show ?thesis by (simp add: try_model_def Let_def split_beta split: option.split)
qed

lemma models_loop_sends:
  "sends (repeat_mset (attempts_per_model cx) (mset ms)) st (snd (models_loop cx ms st))"
proof (induction ms arbitrary: st)
  case (Cons m ms)
  obtain q s where t: "try_model cx m st = (q, s)" by (cases "try_model cx m st")
  with try_model_sends [of cx m st] have one: "sends (replicate_mset (attempts_per_model cx) m) st s" by simp
  have budget: "repeat_mset (attempts_per_model cx) (mset (m # ms)) =
      replicate_mset (attempts_per_model cx) m + repeat_mset (attempts_per_model cx) (mset ms)"
    by (simp add: repeat_mset_distrib2 [symmetric] multiset_eq_iff)
  from sends_trans [OF one Cons.IH [of s]] sends_more [OF one, of "repeat_mset (attempts_per_model cx) (mset (m # ms))"] t
  show ?case unfolding budget by (cases q) simp_all
qed simp

text \<open>So many requests for each model, and in all.\<close>

lemma sends_bounds:
  assumes "sends (repeat_mset k (mset ms)) st st'"
  obtains sent where "ls_requests st' = ls_requests st @ sent" "length sent \<le> length ms * k"
    "\<And>m. length (filter (\<lambda>q. fst q = m) sent) \<le> count_list ms m * k"
proof -
  obtain sent where sent: "ls_requests st' = ls_requests st @ sent" "mset (map fst sent) \<subseteq># repeat_mset k (mset ms)"
    using assms by (auto simp: sends_def)
  have one: "length (filter (\<lambda>q. fst q = m) sent) = count (mset (map fst sent)) m" for m
    by (induction sent) auto
  have of_list: "count (mset ms) m = count_list ms m" for m
    by (induction ms) auto
  have "length (filter (\<lambda>q. fst q = m) sent) \<le> count_list ms m * k" for m
    using mset_subset_eq_count [OF sent(2), of m] unfolding one by (simp add: of_list mult.commute)
  moreover have "length sent \<le> length ms * k"
    using size_mset_mono [OF sent(2)] by (simp add: mult.commute)
  ultimately show thesis using sent(1) that by blast
qed

section \<open>What an answer has passed\<close>

text \<open>The entries of a merged dictionary are the last ones given.\<close>

lemma dict_merge_last:
  "dict_get (dict_merge d e) k = (case map_of (rev e) k of None \<Rightarrow> dict_get d k | Some v \<Rightarrow> Some v)"
proof (induction e arbitrary: d)
  case (Cons kv e)
  then show ?case
    by (cases kv) (simp add: dict_merge_def update_conv' map_add_def split: option.split)
qed (simp add: dict_merge_def)

lemma answer_extras_status: "map_of (rev (answer_extras cx m rec a)) ''status'' = None"
  by (simp add: answer_extras_def Let_def)

lemma timing_status: "map_of (rev (timing_fields s c d t p x y z)) ''status'' = None"
  by (simp add: timing_fields_def)

lemma passed_record_status:
  assumes "map_of (rev timing) ''status'' = None" "map_of (rev status) ''status'' = None"
  shows "jget (passed_record cx m k ms timing status rec a) ''status'' = JStr STATUS_PASS"
  using assms by (simp add: passed_record_def jget_def dict_merge_last map_add_def answer_extras_status)

lemma status_fields_status: "map_of (rev (status_fields_now cx m n st)) ''status'' = None"
  by (simp add: status_fields_now_def route_status_fields_def)

text \<open>
  The payload is what the validator makes of the payload of the response; the response came in time, and
  nothing in the payload is blocked when the policy is enforced.
\<close>

definition accepted_by :: "call_context \<Rightarrow> provider_call_result \<Rightarrow> bool" where
  "accepted_by cx r \<longleftrightarrow>
     (\<exists>response payload. pc_raw r = response_to_dict response
        \<and> payload_from_response (cc_env cx) response = Inr payload
        \<and> ca_validator (cc_args cx) payload = Inr (pc_payload r))
     \<and> pc_latency_ms r \<le> limit_ms (request_timeout_of cx)
     \<and> pc_findings r = find_policy_claims (lv_policy (cc_env cx))
         (lv_dumps (cc_env cx) (JObj (policy_scan_payload (cc_env cx) (ca_stage (cc_args cx)) (pc_payload r))))
     \<and> (ca_policy (cc_args cx) = POLICY_ENFORCE \<longrightarrow> blocking_findings (pc_findings r) = [])"

lemma finish_answer_accepts:
  assumes "finish_answer cx m n k rec a st = (Answered r, st')"
  shows "pc_payload r = an_payload a \<and> pc_raw r = an_raw a \<and> pc_findings r = an_findings a \<and> pc_model r = m
    \<and> pc_latency_ms r \<le> limit_ms (request_timeout_of cx)
    \<and> (ca_policy (cc_args cx) = POLICY_ENFORCE \<longrightarrow> blocking_findings (an_findings a) = [])
    \<and> jget (last (ls_attempts st')) ''status'' = JStr STATUS_PASS"
  using assms
  by (auto simp: finish_answer_def Let_def timeout_overrun_def split: if_splits
      intro!: passed_record_status timing_status status_fields_status)

lemma attempt_body_accepts:
  assumes "attempt_body cx m ms k st = (Inr a, st')"
  shows "(\<exists>response payload. an_raw a = response_to_dict response
      \<and> payload_from_response (cc_env cx) response = Inr payload
      \<and> ca_validator (cc_args cx) payload = Inr (an_payload a))
    \<and> an_findings a = find_policy_claims (lv_policy (cc_env cx))
         (lv_dumps (cc_env cx) (JObj (policy_scan_payload (cc_env cx) (ca_stage (cc_args cx)) (an_payload a))))"
proof -
  obtain q s where "obtain_response cx m ms k st = (q, s)" by (cases "obtain_response cx m ms k st")
  with assms show ?thesis
    by (auto simp: attempt_body_def Let_def split: sum.splits prod.splits)
qed

lemma not_answered [simp]:
  "fst (malformed_response cx m n i e p st) \<noteq> Answered r"
  "fst (provider_failure cx m n i e p ms rec st) \<noteq> Answered r"
  by (simp_all add: malformed_response_def provider_failure_def Let_def)

text \<open>What holds of the answer of a model, with the state it leaves.\<close>

definition call_answer_ok :: "call_context \<Rightarrow> string \<Rightarrow> provider_call_result \<Rightarrow> live_state \<Rightarrow> bool" where
  "call_answer_ok cx m r st \<longleftrightarrow> accepted_by cx r \<and> pc_model r = m \<and> jget (last (ls_attempts st)) ''status'' = JStr STATUS_PASS"

lemma try_attempt_answers:
  assumes "try_attempt cx m i ms rec st = (Answered r, st')"
  shows "call_answer_ok cx m r st'"
proof -
  obtain q s where body: "attempt_body cx m ms (int i + 1) st = (q, s)" by (cases "attempt_body cx m ms (int i + 1) st")
  have not_mal: "malformed_response cx m n i e p s \<noteq> (Answered r, st')" for n e p
    using not_answered(1) [of cx m n i e p s r] by (metis fst_conv)
  have not_fail: "provider_failure cx m n i e p ms rec s \<noteq> (Answered r, st')" for n e p
    using not_answered(2) [of cx m n i e p ms rec s r] by (metis fst_conv)
  from assms body not_mal not_fail obtain a where
    q: "q = Inr a" and fin: "finish_answer cx m (length (ls_attempts st)) (int i + 1) rec a s = (Answered r, st')"
    by (auto simp: try_attempt_def Let_def split: sum.splits prod.splits if_splits)
  from finish_answer_accepts [OF fin] attempt_body_accepts [OF body [unfolded q]] show ?thesis
    by (auto simp: call_answer_ok_def accepted_by_def)
qed

lemma attempt_loop_answers: "attempt_loop cx m left i ms rec st = (Answered r, st') \<Longrightarrow> call_answer_ok cx m r st'"
proof (induction left arbitrary: i ms rec st)
  case (Suc left)
  obtain q s where t: "try_attempt cx m i ms rec st = (q, s)" by (cases "try_attempt cx m i ms rec st")
  show ?case
  proof (cases q)
    case (Answered x)
    with Suc.prems t show ?thesis by (auto intro: try_attempt_answers)
  next
    case (Retry_With ms' rec')
    with Suc.prems t show ?thesis by (auto intro: Suc.IH)
  qed (use Suc.prems t in auto)
qed simp

lemma try_model_answers:
  assumes "try_model cx m st = (Answered r, st')"
  shows "call_answer_ok cx m r st' \<and> missing_envs (lv_getenv (cc_env cx)) (route_of cx m) = []
    \<and> route_cooldown_skip (lv_iso (cc_env cx)) (lv_now (cc_env cx) (length (ls_attempts st)) At_Skip) (cc_route_policy cx)
        (fst (health_of cx m st)) = None"
  using assms
  by (auto simp: try_model_def Let_def split_beta split: option.splits if_splits intro: attempt_loop_answers)

lemma models_loop_answers:
  "models_loop cx ms st = (Answered r, st') \<Longrightarrow>
   \<exists>m \<in> set ms. call_answer_ok cx m r st' \<and> missing_envs (lv_getenv (cc_env cx)) (route_of cx m) = []"
proof (induction ms arbitrary: st)
  case (Cons m ms)
  obtain q s where t: "try_model cx m st = (q, s)" by (cases "try_model cx m st")
  show ?case
  proof (cases q)
    case (Answered x)
    with Cons.prems t try_model_answers [of cx m st r st'] show ?thesis by auto
  qed (use Cons.prems t Cons.IH [of s] in auto)
qed simp

end
