(* ===== verification/Live_Claims.thy ===== *)
theory Live_Claims
  imports Live_Laws
begin

text \<open>
  Properties of model calls with retries and fallbacks: what an answer has passed, how many requests are
  sent, that a route in cooldown is left alone, and that the health of the routes stays consistent.
\<close>

section \<open>A concrete call\<close>

definition sample_live :: live_env where
  "sample_live = \<lparr>lv_getenv = (\<lambda>_. None), lv_now = (\<lambda>n _. of_nat n), lv_ms = (\<lambda>_ _. 5),
     lv_started = (\<lambda>_. ''t0''), lv_completed = (\<lambda>_. ''t1''),
     lv_complete = (\<lambda>n _. Inr (Response_Object [] (Inr (JStr ''{}'')), [])),
     lv_loads = (\<lambda>_. Inr (JObj [])), lv_dumps = (\<lambda>_. []), lv_cache_key = (\<lambda>_. ''digest''),
     lv_strip_urls = (\<lambda>t. t),
     lv_policy = \<lparr>he_stamp = (\<lambda>_. ''t''), he_schema_message = (\<lambda>_. ''m''), he_rules = [], he_loads = (\<lambda>_. None)\<rparr>,
     lv_float = (\<lambda>_. None), lv_round3 = (\<lambda>r. r), lv_iso = (\<lambda>_. ''time''), lv_repr = (\<lambda>_. ''value''),
     lv_type_text = (\<lambda>_. ''type'')\<rparr>"

definition sample_args :: call_args where
  "sample_args = \<lparr>ca_models = [''m''], ca_messages = [], ca_format = [],
     ca_policy = POLICY_ENFORCE, ca_validator = Inr, ca_stage = None, ca_options = None, ca_run_id = None,
     ca_metrics = [], ca_web_search = False\<rparr>"

definition sample_start :: live_state where
  "sample_start = \<lparr>ls_attempts = [], ls_health = [], ls_cache = [], ls_requests = [], ls_attributions = []\<rparr>"

definition sample_context :: call_context where
  "sample_context = \<lparr>cc_env = sample_live, cc_args = sample_args,
     cc_route_policy = \<lparr>sp_request_timeout = 60, sp_max_retries = 2, sp_cooldown_seconds = 600, sp_max_consecutive = 2,
       sp_prefer_healthy = True\<rparr>, cc_temperature = 1 / 5\<rparr>"

lemma sample_context: "call_context_of sample_live [] sample_args = Inr sample_context"
  by (simp add: call_context_of_def stage_route_policy_of_def try_sum_def get_of_def get_or_def object_or_empty_def jget_def
      float_of_def int_of_def sample_args_def sample_context_def DEFAULT_ROUTE_COOLDOWN_SECONDS_def
      DEFAULT_MAX_CONSECUTIVE_FAILURES_def)

lemma sample_route: "route_of sample_context ''m'' =
   \<lparr>pr_gateway = ''direct'', pr_provider = ''unknown'', pr_route_model = ''m'', pr_completion_model = None,
    pr_credential_env = None, pr_required_envs = [], pr_api_key_env = None, pr_base_url_env = None,
    pr_base_url_default = None, pr_headers = []\<rparr>"
  by (simp add: route_of_def provider_route_of_def provider_of_def route_model_of_def CREDENTIAL_ENVS_def)

lemma sample_parts:
  "cc_env sample_context = sample_live" "cc_args sample_context = sample_args"
  "request_timeout_of sample_context = 60" "attempts_per_model sample_context = 3"
  "sp_prefer_healthy (cc_route_policy sample_context)"
  by (simp_all add: sample_context_def request_timeout_of_def attempts_per_model_def)

lemma sample_args_parts:
  "ca_models sample_args = [''m'']" "ca_messages sample_args = []" "ca_format sample_args = []"
  "ca_policy sample_args = POLICY_ENFORCE" "ca_validator sample_args = Inr" "ca_stage sample_args = None"
  "ca_options sample_args = None" "ca_metrics sample_args = []"
  by (simp_all add: sample_args_def)

lemma sample_live_parts:
  "lv_getenv sample_live v = None" "lv_now sample_live n x = of_nat n" "lv_ms sample_live n y = 5"
  "lv_complete sample_live n k = Inr (Response_Object [] (Inr (JStr ''{}'')), [])"
  "lv_loads sample_live t = Inr (JObj [])" "he_rules (lv_policy sample_live) = []"
  "he_loads (lv_policy sample_live) t = None" "lv_dumps sample_live j = []"
  by (simp_all add: sample_live_def)

lemmas sample_simps = sample_parts sample_args_parts sample_live_parts

lemma concat_none: "concat (map (\<lambda>_. []) xs) = []"
  by (induction xs) auto

lemma no_rules: "he_rules h = [] \<Longrightarrow> find_policy_claims h t = []"
  by (simp add: concat_none find_policy_claims_def find_policy_findings_def evaluate_text_def evaluate_fragments_def)

lemma sample_body:
  "\<exists>a st. attempt_body sample_context ''m'' ms k s = (Inr a, st) \<and> an_findings a = []"
  by (simp add: attempt_body_def obtain_response_def Let_def response_format_for_route_def response_schema_profile_def
      sample_route load_llm_response_cache_def caching_def store_llm_response_cache_def payload_from_response_def
      content_of_response_def try_sum_def sample_simps no_rules has_prefix_def jget_def json_or_def int_of_def)

lemma sample_answers: "\<exists>r st. call_model_with_fallbacks sample_live [] sample_args sample_start = (Inr r, st)"
proof -
  obtain t where look: "health_of sample_context ''m'' sample_start = (new_route_health ''single'' ''m'' ''unknown'' ''direct'', t)"
    by (simp add: health_of_def route_health_state_def sample_start_def sample_simps sample_route route_health_key_def
        or_str_def Let_def)
  obtain a st where body: "attempt_body sample_context ''m'' [] 1 (sample_start\<lparr>ls_health := t\<rparr>) = (Inr a, st)"
    and clean: "an_findings a = []" using sample_body by blast
  obtain r st' where "finish_answer sample_context ''m'' 0 1 False a st = (Answered r, st')"
    by (simp add: finish_answer_def Let_def sample_simps timeout_overrun_def limit_ms_def int_trunc_def clean
        blocking_findings_def)
  then have "attempt_loop sample_context ''m'' 3 0 [] False (sample_start\<lparr>ls_health := t\<rparr>) = (Answered r, st')"
    using body by (simp add: eval_nat_numeral try_attempt_def sample_start_def)
  then have "models_loop sample_context [''m''] sample_start = (Answered r, st')"
    by (simp add: try_model_def look sample_simps route_cooldown_skip_def cooling_def new_route_health_def
        missing_envs_def sample_route)
  then show ?thesis
    by (simp add: call_model_with_fallbacks_def sample_context sample_simps)
qed

section \<open>Properties\<close>

text \<open>
  C32: the answer of a model call has passed everything that is asked of it.  It comes from one of the
  models given, whose credentials are set; its payload is what the validator makes of the JSON object in
  a response; it came within the time limit of the stage; its findings are those of the policy; none of
  them blocks when the policy is enforced; and the attempt is recorded last, as passed.
\<close>

theorem live_answer_checked:
  assumes "call_model_with_fallbacks env registry args st = (Inr r, st')"
    and "stage_route_policy_of (lv_float env) registry (ca_stage args) = Inr policy"
  shows "pc_model r \<in> set (ca_models args)
    \<and> missing_envs (lv_getenv env) (provider_route_of (lv_getenv env) (pc_model r)) = []
    \<and> (\<exists>response payload. pc_raw r = response_to_dict response \<and> payload_from_response env response = Inr payload
         \<and> ca_validator args payload = Inr (pc_payload r))
    \<and> pc_latency_ms r \<le> limit_ms (sp_request_timeout policy)
    \<and> pc_findings r = find_policy_claims (lv_policy env)
        (lv_dumps env (JObj (policy_scan_payload env (ca_stage args) (pc_payload r))))
    \<and> (ca_policy args = POLICY_ENFORCE \<longrightarrow> blocking_findings (pc_findings r) = [])
    \<and> jget (last (ls_attempts st')) ''status'' = JStr STATUS_PASS"
  using assms(1)
proof (cases rule: call_cases)
  case (configured cx outcome)
  from configured(3) have outcome: "outcome = Answered r" by (auto split: attempt_outcome.splits)
  from configured(1) assms(2) have cx: "cc_env cx = env" "cc_args cx = args" "cc_route_policy cx = policy"
    by (auto dest: call_context_of_parts)
  from models_loop_answers [OF configured(2) [unfolded outcome]] show ?thesis
    by (auto simp: call_answer_ok_def accepted_by_def cx request_timeout_of_def route_of_def)
qed simp

theorem live_answer_checked_witness:
  "\<exists>r st. call_model_with_fallbacks sample_live [] sample_args sample_start = (Inr r, st)
    \<and> pc_model r \<in> {''m''} \<and> pc_latency_ms r \<le> limit_ms 60"
proof -
  obtain r st where call: "call_model_with_fallbacks sample_live [] sample_args sample_start = (Inr r, st)"
    using sample_answers by blast
  moreover have "stage_route_policy_of (lv_float sample_live) [] (ca_stage sample_args) =
      Inr (cc_route_policy sample_context)"
    using call_context_of_parts [OF sample_context] by simp
  from live_answer_checked [OF call this] have "pc_model r \<in> {''m''} \<and> pc_latency_ms r \<le> limit_ms 60"
    using sample_parts(3) by (simp add: sample_args_parts request_timeout_of_def)
  ultimately show ?thesis by blast
qed

text \<open>
  C33: a call sends at most max_retries + 1 requests for each model it is given (for each time it is
  given), none for any other, and so at most that many times the number of models in all; and it only
  adds to the attempts and requests there are.
\<close>

theorem live_requests_bounded:
  assumes "stage_route_policy_of (lv_float env) registry (ca_stage args) = Inr policy"
    and "call_model_with_fallbacks env registry args st = (r, st')"
  shows "\<exists>new sent. ls_attempts st' = ls_attempts st @ new \<and> ls_requests st' = ls_requests st @ sent
    \<and> (\<forall>m. length (filter (\<lambda>q. fst q = m) sent) \<le> count_list (ca_models args) m * nat (sp_max_retries policy + 1))
    \<and> length sent \<le> length (ca_models args) * nat (sp_max_retries policy + 1)"
  using assms(2)
proof (cases rule: call_cases)
  case (configured cx outcome)
  from configured(1) assms(1) have cx: "cc_route_policy cx = policy" by (auto dest: call_context_of_parts)
  from models_loop_sends [of cx "ca_models args" st] configured(2)
  have "sends (repeat_mset (nat (sp_max_retries policy + 1)) (mset (ca_models args))) st st'"
    by (simp add: attempts_per_model_def cx)
  moreover have "\<exists>new. ls_attempts st' = ls_attempts st @ new"
    using appended.models_loop_keeps [of st "ls_attempts st" cx "ca_models args"] configured(2) by simp
  ultimately show ?thesis by (elim sends_bounds) blast
qed simp

theorem live_requests_bounded_witness:
  "\<exists>r st sent. call_model_with_fallbacks sample_live [] sample_args sample_start = (r, st)
    \<and> ls_requests st = sent \<and> length (filter (\<lambda>q. fst q = ''m'') sent) \<le> 3
    \<and> filter (\<lambda>q. fst q = ''other'') sent = []"
proof -
  obtain r st where call: "call_model_with_fallbacks sample_live [] sample_args sample_start = (r, st)"
    by (cases "call_model_with_fallbacks sample_live [] sample_args sample_start")
  have "stage_route_policy_of (lv_float sample_live) [] (ca_stage sample_args) = Inr (cc_route_policy sample_context)"
    using call_context_of_parts [OF sample_context] by simp
  from live_requests_bounded [OF this call] sample_parts(4)
  have bound: "length (filter (\<lambda>q. fst q = m) (ls_requests st)) \<le> count_list [''m''] m * 3" for m
    by (auto simp: attempts_per_model_def sample_args_parts sample_start_def)
  from bound [of "''m''"] bound [of "''other''"] call show ?thesis by simp
qed

text \<open>
  C34: a route in cooldown is left alone.  When the routes that are healthy are preferred and the cooldown
  of a model lasts longer than every look the call takes at it, the call sends no request for that model and
  leaves its health as it is, whatever it does with the other models.
\<close>

theorem cooling_route_left_alone:
  assumes "stage_route_policy_of (lv_float env) registry (ca_stage args) = Inr policy"
    and "sp_prefer_healthy policy"
    and "map_of (ls_health st) (route_health_key (ca_stage args) m) = Some h"
    and "\<And>n. length (ls_attempts st) \<le> n \<Longrightarrow> cooling h (lv_now env n At_Skip)"
    and "call_model_with_fallbacks env registry args st = (r, st')"
  shows "requests_for m st' = requests_for m st
    \<and> map_of (ls_health st') (route_health_key (ca_stage args) m) = Some h"
  using assms(5)
proof (cases rule: call_cases)
  case (configured cx outcome)
  from configured(1) assms(1) have cx: "cc_route_policy cx = policy" "cc_env cx = env" "cc_args cx = args"
    by (auto dest: call_context_of_parts)
  have "call_frame cx (\<lambda>s. quarantined cx m h s \<and> requests_for m s = requests_for m st \<and>
      length (ls_attempts st) \<le> length (ls_attempts s)) (\<lambda>x. x \<noteq> m)"
    by (rule quarantine_frame) (use assms(2,4) cx in auto)
  from call_frame.models_loop_keeps [OF this, of st "ca_models args"] assms(3) configured(2) show ?thesis
    by (simp add: quarantined_def cx)
qed (use assms(3) in simp)

theorem cooling_route_left_alone_witness:
  "\<exists>r st. call_model_with_fallbacks (sample_live\<lparr>lv_now := (\<lambda>_ _. 5)\<rparr>) [] sample_args
      (sample_start\<lparr>ls_health := [((''single'', ''m''), (new_route_health ''single'' ''m'' ''unknown'' ''direct'')
         \<lparr>rh_cooldown_until := Some 10\<rparr>)]\<rparr>) = (r, st) \<and> requests_for ''m'' st = []"
  (is "\<exists>r st. call_model_with_fallbacks ?env [] sample_args ?start = (r, st) \<and> _")
proof -
  let ?h = "(new_route_health ''single'' ''m'' ''unknown'' ''direct'')\<lparr>rh_cooldown_until := Some 10\<rparr>"
  obtain r st where call: "call_model_with_fallbacks ?env [] sample_args ?start = (r, st)"
    by (cases "call_model_with_fallbacks ?env [] sample_args ?start")
  have p: "stage_route_policy_of (lv_float ?env) [] (ca_stage sample_args) = Inr (cc_route_policy sample_context)"
    using call_context_of_parts [OF sample_context] by simp
  have "requests_for ''m'' st = requests_for ''m'' ?start \<and>
      map_of (ls_health st) (route_health_key (ca_stage sample_args) ''m'') = Some ?h"
    by (rule cooling_route_left_alone [OF p _ _ _ call])
      (simp_all add: sample_parts sample_args_parts route_health_key_def or_str_def cooling_def)
  with call show ?thesis by (auto simp: requests_for_def sample_start_def)
qed

text \<open>
  C35: calls keep the health of the routes consistent.  Every route has one entry, under its own stage and
  model; failures are at least the timeouts and the routes not found together, and at least the longest
  row of failures, which is at least the present one; a cooldown is set exactly when one was counted.
\<close>

theorem live_health_consistent:
  assumes "health_table_ok (ls_health st)"
    and "call_model_with_fallbacks env registry args st = (r, st')"
  shows "health_table_ok (ls_health st')"
  using assms(2)
proof (cases rule: call_cases)
  case (configured cx outcome)
  with health.models_loop_keeps [OF assms(1), of cx "ca_models args"] show ?thesis by simp
qed (use assms(1) in simp)

theorem live_health_consistent_witness:
  "health_table_ok (ls_health (snd (call_model_with_fallbacks sample_live [] sample_args sample_start)))"
proof -
  obtain r st where call: "call_model_with_fallbacks sample_live [] sample_args sample_start = (r, st)"
    by (cases "call_model_with_fallbacks sample_live [] sample_args sample_start")
  have "health_table_ok (ls_health sample_start)" by (simp add: sample_start_def health_table_ok_def)
  from live_health_consistent [OF this call] show ?thesis by (simp add: call)
qed

end
