(* ===== verification/Live_Spec.thy ===== *)
theory Live_Spec
  imports Live_Calls
begin

text \<open>
  What the offline workflow asks of a strategy specification and of the payload of a stage (\<open>live.py\<close>):
  sizing a position with the whole account is rewritten to a bounded risk, a missing assumption about
  concentration is added, and a payload that still sizes with the whole account is refused.

  The check of a specification against \<open>strategy-spec.schema.json\<close> (the package \<open>jsonschema\<close>) is an
  argument: the error it raises, if any.
\<close>

section \<open>Phrases\<close>

definition FULL_CAPITAL_POSITION_SIZING_PHRASES :: "string list" where
  "FULL_CAPITAL_POSITION_SIZING_PHRASES = [''100% of available capital'', ''100 percent of available capital'',
     ''all available capital'', ''all capital'', ''entire account'', ''entire account balance'', ''full account'',
     ''full balance'', ''whole account'', ''100% account'', ''100% of account'', ''100% of equity'', ''100% equity'']"

definition BOUNDED_RISK_POSITION_SIZING_PHRASES :: "string list" where
  "BOUNDED_RISK_POSITION_SIZING_PHRASES = [''1%'', ''1 percent'', ''2%'', ''2 percent'', ''fixed risk'',
     ''fixed fractional'', ''fixed units'', ''small-risk'', ''bounded'']"

definition RISK_CONCENTRATION_ASSUMPTION_PHRASES :: "string list" where
  "RISK_CONCENTRATION_ASSUMPTION_PHRASES = [''portfolio heat'', ''exposure'', ''correlated'', ''correlation'', ''leverage'']"

definition DEFAULT_RISK_CONCENTRATION_ASSUMPTION :: string where
  "DEFAULT_RISK_CONCENTRATION_ASSUMPTION =
     ''Assume single-strategy exposure only; cap portfolio heat and correlated positions before any paper or live use.''"

definition BOUNDED_SIZING :: string where
  "BOUNDED_SIZING = ''Risk 1% of account equity per trade.''"

definition BOUNDED_RISK_RULE :: string where
  "BOUNDED_RISK_RULE = ''Use bounded fixed fractional sizing; risk 1% of account equity per trade.''"

section \<open>The text of a specification\<close>

text \<open>\<open>spec.get(key) or []\<close>, iterated.\<close>

definition items_or_none :: "json dict \<Rightarrow> string \<Rightarrow> py_exc + json list" where
  "items_or_none spec k = map_sum exc_of id (py_iter (json_or (jget spec k) (JList [])))"

definition joined_text :: "(json \<Rightarrow> string) \<Rightarrow> json list \<Rightarrow> string" where
  "joined_text repr_of parts = py_lower (py_join '' '' (map (py_str repr_of) (filter json_truthy parts)))"

definition sizing_text :: "(json \<Rightarrow> string) \<Rightarrow> json dict \<Rightarrow> py_exc + string" where
  "sizing_text repr_of spec = map_sum id (\<lambda>rules. joined_text repr_of (jget spec ''position_sizing'' # rules))
     (items_or_none spec ''risk_rules'')"

definition risk_text :: "(json \<Rightarrow> string) \<Rightarrow> json dict \<Rightarrow> py_exc + string" where
  "risk_text repr_of spec = try_sum (items_or_none spec ''risk_rules'') (\<lambda>rules.
     map_sum id (\<lambda>cs. joined_text repr_of (jget spec ''position_sizing'' # rules @ cs)) (items_or_none spec ''constraints''))"

section \<open>Rewriting a specification\<close>

definition sizes_full :: "(json \<Rightarrow> string) \<Rightarrow> json \<Rightarrow> bool" where
  "sizes_full repr_of rule \<longleftrightarrow> has_any FULL_CAPITAL_POSITION_SIZING_PHRASES (py_lower (py_str repr_of rule))"

definition bounded_rules :: "(json \<Rightarrow> string) \<Rightarrow> json \<Rightarrow> json list" where
  "bounded_rules repr_of rules = (case rules of
      JList rs \<Rightarrow>
        (let new = map (\<lambda>r. if sizes_full repr_of r then JStr BOUNDED_RISK_RULE else r) rs
         in if new = rs then new @ [JStr BOUNDED_RISK_RULE] else new)
    | _ \<Rightarrow> [JStr BOUNDED_RISK_RULE])"

definition normalize_full_capital_position_sizing ::
  "(json \<Rightarrow> string) \<Rightarrow> json dict \<Rightarrow> py_exc + json dict \<times> json dict option" where
  "normalize_full_capital_position_sizing repr_of spec =
     try_sum (sizing_text repr_of spec) (\<lambda>t.
       case find (\<lambda>phrase. has_sub phrase t) FULL_CAPITAL_POSITION_SIZING_PHRASES of
         None \<Rightarrow> Inr (spec, None)
       | Some phrase \<Rightarrow>
           Inr (dict_set ''risk_rules'' (JList (bounded_rules repr_of (jget spec ''risk_rules'')))
                  (dict_set ''position_sizing'' (JStr BOUNDED_SIZING) spec),
                Some [(''kind'', JStr ''position_sizing''), (''changed'', JBool True),
                  (''from'', jget spec ''position_sizing''), (''to'', JStr BOUNDED_SIZING),
                  (''matched_phrase'', JStr phrase), (''reason'', JStr ''unsafe_full_capital_position_sizing'')]))"

definition normalize_risk_concentration_assumption ::
  "(json \<Rightarrow> string) \<Rightarrow> json dict \<Rightarrow> py_exc + json dict \<times> json dict option" where
  "normalize_risk_concentration_assumption repr_of spec =
     try_sum (risk_text repr_of spec) (\<lambda>t.
       if \<not> has_any BOUNDED_RISK_POSITION_SIZING_PHRASES t \<or> has_any RISK_CONCENTRATION_ASSUMPTION_PHRASES t
       then Inr (spec, None)
       else Inr (dict_set ''risk_rules''
             (JList ((case jget spec ''risk_rules'' of JList rs \<Rightarrow> rs | _ \<Rightarrow> []) @ [JStr DEFAULT_RISK_CONCENTRATION_ASSUMPTION]))
             spec,
           Some [(''kind'', JStr ''risk_concentration_assumption''), (''changed'', JBool True), (''from'', JNull),
             (''to'', JStr DEFAULT_RISK_CONCENTRATION_ASSUMPTION),
             (''reason'', JStr ''missing_exposure_or_portfolio_heat_assumption'')]))"

definition validate_position_sizing_quality :: "(json \<Rightarrow> string) \<Rightarrow> json dict \<Rightarrow> py_exc + unit" where
  "validate_position_sizing_quality repr_of spec =
     try_sum (sizing_text repr_of spec) (\<lambda>t.
       if has_any FULL_CAPITAL_POSITION_SIZING_PHRASES t
       then Inl (schema_error (''strategy_spec uses unsafe full-capital position sizing; use 1-2% account equity risk per trade, ''
              @ ''fixed units, or another explicitly bounded small-risk model.''))
       else Inr ())"

fun prune_nulls :: "json \<Rightarrow> json" where
  "prune_nulls (JObj d) = JObj (concat (map (\<lambda>(k, v). if v = JNull then [] else [(k, prune_nulls v)]) d))"
| "prune_nulls (JList xs) = JList (map prune_nulls xs)"
| "prune_nulls v = v"

section \<open>The payload of a stage\<close>

text \<open>\<open>payload.setdefault("normalizations", []).append(item)\<close>\<close>

definition add_normalization :: "string \<Rightarrow> json dict option \<Rightarrow> json dict \<Rightarrow> py_exc + json dict" where
  "add_normalization stage normalization payload = (case normalization of
      None \<Rightarrow> Inr payload
    | Some n \<Rightarrow> (case get_or payload ''normalizations'' (JList []) of
        JList items \<Rightarrow> Inr (dict_set ''normalizations'' (JList (items @ [JObj (dict_merge [(''stage'', JStr stage)] n)])) payload)
      | _ \<Rightarrow> Inl (exc_of AttributeError)))"

definition spec_of :: "json \<Rightarrow> py_exc + json dict" where
  "spec_of v = (case v of JObj d \<Rightarrow> Inr d | _ \<Rightarrow> Inl (exc_of AttributeError))"

text \<open>A specification, rewritten and checked, and the payload with a note of each rewriting.\<close>

definition checked_spec ::
  "(json \<Rightarrow> py_exc option) \<Rightarrow> (json \<Rightarrow> string) \<Rightarrow> string \<Rightarrow> json \<Rightarrow> json dict \<Rightarrow> py_exc + json dict \<times> json dict" where
  "checked_spec schema_check repr_of stage given payload =
     try_sum (spec_of (prune_nulls given)) (\<lambda>spec.
     try_sum (normalize_full_capital_position_sizing repr_of spec) (\<lambda>(spec, sizing).
     try_sum (add_normalization stage sizing payload) (\<lambda>payload.
     try_sum (normalize_risk_concentration_assumption repr_of spec) (\<lambda>(spec, concentration).
     try_sum (add_normalization stage concentration payload) (\<lambda>payload.
     case schema_check (JObj spec) of
       Some e \<Rightarrow> Inl e
     | None \<Rightarrow> try_sum (validate_position_sizing_quality repr_of spec) (\<lambda>_. Inr (spec, payload)))))))"

definition validate_spec_of ::
  "live_env \<Rightarrow> (json \<Rightarrow> py_exc option) \<Rightarrow> string \<Rightarrow> json dict \<Rightarrow> py_exc + json dict" where
  "validate_spec_of env schema_check stage payload =
     try_sum (subscript env (JObj payload) ''output'') (\<lambda>output.
     try_sum (subscript env output ''strategy_spec'') (\<lambda>given.
     map_sum id (\<lambda>(spec, payload).
         dict_set ''output'' (JObj (dict_set ''strategy_spec'' (JObj spec) (object_or_empty output))) payload)
       (checked_spec schema_check (lv_repr env) stage given payload)))"

definition missing_key :: "json dict \<Rightarrow> string list \<Rightarrow> string option" where
  "missing_key payload ks = find (\<lambda>k. dict_get payload k = None) ks"

definition validate_stage_payload ::
  "live_env \<Rightarrow> (json \<Rightarrow> py_exc option) \<Rightarrow> string \<Rightarrow> json dict \<Rightarrow> py_exc + json dict" where
  "validate_stage_payload env schema_check stage payload =
     (if jget payload ''stage'' \<noteq> JStr stage
      then Inl (response_error (''Provider response must identify stage '' @ stage @ ''.''))
      else case missing_key payload [''output'', ''assumptions'', ''handoff_notes'', ''policy_observations''] of
        Some k \<Rightarrow> Inl (response_error (''Provider response for '' @ stage @ '' must include '' @ k @ ''.''))
      | None \<Rightarrow>
         try_sum (if stage \<in> {STAGE_STRATEGY_CODING, STAGE_REPAIR} then validate_spec_of env schema_check stage payload
                  else Inr payload) (\<lambda>payload.
           if stage \<in> {STAGE_PINE_CODE_GENERATION, STAGE_REPAIR}
           then (case jget payload ''output'' of
               JObj output \<Rightarrow> if json_truthy (jget output ''pine_code'') then Inr payload
                 else Inl (response_error (''Provider response for '' @ stage @ '' must include pine_code.''))
             | _ \<Rightarrow> Inl (exc_of AttributeError))
           else Inr payload))"

definition validate_single_payload ::
  "live_env \<Rightarrow> (json \<Rightarrow> py_exc option) \<Rightarrow> json dict \<Rightarrow> py_exc + json dict" where
  "validate_single_payload env schema_check payload =
     (if missing_key payload [''strategy_spec'', ''pine_code''] \<noteq> None
      then Inl (response_error ''Provider response must include strategy_spec and pine_code.'')
      else try_sum (checked_spec schema_check (lv_repr env) ''single'' (jget payload ''strategy_spec'') payload)
        (\<lambda>(spec, payload). let payload = dict_set ''strategy_spec'' (JObj spec) payload in
          case jget payload ''pine_code'' of
            JStr code \<Rightarrow> if py_strip code \<noteq> [] then Inr payload
              else Inl (schema_error ''Provider response must include non-empty pine_code.'')
          | _ \<Rightarrow> Inl (schema_error ''Provider response must include non-empty pine_code.'')))"

end
