(* ===== verification/Live_Spec_Claims.thy ===== *)
theory Live_Spec_Claims
  imports Live_Spec Live_Claims
begin

text \<open>
  Properties of the rewriting and the check of a strategy specification: what an accepted one says about
  risk, that checking it again changes nothing, and a text that is rewritten although it is harmless.
\<close>

section \<open>Phrases in joined texts\<close>

lemma has_sub_mid: "has_sub p t \<Longrightarrow> has_sub p (a @ t @ b)"
  unfolding has_sub_iff by (metis append.assoc)

lemma has_any_mid: "has_any ps t \<Longrightarrow> has_any ps (a @ t @ b)"
  unfolding has_any_def list_ex_iff by (blast intro: has_sub_mid)

lemma py_join_member: "x \<in> set xs \<Longrightarrow> \<exists>a b. py_join sep xs = a @ x @ b"
proof (induction sep xs rule: py_join.induct)
  case (3 sep y z xs)
  show ?case
  proof (cases "x = y")
    case True
    then show ?thesis by (intro exI [of _ "[]"] exI [of _ "sep @ py_join sep (z # xs)"]) simp
  next
    case False
    with 3 obtain a b where "py_join sep (z # xs) = a @ x @ b" by auto
    then show ?thesis by (intro exI [of _ "y @ sep @ a"] exI [of _ b]) simp
  qed
qed (auto intro: exI [of _ "[]"])

lemma joined_text_member:
  assumes "JStr t \<in> set parts" "t \<noteq> []" "has_any ps (py_lower t)"
  shows "has_any ps (joined_text repr_of parts)"
proof -
  from assms(1,2) have "t \<in> set (map (py_str repr_of) (filter json_truthy parts))"
    by (force simp: py_str_def)
  from py_join_member [OF this, of "'' ''"] obtain a b where
    "py_join '' '' (map (py_str repr_of) (filter json_truthy parts)) = a @ t @ b" by blast
  then show ?thesis using has_any_mid [OF assms(3)] by (simp add: joined_text_def py_lower_def)
qed

lemma default_assumption_names_exposure:
  "has_any RISK_CONCENTRATION_ASSUMPTION_PHRASES (py_lower DEFAULT_RISK_CONCENTRATION_ASSUMPTION)"
  by code_simp

section \<open>Pruned values\<close>

fun null_free :: "json \<Rightarrow> bool" where
  "null_free (JObj d) = list_all (\<lambda>(k, v). v \<noteq> JNull \<and> null_free v) d"
| "null_free (JList xs) = list_all null_free xs"
| "null_free v = True"

lemma prune_nulls_null_free: "null_free (prune_nulls v)"
proof (induction v rule: prune_nulls.induct)
  case (1 d)
  have "prune_nulls v \<noteq> JNull" if "v \<noteq> JNull" for v using that by (cases v) auto
  with 1 show ?case by (auto simp: list_all_iff split: if_splits)
qed (auto simp: list_all_iff)

lemma null_free_prune: "null_free v \<Longrightarrow> prune_nulls v = v"
proof (induction v rule: null_free.induct)
  case (1 d)
  then have "concat (map (\<lambda>(k, v). if v = JNull then [] else [(k, prune_nulls v)]) d) = concat (map (\<lambda>kv. [kv]) d)"
    by (intro arg_cong [of _ _ concat] map_cong) (auto simp: list_all_iff)
  then show ?case by simp
qed (auto simp: list_all_iff intro: map_idI)

lemma null_free_set:
  assumes "null_free (JObj d)" "v \<noteq> JNull" "null_free v"
  shows "null_free (JObj (dict_set k v d))"
  using assms by (auto simp: list_all_iff dest!: dict_set_set_in)

lemma null_free_get: "null_free (JObj d) \<Longrightarrow> null_free (jget d k)"
  by (auto simp: jget_def list_all_iff split: option.split dest: dict_get_in)

lemma bounded_rules_null_free: "null_free v \<Longrightarrow> list_all null_free (bounded_rules repr_of v)"
  by (cases v) (auto simp: bounded_rules_def Let_def list_all_iff)

lemma normalize_full_null_free:
  assumes "normalize_full_capital_position_sizing repr_of spec = Inr (spec', n)" "null_free (JObj spec)"
  shows "null_free (JObj spec')"
proof -
  have "null_free (JObj (dict_set ''position_sizing'' (JStr BOUNDED_SIZING) spec))"
    by (rule null_free_set [OF assms(2)]) simp_all
  then have "null_free (JObj (dict_set ''risk_rules'' (JList (bounded_rules repr_of (jget spec ''risk_rules'')))
      (dict_set ''position_sizing'' (JStr BOUNDED_SIZING) spec)))"
    by (rule null_free_set) (simp_all add: bounded_rules_null_free [OF null_free_get [OF assms(2)]])
  with assms show ?thesis
    by (auto simp: normalize_full_capital_position_sizing_def try_sum_def split: sum.splits option.splits)
qed

lemma normalize_concentration_null_free:
  assumes "normalize_risk_concentration_assumption repr_of spec = Inr (spec', n)" "null_free (JObj spec)"
  shows "null_free (JObj spec')"
proof -
  have "list_all null_free (case jget spec ''risk_rules'' of JList rs \<Rightarrow> rs | _ \<Rightarrow> [])"
    using null_free_get [OF assms(2), of "''risk_rules''"] by (cases "jget spec ''risk_rules''") simp_all
  then have "null_free (JObj (dict_set ''risk_rules''
      (JList ((case jget spec ''risk_rules'' of JList rs \<Rightarrow> rs | _ \<Rightarrow> []) @ [JStr DEFAULT_RISK_CONCENTRATION_ASSUMPTION])) spec))"
    by (intro null_free_set [OF assms(2)]) simp_all
  with assms show ?thesis
    by (auto simp: normalize_risk_concentration_assumption_def try_sum_def split: sum.splits if_splits)
qed

section \<open>What is accepted\<close>

lemma risk_text_parts:
  "risk_text repr_of spec = Inr u \<longleftrightarrow>
   (\<exists>rules cs. items_or_none spec ''risk_rules'' = Inr rules \<and> items_or_none spec ''constraints'' = Inr cs
      \<and> u = joined_text repr_of (jget spec ''position_sizing'' # rules @ cs))"
  by (auto simp: risk_text_def try_sum_def map_sum_def split: sum.splits)

text \<open>After the second rewriting a bounded risk comes with an assumption about concentration.\<close>

lemma concentration_assumed:
  assumes "normalize_risk_concentration_assumption repr_of spec = Inr (spec', n)"
  shows "\<exists>u. risk_text repr_of spec' = Inr u
    \<and> (has_any BOUNDED_RISK_POSITION_SIZING_PHRASES u \<longrightarrow> has_any RISK_CONCENTRATION_ASSUMPTION_PHRASES u)"
proof -
  from assms obtain t where t: "risk_text repr_of spec = Inr t"
    by (auto simp: normalize_risk_concentration_assumption_def try_sum_def split: sum.splits)
  then obtain rules cs where parts: "items_or_none spec ''risk_rules'' = Inr rules" "items_or_none spec ''constraints'' = Inr cs"
    unfolding risk_text_parts by blast
  show ?thesis
  proof (cases "\<not> has_any BOUNDED_RISK_POSITION_SIZING_PHRASES t \<or> has_any RISK_CONCENTRATION_ASSUMPTION_PHRASES t")
    case True
    with assms t have "spec' = spec" by (simp add: normalize_risk_concentration_assumption_def try_sum_def)
    with t True show ?thesis by blast
  next
    case False
    define new where "new = (case jget spec ''risk_rules'' of JList rs \<Rightarrow> rs | _ \<Rightarrow> []) @ [JStr DEFAULT_RISK_CONCENTRATION_ASSUMPTION]"
    from False assms t have spec': "spec' = dict_set ''risk_rules'' (JList new) spec"
      by (simp add: normalize_risk_concentration_assumption_def try_sum_def new_def)
    have "items_or_none spec' ''risk_rules'' = Inr new" "items_or_none spec' ''constraints'' = Inr cs"
      "jget spec' ''position_sizing'' = jget spec ''position_sizing''"
      using parts by (simp_all add: spec' items_or_none_def jget_def json_or_def py_iter_def new_def)
    then have "risk_text repr_of spec' = Inr (joined_text repr_of (jget spec ''position_sizing'' # new @ cs))"
      unfolding risk_text_parts by auto
    moreover have "has_any RISK_CONCENTRATION_ASSUMPTION_PHRASES (joined_text repr_of (jget spec ''position_sizing'' # new @ cs))"
      by (rule joined_text_member [OF _ _ default_assumption_names_exposure])
        (auto simp: new_def DEFAULT_RISK_CONCENTRATION_ASSUMPTION_def)
    ultimately show ?thesis by blast
  qed
qed

lemma checked_spec_facts:
  assumes "checked_spec schema_check repr_of stage given payload = Inr (spec, payload')"
  shows "schema_check (JObj spec) = None"
    and "\<exists>t. sizing_text repr_of spec = Inr t \<and> \<not> has_any FULL_CAPITAL_POSITION_SIZING_PHRASES t"
    and "\<exists>u. risk_text repr_of spec = Inr u
      \<and> (has_any BOUNDED_RISK_POSITION_SIZING_PHRASES u \<longrightarrow> has_any RISK_CONCENTRATION_ASSUMPTION_PHRASES u)"
    and "null_free (JObj spec)"
proof -
  from assms obtain d spec1 spec2 n1 n2 where steps: "spec_of (prune_nulls given) = Inr d"
      "normalize_full_capital_position_sizing repr_of d = Inr (spec1, n1)"
      "normalize_risk_concentration_assumption repr_of spec1 = Inr (spec2, n2)"
    and last: "spec2 = spec" "schema_check (JObj spec2) = None"
      "validate_position_sizing_quality repr_of spec2 = Inr ()"
    by (auto simp: checked_spec_def try_sum_def split: sum.splits option.splits)
  from last show "schema_check (JObj spec) = None" by simp
  from last show "\<exists>t. sizing_text repr_of spec = Inr t \<and> \<not> has_any FULL_CAPITAL_POSITION_SIZING_PHRASES t"
    by (auto simp: validate_position_sizing_quality_def try_sum_def split: sum.splits if_splits)
  from concentration_assumed [OF steps(3)] last show
    "\<exists>u. risk_text repr_of spec = Inr u
      \<and> (has_any BOUNDED_RISK_POSITION_SIZING_PHRASES u \<longrightarrow> has_any RISK_CONCENTRATION_ASSUMPTION_PHRASES u)" by simp
  from steps(1) prune_nulls_null_free [of given] have "null_free (JObj d)"
    by (cases "prune_nulls given") (auto simp: spec_of_def)
  with normalize_full_null_free [OF steps(2)] normalize_concentration_null_free [OF steps(3)] last(1)
  show "null_free (JObj spec)" by simp
qed

lemma find_some: "p \<in> set ps \<Longrightarrow> has_sub p t \<Longrightarrow> \<exists>q. find (\<lambda>p. has_sub p t) ps = Some q"
  by (cases "find (\<lambda>p. has_sub p t) ps") (auto simp: find_None_iff)

text \<open>A phrase that is not there leaves the specification as it is.\<close>

lemma find_none: "\<not> has_any ps t \<Longrightarrow> find (\<lambda>p. has_sub p t) ps = None"
  by (auto simp: has_any_def find_None_iff list_ex_iff)

lemma rewritings_unneeded:
  assumes "sizing_text repr_of spec = Inr t" "\<not> has_any FULL_CAPITAL_POSITION_SIZING_PHRASES t"
    and "risk_text repr_of spec = Inr u"
    and "has_any BOUNDED_RISK_POSITION_SIZING_PHRASES u \<longrightarrow> has_any RISK_CONCENTRATION_ASSUMPTION_PHRASES u"
    and "null_free (JObj spec)" "schema_check (JObj spec) = None"
  shows "checked_spec schema_check repr_of stage (JObj spec) q = Inr (spec, q)"
proof -
  have "normalize_full_capital_position_sizing repr_of spec = Inr (spec, None)"
    unfolding normalize_full_capital_position_sizing_def try_sum_def assms(1)
    by (simp only: find_none [OF assms(2)] sum.case option.case)
  moreover have "normalize_risk_concentration_assumption repr_of spec = Inr (spec, None)"
    using assms(3,4) by (auto simp: normalize_risk_concentration_assumption_def try_sum_def)
  moreover have "validate_position_sizing_quality repr_of spec = Inr ()"
    using assms(1,2) by (simp add: validate_position_sizing_quality_def try_sum_def)
  moreover have "spec_of (prune_nulls (JObj spec)) = Inr spec"
    unfolding null_free_prune [OF assms(5)] spec_of_def by simp
  ultimately show ?thesis
    using assms(6) unfolding checked_spec_def by (simp add: try_sum_def add_normalization_def)
qed

lemma checked_spec_again:
  assumes "checked_spec schema_check repr_of stage given payload = Inr (spec, payload')"
  shows "checked_spec schema_check repr_of stage' (JObj spec) q = Inr (spec, q)"
  using checked_spec_facts [OF assms] by (blast intro: rewritings_unneeded)

lemma validate_spec_of_result:
  assumes "validate_spec_of env schema_check stage payload = Inr checked"
  obtains out spec given payload' where "jget checked ''output'' = JObj out" "jget out ''strategy_spec'' = JObj spec"
    "checked_spec schema_check (lv_repr env) stage given payload = Inr (spec, payload')"
  using assms
  by (auto simp: validate_spec_of_def try_sum_def map_sum_def jget_def split: sum.splits prod.splits)

section \<open>Properties\<close>

text \<open>
  C36: the payload of a coding or repair stage is accepted only with a specification that satisfies the
  schema and whose sizing text and risk rules have none of the phrases for the whole account; and when
  they speak of a bounded risk, they or the constraints speak of concentration too.
\<close>

theorem accepted_spec_bounded:
  assumes "validate_stage_payload env schema_check stage payload = Inr checked"
    and "stage \<in> {STAGE_STRATEGY_CODING, STAGE_REPAIR}"
  shows "\<exists>out spec t u. jget checked ''output'' = JObj out \<and> jget out ''strategy_spec'' = JObj spec
    \<and> schema_check (JObj spec) = None
    \<and> sizing_text (lv_repr env) spec = Inr t \<and> \<not> has_any FULL_CAPITAL_POSITION_SIZING_PHRASES t
    \<and> risk_text (lv_repr env) spec = Inr u
    \<and> (has_any BOUNDED_RISK_POSITION_SIZING_PHRASES u \<longrightarrow> has_any RISK_CONCENTRATION_ASSUMPTION_PHRASES u)"
proof -
  from assms obtain q where q: "validate_spec_of env schema_check stage payload = Inr q" and "checked = q"
    by (auto simp: validate_stage_payload_def try_sum_def split: if_splits sum.splits option.splits json.splits)
  from validate_spec_of_result [OF q] obtain out spec given payload' where
    "jget q ''output'' = JObj out" "jget out ''strategy_spec'' = JObj spec"
    "checked_spec schema_check (lv_repr env) stage given payload = Inr (spec, payload')" .
  with checked_spec_facts [OF this(3)] \<open>checked = q\<close> show ?thesis by blast
qed

text \<open>
  Checking an accepted specification again changes nothing: it is accepted as it is, and no further
  rewriting is noted in the payload.
\<close>

theorem accepted_spec_stable:
  assumes "checked_spec schema_check repr_of stage given payload = Inr (spec, payload')"
  shows "checked_spec schema_check repr_of stage' (JObj spec) other = Inr (spec, other)"
  by (rule checked_spec_again [OF assms])

text \<open>
  C37: the phrases are searched as parts of words, so a text about small capital counts as one about all
  capital: whenever the sizing text has the words "small capital" the sizing is replaced.
\<close>

theorem small_capital_rewritten:
  assumes "sizing_text repr_of spec = Inr (before @ ''small capital'' @ after)"
  shows "\<exists>spec' n. normalize_full_capital_position_sizing repr_of spec = Inr (spec', Some n)
    \<and> jget spec' ''position_sizing'' = JStr BOUNDED_SIZING"
proof -
  have "has_sub ''all capital'' (before @ ''small capital'' @ after)"
    by (rule has_sub_mid) code_simp
  moreover have "''all capital'' \<in> set FULL_CAPITAL_POSITION_SIZING_PHRASES"
    by (simp add: FULL_CAPITAL_POSITION_SIZING_PHRASES_def)
  ultimately obtain phrase where
    "find (\<lambda>p. has_sub p (before @ ''small capital'' @ after)) FULL_CAPITAL_POSITION_SIZING_PHRASES = Some phrase"
    using find_some by blast
  with assms show ?thesis
    by (simp add: normalize_full_capital_position_sizing_def try_sum_def jget_def)
qed

section \<open>A concrete specification\<close>

definition sample_spec :: "json dict" where
  "sample_spec = [(''position_sizing'', JStr ''for small capital''), (''risk_rules'', JList [])]"

definition sample_repr :: "json \<Rightarrow> string" where
  "sample_repr v = ''value''"

definition plain_spec :: "json dict" where
  "plain_spec = [(''risk_rules'', JList [])]"

definition sample_payload :: "json dict" where
  "sample_payload = [(''stage'', JStr STAGE_REPAIR),
     (''output'', JObj [(''strategy_spec'', JObj plain_spec), (''pine_code'', JStr ''code'')]),
     (''assumptions'', JList []), (''handoff_notes'', JStr []), (''policy_observations'', JList [])]"

lemma sample_sizing: "sizing_text sample_repr sample_spec = Inr (''for '' @ ''small capital'' @ [])"
  by code_simp

lemma plain_checked: "checked_spec (\<lambda>_. None) repr_of stage (JObj plain_spec) p = Inr (plain_spec, p)"
proof -
  have texts: "sizing_text repr_of plain_spec = Inr []" "risk_text repr_of plain_spec = Inr []"
    by (simp_all add: sizing_text_def risk_text_def items_or_none_def plain_spec_def jget_def json_or_def py_iter_def
        joined_text_def py_lower_def try_sum_def)
  have "\<not> has_any FULL_CAPITAL_POSITION_SIZING_PHRASES []" "\<not> has_any BOUNDED_RISK_POSITION_SIZING_PHRASES []"
    by (simp_all add: has_any_def FULL_CAPITAL_POSITION_SIZING_PHRASES_def BOUNDED_RISK_POSITION_SIZING_PHRASES_def)
  moreover have "null_free (JObj plain_spec)" by (simp add: plain_spec_def)
  ultimately show ?thesis using texts by (intro rewritings_unneeded) auto
qed

lemma sample_accepted:
  "\<exists>q. validate_stage_payload sample_live (\<lambda>_. None) STAGE_REPAIR sample_payload = Inr q"
  by (simp add: validate_stage_payload_def sample_payload_def jget_def missing_key_def validate_spec_of_def subscript_def
      plain_checked try_sum_def object_or_empty_def)

theorem accepted_spec_bounded_witness:
  "\<exists>q out spec. validate_stage_payload sample_live (\<lambda>_. None) STAGE_REPAIR sample_payload = Inr q
    \<and> jget q ''output'' = JObj out \<and> jget out ''strategy_spec'' = JObj spec"
proof -
  obtain q where q: "validate_stage_payload sample_live (\<lambda>_. None) STAGE_REPAIR sample_payload = Inr q"
    using sample_accepted by blast
  from accepted_spec_bounded [OF q] show ?thesis using q by auto
qed

theorem accepted_spec_stable_witness:
  "checked_spec (\<lambda>_. None) sample_repr STAGE_REPAIR (JObj plain_spec) [] = Inr (plain_spec, [])"
  by (rule accepted_spec_stable [OF plain_checked])

theorem small_capital_rewritten_witness:
  "\<exists>spec' n. normalize_full_capital_position_sizing sample_repr sample_spec = Inr (spec', Some n)
    \<and> jget spec' ''position_sizing'' = JStr BOUNDED_SIZING"
  by (rule small_capital_rewritten [OF sample_sizing])

end
