(* ===== verification/Live_Pine.thy ===== *)
theory Live_Pine
  imports Live_Spec
begin

text \<open>
  Pine code in the offline workflow: the static validation (\<open>validate_pine\<close> of \<open>pine.py\<close>), the rules for
  prompts that want price action only, and the rewritings of generated code (\<open>live.py\<close>).  The regular
  expressions are written out as functions of the text.
\<close>

section \<open>Patterns\<close>

text \<open>
  \<open>\bname\s*\(\<close>: the position of the first call of a name, and the position after its bracket.  \<open>inside\<close>
  says that the character before is part of a word.
\<close>

fun find_call :: "string \<Rightarrow> nat \<Rightarrow> bool \<Rightarrow> string \<Rightarrow> (nat \<times> nat) option" where
  "find_call name pos inside [] = None"
| "find_call name pos inside (c # t) =
     (let rest = drop (length name) (c # t); spaces = takeWhile is_space rest
      in if \<not> inside \<and> has_prefix name (c # t) \<and> has_prefix ''('' (drop (length spaces) rest)
         then Some (pos, pos + length name + length spaces + 1)
         else find_call name (Suc pos) (is_word c) t)"

definition calls_fn :: "string \<Rightarrow> string \<Rightarrow> bool" where
  "calls_fn name code \<longleftrightarrow> find_call name 0 False code \<noteq> None"

text \<open>\<open>offset\s*=\s*-\d+\<close>\<close>

definition negative_offset_at :: "string \<Rightarrow> bool" where
  "negative_offset_at t \<longleftrightarrow> has_prefix ''offset'' t \<and>
     (let t = dropWhile is_space (drop 6 t)
      in has_prefix ''='' t \<and>
        (let t = dropWhile is_space (drop 1 t)
         in has_prefix ''-'' t \<and> (case drop 1 t of d # _ \<Rightarrow> is_digit d | [] \<Rightarrow> False)))"

fun has_negative_offset :: "string \<Rightarrow> bool" where
  "has_negative_offset [] = False"
| "has_negative_offset (c # t) = (negative_offset_at (c # t) \<or> has_negative_offset t)"

function replace_all :: "string \<Rightarrow> string \<Rightarrow> string \<Rightarrow> string" where
  "replace_all old new [] = []"
| "replace_all old new (c # t) =
     (if old \<noteq> [] \<and> has_prefix old (c # t) then new @ replace_all old new (drop (length old) (c # t))
      else c # replace_all old new t)"
  by pat_completeness auto
termination by (relation "measure (\<lambda>(_, _, t). length t)") auto

function count_sub :: "string \<Rightarrow> string \<Rightarrow> nat" where
  "count_sub p [] = 0"
| "count_sub p (c # t) =
     (if p \<noteq> [] \<and> has_prefix p (c # t) then Suc (count_sub p (drop (length p) (c # t))) else count_sub p t)"
  by pat_completeness auto
termination by (relation "measure (\<lambda>(_, t). length t)") auto

text \<open>\<open>splitlines\<close>: the line breaks, of which a return and a newline together are one.\<close>

definition is_break :: "char \<Rightarrow> bool" where
  "is_break c = (let n = (of_char c :: nat) in (10 \<le> n \<and> n \<le> 13) \<or> (28 \<le> n \<and> n \<le> 30) \<or> n = 133)"

fun split_lines :: "string \<Rightarrow> string \<Rightarrow> string list" where
  "split_lines acc [] = (if acc = [] then [] else [rev acc])"
| "split_lines acc (c # t) =
     (if is_break c
      then rev acc # split_lines [] (if c = CHR 0x0D \<and> has_prefix [CHR 0x0A] t then tl t else t)
      else split_lines (c # acc) t)"

section \<open>Static validation\<close>

definition check_json :: "check_entry \<Rightarrow> json" where
  "check_json c = JObj [(''name'', JStr (check_name c)), (''status'', JStr (check_status c)), (''details'', JStr (check_details c))]"

definition next_actions :: "string \<Rightarrow> string list" where
  "next_actions status =
     (if status = ''pass'' then [''Run manual TradingView validation before claiming compile or backtest success.'']
      else if status = ''manual_required'' then [''Review warnings manually in TradingView.'']
      else [''Fix failing static validation checks before manual TradingView testing.''])"

definition declaration_check :: "json \<Rightarrow> string \<Rightarrow> check_entry" where
  "declaration_check expected code =
     (if expected = JStr ''strategy'' then validation_check ''script_type'' (calls_fn ''strategy'' code) ''Expected strategy() declaration.''
      else if expected = JStr ''indicator''
      then validation_check ''script_type'' (calls_fn ''indicator'' code) ''Expected indicator() declaration.''
      else check_entry_of ''script_type'' ''manual_required'' ''Pine validator does not validate MQL5 Expert Advisor scripts.'')"

definition repaint_findings :: "string \<Rightarrow> string list" where
  "repaint_findings code =
     (if has_sub ''lookahead_on'' code then [''Uses lookahead_on, which can repaint.''] else [])
     @ (if has_negative_offset code then [''Uses a negative offset, which may imply future-looking plots.''] else [])
     @ (if has_sub ''barstate.isrealtime'' code \<and> \<not> has_sub ''barstate.isconfirmed'' code
        then [''Uses realtime barstate logic without a confirmed-bar guard.''] else [])"

definition risk_check :: "json dict \<Rightarrow> check_entry" where
  "risk_check spec = (if jget spec ''script_type'' = JStr ''strategy''
     then validation_check ''risk_assumptions''
       (json_truthy (jget spec ''risk_rules'')
        \<and> list_ex (\<lambda>k. json_truthy (jget spec k)) [''position_sizing'', ''stop_loss'', ''take_profit''])
       ''Strategy spec should include position sizing, stop loss, or take profit assumptions.''
     else check_entry_of ''risk_assumptions'' ''skipped'' ''Risk assumptions are only required for Pine strategies.'')"

definition pine_warnings :: "string \<Rightarrow> json dict \<Rightarrow> string list" where
  "pine_warnings code spec =
     (if has_sub ''request.security'' code \<and> \<not> has_sub ''lookahead'' code
      then [''request.security appears without an explicit lookahead setting; review manually for repaint behavior.''] else [])
     @ (if jget spec ''script_type'' = JStr ''strategy'' \<and> \<not> has_sub ''strategy.exit'' code
        then [''strategy.exit is missing; stop-loss/take-profit behavior may be incomplete.''] else [])"

definition pine_checks :: "string \<Rightarrow> json dict \<Rightarrow> check_entry list" where
  "pine_checks code spec =
     [validation_check ''version_header'' (has_prefix ''//@version=6'' (dropWhile is_space code))
        ''Pine script must start with //@version=6.'',
      declaration_check (jget spec ''script_type'') code,
      validation_check ''repaint_hazards'' (repaint_findings code = [])
        (if repaint_findings code = [] then ''No obvious repaint hazards found.'' else py_join ''; '' (repaint_findings code)),
      risk_check spec]"

definition pine_status :: "string \<Rightarrow> json dict \<Rightarrow> string" where
  "pine_status code spec =
     (let status = aggregate_status (map check_status (pine_checks code spec))
      in if pine_warnings code spec \<noteq> [] \<and> status = ''pass'' then ''manual_required'' else status)"

text \<open>The script type is looked up with \<open>spec["script_type"]\<close>, after the first check.\<close>

definition validate_pine :: "string \<Rightarrow> json dict \<Rightarrow> py_exc + json dict" where
  "validate_pine code spec =
     (if dict_get spec ''script_type'' = None then Inl (exc ''KeyError'' (quoted ''script_type''))
      else Inr [(''platform'', JStr ''pine_v6''), (''status'', JStr (pine_status code spec)),
        (''checks'', JList (map check_json (pine_checks code spec))),
        (''evidence'', JList [JStr ''static-pine-validator'']), (''warnings'', texts_json (pine_warnings code spec)),
        (''next_actions'', texts_json (next_actions (pine_status code spec)))])"

section \<open>What a validation says\<close>

text \<open>\<open>validation_failures\<close> and \<open>validation_allows_artifact\<close> of \<open>evaluator_optimizer.py\<close>; a check is an object.\<close>

definition check_failure :: "json dict \<Rightarrow> json dict list" where
  "check_failure check =
     (if jget check ''status'' \<in> {JStr STATUS_PASS, JStr STATUS_SKIPPED} then []
      else [[(''name'', jget check ''name''), (''status'', jget check ''status''), (''details'', jget check ''details'')]])"

definition checks_of :: "json dict \<Rightarrow> json dict list" where
  "checks_of validation = (case jget validation ''checks'' of JList cs \<Rightarrow> map object_or_empty cs | _ \<Rightarrow> [])"

definition validation_failures :: "json dict \<Rightarrow> json dict list" where
  "validation_failures validation = concat (map check_failure (checks_of validation))"

definition validation_allows_artifact :: "json dict \<Rightarrow> bool" where
  "validation_allows_artifact validation \<longleftrightarrow> jget validation ''status'' = JStr STATUS_PASS
     \<or> (jget validation ''status'' = JStr ''manual_required'' \<and> validation_failures validation = [])"

section \<open>Prompts that want price action only\<close>

definition PRICE_ACTION_ONLY_PROMPT_TERMS :: "string list" where
  "PRICE_ACTION_ONLY_PROMPT_TERMS = [''price action only'', ''no indicator'', ''no indicators'', ''without indicator'',
     ''without indicators'']"

definition PRICE_ACTION_PROMPT_TERMS :: "string list" where
  "PRICE_ACTION_PROMPT_TERMS = [''price action'', ''liquidity sweep'', ''sweep'', ''break of structure'', ''bos'', ''retest'']"

definition PRICE_ACTION_FORBIDDEN_PINE_TERMS :: "string dict" where
  "PRICE_ACTION_FORBIDDEN_PINE_TERMS = [(''ta.atr'', ''ATR''), (''ta.sma'', ''moving average''), (''ta.ema'', ''moving average''),
     (''ta.wma'', ''moving average''), (''ta.rma'', ''moving average''), (''ta.rsi'', ''RSI''), (''ta.macd'', ''MACD''),
     (''ta.stoch'', ''stochastic'')]"

definition PRICE_ACTION_ALLOWED_CONSTRAINT :: string where
  "PRICE_ACTION_ALLOWED_CONSTRAINT =
     ''Price-action-only prompt: do not use ATR, moving averages, RSI, MACD, stochastic, or other indicator transforms ''
     @ ''unless the prompt explicitly allows them. Use only OHLC-derived swing levels, pivots, support/resistance, wick/close, ''
     @ ''sweep, reclaim, BOS/retest, and structure conditions.''"

definition prompt_requests_price_action_only :: "string \<Rightarrow> bool" where
  "prompt_requests_price_action_only prompt \<longleftrightarrow>
     has_any PRICE_ACTION_ONLY_PROMPT_TERMS (py_lower prompt) \<and> has_any PRICE_ACTION_PROMPT_TERMS (py_lower prompt)"

definition prompt_requests_both_platforms :: "string \<Rightarrow> bool" where
  "prompt_requests_both_platforms prompt \<longleftrightarrow>
     (let t = py_lower prompt
      in has_sub ''both-platform'' t \<or> has_sub ''both platform'' t \<or> (has_sub ''pine'' t \<and> has_sub ''mql5'' t)
         \<or> (has_sub ''tradingview'' t \<and> has_sub ''metatrader'' t))"

definition price_action_forbidden_indicator_findings :: "string \<Rightarrow> string \<Rightarrow> json dict list" where
  "price_action_forbidden_indicator_findings prompt code =
     (if \<not> prompt_requests_price_action_only prompt then []
      else map (\<lambda>(token, label). [(''name'', JStr ''price_action_only_indicators''), (''status'', JStr STATUS_FAIL),
          (''details'', JStr (''Price-action-only prompt forbids '' @ label @ ''; remove `'' @ token
            @ ''` and use OHLC-derived structure instead.''))])
        (filter (\<lambda>(token, label). has_sub token (py_lower code)) PRICE_ACTION_FORBIDDEN_PINE_TERMS))"

definition list_of :: "json \<Rightarrow> json list" where
  "list_of v = (case v of JList xs \<Rightarrow> xs | _ \<Rightarrow> [])"

definition apply_price_action_validation :: "string \<Rightarrow> string \<Rightarrow> json dict \<Rightarrow> json dict" where
  "apply_price_action_validation prompt code validation =
     (let findings = price_action_forbidden_indicator_findings prompt code
      in if findings = [] then validation
         else dict_set ''next_actions'' (JList (list_of (get_or validation ''next_actions'' (JList []))
                @ map (\<lambda>f. jget f ''details'') findings))
             (set_default ''warnings'' (JList [])
             (dict_set ''status'' (JStr STATUS_FAIL)
             (dict_set ''checks'' (JList (list_of (jget validation ''checks'') @ map JObj findings)) validation))))"

section \<open>Rewriting generated code\<close>

text \<open>
  \<open>^(?://\s*)?@version=6(?P<rest>\s+.+|(?:strategy|indicator|library)\s*\(.*)?$\<close> on a line without white
  space around it: the rest after the version when the line matches, with no rest as the empty text.
\<close>

definition version_rest :: "string \<Rightarrow> string option" where
  "version_rest t =
     (let body = (if has_prefix ''//'' t then dropWhile is_space (drop 2 t) else t)
      in if \<not> has_prefix ''@version=6'' body then None
         else let rest = drop 10 body
              in if rest = [] then Some []
                 else if is_space (hd rest) then Some rest
                 else if list_ex (\<lambda>name. has_prefix name rest
                     \<and> has_prefix ''('' (dropWhile is_space (drop (length name) rest))) [''strategy'', ''indicator'', ''library'']
                 then Some rest else None)"

definition is_version_line :: "string \<Rightarrow> bool" where
  "is_version_line line \<longleftrightarrow>
     (let t = py_strip line in has_prefix ''//@version='' t \<or> has_prefix ''// @version='' t \<or> has_prefix ''@version='' t)"

definition index_of :: "('a \<Rightarrow> bool) \<Rightarrow> 'a list \<Rightarrow> nat option" where
  "index_of P xs = (let i = length (takeWhile (\<lambda>x. \<not> P x) xs) in if i < length xs then Some i else None)"

definition unchanged :: "string \<Rightarrow> string \<Rightarrow> json dict" where
  "unchanged kind reason = [(''kind'', JStr kind), (''changed'', JBool False), (''reason'', JStr reason)]"

definition joined_lines :: "string \<Rightarrow> string list \<Rightarrow> string" where
  "joined_lines code ls = py_join [CHR 0x0A] ls @ (if code \<noteq> [] \<and> last code = CHR 0x0A then [CHR 0x0A] else [])"

definition normalize_pine_version_header :: "string \<Rightarrow> string \<times> json dict" where
  "normalize_pine_version_header code =
     (let ls = split_lines [] code
      in if length (filter is_version_line ls) \<noteq> 1
         then (code, unchanged ''pine_version_header'' ''missing_or_multiple_version_directives'')
         else let i = the (index_of is_version_line ls); stripped = py_strip (ls ! i)
              in case version_rest stripped of
                   None \<Rightarrow> (code, unchanged ''pine_version_header'' ''version_directive_not_v6'')
                 | Some rest \<Rightarrow>
                    (let fixed = stripped \<noteq> ''//@version=6'';
                         fixed_entry = (if fixed then [(''fixed_missing_comment_prefix'', JBool True)] else []);
                         split_entry = (if rest = [] then [] else [(''split_inline_code'', JBool True)]);
                         ls = take i ls @ [''//@version=6''] @ (if rest = [] then [] else [py_strip rest]) @ drop (Suc i) ls;
                         first = (case index_of (\<lambda>l. py_strip l \<noteq> []) ls of Some j \<Rightarrow> j | None \<Rightarrow> 0)
                     in if i = first
                        then (if fixed \<or> rest \<noteq> []
                              then (joined_lines code ls, [(''kind'', JStr ''pine_version_header''), (''changed'', JBool True)]
                                @ fixed_entry @ split_entry @ [(''reason'', JStr ''already_first_non_empty'')])
                              else (code, unchanged ''pine_version_header'' ''already_first_non_empty''))
                        else (joined_lines code ((''//@version=6'') # take i ls @ drop (Suc i) ls),
                          [(''kind'', JStr ''pine_version_header''), (''changed'', JBool True)] @ fixed_entry @ split_entry
                          @ [(''from_line'', JInt (int i + 1)), (''to_line'', JInt 1)])))"

definition normalize_script_declaration_for_strategy_spec :: "string \<Rightarrow> json dict \<Rightarrow> string \<times> json dict" where
  "normalize_script_declaration_for_strategy_spec code spec =
     (if jget spec ''script_type'' \<noteq> JStr ''strategy'' then (code, unchanged ''script_declaration'' ''strategy_spec_not_strategy'')
      else if calls_fn ''strategy'' code then (code, unchanged ''script_declaration'' ''strategy_declaration_present'')
      else case find_call ''indicator'' 0 False code of
          None \<Rightarrow> (code, unchanged ''script_declaration'' ''indicator_declaration_not_found'')
        | Some (start, stop) \<Rightarrow>
            (take start code @ ''strategy'' @ drop (stop - 1) code,
             [(''kind'', JStr ''script_declaration''), (''changed'', JBool True), (''from'', JStr ''indicator''),
              (''to'', JStr ''strategy''), (''reason'', JStr ''script_type_strategy_requires_strategy_declaration'')]))"

definition normalize_repaint_lookahead :: "string \<Rightarrow> string \<times> json dict" where
  "normalize_repaint_lookahead code =
     (if \<not> has_sub ''barmerge.lookahead_on'' code then (code, unchanged ''repaint_lookahead_on_to_off'' ''no_lookahead_on'')
      else (replace_all ''barmerge.lookahead_on'' ''barmerge.lookahead_off'' code,
        [(''kind'', JStr ''repaint_lookahead_on_to_off''), (''changed'', JBool True),
         (''replacement_count'', JInt (int (count_sub ''barmerge.lookahead_on'' code)))]))"

text \<open>The three rewritings in turn, with the actions that changed something.\<close>

definition changed_action :: "json dict \<Rightarrow> json dict list" where
  "changed_action action = (if json_truthy (jget action ''changed'') then [action] else [])"

definition normalize_live_pine :: "string \<Rightarrow> json dict \<Rightarrow> string \<times> json dict list" where
  "normalize_live_pine code spec =
     (let (code, a) = normalize_pine_version_header code;
          (code, b) = normalize_repaint_lookahead code;
          (code, c) = normalize_script_declaration_for_strategy_spec code spec
      in (code, changed_action a @ changed_action b @ changed_action c))"

section \<open>The template for price action\<close>

definition price_action_pine_needs_template_repair :: "string \<Rightarrow> string \<Rightarrow> bool" where
  "price_action_pine_needs_template_repair prompt code \<longleftrightarrow>
     prompt_requests_price_action_only prompt \<and>
     (\<not> has_sub ''strategy.entry'' (py_lower code) \<or> \<not> has_sub ''strategy.exit'' (py_lower code)
      \<or> has_any (map fst PRICE_ACTION_FORBIDDEN_PINE_TERMS) (py_lower code))"

text \<open>Runs of returns, newlines and tabs become one space; backslashes and quotes are escaped.\<close>

fun one_space :: "bool \<Rightarrow> string \<Rightarrow> string" where
  "one_space inside [] = []"
| "one_space inside (c # t) =
     (if c \<in> {CHR 0x0D, CHR 0x0A, CHR 0x09} then (if inside then one_space True t else CHR '' '' # one_space True t)
      else c # one_space False t)"

definition escape_char :: "char \<Rightarrow> string" where
  "escape_char c = (if c = CHR 0x5C then [CHR 0x5C, CHR 0x5C] else if c = CHR 0x22 then [CHR 0x5C, CHR 0x22] else [c])"

definition pine_string_literal :: "string \<Rightarrow> string" where
  "pine_string_literal value =
     (let t = first_n 80 (concat (map escape_char (py_strip (one_space False value))))
      in if t = [] then ''Price Action Liquidity Sweep'' else t)"

definition template_head :: "string list" where
  "template_head =
     [''//@version=6'',
      ''// Backtest-only research script. Validate manually in TradingView before any live use.'',
      ''// Market premise: price action liquidity sweep in a range-to-breakout regime during liquid sessions; avoid low-liquidity chop and failed reclaim conditions.'',
      ''// Invalidation: the swept wick or structure level fails; target uses opposing structure or bounded reward/risk fallback.'']"

definition template_declaration :: "string \<Rightarrow> string" where
  "template_declaration title = ''strategy('' @ [CHR 0x22] @ title @ [CHR 0x22]
     @ '', overlay=true, pyramiding=0, initial_capital=10000, commission_type=strategy.commission.percent, commission_value=0.1, default_qty_type=strategy.fixed, default_qty_value=1)''"

text \<open>A line of the template, with \<open>~\<close> for the quotes it has.\<close>

definition template_body :: "string list" where
  "template_body = map (replace_char (CHR ''~'') (CHR 0x22))
     ['''',
      ''lookback = input.int(20, ~Structure lookback~, minval=5, maxval=100)'',
      ''sweepBufferPct = input.float(0.10, ~Sweep buffer %~, minval=0.0, step=0.01) / 100.0'',
      ''stopBufferPct = input.float(0.05, ~Stop buffer %~, minval=0.0, step=0.01) / 100.0'',
      ''riskPct = input.float(1.0, ~Equity risk %~, minval=0.1, maxval=2.0, step=0.1) / 100.0'',
      ''rrFallback = input.float(1.5, ~Fallback reward/risk~, minval=0.5, step=0.1)'',
      '''',
      ''float priorHigh = na'',
      ''float priorLow = na'',
      ''if bar_index > lookback'',
      ''    priorHigh := high[1]'',
      ''    priorLow := low[1]'',
      ''    for i = 2 to lookback'',
      ''        priorHigh := math.max(priorHigh, high[i])'',
      ''        priorLow := math.min(priorLow, low[i])'',
      '''',
      ''longSweep = barstate.isconfirmed and strategy.position_size == 0 and not na(priorLow) and low < priorLow * (1.0 - sweepBufferPct) and close > priorLow'',
      ''shortSweep = barstate.isconfirmed and strategy.position_size == 0 and not na(priorHigh) and high > priorHigh * (1.0 + sweepBufferPct) and close < priorHigh'',
      '''',
      ''if longSweep'',
      ''    entryPrice = close'',
      ''    stopPrice = low * (1.0 - stopBufferPct)'',
      ''    riskPerUnit = entryPrice - stopPrice'',
      ''    structureTarget = not na(priorHigh) and priorHigh > entryPrice ? priorHigh : na'',
      ''    riskTarget = entryPrice + riskPerUnit * rrFallback'',
      ''    targetPrice = not na(structureTarget) ? math.min(structureTarget, riskTarget) : riskTarget'',
      ''    qty = riskPerUnit > syminfo.mintick ? (strategy.equity * riskPct) / riskPerUnit : na'',
      ''    if not na(qty) and qty > 0'',
      ''        strategy.entry(~Long Sweep~, strategy.long, qty=qty)'',
      ''        strategy.exit(~Long Risk Exit~, ~Long Sweep~, stop=stopPrice, limit=targetPrice)'',
      '''',
      ''if shortSweep'',
      ''    entryPrice = close'',
      ''    stopPrice = high * (1.0 + stopBufferPct)'',
      ''    riskPerUnit = stopPrice - entryPrice'',
      ''    structureTarget = not na(priorLow) and priorLow < entryPrice ? priorLow : na'',
      ''    riskTarget = entryPrice - riskPerUnit * rrFallback'',
      ''    targetPrice = not na(structureTarget) ? math.max(structureTarget, riskTarget) : riskTarget'',
      ''    qty = riskPerUnit > syminfo.mintick ? (strategy.equity * riskPct) / riskPerUnit : na'',
      ''    if not na(qty) and qty > 0'',
      ''        strategy.entry(~Short Sweep~, strategy.short, qty=qty)'',
      ''        strategy.exit(~Short Risk Exit~, ~Short Sweep~, stop=stopPrice, limit=targetPrice)'',
      '''',
      ''plot(priorHigh, ~Prior structure high~, color=color.new(color.red, 0), linewidth=1)'',
      ''plot(priorLow, ~Prior structure low~, color=color.new(color.green, 0), linewidth=1)'',
      '''']"

definition deterministic_price_action_pine :: "(json \<Rightarrow> string) \<Rightarrow> json dict \<Rightarrow> string" where
  "deterministic_price_action_pine repr_of spec =
     py_join [CHR 0x0A] (template_head
       @ [template_declaration (pine_string_literal
            (py_str repr_of (json_or (jget spec ''name'') (JStr ''Price Action Liquidity Sweep''))))]
       @ template_body)"

definition template_action :: "string \<Rightarrow> string \<Rightarrow> json \<Rightarrow> json dict" where
  "template_action code stage repair_iteration =
     [(''kind'', JStr ''price_action_template_repair''), (''changed'', JBool True), (''stage'', JStr stage),
      (''repair_iteration'', repair_iteration), (''reason'', JStr ''price_action_only_output_incomplete_or_indicator_based''),
      (''missing_strategy_entry'', JBool (\<not> has_sub ''strategy.entry'' code)),
      (''missing_strategy_exit'', JBool (\<not> has_sub ''strategy.exit'' code)),
      (''forbidden_indicators'', texts_json (filter (\<lambda>token. has_sub token (py_lower code))
         (map fst PRICE_ACTION_FORBIDDEN_PINE_TERMS)))]"

section \<open>Rewriting a specification for the prompt\<close>

definition stamped :: "string \<Rightarrow> json \<Rightarrow> json dict" where
  "stamped stage repair_iteration = [(''stage'', JStr stage), (''repair_iteration'', repair_iteration)]"

definition normalize_target_platform ::
  "string \<Rightarrow> json dict \<Rightarrow> string \<Rightarrow> json \<Rightarrow> json dict \<times> json dict list" where
  "normalize_target_platform prompt spec stage repair_iteration =
     (if \<not> prompt_requests_both_platforms prompt \<or> jget spec ''target_platform'' = JStr ''both'' then (spec, [])
      else let d = set_default ''constraints'' (JList []) (dict_set ''target_platform'' (JStr ''both'') spec)
           in (case jget d ''constraints'' of
                 JList cs \<Rightarrow> dict_set ''constraints''
                   (JList (cs @ [JStr ''MQL5 output is design-only and requires manual MetaTrader validation.''])) d
               | _ \<Rightarrow> d,
               [[(''kind'', JStr ''target_platform''), (''changed'', JBool True), (''from'', jget spec ''target_platform''),
                 (''to'', JStr ''both'')] @ stamped stage repair_iteration
                @ [(''reason'', JStr ''prompt_requests_both_platforms'')]]))"

definition normalize_script_type ::
  "string \<Rightarrow> json dict \<Rightarrow> string \<Rightarrow> json \<Rightarrow> json dict \<times> json dict list" where
  "normalize_script_type prompt spec stage repair_iteration =
     (if \<not> has_sub ''strategy'' (py_lower prompt) \<or> jget spec ''script_type'' = JStr ''strategy'' then (spec, [])
      else (dict_set ''script_type'' (JStr ''strategy'') spec,
        [[(''kind'', JStr ''script_type''), (''changed'', JBool True), (''from'', jget spec ''script_type''),
          (''to'', JStr ''strategy'')] @ stamped stage repair_iteration
         @ [(''reason'', JStr ''prompt_requests_strategy_script'')]]))"

definition PRICE_ACTION_ADDITIONS :: "string list" where
  "PRICE_ACTION_ADDITIONS = [PRICE_ACTION_ALLOWED_CONSTRAINT,
     ''Market premise: use the setup only in a defined trend/range/volatility or liquidity regime; avoid low-liquidity chop and repeated failed reclaims.'',
     ''Define swing highs/lows explicitly with confirmed OHLC pivots or prior structure levels; avoid future-looking entries.'',
     ''Define sweep buffer, reclaim close, stop beyond swept wick/level, and structure target or bounded risk-reward fallback.'']"

definition normalize_price_action_constraints ::
  "string \<Rightarrow> json dict \<Rightarrow> string \<Rightarrow> json \<Rightarrow> py_exc + json dict \<times> json dict list" where
  "normalize_price_action_constraints prompt spec stage repair_iteration =
     (if \<not> prompt_requests_price_action_only prompt then Inr (spec, [])
      else map_sum id (\<lambda>constraints.
          let missing = filter (\<lambda>a. JStr a \<notin> set constraints) PRICE_ACTION_ADDITIONS
          in if missing = [] then (spec, [])
             else (dict_set ''constraints'' (JList (constraints @ map JStr missing)) spec,
               [[(''kind'', JStr ''price_action_constraints''), (''changed'', JBool True)] @ stamped stage repair_iteration
                @ [(''reason'', JStr ''prompt_requests_price_action_only''), (''added'', texts_json PRICE_ACTION_ADDITIONS)]]))
        (items_or_none spec ''constraints''))"

end
