(* ===== verification/Live_Gates.thy ===== *)
theory Live_Gates
  imports Live_Pine
begin

text \<open>
  The gates of the offline workflow (\<open>live.py\<close>): when a repair is required, what a static review says, how
  a review is aligned with the validation, the generation and production gates, and the summary of the
  repair loop (\<open>evaluator_optimizer.py\<close>).  The output of a review is any JSON value, since the payload of a
  review is checked only for its keys.
\<close>

section \<open>Required fixes\<close>

definition BLOCKER_TERMS :: "string list" where
  "BLOCKER_TERMS = [''strategy.exit'', ''stop loss'', ''stop-loss'', ''take profit'', ''take-profit'', ''schema'',
     ''static validation'', ''version_header'', ''pine version'', ''policy'', ''guaranteed'', ''risk-free'', ''no-loss'',
     ''broker'', ''live ready'', ''live-ready'', ''live execution'']"

text \<open>\<open>required_fix.lower()\<close> needs a text.\<close>

definition required_fix_blocks_production :: "json \<Rightarrow> py_exc + bool" where
  "required_fix_blocks_production fix = (case fix of
      JStr t \<Rightarrow> Inr (has_any BLOCKER_TERMS (py_lower t)) | _ \<Rightarrow> Inl (exc_of AttributeError))"

fun any_blocks :: "json list \<Rightarrow> py_exc + bool" where
  "any_blocks [] = Inr False"
| "any_blocks (f # fs) = try_sum (required_fix_blocks_production f) (\<lambda>b. if b then Inr True else any_blocks fs)"

text \<open>\<open>review.get(key, default)\<close> of a review that may be no object.\<close>

definition review_get :: "json \<Rightarrow> string \<Rightarrow> json \<Rightarrow> py_exc + json" where
  "review_get review k dflt = (case review of JObj d \<Rightarrow> Inr (get_or d k dflt) | _ \<Rightarrow> Inl (exc_of AttributeError))"

definition required_fixes_of :: "json \<Rightarrow> py_exc + json list" where
  "required_fixes_of review = try_sum (review_get review ''required_fixes'' (JList [])) (\<lambda>v. map_sum exc_of id (py_iter v))"

definition requires_repair :: "json dict \<Rightarrow> json \<Rightarrow> py_exc + bool" where
  "requires_repair validation review =
     (if \<not> validation_allows_artifact validation then Inr True
      else try_sum (review_get review ''verdict'' JNull) (\<lambda>verdict.
        if verdict = JStr STATUS_FAIL then Inr True
        else try_sum (required_fixes_of review) any_blocks))"

section \<open>Reviews\<close>

definition fix_text :: "(json \<Rightarrow> string) \<Rightarrow> json dict \<Rightarrow> json" where
  "fix_text repr_of failure = JStr (py_str repr_of (jget failure ''name'') @ '': '' @ py_str repr_of (jget failure ''details''))"

definition review_payload :: "(json \<Rightarrow> string) \<Rightarrow> json dict list \<Rightarrow> string \<Rightarrow> string \<Rightarrow> string \<Rightarrow> json dict" where
  "review_payload repr_of failures rationale assumption notes =
     [(''stage'', JStr STAGE_BALANCED_REVIEW),
      (''output'', JObj [(''verdict'', JStr (if failures = [] then STATUS_PASS else ''needs_fix'')),
         (''required_fixes'', JList (map (fix_text repr_of) failures)), (''rationale'', JStr rationale)]),
      (''assumptions'', JList [JStr assumption]), (''handoff_notes'', JStr notes), (''policy_observations'', JList [])]"

definition static_review_payload :: "(json \<Rightarrow> string) \<Rightarrow> json dict \<Rightarrow> string \<Rightarrow> json dict" where
  "static_review_payload repr_of validation reason =
     review_payload repr_of (validation_failures validation)
       (''Deterministic static review used because '' @ reason @ ''; static validation remains authoritative.'')
       ''No provider review content was used for this local static review decision.'' ''review_static_validation_fallback''"

text \<open>
  A review that passes although the validation has failures is turned into one that asks for fixes, and the
  change is noted.
\<close>

definition align_review_with_validation ::
  "(json \<Rightarrow> string) \<Rightarrow> json \<Rightarrow> json dict \<Rightarrow> string \<Rightarrow> json \<Rightarrow> py_exc + json \<times> json dict list" where
  "align_review_with_validation repr_of review validation stage repair_iteration =
     (let failures = validation_failures validation
      in if failures = [] then Inr (review, [])
         else try_sum (review_get review ''required_fixes'' JNull) (\<lambda>fixes.
           try_sum (map_sum exc_of id (py_iter (json_or fixes (JList [])))) (\<lambda>required_fixes.
           let d = object_or_empty review; verdict = jget d ''verdict'';
               missing_fixes = map (fix_text repr_of) (filter (\<lambda>f. json_truthy (jget f ''name'')) failures)
           in if verdict \<noteq> JStr STATUS_PASS \<and> required_fixes \<noteq> [] then Inr (review, [])
              else let d = dict_set ''verdict'' (JStr ''needs_fix'') d;
                       d = dict_set ''required_fixes'' (JList (if required_fixes \<noteq> [] then required_fixes else missing_fixes)) d;
                       d = (if json_truthy (jget d ''rationale'') then d else dict_set ''rationale''
                         (JStr ''Static validation failures require fixes before the artifact can pass review.'') d)
                   in Inr (JObj d,
                     [[(''kind'', JStr ''balanced_review_validation_alignment''), (''changed'', JBool True), (''from'', verdict),
                       (''to'', JStr ''needs_fix'')] @ stamped stage repair_iteration
                      @ [(''reason'', JStr ''static_validation_failed_review_cannot_pass''),
                         (''validation_failures'', JList (map JObj failures))]]))))"

section \<open>Gates\<close>

definition final_gate_failure_class :: "json dict \<Rightarrow> json \<Rightarrow> string" where
  "final_gate_failure_class validation review =
     (let verdict = jget (object_or_empty review) ''verdict''
      in if jget validation ''status'' \<noteq> JStr STATUS_PASS \<and> verdict = JStr STATUS_PASS
         then FAILURE_REVIEW_VALIDATION_DISAGREEMENT
         else if jget validation ''status'' \<noteq> JStr STATUS_PASS then FAILURE_STATIC_VALIDATION_FAILED
         else FAILURE_REVIEW_FAILED)"

definition generation_gate :: "json dict \<Rightarrow> json dict" where
  "generation_gate validation =
     (let failures = JList (map JObj (validation_failures validation))
      in [(''status'', JStr (if validation_allows_artifact validation then STATUS_PASS else STATUS_FAIL)),
          (''validation_status'', jget validation ''status''), (''validation_failures'', failures),
          (''blocking_validation_checks'', failures)])"

definition severity_of :: "string dict \<Rightarrow> string option" where
  "severity_of f = dict_get f ''severity''"

fun blocking_fixes :: "json list \<Rightarrow> py_exc + json list" where
  "blocking_fixes [] = Inr []"
| "blocking_fixes (f # fs) = try_sum (required_fix_blocks_production f) (\<lambda>b.
     map_sum id (\<lambda>rest. if b then f # rest else rest) (blocking_fixes fs))"

definition production_gate :: "json dict \<Rightarrow> json \<Rightarrow> string dict list \<Rightarrow> int \<Rightarrow> py_exc + json dict" where
  "production_gate validation review found repair_count =
     try_sum (review_get review ''required_fixes'' (JList [])) (\<lambda>given.
     try_sum (required_fixes_of review) (\<lambda>required_fixes.
     try_sum (blocking_fixes required_fixes) (\<lambda>blocking.
     let warnings = filter (\<lambda>f. \<not> list_ex (\<lambda>b. json_eq f b) blocking) required_fixes;
         policy_warnings = filter (\<lambda>f. severity_of f = Some ''warn'') found;
         policy_blocks = blocking_findings found;
         verdict = jget (object_or_empty review) ''verdict''
     in Inr [(''status'', JStr (if validation_allows_artifact validation \<and> verdict \<noteq> JStr STATUS_FAIL
               \<and> blocking = [] \<and> policy_blocks = [] then STATUS_PASS else STATUS_FAIL)),
             (''validation_status'', jget validation ''status''),
             (''blocking_validation_checks'', JList (map JObj (validation_failures validation))),
             (''review_verdict'', verdict), (''required_fixes'', given),
             (''blocking_required_fixes'', JList blocking), (''warning_required_fixes'', JList warnings),
             (''policy_warning_count'', JInt (int (length policy_warnings))),
             (''policy_block_count'', JInt (int (length policy_blocks))), (''repair_count'', JInt repair_count)])))"

section \<open>The summary of the repair loop\<close>

definition REPAIR_SOURCE_LLM :: string where "REPAIR_SOURCE_LLM = ''llm''"
definition REPAIR_SOURCE_DETERMINISTIC :: string where "REPAIR_SOURCE_DETERMINISTIC = ''deterministic''"
definition REPAIR_SOURCE_UNKNOWN :: string where "REPAIR_SOURCE_UNKNOWN = ''unknown''"
definition BLOCKING_POLICY_SEVERITIES :: "string list" where "BLOCKING_POLICY_SEVERITIES = [''block'', ''blocker'']"
definition REVIEW_BLOCKING_STATUSES :: "string list" where
  "REVIEW_BLOCKING_STATUSES = [STATUS_FAIL, ''failed'', ''needs_fix'', ''changes_requested'', ''blocked'']"

definition nonnegative_int :: "json \<Rightarrow> int" where
  "nonnegative_int v = (case int_of v of Inl e \<Rightarrow> 0 | Inr i \<Rightarrow> max 0 i)"

definition source_of :: "(json \<Rightarrow> string) \<Rightarrow> json dict \<Rightarrow> string" where
  "source_of repr_of entry =
     (let source = py_str repr_of (json_or (jget entry ''repair_source'') (JStr []));
          source = (if source = [] \<and> jget entry ''stage'' = JStr ''compact_free_validation_repair''
            then REPAIR_SOURCE_LLM else source)
      in if source \<in> {REPAIR_SOURCE_LLM, REPAIR_SOURCE_DETERMINISTIC} then source else REPAIR_SOURCE_UNKNOWN)"

definition repair_source_mix :: "(json \<Rightarrow> string) \<Rightarrow> json dict list \<Rightarrow> int \<Rightarrow> int \<Rightarrow> int \<Rightarrow> int dict" where
  "repair_source_mix repr_of history repair_count llm deterministic =
     (let times = (\<lambda>s. int (length (filter (\<lambda>e. source_of repr_of e = s) history)));
          llm = max (times REPAIR_SOURCE_LLM) (max 0 llm);
          det = max (times REPAIR_SOURCE_DETERMINISTIC) (max 0 deterministic);
          unknown = times REPAIR_SOURCE_UNKNOWN; known = llm + det + unknown
      in [(REPAIR_SOURCE_LLM, llm), (REPAIR_SOURCE_DETERMINISTIC, det),
          (REPAIR_SOURCE_UNKNOWN, if repair_count > known then unknown + (repair_count - known) else unknown)])"

definition evaluator_review_status :: "(json \<Rightarrow> string) \<Rightarrow> json dict \<Rightarrow> json dict \<Rightarrow> string option" where
  "evaluator_review_status repr_of review gate =
     (let v = foldr (\<lambda>kd v. json_or (jget (snd kd) (fst kd)) v)
            [(''verdict'', review), (''decision'', review), (''run_status'', review), (''review_verdict'', gate)]
            (jget gate ''review_decision'')
      in if json_truthy v then Some (py_str repr_of v) else None)"

definition policy_finding_blocks :: "string dict \<Rightarrow> bool" where
  "policy_finding_blocks f \<longleftrightarrow> py_lower (case severity_of f of None \<Rightarrow> [] | Some s \<Rightarrow> s) \<in> set BLOCKING_POLICY_SEVERITIES"

definition evaluator_stop_reason ::
  "json dict \<Rightarrow> string option \<Rightarrow> json dict \<Rightarrow> string dict list \<Rightarrow> bool \<Rightarrow> string" where
  "evaluator_stop_reason validation review_status gate findings exhausted =
     (if list_ex policy_finding_blocks findings then ''policy_blocked''
      else if exhausted then ''repair_budget_exhausted''
      else if validation \<noteq> [] \<and> \<not> validation_allows_artifact validation then ''validation_blocked''
      else if jget gate ''status'' = JStr STATUS_FAIL
      then if py_lower (or_str review_status []) \<in> set REVIEW_BLOCKING_STATUSES \<or> json_truthy (jget gate ''blocking_required_fixes'')
           then ''review_blocked'' else ''production_gate_failed''
      else if jget gate ''status'' = JStr STATUS_PASS then ''production_gate_passed'' else ''completed'')"

end
