(* ===== verification/Live_Pine_Claims.thy ===== *)
theory Live_Pine_Claims
  imports Live_Gates Live_Spec_Claims Tool_Claims
begin

text \<open>
  Properties of the static validation and of the gates: when generated code is an artifact, that the
  condition of the repair loop and the production gate agree, and that a review cannot pass what the
  validation refuses.
\<close>

section \<open>Checks and failures\<close>

abbreviation excused :: "check_entry \<Rightarrow> bool" where
  "excused c \<equiv> check_status c \<in> {STATUS_PASS, STATUS_SKIPPED}"

lemma check_json_failure: "check_failure (object_or_empty (check_json c)) = [] \<longleftrightarrow> excused c"
  by (simp add: check_failure_def check_json_def object_or_empty_def jget_def)

lemma failures_of_checks:
  assumes "jget v ''checks'' = JList (map check_json cs)"
  shows "validation_failures v = [] \<longleftrightarrow> list_all excused cs"
  using assms check_json_failure by (auto simp: validation_failures_def checks_of_def list_all_iff)

lemma failures_append:
  assumes "jget v ''checks'' = JList cs" "jget w ''checks'' = JList (cs @ map JObj ds)"
  shows "validation_failures w = validation_failures v @ concat (map check_failure ds)"
  using assms by (simp add: validation_failures_def checks_of_def object_or_empty_def comp_def)

text \<open>What the four checks ask of the code and the specification.\<close>

definition declares :: "json \<Rightarrow> string \<Rightarrow> bool" where
  "declares expected code \<longleftrightarrow> (expected = JStr ''strategy'' \<and> calls_fn ''strategy'' code)
     \<or> (expected = JStr ''indicator'' \<and> calls_fn ''indicator'' code)"

definition states_risk :: "json dict \<Rightarrow> bool" where
  "states_risk spec \<longleftrightarrow> json_truthy (jget spec ''risk_rules'')
     \<and> list_ex (\<lambda>k. json_truthy (jget spec k)) [''position_sizing'', ''stop_loss'', ''take_profit'']"

definition versioned :: "string \<Rightarrow> bool" where
  "versioned code \<longleftrightarrow> has_prefix ''//@version=6'' (dropWhile is_space code)"

lemma declaration_status:
  "check_status (declaration_check expected code) =
     (if expected \<in> {JStr ''strategy'', JStr ''indicator''} then if declares expected code then ''pass'' else ''fail''
      else ''manual_required'')"
  by (auto simp: declaration_check_def declares_def)

lemma risk_status:
  "check_status (risk_check spec) =
     (if jget spec ''script_type'' = JStr ''strategy'' then if states_risk spec then ''pass'' else ''fail'' else ''skipped'')"
  by (simp add: risk_check_def states_risk_def)

lemma pine_statuses:
  "map check_status (pine_checks code spec) =
     [if versioned code then ''pass'' else ''fail'', check_status (declaration_check (jget spec ''script_type'') code),
      if repaint_findings code = [] then ''pass'' else ''fail'', check_status (risk_check spec)]"
  by (simp add: pine_checks_def versioned_def)

lemma pine_allows:
  assumes "validate_pine code spec = Inr v"
  shows "validation_allows_artifact v \<longleftrightarrow> list_all (\<lambda>s. s \<in> {''pass'', ''skipped''}) (map check_status (pine_checks code spec))"
proof -
  let ?cs = "pine_checks code spec" let ?ss = "map check_status ?cs"
  from assms have status: "jget v ''status'' = JStr (pine_status code spec)"
    and checks: "jget v ''checks'' = JList (map check_json ?cs)"
    by (auto simp: validate_pine_def jget_def split: if_splits)
  have failures: "validation_failures v = [] \<longleftrightarrow> list_all (\<lambda>s. s \<in> {''pass'', ''skipped''}) ?ss"
    unfolding failures_of_checks [OF checks] by (auto simp: list_all_iff STATUS_PASS_def STATUS_SKIPPED_def)
  have three: "aggregate_status ?ss = ''pass'' \<longrightarrow> list_all (\<lambda>s. s \<in> {''pass'', ''skipped''}) ?ss"
    "list_all (\<lambda>s. s \<in> {''pass'', ''skipped''}) ?ss \<longrightarrow> aggregate_status ?ss = ''pass''"
    unfolding pine_statuses declaration_status risk_status by (auto simp: aggregate_status_def)
  show ?thesis
    using three failures
    by (auto simp: validation_allows_artifact_def status pine_status_def Let_def STATUS_PASS_def split: if_splits)
qed

lemma pine_allows_parts:
  assumes "validate_pine code spec = Inr v"
  shows "validation_allows_artifact v \<longleftrightarrow> versioned code \<and> declares (jget spec ''script_type'') code
    \<and> repaint_findings code = [] \<and> (jget spec ''script_type'' = JStr ''strategy'' \<longrightarrow> states_risk spec)"
  unfolding pine_allows [OF assms] pine_statuses declaration_status risk_status
  by (auto simp: declares_def)

lemma price_action_allows:
  assumes "jget v ''checks'' = JList cs"
  shows "validation_allows_artifact (apply_price_action_validation prompt code v) \<longleftrightarrow>
    validation_allows_artifact v \<and> price_action_forbidden_indicator_findings prompt code = []"
proof (cases "price_action_forbidden_indicator_findings prompt code")
  case Nil
  then show ?thesis by (simp add: apply_price_action_validation_def)
next
  case (Cons f fs)
  then have "jget (apply_price_action_validation prompt code v) ''status'' = JStr STATUS_FAIL"
    by (simp add: apply_price_action_validation_def Let_def jget_def set_default_def split: option.split)
  with Cons show ?thesis by (simp add: validation_allows_artifact_def STATUS_FAIL_def STATUS_PASS_def)
qed

section \<open>Properties\<close>

text \<open>
  C38: the static validation lets generated code through exactly when it starts with the version line,
  declares the script type of the specification, has none of the repaint hazards, a strategy states a
  bounded risk, and no indicator is used where the prompt wants price action only.  Warnings never block,
  and a script that is neither a strategy nor an indicator never passes.
\<close>

theorem pine_allowed_iff:
  assumes "validate_pine code spec = Inr v"
  shows "validation_allows_artifact (apply_price_action_validation prompt code v) \<longleftrightarrow>
    versioned code \<and> declares (jget spec ''script_type'') code \<and> repaint_findings code = []
    \<and> (jget spec ''script_type'' = JStr ''strategy'' \<longrightarrow> states_risk spec)
    \<and> price_action_forbidden_indicator_findings prompt code = []"
proof -
  from assms have "jget v ''checks'' = JList (map check_json (pine_checks code spec))"
    by (auto simp: validate_pine_def jget_def split: if_splits)
  from price_action_allows [OF this] pine_allows_parts [OF assms] show ?thesis by blast
qed

lemma any_blocks_iff: "any_blocks fs = Inr b \<Longrightarrow> blocking_fixes fs = Inr xs \<Longrightarrow> b \<longleftrightarrow> xs \<noteq> []"
  by (induction fs arbitrary: xs)
    (auto simp: try_sum_def map_sum_def split: sum.splits if_splits)

text \<open>
  C39: the condition of the repair loop and the production gate are the same test, written twice: whenever
  both return, the gate passes exactly when no repair is required and no policy finding blocks.
\<close>

theorem production_gate_agrees:
  assumes "requires_repair validation review = Inr b"
    and "production_gate validation review found n = Inr gate"
  shows "jget gate ''status'' = JStr STATUS_PASS \<longleftrightarrow> \<not> b \<and> blocking_findings found = []"
proof -
  from assms(2) obtain fxs xs where parts: "required_fixes_of review = Inr fxs" "blocking_fixes fxs = Inr xs"
    and gate: "jget gate ''status'' = JStr (if validation_allows_artifact validation
      \<and> jget (object_or_empty review) ''verdict'' \<noteq> JStr STATUS_FAIL \<and> xs = [] \<and> blocking_findings found = []
      then STATUS_PASS else STATUS_FAIL)"
    by (auto simp: production_gate_def try_sum_def Let_def jget_def split: sum.splits)
  from parts(1) obtain d where d: "review = JObj d"
    by (cases review) (auto simp: required_fixes_of_def review_get_def try_sum_def)
  from assms(1) have "b \<longleftrightarrow> \<not> (validation_allows_artifact validation \<and> jget d ''verdict'' \<noteq> JStr STATUS_FAIL \<and> xs = [])"
    using any_blocks_iff [OF _ parts(2)] parts(1)
    by (auto simp: requires_repair_def try_sum_def d review_get_def get_or_def jget_def object_or_empty_def
        split: if_splits sum.splits option.splits)
  with gate show ?thesis by (simp add: d object_or_empty_def STATUS_PASS_def STATUS_FAIL_def)
qed

lemma pine_failures_named:
  assumes "validate_pine code spec = Inr v" "\<not> validation_allows_artifact v"
  shows "\<exists>f \<in> set (validation_failures v). json_truthy (jget f ''name'')"
proof -
  from assms(1) have checks: "jget v ''checks'' = JList (map check_json (pine_checks code spec))"
    by (auto simp: validate_pine_def jget_def split: if_splits)
  from assms(2) obtain c where c: "c \<in> set (pine_checks code spec)" "\<not> excused c"
    unfolding pine_allows [OF assms(1)] by (auto simp: list_all_iff STATUS_PASS_def STATUS_SKIPPED_def)
  then have "check_failure (object_or_empty (check_json c)) =
      [[(''name'', JStr (check_name c)), (''status'', JStr (check_status c)), (''details'', JStr (check_details c))]]"
    by (simp add: check_failure_def check_json_def object_or_empty_def jget_def)
  moreover have "check_name c \<noteq> []"
    using c(1) by (auto simp: pine_checks_def validation_check_def declaration_check_def risk_check_def split: if_splits)
  moreover have "set (validation_failures v) =
      (\<Union>c \<in> set (pine_checks code spec). set (check_failure (object_or_empty (check_json c))))"
    by (simp add: validation_failures_def checks_of_def checks)
  ultimately show ?thesis using c(1) by (force simp: jget_def)
qed

text \<open>
  C40: a review that passes, or that asks for nothing, does not survive a failed validation: after the
  alignment its verdict is not pass and it has fixes, those of the failed checks when it had none.
\<close>

theorem aligned_review_not_passing:
  assumes "validate_pine code spec = Inr v" "\<not> validation_allows_artifact v"
    and "align_review_with_validation repr_of review v stage i = Inr (aligned, ns)"
  shows "\<exists>d fxs. aligned = JObj d \<and> jget d ''verdict'' \<noteq> JStr STATUS_PASS
    \<and> py_iter (json_or (jget d ''required_fixes'') (JList [])) = Inr fxs \<and> fxs \<noteq> []"
proof -
  obtain f where f: "f \<in> set (validation_failures v)" "json_truthy (jget f ''name'')"
    using pine_failures_named [OF assms(1,2)] by blast
  then have some: "validation_failures v \<noteq> []" by auto
  from assms(3) some obtain d where d: "review = JObj d"
    by (cases review) (auto simp: align_review_with_validation_def review_get_def try_sum_def)
  have "get_or d ''required_fixes'' JNull = jget d ''required_fixes''"
    by (simp add: get_or_def jget_def)
  with assms(3) some obtain fxs where fxs: "py_iter (json_or (jget d ''required_fixes'') (JList [])) = Inr fxs"
    by (auto simp: align_review_with_validation_def review_get_def try_sum_def d map_sum_def split: sum.splits)
  show ?thesis
  proof (cases "jget d ''verdict'' \<noteq> JStr STATUS_PASS \<and> fxs \<noteq> []")
    case True
    with assms(3) some fxs have "aligned = JObj d"
      by (simp add: align_review_with_validation_def review_get_def try_sum_def d get_or_def jget_def object_or_empty_def)
    with True fxs show ?thesis by auto
  next
    case False
    define new where "new = (if fxs \<noteq> [] then fxs
      else map (fix_text repr_of) (filter (\<lambda>f. json_truthy (jget f ''name'')) (validation_failures v)))"
    have "new \<noteq> []" using f by (auto simp: new_def filter_empty_conv)
    moreover from assms(3) some fxs False have "\<exists>d'. aligned = JObj d' \<and> jget d' ''verdict'' = JStr ''needs_fix''
        \<and> jget d' ''required_fixes'' = JList new"
      by (auto simp: align_review_with_validation_def review_get_def try_sum_def d get_or_def jget_def object_or_empty_def
          Let_def new_def)
    ultimately show ?thesis by (auto simp: STATUS_PASS_def json_or_def py_iter_def)
  qed
qed

section \<open>A concrete script\<close>

definition sample_script :: string where
  "sample_script = ''//@version=6 indicator(1)''"

definition indicator_spec :: "json dict" where
  "indicator_spec = [(''script_type'', JStr ''indicator'')]"

definition strategy_spec_stub :: "json dict" where
  "strategy_spec_stub = [(''script_type'', JStr ''strategy'')]"

lemma sample_script_validated: "\<exists>v. validate_pine sample_script indicator_spec = Inr v"
  by (simp add: validate_pine_def indicator_spec_def)

theorem pine_allowed_iff_witness:
  "\<exists>v. validate_pine sample_script indicator_spec = Inr v
    \<and> validation_allows_artifact (apply_price_action_validation ''a strategy'' sample_script v)"
proof -
  obtain v where v: "validate_pine sample_script indicator_spec = Inr v"
    using sample_script_validated by blast
  have "versioned sample_script \<and> declares (jget indicator_spec ''script_type'') sample_script
      \<and> repaint_findings sample_script = [] \<and> jget indicator_spec ''script_type'' \<noteq> JStr ''strategy''"
    by code_simp
  moreover have "price_action_forbidden_indicator_findings ''a strategy'' sample_script = []" by code_simp
  ultimately show ?thesis using pine_allowed_iff [OF v, of "''a strategy''"] v by blast
qed

definition passing_review :: json where
  "passing_review = JObj [(''verdict'', JStr STATUS_PASS), (''required_fixes'', JList [])]"

theorem production_gate_agrees_witness:
  "\<exists>gate. production_gate [(''status'', JStr STATUS_PASS)] passing_review [] 0 = Inr gate \<and> jget gate ''status'' = JStr STATUS_PASS"
proof -
  have b: "requires_repair [(''status'', JStr STATUS_PASS)] passing_review = Inr False" by code_simp
  obtain gate where "production_gate [(''status'', JStr STATUS_PASS)] passing_review [] 0 = Inr gate"
    by (simp add: production_gate_def passing_review_def required_fixes_of_def review_get_def get_or_def py_iter_def try_sum_def
        Let_def)
  with production_gate_agrees [OF b this] show ?thesis by (simp add: blocking_findings_def)
qed

theorem aligned_review_not_passing_witness:
  "\<exists>v aligned ns d. validate_pine sample_script strategy_spec_stub = Inr v
    \<and> align_review_with_validation sample_repr passing_review v STAGE_BALANCED_REVIEW JNull = Inr (aligned, ns)
    \<and> aligned = JObj d \<and> jget d ''verdict'' \<noteq> JStr STATUS_PASS"
proof -
  obtain v where v: "validate_pine sample_script strategy_spec_stub = Inr v"
    by (simp add: validate_pine_def strategy_spec_stub_def)
  have "\<not> declares (jget strategy_spec_stub ''script_type'') sample_script" by code_simp
  then have no: "\<not> validation_allows_artifact v" using pine_allows_parts [OF v] by blast
  obtain aligned ns where a:
      "align_review_with_validation sample_repr passing_review v STAGE_BALANCED_REVIEW JNull = Inr (aligned, ns)"
    by (cases "validation_failures v = []")
      (auto simp: align_review_with_validation_def passing_review_def review_get_def get_or_def py_iter_def try_sum_def
        json_or_def Let_def)
  from aligned_review_not_passing [OF v no a] v a show ?thesis by blast
qed

end
