(* ===== verification/Spec2Isabelle.thy ===== *)
theory Spec2Isabelle
  imports System_Claims Store_Claims Task_Claims Nautilus_Claims Streams Policy_Claims Security_Claims
    Context_Claims Workflow_Claims Tool_Claims Agent_Claims Worker_Claims
    Collector_Claims Routing_Claims Live_Claims Live_Spec_Claims Live_Pine_Claims
begin

text \<open>
  A model of the server core of strategy-codebot: the repository that keeps conversations, runs,
  jobs, workflow tasks, artifacts, trading runtimes and bot proposals for the tenants of the
  service (\<open>src/src/strategy_codebot/server/repository.py\<close>), with the small modules it is built on,
  of the modules that stand between a request and a model call: the policy, the rate limits and
  idempotency keys, the context a model is given, and the registry that checks the workflow state
  and the tasks a model proposes and the answers of the user; and of the core of the offline workflow
  that turns a prompt into a strategy (\<open>live.py\<close>): its model calls, the checks of what a model
  answers, the static validation of Pine code and the gates.

  \<^bold>\<open>The program.\<close>  A FastAPI application (\<open>server/app.py\<close>) turns requests into calls of the
  interface \<open>ConversationRepository\<close>; \<open>server/auth.py\<close> admits a request and gives it an identity (a
  user in a workspace).  Background workers claim run jobs and lease trading runtimes through the
  same interface.  \<open>InMemoryConversationRepository\<close> implements it over dictionaries under one lock,
  so that a call is one atomic step; it is what is modelled here, method by method.

  \<^bold>\<open>Conventions.\<close>  An operation is a function with the source's name.  It takes first what it
  reads from outside (the clock and the UUIDs it draws; a function from numbers to UUIDs when it
  draws several), then the caller's identity, its arguments, and the repository; it returns its
  result and, when it writes, the new repository.  A method that answers \<open>None\<close> when the resource is
  missing or not the caller's returns an option; a method that can raise returns a sum with
  \<open>py_error\<close>.  A Python dictionary is an association list in insertion order, a string a list of
  (8-bit) characters, an integer an \<open>int\<close>, a time a number of microseconds, JSON the datatype
  \<open>json\<close>, and a cost a rational.  Freshness of a drawn UUID is a hypothesis (\<open>unused_conv\<close> and the
  like; \<open>fresh_env\<close> for all tables), since \<open>uuid4\<close> is random.

  \<^bold>\<open>Theories.\<close>
  \<^item> \<open>Prelude\<close>: dictionaries, JSON, Python's sorting, slicing and string functions.
  \<^item> \<open>Auth\<close> (\<open>auth.py\<close>), \<open>Run_Modes\<close> (\<open>run_modes.py\<close>, the status and artifact-kind modules),
    \<open>Records\<close> (the dataclasses and the state of the repository).
  \<^item> Contracts as locales: \<open>owned_resource\<close> in \<open>Auth\<close> (a lookup by id checks ownership),
    \<open>numbered_log\<close> in \<open>Event_Log\<close> (a log that is only appended to, numbered 1, 2, 3, \<open>\<dots>\<close>),
    \<open>keyset_pages\<close> in \<open>Paging\<close>, \<open>run_child\<close> in \<open>Run_Children\<close>, \<open>lease\<close> and \<open>fenced_lease\<close> in
    \<open>Leases\<close>; each is interpreted on the model's operations where they are defined.
  \<^item> \<open>Conversations\<close>, \<open>Runs\<close>, \<open>Jobs\<close>, \<open>Artifacts\<close>, \<open>Run_Children\<close>, \<open>Snapshot\<close>, \<open>Tasks\<close> with
    \<open>Task_Laws\<close> and \<open>Task_Sync\<close>, \<open>Nautilus\<close> with \<open>Nautilus_Laws\<close> and \<open>Nautilus_Events\<close>, \<open>Bots\<close>:
    the operations of one group of tables, its invariant, that every operation keeps it, its
    functional laws, and that an operation leaves the rows of other tenants alone.
  \<^item> \<open>Streams\<close>: market-data subscriptions and the names of their streams (\<open>nautilus_streams.py\<close>).
  \<^item> \<open>Calls\<close>: the interface as datatypes of calls and answers, and the in-memory repository as an
    interpreter of them.  \<open>Repository\<close> and \<open>Isolation\<close>: the invariant of the whole repository, which
    tables a call touches, runs of the repository as an inductive relation over the calls of tenants
    and workers.  \<open>Reads\<close>: what a tenant reads depends only on the tenant's rows.
  \<^item> \<open>Policy_Engine\<close> and \<open>Policy_Rules\<close> (\<open>policy_engine.py\<close>: rules over the sentences of a payload,
    and their loading), \<open>Server_Policy\<close> (\<open>server/policy.py\<close>); a compiled pattern is the function from
    a sentence to its matches.
  \<^item> \<open>Security\<close> (\<open>security_controls.py\<close>: rate limits, budgets, idempotent requests) over a Redis
    client that is an argument; \<open>Context\<close> (\<open>conversation_context.py\<close>: which messages a model call
    gets, and when and what to compact) over the repository.
  \<^item> \<open>Workflow_Contract\<close> (the registry constant), \<open>Workflow_Tasks\<close> (task payloads), \<open>Workflow_Answers\<close>
    (proposed and stored tasks, validation of answers; both of \<open>workflow_tasks.py\<close>) and
    \<open>Workflow_Registry\<close> (\<open>workflow_registry.py\<close>).
  \<^item> \<open>Tool_Runtime\<close> (\<open>tool_runtime.py\<close>: the traced tool harness and the check of the tool registry, as
    computations that may raise) and \<open>Agent_Loop\<close> (\<open>server/agent_loop.py\<close>: the bounded loop of model
    requests and tool calls), with their triples and invariants in \<open>Tool_Laws\<close>, \<open>Agent_Laws\<close> and
    \<open>Agent_Runs\<close>.
  \<^item> \<open>Paper_Worker\<close> (\<open>server/nautilus_paper_worker.py\<close>: the worker that stops, claims and serves
    paper-trading runtimes, beside others that use the same repository), with \<open>Worker_Laws\<close> (the locale
    \<open>worker_frame\<close>: what a pass keeps when its calls of the repository do) and \<open>Worker_Runs\<close>.
  \<^item> \<open>Collector\<close> (\<open>server/market_data_collector.py\<close> and the messages of \<open>nautilus_streams.py\<close>: what the
    workers read is published here), with \<open>Collector_Laws\<close> and \<open>Collector_Runs\<close>, where the locales
    \<open>exchange_feed\<close> and \<open>polled_stream\<close> state what the exchange and the store promise.
  \<^item> \<open>Json_Text\<close>: reading JSON as \<open>json.loads\<close> does, and that it reads back what \<open>canonical_json\<close> writes;
    it is what a consumer of the streams reads a field with.
  \<^item> \<open>Routing\<close> (\<open>server/model_routing.py\<close>: the routes of a tier and a stage, and the stream of events that
    tries them in turn).
  \<^item> \<open>Live_Routes\<close> (\<open>live.py\<close>: the models and gateways of a stage and the health of a route),
    \<open>Live_Calls\<close> (\<open>_call_model_with_fallbacks\<close>, from the request to the answer, with everything it
    records) and \<open>Live_Laws\<close> (the locale \<open>call_frame\<close>: what every step of a call keeps, interpreted for
    the health table and for the records that are only appended to); \<open>Live_Spec\<close> (the payload of a stage
    and its specification), \<open>Live_Pine\<close> (\<open>validate_pine\<close> of \<open>pine.py\<close> and the rewriting of generated
    code) and \<open>Live_Gates\<close> (reviews, repairs and gates; \<open>evaluator_optimizer.py\<close>).
  \<^item> \<open>System_Claims\<close>, \<open>Store_Claims\<close>, \<open>Task_Claims\<close>, \<open>Nautilus_Claims\<close>, \<open>Streams\<close>,
    \<open>Policy_Claims\<close>, \<open>Security_Claims\<close>, \<open>Context_Claims\<close>, \<open>Workflow_Claims\<close>, \<open>Tool_Claims\<close>,
    \<open>Agent_Claims\<close>, \<open>Worker_Claims\<close>, \<open>Collector_Claims\<close>,
    \<open>Routing_Claims\<close>, \<open>Live_Claims\<close>, \<open>Live_Spec_Claims\<close>, \<open>Live_Pine_Claims\<close>: the properties,
    each with a witness on a concrete repository.

  \<^bold>\<open>What is shown.\<close>  Every reachable state is well formed.  Tenants are isolated: calls of others
  change nothing of what the repository holds for a tenant, nor any answer it gives the tenant.
  Leases of runtimes are exclusive and fenced by a generation; the kill switch sticks.  Task
  synchronisation is idempotent (for payloads that name each template once), leaves resolved tasks alone and closes the tasks of completed
  steps.  The job queue hands out the oldest job that the limits allow, never one under a lease,
  and at most as often as it may be attempted.  Event streams resume exactly, and artifact pages
  can be walked to the end.  The three entry points of the policy agree, more rules only restrict,
  and rules that load are usable.  Rate limits let exactly the first requests of a window through;
  a request with an idempotency key is carried out once.  A model context is the longest end of the
  recent messages that fits the budget, and compaction makes progress.  A workflow state or a task is
  well formed whatever a model proposes, a bot can be started only at the last step, and an answer
  that is accepted completes its task.  A scout run never raises, executes only permitted tools, makes
  no tool call and no request beyond its budgets, goes on only while its tokens and its time are within
  them, and leaves a numbered trace that has the schema; a call of the harness is
  recorded with its outcome, and the registry check passes exactly for usable registries.  Whatever the
  streams and the engine answer, passes of paper workers are sequences of the worker steps that the kill
  switch survives, and a runtime that a worker holds is stopped by its next pass.  The collector publishes
  the closed bars of an exchange without gaps and once, and a message is read back as it was unless a text
  of it is JSON of something else.  A routed model call is the stream of the first
  route that does not fail quietly.  A model call of the offline workflow answers only
  with a payload that is valid, in time and within the policy, makes a bounded number of requests for each
  model, leaves routes in cooldown alone while healthy ones are preferred, and keeps their health consistent.  A specification is accepted only with a
  bounded risk, and accepting it again changes nothing; code passes the static validation exactly when
  its four checks and the rules of the prompt hold; a review cannot pass what the validation refuses, and
  the production gate agrees with the condition of the repair loop.  Six properties record
  defects: after a heartbeat cleanup the in-memory repository reuses event numbers, a rule looks
  only at the first match in a sentence, two tenants can share an idempotency key, a runtime wanted
  stopping that no live worker holds is stopped by no pass and keeps others from it, a collector whose
  limit is one bar gets none after the first poll, and a sizing for small capital is rewritten as one for
  all capital; so does
  \<open>invalid_contract_also_passes\<close> for the registry check, and \<open>sync_named_twice\<close> for a template that is
  named twice.

  \<^bold>\<open>Bounds.\<close>  The client's walk over pages has fuel; one more than the number of artifacts is
  enough.  The JSON scanner has fuel, twice the length of the text and one; more gives the same
  (\<open>scan_enough\<close>).  All other functions are total.

  \<^bold>\<open>Not modelled.\<close>  The SQL implementation of the interface, the HTTP routes, the prompts and tool loops of the server's model calls,
  what the tools do, the engine that executes bars, and of the offline pipelines the prompts, the
  knowledge base, the evaluation and the rendering: they
  are glue around third-party libraries and models.  Of the modelled parts: locking (a call is a
  step), the text form of a page cursor (a cursor is the decoded pair), the clients of Redis
  and of the exchanges, the engine of regular expressions, the YAML parser and, but for the fields of stream messages, the JSON parser, the digest
  and the expiry of Redis keys (all arguments of the model), the prompt with which a workflow resumes
  (its Vietnamese text), the copy of
  an attribution event that a model call writes to the database, and case mapping and stripping beyond
  8-bit characters.
\<close>

end
